(* ===== verification/Prelude.thy ===== *)
theory Prelude
  imports
    Complex_Main
    "HOL-Library.AList"
    "HOL-Library.List_Lexorder"
    "HOL-Library.Char_ord"
    "HOL-Library.Product_Lexorder"
begin

section \<open>Prelude: Python values, dictionaries, ordering and effectful programs\<close>

text \<open>
  What every component of the development shares:
  \<^item> insertion-ordered dictionaries (\<open>('k, 'v) dict\<close>), stable sorting and slicing as Python
    does them, decimal printing, JSON values with Python's \<open>==\<close>;
  \<^item> effectful programs \<open>('s, 'e, 'a) prog\<close>: a coroutine body maps a state to an error or a
    value and the state it leaves behind (a raise keeps the writes made before it);
  \<^item> the locale \<open>evolution\<close>: if every primitive moves the state along a reflexive and
    transitive relation, so does every program built from them.
  The collections \<open>dict_simps\<close> and \<open>evolves_intros\<close> carry the component proofs.
\<close>

named_theorems dict_simps \<open>lookup, membership and update of dictionaries\<close>
named_theorems evolves_intros \<open>compositional rules for \<open>evolves\<close>\<close>

subsection \<open>Dictionaries\<close>

text \<open>
  A Python \<open>dict\<close> keeps insertion order; assigning to a present key keeps its place and a
  new key goes to the end. That is \<open>AList.update\<close> on an association list with distinct keys.
\<close>

type_synonym ('k, 'v) dict = "('k \<times> 'v) list"

abbreviation dict_get :: "('k, 'v) dict \<Rightarrow> 'k \<Rightarrow> 'v option" where
  "dict_get d k \<equiv> map_of d k"

abbreviation dict_has :: "('k, 'v) dict \<Rightarrow> 'k \<Rightarrow> bool" where
  "dict_has d k \<equiv> map_of d k \<noteq> None"

abbreviation dict_set :: "'k \<Rightarrow> 'v \<Rightarrow> ('k, 'v) dict \<Rightarrow> ('k, 'v) dict" where
  "dict_set \<equiv> AList.update"

abbreviation dict_pop :: "'k \<Rightarrow> ('k, 'v) dict \<Rightarrow> ('k, 'v) dict" where
  "dict_pop \<equiv> AList.delete"

abbreviation dict_values :: "('k, 'v) dict \<Rightarrow> 'v list" where
  "dict_values d \<equiv> map snd d"

abbreviation dict_wf :: "('k, 'v) dict \<Rightarrow> bool" where
  "dict_wf d \<equiv> distinct (map fst d)"

lemma dict_get_set [simp, dict_simps]:
  "dict_get (dict_set k v d) k' = (if k' = k then Some v else dict_get d k')"
  by (simp add: update_conv')

lemma dict_get_pop [simp, dict_simps]:
  "dict_get (dict_pop k d) k' = (if k' = k then None else dict_get d k')"
  by (simp add: delete_conv')

lemma dict_wf_set [simp, intro]: "dict_wf d \<Longrightarrow> dict_wf (dict_set k v d)"
  by (rule distinct_update)

lemma dict_wf_pop [simp, intro]: "dict_wf d \<Longrightarrow> dict_wf (dict_pop k d)"
  by (rule distinct_delete)

lemma dict_mem_iff: "dict_wf d \<Longrightarrow> (k, v) \<in> set d \<longleftrightarrow> dict_get d k = Some v"
  by simp

declare map_of_eq_Some_iff [simp del] Some_eq_map_of_iff [simp del]

lemma dict_set_fresh: "dict_get d k = None \<Longrightarrow> dict_set k v d = d @ [(k, v)]"
  by (induction d) (auto split: if_splits)

lemma dict_set_mem:
  "dict_wf d \<Longrightarrow> p \<in> set (dict_set k v d) \<longleftrightarrow> p = (k, v) \<or> (p \<in> set d \<and> fst p \<noteq> k)"
  by (induction d) (auto simp: image_iff)

lemma dict_value_cases:
  assumes "dict_wf d" and "v \<in> set (dict_values d)"
  obtains k where "dict_get d k = Some v"
proof -
  from assms(2) obtain k where "(k, v) \<in> set d" by auto
  with assms(1) have "dict_get d k = Some v" by (rule map_of_is_SomeI)
  then show thesis by (rule that)
qed

lemma dict_get_value: "dict_get d k = Some v \<Longrightarrow> v \<in> set (dict_values d)"
  by (force dest: map_of_SomeD)

text \<open>How a sum over the values changes when one key is written.\<close>

lemma sum_values_dict_set:
  fixes f :: "'v \<Rightarrow> int"
  assumes "dict_wf d"
  shows "sum_list (map f (dict_values (dict_set k v d))) =
    sum_list (map f (dict_values d)) - (case dict_get d k of None \<Rightarrow> 0 | Some w \<Rightarrow> f w) + f v"
  using assms
proof (induction d)
  case (Cons p d)
  obtain k' w where p: "p = (k', w)" by (cases p)
  with Cons.prems have "dict_get d k' = None" by (simp add: map_of_eq_None_iff)
  with Cons p show ?case by (cases "k = k'") auto
qed simp

lemma sum_list_nonneg_mem:
  fixes f :: "'v \<Rightarrow> int"
  assumes "\<And>x. x \<in> set xs \<Longrightarrow> 0 \<le> f x" and "x \<in> set xs"
  shows "f x \<le> sum_list (map f xs)"
proof -
  have "sum_list (map f xs) = sum_list (map f (remove1 x xs)) + f x"
    using sum_list_map_remove1 [OF assms(2), of f] by simp
  moreover have "0 \<le> sum_list (map f (remove1 x xs))"
    using assms(1) by (intro sum_list_nonneg) (auto dest: notin_set_remove1)
  ultimately show ?thesis by simp
qed

subsection \<open>Python list operations\<close>

text \<open>
  \<open>xs[:n]\<close> counts from the end when \<open>n\<close> is negative. \<open>sorted\<close> is stable, also with
  \<open>reverse=True\<close>. \<open>max(xs, key=f)\<close> returns the first element whose key is maximal.
\<close>

definition py_prefix :: "int \<Rightarrow> 'a list \<Rightarrow> 'a list" where
  "py_prefix n xs = (if 0 \<le> n then take (nat n) xs else take (length xs - nat (- n)) xs)"

definition py_sorted :: "('a \<Rightarrow> 'b::linorder) \<Rightarrow> 'a list \<Rightarrow> 'a list" where
  "py_sorted f xs = sort_key f xs"

definition py_sorted_desc :: "('a \<Rightarrow> 'b::linorder) \<Rightarrow> 'a list \<Rightarrow> 'a list" where
  "py_sorted_desc f xs = rev (sort_key f (rev xs))"

fun py_max_from :: "('a \<Rightarrow> 'b::linorder) \<Rightarrow> 'a \<Rightarrow> 'a list \<Rightarrow> 'a" where
  "py_max_from f m [] = m"
| "py_max_from f m (x # xs) = py_max_from f (if f m < f x then x else m) xs"

fun py_max :: "('a \<Rightarrow> 'b::linorder) \<Rightarrow> 'a list \<Rightarrow> 'a option" where
  "py_max f [] = None"
| "py_max f (x # xs) = Some (py_max_from f x xs)"

text \<open>\<open>next((x for x in xs if p(x)), None)\<close> is \<open>List.find\<close>; \<open>dict.fromkeys\<close> keeps first occurrences.\<close>

fun dedup_keep_first :: "'a list \<Rightarrow> 'a list" where
  "dedup_keep_first [] = []"
| "dedup_keep_first (x # xs) = x # filter (\<lambda>y. y \<noteq> x) (dedup_keep_first xs)"

lemma set_dedup [simp]: "set (dedup_keep_first xs) = set xs"
  by (induction xs) auto

lemma distinct_dedup [simp]: "distinct (dedup_keep_first xs)"
  by (induction xs) auto

lemma set_py_prefix: "set (py_prefix n xs) \<subseteq> set xs"
  by (auto simp: py_prefix_def dest: in_set_takeD)

lemma length_py_prefix: "0 \<le> n \<Longrightarrow> length (py_prefix n xs) = min (length xs) (nat n)"
  by (simp add: py_prefix_def)

lemma set_py_sorted [simp]: "set (py_sorted f xs) = set xs"
  by (simp add: py_sorted_def)

lemma set_py_sorted_desc [simp]: "set (py_sorted_desc f xs) = set xs"
  by (simp add: py_sorted_desc_def)

lemma sorted_py_sorted: "sorted (map f (py_sorted f xs))"
  by (simp add: py_sorted_def)

lemma sorted_py_sorted_desc: "sorted (rev (map f (py_sorted_desc f xs)))"
  by (simp add: py_sorted_desc_def rev_map)

lemma py_max_from_mem: "py_max_from f m xs = m \<or> py_max_from f m xs \<in> set xs"
proof (induction xs arbitrary: m)
  case (Cons x xs)
  then show ?case using Cons.IH [of "if f m < f x then x else m"] by auto
qed simp

lemma py_max_from_ge: "x \<in> insert m (set xs) \<Longrightarrow> f x \<le> f (py_max_from f m xs)"
proof (induction xs arbitrary: m x)
  case Nil
  then show ?case by simp
next
  case (Cons y ys)
  let ?m = "if f m < f y then y else m"
  have m: "f m \<le> f ?m" "f y \<le> f ?m" by auto
  from Cons.IH [of ?m ?m] have top: "f ?m \<le> f (py_max_from f ?m ys)" by blast
  from Cons.prems consider "x = m" | "x = y" | "x \<in> set ys" by auto
  then show ?case
  proof cases
    case 3
    then show ?thesis using Cons.IH [of x ?m] by simp
  qed (use m top in \<open>auto intro: order_trans\<close>)
qed

lemma py_max_None [simp]: "py_max f xs = None \<longleftrightarrow> xs = []"
  by (cases xs) auto

lemma py_max_mem: "py_max f xs = Some m \<Longrightarrow> m \<in> set xs"
  using py_max_from_mem by (cases xs) force+

lemma py_max_ge: "py_max f xs = Some m \<Longrightarrow> x \<in> set xs \<Longrightarrow> f x \<le> f m"
  by (cases xs) (auto intro: py_max_from_ge)

end
