(* ===== verification/Python_Values.thy ===== *)
theory Python_Values
  imports Prelude
begin

section \<open>Python values: decimal printing and JSON data\<close>

text \<open>
  \<open>dict[str, Any]\<close> payloads are JSON data. A JSON object is a dictionary, so its entries
  are an association list; Python's \<open>==\<close> ignores the order of the entries and compares
  numbers (and booleans, which are numbers) by value: that is \<open>json_eq\<close>. Finite floats are
  rationals. Integers inside f-strings are printed with \<open>str_of_int\<close>.
\<close>

subsection \<open>Decimal printing\<close>

definition digit_char :: "nat \<Rightarrow> char" where
  "digit_char d = char_of (48 + d)"

fun str_of_nat :: "nat \<Rightarrow> string" where
  "str_of_nat n =
     (if n < 10 then [digit_char n] else str_of_nat (n div 10) @ [digit_char (n mod 10)])"

declare str_of_nat.simps [simp del]

definition str_of_int :: "int \<Rightarrow> string" where
  "str_of_int i = (if i < 0 then CHR ''-'' # str_of_nat (nat (- i)) else str_of_nat (nat i))"

subsection \<open>JSON data and Python equality\<close>

datatype json =
    JNull
  | JBool bool
  | JInt int
  | JFloat rat
  | JStr string
  | JList "json list"
  | JObj "(string \<times> json) list"

type_synonym json_obj = "(string, json) dict"

fun json_number :: "json \<Rightarrow> rat option" where
  "json_number (JBool b) = Some (if b then 1 else 0)"
| "json_number (JInt i) = Some (of_int i)"
| "json_number (JFloat q) = Some q"
| "json_number _ = None"

function (sequential) json_eq :: "json \<Rightarrow> json \<Rightarrow> bool" where
  "json_eq JNull w = (w = JNull)"
| "json_eq (JStr s) w = (w = JStr s)"
| "json_eq (JList xs) w =
     (case w of
        JList ys \<Rightarrow> length xs = length ys \<and> (\<forall>(x, y) \<in> set (zip xs ys). json_eq x y)
      | _ \<Rightarrow> False)"
| "json_eq (JObj xs) w =
     (case w of
        JObj ys \<Rightarrow> length xs = length ys \<and>
          (\<forall>(k, x) \<in> set xs. case dict_get ys k of None \<Rightarrow> False | Some y \<Rightarrow> json_eq x y)
      | _ \<Rightarrow> False)"
| "json_eq v w =
     (case (json_number v, json_number w) of (Some a, Some b) \<Rightarrow> a = b | _ \<Rightarrow> False)"
  by pat_completeness auto

lemma size_json_list_mem: "x \<in> set xs \<Longrightarrow> size x < Suc (size_list size xs)"
  by (induction xs) auto

lemma size_json_obj_mem:
  "(k, x) \<in> set xs \<Longrightarrow> size x < Suc (size_list (size_prod (\<lambda>_. 0) size) xs)"
  by (induction xs) auto

termination json_eq
  by (relation "measure (size \<circ> fst)")
     (auto dest!: set_zip_leftD intro: size_json_list_mem size_json_obj_mem)

fun json_wf :: "json \<Rightarrow> bool" where
  "json_wf (JList xs) = (\<forall>x \<in> set xs. json_wf x)"
| "json_wf (JObj xs) = (dict_wf xs \<and> (\<forall>x \<in> snd ` set xs. json_wf x))"
| "json_wf _ = True"

lemma json_eq_refl: "json_wf v \<Longrightarrow> json_eq v v"
proof (induction v)
  case (JList xs)
  then show ?case by (auto simp: zip_same_conv_map)
next
  case (JObj xs)
  then have "dict_get xs k = Some x" if "(k, x) \<in> set xs" for k x
    using that by (simp add: map_of_is_SomeI)
  with JObj show ?case by (force split: option.splits)
qed simp_all

definition json_obj_eq :: "json_obj \<Rightarrow> json_obj \<Rightarrow> bool" where
  "json_obj_eq a b = json_eq (JObj a) (JObj b)"

definition json_obj_wf :: "json_obj \<Rightarrow> bool" where
  "json_obj_wf a = json_wf (JObj a)"

lemma json_obj_eq_refl: "json_obj_wf a \<Longrightarrow> json_obj_eq a a"
  unfolding json_obj_eq_def json_obj_wf_def by (rule json_eq_refl)

text \<open>\<open>d.get(k, default)\<close> and the truth value of an optional string (\<open>x or y\<close>).\<close>

definition dict_get_or :: "('k, 'v) dict \<Rightarrow> 'k \<Rightarrow> 'v \<Rightarrow> 'v" where
  "dict_get_or d k v = (case dict_get d k of None \<Rightarrow> v | Some x \<Rightarrow> x)"

definition str_or :: "string option \<Rightarrow> string \<Rightarrow> string" where
  "str_or x y = (case x of None \<Rightarrow> y | Some s \<Rightarrow> if s = [] then y else s)"

lemma str_or_None [simp]: "str_or None y = y"
  by (simp add: str_or_def)

end
