(* ===== verification/Programs.thy ===== *)
theory Programs
  imports Python_Values
begin

section \<open>Effectful programs\<close>

text \<open>
  The body of a coroutine is a function from the state it finds to an outcome (\<open>Inl\<close> the
  exception it raises, \<open>Inr\<close> the value it returns) and the state it leaves. A raise keeps
  the writes made before it, as an exception does. The combinators are those of the source:
  sequencing, \<open>raise\<close>, \<open>try/except\<close>, a loop over a list and reading the state.
\<close>

type_synonym ('s, 'e, 'a) prog = "'s \<Rightarrow> ('e + 'a) \<times> 's"

definition ret :: "'a \<Rightarrow> ('s, 'e, 'a) prog" where
  "ret x = (\<lambda>s. (Inr x, s))"

definition raise :: "'e \<Rightarrow> ('s, 'e, 'a) prog" where
  "raise e = (\<lambda>s. (Inl e, s))"

definition bindP :: "('s, 'e, 'a) prog \<Rightarrow> ('a \<Rightarrow> ('s, 'e, 'b) prog) \<Rightarrow> ('s, 'e, 'b) prog" where
  "bindP m f = (\<lambda>s. case m s of (Inl e, t) \<Rightarrow> (Inl e, t) | (Inr x, t) \<Rightarrow> f x t)"

definition thenP :: "('s, 'e, 'a) prog \<Rightarrow> ('s, 'e, 'b) prog \<Rightarrow> ('s, 'e, 'b) prog" where
  "thenP m n = bindP m (\<lambda>_. n)"

definition catchP :: "('s, 'e, 'a) prog \<Rightarrow> ('e \<Rightarrow> ('s, 'e, 'a) prog) \<Rightarrow> ('s, 'e, 'a) prog" where
  "catchP m h = (\<lambda>s. case m s of (Inl e, t) \<Rightarrow> h e t | (Inr x, t) \<Rightarrow> (Inr x, t))"

text \<open>\<open>tryP\<close> hands the outcome to what follows: the general form of \<open>try ... except ... else\<close>.\<close>

definition tryP :: "('s, 'e, 'a) prog \<Rightarrow> ('s, 'e, 'e + 'a) prog" where
  "tryP m = (\<lambda>s. (Inr (fst (m s)), snd (m s)))"

definition whenP :: "bool \<Rightarrow> ('s, 'e, unit) prog \<Rightarrow> ('s, 'e, unit) prog" where
  "whenP b m = (if b then m else ret ())"

definition readP :: "('s \<Rightarrow> 'a) \<Rightarrow> ('s, 'e, 'a) prog" where
  "readP f = (\<lambda>s. (Inr (f s), s))"

definition modifyP :: "('s \<Rightarrow> 's) \<Rightarrow> ('s, 'e, unit) prog" where
  "modifyP f = (\<lambda>s. (Inr (), f s))"

text \<open>A loop whose body may keep an accumulator: \<open>for x in xs: acc = body(acc, x)\<close>.\<close>

fun foldP :: "('b \<Rightarrow> 'a \<Rightarrow> ('s, 'e, 'b) prog) \<Rightarrow> 'b \<Rightarrow> 'a list \<Rightarrow> ('s, 'e, 'b) prog" where
  "foldP f b [] = ret b"
| "foldP f b (x # xs) = bindP (f b x) (\<lambda>b'. foldP f b' xs)"

lemma ret_apply [simp]: "ret x s = (Inr x, s)"
  by (simp add: ret_def)

lemma raise_apply [simp]: "raise e s = (Inl e, s)"
  by (simp add: raise_def)

lemma readP_apply [simp]: "readP f s = (Inr (f s), s)"
  by (simp add: readP_def)

lemma modifyP_apply [simp]: "modifyP f s = (Inr (), f s)"
  by (simp add: modifyP_def)

lemma bindP_apply:
  "bindP m f s = (case m s of (Inl e, t) \<Rightarrow> (Inl e, t) | (Inr x, t) \<Rightarrow> f x t)"
  by (simp add: bindP_def)

lemma bindP_Inr [simp]: "m s = (Inr x, t) \<Longrightarrow> bindP m f s = f x t"
  by (simp add: bindP_def)

lemma bindP_Inl [simp]: "m s = (Inl e, t) \<Longrightarrow> bindP m f s = (Inl e, t)"
  by (simp add: bindP_def)

lemma bindP_ret [simp]: "bindP (ret x) f = f x"
  by (simp add: bindP_def fun_eq_iff)

lemma bindP_raise [simp]: "bindP (raise e) f = raise e"
  by (simp add: bindP_def fun_eq_iff)

lemma bindP_assoc: "bindP (bindP m f) g = bindP m (\<lambda>x. bindP (f x) g)"
  by (auto simp: bindP_def fun_eq_iff split: sum.splits prod.splits)

lemma thenP_apply:
  "thenP m n s = (case m s of (Inl e, t) \<Rightarrow> (Inl e, t) | (Inr x, t) \<Rightarrow> n t)"
  by (simp add: thenP_def bindP_def)

lemma bindP_InrE:
  assumes "bindP m f s = (Inr y, u)"
  obtains x t where "m s = (Inr x, t)" and "f x t = (Inr y, u)"
  using assms by (auto simp: bindP_def split: sum.splits prod.splits)

lemma catchP_apply:
  "catchP m h s = (case m s of (Inl e, t) \<Rightarrow> h e t | (Inr x, t) \<Rightarrow> (Inr x, t))"
  by (simp add: catchP_def)

lemma tryP_apply: "tryP m s = (Inr (fst (m s)), snd (m s))"
  by (simp add: tryP_def)

text \<open>For evaluation: the program runs once.\<close>

lemma tryP_once [code]: "tryP m = (\<lambda>s. case m s of (r, t) \<Rightarrow> (Inr r, t))"
  by (simp add: tryP_def case_prod_beta)

lemmas prog_apply = bindP_apply thenP_apply catchP_apply tryP_apply whenP_def

subsection \<open>Programs that move the state along a relation\<close>

text \<open>
  \<open>evolves R m\<close>: whatever \<open>m\<close> returns or raises, the state it leaves is related to the
  state it found. When \<open>R\<close> is reflexive and transitive the property composes; this is how a
  handler, whose awaits let any other handler run, is shown to respect a protocol that every
  single store operation respects.
\<close>

definition evolves :: "('s \<Rightarrow> 's \<Rightarrow> bool) \<Rightarrow> ('s, 'e, 'a) prog \<Rightarrow> bool" where
  "evolves R m \<longleftrightarrow> (\<forall>s. R s (snd (m s)))"

lemma evolvesI: "(\<And>s r t. m s = (r, t) \<Longrightarrow> R s t) \<Longrightarrow> evolves R m"
  unfolding evolves_def by (metis prod.collapse)

lemma evolvesD: "evolves R m \<Longrightarrow> m s = (r, t) \<Longrightarrow> R s t"
  unfolding evolves_def by (metis snd_conv)

locale evolution =
  fixes R :: "'s \<Rightarrow> 's \<Rightarrow> bool"
  assumes R_refl: "R s s"
    and R_trans: "R s t \<Longrightarrow> R t u \<Longrightarrow> R s u"
begin

lemma evolves_ret [evolves_intros]: "evolves R (ret x)"
  by (simp add: evolves_def R_refl)

lemma evolves_raise [evolves_intros]: "evolves R (raise e)"
  by (simp add: evolves_def R_refl)

lemma evolves_readP [evolves_intros]: "evolves R (readP f)"
  by (simp add: evolves_def R_refl)

lemma evolves_modifyP: "(\<And>s. R s (f s)) \<Longrightarrow> evolves R (modifyP f)"
  by (simp add: evolves_def)

lemma evolves_bindP [evolves_intros]:
  assumes m: "evolves R m" and f: "\<And>x. evolves R (f x)"
  shows "evolves R (bindP m f)"
proof (rule evolvesI)
  fix s r u
  assume run: "bindP m f s = (r, u)"
  obtain o1 t where mt: "m s = (o1, t)" by (cases "m s")
  from evolvesD [OF m mt] have st: "R s t" .
  show "R s u"
  proof (cases o1)
    case (Inl e)
    with run mt st show ?thesis by simp
  next
    case (Inr x)
    with run mt have "f x t = (r, u)" by simp
    then have "R t u" by (rule evolvesD [OF f])
    with st show ?thesis by (rule R_trans)
  qed
qed

lemma evolves_thenP [evolves_intros]:
  "evolves R m \<Longrightarrow> evolves R n \<Longrightarrow> evolves R (thenP m n)"
  unfolding thenP_def by (rule evolves_bindP)

lemma evolves_catchP [evolves_intros]:
  assumes m: "evolves R m" and h: "\<And>e. evolves R (h e)"
  shows "evolves R (catchP m h)"
proof (rule evolvesI)
  fix s r u
  assume run: "catchP m h s = (r, u)"
  obtain o1 t where mt: "m s = (o1, t)" by (cases "m s")
  from evolvesD [OF m mt] have st: "R s t" .
  show "R s u"
  proof (cases o1)
    case (Inl e)
    with run mt have "h e t = (r, u)" by (simp add: catchP_def)
    then have "R t u" by (rule evolvesD [OF h])
    with st show ?thesis by (rule R_trans)
  next
    case (Inr x)
    with run mt st show ?thesis by (simp add: catchP_def)
  qed
qed

lemma evolves_tryP [evolves_intros]: "evolves R m \<Longrightarrow> evolves R (tryP m)"
  by (simp add: evolves_def tryP_def)

lemma evolves_whenP [evolves_intros]: "evolves R m \<Longrightarrow> evolves R (whenP b m)"
  by (simp add: whenP_def evolves_ret)

lemma evolves_If [evolves_intros]:
  "evolves R m \<Longrightarrow> evolves R n \<Longrightarrow> evolves R (if b then m else n)"
  by simp

lemma evolves_Let [evolves_intros]: "(\<And>x. evolves R (f x)) \<Longrightarrow> evolves R (Let v f)"
  by (simp add: Let_def)

lemma evolves_case_option [evolves_intros]:
  "evolves R m \<Longrightarrow> (\<And>x. evolves R (f x)) \<Longrightarrow> evolves R (case v of None \<Rightarrow> m | Some x \<Rightarrow> f x)"
  by (cases v) auto

lemma evolves_foldP [evolves_intros]:
  assumes "\<And>b x. evolves R (f b x)"
  shows "evolves R (foldP f b xs)"
  using assms by (induction xs arbitrary: b) (auto intro: evolves_ret evolves_bindP)

end

end
