(* ===== verification/Core_Models.thy ===== *)
theory Core_Models
  imports Programs
begin

section \<open>Core domain models\<close>

text \<open>
  The data of \<^verbatim>\<open>src/src/harness/core/models.py\<close>, \<^verbatim>\<open>errors.py\<close>, \<^verbatim>\<open>events.py\<close> and the two value
  classes of \<^verbatim>\<open>ports.py\<close>. Enumerations are datatypes with a \<open>..._value\<close> function for the
  string of a \<^verbatim>\<open>StrEnum\<close> member; frozen models are records whose fields carry the model's
  name as a prefix. Times are integers (microseconds since the epoch, UTC); a
  \<^verbatim>\<open>timedelta\<close> is an integer too. Field constraints of pydantic that a constructor checks are
  the \<open>..._valid\<close> predicates; \<^verbatim>\<open>model_copy\<close> does not check them, so an update is a plain
  record update.
\<close>

type_synonym time = int

subsection \<open>Domain errors\<close>

text \<open>
  One constructor per exception class, with the message where the code builds one.
  \<open>QuotaExceeded\<close> carries the fields of \<^verbatim>\<open>QuotaExceededError\<close>. \<open>ValueError\<close>, \<open>KeyError\<close>,
  \<open>RuntimeError\<close> and \<open>TimeoutError\<close> are Python's own. \<open>NotReturned\<close> is not an exception: it is
  the outcome of a loop that has used up the number of rounds the model gives it, and no
  handler of the source catches it.
\<close>

datatype herror =
    InvalidRunTransitionError string
  | NotFoundError string
  | ConflictError string
  | PermissionDeniedError string
  | StorageCapacityError string
  | EventSequenceConflictError string
  | QuotaExceededError string int int int
  | ValueError string
  | KeyError
  | RuntimeError string
  | TimeoutError string
  | NotReturned
  | RuntimeTimeoutError
  | CancellationRequestedError
  | RuntimeResultError string "int option" string "string option"
  | OtherError string string bool

text \<open>\<^verbatim>\<open>except ConflictError\<close> also catches its subclasses.\<close>

fun is_conflict_error :: "herror \<Rightarrow> bool" where
  "is_conflict_error (ConflictError _) = True"
| "is_conflict_error (EventSequenceConflictError _) = True"
| "is_conflict_error (QuotaExceededError _ _ _ _) = True"
| "is_conflict_error _ = False"

fun is_not_found :: "herror \<Rightarrow> bool" where
  "is_not_found (NotFoundError _) = True"
| "is_not_found _ = False"

fun is_event_sequence_conflict :: "herror \<Rightarrow> bool" where
  "is_event_sequence_conflict (EventSequenceConflictError _) = True"
| "is_event_sequence_conflict _ = False"

text \<open>
  The name of the class, \<^verbatim>\<open>type(error).__name__\<close>, and the text of a conflict, \<^verbatim>\<open>str(error)\<close>. An
  \<open>OtherError\<close> is an exception of a class the model does not name, with its text, and whether it
  is one of the classes whose text the orchestrator puts into the event of a failed run.
\<close>

fun error_class :: "herror \<Rightarrow> string" where
  "error_class (InvalidRunTransitionError _) = ''InvalidRunTransitionError''"
| "error_class (NotFoundError _) = ''NotFoundError''"
| "error_class (ConflictError _) = ''ConflictError''"
| "error_class (PermissionDeniedError _) = ''PermissionDeniedError''"
| "error_class (StorageCapacityError _) = ''StorageCapacityError''"
| "error_class (EventSequenceConflictError _) = ''EventSequenceConflictError''"
| "error_class (QuotaExceededError _ _ _ _) = ''QuotaExceededError''"
| "error_class (ValueError _) = ''ValueError''"
| "error_class KeyError = ''KeyError''"
| "error_class (RuntimeError _) = ''RuntimeError''"
| "error_class (TimeoutError _) = ''TimeoutError''"
| "error_class NotReturned = ''CancelledError''"
| "error_class RuntimeTimeoutError = ''RuntimeExecutionTimeoutError''"
| "error_class CancellationRequestedError = ''_RunCancellationRequestedError''"
| "error_class (RuntimeResultError _ _ _ _) = ''RuntimeResultError''"
| "error_class (OtherError name _ _) = name"

fun conflict_text :: "herror \<Rightarrow> string" where
  "conflict_text (ConflictError m) = m"
| "conflict_text (EventSequenceConflictError m) = m"
| "conflict_text (QuotaExceededError resource limit requested used) =
     ''quota_exceeded:'' @ resource @ '': limit='' @ str_of_int limit @ '' used='' @
     str_of_int used @ '' requested='' @ str_of_int requested"
| "conflict_text _ = []"

subsection \<open>Enumerations\<close>

datatype agent_version_status =
  VersionDraft | VersionValidated | VersionPublished | VersionDeprecated | VersionArchived

datatype run_status =
    RunQueued | RunProvisioning | RunRunning | RunWaitingApproval | RunCancelling
  | RunCancelled | RunSucceeded | RunFailed | RunTimedOut | RunRejected

fun run_status_value :: "run_status \<Rightarrow> string" where
  "run_status_value RunQueued = ''queued''"
| "run_status_value RunProvisioning = ''provisioning''"
| "run_status_value RunRunning = ''running''"
| "run_status_value RunWaitingApproval = ''waiting_approval''"
| "run_status_value RunCancelling = ''cancelling''"
| "run_status_value RunCancelled = ''cancelled''"
| "run_status_value RunSucceeded = ''succeeded''"
| "run_status_value RunFailed = ''failed''"
| "run_status_value RunTimedOut = ''timed_out''"
| "run_status_value RunRejected = ''rejected''"

definition terminal_statuses :: "run_status list" where
  "terminal_statuses = [RunCancelled, RunSucceeded, RunFailed, RunTimedOut, RunRejected]"

definition is_terminal :: "run_status \<Rightarrow> bool" where
  "is_terminal s \<longleftrightarrow> s \<in> set terminal_statuses"

datatype message_role = RoleUser | RoleAssistant | RoleSystem | RoleTool

datatype approval_status =
  ApprovalPending | ApprovalApproved | ApprovalRejected | ApprovalExpired | ApprovalCancelled

fun approval_status_value :: "approval_status \<Rightarrow> string" where
  "approval_status_value ApprovalPending = ''pending''"
| "approval_status_value ApprovalApproved = ''approved''"
| "approval_status_value ApprovalRejected = ''rejected''"
| "approval_status_value ApprovalExpired = ''expired''"
| "approval_status_value ApprovalCancelled = ''cancelled''"

datatype artifact_status = ArtifactPending | ArtifactReady | ArtifactFailed

datatype thread_file_kind = FileOriginal | FileDerived | FileGenerated

datatype processing_status = Processed | Unsupported | ProcessingFailed

datatype model_compatibility = CompatFull | CompatDegraded | CompatUnsupported

subsection \<open>Frozen models\<close>

record execution_identity =
  identity_tenant_id :: string
  identity_user_id :: string
  identity_agent_owner_user_id :: "string option"
  identity_team_ids :: "string list"
  identity_project_id :: string
  identity_session_id :: string
  identity_run_id :: string
  identity_agent_name :: string
  identity_agent_version :: string

definition identity_resolved_agent_owner :: "execution_identity \<Rightarrow> string" where
  "identity_resolved_agent_owner i = str_or (identity_agent_owner_user_id i) (identity_user_id i)"

record agent_version =
  version_tenant_id :: string
  version_owner_user_id :: string
  version_name :: string
  version_version :: string
  version_status :: agent_version_status
  version_manifest_hash :: string
  version_package_hash :: "string option"
  version_snapshot :: json_obj
  version_created_at :: time

record session =
  session_id :: string
  session_tenant_id :: string
  session_user_id :: string
  session_agent_owner_user_id :: "string option"
  session_agent_name :: string
  session_agent_version :: string
  session_created_at :: time
  session_team_ids :: "string list"
  session_api_key_id :: "string option"
  session_claude_session_id :: "string option"
  session_workspace_snapshot_id :: "string option"
  session_environment :: "string option"
  session_deployment_snapshot_id :: "string option"
  session_environment_snapshot :: "json_obj option"
  session_knowledge_snapshot_bindings :: "json_obj list"

text \<open>Owner pinned for runtime lookup; legacy sessions fall back to the task owner.\<close>

definition resolved_agent_owner_user_id :: "session \<Rightarrow> string" where
  "resolved_agent_owner_user_id s = str_or (session_agent_owner_user_id s) (session_user_id s)"

record run =
  run_id :: string
  run_session_id :: string
  run_tenant_id :: string
  run_status :: run_status
  run_idempotency_key :: string
  run_created_at :: time
  run_updated_at :: time
  run_fencing_token :: int
  run_error_code :: "string option"
  run_input :: json_obj
  run_trace_context :: "(string, string) dict"

record message =
  message_id :: string
  message_run_id :: string
  message_session_id :: string
  message_tenant_id :: string
  message_role :: message_role
  message_content :: "json_obj list"
  message_created_at :: time

record tool_call =
  tool_call_id :: string
  tool_call_run_id :: string
  tool_call_name :: string
  tool_call_arguments :: json_obj
  tool_call_created_at :: time

record approval_request =
  approval_id :: string
  approval_run_id :: string
  approval_tenant_id :: string
  approval_tool_call_id :: string
  approval_status :: approval_status
  approval_reason :: string
  approval_expires_at :: time
  approval_created_at :: time
  approval_inline :: bool
  approval_tool_name :: "string option"
  approval_argument_summary :: json_obj
  approval_sandbox_provider :: "string option"
  approval_sandbox_isolation :: "string option"
  approval_policy_rule :: "string option"
  approval_risk :: "string option"

record artifact =
  artifact_id :: string
  artifact_run_id :: string
  artifact_tenant_id :: string
  artifact_name :: string
  artifact_media_type :: string
  artifact_status :: artifact_status
  artifact_object_key :: string
  artifact_sha256 :: "string option"
  artifact_size_bytes :: "int option"

record input_artifact =
  input_artifact_id :: string
  input_artifact_tenant_id :: string
  input_artifact_user_id :: string
  input_artifact_name :: string
  input_artifact_media_type :: string
  input_artifact_status :: artifact_status
  input_artifact_object_key :: string
  input_artifact_created_at :: time
  input_artifact_sha256 :: "string option"
  input_artifact_size_bytes :: "int option"

record user_memory =
  memory_tenant_id :: string
  memory_user_id :: string
  memory_agent_name :: string
  memory_content :: string
  memory_version :: int
  memory_updated_at :: time

definition user_memory_valid :: "user_memory \<Rightarrow> bool" where
  "user_memory_valid m \<longleftrightarrow> 1 \<le> memory_version m"

record thread_file =
  file_id :: string
  file_tenant_id :: string
  file_user_id :: string
  file_session_id :: string
  file_run_id :: string
  file_kind :: thread_file_kind
  file_name :: string
  file_media_type :: string
  file_path :: string
  file_created_at :: time
  file_input_artifact_id :: "string option"
  file_artifact_id :: "string option"
  file_parent_file_id :: "string option"
  file_metadata :: json_obj

record processed_input =
  processed_source_file_id :: string
  processed_status :: processing_status
  processed_derived_file_ids :: "string list"
  processed_processor :: string
  processed_error_code :: "string option"
  processed_metadata :: json_obj

datatype title_source = TitleFallback | TitleModel

record agui_thread_binding =
  binding_tenant_id :: string
  binding_user_id :: string
  binding_thread_id :: string
  binding_session_id :: string
  binding_previous_session_ids :: "string list"
  binding_title :: "string option"
  binding_title_source :: "title_source option"
  binding_title_updated_at :: "time option"
  binding_archived_at :: "time option"
  binding_created_at :: time
  binding_updated_at :: time

definition binding_session_ids :: "agui_thread_binding \<Rightarrow> string list" where
  "binding_session_ids b = binding_previous_session_ids b @ [binding_session_id b]"

record workspace_snapshot =
  snapshot_id :: string
  snapshot_session_id :: string
  snapshot_tenant_id :: string
  snapshot_object_key :: string
  snapshot_sha256 :: string
  snapshot_created_at :: time

datatype auth_scheme = Bearer | XApiKey

record model_route =
  route_id :: string
  route_provider :: string
  route_base_url :: string
  route_model :: string
  route_compatibility :: model_compatibility
  route_capabilities :: "string list"
  route_fallback_route_id :: "string option"
  route_auth_scheme :: "auth_scheme option"

subsection \<open>Events, queue tasks and stored objects\<close>

record run_event =
  event_id :: string
  event_run_id :: string
  event_session_id :: string
  event_tenant_id :: string
  event_sequence :: int
  event_type :: string
  event_timestamp :: time
  event_payload :: json_obj
  event_schema_version :: int
  event_trace_id :: "string option"
  event_span_id :: "string option"

definition run_event_valid :: "run_event \<Rightarrow> bool" where
  "run_event_valid e \<longleftrightarrow> 1 \<le> event_sequence e \<and> event_type e \<noteq> [] \<and> 1 \<le> event_schema_version e"

text \<open>Equality of two events as pydantic compares them: field by field, the payload as a dict.\<close>

definition run_event_eq :: "run_event \<Rightarrow> run_event \<Rightarrow> bool" where
  "run_event_eq a b \<longleftrightarrow>
     a\<lparr>event_payload := []\<rparr> = b\<lparr>event_payload := []\<rparr> \<and>
     json_obj_eq (event_payload a) (event_payload b)"

record stored_object =
  stored_object_key :: string
  stored_sha256 :: string
  stored_size_bytes :: int

record run_task =
  task_tenant_id :: string
  task_run_id :: string
  task_session_id :: "string option"

lemma run_event_eq_refl: "json_obj_wf (event_payload e) \<Longrightarrow> run_event_eq e e"
  by (simp add: run_event_eq_def json_obj_eq_refl)

lemma is_terminal_simps [simp]:
  "is_terminal RunCancelled" "is_terminal RunSucceeded" "is_terminal RunFailed"
  "is_terminal RunTimedOut" "is_terminal RunRejected"
  "\<not> is_terminal RunQueued" "\<not> is_terminal RunProvisioning" "\<not> is_terminal RunRunning"
  "\<not> is_terminal RunWaitingApproval" "\<not> is_terminal RunCancelling"
  by (simp_all add: is_terminal_def terminal_statuses_def)

lemma run_status_value_inj: "run_status_value a = run_status_value b \<longleftrightarrow> a = b"
  by (cases a; cases b) simp_all

end
