(* ===== verification/Run_State_Machine.thy ===== *)
theory Run_State_Machine
  imports Core_Models
begin

section \<open>Run state machine\<close>

text \<open>
  \<^verbatim>\<open>src/src/harness/core/state_machine.py\<close>: the table of allowed transitions and the checked
  \<open>transition\<close>. \<open>run_edge\<close> is the relation the check accepts; paths of it are what a run
  can go through, and \<open>run_edge ^^ n\<close> counts its steps (the stores count them in the fencing
  token).
\<close>

subsection \<open>Table and check\<close>

fun allowed_transitions :: "run_status \<Rightarrow> run_status list" where
  "allowed_transitions RunQueued = [RunProvisioning, RunCancelling, RunCancelled, RunTimedOut]"
| "allowed_transitions RunProvisioning = [RunRunning, RunCancelling, RunFailed, RunTimedOut]"
| "allowed_transitions RunRunning =
     [RunWaitingApproval, RunCancelling, RunSucceeded, RunFailed, RunTimedOut]"
| "allowed_transitions RunWaitingApproval =
     [RunRunning, RunCancelling, RunRejected, RunFailed, RunTimedOut]"
| "allowed_transitions RunCancelling = [RunCancelled, RunFailed]"
| "allowed_transitions _ = []"

definition transition :: "run_status \<Rightarrow> run_status \<Rightarrow> herror + run_status" where
  "transition current target =
     (if is_terminal current \<or> target \<notin> set (allowed_transitions current)
      then Inl (InvalidRunTransitionError
        (''invalid run transition: '' @ run_status_value current @ '' -> '' @
         run_status_value target))
      else Inr target)"

definition run_edge :: "(run_status \<times> run_status) set" where
  "run_edge = {(s, t). transition s t = Inr t}"

fun run_path :: "run_status \<Rightarrow> run_status list \<Rightarrow> bool" where
  "run_path s [] = True"
| "run_path s (t # ts) = ((s, t) \<in> run_edge \<and> run_path t ts)"

text \<open>
  A worker that takes a provisioning or running run over from another one keeps the status and
  raises the fencing token (\<^verbatim>\<open>RunOrchestrator._reclaim\<close>): what happens to a stored run is a
  transition or such a takeover.
\<close>

definition run_move :: "(run_status \<times> run_status) set" where
  "run_move = run_edge \<union> {(RunProvisioning, RunProvisioning), (RunRunning, RunRunning)}"

subsection \<open>Facts about single transitions\<close>

lemma transition_Inr [simp]:
  "transition s t = Inr u \<longleftrightarrow> u = t \<and> t \<in> set (allowed_transitions s)"
  by (cases s) (auto simp: transition_def)

lemma run_edge_iff: "(s, t) \<in> run_edge \<longleftrightarrow> t \<in> set (allowed_transitions s)"
  by (simp add: run_edge_def)

lemma run_edge_source: "(s, t) \<in> run_edge \<Longrightarrow> \<not> is_terminal s"
  by (cases s) (auto simp: run_edge_iff)

lemma run_edge_terminal [simp]: "is_terminal s \<Longrightarrow> (s, t) \<notin> run_edge"
  using run_edge_source by blast

lemma run_edge_irrefl: "(s, s) \<notin> run_edge"
  by (cases s) (auto simp: run_edge_iff)

lemma run_move_iff:
  "(s, t) \<in> run_move \<longleftrightarrow> t \<in> set (allowed_transitions s) \<or>
    s = t \<and> (s = RunProvisioning \<or> s = RunRunning)"
  by (auto simp: run_move_def run_edge_iff)

lemma run_edge_move: "(s, t) \<in> run_edge \<Longrightarrow> (s, t) \<in> run_move"
  by (simp add: run_move_def)

lemma run_move_terminal [simp]: "is_terminal s \<Longrightarrow> (s, t) \<notin> run_move"
  by (cases s) (auto simp: run_move_iff)

lemma relpow_from_terminal:
  assumes "is_terminal s" and "(s, t) \<in> run_move ^^ n"
  shows "n = 0 \<and> t = s"
proof (cases n)
  case 0
  with assms show ?thesis by simp
next
  case (Suc m)
  with assms obtain u where "(s, u) \<in> run_move" by (metis relpow_Suc_D2)
  with assms show ?thesis by simp
qed

text \<open>Statuses by how many steps can follow without another approval pause.\<close>

fun remaining_steps :: "run_status \<Rightarrow> nat" where
  "remaining_steps RunQueued = 4"
| "remaining_steps RunProvisioning = 3"
| "remaining_steps RunRunning = 2"
| "remaining_steps RunWaitingApproval = 3"
| "remaining_steps RunCancelling = 1"
| "remaining_steps _ = 0"

lemma run_path_length:
  "run_path s ts \<Longrightarrow>
   length ts \<le> remaining_steps s + 2 * count_list ts RunWaitingApproval"
proof (induction ts arbitrary: s)
  case (Cons t ts)
  then have "length ts \<le> remaining_steps t + 2 * count_list ts RunWaitingApproval" by simp
  moreover from Cons.prems have "t \<in> set (allowed_transitions s)" by (simp add: run_edge_iff)
  ultimately show ?case by (cases s) auto
qed simp

lemma run_path_append: "run_path s (ts @ us) \<longleftrightarrow> run_path s ts \<and> run_path (last (s # ts)) us"
  by (induction ts arbitrary: s) auto

subsection \<open>Properties\<close>

text \<open>
  \<open>transition\<close> accepts exactly the table's pairs: it returns the target when the table
  lists it for the current status and raises \<open>InvalidRunTransitionError\<close> in every other case;
  in particular no transition leaves a terminal status.
\<close>

theorem transition_spec:
  "(if target \<in> set (allowed_transitions current) \<and> \<not> is_terminal current
    then transition current target = Inr target
    else transition current target =
      Inl (InvalidRunTransitionError
        (''invalid run transition: '' @ run_status_value current @ '' -> '' @
         run_status_value target))) \<and>
   (is_terminal current \<longleftrightarrow> (\<nexists>t. transition current t = Inr t))"
proof -
  have "\<exists>t. t \<in> set (allowed_transitions current)" if "\<not> is_terminal current"
    using that by (cases current) auto
  moreover have "t \<notin> set (allowed_transitions current)" if "is_terminal current" for t
    using that by (cases current) auto
  ultimately have "is_terminal current \<longleftrightarrow> (\<nexists>t. transition current t = Inr t)"
    unfolding transition_Inr by blast
  then show ?thesis by (simp add: transition_def)
qed

text \<open>
  A run cannot bounce between statuses for ever: any path of accepted transitions is at
  most four steps long plus two for every time it enters the approval pause, so a run with no
  approval reaches a terminal status after at most four transitions.
\<close>

theorem run_path_bounded:
  "run_path s ts \<Longrightarrow> length ts \<le> 4 + 2 * count_list ts RunWaitingApproval"
  using run_path_length [of s ts] by (cases s) auto

theorem run_path_bounded_witness:
  "run_path RunQueued [RunProvisioning, RunRunning, RunWaitingApproval, RunCancelling, RunCancelled]
   \<and> length [RunProvisioning, RunRunning, RunWaitingApproval, RunCancelling, RunCancelled]
     \<le> 4 + 2 * count_list
         [RunProvisioning, RunRunning, RunWaitingApproval, RunCancelling, RunCancelled]
         RunWaitingApproval"
proof -
  have "run_path RunQueued
      [RunProvisioning, RunRunning, RunWaitingApproval, RunCancelling, RunCancelled]"
    by (simp add: run_edge_iff)
  then show ?thesis using run_path_bounded by blast
qed

text \<open>
  No status is a dead end: from every status that is not terminal some accepted path
  reaches a terminal status, and a cancelled end is reachable from every live status.
\<close>

theorem run_can_finish:
  "\<not> is_terminal s \<Longrightarrow> \<exists>ts. run_path s ts \<and> ts \<noteq> [] \<and> last ts = RunCancelled"
proof -
  assume live: "\<not> is_terminal s"
  have "run_path s [RunCancelled]" if "s = RunCancelling"
    using that by (simp add: run_edge_iff)
  moreover have "run_path s [RunCancelling, RunCancelled]" if "s \<noteq> RunCancelling"
    using that live by (cases s) (simp_all add: run_edge_iff)
  ultimately show ?thesis by (metis last.simps list.distinct(1))
qed

theorem run_can_finish_witness:
  "\<exists>ts. run_path RunRunning ts \<and> ts \<noteq> [] \<and> last ts = RunCancelled"
  by (rule run_can_finish) simp

end
