(* ===== verification/Store_Contracts.thy ===== *)
theory Store_Contracts
  imports Run_State_Machine
begin

section \<open>Contracts of the repositories\<close>

text \<open>
  What the services rely on when they call a repository through a port of
  \<^verbatim>\<open>src/src/harness/core/ports.py\<close>, as locales over its operations:
  \<^item> \<open>keyed_store\<close>: \<open>add\<close> never overwrites, and a stored value is found again under its key
    and disturbs no other key;
  \<^item> \<open>versioned_store\<close>: a compare-and-set that succeeds replaces exactly one value by one
    whose version is one higher, and one that is refused changes nothing.
  Each in-memory adapter interprets the contracts it fulfils. The client facts proved here
  once are: writes survive later additions, and of any number of competing compare-and-set
  calls with the same version at most one wins.
\<close>

subsection \<open>Write-once keyed stores\<close>

fun add_all :: "('v \<Rightarrow> 's \<Rightarrow> herror + 's) \<Rightarrow> 'v list \<Rightarrow> 's \<Rightarrow> herror + 's" where
  "add_all add [] s = Inr s"
| "add_all add (v # vs) s = (case add v s of Inl e \<Rightarrow> Inl e | Inr t \<Rightarrow> add_all add vs t)"

locale keyed_store =
  fixes add :: "'v \<Rightarrow> 's \<Rightarrow> herror + 's"
    and lookup :: "'s \<Rightarrow> 'k \<Rightarrow> herror + 'v"
    and key :: "'v \<Rightarrow> 'k"
  assumes add_lookup:
      "add v s = Inr t \<Longrightarrow> lookup t k = (if k = key v then Inr v else lookup s k)"
    and add_absent: "add v s = Inr t \<Longrightarrow> \<exists>e. lookup s (key v) = Inl (NotFoundError e)"
begin

lemma add_same: "add v s = Inr t \<Longrightarrow> lookup t (key v) = Inr v"
  by (simp add: add_lookup)

lemma add_keeps: "add v s = Inr t \<Longrightarrow> lookup s k = Inr w \<Longrightarrow> lookup t k = Inr w"
  using add_absent [of v s t] by (auto simp: add_lookup)

lemma add_twice: "add v s = Inr t \<Longrightarrow> key w = key v \<Longrightarrow> \<exists>e. add w t = Inl e"
  using add_absent [of w t] add_same [of v s t] by (cases "add w t") auto

lemma add_all_keeps:
  "add_all add vs s = Inr t \<Longrightarrow> lookup s k = Inr w \<Longrightarrow> lookup t k = Inr w"
  by (induction vs arbitrary: s) (auto split: sum.splits dest: add_keeps)

lemma add_all_finds:
  "add_all add vs s = Inr t \<Longrightarrow> v \<in> set vs \<Longrightarrow> lookup t (key v) = Inr v"
proof (induction vs arbitrary: s)
  case (Cons u us)
  then obtain s1 where s1: "add u s = Inr s1" and rest: "add_all add us s1 = Inr t"
    by (auto split: sum.splits)
  with Cons show ?case
    using add_all_keeps [OF rest add_same [OF s1]] by auto
qed simp

lemma add_all_absent:
  "add_all add vs s = Inr t \<Longrightarrow> v \<in> set vs \<Longrightarrow> \<exists>e. lookup s (key v) = Inl e"
proof (induction vs arbitrary: s)
  case (Cons u us)
  then obtain s1 where s1: "add u s = Inr s1" and rest: "add_all add us s1 = Inr t"
    by (auto split: sum.splits)
  show ?case
  proof (cases "v \<in> set us")
    case True
    with Cons.IH [OF rest] show ?thesis by (auto simp: add_lookup [OF s1] split: if_splits)
  next
    case False
    with Cons.prems add_absent [OF s1] show ?thesis by auto
  qed
qed simp

lemma add_all_distinct: "add_all add vs s = Inr t \<Longrightarrow> distinct (map key vs)"
proof (induction vs arbitrary: s)
  case (Cons u us)
  then obtain s1 where s1: "add u s = Inr s1" and rest: "add_all add us s1 = Inr t"
    by (auto split: sum.splits)
  have "key u \<noteq> key w" if "w \<in> set us" for w
    using add_all_absent [OF rest that] add_same [OF s1] by auto
  with Cons rest show ?case by auto
qed simp

end

subsection \<open>Versioned stores with compare-and-set\<close>

text \<open>\<open>cas_all\<close> runs competing calls in some order and collects which of them won.\<close>

fun cas_all :: "('e \<Rightarrow> 'v \<Rightarrow> 's \<Rightarrow> herror + (bool \<times> 's)) \<Rightarrow> ('e \<times> 'v) list \<Rightarrow> 's \<Rightarrow> bool list \<times> 's"
where
  "cas_all cas [] s = ([], s)"
| "cas_all cas ((e, v) # us) s =
     (case cas e v s of
        Inl _ \<Rightarrow> (False # fst (cas_all cas us s), snd (cas_all cas us s))
      | Inr (b, t) \<Rightarrow> (b # fst (cas_all cas us t), snd (cas_all cas us t)))"

definition wins :: "bool list \<Rightarrow> nat" where
  "wins bs = length (filter id bs)"

lemma wins_simps [simp]: "wins [] = 0" "wins (b # bs) = (if b then Suc (wins bs) else wins bs)"
  by (simp_all add: wins_def)

lemma cas_result_cases:
  obtains (err) x where "(r :: herror + bool \<times> 's) = Inl x"
    | (lost) t where "r = Inr (False, t)"
    | (won) t where "r = Inr (True, t)"
proof (cases r)
  case (Inl x)
  then show thesis by (rule err)
next
  case (Inr p)
  obtain b t where "p = (b, t)" by (cases p)
  with Inr show thesis using lost won by (cases b) auto
qed

locale versioned_store =
  fixes lookup :: "'s \<Rightarrow> 'k \<Rightarrow> herror + 'v"
    and cas :: "'e \<Rightarrow> 'v \<Rightarrow> 's \<Rightarrow> herror + (bool \<times> 's)"
    and key :: "'v \<Rightarrow> 'k"
    and version :: "'v \<Rightarrow> int"
  assumes cas_won: "cas e v s = Inr (True, t) \<Longrightarrow>
      (\<exists>c. lookup s (key v) = Inr c \<and> version v = version c + 1) \<and>
      (\<forall>k. lookup t k = (if k = key v then Inr v else lookup s k))"
    and cas_lost: "cas e v s = Inr (False, t) \<Longrightarrow> t = s"
begin

lemma cas_all_version:
  assumes "lookup s k = Inr c"
  obtains d where "lookup (snd (cas_all cas us s)) k = Inr d" and "version c \<le> version d"
proof -
  have "\<exists>d. lookup (snd (cas_all cas us s)) k = Inr d \<and> version c \<le> version d"
    using assms
  proof (induction us arbitrary: s c)
    case (Cons u us)
    obtain e v where u: "u = (e, v)" by (cases u)
    show ?case
    proof (cases "cas e v s" rule: cas_result_cases)
      case (won t)
      from cas_won [OF won] Cons.prems
      obtain c' where "lookup t k = Inr c'" and "version c \<le> version c'"
        by (cases "k = key v") auto
      with Cons.IH [of t c'] won u show ?thesis by fastforce
    qed (use Cons u cas_lost [of e v s] in auto)
  qed simp
  then show thesis using that by blast
qed

lemma stale_loses:
  assumes "lookup s k = Inr c" and "n \<le> version c"
    and "\<And>e v. (e, v) \<in> set us \<Longrightarrow> key v = k \<and> version v = n"
  shows "wins (fst (cas_all cas us s)) = 0"
  using assms
proof (induction us arbitrary: s)
  case (Cons u us)
  obtain e v where u: "u = (e, v)" by (cases u)
  have "cas e v s \<noteq> Inr (True, t)" for t
    using cas_won [of e v s t] Cons.prems(1,2) Cons.prems(3) [of e v] u by auto
  moreover have "wins (fst (cas_all cas us s)) = 0"
    using Cons.prems(1,2) by (rule Cons.IH) (meson Cons.prems(3) list.set_intros(2))
  ultimately show ?case using u cas_lost [of e v s]
    by (cases "cas e v s" rule: cas_result_cases) auto
qed simp

lemma single_winner:
  assumes "\<And>e v. (e, v) \<in> set us \<Longrightarrow> key v = k \<and> version v = n"
  shows "wins (fst (cas_all cas us s)) \<le> 1"
  using assms
proof (induction us arbitrary: s)
  case (Cons u us)
  obtain e v where u: "u = (e, v)" by (cases u)
  from Cons.prems [of e v] u have v: "key v = k" "version v = n" by simp_all
  show ?case
  proof (cases "cas e v s" rule: cas_result_cases)
    case (won t)
    from cas_won [OF won] v have "lookup t k = Inr v" by simp
    then have "wins (fst (cas_all cas us t)) = 0"
      by (rule stale_loses [where n = n]) (use v Cons.prems in auto)
    with won u show ?thesis by simp
  qed (use Cons u cas_lost [of e v s] in auto)
qed simp

lemma won_then_stale:
  assumes "cas e v s = Inr (True, t)" and "key w = key v" and "version w = version v"
  shows "cas e' w t \<noteq> Inr (True, u)"
  using cas_won [OF assms(1)] cas_won [of e' w t u] assms(2,3) by auto

end

end
