(* ===== verification/Memory_Catalog.thy ===== *)
theory Memory_Catalog
  imports Store_Contracts
begin

section \<open>In-memory repositories: registry, sessions, artifacts, memories, files, snapshots\<close>

text \<open>
  The adapters of \<^verbatim>\<open>src/src/harness/adapters/memory.py\<close> that hold one dictionary each. A
  repository is its \<^verbatim>\<open>_items\<close> dictionary (insertion-ordered); a method that writes returns
  the new dictionary or the error it raises, and never does both, since every check stands
  before the write under the lock. Each adapter interprets the contract it gives its clients.
  \<^verbatim>\<open>hashlib.sha256(...).hexdigest()\<close> is the argument \<open>sha\<close>; bytes are a list of 8-bit
  characters.
\<close>

subsection \<open>Agent registry\<close>

type_synonym agent_registry = "(string \<times> string \<times> string \<times> string, agent_version) dict"

definition agent_key :: "agent_version \<Rightarrow> string \<times> string \<times> string \<times> string" where
  "agent_key v = (version_tenant_id v, version_owner_user_id v, version_name v, version_version v)"

definition agent_add :: "agent_version \<Rightarrow> agent_registry \<Rightarrow> herror + agent_registry" where
  "agent_add v items =
     (let key = agent_key v in
      if dict_has items key
      then Inl (ConflictError
        (''agent version already exists: '' @ version_name v @ ''@'' @ version_version v))
      else Inr (dict_set key v items))"

definition agent_get ::
  "agent_registry \<Rightarrow> string \<Rightarrow> string \<Rightarrow> string \<Rightarrow> string \<Rightarrow> herror + agent_version" where
  "agent_get items tenant_id owner_user_id name ver =
     (case dict_get items (tenant_id, owner_user_id, name, ver) of
        None \<Rightarrow> Inl (NotFoundError (''agent version not found: '' @ name @ ''@'' @ ver))
      | Some v \<Rightarrow> Inr v)"

definition agent_list_for_user :: "agent_registry \<Rightarrow> string \<Rightarrow> string \<Rightarrow> agent_version list" where
  "agent_list_for_user items tenant_id owner_user_id =
     py_sorted (\<lambda>v. (version_name v, version_version v))
       (map snd (filter (\<lambda>((stored_tenant, stored_owner, _, _), _).
          stored_tenant = tenant_id \<and> stored_owner = owner_user_id) items))"

interpretation agents: keyed_store agent_add
  "\<lambda>items (t, u, n, v). agent_get items t u n v" agent_key
  by unfold_locales
     (auto simp: agent_add_def agent_get_def agent_key_def Let_def
       split: prod.splits if_splits option.splits)

subsection \<open>Sessions\<close>

type_synonym session_repo = "(string \<times> string, session) dict"

definition session_key :: "session \<Rightarrow> string \<times> string" where
  "session_key s = (session_tenant_id s, session_id s)"

definition session_add :: "session \<Rightarrow> session_repo \<Rightarrow> herror + session_repo" where
  "session_add s items =
     (let key = session_key s in
      if dict_has items key
      then Inl (ConflictError (''session already exists: '' @ session_id s))
      else Inr (dict_set key s items))"

definition session_get :: "session_repo \<Rightarrow> string \<Rightarrow> string \<Rightarrow> herror + session" where
  "session_get items tenant_id sid =
     (case dict_get items (tenant_id, sid) of
        None \<Rightarrow> Inl (NotFoundError (''session not found: '' @ sid))
      | Some s \<Rightarrow> Inr s)"

definition bind_claude_session_id ::
  "session_repo \<Rightarrow> string \<Rightarrow> string \<Rightarrow> string \<Rightarrow> herror + (session \<times> session_repo)" where
  "bind_claude_session_id items tenant_id sid claude_session_id =
     (if claude_session_id = []
      then Inl (ValueError ''claude_session_id must be non-empty'')
      else case dict_get items (tenant_id, sid) of
        None \<Rightarrow> Inl (NotFoundError (''session not found: '' @ sid))
      | Some current \<Rightarrow>
          (case session_claude_session_id current of
             Some bound \<Rightarrow>
               if bound \<noteq> claude_session_id
               then Inl (ConflictError
                 (''session '' @ sid @ '' is already bound to another Claude session''))
               else Inr (current, items)
           | None \<Rightarrow>
               let updated = current\<lparr>session_claude_session_id := Some claude_session_id\<rparr>
               in Inr (updated, dict_set (tenant_id, sid) updated items)))"

interpretation sessions: keyed_store session_add "\<lambda>items (t, i). session_get items t i" session_key
  by unfold_locales
     (auto simp: session_add_def session_get_def session_key_def Let_def
       split: prod.splits if_splits option.splits)

subsection \<open>Artifact contents and metadata\<close>

type_synonym artifact_store = "(string \<times> string, string) dict"

definition store_put ::
  "(string \<Rightarrow> string) \<Rightarrow> string \<Rightarrow> string \<Rightarrow> string \<Rightarrow> artifact_store \<Rightarrow> stored_object \<times> artifact_store"
where
  "store_put sha tenant_id aid content items =
     (\<lparr>stored_object_key = tenant_id @ ''/'' @ aid, stored_sha256 = sha content,
       stored_size_bytes = int (length content)\<rparr>,
      dict_set (tenant_id, aid) content items)"

definition store_get :: "artifact_store \<Rightarrow> string \<Rightarrow> string \<Rightarrow> herror + string" where
  "store_get items tenant_id aid =
     (case dict_get items (tenant_id, aid) of
        None \<Rightarrow> Inl (NotFoundError (''artifact not found: '' @ aid))
      | Some content \<Rightarrow> Inr content)"

definition store_delete :: "string \<Rightarrow> string \<Rightarrow> artifact_store \<Rightarrow> artifact_store" where
  "store_delete tenant_id aid items = dict_pop (tenant_id, aid) items"

type_synonym artifact_repo = "(string \<times> string, artifact) dict"

definition artifact_key :: "artifact \<Rightarrow> string \<times> string" where
  "artifact_key a = (artifact_tenant_id a, artifact_id a)"

definition artifact_add :: "artifact \<Rightarrow> artifact_repo \<Rightarrow> herror + artifact_repo" where
  "artifact_add a items =
     (if dict_has items (artifact_key a)
      then Inl (ConflictError (''artifact already exists: '' @ artifact_id a))
      else Inr (dict_set (artifact_key a) a items))"

definition artifact_get :: "artifact_repo \<Rightarrow> string \<Rightarrow> string \<Rightarrow> herror + artifact" where
  "artifact_get items tenant_id aid =
     (case dict_get items (tenant_id, aid) of
        None \<Rightarrow> Inl (NotFoundError (''artifact not found: '' @ aid))
      | Some a \<Rightarrow> Inr a)"

definition artifact_update :: "artifact \<Rightarrow> artifact_repo \<Rightarrow> herror + artifact_repo" where
  "artifact_update a items =
     (if \<not> dict_has items (artifact_key a)
      then Inl (NotFoundError (''artifact not found: '' @ artifact_id a))
      else Inr (dict_set (artifact_key a) a items))"

definition artifact_list_for_run :: "artifact_repo \<Rightarrow> string \<Rightarrow> string \<Rightarrow> artifact list" where
  "artifact_list_for_run items tenant_id rid =
     map snd (filter (\<lambda>((item_tenant, _), a).
       item_tenant = tenant_id \<and> artifact_run_id a = rid) items)"

interpretation artifacts: keyed_store artifact_add
  "\<lambda>items (t, i). artifact_get items t i" artifact_key
  by unfold_locales
     (auto simp: artifact_add_def artifact_get_def artifact_key_def
       split: prod.splits if_splits option.splits)

type_synonym input_artifact_repo = "(string \<times> string, input_artifact) dict"

definition input_artifact_key :: "input_artifact \<Rightarrow> string \<times> string" where
  "input_artifact_key a = (input_artifact_tenant_id a, input_artifact_id a)"

definition input_artifact_add ::
  "input_artifact \<Rightarrow> input_artifact_repo \<Rightarrow> herror + input_artifact_repo" where
  "input_artifact_add a items =
     (if dict_has items (input_artifact_key a)
      then Inl (ConflictError (''input artifact already exists: '' @ input_artifact_id a))
      else Inr (dict_set (input_artifact_key a) a items))"

definition input_artifact_get ::
  "input_artifact_repo \<Rightarrow> string \<Rightarrow> string \<Rightarrow> herror + input_artifact" where
  "input_artifact_get items tenant_id aid =
     (case dict_get items (tenant_id, aid) of
        None \<Rightarrow> Inl (NotFoundError (''input artifact not found: '' @ aid))
      | Some a \<Rightarrow> Inr a)"

definition input_artifact_update ::
  "input_artifact \<Rightarrow> input_artifact_repo \<Rightarrow> herror + input_artifact_repo" where
  "input_artifact_update a items =
     (if \<not> dict_has items (input_artifact_key a)
      then Inl (NotFoundError (''input artifact not found: '' @ input_artifact_id a))
      else Inr (dict_set (input_artifact_key a) a items))"

interpretation input_artifacts: keyed_store input_artifact_add
  "\<lambda>items (t, i). input_artifact_get items t i" input_artifact_key
  by unfold_locales
     (auto simp: input_artifact_add_def input_artifact_get_def input_artifact_key_def
       split: prod.splits if_splits option.splits)

end
