(* ===== verification/Memory_Runs.thy ===== *)
theory Memory_Runs
  imports Store_Contracts
begin

section \<open>In-memory run and approval repositories\<close>

text \<open>
  \<^verbatim>\<open>InMemoryRunRepository\<close> and \<^verbatim>\<open>InMemoryApprovalRepository\<close> of
  \<^verbatim>\<open>src/src/harness/adapters/memory.py\<close>. Each keeps its items and an index (runs by
  idempotency key, approvals by tool call). \<open>run_cas\<close> compares the status and the fencing token;
  \<open>approval_cas\<close> compares the status only. \<open>run_repo_inv\<close> and \<open>approval_repo_inv\<close> tie index and
  items together; \<open>run_history\<close> is the relation every write of a run must respect: the
  fencing token counts the accepted transitions and takeovers the run has gone through.
\<close>

subsection \<open>Runs\<close>

record run_repo =
  runs_items :: "(string \<times> string, run) dict"
  runs_idempotency :: "(string \<times> string \<times> string, string) dict"

definition run_repo_empty :: run_repo where
  "run_repo_empty = \<lparr>runs_items = [], runs_idempotency = []\<rparr>"

definition run_key :: "run \<Rightarrow> string \<times> string" where
  "run_key r = (run_tenant_id r, run_id r)"

definition run_idem_key :: "run \<Rightarrow> string \<times> string \<times> string" where
  "run_idem_key r = (run_tenant_id r, run_session_id r, run_idempotency_key r)"

definition run_add :: "run \<Rightarrow> run_repo \<Rightarrow> herror + run_repo" where
  "run_add r repo =
     (if dict_has (runs_items repo) (run_key r) \<or>
         dict_has (runs_idempotency repo) (run_idem_key r)
      then Inl (ConflictError (''run already exists: '' @ run_id r))
      else Inr (repo\<lparr>runs_items := dict_set (run_key r) r (runs_items repo),
                     runs_idempotency :=
                       dict_set (run_idem_key r) (run_id r) (runs_idempotency repo)\<rparr>))"

definition run_get :: "run_repo \<Rightarrow> string \<Rightarrow> string \<Rightarrow> herror + run" where
  "run_get repo tenant_id rid =
     (case dict_get (runs_items repo) (tenant_id, rid) of
        None \<Rightarrow> Inl (NotFoundError (''run not found: '' @ rid))
      | Some r \<Rightarrow> Inr r)"

text \<open>A stale index entry would raise \<open>KeyError\<close>.\<close>

definition run_find_by_idempotency_key ::
  "run_repo \<Rightarrow> string \<Rightarrow> string \<Rightarrow> string \<Rightarrow> herror + run option" where
  "run_find_by_idempotency_key repo tenant_id sid idem =
     (case dict_get (runs_idempotency repo) (tenant_id, sid, idem) of
        None \<Rightarrow> Inr None
      | Some rid \<Rightarrow>
          (case dict_get (runs_items repo) (tenant_id, rid) of
             None \<Rightarrow> Inl KeyError
           | Some r \<Rightarrow> Inr (Some r)))"

definition run_cas :: "run_status \<Rightarrow> run \<Rightarrow> run_repo \<Rightarrow> herror + (bool \<times> run_repo)" where
  "run_cas expected_status updated repo =
     (case dict_get (runs_items repo) (run_key updated) of
        None \<Rightarrow> Inl (NotFoundError (''run not found: '' @ run_id updated))
      | Some current \<Rightarrow>
          if run_status current \<noteq> expected_status \<or>
             run_fencing_token current \<noteq> run_fencing_token updated - 1
          then Inr (False, repo)
          else Inr (True,
            repo\<lparr>runs_items := dict_set (run_key updated) updated (runs_items repo)\<rparr>))"

definition run_list_for_sessions :: "run_repo \<Rightarrow> string \<Rightarrow> string list \<Rightarrow> int \<Rightarrow> run list" where
  "run_list_for_sessions repo tenant_id session_ids max_items =
     py_prefix max_items (py_sorted_desc (\<lambda>r. (run_updated_at r, run_id r))
       (map snd (filter (\<lambda>((item_tenant, _), r).
          item_tenant = tenant_id \<and> run_session_id r \<in> set session_ids) (runs_items repo))))"

definition run_list_for_tenant :: "run_repo \<Rightarrow> string \<Rightarrow> int \<Rightarrow> run list" where
  "run_list_for_tenant repo tenant_id max_items =
     py_prefix max_items (py_sorted_desc (\<lambda>r. (run_updated_at r, run_id r))
       (map snd (filter (\<lambda>((stored_tenant, _), r). stored_tenant = tenant_id)
          (runs_items repo))))"

definition run_list_stale :: "run_repo \<Rightarrow> run_status list \<Rightarrow> time \<Rightarrow> int \<Rightarrow> run list" where
  "run_list_stale repo statuses updated_at_or_before max_items =
     py_prefix max_items (py_sorted (\<lambda>r. (run_updated_at r, run_id r))
       (filter (\<lambda>r. run_status r \<in> set statuses \<and> run_updated_at r \<le> updated_at_or_before)
          (dict_values (runs_items repo))))"

definition run_lookup :: "run_repo \<Rightarrow> string \<times> string \<Rightarrow> herror + run" where
  "run_lookup repo k = run_get repo (fst k) (snd k)"

interpretation runs: keyed_store run_add run_lookup run_key
  by unfold_locales
     (auto simp: run_add_def run_lookup_def run_get_def run_key_def
       split: prod.splits if_splits option.splits)

interpretation runs: versioned_store run_lookup run_cas run_key run_fencing_token
  by unfold_locales
     (auto simp: run_cas_def run_lookup_def run_get_def run_key_def
       split: prod.splits if_splits option.splits)

subsubsection \<open>The idempotency index\<close>

text \<open>
  Every item is stored under its own key and every index entry leads to a stored run of the
  same tenant, session and idempotency key.
\<close>

definition run_repo_inv :: "run_repo \<Rightarrow> bool" where
  "run_repo_inv repo \<longleftrightarrow>
     (\<forall>k r. dict_get (runs_items repo) k = Some r \<longrightarrow> run_key r = k) \<and>
     (\<forall>ik rid. dict_get (runs_idempotency repo) ik = Some rid \<longrightarrow>
        (\<exists>r. dict_get (runs_items repo) (fst ik, rid) = Some r \<and> run_idem_key r = ik)) \<and>
     (\<forall>k r. dict_get (runs_items repo) k = Some r \<longrightarrow>
        dict_get (runs_idempotency repo) (run_idem_key r) = Some (run_id r))"

lemma run_repo_invI:
  assumes "\<And>k r. dict_get (runs_items repo) k = Some r \<Longrightarrow> run_key r = k"
    and "\<And>ik rid. dict_get (runs_idempotency repo) ik = Some rid \<Longrightarrow>
      \<exists>r. dict_get (runs_items repo) (fst ik, rid) = Some r \<and> run_idem_key r = ik"
    and "\<And>k r. dict_get (runs_items repo) k = Some r \<Longrightarrow>
      dict_get (runs_idempotency repo) (run_idem_key r) = Some (run_id r)"
  shows "run_repo_inv repo"
  unfolding run_repo_inv_def using assms by blast

lemma run_repo_inv_key:
  "run_repo_inv repo \<Longrightarrow> dict_get (runs_items repo) k = Some r \<Longrightarrow> run_key r = k"
  unfolding run_repo_inv_def by blast

lemma run_repo_inv_index:
  "run_repo_inv repo \<Longrightarrow> dict_get (runs_idempotency repo) ik = Some rid \<Longrightarrow>
   \<exists>r. dict_get (runs_items repo) (fst ik, rid) = Some r \<and> run_idem_key r = ik"
  unfolding run_repo_inv_def by blast

lemma run_repo_inv_indexed:
  "run_repo_inv repo \<Longrightarrow> dict_get (runs_items repo) k = Some r \<Longrightarrow>
   dict_get (runs_idempotency repo) (run_idem_key r) = Some (run_id r)"
  unfolding run_repo_inv_def by blast

lemma run_repo_inv_empty: "run_repo_inv run_repo_empty"
  by (simp add: run_repo_inv_def run_repo_empty_def)

lemma run_add_Inr:
  assumes "run_add r repo = Inr t"
  shows "dict_get (runs_items repo) (run_key r) = None"
    and "dict_get (runs_idempotency repo) (run_idem_key r) = None"
    and "runs_items t = dict_set (run_key r) r (runs_items repo)"
    and "runs_idempotency t = dict_set (run_idem_key r) (run_id r) (runs_idempotency repo)"
  using assms by (auto simp: run_add_def split: if_splits)

lemma run_repo_inv_add:
  assumes inv: "run_repo_inv repo" and add: "run_add r repo = Inr t"
  shows "run_repo_inv t"
proof (rule run_repo_invI)
  note t = run_add_Inr [OF add]
  fix k x
  assume x: "dict_get (runs_items t) k = Some x"
  then show "run_key x = k"
    by (cases "k = run_key r") (simp_all add: t run_repo_inv_key [OF inv])
  from x show "dict_get (runs_idempotency t) (run_idem_key x) = Some (run_id x)"
    using run_repo_inv_indexed [OF inv, of k x] t(2)
    by (cases "k = run_key r") (auto simp: t)
next
  note t = run_add_Inr [OF add]
  fix ik rid
  assume ix: "dict_get (runs_idempotency t) ik = Some rid"
  show "\<exists>x. dict_get (runs_items t) (fst ik, rid) = Some x \<and> run_idem_key x = ik"
  proof (cases "ik = run_idem_key r")
    case True
    with ix show ?thesis by (auto simp: t run_idem_key_def run_key_def)
  next
    case False
    with ix run_repo_inv_index [OF inv, of ik rid] t(1) show ?thesis by (auto simp: t)
  qed
qed

text \<open>A compare-and-set keeps the index when the update keeps the run's identity.\<close>

lemma run_cas_cases:
  assumes "run_cas e u repo = Inr (b, t)"
  obtains "\<not> b" and "t = repo"
  | c where "b" and "dict_get (runs_items repo) (run_key u) = Some c" and "run_status c = e"
      and "run_fencing_token u = run_fencing_token c + 1"
      and "t = repo\<lparr>runs_items := dict_set (run_key u) u (runs_items repo)\<rparr>"
  using assms by (auto simp: run_cas_def split: option.splits if_splits)

lemma run_repo_inv_cas:
  assumes inv: "run_repo_inv repo" and cas: "run_cas e u repo = Inr (b, t)"
    and same: "\<And>c. dict_get (runs_items repo) (run_key u) = Some c \<Longrightarrow>
      run_idem_key u = run_idem_key c"
  shows "run_repo_inv t"
  using cas
proof (cases rule: run_cas_cases)
  case (2 c)
  have ids: "run_id u = run_id c" and idc: "run_idem_key u = run_idem_key c"
    using run_repo_inv_key [OF inv 2(2)] same [OF 2(2)] by (simp_all add: run_key_def)
  show ?thesis
  proof (rule run_repo_invI)
    fix k x
    assume x: "dict_get (runs_items t) k = Some x"
    then show "run_key x = k"
      using run_repo_inv_key [OF inv, of k x] by (cases "k = run_key u") (simp_all add: 2)
    from x show "dict_get (runs_idempotency t) (run_idem_key x) = Some (run_id x)"
      using run_repo_inv_indexed [OF inv, of k x] run_repo_inv_indexed [OF inv 2(2)] ids idc
      by (cases "k = run_key u") (auto simp: 2)
  next
    fix ik rid
    assume "dict_get (runs_idempotency t) ik = Some rid"
    then have "dict_get (runs_idempotency repo) ik = Some rid" by (simp add: 2)
    from run_repo_inv_index [OF inv this]
    obtain r where "dict_get (runs_items repo) (fst ik, rid) = Some r" "run_idem_key r = ik"
      by blast
    then show "\<exists>x. dict_get (runs_items t) (fst ik, rid) = Some x \<and> run_idem_key x = ik"
      using 2(2) idc by (cases "(fst ik, rid) = run_key u") (auto simp: 2(5))
  qed
qed (use inv in simp)

lemma run_find_by_idempotency_total:
  assumes "run_repo_inv repo"
  shows "\<exists>o1. run_find_by_idempotency_key repo t s i = Inr o1"
  using run_repo_inv_index [OF assms, of "(t, s, i)"]
  by (auto simp: run_find_by_idempotency_key_def split: option.splits)

lemma run_find_by_idempotency_iff:
  assumes inv: "run_repo_inv repo"
  shows "run_find_by_idempotency_key repo t s i = Inr (Some r) \<longleftrightarrow>
    dict_get (runs_items repo) (run_key r) = Some r \<and> run_idem_key r = (t, s, i)"
proof
  assume "run_find_by_idempotency_key repo t s i = Inr (Some r)"
  then obtain rid where "dict_get (runs_idempotency repo) (t, s, i) = Some rid"
    and r: "dict_get (runs_items repo) (t, rid) = Some r"
    by (auto simp: run_find_by_idempotency_key_def split: option.splits)
  from run_repo_inv_index [OF inv this(1)] r run_repo_inv_key [OF inv r]
  show "dict_get (runs_items repo) (run_key r) = Some r \<and> run_idem_key r = (t, s, i)" by auto
next
  assume r: "dict_get (runs_items repo) (run_key r) = Some r \<and> run_idem_key r = (t, s, i)"
  with run_repo_inv_indexed [OF inv, of "run_key r" r]
  have "dict_get (runs_idempotency repo) (t, s, i) = Some (run_id r)" by simp
  with r show "run_find_by_idempotency_key repo t s i = Inr (Some r)"
    by (auto simp: run_find_by_idempotency_key_def run_key_def run_idem_key_def)
qed

subsubsection \<open>Histories\<close>

text \<open>
  \<open>run_later r r'\<close>: \<open>r'\<close> is \<open>r\<close> after some number of accepted transitions and takeovers, which the fencing
  token counts exactly, without a change of identity; with no transition nothing has changed.
  \<open>run_history s t\<close>: no run disappears, every run of \<open>s\<close> is later in \<open>t\<close>, and a run that is
  new in \<open>t\<close> has come from the queued status with token 0.
\<close>

definition run_same :: "run \<Rightarrow> run \<Rightarrow> bool" where
  "run_same r r' \<longleftrightarrow>
     r' = r\<lparr>run_status := run_status r', run_updated_at := run_updated_at r',
            run_fencing_token := run_fencing_token r', run_error_code := run_error_code r'\<rparr>"

definition run_later :: "run \<Rightarrow> run \<Rightarrow> bool" where
  "run_later r r' \<longleftrightarrow> run_same r r' \<and>
     (\<exists>n. (run_status r, run_status r') \<in> run_move ^^ n \<and>
        run_fencing_token r' = run_fencing_token r + int n \<and> (n = 0 \<longrightarrow> r' = r))"

definition run_born :: "run \<Rightarrow> bool" where
  "run_born r \<longleftrightarrow>
     (\<exists>n. (RunQueued, run_status r) \<in> run_move ^^ n \<and> run_fencing_token r = int n)"

definition run_history :: "run_repo \<Rightarrow> run_repo \<Rightarrow> bool" where
  "run_history s t \<longleftrightarrow>
     (\<forall>k r. dict_get (runs_items s) k = Some r \<longrightarrow>
        (\<exists>r'. dict_get (runs_items t) k = Some r' \<and> run_later r r')) \<and>
     (\<forall>k r'. dict_get (runs_items s) k = None \<longrightarrow> dict_get (runs_items t) k = Some r' \<longrightarrow>
        run_born r')"

lemma run_same_refl [simp]: "run_same r r"
  by (simp add: run_same_def)

lemma run_same_trans: "run_same a b \<Longrightarrow> run_same b c \<Longrightarrow> run_same a c"
  unfolding run_same_def by (cases a, cases b, cases c) simp

lemma run_same_keys: "run_same a b \<Longrightarrow> run_key b = run_key a \<and> run_idem_key b = run_idem_key a"
  unfolding run_same_def by (cases a, cases b) (simp add: run_key_def run_idem_key_def)

lemma run_later_same: "run_later a b \<Longrightarrow> run_same a b"
  by (simp add: run_later_def)

lemma run_later_refl: "run_later r r"
  unfolding run_later_def by (intro conjI exI [of _ 0]) simp_all

lemma run_later_trans:
  assumes "run_later a b" and "run_later b c"
  shows "run_later a c"
proof -
  from assms obtain m n where m: "(run_status a, run_status b) \<in> run_move ^^ m"
      "run_fencing_token b = run_fencing_token a + int m" "m = 0 \<longrightarrow> b = a"
    and n: "(run_status b, run_status c) \<in> run_move ^^ n"
      "run_fencing_token c = run_fencing_token b + int n" "n = 0 \<longrightarrow> c = b"
    unfolding run_later_def by blast
  from m(1) n(1) have "(run_status a, run_status c) \<in> run_move ^^ (m + n)"
    by (auto simp: relpow_add)
  with m n show ?thesis
    using run_same_trans [OF run_later_same [OF assms(1)] run_later_same [OF assms(2)]]
    unfolding run_later_def by (intro conjI exI [of _ "m + n"]) auto
qed

lemma run_born_later: "run_born a \<Longrightarrow> run_later a b \<Longrightarrow> run_born b"
proof -
  assume "run_born a" and "run_later a b"
  then obtain m n where "(RunQueued, run_status a) \<in> run_move ^^ m" "run_fencing_token a = int m"
    "(run_status a, run_status b) \<in> run_move ^^ n" "run_fencing_token b = run_fencing_token a + int n"
    unfolding run_born_def run_later_def by blast
  then show ?thesis unfolding run_born_def by (intro exI [of _ "m + n"]) (auto simp: relpow_add)
qed

lemma run_later_terminal: "run_later r r' \<Longrightarrow> is_terminal (run_status r) \<Longrightarrow> r' = r"
  unfolding run_later_def using relpow_from_terminal by blast

lemma run_later_token: "run_later r r' \<Longrightarrow> run_fencing_token r \<le> run_fencing_token r'"
  unfolding run_later_def by auto

lemma run_later_same_token:
  "run_later r r' \<Longrightarrow> run_fencing_token r' = run_fencing_token r \<Longrightarrow> r' = r"
  unfolding run_later_def by auto

lemma run_history_refl: "run_history s s"
  unfolding run_history_def using run_later_refl by auto

lemma run_historyI:
  assumes "\<And>k r. dict_get (runs_items s) k = Some r \<Longrightarrow>
      \<exists>r'. dict_get (runs_items t) k = Some r' \<and> run_later r r'"
    and "\<And>k r. dict_get (runs_items s) k = None \<Longrightarrow> dict_get (runs_items t) k = Some r \<Longrightarrow>
      run_born r"
  shows "run_history s t"
  unfolding run_history_def using assms by blast

lemma run_history_old:
  "run_history s t \<Longrightarrow> dict_get (runs_items s) k = Some r \<Longrightarrow>
   \<exists>r'. dict_get (runs_items t) k = Some r' \<and> run_later r r'"
  unfolding run_history_def by blast

lemma run_history_new:
  "run_history s t \<Longrightarrow> dict_get (runs_items s) k = None \<Longrightarrow>
   dict_get (runs_items t) k = Some r \<Longrightarrow> run_born r"
  unfolding run_history_def by blast

lemma run_history_trans:
  assumes st: "run_history s t" and tu: "run_history t u"
  shows "run_history s u"
proof (rule run_historyI)
  fix k r
  assume "dict_get (runs_items s) k = Some r"
  from run_history_old [OF st this] obtain r1 where
    r1: "dict_get (runs_items t) k = Some r1" "run_later r r1" by blast
  from run_history_old [OF tu r1(1)] r1(2)
  show "\<exists>r'. dict_get (runs_items u) k = Some r' \<and> run_later r r'"
    by (blast intro: run_later_trans)
next
  fix k r
  assume s: "dict_get (runs_items s) k = None" and u: "dict_get (runs_items u) k = Some r"
  show "run_born r"
  proof (cases "dict_get (runs_items t) k")
    case None
    from run_history_new [OF tu this u] show ?thesis .
  next
    case (Some r1)
    from run_history_old [OF tu Some] u have "run_later r1 r" by auto
    with run_history_new [OF st s Some] show ?thesis by (rule run_born_later)
  qed
qed

lemma run_history_set:
  assumes "runs_items t = dict_set (run_key u) u (runs_items s)"
    and "case dict_get (runs_items s) (run_key u) of None \<Rightarrow> run_born u | Some c \<Rightarrow> run_later c u"
  shows "run_history s t"
proof (rule run_historyI)
  fix k r
  assume "dict_get (runs_items s) k = Some r"
  with assms show "\<exists>r'. dict_get (runs_items t) k = Some r' \<and> run_later r r'"
    by (cases "k = run_key u") (auto simp: run_later_refl)
next
  fix k r
  assume "dict_get (runs_items s) k = None" and "dict_get (runs_items t) k = Some r"
  with assms show "run_born r" by (cases "k = run_key u") auto
qed

lemma run_history_add:
  assumes "run_add r s = Inr t" and "run_status r = RunQueued" and "run_fencing_token r = 0"
  shows "run_history s t"
proof (rule run_history_set)
  show "runs_items t = dict_set (run_key r) r (runs_items s)" using run_add_Inr(3) [OF assms(1)] .
  have "run_born r" unfolding run_born_def using assms(2,3) by (intro exI [of _ 0]) simp
  then show "case dict_get (runs_items s) (run_key r) of None \<Rightarrow> run_born r | Some c \<Rightarrow> run_later c r"
    using run_add_Inr(1) [OF assms(1)] by simp
qed

text \<open>
  A compare-and-set whose update was built from some version \<open>r\<close> of the run, by one accepted
  transition, respects the histories: it can only succeed on that very version.
\<close>

lemma run_history_cas:
  assumes cas: "run_cas (run_status r) u s = Inr (b, t)"
    and known: "dict_get (runs_items s) (run_key r) = Some c" "run_later r c"
    and edge: "(run_status r, run_status u) \<in> run_move"
    and same: "run_same r u" and token: "run_fencing_token u = run_fencing_token r + 1"
  shows "run_history s t" and "b \<Longrightarrow> c = r \<and> dict_get (runs_items t) (run_key u) = Some u"
proof -
  note keys = run_same_keys [OF same]
  show "run_history s t"
    using cas
  proof (cases rule: run_cas_cases)
    case (2 c')
    with known keys have "c' = c" by simp
    with 2 token known(2) have "c = r" by (intro run_later_same_token) simp_all
    with edge same token have "run_later c u"
      unfolding run_later_def by (intro conjI exI [of _ 1]) auto
    with 2 \<open>c' = c\<close> show ?thesis by (intro run_history_set [of _ u]) simp_all
  qed (simp add: run_history_refl)
  show "b \<Longrightarrow> c = r \<and> dict_get (runs_items t) (run_key u) = Some u"
    using cas
  proof (cases rule: run_cas_cases)
    case (2 c')
    with known keys have "c' = c" by simp
    with 2 token known(2) show ?thesis by (auto intro: run_later_same_token)
  qed simp
qed

interpretation run_history: evolution run_history
  using run_history_refl run_history_trans by unfold_locales

end
