(* ===== verification/Memory_Approvals.thy ===== *)
theory Memory_Approvals
  imports Memory_Runs
begin

section \<open>In-memory approval repository\<close>

text \<open>
  \<^verbatim>\<open>InMemoryApprovalRepository\<close> of \<^verbatim>\<open>src/src/harness/adapters/memory.py\<close>: approvals by
  tenant and id, with an index by tenant, run and tool call. The compare-and-set compares the
  status only. \<open>approval_history\<close> is the relation every write of an approval must respect: an
  approval leaves the pending status at most once and is never changed afterwards.
\<close>

record approval_repo =
  approvals_items :: "(string \<times> string, approval_request) dict"
  approvals_by_tool :: "(string \<times> string \<times> string, string) dict"

definition approval_repo_empty :: approval_repo where
  "approval_repo_empty = \<lparr>approvals_items = [], approvals_by_tool = []\<rparr>"

definition approval_key :: "approval_request \<Rightarrow> string \<times> string" where
  "approval_key a = (approval_tenant_id a, approval_id a)"

definition approval_tool_key :: "approval_request \<Rightarrow> string \<times> string \<times> string" where
  "approval_tool_key a = (approval_tenant_id a, approval_run_id a, approval_tool_call_id a)"

definition approval_add :: "approval_request \<Rightarrow> approval_repo \<Rightarrow> herror + approval_repo" where
  "approval_add a repo =
     (if dict_has (approvals_items repo) (approval_key a) \<or>
         dict_has (approvals_by_tool repo) (approval_tool_key a)
      then Inl (ConflictError (''approval already exists: '' @ approval_id a))
      else Inr (repo\<lparr>approvals_items := dict_set (approval_key a) a (approvals_items repo),
                     approvals_by_tool :=
                       dict_set (approval_tool_key a) (approval_id a) (approvals_by_tool repo)\<rparr>))"

definition approval_get :: "approval_repo \<Rightarrow> string \<Rightarrow> string \<Rightarrow> herror + approval_request" where
  "approval_get repo tenant_id aid =
     (case dict_get (approvals_items repo) (tenant_id, aid) of
        None \<Rightarrow> Inl (NotFoundError (''approval not found: '' @ aid))
      | Some a \<Rightarrow> Inr a)"

definition approval_find_by_tool_call ::
  "approval_repo \<Rightarrow> string \<Rightarrow> string \<Rightarrow> string \<Rightarrow> herror + approval_request option" where
  "approval_find_by_tool_call repo tenant_id rid tcid =
     (case dict_get (approvals_by_tool repo) (tenant_id, rid, tcid) of
        None \<Rightarrow> Inr None
      | Some aid \<Rightarrow>
          (case dict_get (approvals_items repo) (tenant_id, aid) of
             None \<Rightarrow> Inl KeyError
           | Some a \<Rightarrow> Inr (Some a)))"

definition approval_cas ::
  "approval_status \<Rightarrow> approval_request \<Rightarrow> approval_repo \<Rightarrow> herror + (bool \<times> approval_repo)" where
  "approval_cas expected_status updated repo =
     (case dict_get (approvals_items repo) (approval_key updated) of
        None \<Rightarrow> Inl (NotFoundError (''approval not found: '' @ approval_id updated))
      | Some current \<Rightarrow>
          if approval_status current \<noteq> expected_status then Inr (False, repo)
          else Inr (True, repo\<lparr>approvals_items :=
            dict_set (approval_key updated) updated (approvals_items repo)\<rparr>))"

definition approval_list_expired_pending ::
  "approval_repo \<Rightarrow> time \<Rightarrow> int \<Rightarrow> approval_request list" where
  "approval_list_expired_pending repo expires_at_or_before max_items =
     py_prefix max_items (py_sorted approval_expires_at
       (filter (\<lambda>a. approval_status a = ApprovalPending \<and>
                    approval_expires_at a \<le> expires_at_or_before)
          (dict_values (approvals_items repo))))"

definition approval_list_for_runs ::
  "approval_repo \<Rightarrow> string \<Rightarrow> string list \<Rightarrow> approval_request list" where
  "approval_list_for_runs repo tenant_id run_ids =
     py_sorted_desc (\<lambda>a. (approval_created_at a, approval_id a))
       (map snd (filter (\<lambda>((item_tenant, _), a).
          item_tenant = tenant_id \<and> approval_run_id a \<in> set run_ids) (approvals_items repo)))"

definition approval_lookup :: "approval_repo \<Rightarrow> string \<times> string \<Rightarrow> herror + approval_request" where
  "approval_lookup repo k = approval_get repo (fst k) (snd k)"

interpretation approvals: keyed_store approval_add approval_lookup approval_key
  by unfold_locales
     (auto simp: approval_add_def approval_lookup_def approval_get_def approval_key_def
       split: prod.splits if_splits option.splits)

lemma approval_list_expired_pending_sound:
  assumes "a \<in> set (approval_list_expired_pending repo now n)"
  shows "approval_status a = ApprovalPending \<and> approval_expires_at a \<le> now"
  using assms set_py_prefix unfolding approval_list_expired_pending_def by fastforce

subsection \<open>Histories\<close>

definition approval_later :: "approval_request \<Rightarrow> approval_request \<Rightarrow> bool" where
  "approval_later a a' \<longleftrightarrow>
     a' = a \<or> (approval_status a = ApprovalPending \<and> approval_status a' \<noteq> ApprovalPending \<and>
               a' = a\<lparr>approval_status := approval_status a'\<rparr>)"

definition approval_history :: "approval_repo \<Rightarrow> approval_repo \<Rightarrow> bool" where
  "approval_history s t \<longleftrightarrow>
     (\<forall>k a. dict_get (approvals_items s) k = Some a \<longrightarrow>
        (\<exists>a'. dict_get (approvals_items t) k = Some a' \<and> approval_later a a'))"

lemma approval_later_trans: "approval_later a b \<Longrightarrow> approval_later b c \<Longrightarrow> approval_later a c"
  by (auto simp: approval_later_def)

lemma approval_historyI:
  assumes "\<And>k a. dict_get (approvals_items s) k = Some a \<Longrightarrow>
    \<exists>a'. dict_get (approvals_items t) k = Some a' \<and> approval_later a a'"
  shows "approval_history s t"
  unfolding approval_history_def using assms by blast

lemma approval_historyD:
  "approval_history s t \<Longrightarrow> dict_get (approvals_items s) k = Some a \<Longrightarrow>
   \<exists>a'. dict_get (approvals_items t) k = Some a' \<and> approval_later a a'"
  unfolding approval_history_def by blast

interpretation approval_history: evolution approval_history
proof
  show "approval_history s s" for s
    by (rule approval_historyI) (simp add: approval_later_def)
next
  fix s t u
  assume st: "approval_history s t" and tu: "approval_history t u"
  show "approval_history s u"
  proof (rule approval_historyI)
    fix k a
    assume "dict_get (approvals_items s) k = Some a"
    from approval_historyD [OF st this] obtain b
      where b: "dict_get (approvals_items t) k = Some b" "approval_later a b" by blast
    from approval_historyD [OF tu b(1)] b(2)
    show "\<exists>a'. dict_get (approvals_items u) k = Some a' \<and> approval_later a a'"
      by (blast intro: approval_later_trans)
  qed
qed

lemma approval_history_add: "approval_add a s = Inr t \<Longrightarrow> approval_history s t"
proof (rule approval_historyI)
  fix k b
  assume add: "approval_add a s = Inr t" and b: "dict_get (approvals_items s) k = Some b"
  have "approval_lookup s k = Inr b" using b by (simp add: approval_lookup_def approval_get_def)
  with add have "approval_lookup t k = Inr b" by (rule approvals.add_keeps)
  then show "\<exists>a'. dict_get (approvals_items t) k = Some a' \<and> approval_later b a'"
    by (auto simp: approval_lookup_def approval_get_def approval_later_def split: option.splits)
qed

lemma approval_cas_cases:
  assumes "approval_cas e u repo = Inr (b, t)"
  obtains "\<not> b" and "t = repo"
  | c where "b" and "dict_get (approvals_items repo) (approval_key u) = Some c"
      and "approval_status c = e"
      and "t = repo\<lparr>approvals_items := dict_set (approval_key u) u (approvals_items repo)\<rparr>"
  using assms by (auto simp: approval_cas_def split: option.splits if_splits)

lemma approval_later_key: "approval_later a b \<Longrightarrow> approval_key b = approval_key a"
  unfolding approval_later_def by (cases a, cases b) (auto simp: approval_key_def)

lemma approval_later_pending:
  "approval_later a b \<Longrightarrow> approval_status b = ApprovalPending \<Longrightarrow> b = a"
  by (auto simp: approval_later_def)

lemma approval_history_cas:
  assumes cas: "approval_cas ApprovalPending (a\<lparr>approval_status := d\<rparr>) s = Inr (b, t)"
    and known: "dict_get (approvals_items s) (approval_key a) = Some c" "approval_later a c"
    and decided: "d \<noteq> ApprovalPending"
  shows "approval_history s t"
    and "b \<Longrightarrow> dict_get (approvals_items t) (approval_key a) = Some (a\<lparr>approval_status := d\<rparr>)"
proof -
  have k: "approval_key (a\<lparr>approval_status := d\<rparr>) = approval_key a" by (simp add: approval_key_def)
  show "approval_history s t"
    using cas
  proof (cases rule: approval_cas_cases)
    case (2 c')
    with known k have "c' = a" by (auto dest: approval_later_pending)
    show ?thesis
    proof (rule approval_historyI)
      fix k' x
      assume "dict_get (approvals_items s) k' = Some x"
      with 2 \<open>c' = a\<close> decided k
      show "\<exists>a'. dict_get (approvals_items t) k' = Some a' \<and> approval_later x a'"
        by (cases "k' = approval_key a") (auto simp: approval_later_def)
    qed
  qed (simp add: approval_history.R_refl)
  show "b \<Longrightarrow> dict_get (approvals_items t) (approval_key a) = Some (a\<lparr>approval_status := d\<rparr>)"
    using cas
  proof (cases rule: approval_cas_cases)
    case (2 c')
    then show ?thesis by (simp add: k)
  qed simp
qed

subsection \<open>The invariant\<close>

text \<open>Items are stored under their own key, and the tool index names exactly the items.\<close>

definition approval_repo_inv :: "approval_repo \<Rightarrow> bool" where
  "approval_repo_inv repo \<longleftrightarrow>
     (\<forall>k a. dict_get (approvals_items repo) k = Some a \<longrightarrow>
        approval_key a = k \<and>
        dict_get (approvals_by_tool repo) (approval_tool_key a) = Some (approval_id a)) \<and>
     (\<forall>k i. dict_get (approvals_by_tool repo) k = Some i \<longrightarrow>
        (\<exists>a. dict_get (approvals_items repo) (fst k, i) = Some a \<and> approval_tool_key a = k))"

lemma approval_repo_invI:
  assumes "\<And>k a. dict_get (approvals_items repo) k = Some a \<Longrightarrow>
      approval_key a = k \<and>
      dict_get (approvals_by_tool repo) (approval_tool_key a) = Some (approval_id a)"
    and "\<And>k i. dict_get (approvals_by_tool repo) k = Some i \<Longrightarrow>
      \<exists>a. dict_get (approvals_items repo) (fst k, i) = Some a \<and> approval_tool_key a = k"
  shows "approval_repo_inv repo"
  unfolding approval_repo_inv_def using assms by blast

lemma approval_repo_inv_item:
  assumes "approval_repo_inv repo" and "dict_get (approvals_items repo) k = Some a"
  shows "approval_key a = k"
    and "dict_get (approvals_by_tool repo) (approval_tool_key a) = Some (approval_id a)"
  using assms unfolding approval_repo_inv_def by blast+

lemma approval_repo_inv_tool:
  assumes "approval_repo_inv repo" and "dict_get (approvals_by_tool repo) k = Some i"
  obtains a where "dict_get (approvals_items repo) (fst k, i) = Some a" and "approval_tool_key a = k"
  using assms unfolding approval_repo_inv_def by blast

lemma approval_repo_inv_empty: "approval_repo_inv approval_repo_empty"
  by (simp add: approval_repo_inv_def approval_repo_empty_def)

lemma approval_repo_inv_add:
  assumes inv: "approval_repo_inv s" and add: "approval_add a s = Inr t"
  shows "approval_repo_inv t"
proof (rule approval_repo_invI)
  from add have none: "dict_get (approvals_items s) (approval_key a) = None"
      "dict_get (approvals_by_tool s) (approval_tool_key a) = None"
    and t: "t = s\<lparr>approvals_items := dict_set (approval_key a) a (approvals_items s),
      approvals_by_tool := dict_set (approval_tool_key a) (approval_id a) (approvals_by_tool s)\<rparr>"
    by (auto simp: approval_add_def split: if_splits)
  show "approval_key x = k \<and>
      dict_get (approvals_by_tool t) (approval_tool_key x) = Some (approval_id x)"
    if "dict_get (approvals_items t) k = Some x" for k x
    using that approval_repo_inv_item [OF inv, of k x] none
    by (cases "k = approval_key a") (auto simp: t)
  show "\<exists>x. dict_get (approvals_items t) (fst k, i) = Some x \<and> approval_tool_key x = k"
    if "dict_get (approvals_by_tool t) k = Some i" for k i
  proof (cases "k = approval_tool_key a")
    case True
    then show ?thesis using that by (auto simp: t approval_key_def approval_tool_key_def)
  next
    case False
    with that have old: "dict_get (approvals_by_tool s) k = Some i" by (simp add: t)
    obtain x where x: "dict_get (approvals_items s) (fst k, i) = Some x" "approval_tool_key x = k"
      using inv old by (rule approval_repo_inv_tool)
    have "(fst k, i) \<noteq> approval_key a" using x(1) none by auto
    then show ?thesis using x by (auto simp: t)
  qed
qed

lemma approval_repo_inv_cas:
  assumes inv: "approval_repo_inv s" and cas: "approval_cas e (a\<lparr>approval_status := d\<rparr>) s = Inr (b, t)"
    and known: "dict_get (approvals_items s) (approval_key a) = Some c" "approval_later a c"
  shows "approval_repo_inv t"
  using cas
proof (cases rule: approval_cas_cases)
  case (2 c')
  let ?u = "a\<lparr>approval_status := d\<rparr>"
  have same: "approval_key ?u = approval_key c" "approval_tool_key ?u = approval_tool_key c"
    "approval_id ?u = approval_id c" "approval_key a = approval_key c"
    using known(2) unfolding approval_later_def
    by (cases a, cases c, auto simp: approval_key_def approval_tool_key_def)+
  note c = known(1) [unfolded same(4)]
  show ?thesis
  proof (rule approval_repo_invI)
    show "approval_key x = k \<and>
        dict_get (approvals_by_tool t) (approval_tool_key x) = Some (approval_id x)"
      if "dict_get (approvals_items t) k = Some x" for k x
      using that approval_repo_inv_item [OF inv, of k x] approval_repo_inv_item [OF inv c] same
      by (cases "k = approval_key c") (auto simp: 2)
    show "\<exists>x. dict_get (approvals_items t) (fst k, i) = Some x \<and> approval_tool_key x = k"
      if "dict_get (approvals_by_tool t) k = Some i" for k i
    proof -
      have old: "dict_get (approvals_by_tool s) k = Some i" using that by (simp add: 2)
      obtain x where x: "dict_get (approvals_items s) (fst k, i) = Some x" "approval_tool_key x = k"
        using inv old by (rule approval_repo_inv_tool)
      then show ?thesis using c same by (cases "(fst k, i) = approval_key c") (auto simp: 2)
    qed
  qed
qed (use inv in simp)

end
