(* ===== verification/Memory_Queue.thy ===== *)
theory Memory_Queue
  imports Store_Contracts
begin

section \<open>In-memory task queue\<close>

text \<open>
  \<^verbatim>\<open>InMemoryTaskQueue\<close> of \<^verbatim>\<open>src/src/harness/adapters/memory.py\<close>: the waiting tasks in order, the
  keys enqueued and not yet acknowledged, and the keys handed to a worker. The sets are lists
  without order: only membership is used. The locale \<open>task_queue_laws\<close> is what a worker may
  rely on when it dequeues a task and then acknowledges or retries that task.
\<close>

record task_queue =
  queue_items :: "run_task list"
  queue_pending :: "(string \<times> string) list"
  queue_leased :: "(string \<times> string) list"

definition queue_empty :: task_queue where
  "queue_empty = \<lparr>queue_items = [], queue_pending = [], queue_leased = []\<rparr>"

definition task_key :: "run_task \<Rightarrow> string \<times> string" where
  "task_key t = (task_tenant_id t, task_run_id t)"

definition set_add :: "'a \<Rightarrow> 'a list \<Rightarrow> 'a list" where
  "set_add x xs = (if x \<in> set xs then xs else xs @ [x])"

definition queue_enqueue :: "run_task \<Rightarrow> task_queue \<Rightarrow> task_queue" where
  "queue_enqueue t q =
     (if task_key t \<notin> set (queue_pending q)
      then q\<lparr>queue_pending := set_add (task_key t) (queue_pending q),
             queue_items := queue_items q @ [t]\<rparr>
      else q)"

definition queue_dequeue :: "task_queue \<Rightarrow> run_task option \<times> task_queue" where
  "queue_dequeue q =
     (case queue_items q of
        [] \<Rightarrow> (None, q)
      | t # ts \<Rightarrow>
          (Some t, q\<lparr>queue_items := ts, queue_leased := set_add (task_key t) (queue_leased q)\<rparr>))"

definition queue_acknowledge :: "run_task \<Rightarrow> task_queue \<Rightarrow> task_queue" where
  "queue_acknowledge t q =
     q\<lparr>queue_leased := removeAll (task_key t) (queue_leased q),
       queue_pending := removeAll (task_key t) (queue_pending q)\<rparr>"

definition queue_retry :: "run_task \<Rightarrow> task_queue \<Rightarrow> task_queue" where
  "queue_retry t q =
     (if task_key t \<in> set (queue_leased q)
      then q\<lparr>queue_leased := removeAll (task_key t) (queue_leased q),
             queue_items := queue_items q @ [t]\<rparr>
      else q)"

definition queue_extend_lease :: "run_task \<Rightarrow> task_queue \<Rightarrow> task_queue" where
  "queue_extend_lease t q = q"

definition queue_stats :: "task_queue \<Rightarrow> int \<times> int" where
  "queue_stats q = (int (length (queue_items q)), int (length (queue_leased q)))"

subsection \<open>Invariant and contract\<close>

text \<open>
  The waiting keys are distinct and disjoint from the leased ones, and together they are the
  pending keys: every pending task is either waiting or in the hands of one worker.
\<close>

definition queue_inv :: "task_queue \<Rightarrow> bool" where
  "queue_inv q \<longleftrightarrow>
     distinct (map task_key (queue_items q)) \<and> distinct (queue_leased q) \<and>
     distinct (queue_pending q) \<and>
     set (map task_key (queue_items q)) \<inter> set (queue_leased q) = {} \<and>
     set (queue_pending q) = set (map task_key (queue_items q)) \<union> set (queue_leased q)"

datatype queue_op =
    Enqueue run_task
  | Dequeue
  | Acknowledge run_task
  | Retry run_task
  | ExtendLease run_task

fun queue_apply :: "queue_op \<Rightarrow> task_queue \<Rightarrow> task_queue" where
  "queue_apply (Enqueue t) q = queue_enqueue t q"
| "queue_apply Dequeue q = snd (queue_dequeue q)"
| "queue_apply (Acknowledge t) q = queue_acknowledge t q"
| "queue_apply (Retry t) q = queue_retry t q"
| "queue_apply (ExtendLease t) q = queue_extend_lease t q"

text \<open>The worker's discipline: it acknowledges only what it holds.\<close>

fun queue_op_allowed :: "queue_op \<Rightarrow> task_queue \<Rightarrow> bool" where
  "queue_op_allowed (Acknowledge t) q \<longleftrightarrow> task_key t \<in> set (queue_leased q)"
| "queue_op_allowed _ _ \<longleftrightarrow> True"

inductive queue_reachable :: "task_queue \<Rightarrow> bool" where
  start: "queue_reachable queue_empty"
| step: "queue_reachable q \<Longrightarrow> queue_op_allowed op q \<Longrightarrow> queue_reachable (queue_apply op q)"

lemma set_set_add [simp]: "set (set_add x xs) = insert x (set xs)"
  by (auto simp: set_add_def)

lemma distinct_set_add [simp]: "distinct xs \<Longrightarrow> distinct (set_add x xs)"
  by (auto simp: set_add_def)

lemma queue_inv_apply:
  "queue_inv q \<Longrightarrow> queue_op_allowed op q \<Longrightarrow> queue_inv (queue_apply op q)"
proof (cases op)
  case (Enqueue t)
  assume "queue_inv q"
  with Enqueue show ?thesis
    by (auto simp: queue_inv_def queue_enqueue_def)
next
  case Dequeue
  assume "queue_inv q"
  with Dequeue show ?thesis
    by (auto simp: queue_inv_def queue_dequeue_def disjoint_iff split: list.splits)
next
  case (Acknowledge t)
  assume "queue_inv q" "queue_op_allowed op q"
  with Acknowledge show ?thesis
    by (auto simp: queue_inv_def queue_acknowledge_def distinct_removeAll)
next
  case (Retry t)
  assume "queue_inv q"
  with Retry show ?thesis
    by (auto simp: queue_inv_def queue_retry_def distinct_removeAll)
next
  case (ExtendLease t)
  assume "queue_inv q"
  with ExtendLease show ?thesis by (simp add: queue_extend_lease_def)
qed

lemma queue_reachable_inv: "queue_reachable q \<Longrightarrow> queue_inv q"
  by (induction rule: queue_reachable.induct)
     (simp_all add: queue_inv_apply, simp add: queue_inv_def queue_empty_def)

locale task_queue_laws =
  fixes enqueue :: "run_task \<Rightarrow> 'q \<Rightarrow> 'q"
    and dequeue :: "'q \<Rightarrow> run_task option \<times> 'q"
    and acknowledge :: "run_task \<Rightarrow> 'q \<Rightarrow> 'q"
    and retry :: "run_task \<Rightarrow> 'q \<Rightarrow> 'q"
    and waiting :: "'q \<Rightarrow> run_task list"
    and leased :: "'q \<Rightarrow> (string \<times> string) set"
    and inv :: "'q \<Rightarrow> bool"
  assumes dequeue_fifo: "inv q \<Longrightarrow> dequeue q = (Some t, r) \<Longrightarrow>
      waiting q = t # waiting r \<and> leased r = insert (task_key t) (leased q) \<and>
      task_key t \<notin> leased q \<and> inv r"
    and dequeue_none: "inv q \<Longrightarrow> dequeue q = (None, r) \<Longrightarrow> waiting q = [] \<and> r = q"
    and enqueue_known: "inv q \<Longrightarrow> task_key t \<in> leased q \<union> task_key ` set (waiting q) \<Longrightarrow>
      enqueue t q = q"
    and enqueue_fresh: "inv q \<Longrightarrow> task_key t \<notin> leased q \<union> task_key ` set (waiting q) \<Longrightarrow>
      waiting (enqueue t q) = waiting q @ [t] \<and> leased (enqueue t q) = leased q \<and>
      inv (enqueue t q)"
    and acknowledge_leased: "inv q \<Longrightarrow> task_key t \<in> leased q \<Longrightarrow>
      waiting (acknowledge t q) = waiting q \<and>
      leased (acknowledge t q) = leased q - {task_key t} \<and> inv (acknowledge t q)"
    and retry_leased: "inv q \<Longrightarrow> task_key t \<in> leased q \<Longrightarrow>
      waiting (retry t q) = waiting q @ [t] \<and>
      leased (retry t q) = leased q - {task_key t} \<and> inv (retry t q)"
begin

text \<open>A dequeued task that is retried waits at the end; acknowledged, it is gone.\<close>

lemma dequeue_retry:
  assumes "inv q" and "dequeue q = (Some t, r)"
  shows "waiting (retry t r) = tl (waiting q) @ [t] \<and> leased (retry t r) = leased q"
  using dequeue_fifo [OF assms] retry_leased [of r t] by auto

lemma dequeue_acknowledge:
  assumes "inv q" and "dequeue q = (Some t, r)"
  shows "waiting (acknowledge t r) = tl (waiting q) \<and> leased (acknowledge t r) = leased q"
  using dequeue_fifo [OF assms] acknowledge_leased [of r t] by auto

lemma retry_again:
  assumes "inv q" and "dequeue q = (Some t, r)" and "waiting q = [t]"
  shows "fst (dequeue (retry t r)) = Some t"
proof -
  from dequeue_fifo [OF assms(1,2)] have r: "inv r" "task_key t \<in> leased r" by auto
  from retry_leased [OF r] have inv': "inv (retry t r)" and w: "waiting (retry t r) = [t]"
    using dequeue_fifo [OF assms(1,2)] assms(3) by auto
  obtain o1 q' where d: "dequeue (retry t r) = (o1, q')" by (cases "dequeue (retry t r)")
  show ?thesis
  proof (cases o1)
    case None
    with d dequeue_none [OF inv', of q'] w show ?thesis by simp
  next
    case (Some u)
    with d dequeue_fifo [OF inv', of u q'] w show ?thesis by simp
  qed
qed

end

interpretation memory_queue: task_queue_laws
  queue_enqueue queue_dequeue queue_acknowledge queue_retry queue_items
  "\<lambda>q. set (queue_leased q)" queue_inv
proof
  fix q t r
  assume inv: "queue_inv q"
  {
    assume d: "queue_dequeue q = (Some t, r)"
    have "queue_inv r" using queue_inv_apply [OF inv, of Dequeue] d by simp
    with inv d show "queue_items q = t # queue_items r \<and>
      set (queue_leased r) = insert (task_key t) (set (queue_leased q)) \<and>
      task_key t \<notin> set (queue_leased q) \<and> queue_inv r"
      by (auto simp: queue_dequeue_def queue_inv_def split: list.splits)
  next
    assume "queue_dequeue q = (None, r)"
    then show "queue_items q = [] \<and> r = q"
      by (auto simp: queue_dequeue_def split: list.splits)
  next
    assume "task_key t \<in> set (queue_leased q) \<union> task_key ` set (queue_items q)"
    with inv show "queue_enqueue t q = q" by (auto simp: queue_enqueue_def queue_inv_def)
  next
    assume "task_key t \<notin> set (queue_leased q) \<union> task_key ` set (queue_items q)"
    with inv queue_inv_apply [OF inv, of "Enqueue t"]
    show "queue_items (queue_enqueue t q) = queue_items q @ [t] \<and>
      set (queue_leased (queue_enqueue t q)) = set (queue_leased q) \<and>
      queue_inv (queue_enqueue t q)"
      by (auto simp: queue_enqueue_def queue_inv_def)
  next
    assume "task_key t \<in> set (queue_leased q)"
    with queue_inv_apply [OF inv, of "Acknowledge t"]
    show "queue_items (queue_acknowledge t q) = queue_items q \<and>
      set (queue_leased (queue_acknowledge t q)) = set (queue_leased q) - {task_key t} \<and>
      queue_inv (queue_acknowledge t q)"
      by (simp add: queue_acknowledge_def)
  next
    assume "task_key t \<in> set (queue_leased q)"
    with queue_inv_apply [OF inv, of "Retry t"]
    show "queue_items (queue_retry t q) = queue_items q @ [t] \<and>
      set (queue_leased (queue_retry t q)) = set (queue_leased q) - {task_key t} \<and>
      queue_inv (queue_retry t q)"
      by (simp add: queue_retry_def)
  }
qed

subsection \<open>Properties\<close>

text \<open>
  C30. Whatever producers and workers do, as long as a worker acknowledges only a task it
  holds, every key that is pending is either waiting exactly once or held by exactly one
  worker, never both; so no task is lost and none is delivered to two workers at once.
\<close>

theorem queue_single_delivery:
  assumes "queue_reachable q"
  shows "distinct (map task_key (queue_items q) @ queue_leased q) \<and>
    set (queue_pending q) = set (map task_key (queue_items q)) \<union> set (queue_leased q)"
  using queue_reachable_inv [OF assms] by (auto simp: queue_inv_def)

definition sample_task :: run_task where
  "sample_task = \<lparr>task_tenant_id = ''t'', task_run_id = ''r'', task_session_id = None\<rparr>"

lemma sample_queue_reachable:
  "queue_reachable \<lparr>queue_items = [sample_task], queue_pending = [(''t'', ''r'')], queue_leased = []\<rparr>"
proof -
  have "queue_reachable (queue_apply (Enqueue sample_task) queue_empty)"
    by (intro queue_reachable.intros) simp
  then show ?thesis
    by (simp add: queue_enqueue_def queue_empty_def sample_task_def task_key_def set_add_def)
qed

theorem queue_single_delivery_witness:
  "distinct (map task_key [sample_task] @ []) \<and>
   set [(''t'', ''r'')] = set (map task_key [sample_task]) \<union> set []"
  using queue_single_delivery [OF sample_queue_reachable] by simp

text \<open>
  A task enqueued while its previous delivery is still held by a worker is dropped: when
  that worker acknowledges, the key is neither waiting nor pending, exactly as if the second
  enqueue had not happened.
\<close>

theorem queue_enqueue_while_leased_is_lost:
  assumes "queue_reachable q" and "queue_dequeue q = (Some t, r)" and "task_key u = task_key t"
  shows "queue_acknowledge t (queue_enqueue u r) = queue_acknowledge t r \<and>
    task_key u \<notin> set (map task_key (queue_items (queue_acknowledge t (queue_enqueue u r)))) \<and>
    task_key u \<notin> set (queue_pending (queue_acknowledge t (queue_enqueue u r)))"
proof -
  note d = memory_queue.dequeue_fifo [OF queue_reachable_inv [OF assms(1)] assms(2)]
  then have e: "queue_enqueue u r = r"
    by (intro memory_queue.enqueue_known) (auto simp: assms(3))
  from d have "task_key t \<notin> set (map task_key (queue_items r))"
    by (auto simp: queue_inv_def)
  then show ?thesis by (simp add: e assms(3) queue_acknowledge_def)
qed

theorem queue_enqueue_while_leased_is_lost_witness:
  "let r = snd (queue_dequeue
        \<lparr>queue_items = [sample_task], queue_pending = [(''t'', ''r'')], queue_leased = []\<rparr>)
   in queue_acknowledge sample_task (queue_enqueue sample_task r) =
      queue_acknowledge sample_task r"
proof -
  have "queue_dequeue
      \<lparr>queue_items = [sample_task], queue_pending = [(''t'', ''r'')], queue_leased = []\<rparr> =
    (Some sample_task, \<lparr>queue_items = [], queue_pending = [(''t'', ''r'')],
       queue_leased = [(''t'', ''r'')]\<rparr>)"
    by (simp add: queue_dequeue_def sample_task_def task_key_def set_add_def)
  from queue_enqueue_while_leased_is_lost [OF sample_queue_reachable this refl] this
  show ?thesis by simp
qed

end
