(* ===== verification/Memory_Events.thy ===== *)
theory Memory_Events
  imports Store_Contracts
begin

section \<open>In-memory event log and bus\<close>

text \<open>
  \<^verbatim>\<open>InMemoryEventRepository\<close> and \<^verbatim>\<open>InMemoryEventBus\<close> of
  \<^verbatim>\<open>src/src/harness/adapters/memory.py\<close>. The log keeps one list per run and an index by event
  id over all runs; appending an event twice is accepted when it is the same event. The
  missing-key reads of the \<^verbatim>\<open>defaultdict\<close>s give the empty list. \<open>event_log\<close> is the contract
  the event service needs.
\<close>

record event_repo =
  events_items :: "(string \<times> string, run_event list) dict"
  events_by_id :: "(string, run_event) dict"

definition event_repo_empty :: event_repo where
  "event_repo_empty = \<lparr>events_items = [], events_by_id = []\<rparr>"

abbreviation event_stream :: "event_repo \<Rightarrow> string \<times> string \<Rightarrow> run_event list" where
  "event_stream repo k \<equiv> dict_get_or (events_items repo) k []"

definition event_stream_key :: "run_event \<Rightarrow> string \<times> string" where
  "event_stream_key e = (event_tenant_id e, event_run_id e)"

definition event_append :: "run_event \<Rightarrow> event_repo \<Rightarrow> herror + event_repo" where
  "event_append e repo =
     (case dict_get (events_by_id repo) (event_id e) of
        Some existing \<Rightarrow>
          if \<not> run_event_eq existing e
          then Inl (ConflictError
            (''event id already contains different data: '' @ event_id e))
          else Inr repo
      | None \<Rightarrow>
          let key = event_stream_key e;
              expected_sequence = int (length (event_stream repo key)) + 1
          in if event_sequence e \<noteq> expected_sequence
             then Inl (EventSequenceConflictError
               (''event sequence must be '' @ str_of_int expected_sequence @ '', got '' @
                str_of_int (event_sequence e)))
             else Inr (repo\<lparr>events_items :=
                              dict_set key (event_stream repo key @ [e]) (events_items repo),
                            events_by_id := dict_set (event_id e) e (events_by_id repo)\<rparr>))"

definition event_list_after :: "event_repo \<Rightarrow> string \<Rightarrow> string \<Rightarrow> int \<Rightarrow> run_event list" where
  "event_list_after repo tenant_id rid after_sequence =
     filter (\<lambda>e. after_sequence < event_sequence e) (event_stream repo (tenant_id, rid))"

type_synonym event_bus = "(string \<times> string, run_event list) dict"

definition bus_publish :: "run_event \<Rightarrow> event_bus \<Rightarrow> event_bus" where
  "bus_publish e bus =
     (let k = event_stream_key e; events = dict_get_or bus k [] in
      if \<forall>existing \<in> set events. event_id existing \<noteq> event_id e
      then dict_set k (events @ [e]) bus
      else bus)"

definition bus_read :: "event_bus \<Rightarrow> string \<Rightarrow> string \<Rightarrow> int \<Rightarrow> run_event list" where
  "bus_read bus tenant_id rid after_sequence =
     filter (\<lambda>e. after_sequence < event_sequence e) (dict_get_or bus (tenant_id, rid) [])"

subsection \<open>The log's invariant\<close>

text \<open>The events of a run are numbered 1, 2, 3, ... in the order of the list.\<close>

definition numbered :: "run_event list \<Rightarrow> bool" where
  "numbered es \<longleftrightarrow> map event_sequence es = map int [1..<Suc (length es)]"

definition event_repo_inv :: "event_repo \<Rightarrow> bool" where
  "event_repo_inv repo \<longleftrightarrow>
     (\<forall>k. numbered (event_stream repo k)) \<and>
     (\<forall>k. \<forall>e \<in> set (event_stream repo k).
        event_stream_key e = k \<and> dict_get (events_by_id repo) (event_id e) = Some e) \<and>
     (\<forall>i e. dict_get (events_by_id repo) i = Some e \<longrightarrow> event_id e = i \<and>
        e \<in> set (event_stream repo (event_stream_key e)))"

lemma numbered_Nil [simp]: "numbered []"
  by (simp add: numbered_def)

lemma numbered_snoc: "numbered (es @ [e]) \<longleftrightarrow> numbered es \<and> event_sequence e = int (length es) + 1"
  by (auto simp: numbered_def)

lemma numbered_last: "numbered es \<Longrightarrow> es \<noteq> [] \<Longrightarrow> event_sequence (last es) = int (length es)"
  by (induction es rule: rev_induct) (auto simp: numbered_snoc)

lemma numbered_positive: "numbered es \<Longrightarrow> e \<in> set es \<Longrightarrow> 0 < event_sequence e"
  by (induction es rule: rev_induct) (auto simp: numbered_snoc)

lemma numbered_filter:
  "numbered es \<Longrightarrow> filter (\<lambda>e. int n < event_sequence e) es = drop n es"
proof (induction es rule: rev_induct)
  case (snoc e es)
  then show ?case by (auto simp: numbered_snoc)
qed simp

lemma event_list_after_all:
  "event_repo_inv repo \<Longrightarrow> event_list_after repo t r 0 = event_stream repo (t, r)"
  using numbered_filter [of "event_stream repo (t, r)" 0]
  by (simp add: event_list_after_def event_repo_inv_def)

lemma event_repo_inv_empty: "event_repo_inv event_repo_empty"
  by (simp add: event_repo_inv_def event_repo_empty_def dict_get_or_def)

lemma dict_get_or_set [simp, dict_simps]:
  "dict_get_or (dict_set k v d) k' w = (if k' = k then v else dict_get_or d k' w)"
  by (simp add: dict_get_or_def)

lemma event_append_cases:
  assumes "event_append e repo = Inr t"
  obtains (replay) x where "dict_get (events_by_id repo) (event_id e) = Some x"
      and "run_event_eq x e" and "t = repo"
  | (fresh) "dict_get (events_by_id repo) (event_id e) = None"
      and "event_sequence e = int (length (event_stream repo (event_stream_key e))) + 1"
      and "t = repo\<lparr>events_items := dict_set (event_stream_key e)
               (event_stream repo (event_stream_key e) @ [e]) (events_items repo),
             events_by_id := dict_set (event_id e) e (events_by_id repo)\<rparr>"
  using assms by (auto simp: event_append_def Let_def split: option.splits if_splits)

lemma event_repo_inv_append:
  assumes inv: "event_repo_inv repo" and app: "event_append e repo = Inr t"
  shows "event_repo_inv t"
  using app
proof (cases rule: event_append_cases)
  case fresh
  let ?k = "event_stream_key e"
  have old: "numbered (event_stream repo k)"
    "x \<in> set (event_stream repo k) \<Longrightarrow>
      event_stream_key x = k \<and> dict_get (events_by_id repo) (event_id x) = Some x"
    "dict_get (events_by_id repo) i = Some x \<Longrightarrow>
      event_id x = i \<and> x \<in> set (event_stream repo (event_stream_key x))" for k x i
    using inv unfolding event_repo_inv_def by blast+
  have stream: "event_stream t k = (if k = ?k then event_stream repo k @ [e] else event_stream repo k)"
    for k by (simp add: fresh)
  show ?thesis
    unfolding event_repo_inv_def
  proof (intro conjI allI ballI impI)
    show "numbered (event_stream t k)" for k
      using old(1) fresh(2) by (simp add: stream numbered_snoc)
  next
    fix k x
    assume "x \<in> set (event_stream t k)"
    then consider "x \<in> set (event_stream repo k)" | "k = ?k" and "x = e"
      by (auto simp: stream split: if_splits)
    then have "event_stream_key x = k \<and> dict_get (events_by_id t) (event_id x) = Some x"
    proof cases
      case 1
      with old(2) [OF 1] fresh(1) show ?thesis by (auto simp: fresh(3))
    qed (simp add: fresh(3))
    then show "event_stream_key x = k" "dict_get (events_by_id t) (event_id x) = Some x" by auto
  next
    fix i x
    assume "dict_get (events_by_id t) i = Some x"
    then have "event_id x = i \<and> x \<in> set (event_stream t (event_stream_key x))"
      using old(3) [of i x] by (auto simp: fresh(3) stream split: if_splits)
    then show "event_id x = i" "x \<in> set (event_stream t (event_stream_key x))" by auto
  qed
qed (use inv in simp)

subsection \<open>The contract of an event log\<close>

locale event_log =
  fixes append :: "run_event \<Rightarrow> 's \<Rightarrow> herror + 's"
    and stream :: "'s \<Rightarrow> string \<Rightarrow> string \<Rightarrow> run_event list"
    and known :: "'s \<Rightarrow> string \<Rightarrow> bool"
    and inv :: "'s \<Rightarrow> bool"
  assumes append_next: "inv s \<Longrightarrow> \<not> known s (event_id e) \<Longrightarrow>
      event_sequence e = int (length (stream s (event_tenant_id e) (event_run_id e))) + 1 \<Longrightarrow>
      \<exists>t. append e s = Inr t \<and> inv t \<and> known t (event_id e) \<and>
        (\<forall>a b. stream t a b = (if (a, b) = (event_tenant_id e, event_run_id e)
           then stream s a b @ [e] else stream s a b))"
    and append_gap: "inv s \<Longrightarrow> \<not> known s (event_id e) \<Longrightarrow>
      event_sequence e \<noteq> int (length (stream s (event_tenant_id e) (event_run_id e))) + 1 \<Longrightarrow>
      \<exists>m. append e s = Inl (EventSequenceConflictError m)"
    and stream_numbered: "inv s \<Longrightarrow> numbered (stream s a b)"
begin

lemma next_sequence:
  assumes "inv s"
  shows "(case stream s a b of [] \<Rightarrow> 1 | x # xs \<Rightarrow> event_sequence (last (x # xs)) + 1) =
    int (length (stream s a b)) + 1"
  using numbered_last [OF stream_numbered [OF assms], of a b] by (cases "stream s a b") simp_all

end

interpretation memory_events: event_log event_append
  "\<lambda>repo a b. event_list_after repo a b 0" "\<lambda>repo i. dict_has (events_by_id repo) i"
  event_repo_inv
proof
  fix s :: event_repo and e :: run_event and a b :: string
  assume inv: "event_repo_inv s"
  show "numbered (event_list_after s a b 0)"
    using inv unfolding event_list_after_all [OF inv] by (simp add: event_repo_inv_def)
  assume new: "\<not> dict_has (events_by_id s) (event_id e)"
  {
    assume seq: "event_sequence e =
      int (length (event_list_after s (event_tenant_id e) (event_run_id e) 0)) + 1"
    then obtain t where t: "event_append e s = Inr t"
      using new by (auto simp: event_append_def event_list_after_all [OF inv] event_stream_key_def
        Let_def)
    from event_repo_inv_append [OF inv t] have inv_t: "event_repo_inv t" .
    from t show "\<exists>t. event_append e s = Inr t \<and> event_repo_inv t \<and>
        dict_has (events_by_id t) (event_id e) \<and>
        (\<forall>a b. event_list_after t a b 0 = (if (a, b) = (event_tenant_id e, event_run_id e)
           then event_list_after s a b 0 @ [e] else event_list_after s a b 0))"
    proof (cases rule: event_append_cases)
      case fresh
      have "event_list_after t a b 0 = event_stream t (a, b)" for a b
        using inv_t by (rule event_list_after_all)
      moreover have "event_stream t (a, b) = (if (a, b) = (event_tenant_id e, event_run_id e)
          then event_stream s (a, b) @ [e] else event_stream s (a, b))" for a b
        by (auto simp: fresh(3) event_stream_key_def)
      moreover have "dict_has (events_by_id t) (event_id e)" by (simp add: fresh(3))
      ultimately show ?thesis using t inv_t by (simp add: event_list_after_all [OF inv])
    qed (use new in simp)
  next
    assume "event_sequence e \<noteq>
      int (length (event_list_after s (event_tenant_id e) (event_run_id e) 0)) + 1"
    with new show "\<exists>m. event_append e s = Inl (EventSequenceConflictError m)"
      by (simp add: event_append_def event_list_after_all [OF inv] event_stream_key_def Let_def)
  }
qed

end
