(* ===== verification/Quota_Models.thy ===== *)
theory Quota_Models
  imports Core_Models
begin

section \<open>Quota models\<close>

text \<open>
  The data of \<^verbatim>\<open>src/src/harness/quota/models.py\<close>, the default limits and the accounting
  windows of \<^verbatim>\<open>QuotaService\<close>. A policy limits resources for a scope; a reservation holds an
  amount of one resource against every constraint that applied when it was made; a counter
  sums, per tenant, scope key, resource and window, what is reserved and what is committed.
  The validators that raise are \<open>..._valid\<close> predicates.
\<close>

datatype quota_resource =
    ConcurrentRuns | ConcurrentSubagents | ModelTokens | ModelCostMicroUsd | McpRequests
  | ArtifactBytes | SnapshotBytes | ActivePreviews | DeploymentPromotions

fun quota_resource_value :: "quota_resource \<Rightarrow> string" where
  "quota_resource_value ConcurrentRuns = ''concurrent_runs''"
| "quota_resource_value ConcurrentSubagents = ''concurrent_subagents''"
| "quota_resource_value ModelTokens = ''model_tokens''"
| "quota_resource_value ModelCostMicroUsd = ''model_cost_micro_usd''"
| "quota_resource_value McpRequests = ''mcp_requests''"
| "quota_resource_value ArtifactBytes = ''artifact_bytes''"
| "quota_resource_value SnapshotBytes = ''snapshot_bytes''"
| "quota_resource_value ActivePreviews = ''active_previews''"
| "quota_resource_value DeploymentPromotions = ''deployment_promotions''"

datatype reservation_state =
  ReservationActive | ReservationCommitted | ReservationReleased | ReservationExpired

datatype cost_state = CostKnown | CostUnknown

record quota_scope =
  scope_organization_id :: "string option"
  scope_team_id :: "string option"
  scope_user_id :: "string option"
  scope_agent_name :: "string option"
  scope_environment :: "string option"
  scope_api_key_id :: "string option"

definition global_scope :: quota_scope where
  "global_scope = \<lparr>scope_organization_id = None, scope_team_id = None, scope_user_id = None,
     scope_agent_name = None, scope_environment = None, scope_api_key_id = None\<rparr>"

definition scope_key :: "quota_scope \<Rightarrow> string" where
  "scope_key s =
     (if scope_organization_id s = None \<and> scope_team_id s = None \<and> scope_user_id s = None \<and>
         scope_api_key_id s = None
      then ''agent='' @ str_or (scope_agent_name s) ''*'' @
           ''|environment='' @ str_or (scope_environment s) ''*''
      else ''organization='' @ str_or (scope_organization_id s) ''*'' @
           ''|team='' @ str_or (scope_team_id s) ''*'' @
           ''|user='' @ str_or (scope_user_id s) ''*'' @
           ''|agent='' @ str_or (scope_agent_name s) ''*'' @
           ''|environment='' @ str_or (scope_environment s) ''*'' @
           ''|key='' @ str_or (scope_api_key_id s) ''*'')"

record quota_policy =
  policy_tenant_id :: string
  policy_id :: string
  policy_revision :: int
  policy_scope :: quota_scope
  policy_limits :: "(quota_resource, int) dict"
  policy_alert_thresholds :: "(quota_resource, int) dict"
  policy_updated_by :: string
  policy_updated_at :: time

definition positive_limits ::
  "(quota_resource, int) dict \<Rightarrow> (quota_resource, int) dict \<Rightarrow> herror + unit" where
  "positive_limits limits thresholds =
     (if limits = [] \<or> (\<exists>v \<in> set (dict_values limits). v < 1)
      then Inl (ValueError ''quota limits must be positive'')
      else if \<exists>v \<in> set (dict_values thresholds). v < 1 \<or> 100 < v
      then Inl (ValueError ''quota alert thresholds must be percentages from 1 to 100'')
      else Inr ())"

definition quota_policy_valid :: "quota_policy \<Rightarrow> bool" where
  "quota_policy_valid p \<longleftrightarrow> policy_tenant_id p \<noteq> [] \<and> policy_id p \<noteq> [] \<and> 0 \<le> policy_revision p \<and>
     policy_updated_by p \<noteq> [] \<and>
     positive_limits (policy_limits p) (policy_alert_thresholds p) = Inr ()"

record replace_quota_policy_request =
  replace_expected_revision :: int
  replace_scope :: quota_scope
  replace_limits :: "(quota_resource, int) dict"
  replace_alert_thresholds :: "(quota_resource, int) dict"

record quota_constraint =
  constraint_scope_key :: string
  constraint_limit :: int

record resource_reservation =
  resv_tenant_id :: string
  resv_id :: string
  resv_idempotency_key :: string
  resv_resource :: quota_resource
  resv_amount :: int
  resv_constraints :: "quota_constraint list"
  resv_organization_id :: "string option"
  resv_team_ids :: "string list"
  resv_user_id :: "string option"
  resv_agent_name :: "string option"
  resv_environment :: "string option"
  resv_api_key_id :: "string option"
  resv_subject_id :: string
  resv_state :: reservation_state
  resv_created_at :: time
  resv_expires_at :: time
  resv_completed_at :: "time option"

record usage_ledger_entry =
  ledger_tenant_id :: string
  ledger_entry_id :: string
  ledger_reservation_id :: "string option"
  ledger_resource :: quota_resource
  ledger_amount :: "int option"
  ledger_cost_state :: cost_state
  ledger_organization_id :: "string option"
  ledger_team_ids :: "string list"
  ledger_user_id :: "string option"
  ledger_agent_name :: "string option"
  ledger_environment :: "string option"
  ledger_api_key_id :: "string option"
  ledger_subject_id :: string
  ledger_occurred_at :: time

text \<open>\<^verbatim>\<open>amount\<close> has \<^verbatim>\<open>ge=0\<close>; an unknown cost has no amount and a known one has.\<close>

definition usage_ledger_entry_valid :: "usage_ledger_entry \<Rightarrow> bool" where
  "usage_ledger_entry_valid l \<longleftrightarrow>
     (case ledger_amount l of
        None \<Rightarrow> ledger_cost_state l = CostUnknown
      | Some a \<Rightarrow> 0 \<le> a \<and> ledger_cost_state l = CostKnown)"

record quota_counter =
  counter_tenant_id :: string
  counter_scope_key :: string
  counter_resource :: quota_resource
  counter_window_key :: string
  counter_reserved :: int
  counter_committed :: int
  counter_limit :: "int option"

record quota_alert =
  alert_id :: string
  alert_policy_id :: string
  alert_scope_key :: string
  alert_resource :: quota_resource
  alert_window_key :: string
  alert_threshold_percent :: int
  alert_usage_percent :: int
  alert_used :: int
  alert_limit :: int
  alert_severity :: string

record quota_usage_view =
  usage_policies :: "quota_policy list"
  usage_counters :: "quota_counter list"
  usage_active_reservations :: "resource_reservation list"
  usage_unknown_cost_entries :: int
  usage_alerts :: "quota_alert list"

subsection \<open>Default limits and accounting windows\<close>

definition default_limits :: "(quota_resource, int) dict" where
  "default_limits =
    [(ConcurrentRuns, 20),
     (ConcurrentSubagents, 50),
     (ModelTokens, 10000000),
     (ModelCostMicroUsd, 1000000000),
     (McpRequests, 50),
     (ArtifactBytes, 5 * 1024 * 1024 * 1024),
     (SnapshotBytes, 20 * 1024 * 1024 * 1024),
     (ActivePreviews, 10),
     (DeploymentPromotions, 100)]"

definition active_resources :: "quota_resource list" where
  "active_resources = [ConcurrentRuns, ConcurrentSubagents, ActivePreviews]"

text \<open>
  \<^verbatim>\<open>strftime\<close> on a UTC datetime: the proleptic Gregorian date of a day number counted from
  1970-01-01, in 400-year eras that start on the first of March.
\<close>

definition civil_of_days :: "int \<Rightarrow> int \<times> int \<times> int" where
  "civil_of_days days =
     (let z = days + 719468;
          era = z div 146097;
          doe = z mod 146097;
          yoe = (doe - doe div 1460 + doe div 36524 - doe div 146096) div 365;
          doy = doe - (365 * yoe + yoe div 4 - yoe div 100);
          mp = (5 * doy + 2) div 153;
          d = doy - (153 * mp + 2) div 5 + 1;
          m = (if mp < 10 then mp + 3 else mp - 9)
      in (yoe + era * 400 + (if m \<le> 2 then 1 else 0), m, d))"

definition two_digits :: "int \<Rightarrow> string" where
  "two_digits i = (if i < 10 then ''0'' @ str_of_int i else str_of_int i)"

definition four_digits :: "int \<Rightarrow> string" where
  "four_digits i =
     (if i < 10 then ''000'' else if i < 100 then ''00'' else if i < 1000 then ''0'' else '''') @
     str_of_int i"

definition strftime_month :: "time \<Rightarrow> string" where
  "strftime_month t =
     (case civil_of_days (t div 86400000000) of (y, m, d) \<Rightarrow>
        four_digits y @ ''-'' @ two_digits m)"

definition strftime_second :: "time \<Rightarrow> string" where
  "strftime_second t =
     (case civil_of_days (t div 86400000000) of (y, m, d) \<Rightarrow>
        let s = t div 1000000 mod 86400 in
        four_digits y @ ''-'' @ two_digits m @ ''-'' @ two_digits d @ ''T'' @
        two_digits (s div 3600) @ '':'' @ two_digits (s div 60 mod 60) @ '':'' @
        two_digits (s mod 60) @ ''Z'')"

definition window_key :: "quota_resource \<Rightarrow> time \<Rightarrow> string" where
  "window_key res t =
     (if res \<in> set active_resources then ''active''
      else if res = McpRequests then strftime_second t
      else strftime_month t)"

text \<open>\<^verbatim>\<open>micro_usd\<close> rounds the decimal value of a float up to whole micro dollars.\<close>

definition micro_usd :: "rat \<Rightarrow> int" where
  "micro_usd v = \<lceil>v * 1000000\<rceil>"

lemma micro_usd_covers: "v \<le> of_int (micro_usd v) / 1000000"
  by (simp add: micro_usd_def le_divide_eq)

lemma micro_usd_tight: "of_int (micro_usd v) / 1000000 < v + 1 / 1000000"
  using of_int_ceiling_diff_one_le [of "v * 1000000"] ceiling_correct [of "v * 1000000"]
  unfolding micro_usd_def by (simp add: field_simps)

lemma window_key_examples:
  "window_key ModelTokens 1709164799999999 = ''2024-02''"
  "window_key ModelTokens 1709251200000000 = ''2024-03''"
  "window_key McpRequests 1709164799999999 = ''2024-02-28T23:59:59Z''"
  by code_simp+

end
