(* ===== verification/Quota_Repository.thy ===== *)
theory Quota_Repository
  imports Quota_Models
begin

section \<open>In-memory quota repository\<close>

text \<open>
  \<^verbatim>\<open>InMemoryQuotaRepository\<close> of \<^verbatim>\<open>src/src/harness/quota/repositories.py\<close>. \<open>quota_reserve\<close>
  checks every constraint before it touches a counter; \<open>quota_commit\<close> and \<open>quota_release\<close> walk
  the constraints and update the counters as they go (a missing counter would raise half way).
  \<open>quota_inv\<close> is the books' balance: what a counter says is reserved is the sum of the active
  reservations that hold it.
\<close>

type_synonym counter_key = "string \<times> string \<times> quota_resource \<times> string"

record quota_repo =
  quota_policies :: "(string \<times> string, quota_policy) dict"
  quota_reservations :: "(string \<times> string, resource_reservation) dict"
  quota_idempotency :: "(string \<times> string, string) dict"
  quota_counters :: "(counter_key, quota_counter) dict"
  quota_ledger :: "(string \<times> string, usage_ledger_entry) dict"

definition quota_repo_empty :: quota_repo where
  "quota_repo_empty = \<lparr>quota_policies = [], quota_reservations = [], quota_idempotency = [],
     quota_counters = [], quota_ledger = []\<rparr>"

definition quota_list_policies :: "quota_repo \<Rightarrow> string \<Rightarrow> quota_policy list" where
  "quota_list_policies repo tenant_id =
     map snd (filter (\<lambda>((stored_tenant, _), _). stored_tenant = tenant_id) (quota_policies repo))"

definition quota_replace_policy ::
  "quota_policy \<Rightarrow> int \<Rightarrow> (quota_repo, herror, quota_policy) prog" where
  "quota_replace_policy policy expected_revision repo =
     (let k = (policy_tenant_id policy, policy_id policy);
          actual = (case dict_get (quota_policies repo) k of
                      None \<Rightarrow> 0 | Some current \<Rightarrow> policy_revision current)
      in if actual \<noteq> expected_revision
         then (Inl (ConflictError (''quota policy revision changed: expected='' @
                 str_of_int expected_revision @ '' actual='' @ str_of_int actual)), repo)
         else (Inr policy,
               repo\<lparr>quota_policies := dict_set k policy (quota_policies repo)\<rparr>))"

definition constraint_key :: "resource_reservation \<Rightarrow> string \<Rightarrow> quota_constraint \<Rightarrow> counter_key" where
  "constraint_key r wk c = (resv_tenant_id r, constraint_scope_key c, resv_resource r, wk)"

definition counter_or_new ::
  "(counter_key, quota_counter) dict \<Rightarrow> resource_reservation \<Rightarrow> string \<Rightarrow> quota_constraint \<Rightarrow>
   quota_counter" where
  "counter_or_new counters r wk c =
     dict_get_or counters (constraint_key r wk c)
       \<lparr>counter_tenant_id = resv_tenant_id r, counter_scope_key = constraint_scope_key c,
        counter_resource = resv_resource r, counter_window_key = wk, counter_reserved = 0,
        counter_committed = 0, counter_limit = Some (constraint_limit c)\<rparr>"

definition counter_used :: "quota_counter \<Rightarrow> int" where
  "counter_used c = counter_reserved c + counter_committed c"

fun first_exceeded ::
  "(counter_key, quota_counter) dict \<Rightarrow> resource_reservation \<Rightarrow> string \<Rightarrow> quota_constraint list \<Rightarrow>
   herror option" where
  "first_exceeded counters r wk [] = None"
| "first_exceeded counters r wk (c # cs) =
     (let used = counter_used (counter_or_new counters r wk c)
      in if constraint_limit c < used + resv_amount r
         then Some (QuotaExceededError (quota_resource_value (resv_resource r))
                (constraint_limit c) (resv_amount r) used)
         else first_exceeded counters r wk cs)"

fun hold_all ::
  "resource_reservation \<Rightarrow> string \<Rightarrow> quota_constraint list \<Rightarrow>
   (counter_key, quota_counter) dict \<Rightarrow> (counter_key, quota_counter) dict" where
  "hold_all r wk [] counters = counters"
| "hold_all r wk (c # cs) counters =
     (let current = counter_or_new counters r wk c
      in hold_all r wk cs (dict_set (constraint_key r wk c)
           (current\<lparr>counter_reserved := counter_reserved current + resv_amount r,
                    counter_limit := Some (constraint_limit c)\<rparr>) counters))"

definition quota_reserve ::
  "resource_reservation \<Rightarrow> string \<Rightarrow> (quota_repo, herror, resource_reservation) prog" where
  "quota_reserve r wk repo =
     (let idem = (resv_tenant_id r, resv_idempotency_key r) in
      case dict_get (quota_idempotency repo) idem of
        Some existing_id \<Rightarrow>
          (case dict_get (quota_reservations repo) (resv_tenant_id r, existing_id) of
             None \<Rightarrow> (Inl KeyError, repo)
           | Some existing \<Rightarrow>
               if resv_resource existing \<noteq> resv_resource r \<or>
                  resv_amount existing \<noteq> resv_amount r \<or>
                  resv_constraints existing \<noteq> resv_constraints r \<or>
                  resv_subject_id existing \<noteq> resv_subject_id r
               then (Inl (ConflictError ''quota reservation idempotency key was reused''), repo)
               else (Inr existing, repo))
      | None \<Rightarrow>
          (case first_exceeded (quota_counters repo) r wk (resv_constraints r) of
             Some e \<Rightarrow> (Inl e, repo)
           | None \<Rightarrow>
               (Inr r, repo\<lparr>
                  quota_counters := hold_all r wk (resv_constraints r) (quota_counters repo),
                  quota_reservations :=
                    dict_set (resv_tenant_id r, resv_id r) r (quota_reservations repo),
                  quota_idempotency := dict_set idem (resv_id r) (quota_idempotency repo)\<rparr>)))"

definition quota_get_reservation ::
  "quota_repo \<Rightarrow> string \<Rightarrow> string \<Rightarrow> resource_reservation option" where
  "quota_get_reservation repo tenant_id idem =
     (case dict_get (quota_idempotency repo) (tenant_id, idem) of
        None \<Rightarrow> None
      | Some rid \<Rightarrow> dict_get (quota_reservations repo) (tenant_id, rid))"

fun update_counters ::
  "(quota_counter \<Rightarrow> quota_counter) \<Rightarrow> counter_key list \<Rightarrow>
   (counter_key, quota_counter) dict \<Rightarrow> (herror + unit) \<times> (counter_key, quota_counter) dict" where
  "update_counters f [] counters = (Inr (), counters)"
| "update_counters f (k # ks) counters =
     (case dict_get counters k of
        None \<Rightarrow> (Inl KeyError, counters)
      | Some current \<Rightarrow> update_counters f ks (dict_set k (f current) counters))"

definition quota_commit ::
  "string \<Rightarrow> string \<Rightarrow> int \<Rightarrow> string \<Rightarrow> usage_ledger_entry \<Rightarrow>
   (quota_repo, herror, resource_reservation) prog" where
  "quota_commit tenant_id rid amount wk entry repo =
     (case dict_get (quota_reservations repo) (tenant_id, rid) of
        None \<Rightarrow> (Inl (NotFoundError (''quota reservation not found: '' @ rid)), repo)
      | Some r \<Rightarrow>
          if resv_state r = ReservationCommitted then (Inr r, repo)
          else if resv_state r \<noteq> ReservationActive
          then (Inl (ConflictError ''quota reservation is not active''), repo)
          else if amount < 0
          then (Inl (ValueError ''committed amount must not be negative''), repo)
          else
            (case update_counters
                    (\<lambda>c. c\<lparr>counter_reserved := counter_reserved c - resv_amount r,
                           counter_committed := counter_committed c + amount\<rparr>)
                    (map (\<lambda>c. (tenant_id, constraint_scope_key c, resv_resource r, wk))
                       (resv_constraints r)) (quota_counters repo) of
               (Inl e, counters) \<Rightarrow> (Inl e, repo\<lparr>quota_counters := counters\<rparr>)
             | (Inr _, counters) \<Rightarrow>
                 let committed = r\<lparr>resv_state := ReservationCommitted,
                                    resv_completed_at := Some (ledger_occurred_at entry)\<rparr>
                 in (Inr committed, repo\<lparr>quota_counters := counters,
                      quota_reservations :=
                        dict_set (tenant_id, rid) committed (quota_reservations repo),
                      quota_ledger :=
                        dict_set (tenant_id, ledger_entry_id entry) entry (quota_ledger repo)\<rparr>)))"

definition quota_release ::
  "string \<Rightarrow> string \<Rightarrow> reservation_state \<Rightarrow> string \<Rightarrow>
   (quota_repo, herror, resource_reservation) prog" where
  "quota_release tenant_id rid state wk repo =
     (if state \<notin> {ReservationReleased, ReservationExpired}
      then (Inl (ValueError ''release state must be released or expired''), repo)
      else
        case dict_get (quota_reservations repo) (tenant_id, rid) of
          None \<Rightarrow> (Inl (NotFoundError (''quota reservation not found: '' @ rid)), repo)
        | Some r \<Rightarrow>
            if resv_state r \<noteq> ReservationActive then (Inr r, repo)
            else
              (case update_counters
                      (\<lambda>c. c\<lparr>counter_reserved := counter_reserved c - resv_amount r\<rparr>)
                      (map (\<lambda>c. (tenant_id, constraint_scope_key c, resv_resource r, wk))
                         (resv_constraints r)) (quota_counters repo) of
                 (Inl e, counters) \<Rightarrow> (Inl e, repo\<lparr>quota_counters := counters\<rparr>)
               | (Inr _, counters) \<Rightarrow>
                   let released = r\<lparr>resv_state := state,
                                     resv_completed_at := Some (resv_expires_at r)\<rparr>
                   in (Inr released, repo\<lparr>quota_counters := counters,
                        quota_reservations :=
                          dict_set (tenant_id, rid) released (quota_reservations repo)\<rparr>)))"

definition quota_add_ledger :: "usage_ledger_entry \<Rightarrow> (quota_repo, herror, unit) prog" where
  "quota_add_ledger entry repo =
     (let k = (ledger_tenant_id entry, ledger_entry_id entry) in
      (Inr (), if dict_has (quota_ledger repo) k then repo
               else repo\<lparr>quota_ledger := dict_set k entry (quota_ledger repo)\<rparr>))"

definition quota_list_counters :: "quota_repo \<Rightarrow> string \<Rightarrow> quota_counter list" where
  "quota_list_counters repo tenant_id =
     map snd (filter (\<lambda>((stored_tenant, _), _). stored_tenant = tenant_id) (quota_counters repo))"

definition quota_list_active :: "quota_repo \<Rightarrow> string \<Rightarrow> resource_reservation list" where
  "quota_list_active repo tenant_id =
     map snd (filter (\<lambda>((stored_tenant, _), r).
       stored_tenant = tenant_id \<and> resv_state r = ReservationActive) (quota_reservations repo))"

definition quota_list_ledger :: "quota_repo \<Rightarrow> string \<Rightarrow> usage_ledger_entry list" where
  "quota_list_ledger repo tenant_id =
     map snd (filter (\<lambda>((stored_tenant, _), _). stored_tenant = tenant_id) (quota_ledger repo))"

definition quota_list_expired_active ::
  "quota_repo \<Rightarrow> time \<Rightarrow> int \<Rightarrow> resource_reservation list" where
  "quota_list_expired_active repo now max_items =
     py_prefix max_items (filter (\<lambda>r. resv_state r = ReservationActive \<and> resv_expires_at r \<le> now)
       (dict_values (quota_reservations repo)))"

end
