(* ===== verification/Quota_Balance.thy ===== *)
theory Quota_Balance
  imports Quota_Repository
begin

section \<open>The quota books balance\<close>

text \<open>
  For every tenant, scope key, resource and window the reserved amount of the counter is the
  sum of the active reservations that hold it. \<open>win\<close> is the accounting window of a resource at
  a time (\<open>window_key\<close> in the service): the repository is told the window by its caller, and
  the books balance because the caller always derives it from the reservation.
\<close>

definition resv_keys :: "(quota_resource \<Rightarrow> time \<Rightarrow> string) \<Rightarrow> resource_reservation \<Rightarrow> counter_key list"
where
  "resv_keys win r =
     map (constraint_key r (win (resv_resource r) (resv_created_at r))) (resv_constraints r)"

definition share ::
  "(quota_resource \<Rightarrow> time \<Rightarrow> string) \<Rightarrow> counter_key \<Rightarrow> resource_reservation \<Rightarrow> int" where
  "share win k r =
     (if resv_state r = ReservationActive \<and> k \<in> set (resv_keys win r) then resv_amount r else 0)"

definition held :: "(quota_resource \<Rightarrow> time \<Rightarrow> string) \<Rightarrow> quota_repo \<Rightarrow> counter_key \<Rightarrow> int" where
  "held win repo k = sum_list (map (share win k) (dict_values (quota_reservations repo)))"

definition reserved_of :: "(counter_key, quota_counter) dict \<Rightarrow> counter_key \<Rightarrow> int" where
  "reserved_of counters k =
     (case dict_get counters k of None \<Rightarrow> 0 | Some c \<Rightarrow> counter_reserved c)"

definition quota_inv :: "(quota_resource \<Rightarrow> time \<Rightarrow> string) \<Rightarrow> quota_repo \<Rightarrow> bool" where
  "quota_inv win repo \<longleftrightarrow>
     dict_wf (quota_reservations repo) \<and>
     (\<forall>k r. dict_get (quota_reservations repo) k = Some r \<longrightarrow>
        k = (resv_tenant_id r, resv_id r) \<and> 0 < resv_amount r \<and> distinct (resv_keys win r) \<and>
        (resv_state r = ReservationActive \<longrightarrow>
           (\<forall>ck \<in> set (resv_keys win r). dict_has (quota_counters repo) ck))) \<and>
     (\<forall>k. reserved_of (quota_counters repo) k = held win repo k) \<and>
     (\<forall>ik rid. dict_get (quota_idempotency repo) ik = Some rid \<longrightarrow>
        (\<exists>r. dict_get (quota_reservations repo) (fst ik, rid) = Some r \<and>
             resv_idempotency_key r = snd ik))"

lemma quota_invI:
  assumes "dict_wf (quota_reservations repo)"
    and "\<And>k r. dict_get (quota_reservations repo) k = Some r \<Longrightarrow>
      k = (resv_tenant_id r, resv_id r) \<and> 0 < resv_amount r \<and> distinct (resv_keys win r) \<and>
      (resv_state r = ReservationActive \<longrightarrow>
         (\<forall>ck \<in> set (resv_keys win r). dict_has (quota_counters repo) ck))"
    and "\<And>k. reserved_of (quota_counters repo) k = held win repo k"
    and "\<And>ik rid. dict_get (quota_idempotency repo) ik = Some rid \<Longrightarrow>
      \<exists>r. dict_get (quota_reservations repo) (fst ik, rid) = Some r \<and>
          resv_idempotency_key r = snd ik"
  shows "quota_inv win repo"
  unfolding quota_inv_def using assms by blast

lemma quota_inv_wf: "quota_inv win repo \<Longrightarrow> dict_wf (quota_reservations repo)"
  unfolding quota_inv_def by blast

lemma quota_inv_stored:
  assumes "quota_inv win repo" and "dict_get (quota_reservations repo) k = Some r"
  shows "k = (resv_tenant_id r, resv_id r)" and "0 < resv_amount r"
    and "distinct (resv_keys win r)"
    and "resv_state r = ReservationActive \<Longrightarrow> ck \<in> set (resv_keys win r) \<Longrightarrow>
      dict_has (quota_counters repo) ck"
  using assms unfolding quota_inv_def by blast+

lemma quota_inv_balance: "quota_inv win repo \<Longrightarrow> reserved_of (quota_counters repo) k = held win repo k"
  unfolding quota_inv_def by blast

lemma quota_inv_idem:
  "quota_inv win repo \<Longrightarrow> dict_get (quota_idempotency repo) ik = Some rid \<Longrightarrow>
   \<exists>r. dict_get (quota_reservations repo) (fst ik, rid) = Some r \<and> resv_idempotency_key r = snd ik"
  unfolding quota_inv_def by blast

lemma quota_inv_empty: "quota_inv win quota_repo_empty"
  by (simp add: quota_inv_def quota_repo_empty_def reserved_of_def held_def)

lemma share_nonneg:
  assumes "quota_inv win repo" and "r \<in> set (dict_values (quota_reservations repo))"
  shows "0 \<le> share win k r"
proof -
  from assms obtain k' where "dict_get (quota_reservations repo) k' = Some r"
    by (blast elim: dict_value_cases [OF quota_inv_wf])
  from quota_inv_stored(2) [OF assms(1) this] show ?thesis by (simp add: share_def)
qed

lemma held_nonneg:
  assumes "quota_inv win repo"
  shows "0 \<le> held win repo k"
  unfolding held_def
proof (rule sum_list_nonneg)
  fix x
  assume "x \<in> set (map (share win k) (dict_values (quota_reservations repo)))"
  then obtain r where "r \<in> set (dict_values (quota_reservations repo))" and "x = share win k r"
    unfolding set_map by blast
  with assms show "0 \<le> x" by (simp add: share_nonneg del: set_map)
qed

subsection \<open>Writing a reservation\<close>

text \<open>Replacing or adding one reservation changes the held amounts by the difference of shares.\<close>

lemma held_set:
  assumes "dict_wf (quota_reservations repo)"
    and "quota_reservations t = dict_set k r (quota_reservations repo)"
  shows "held win t ck = held win repo ck -
    (case dict_get (quota_reservations repo) k of None \<Rightarrow> 0 | Some o1 \<Rightarrow> share win ck o1) +
    share win ck r"
  unfolding held_def assms(2) by (rule sum_values_dict_set [OF assms(1)])

lemma reserved_of_set:
  "reserved_of (dict_set k c d) k' = (if k' = k then counter_reserved c else reserved_of d k')"
  by (simp add: reserved_of_def)

lemma counter_or_new_reserved:
  "counter_reserved (counter_or_new counters r wk c) = reserved_of counters (constraint_key r wk c)"
  by (simp add: counter_or_new_def reserved_of_def dict_get_or_def split: option.split)

lemma hold_all_reserved:
  "distinct (map (constraint_key r wk) cs) \<Longrightarrow>
   reserved_of (hold_all r wk cs counters) k = reserved_of counters k +
     (if k \<in> set (map (constraint_key r wk) cs) then resv_amount r else 0)"
  by (induction cs arbitrary: counters)
     (auto simp: Let_def reserved_of_set counter_or_new_reserved)

lemma hold_all_has:
  "dict_has (hold_all r wk cs counters) k \<longleftrightarrow>
   dict_has counters k \<or> k \<in> set (map (constraint_key r wk) cs)"
  by (induction cs arbitrary: counters) (auto simp: Let_def)

lemma update_counters_ok:
  assumes "distinct ks" and "\<And>k. k \<in> set ks \<Longrightarrow> dict_has counters k"
  obtains counters' where "update_counters f ks counters = (Inr (), counters')"
    and "\<And>k. dict_get counters' k =
      (if k \<in> set ks then map_option f (dict_get counters k) else dict_get counters k)"
proof -
  have "\<exists>counters'. update_counters f ks counters = (Inr (), counters') \<and>
      (\<forall>k. dict_get counters' k =
        (if k \<in> set ks then map_option f (dict_get counters k) else dict_get counters k))"
    using assms
  proof (induction ks arbitrary: counters)
    case (Cons k ks)
    from Cons.prems(2) [of k] obtain c where c: "dict_get counters k = Some c" by auto
    have "\<exists>counters'. update_counters f ks (dict_set k (f c) counters) = (Inr (), counters') \<and>
        (\<forall>k'. dict_get counters' k' = (if k' \<in> set ks
          then map_option f (dict_get (dict_set k (f c) counters) k')
          else dict_get (dict_set k (f c) counters) k'))"
      using Cons.prems by (intro Cons.IH) auto
    with c Cons.prems(1) show ?case by auto
  qed simp
  then show thesis using that by blast
qed

subsection \<open>The operations keep the balance\<close>

lemma quota_reserve_new:
  assumes "quota_reserve r wk repo = (Inr x, t)"
  obtains (replay) "t = repo" and "dict_has (quota_idempotency repo)
      (resv_tenant_id r, resv_idempotency_key r)"
  | (granted) "x = r" and "dict_get (quota_idempotency repo)
      (resv_tenant_id r, resv_idempotency_key r) = None"
      and "first_exceeded (quota_counters repo) r wk (resv_constraints r) = None"
      and "t = repo\<lparr>
        quota_counters := hold_all r wk (resv_constraints r) (quota_counters repo),
        quota_reservations := dict_set (resv_tenant_id r, resv_id r) r (quota_reservations repo),
        quota_idempotency := dict_set (resv_tenant_id r, resv_idempotency_key r) (resv_id r)
          (quota_idempotency repo)\<rparr>"
  using assms by (auto simp: quota_reserve_def Let_def split: option.splits if_splits)

lemma quota_reserve_error: "quota_reserve r wk repo = (Inl e, t) \<Longrightarrow> t = repo"
  by (auto simp: quota_reserve_def Let_def split: option.splits if_splits)

text \<open>What the service guarantees of a new reservation.\<close>

definition reservation_new :: "quota_repo \<Rightarrow> resource_reservation \<Rightarrow> bool" where
  "reservation_new repo r \<longleftrightarrow> resv_state r = ReservationActive \<and> 0 < resv_amount r \<and>
     distinct (map constraint_scope_key (resv_constraints r)) \<and>
     \<not> dict_has (quota_reservations repo) (resv_tenant_id r, resv_id r)"

lemma distinct_resv_keys:
  "distinct (map constraint_scope_key (resv_constraints r)) \<Longrightarrow> distinct (resv_keys win r)"
  by (auto simp: resv_keys_def constraint_key_def distinct_map inj_on_def)

lemma quota_inv_reserve:
  assumes inv: "quota_inv win repo" and new: "reservation_new repo r"
    and res: "quota_reserve r (win (resv_resource r) (resv_created_at r)) repo = (x, t)"
  shows "quota_inv win t"
proof (cases x)
  case (Inl e)
  with res inv show ?thesis by (auto dest: quota_reserve_error)
next
  case (Inr y)
  let ?wk = "win (resv_resource r) (resv_created_at r)" and ?k = "(resv_tenant_id r, resv_id r)"
  note n = new [unfolded reservation_new_def]
  from n have dk: "distinct (resv_keys win r)" by (blast intro: distinct_resv_keys)
  from res have "quota_reserve r ?wk repo = (Inr y, t)" by (simp add: Inr)
  then show ?thesis
  proof (cases rule: quota_reserve_new)
    case granted
    have rs: "quota_reservations t = dict_set ?k r (quota_reservations repo)"
      and cs: "quota_counters t = hold_all r ?wk (resv_constraints r) (quota_counters repo)"
      and idem: "quota_idempotency t = dict_set (resv_tenant_id r, resv_idempotency_key r)
          (resv_id r) (quota_idempotency repo)"
      by (simp_all add: granted(4))
    have fresh: "dict_get (quota_reservations repo) ?k = None" using n by simp
    show ?thesis
    proof (rule quota_invI)
      show "dict_wf (quota_reservations t)" using quota_inv_wf [OF inv] by (simp add: rs)
    next
      fix k o1
      assume o1: "dict_get (quota_reservations t) k = Some o1"
      have keys: "set (resv_keys win r) = set (map (constraint_key r ?wk) (resv_constraints r))"
        by (simp add: resv_keys_def)
      show "k = (resv_tenant_id o1, resv_id o1) \<and> 0 < resv_amount o1 \<and>
        distinct (resv_keys win o1) \<and> (resv_state o1 = ReservationActive \<longrightarrow>
          (\<forall>ck \<in> set (resv_keys win o1). dict_has (quota_counters t) ck))"
      proof (cases "k = ?k")
        case True
        with o1 have "o1 = r" by (simp add: rs)
        moreover have "dict_has (quota_counters t) ck" if "ck \<in> set (resv_keys win r)" for ck
          using that unfolding cs hold_all_has keys by blast
        ultimately show ?thesis using True n dk by simp
      next
        case False
        with o1 have "dict_get (quota_reservations repo) k = Some o1" by (simp add: rs)
        from quota_inv_stored [OF inv this] show ?thesis unfolding cs hold_all_has by blast
      qed
    next
      fix k
      have "held win t k = held win repo k + share win k r"
        using held_set [OF quota_inv_wf [OF inv] rs] fresh by simp
      then show "reserved_of (quota_counters t) k = held win t k"
        using quota_inv_balance [OF inv, of k] n hold_all_reserved [of r ?wk "resv_constraints r"] dk
        by (simp add: cs share_def resv_keys_def)
    next
      fix ik rid
      assume ix: "dict_get (quota_idempotency t) ik = Some rid"
      show "\<exists>o1. dict_get (quota_reservations t) (fst ik, rid) = Some o1 \<and>
          resv_idempotency_key o1 = snd ik"
      proof (cases "ik = (resv_tenant_id r, resv_idempotency_key r)")
        case True
        with ix show ?thesis by (simp add: idem rs)
      next
        case False
        with ix have "dict_get (quota_idempotency repo) ik = Some rid" by (simp add: idem)
        from quota_inv_idem [OF inv this] fresh show ?thesis by (auto simp: rs)
      qed
    qed
  qed (use inv in simp)
qed

text \<open>Settling an active reservation, as commit and release both do.\<close>

lemma quota_inv_settle:
  assumes inv: "quota_inv win repo"
    and r: "dict_get (quota_reservations repo) k = Some r" and act: "resv_state r = ReservationActive"
    and same: "resv_tenant_id u = resv_tenant_id r" "resv_id u = resv_id r"
      "resv_amount u = resv_amount r" "resv_keys win u = resv_keys win r"
      "resv_idempotency_key u = resv_idempotency_key r"
    and settled: "resv_state u \<noteq> ReservationActive"
    and cs: "\<And>ck. dict_get (quota_counters t) ck = (if ck \<in> set (resv_keys win r)
      then map_option f (dict_get (quota_counters repo) ck) else dict_get (quota_counters repo) ck)"
    and f: "\<And>c. counter_reserved (f c) = counter_reserved c - resv_amount r"
    and rs: "quota_reservations t = dict_set k u (quota_reservations repo)"
    and idem: "quota_idempotency t = quota_idempotency repo"
  shows "quota_inv win t"
proof (rule quota_invI)
  show "dict_wf (quota_reservations t)" using quota_inv_wf [OF inv] by (simp add: rs)
next
  fix k' o1
  assume o1: "dict_get (quota_reservations t) k' = Some o1"
  have has: "dict_has (quota_counters t) ck \<longleftrightarrow> dict_has (quota_counters repo) ck" for ck
    by (simp add: cs)
  show "k' = (resv_tenant_id o1, resv_id o1) \<and> 0 < resv_amount o1 \<and>
    distinct (resv_keys win o1) \<and> (resv_state o1 = ReservationActive \<longrightarrow>
      (\<forall>ck \<in> set (resv_keys win o1). dict_has (quota_counters t) ck))"
  proof (cases "k' = k")
    case True
    with o1 have "o1 = u" by (simp add: rs)
    with True same settled quota_inv_stored [OF inv r] show ?thesis by simp
  next
    case False
    with o1 have "dict_get (quota_reservations repo) k' = Some o1" by (simp add: rs)
    from quota_inv_stored [OF inv this] show ?thesis unfolding has by blast
  qed
next
  fix ck
  have "held win t ck = held win repo ck - share win ck r"
    using held_set [OF quota_inv_wf [OF inv] rs, of win ck] r settled by (simp add: share_def)
  moreover have "reserved_of (quota_counters t) ck = reserved_of (quota_counters repo) ck -
      (if ck \<in> set (resv_keys win r) then resv_amount r else 0)"
    using quota_inv_stored(4) [OF inv r act, of ck]
    by (auto simp: reserved_of_def cs f split: option.split)
  ultimately show "reserved_of (quota_counters t) ck = held win t ck"
    using quota_inv_balance [OF inv, of ck] act by (simp add: share_def)
next
  fix ik rid
  assume "dict_get (quota_idempotency t) ik = Some rid"
  then have "dict_get (quota_idempotency repo) ik = Some rid" by (simp add: idem)
  from quota_inv_idem [OF inv this] r same show
    "\<exists>o1. dict_get (quota_reservations t) (fst ik, rid) = Some o1 \<and> resv_idempotency_key o1 = snd ik"
    by (auto simp: rs)
qed

lemma settle_keys:
  assumes "quota_inv win repo" and "dict_get (quota_reservations repo) (tenant_id, rid) = Some r"
    and "wk = win (resv_resource r) (resv_created_at r)"
  shows "map (\<lambda>c. (tenant_id, constraint_scope_key c, resv_resource r, wk)) (resv_constraints r) =
    resv_keys win r"
  using quota_inv_stored(1) [OF assms(1,2)] assms(3) by (simp add: resv_keys_def constraint_key_def)

lemma quota_inv_commit:
  assumes inv: "quota_inv win repo"
    and wk: "\<And>r. dict_get (quota_reservations repo) (tenant_id, rid) = Some r \<Longrightarrow>
      wk = win (resv_resource r) (resv_created_at r)"
    and com: "quota_commit tenant_id rid amount wk entry repo = (x, t)"
  shows "quota_inv win t"
proof (cases "dict_get (quota_reservations repo) (tenant_id, rid)")
  case None
  with com inv show ?thesis by (simp add: quota_commit_def)
next
  case (Some r)
  show ?thesis
  proof (cases "resv_state r = ReservationActive \<and> 0 \<le> amount")
    case False
    with com inv Some show ?thesis by (auto simp: quota_commit_def split: if_splits)
  next
    case True
    let ?f = "\<lambda>c. c\<lparr>counter_reserved := counter_reserved c - resv_amount r,
      counter_committed := counter_committed c + amount\<rparr>"
    obtain cs where cs: "update_counters ?f (resv_keys win r) (quota_counters repo) = (Inr (), cs)"
      "\<And>k. dict_get cs k = (if k \<in> set (resv_keys win r)
         then map_option ?f (dict_get (quota_counters repo) k) else dict_get (quota_counters repo) k)"
      using quota_inv_stored(4) [OF inv Some] True
      by (elim conjE) (rule update_counters_ok [where f = ?f and counters = "quota_counters repo",
        OF quota_inv_stored(3) [OF inv Some]], blast+)
    have keys: "map (\<lambda>c. (tenant_id, constraint_scope_key c, resv_resource r, wk))
        (resv_constraints r) = resv_keys win r"
      using inv Some wk [OF Some] by (rule settle_keys)
    have t: "t = repo\<lparr>quota_counters := cs, quota_reservations := dict_set (tenant_id, rid)
        (r\<lparr>resv_state := ReservationCommitted, resv_completed_at := Some (ledger_occurred_at entry)\<rparr>)
          (quota_reservations repo),
        quota_ledger := dict_set (tenant_id, ledger_entry_id entry) entry (quota_ledger repo)\<rparr>"
      using com Some True cs(1) by (simp add: quota_commit_def keys Let_def)
    show ?thesis
      by (rule quota_inv_settle [OF inv Some, of
            "r\<lparr>resv_state := ReservationCommitted, resv_completed_at := Some (ledger_occurred_at entry)\<rparr>"
            t ?f])
         (simp_all add: True t cs(2) resv_keys_def constraint_key_def)
  qed
qed

text \<open>Releasing an active reservation always succeeds.\<close>

lemma quota_release_active:
  assumes inv: "quota_inv win repo"
    and r: "dict_get (quota_reservations repo) (tenant_id, rid) = Some r"
    and act: "resv_state r = ReservationActive"
    and state: "state \<in> {ReservationReleased, ReservationExpired}"
    and wk: "wk = win (resv_resource r) (resv_created_at r)"
  obtains t where "quota_release tenant_id rid state wk repo =
      (Inr (r\<lparr>resv_state := state, resv_completed_at := Some (resv_expires_at r)\<rparr>), t)"
    and "quota_reservations t = dict_set (tenant_id, rid)
      (r\<lparr>resv_state := state, resv_completed_at := Some (resv_expires_at r)\<rparr>)
      (quota_reservations repo)"
    and "quota_idempotency t = quota_idempotency repo" and "quota_inv win t"
proof -
  let ?f = "\<lambda>c. c\<lparr>counter_reserved := counter_reserved c - resv_amount r\<rparr>"
  let ?u = "r\<lparr>resv_state := state, resv_completed_at := Some (resv_expires_at r)\<rparr>"
  obtain cs where cs: "update_counters ?f (resv_keys win r) (quota_counters repo) = (Inr (), cs)"
    "\<And>k. dict_get cs k = (if k \<in> set (resv_keys win r)
       then map_option ?f (dict_get (quota_counters repo) k) else dict_get (quota_counters repo) k)"
    using quota_inv_stored(4) [OF inv r act]
    by (rule update_counters_ok [where f = ?f and counters = "quota_counters repo",
      OF quota_inv_stored(3) [OF inv r]]) blast+
  have keys: "map (\<lambda>c. (tenant_id, constraint_scope_key c, resv_resource r, wk))
      (resv_constraints r) = resv_keys win r"
    using inv r wk by (rule settle_keys)
  let ?t = "repo\<lparr>quota_counters := cs,
    quota_reservations := dict_set (tenant_id, rid) ?u (quota_reservations repo)\<rparr>"
  show thesis
  proof (rule that [of ?t])
    show "quota_release tenant_id rid state wk repo = (Inr ?u, ?t)"
      using r act state cs(1) by (auto simp: quota_release_def keys Let_def)
    show "quota_inv win ?t"
      by (rule quota_inv_settle [OF inv r act, of ?u ?t ?f])
         (use state in \<open>auto simp: cs(2) resv_keys_def constraint_key_def\<close>)
  qed simp_all
qed

lemma quota_inv_release:
  assumes inv: "quota_inv win repo"
    and wk: "\<And>r. dict_get (quota_reservations repo) (tenant_id, rid) = Some r \<Longrightarrow>
      wk = win (resv_resource r) (resv_created_at r)"
    and rel: "quota_release tenant_id rid state wk repo = (x, t)"
  shows "quota_inv win t"
proof (cases "dict_get (quota_reservations repo) (tenant_id, rid)")
  case None
  with rel inv show ?thesis by (simp add: quota_release_def split: if_splits)
next
  case (Some r)
  show ?thesis
  proof (cases "resv_state r = ReservationActive \<and> state \<in> {ReservationReleased, ReservationExpired}")
    case False
    with rel inv Some show ?thesis by (auto simp: quota_release_def split: if_splits)
  next
    case True
    with quota_release_active [OF inv Some _ _ wk [OF Some], of state] rel show ?thesis
      by (metis prod.inject)
  qed
qed

subsection \<open>Reservations are settled once\<close>

text \<open>
  \<open>quota_history s t\<close>: no reservation disappears and one that is no longer active is never
  changed again; ledger entries are kept, and every committed amount of \<open>s\<close> is still counted.
\<close>

definition resv_later :: "resource_reservation \<Rightarrow> resource_reservation \<Rightarrow> bool" where
  "resv_later r r' \<longleftrightarrow> r' = r \<or>
     (resv_state r = ReservationActive \<and> resv_state r' \<noteq> ReservationActive \<and>
      r' = r\<lparr>resv_state := resv_state r', resv_completed_at := resv_completed_at r'\<rparr>)"

definition quota_history :: "quota_repo \<Rightarrow> quota_repo \<Rightarrow> bool" where
  "quota_history s t \<longleftrightarrow>
     (\<forall>k r. dict_get (quota_reservations s) k = Some r \<longrightarrow>
        (\<exists>r'. dict_get (quota_reservations t) k = Some r' \<and> resv_later r r'))"

lemma resv_later_trans: "resv_later a b \<Longrightarrow> resv_later b c \<Longrightarrow> resv_later a c"
  by (auto simp: resv_later_def)

lemma quota_historyI:
  assumes "\<And>k r. dict_get (quota_reservations s) k = Some r \<Longrightarrow>
    \<exists>r'. dict_get (quota_reservations t) k = Some r' \<and> resv_later r r'"
  shows "quota_history s t"
  unfolding quota_history_def using assms by blast

lemma quota_historyD:
  "quota_history s t \<Longrightarrow> dict_get (quota_reservations s) k = Some r \<Longrightarrow>
   \<exists>r'. dict_get (quota_reservations t) k = Some r' \<and> resv_later r r'"
  unfolding quota_history_def by blast

interpretation quota_history: evolution quota_history
proof
  show "quota_history s s" for s by (rule quota_historyI) (simp add: resv_later_def)
next
  fix s t u
  assume st: "quota_history s t" and tu: "quota_history t u"
  show "quota_history s u"
  proof (rule quota_historyI)
    fix k r
    assume "dict_get (quota_reservations s) k = Some r"
    from quota_historyD [OF st this] obtain r1 where
      "dict_get (quota_reservations t) k = Some r1" "resv_later r r1" by blast
    with quota_historyD [OF tu, of k r1] show
      "\<exists>r'. dict_get (quota_reservations u) k = Some r' \<and> resv_later r r'"
      by (blast intro: resv_later_trans)
  qed
qed

lemma quota_history_same: "quota_reservations t = quota_reservations s \<Longrightarrow> quota_history s t"
  by (rule quota_historyI) (simp add: resv_later_def)

lemma quota_history_set:
  assumes "quota_reservations t = dict_set k u (quota_reservations s)"
    and "\<And>r. dict_get (quota_reservations s) k = Some r \<Longrightarrow> resv_later r u"
  shows "quota_history s t"
proof (rule quota_historyI)
  fix k' r
  assume "dict_get (quota_reservations s) k' = Some r"
  with assms show "\<exists>r'. dict_get (quota_reservations t) k' = Some r' \<and> resv_later r r'"
    by (cases "k' = k") (auto simp: resv_later_def)
qed

lemma quota_history_reserve:
  assumes "quota_reserve r wk s = (x, t)"
    and "\<not> dict_has (quota_reservations s) (resv_tenant_id r, resv_id r)"
  shows "quota_history s t"
proof (cases x)
  case (Inl e)
  with assms(1) have "t = s" by (auto dest: quota_reserve_error)
  then show ?thesis by (simp add: quota_history.R_refl)
next
  case (Inr y)
  with assms(1) have "quota_reserve r wk s = (Inr y, t)" by simp
  then show ?thesis
  proof (cases rule: quota_reserve_new)
    case granted
    with assms(2) show ?thesis
      by (intro quota_history_set [of t "(resv_tenant_id r, resv_id r)" r s]) simp_all
  qed (simp add: quota_history.R_refl)
qed

lemma quota_history_commit: "quota_commit tenant_id rid amount wk entry s = (x, t) \<Longrightarrow> quota_history s t"
  by (auto simp: quota_commit_def Let_def quota_history.R_refl resv_later_def
    intro: quota_history_same quota_history_set split: option.splits if_splits prod.splits sum.splits)

lemma quota_history_release: "quota_release tenant_id rid state wk s = (x, t) \<Longrightarrow> quota_history s t"
  by (auto simp: quota_release_def Let_def quota_history.R_refl resv_later_def
    intro: quota_history_same quota_history_set split: option.splits if_splits prod.splits sum.splits)

subsection \<open>Limits hold\<close>

lemma first_exceeded_None:
  "first_exceeded counters r wk cs = None \<Longrightarrow> c \<in> set cs \<Longrightarrow>
   counter_used (counter_or_new counters r wk c) + resv_amount r \<le> constraint_limit c"
  by (induction cs) (auto simp: Let_def split: if_splits)

lemma hold_all_other:
  "k \<notin> set (map (constraint_key r wk) cs) \<Longrightarrow>
   dict_get (hold_all r wk cs counters) k = dict_get counters k"
  by (induction cs arbitrary: counters) (auto simp: Let_def)

lemma counter_or_new_set_other:
  "constraint_key r wk c \<noteq> k \<Longrightarrow>
   counter_or_new (dict_set k x counters) r wk c = counter_or_new counters r wk c"
  by (simp add: counter_or_new_def dict_get_or_def)

lemma hold_all_at:
  "distinct (map (constraint_key r wk) cs) \<Longrightarrow> c \<in> set cs \<Longrightarrow>
   dict_get (hold_all r wk cs counters) (constraint_key r wk c) =
     Some ((counter_or_new counters r wk c)
       \<lparr>counter_reserved := counter_reserved (counter_or_new counters r wk c) + resv_amount r,
        counter_limit := Some (constraint_limit c)\<rparr>)"
proof (induction cs arbitrary: counters)
  case (Cons a cs)
  show ?case
  proof (cases "c = a")
    case True
    with Cons.prems(1) show ?thesis by (simp add: Let_def hold_all_other)
  next
    case False
    with Cons.prems(2) have c: "c \<in> set cs" by simp
    then have "constraint_key r wk c \<in> set (map (constraint_key r wk) cs)" by simp
    with Cons.prems(1) have "constraint_key r wk c \<noteq> constraint_key r wk a" by (metis distinct.simps(2) list.simps(9))
    with c Cons.IH Cons.prems(1) show ?thesis by (simp add: Let_def counter_or_new_set_other)
  qed
qed simp

subsection \<open>Every sequence of calls\<close>

text \<open>
  The repository reached by calls of the service: it reserves under fresh ids, and names the
  window of the reservation it settles.
\<close>

inductive quota_reachable :: "(quota_resource \<Rightarrow> time \<Rightarrow> string) \<Rightarrow> quota_repo \<Rightarrow> bool"
  for win where
  empty: "quota_reachable win quota_repo_empty"
| reserve: "quota_reachable win s \<Longrightarrow> reservation_new s r \<Longrightarrow>
    quota_reserve r (win (resv_resource r) (resv_created_at r)) s = (x, t) \<Longrightarrow>
    quota_reachable win t"
| commit: "quota_reachable win s \<Longrightarrow> dict_get (quota_reservations s) (tenant_id, rid) = Some r \<Longrightarrow>
    quota_commit tenant_id rid amount (win (resv_resource r) (resv_created_at r)) entry s = (x, t) \<Longrightarrow>
    quota_reachable win t"
| release: "quota_reachable win s \<Longrightarrow> dict_get (quota_reservations s) (tenant_id, rid) = Some r \<Longrightarrow>
    quota_release tenant_id rid state (win (resv_resource r) (resv_created_at r)) s = (x, t) \<Longrightarrow>
    quota_reachable win t"
| ledger: "quota_reachable win s \<Longrightarrow> quota_add_ledger entry s = (x, t) \<Longrightarrow> quota_reachable win t"
| policy: "quota_reachable win s \<Longrightarrow> quota_replace_policy p n s = (y, t) \<Longrightarrow> quota_reachable win t"

lemma quota_inv_same:
  assumes "quota_inv win s" and "quota_reservations t = quota_reservations s"
    and "quota_counters t = quota_counters s" and "quota_idempotency t = quota_idempotency s"
  shows "quota_inv win t"
  using assms by (simp add: quota_inv_def held_def)

lemma quota_inv_add_ledger:
  "quota_inv win s \<Longrightarrow> quota_add_ledger entry s = (x, t) \<Longrightarrow> quota_inv win t"
  by (auto simp: quota_add_ledger_def Let_def intro: quota_inv_same)

lemma quota_inv_replace_policy:
  "quota_inv win s \<Longrightarrow> quota_replace_policy p n s = (x, t) \<Longrightarrow> quota_inv win t"
  by (auto simp: quota_replace_policy_def Let_def intro: quota_inv_same split: if_splits)

lemma quota_reachable_inv: "quota_reachable win s \<Longrightarrow> quota_inv win s"
proof (induction rule: quota_reachable.induct)
  case (commit s tenant_id rid r amount entry x t)
  show ?case by (rule quota_inv_commit [OF commit.IH _ commit.hyps(3)]) (simp add: commit.hyps(2))
next
  case (release s tenant_id rid r state x t)
  show ?case by (rule quota_inv_release [OF release.IH _ release.hyps(3)]) (simp add: release.hyps(2))
qed (blast intro: quota_inv_empty quota_inv_reserve quota_inv_add_ledger quota_inv_replace_policy)+

text \<open>
  C23. The quota books balance: after any sequence of reservations, commits, releases, ledger
  entries and policy changes, granted or refused, the reserved amount of every counter is the
  sum of the active reservations that hold it.
\<close>

theorem quota_conservation:
  assumes "quota_reachable window_key repo"
  shows "reserved_of (quota_counters repo) k = held window_key repo k"
  using quota_inv_balance [OF quota_reachable_inv [OF assms]] .

text \<open>
  C24. A granted reservation fits: it is stored, and for every constraint the counter's used
  amount, the new amount included, is within the constraint's limit and has grown by exactly
  that amount. A refused call changes nothing.
\<close>

theorem quota_reserve_within_limits:
  assumes "distinct (map constraint_scope_key (resv_constraints r))"
    and "\<not> dict_has (quota_idempotency repo) (resv_tenant_id r, resv_idempotency_key r)"
  shows "case quota_reserve r wk repo of
      (Inl e, t) \<Rightarrow> t = repo \<and> (\<exists>c \<in> set (resv_constraints r). constraint_limit c <
          counter_used (counter_or_new (quota_counters repo) r wk c) + resv_amount r)
    | (Inr x, t) \<Rightarrow> x = r \<and> quota_get_reservation t (resv_tenant_id r) (resv_idempotency_key r) = Some r \<and>
        (\<forall>c \<in> set (resv_constraints r).
           (case dict_get (quota_counters t) (constraint_key r wk c) of
              None \<Rightarrow> False
            | Some n \<Rightarrow> counter_used n \<le> constraint_limit c \<and>
                counter_used n = counter_used (counter_or_new (quota_counters repo) r wk c) +
                  resv_amount r))"
proof (cases "first_exceeded (quota_counters repo) r wk (resv_constraints r)")
  case (Some e)
  have "\<exists>c \<in> set cs. constraint_limit c <
      counter_used (counter_or_new counters r wk c) + resv_amount r"
    if "first_exceeded counters r wk cs = Some e" for counters cs
    using that by (induction cs) (auto simp: Let_def split: if_splits)
  with Some assms(2) show ?thesis by (auto simp: quota_reserve_def Let_def)
next
  case None
  have "distinct (map (constraint_key r wk) (resv_constraints r))"
    using assms(1) by (auto simp: constraint_key_def distinct_map inj_on_def)
  note at_key = hold_all_at [OF this]
  show ?thesis
    using None assms(2) first_exceeded_None [OF None]
    by (auto simp: quota_reserve_def quota_get_reservation_def Let_def at_key counter_used_def
      algebra_simps)
qed

definition sample_reservation :: resource_reservation where
  "sample_reservation = \<lparr>resv_tenant_id = ''t'', resv_id = ''q1'', resv_idempotency_key = ''k'',
     resv_resource = ConcurrentRuns, resv_amount = 1,
     resv_constraints = [\<lparr>constraint_scope_key = ''agent=*'', constraint_limit = 2\<rparr>,
       \<lparr>constraint_scope_key = ''agent=a'', constraint_limit = 1\<rparr>],
     resv_organization_id = None, resv_team_ids = [], resv_user_id = None, resv_agent_name = None,
     resv_environment = None, resv_api_key_id = None, resv_subject_id = ''r1'',
     resv_state = ReservationActive, resv_created_at = 0, resv_expires_at = 60,
     resv_completed_at = None\<rparr>"

definition sample_books :: quota_repo where
  "sample_books = snd (quota_reserve sample_reservation ''active'' quota_repo_empty)"

lemmas sample_quota_simps = sample_books_def sample_reservation_def quota_reserve_def
  quota_repo_empty_def constraint_key_def counter_or_new_def counter_used_def dict_get_or_def Let_def

lemma sample_books_reachable: "quota_reachable window_key sample_books"
proof -
  have wk: "window_key (resv_resource sample_reservation) (resv_created_at sample_reservation) =
      ''active''"
    by (simp add: sample_reservation_def window_key_def active_resources_def)
  have "quota_reserve sample_reservation (window_key (resv_resource sample_reservation)
      (resv_created_at sample_reservation)) quota_repo_empty =
      (fst (quota_reserve sample_reservation ''active'' quota_repo_empty), sample_books)"
    by (simp add: sample_books_def wk)
  then show ?thesis
    by (rule quota_reachable.reserve [OF quota_reachable.empty, rotated])
       (simp add: reservation_new_def sample_reservation_def quota_repo_empty_def)
qed

lemma quota_conservation_witness:
  "reserved_of (quota_counters sample_books) (''t'', ''agent=a'', ConcurrentRuns, ''active'') =
   held window_key sample_books (''t'', ''agent=a'', ConcurrentRuns, ''active'') \<and>
   reserved_of (quota_counters sample_books) (''t'', ''agent=a'', ConcurrentRuns, ''active'') = 1"
proof
  show "reserved_of (quota_counters sample_books) (''t'', ''agent=a'', ConcurrentRuns, ''active'') =
      held window_key sample_books (''t'', ''agent=a'', ConcurrentRuns, ''active'')"
    by (rule quota_conservation) (rule sample_books_reachable)
qed (simp add: reserved_of_def sample_quota_simps)

lemma quota_reserve_within_limits_witness:
  "case quota_reserve (sample_reservation\<lparr>resv_id := ''q2'', resv_idempotency_key := ''k2''\<rparr>)
      ''active'' sample_books of (Inl e, t) \<Rightarrow> t = sample_books | (Inr x, t) \<Rightarrow> False"
  using quota_reserve_within_limits [of "sample_reservation\<lparr>resv_id := ''q2'',
    resv_idempotency_key := ''k2''\<rparr>" sample_books "''active''"]
  by (simp add: sample_quota_simps)

end
