(* ===== verification/World.thy ===== *)
theory World
  imports Memory_Catalog Memory_Approvals Memory_Queue Memory_Events Quota_Balance
begin

section \<open>The state the services share, and what one await lets happen\<close>

text \<open>
  The application services of \<^verbatim>\<open>src/src/harness/application\<close> work on the repositories, the
  queue, the event log, the quota books and the futures of inline approvals: the record
  \<open>world\<close>. What a service is constructed with is the record \<open>deps\<close>: the clock (the value of its
  n-th reading), the id generator (prefix and a serial number), the trace ids, and
  \<open>d_others n\<close>, the effect of everything that other coroutines and other processes do while a
  handler is suspended at its n-th await. A handler is a \<open>prog\<close> over \<open>world\<close> in which every
  awaited call to a port is wrapped in \<open>await\<close>; with \<open>d_others\<close> arbitrary, a theorem covers
  every interleaving of the handlers.

  \<open>sys d s t\<close> is the protocol of the whole program, reflexive and transitive: what every handler
  respects between its start and its end, and what it expects of the others at every await.
\<close>

record world =
  w_sessions :: session_repo
  w_runs :: run_repo
  w_approvals :: approval_repo
  w_events :: event_repo
  w_bus :: event_bus
  w_queue :: task_queue
  w_quota :: quota_repo
  w_inline_waiters :: "(string, nat) dict"
  w_inline_tenants :: "(string, string) dict"
  w_futures :: "(nat, approval_status option) dict"
  w_clock_reads :: nat
  w_ids :: nat
  w_awaits :: nat

definition world_empty :: world where
  "world_empty = \<lparr>w_sessions = [], w_runs = run_repo_empty, w_approvals = approval_repo_empty,
     w_events = event_repo_empty, w_bus = [], w_queue = queue_empty, w_quota = quota_repo_empty,
     w_inline_waiters = [], w_inline_tenants = [], w_futures = [], w_clock_reads = 0, w_ids = 0,
     w_awaits = 0\<rparr>"

record deps =
  d_clock :: "nat \<Rightarrow> time"
  d_new_id :: "string \<Rightarrow> nat \<Rightarrow> string"
  d_others :: "nat \<Rightarrow> world \<Rightarrow> world"
  d_trace_id :: "string option"
  d_span_id :: "string option"
  d_rounds :: nat

type_synonym 'a handler = "(world, herror, 'a) prog"

definition clock :: "('x) deps_scheme \<Rightarrow> time handler" where
  "clock d w = (Inr (d_clock d (w_clock_reads w)), w\<lparr>w_clock_reads := Suc (w_clock_reads w)\<rparr>)"

definition id_generator :: "('x) deps_scheme \<Rightarrow> string \<Rightarrow> string handler" where
  "id_generator d prefix w = (Inr (d_new_id d prefix (w_ids w)), w\<lparr>w_ids := Suc (w_ids w)\<rparr>)"

definition suspended :: "('x) deps_scheme \<Rightarrow> world \<Rightarrow> world" where
  "suspended d w = (d_others d (w_awaits w) w)\<lparr>w_awaits := Suc (w_awaits w)\<rparr>"

definition await :: "('x) deps_scheme \<Rightarrow> 'a handler \<Rightarrow> 'a handler" where
  "await d m w = m (suspended d w)"

subsection \<open>Calls to the ports\<close>

definition ask :: "(world \<Rightarrow> herror + 'a) \<Rightarrow> 'a handler" where
  "ask f w = (f w, w)"

definition runs_add :: "run \<Rightarrow> unit handler" where
  "runs_add r w = (case run_add r (w_runs w) of
     Inl e \<Rightarrow> (Inl e, w) | Inr t \<Rightarrow> (Inr (), w\<lparr>w_runs := t\<rparr>))"

definition runs_get :: "string \<Rightarrow> string \<Rightarrow> run handler" where
  "runs_get tenant_id rid = ask (\<lambda>w. run_get (w_runs w) tenant_id rid)"

definition runs_compare_and_set :: "run_status \<Rightarrow> run \<Rightarrow> bool handler" where
  "runs_compare_and_set expected updated w = (case run_cas expected updated (w_runs w) of
     Inl e \<Rightarrow> (Inl e, w) | Inr (b, t) \<Rightarrow> (Inr b, w\<lparr>w_runs := t\<rparr>))"

definition approvals_add :: "approval_request \<Rightarrow> unit handler" where
  "approvals_add a w = (case approval_add a (w_approvals w) of
     Inl e \<Rightarrow> (Inl e, w) | Inr t \<Rightarrow> (Inr (), w\<lparr>w_approvals := t\<rparr>))"

definition approvals_get :: "string \<Rightarrow> string \<Rightarrow> approval_request handler" where
  "approvals_get tenant_id aid = ask (\<lambda>w. approval_get (w_approvals w) tenant_id aid)"

definition approvals_compare_and_set :: "approval_status \<Rightarrow> approval_request \<Rightarrow> bool handler" where
  "approvals_compare_and_set expected updated w =
     (case approval_cas expected updated (w_approvals w) of
        Inl e \<Rightarrow> (Inl e, w) | Inr (b, t) \<Rightarrow> (Inr b, w\<lparr>w_approvals := t\<rparr>))"

definition events_append :: "run_event \<Rightarrow> unit handler" where
  "events_append e w = (case event_append e (w_events w) of
     Inl x \<Rightarrow> (Inl x, w) | Inr t \<Rightarrow> (Inr (), w\<lparr>w_events := t\<rparr>))"

definition bus_publish_event :: "run_event \<Rightarrow> unit handler" where
  "bus_publish_event e = modifyP (\<lambda>w. w\<lparr>w_bus := bus_publish e (w_bus w)\<rparr>)"

definition queue_enqueue_task :: "run_task \<Rightarrow> unit handler" where
  "queue_enqueue_task t = modifyP (\<lambda>w. w\<lparr>w_queue := queue_enqueue t (w_queue w)\<rparr>)"

definition quota_call :: "(quota_repo, herror, 'a) prog \<Rightarrow> 'a handler" where
  "quota_call m w = (case m (w_quota w) of (r, t) \<Rightarrow> (r, w\<lparr>w_quota := t\<rparr>))"

lemmas port_defs = runs_add_def runs_get_def runs_compare_and_set_def approvals_add_def
  approvals_get_def approvals_compare_and_set_def events_append_def bus_publish_event_def
  queue_enqueue_task_def quota_call_def ask_def

subsection \<open>The protocol of the program\<close>

definition event_history :: "event_repo \<Rightarrow> event_repo \<Rightarrow> bool" where
  "event_history s t \<longleftrightarrow> (\<forall>k. \<exists>es. event_stream t k = event_stream s k @ es)"

definition drawn :: "('x) deps_scheme \<Rightarrow> string \<Rightarrow> nat set \<Rightarrow> string \<Rightarrow> bool" where
  "drawn d prefix ns i \<longleftrightarrow> (\<exists>n \<in> ns. i = d_new_id d prefix n)"

definition world_sound :: "('x) deps_scheme \<Rightarrow> world \<Rightarrow> bool" where
  "world_sound d w \<longleftrightarrow> run_repo_inv (w_runs w) \<and> event_repo_inv (w_events w) \<and>
     quota_inv window_key (w_quota w) \<and> approval_repo_inv (w_approvals w) \<and>
     (\<forall>k r. dict_get (runs_items (w_runs w)) k = Some r \<longrightarrow> run_born r) \<and>
     (\<forall>i. dict_has (events_by_id (w_events w)) i \<longrightarrow> drawn d ''event'' {..<w_ids w} i) \<and>
     (\<forall>t i. dict_has (quota_reservations (w_quota w)) (t, i) \<longrightarrow> drawn d ''quota'' {..<w_ids w} i)"

text \<open>
  Ids that appear in a store were drawn from the generator meanwhile, or belong to the handler:
  \<open>own\<close> holds the (prefix, id) pairs it drew before and has not used yet.
\<close>

definition new_ids ::
  "('x) deps_scheme \<Rightarrow> (string \<times> string) set \<Rightarrow> world \<Rightarrow> world \<Rightarrow> string \<Rightarrow> string \<Rightarrow> bool" where
  "new_ids d own s t prefix i \<longleftrightarrow> drawn d prefix {w_ids s..<w_ids t} i \<or> (prefix, i) \<in> own"

definition stores_grow ::
  "('x) deps_scheme \<Rightarrow> (string \<times> string) set \<Rightarrow> world \<Rightarrow> world \<Rightarrow> bool" where
  "stores_grow d own s t \<longleftrightarrow> event_history (w_events s) (w_events t) \<and>
     (\<forall>i. dict_has (events_by_id (w_events t)) i \<longrightarrow>
        dict_has (events_by_id (w_events s)) i \<or> new_ids d own s t ''event'' i) \<and>
     (\<forall>k i. dict_has (quota_reservations (w_quota t)) (k, i) \<longrightarrow>
        dict_has (quota_reservations (w_quota s)) (k, i) \<or> new_ids d own s t ''quota'' i)"

definition sys_own ::
  "('x) deps_scheme \<Rightarrow> (string \<times> string) set \<Rightarrow> world \<Rightarrow> world \<Rightarrow> bool" where
  "sys_own d own s t \<longleftrightarrow> run_history (w_runs s) (w_runs t) \<and>
     approval_history (w_approvals s) (w_approvals t) \<and>
     quota_history (w_quota s) (w_quota t) \<and> w_ids s \<le> w_ids t \<and>
     (world_sound d s \<longrightarrow> world_sound d t \<and> stores_grow d own s t)"

abbreviation sys :: "('x) deps_scheme \<Rightarrow> world \<Rightarrow> world \<Rightarrow> bool" where
  "sys d \<equiv> sys_own d {}"

lemma event_history_refl: "event_history s s"
  by (simp add: event_history_def)

lemma event_history_trans: "event_history s t \<Longrightarrow> event_history t u \<Longrightarrow> event_history s u"
  unfolding event_history_def by (metis append.assoc)

lemma drawn_mono: "drawn d p ns i \<Longrightarrow> ns \<subseteq> ms \<Longrightarrow> drawn d p ms i"
  unfolding drawn_def by blast

lemma new_ids_mono:
  "new_ids d own s t p i \<Longrightarrow> w_ids s' \<le> w_ids s \<Longrightarrow> w_ids t \<le> w_ids t' \<Longrightarrow> own \<subseteq> own' \<Longrightarrow>
   new_ids d own' s' t' p i"
  unfolding new_ids_def by (auto elim!: drawn_mono)

lemma stores_growI:
  assumes "event_history (w_events s) (w_events t)"
    and "\<And>i. dict_has (events_by_id (w_events t)) i \<Longrightarrow>
      dict_has (events_by_id (w_events s)) i \<or> new_ids d own s t ''event'' i"
    and "\<And>k i. dict_has (quota_reservations (w_quota t)) (k, i) \<Longrightarrow>
      dict_has (quota_reservations (w_quota s)) (k, i) \<or> new_ids d own s t ''quota'' i"
  shows "stores_grow d own s t"
  unfolding stores_grow_def using assms by blast

lemma stores_growD:
  assumes "stores_grow d own s t"
  shows "event_history (w_events s) (w_events t)"
    and "dict_has (events_by_id (w_events t)) i \<Longrightarrow>
      dict_has (events_by_id (w_events s)) i \<or> new_ids d own s t ''event'' i"
    and "dict_has (quota_reservations (w_quota t)) (k, i) \<Longrightarrow>
      dict_has (quota_reservations (w_quota s)) (k, i) \<or> new_ids d own s t ''quota'' i"
  using assms unfolding stores_grow_def by blast+

lemma stores_grow_same:
  assumes "w_events t = w_events s" and "w_quota t = w_quota s"
  shows "stores_grow d own s t"
  using assms by (intro stores_growI) (simp_all add: event_history_refl)

lemma stores_grow_trans:
  assumes st: "stores_grow d own s t" and tu: "stores_grow d P t u"
    and ids: "w_ids s \<le> w_ids t" "w_ids t \<le> w_ids u"
    and mine: "\<And>p i. (p, i) \<in> own \<union> P \<Longrightarrow> new_ids d Q s u p i"
  shows "stores_grow d Q s u"
proof (rule stores_growI)
  have new: "new_ids d Q s u p i" if "new_ids d own s t p i \<or> new_ids d P t u p i" for p i
    using that mine ids new_ids_mono [of d "{}" s t p i s u Q] new_ids_mono [of d "{}" t u p i s u Q]
    unfolding new_ids_def by auto
  show "event_history (w_events s) (w_events u)"
    using stores_growD(1) [OF st] stores_growD(1) [OF tu] by (rule event_history_trans)
  show "dict_has (events_by_id (w_events u)) i \<Longrightarrow>
      dict_has (events_by_id (w_events s)) i \<or> new_ids d Q s u ''event'' i" for i
    using stores_growD(2) [OF st] stores_growD(2) [OF tu] new by blast
  show "dict_has (quota_reservations (w_quota u)) (k, i) \<Longrightarrow>
      dict_has (quota_reservations (w_quota s)) (k, i) \<or> new_ids d Q s u ''quota'' i" for k i
    using stores_growD(3) [OF st] stores_growD(3) [OF tu] new by blast
qed

lemma sys_ownI:
  assumes "run_history (w_runs s) (w_runs t)" and "approval_history (w_approvals s) (w_approvals t)"
    and "quota_history (w_quota s) (w_quota t)" and "w_ids s \<le> w_ids t"
    and "world_sound d s \<Longrightarrow> world_sound d t" and "world_sound d s \<Longrightarrow> stores_grow d own s t"
  shows "sys_own d own s t"
  unfolding sys_own_def using assms by blast

lemma sys_ownD:
  assumes "sys_own d own s t"
  shows "run_history (w_runs s) (w_runs t)" and "approval_history (w_approvals s) (w_approvals t)"
    and "quota_history (w_quota s) (w_quota t)" and "w_ids s \<le> w_ids t"
    and "world_sound d s \<Longrightarrow> world_sound d t" and "world_sound d s \<Longrightarrow> stores_grow d own s t"
  using assms unfolding sys_own_def by blast+

lemma sys_own_trans:
  assumes st: "sys_own d own s t" and tu: "sys_own d P t u"
    and mine: "\<And>p i. (p, i) \<in> own \<union> P \<Longrightarrow> new_ids d Q s u p i"
  shows "sys_own d Q s u"
proof (rule sys_ownI)
  show "run_history (w_runs s) (w_runs u)"
    using sys_ownD(1) [OF st] sys_ownD(1) [OF tu] by (rule run_history_trans)
  show "approval_history (w_approvals s) (w_approvals u)"
    using sys_ownD(2) [OF st] sys_ownD(2) [OF tu] by (rule approval_history.R_trans)
  show "quota_history (w_quota s) (w_quota u)"
    using sys_ownD(3) [OF st] sys_ownD(3) [OF tu] by (rule quota_history.R_trans)
  show "w_ids s \<le> w_ids u" using sys_ownD(4) [OF st] sys_ownD(4) [OF tu] by (rule order_trans)
  assume s: "world_sound d s"
  with st have t: "world_sound d t" by (rule sys_ownD)
  with tu show "world_sound d u" by (rule sys_ownD)
  show "stores_grow d Q s u"
    using sys_ownD(6) [OF st s] sys_ownD(6) [OF tu t] sys_ownD(4) [OF st] sys_ownD(4) [OF tu] mine
    by (rule stores_grow_trans)
qed

lemma sys_same:
  assumes "w_runs t = w_runs s" and "w_approvals t = w_approvals s" and "w_events t = w_events s"
    and "w_quota t = w_quota s" and "w_ids s \<le> w_ids t"
  shows "sys_own d own s t"
proof (rule sys_ownI)
  have "drawn d p {..<w_ids s} i \<Longrightarrow> drawn d p {..<w_ids t} i" for p i
    using assms(5) by (elim drawn_mono) auto
  then show "world_sound d s \<Longrightarrow> world_sound d t"
    using assms unfolding world_sound_def by simp
qed (use assms in \<open>simp_all add: run_history_refl approval_history.R_refl quota_history.R_refl
  stores_grow_same\<close>)

interpretation sys: evolution "sys_own d own"
proof
  show "sys_own d own s s" for s by (rule sys_same) simp_all
  show "sys_own d own s t \<Longrightarrow> sys_own d own t u \<Longrightarrow> sys_own d own s u" for s t u
    by (erule sys_own_trans, assumption) (simp add: new_ids_def)
qed

lemma world_sound_empty: "world_sound d world_empty"
proof -
  have "runs_items run_repo_empty = []" "events_by_id event_repo_empty = []"
    "quota_reservations quota_repo_empty = []"
    by (simp_all add: run_repo_empty_def event_repo_empty_def quota_repo_empty_def)
  then show ?thesis
    by (simp add: world_sound_def world_empty_def run_repo_inv_empty event_repo_inv_empty
      quota_inv_empty approval_repo_inv_empty)
qed

end
