(* ===== verification/Rely.thy ===== *)
theory Rely
  imports World
begin

section \<open>Reasoning about handlers that are interrupted at every await\<close>

text \<open>
  \<open>upholds d K own m\<close>: started in a sound state in which the facts \<open>K\<close> hold and the ids \<open>own\<close>
  are drawn but unused, \<open>m\<close> respects the protocol, whether it returns or raises. Facts (a
  version of a run or of an approval that was read) stay true whatever the others do, so they
  may be used after any number of awaits. The rules compose along the source's control flow;
  \<open>rely d\<close> is what the handler expects of the others: that they respect the protocol too.
\<close>

datatype fact = KnowsRun run | KnowsApproval approval_request | KnowsReservation resource_reservation

fun holds :: "world \<Rightarrow> fact \<Rightarrow> bool" where
  "holds w (KnowsRun r) =
     (case dict_get (runs_items (w_runs w)) (run_key r) of None \<Rightarrow> False | Some c \<Rightarrow> run_later r c)"
| "holds w (KnowsApproval a) =
     (case dict_get (approvals_items (w_approvals w)) (approval_key a) of
        None \<Rightarrow> False | Some c \<Rightarrow> approval_later a c)"
| "holds w (KnowsReservation r) =
     (case dict_get (quota_reservations (w_quota w)) (resv_tenant_id r, resv_id r) of
        None \<Rightarrow> False | Some c \<Rightarrow> resv_later r c)"

definition fresh :: "('x) deps_scheme \<Rightarrow> world \<Rightarrow> string \<times> string \<Rightarrow> bool" where
  "fresh d w p \<longleftrightarrow> drawn d (fst p) {..<w_ids w} (snd p) \<and>
     (fst p = ''event'' \<longrightarrow> \<not> dict_has (events_by_id (w_events w)) (snd p)) \<and>
     (fst p = ''quota'' \<longrightarrow> (\<forall>k. \<not> dict_has (quota_reservations (w_quota w)) (k, snd p)))"

definition ids_distinct :: "('x) deps_scheme \<Rightarrow> bool" where
  "ids_distinct d \<longleftrightarrow> (\<forall>p. inj (d_new_id d p))"

definition rely :: "('x) deps_scheme \<Rightarrow> bool" where
  "rely d \<longleftrightarrow> ids_distinct d \<and> (\<forall>n w. world_sound d w \<longrightarrow> sys d w (d_others d n w))"

definition upholds ::
  "('x) deps_scheme \<Rightarrow> fact set \<Rightarrow> (string \<times> string) set \<Rightarrow> 'a handler \<Rightarrow> bool" where
  "upholds d K own m \<longleftrightarrow>
     (\<forall>w. world_sound d w \<longrightarrow> (\<forall>f \<in> K. holds w f) \<longrightarrow> (\<forall>p \<in> own. fresh d w p) \<longrightarrow>
        sys_own d own w (snd (m w)))"

named_theorems upholds_intros \<open>rules for \<open>upholds\<close>\<close>

lemma upholdsI:
  assumes "\<And>w r t. world_sound d w \<Longrightarrow> (\<And>f. f \<in> K \<Longrightarrow> holds w f) \<Longrightarrow>
    (\<And>p. p \<in> own \<Longrightarrow> fresh d w p) \<Longrightarrow> m w = (r, t) \<Longrightarrow> sys_own d own w t"
  shows "upholds d K own m"
  unfolding upholds_def using assms by (metis prod.collapse)

lemma upholdsD:
  assumes "upholds d K own m" and "world_sound d w" and "\<And>f. f \<in> K \<Longrightarrow> holds w f"
    and "\<And>p. p \<in> own \<Longrightarrow> fresh d w p" and "m w = (r, t)"
  shows "sys_own d own w t"
  using assms unfolding upholds_def by (metis snd_conv)

lemma holds_stable: "sys_own d own s t \<Longrightarrow> holds s f \<Longrightarrow> holds t f"
proof (cases f)
  case (KnowsRun r)
  then show "sys_own d own s t \<Longrightarrow> holds s f \<Longrightarrow> holds t f"
    using run_history_old [of "w_runs s" "w_runs t" "run_key r"]
    by (fastforce dest: sys_ownD(1) intro: run_later_trans split: option.splits)
next
  case (KnowsApproval a)
  then show "sys_own d own s t \<Longrightarrow> holds s f \<Longrightarrow> holds t f"
    using approval_historyD [of "w_approvals s" "w_approvals t" "approval_key a"]
    by (fastforce dest: sys_ownD(2) intro: approval_later_trans split: option.splits)
next
  case (KnowsReservation r)
  then show "sys_own d own s t \<Longrightarrow> holds s f \<Longrightarrow> holds t f"
    using quota_historyD [of "w_quota s" "w_quota t" "(resv_tenant_id r, resv_id r)"]
    by (fastforce dest: sys_ownD(3) intro: resv_later_trans split: option.splits)
qed

lemma drawn_disjoint: "ids_distinct d \<Longrightarrow> drawn d p ns i \<Longrightarrow> ns \<inter> ms = {} \<Longrightarrow> \<not> drawn d p ms i"
  unfolding drawn_def ids_distinct_def inj_def by blast

lemma fresh_stable:
  assumes "ids_distinct d" and st: "sys d s t" and "world_sound d s" and f: "fresh d s p"
  shows "fresh d t p"
proof -
  have g: "stores_grow d {} s t" using st assms(3) by (rule sys_ownD)
  have no: "\<not> new_ids d {} s t q (snd p)" if "fst p = q" for q
  proof -
    have "drawn d q {..<w_ids s} (snd p)" using f that by (simp add: fresh_def)
    then have "\<not> drawn d q {w_ids s..<w_ids t} (snd p)"
      by (rule drawn_disjoint [OF assms(1)]) auto
    then show ?thesis by (simp add: new_ids_def)
  qed
  have "{..<w_ids s} \<subseteq> {..<w_ids t}" using sys_ownD(4) [OF st] by auto
  then show ?thesis
    using f no stores_growD(2) [OF g, of "snd p"] stores_growD(3) [OF g, of _ "snd p"]
    unfolding fresh_def by (blast intro: drawn_mono)
qed

subsection \<open>Control flow\<close>

lemma upholds_weaken: "upholds d K own m \<Longrightarrow> K \<subseteq> K' \<Longrightarrow> upholds d K' own m"
  unfolding upholds_def by blast

lemma upholds_unowned:
  assumes m: "upholds d K {} m"
  shows "upholds d K own m"
proof (rule upholdsI)
  fix w r t
  assume w: "world_sound d w" and K: "\<And>f. f \<in> K \<Longrightarrow> holds w f" and run: "m w = (r, t)"
  have "sys d w t" by (rule upholdsD [OF m w _ _ run]) (simp_all add: K)
  then show "sys_own d own w t"
    by (rule sys_own_trans [OF _ sys.R_refl [of d "{}"]]) simp
qed

lemma upholds_ret [upholds_intros]: "upholds d K own (ret x)"
  by (rule upholdsI) (simp add: sys.R_refl)

lemma upholds_raise [upholds_intros]: "upholds d K own (raise e)"
  by (rule upholdsI) (simp add: sys.R_refl)

lemma upholds_ask [upholds_intros]: "upholds d K own (ask f)"
  by (rule upholdsI) (simp add: sys.R_refl ask_def)

lemma upholds_clock [upholds_intros]: "upholds d K own (clock d')"
  by (rule upholdsI) (auto simp: clock_def intro: sys_same)

text \<open>The first part must leave the owned ids alone; what it returns may teach facts.\<close>

lemma upholds_bind_learn:
  assumes r: "rely d" and m: "upholds d K {} m"
    and learn: "\<And>w x t f. world_sound d w \<Longrightarrow> (\<And>f. f \<in> K \<Longrightarrow> holds w f) \<Longrightarrow> m w = (Inr x, t) \<Longrightarrow>
      f \<in> L x \<Longrightarrow> holds t f"
    and f: "\<And>x. upholds d (K \<union> L x) own (f x)"
  shows "upholds d K own (bindP m f)"
proof (rule upholdsI)
  fix w o1 u
  assume w: "world_sound d w" and K: "\<And>f. f \<in> K \<Longrightarrow> holds w f"
    and own: "\<And>p. p \<in> own \<Longrightarrow> fresh d w p" and run: "bindP m f w = (o1, u)"
  obtain y t where mt: "m w = (y, t)" by (cases "m w")
  have wt: "sys d w t" by (rule upholdsD [OF m w _ _ mt]) (simp_all add: K)
  have lift: "sys_own d own w t"
    using wt by (rule sys_own_trans [OF _ sys.R_refl [of d "{}"]]) simp
  show "sys_own d own w u"
  proof (cases y)
    case (Inl e)
    with run mt lift show ?thesis by simp
  next
    case (Inr x)
    with run mt have fx: "f x t = (o1, u)" by simp
    have "sys_own d own t u"
    proof (rule upholdsD [OF f [of x] _ _ _ fx])
      show "world_sound d t" using wt w by (rule sys_ownD)
      show "g \<in> K \<union> L x \<Longrightarrow> holds t g" for g
        using K [of g] holds_stable [OF wt] learn [OF w K mt [unfolded Inr]] by blast
      show "p \<in> own \<Longrightarrow> fresh d t p" for p
        using r [unfolded rely_def] wt w own by (blast intro: fresh_stable)
    qed
    with lift show ?thesis by (rule sys.R_trans)
  qed
qed

lemma upholds_bind [upholds_intros]:
  assumes "rely d" and "upholds d K {} m" and "\<And>x. upholds d K own (f x)"
  shows "upholds d K own (bindP m f)"
  using assms by (intro upholds_bind_learn [where L = "\<lambda>_. {}"]) simp_all

text \<open>Or the first part uses the owned ids up.\<close>

lemma upholds_bind_owned:
  assumes m: "upholds d K own m" and f: "\<And>x. upholds d K {} (f x)"
  shows "upholds d K own (bindP m f)"
proof (rule upholdsI)
  fix w o1 u
  assume w: "world_sound d w" and K: "\<And>f. f \<in> K \<Longrightarrow> holds w f"
    and own: "\<And>p. p \<in> own \<Longrightarrow> fresh d w p" and run: "bindP m f w = (o1, u)"
  obtain y t where mt: "m w = (y, t)" by (cases "m w")
  have wt: "sys_own d own w t" by (rule upholdsD [OF m w K own mt])
  show "sys_own d own w u"
  proof (cases y)
    case (Inl e)
    with run mt wt show ?thesis by simp
  next
    case (Inr x)
    with run mt have fx: "f x t = (o1, u)" by simp
    have "sys d t u"
    proof (rule upholdsD [OF f [of x] _ _ _ fx])
      show "world_sound d t" using wt w by (rule sys_ownD)
      show "g \<in> K \<Longrightarrow> holds t g" for g using holds_stable [OF wt] K by blast
    qed simp
    with wt show ?thesis by (rule sys_own_trans) (simp add: new_ids_def)
  qed
qed

lemma upholds_then [upholds_intros]:
  "rely d \<Longrightarrow> upholds d K {} m \<Longrightarrow> upholds d K own n \<Longrightarrow> upholds d K own (thenP m n)"
  unfolding thenP_def by (rule upholds_bind)

lemma upholds_try [upholds_intros]: "upholds d K own m \<Longrightarrow> upholds d K own (tryP m)"
  unfolding upholds_def by (simp add: tryP_def)

lemma upholds_catch [upholds_intros]:
  assumes "rely d" and "upholds d K {} m" and "\<And>e. upholds d K {} (h e)"
  shows "upholds d K {} (catchP m h)"
proof -
  have "catchP m h = bindP (tryP m) (\<lambda>x. case x of Inl e \<Rightarrow> h e | Inr y \<Rightarrow> ret y)"
    by (auto simp: fun_eq_iff prog_apply split: prod.split sum.split)
  moreover have "upholds d K {} (case x of Inl e \<Rightarrow> h e | Inr y \<Rightarrow> ret y)" for x
    using assms(3) by (cases x) (simp_all add: upholds_ret)
  ultimately show ?thesis using assms by (auto intro: upholds_bind upholds_try)
qed

lemma upholds_when [upholds_intros]:
  "(b \<Longrightarrow> upholds d K own m) \<Longrightarrow> upholds d K own (whenP b m)"
  by (simp add: whenP_def upholds_ret)

lemma upholds_if [upholds_intros]:
  "(b \<Longrightarrow> upholds d K own m) \<Longrightarrow> (\<not> b \<Longrightarrow> upholds d K own n) \<Longrightarrow>
   upholds d K own (if b then m else n)"
  by simp

lemma upholds_Let [upholds_intros]: "upholds d K own (f v) \<Longrightarrow> upholds d K own (Let v f)"
  by simp

lemma upholds_option [upholds_intros]:
  "(v = None \<Longrightarrow> upholds d K own m) \<Longrightarrow> (\<And>x. v = Some x \<Longrightarrow> upholds d K own (f x)) \<Longrightarrow>
   upholds d K own (case v of None \<Rightarrow> m | Some x \<Rightarrow> f x)"
  by (cases v) simp_all

lemma upholds_sum [upholds_intros]:
  "(\<And>x. v = Inl x \<Longrightarrow> upholds d K own (f x)) \<Longrightarrow> (\<And>x. v = Inr x \<Longrightarrow> upholds d K own (g x)) \<Longrightarrow>
   upholds d K own (case v of Inl x \<Rightarrow> f x | Inr x \<Rightarrow> g x)"
  by (cases v) simp_all

lemma upholds_fold [upholds_intros]:
  assumes "rely d" and "\<And>b x. upholds d K {} (f b x)"
  shows "upholds d K {} (foldP f b xs)"
  using assms by (induction xs arbitrary: b) (auto intro: upholds_ret upholds_bind)

lemma upholds_quiet:
  assumes "\<And>w. sys_own d {} w (snd (m w))"
  shows "upholds d K own m"
proof (rule upholds_unowned, rule upholdsI)
  show "sys d w t" if "m w = (r, t)" for w r t using assms [of w] that by simp
qed

subsection \<open>Awaiting a port\<close>

lemma suspended_sys:
  assumes "rely d" and "world_sound d w"
  shows "sys d w (suspended d w)"
proof -
  have "sys d w (d_others d (w_awaits w) w)" using assms by (simp add: rely_def)
  moreover have "sys d (d_others d (w_awaits w) w) (suspended d w)"
    by (rule sys_same) (simp_all add: suspended_def)
  ultimately show ?thesis by (rule sys.R_trans)
qed

lemma suspended_sound: "rely d \<Longrightarrow> world_sound d w \<Longrightarrow> world_sound d (suspended d w)"
  using suspended_sys by (blast dest: sys_ownD(5))

lemma upholds_await [upholds_intros]:
  assumes r: "rely d" and m: "upholds d K own m"
  shows "upholds d K own (await d m)"
proof (rule upholdsI)
  fix w o1 t
  assume w: "world_sound d w" and K: "\<And>f. f \<in> K \<Longrightarrow> holds w f"
    and own: "\<And>p. p \<in> own \<Longrightarrow> fresh d w p" and run: "await d m w = (o1, t)"
  note s = suspended_sys [OF r w]
  have "sys_own d own (suspended d w) t"
    using m
  proof (rule upholdsD)
    show "world_sound d (suspended d w)" using r w by (rule suspended_sound)
    show "f \<in> K \<Longrightarrow> holds (suspended d w) f" for f using holds_stable [OF s] K by blast
    show "p \<in> own \<Longrightarrow> fresh d (suspended d w) p" for p
      using r [unfolded rely_def] s w own by (blast intro: fresh_stable)
    show "m (suspended d w) = (o1, t)" using run by (simp add: await_def)
  qed
  with s show "sys_own d own w t" by (rule sys_own_trans) (simp add: new_ids_def)
qed

text \<open>A call that leaves the stores of the protocol alone.\<close>

lemma upholds_modify:
  assumes "\<And>w. w_runs (f w) = w_runs w" "\<And>w. w_approvals (f w) = w_approvals w"
    "\<And>w. w_events (f w) = w_events w" "\<And>w. w_quota (f w) = w_quota w"
    "\<And>w. w_ids (f w) = w_ids w"
  shows "upholds d K own (modifyP f)"
  by (rule upholds_quiet) (simp add: sys_same assms)

lemma upholds_bus [upholds_intros]: "upholds d K own (bus_publish_event e)"
  unfolding bus_publish_event_def by (rule upholds_modify) simp_all

lemma upholds_enqueue [upholds_intros]: "upholds d K own (queue_enqueue_task t)"
  unfolding queue_enqueue_task_def by (rule upholds_modify) simp_all

lemma sys_runs:
  assumes "run_history (w_runs w) rs"
    and "world_sound d w \<Longrightarrow> run_repo_inv rs"
  shows "sys_own d own w (w\<lparr>w_runs := rs\<rparr>)"
proof (rule sys_ownI)
  show "world_sound d (w\<lparr>w_runs := rs\<rparr>)" if w: "world_sound d w"
  proof -
    have "run_born r" if r: "dict_get (runs_items rs) k = Some r" for k r
    proof (cases "dict_get (runs_items (w_runs w)) k")
      case None
      with assms(1) r show ?thesis by (auto intro: run_history_new)
    next
      case (Some r0)
      from run_history_old [OF assms(1) Some] r have "run_later r0 r" by auto
      moreover have "run_born r0" using w Some unfolding world_sound_def by blast
      ultimately show ?thesis by (blast intro: run_born_later)
    qed
    with w assms(2) show ?thesis by (simp add: world_sound_def)
  qed
qed (use assms(1) in \<open>simp_all add: approval_history.R_refl quota_history.R_refl
  stores_grow_same\<close>)

lemma sys_approvals:
  "approval_history (w_approvals w) as \<Longrightarrow> (world_sound d w \<Longrightarrow> approval_repo_inv as) \<Longrightarrow>
   sys_own d own w (w\<lparr>w_approvals := as\<rparr>)"
  by (rule sys_ownI) (simp_all add: run_history_refl quota_history.R_refl stores_grow_same
    world_sound_def)

lemma upholds_runs_add [upholds_intros]:
  assumes "run_status r = RunQueued" and "run_fencing_token r = 0"
  shows "upholds d K own (runs_add r)"
proof (rule upholdsI)
  fix w o1 t
  assume w: "world_sound d w" and run: "runs_add r w = (o1, t)"
  show "sys_own d own w t"
  proof (cases "run_add r (w_runs w)")
    case (Inl e)
    with run show ?thesis by (auto simp: runs_add_def sys.R_refl)
  next
    case (Inr rs)
    have "run_repo_inv rs" using w Inr by (auto simp: world_sound_def intro: run_repo_inv_add)
    with run_history_add [OF Inr assms] have "sys_own d own w (w\<lparr>w_runs := rs\<rparr>)"
      by (intro sys_runs)
    with run Inr show ?thesis by (simp add: runs_add_def)
  qed
qed

lemma upholds_bind_runs_get [upholds_intros]:
  assumes r: "rely d" and f: "\<And>x. run_key x = (tenant_id, rid) \<Longrightarrow>
      upholds d (insert (KnowsRun x) K) own (f x)"
  shows "upholds d K own (bindP (await d (runs_get tenant_id rid)) f)"
proof -
  let ?f = "\<lambda>x. if run_key x = (tenant_id, rid) then f x else ret undefined"
  have found: "run_key x = (tenant_id, rid) \<and> holds t (KnowsRun x)"
    if w: "world_sound d w" and run: "await d (runs_get tenant_id rid) w = (Inr x, t)" for w x t
  proof -
    let ?s = "suspended d w"
    from run have t: "t = ?s" and g: "dict_get (runs_items (w_runs ?s)) (tenant_id, rid) = Some x"
      by (auto simp: await_def runs_get_def ask_def run_get_def split: option.splits)
    have "run_repo_inv (w_runs ?s)" using suspended_sound [OF r w] by (simp add: world_sound_def)
    then have "run_key x = (tenant_id, rid)" using g by (rule run_repo_inv_key)
    with g t show ?thesis by (simp add: run_later_refl)
  qed
  have "upholds d K own (bindP (await d (runs_get tenant_id rid)) ?f)"
    using r by (rule upholds_bind_learn [where L = "\<lambda>x. {KnowsRun x}"])
      (use found f in \<open>auto intro!: upholds_await [OF r] upholds_ask upholds_ret simp: runs_get_def
         simp del: holds.simps\<close>)
  moreover have "bindP (await d (runs_get tenant_id rid)) ?f w =
      bindP (await d (runs_get tenant_id rid)) f w" if "world_sound d w" for w
    using found [OF that] by (auto simp: bindP_apply split: prod.split sum.split)
  ultimately show ?thesis unfolding upholds_def by simp
qed

lemma runs_cas_step:
  assumes edge: "(run_status x, run_status u) \<in> run_move"
    and same: "run_same x u" and token: "run_fencing_token u = run_fencing_token x + 1"
    and w: "world_sound d w" and K: "holds w (KnowsRun x)"
    and run: "runs_compare_and_set (run_status x) u w = (o1, t)"
  shows "sys_own d {} w t" and "o1 = Inr True \<Longrightarrow> holds t (KnowsRun u)"
proof -
  have "sys_own d {} w t \<and> (o1 = Inr True \<longrightarrow> holds t (KnowsRun u))"
  proof (cases "run_cas (run_status x) u (w_runs w)")
    case (Inl e)
    with run show ?thesis by (auto simp: runs_compare_and_set_def sys.R_refl)
  next
    case (Inr p)
    then obtain b rs where p: "run_cas (run_status x) u (w_runs w) = Inr (b, rs)"
      by (cases p) simp
    with run have t: "t = w\<lparr>w_runs := rs\<rparr>" and o1: "o1 = Inr b"
      by (simp_all add: runs_compare_and_set_def)
    from K obtain c where c: "dict_get (runs_items (w_runs w)) (run_key x) = Some c" "run_later x c"
      by (auto split: option.splits)
    note res = run_history_cas [OF p c edge same token]
    have inv: "run_repo_inv rs"
    proof (rule run_repo_inv_cas [OF _ p])
      show "run_repo_inv (w_runs w)" using w by (simp add: world_sound_def)
      show "run_idem_key u = run_idem_key c'"
        if "dict_get (runs_items (w_runs w)) (run_key u) = Some c'" for c'
        using that c run_same_keys [OF same] run_same_keys [OF run_later_same [OF c(2)]] by simp
    qed
    show ?thesis using sys_runs [OF res(1) inv] res(2) by (auto simp: t o1 run_later_refl)
  qed
  then show "sys_own d {} w t" and "o1 = Inr True \<Longrightarrow> holds t (KnowsRun u)" by blast+
qed

lemma upholds_await_runs_cas:
  assumes "rely d" and known: "KnowsRun x \<in> K"
    and "(run_status x, run_status u) \<in> run_move" and "run_same x u"
    and "run_fencing_token u = run_fencing_token x + 1"
  shows "upholds d K {} (await d (runs_compare_and_set (run_status x) u))"
  using assms(1) by (rule upholds_await) (rule upholdsI, use runs_cas_step(1) assms in blast)

lemma await_runs_cas_won:
  assumes r: "rely d" and step: "(run_status x, run_status u) \<in> run_move" "run_same x u"
      "run_fencing_token u = run_fencing_token x + 1"
    and w: "world_sound d w" and K: "holds w (KnowsRun x)"
    and run: "await d (runs_compare_and_set (run_status x) u) w = (Inr True, t)"
  shows "holds t (KnowsRun u)"
  using runs_cas_step(2) [OF step suspended_sound [OF r w]
    holds_stable [OF suspended_sys [OF r w] K]] run
  by (simp add: await_def)

lemma upholds_bind_runs_cas:
  assumes r: "rely d" and known: "KnowsRun x \<in> K"
    and st: "st = run_status x" and step: "(run_status x, run_status u) \<in> run_move"
      "run_same x u" "run_fencing_token u = run_fencing_token x + 1"
    and f: "upholds d K own (f False)" "upholds d (insert (KnowsRun u) K) own (f True)"
  shows "upholds d K own (bindP (await d (runs_compare_and_set st u)) f)"
  unfolding st
proof (rule upholds_bind_learn [OF r, where L = "\<lambda>b. if b then {KnowsRun u} else {}"])
  show "upholds d (K \<union> (if b then {KnowsRun u} else {})) own (f b)" for b
    using f by (cases b) simp_all
qed (use upholds_await_runs_cas [OF r known step] await_runs_cas_won [OF r step] known
  in \<open>auto split: if_splits simp del: holds.simps\<close>)

subsection \<open>Concrete environments\<close>

text \<open>
  The protocol depends on the id generator only, so one handler can serve as the interference
  of another. \<open>quiet_deps\<close> is a handler's world without others: each reading of the clock is a
  second later, ids count in unary.
\<close>

lemma sys_cong:
  assumes "d_new_id d = d_new_id d'"
  shows "sys_own d own s t = sys_own d' own s t" and "world_sound d s = world_sound d' s"
proof -
  have "drawn d = drawn d'" by (simp add: drawn_def fun_eq_iff assms)
  then show "world_sound d s = world_sound d' s" "sys_own d own s t = sys_own d' own s t"
    by (simp_all add: sys_own_def world_sound_def stores_grow_def new_ids_def)
qed

definition quiet_deps :: deps where
  "quiet_deps = \<lparr>d_clock = (\<lambda>n. 1000000 * int n), d_new_id = (\<lambda>p n. p @ replicate n (CHR ''1'')),
     d_others = (\<lambda>n w. w), d_trace_id = None, d_span_id = None, d_rounds = 3\<rparr>"

lemma quiet_ids: "d_new_id d = d_new_id quiet_deps \<Longrightarrow> ids_distinct d"
  by (simp add: ids_distinct_def quiet_deps_def inj_def)

lemma quiet_rely: "rely quiet_deps"
  by (simp add: rely_def quiet_ids sys.R_refl) (simp add: quiet_deps_def sys.R_refl)

lemma rely_handler:
  assumes ids: "d_new_id d = d_new_id quiet_deps"
    and up: "\<And>n. upholds quiet_deps {} {} (m n)"
    and others: "d_others d = (\<lambda>n w. snd (m n w))"
  shows "rely d"
  unfolding rely_def
proof (intro conjI allI impI)
  show "ids_distinct d" using ids by (rule quiet_ids)
  fix n w
  assume "world_sound d w"
  then have "sys quiet_deps w (snd (m n w))"
    using up [of n] by (simp add: upholds_def sys_cong(2) [OF ids])
  then show "sys d w (d_others d n w)" by (simp add: others sys_cong(1) [OF ids])
qed

end
