(* ===== verification/Event_Service.thy ===== *)
theory Event_Service
  imports Rely
begin

section \<open>Event service\<close>

text \<open>
  \<^verbatim>\<open>EventService\<close> of \<^verbatim>\<open>src/src/harness/application/events.py\<close>. \<open>event_service_append\<close> builds the
  event, then reads the last sequence number of the run and appends, until no other writer has
  got in between. The \<^verbatim>\<open>while True\<close> is bounded by \<open>d_rounds\<close>; a handler whose rounds are used
  up ends in \<open>NotReturned\<close>. \<open>append_returns\<close> shows that one round more than there are awaits at
  which another writer touches the run's log is always enough.
\<close>

definition event_service_list_after ::
  "('x) deps_scheme \<Rightarrow> string \<Rightarrow> string \<Rightarrow> int \<Rightarrow> run_event list handler" where
  "event_service_list_after d tenant_id rid after_sequence =
     await d (ask (\<lambda>w. Inr (event_list_after (w_events w) tenant_id rid after_sequence)))"

definition next_event :: "run_event list \<Rightarrow> run_event \<Rightarrow> run_event" where
  "next_event current e =
     e\<lparr>event_sequence := (if current = [] then 1 else event_sequence (last current) + 1)\<rparr>"

fun append_rounds :: "nat \<Rightarrow> ('x) deps_scheme \<Rightarrow> run_event \<Rightarrow> run_event handler" where
  "append_rounds 0 d e = raise NotReturned"
| "append_rounds (Suc n) d e =
     bindP (await d (ask (\<lambda>w. Inr (event_list_after (w_events w) (event_tenant_id e)
              (event_run_id e) 0)))) (\<lambda>current.
       bindP (tryP (await d (events_append (next_event current e)))) (\<lambda>outcome.
         case outcome of
           Inr _ \<Rightarrow> ret (next_event current e)
         | Inl x \<Rightarrow>
             if is_event_sequence_conflict x then append_rounds n d (next_event current e)
             else raise x))"

definition event_service_append ::
  "('x) deps_scheme \<Rightarrow> string \<Rightarrow> string \<Rightarrow> string \<Rightarrow> string \<Rightarrow> json_obj \<Rightarrow> run_event handler" where
  "event_service_append d tenant_id rid sid type payload =
     bindP (id_generator d ''event'') (\<lambda>eid.
     bindP (clock d) (\<lambda>timestamp.
       bindP (append_rounds (d_rounds d) d
         \<lparr>event_id = eid, event_run_id = rid, event_session_id = sid, event_tenant_id = tenant_id,
          event_sequence = 1, event_type = type, event_timestamp = timestamp,
          event_payload = payload, event_schema_version = 1, event_trace_id = d_trace_id d,
          event_span_id = d_span_id d\<rparr>) (\<lambda>e.
       thenP (await d (bus_publish_event e)) (ret e))))"

subsection \<open>The log under interference\<close>

lemma next_event_fields [simp]:
  "event_id (next_event es e) = event_id e" "event_tenant_id (next_event es e) = event_tenant_id e"
  "event_run_id (next_event es e) = event_run_id e"
  "event_stream_key (next_event es e) = event_stream_key e"
  by (simp_all add: next_event_def event_stream_key_def)

lemma next_event_again: "next_event es (next_event es' e) = next_event es e"
  by (simp add: next_event_def)

lemma upholds_new_id:
  assumes r: "rely d" and f: "\<And>i. upholds d K {(prefix, i)} (f i)"
  shows "upholds d K {} (bindP (id_generator d prefix) f)"
proof (rule upholdsI)
  fix w o1 u
  assume w: "world_sound d w" and K: "\<And>f. f \<in> K \<Longrightarrow> holds w f"
    and run: "bindP (id_generator d prefix) f w = (o1, u)"
  let ?i = "d_new_id d prefix (w_ids w)" and ?t = "w\<lparr>w_ids := Suc (w_ids w)\<rparr>"
  have wt: "sys d w ?t" by (rule sys_same) simp_all
  have new: "\<not> drawn d p {..<w_ids w} ?i" if "p = prefix" for p
    by (rule drawn_disjoint [where ns = "{w_ids w}"])
       (use r that in \<open>auto simp: rely_def drawn_def\<close>)
  have fr: "fresh d ?t (prefix, ?i)"
  proof -
    have "\<not> dict_has (events_by_id (w_events w)) ?i" if "prefix = ''event''"
      using w new [of "''event''"] that unfolding world_sound_def by blast
    moreover have "\<not> dict_has (quota_reservations (w_quota w)) (k, ?i)" if "prefix = ''quota''" for k
      using w new [of "''quota''"] that unfolding world_sound_def by blast
    ultimately show ?thesis by (auto simp: fresh_def drawn_def simp del: not_None_eq)
  qed
  have step: "sys_own d {(prefix, ?i)} ?t u"
  proof (rule upholdsD [OF f [of ?i]])
    show "world_sound d ?t" using wt w by (rule sys_ownD)
    show "g \<in> K \<Longrightarrow> holds ?t g" for g using holds_stable [OF wt] K by blast
    show "f ?i ?t = (o1, u)" using run by (simp add: bindP_apply id_generator_def)
  qed (use fr in simp)
  from wt step show "sys d w u"
  proof (rule sys_own_trans)
    have "Suc (w_ids w) \<le> w_ids u" using sys_ownD(4) [OF step] by simp
    then show "(p, i) \<in> {} \<union> {(prefix, ?i)} \<Longrightarrow> new_ids d {} w u p i" for p i
      by (auto simp: new_ids_def drawn_def)
  qed
qed

lemma upholds_plain_id:
  assumes "rely d" and "\<And>i. upholds d K {} (f i)"
  shows "upholds d K {} (bindP (id_generator d prefix) f)"
  using assms(1) by (rule upholds_new_id) (rule upholds_unowned, rule assms(2))

lemma event_history_append:
  assumes "event_append e s = Inr t"
  shows "event_history s t"
  using assms by (cases rule: event_append_cases) (auto simp: event_history_def)

text \<open>One attempt: it respects the protocol, and a refusal leaves the id unused.\<close>

lemma upholds_bind_append:
  assumes r: "rely d"
    and ok: "upholds d K {} (f (Inr ()))"
    and refused: "\<And>x. upholds d K {(''event'', event_id e)} (f (Inl x))"
  shows "upholds d K {(''event'', event_id e)} (bindP (tryP (await d (events_append e))) f)"
proof (rule upholdsI)
  let ?own = "{(''event'', event_id e)}"
  fix w o1 u
  assume w: "world_sound d w" and K: "\<And>f. f \<in> K \<Longrightarrow> holds w f"
    and own: "\<And>p. p \<in> ?own \<Longrightarrow> fresh d w p"
    and run: "bindP (tryP (await d (events_append e))) f w = (o1, u)"
  let ?s = "suspended d w"
  note ws = suspended_sys [OF r w]
  have s: "world_sound d ?s" using r w by (rule suspended_sound)
  have Ks: "g \<in> K \<Longrightarrow> holds ?s g" for g using holds_stable [OF ws] K by blast
  have fr: "fresh d ?s (''event'', event_id e)"
    using r [unfolded rely_def] ws w own by (blast intro: fresh_stable)
  have "sys_own d ?own ?s u"
  proof (cases "event_append e (w_events ?s)")
    case (Inl x)
    show ?thesis
    proof (rule upholdsD [OF refused [of x] s Ks])
      show "f (Inl x) ?s = (o1, u)"
        using run Inl by (simp add: bindP_apply tryP_apply await_def events_append_def)
    qed (use fr in simp_all)
  next
    case (Inr es)
    let ?t = "?s\<lparr>w_events := es\<rparr>"
    have inv: "event_repo_inv (w_events ?s)" using s by (simp add: world_sound_def)
    have ids: "dict_has (events_by_id es) i \<longleftrightarrow>
        dict_has (events_by_id (w_events ?s)) i \<or> i = event_id e" for i
      using Inr by (cases rule: event_append_cases) auto
    have st: "sys_own d ?own ?s ?t"
    proof (rule sys_ownI)
      have "drawn d ''event'' {..<w_ids ?s} (event_id e)" using fr by (simp add: fresh_def)
      then show "world_sound d ?t"
        using s event_repo_inv_append [OF inv Inr] unfolding world_sound_def by (auto simp: ids simp del: not_None_eq)
      show "stores_grow d ?own ?s ?t"
        by (rule stores_growI)
           (auto simp: event_history_append [OF Inr] new_ids_def ids
             simp del: not_None_eq)
    qed (simp_all add: run_history_refl approval_history.R_refl quota_history.R_refl)
    have "sys d ?t u"
    proof (rule upholdsD [OF ok])
      show "world_sound d ?t" using st s by (rule sys_ownD)
      show "g \<in> K \<Longrightarrow> holds ?t g" for g using holds_stable [OF st] Ks by blast
      show "f (Inr ()) ?t = (o1, u)"
        using run Inr by (simp add: bindP_apply tryP_apply await_def events_append_def)
    qed simp
    with st show ?thesis by (rule sys_own_trans) (auto simp: new_ids_def)
  qed
  with ws show "sys_own d ?own w u" by (rule sys_own_trans) (auto simp: new_ids_def)
qed

lemma upholds_append_rounds:
  assumes r: "rely d"
  shows "upholds d K {(''event'', event_id e)} (append_rounds n d e)"
proof (induction n arbitrary: e)
  case (Suc n)
  have "upholds d K {(''event'', event_id (next_event es e))}
      (bindP (tryP (await d (events_append (next_event es e))))
        (\<lambda>outcome. case outcome of Inr _ \<Rightarrow> ret (next_event es e)
         | Inl x \<Rightarrow> if is_event_sequence_conflict x then append_rounds n d (next_event es e)
             else raise x))" for es
    by (rule upholds_bind_append [OF r])
       (use Suc.IH [of "next_event es e"] in \<open>auto intro: upholds_intros\<close>)
  then show ?case
    unfolding append_rounds.simps
    by (intro upholds_bind [OF r upholds_await [OF r upholds_ask]]) simp
qed (simp add: upholds_raise)

lemma upholds_event_append [upholds_intros]:
  assumes r: "rely d"
  shows "upholds d K {} (event_service_append d tenant_id rid sid type payload)"
  unfolding event_service_append_def
proof (rule upholds_new_id [OF r], rule upholds_bind [OF r], rule upholds_clock,
    rule upholds_bind_owned)
  fix eid ts
  let ?e = "\<lparr>event_id = eid, event_run_id = rid, event_session_id = sid,
    event_tenant_id = tenant_id, event_sequence = 1, event_type = type, event_timestamp = ts,
    event_payload = payload, event_schema_version = 1, event_trace_id = d_trace_id d,
    event_span_id = d_span_id d\<rparr>"
  show "upholds d K {(''event'', eid)} (append_rounds (d_rounds d) d ?e)"
    using upholds_append_rounds [OF r, of K ?e] by simp
qed (intro upholds_then upholds_await upholds_bus upholds_ret r)

subsection \<open>Appending returns\<close>

definition touches_log :: "('x) deps_scheme \<Rightarrow> string \<times> string \<Rightarrow> nat \<Rightarrow> bool" where
  "touches_log d k n \<longleftrightarrow>
     (\<exists>w. event_stream (w_events (d_others d n w)) k \<noteq> event_stream (w_events w) k)"

definition rivals :: "('x) deps_scheme \<Rightarrow> string \<times> string \<Rightarrow> nat \<Rightarrow> nat set" where
  "rivals d k a = {n. a \<le> n \<and> touches_log d k n}"

lemma rivals_Suc: "rivals d k (Suc a) = rivals d k a - {a}"
  by (auto simp: rivals_def)

lemma suspended_stream:
  "\<not> touches_log d k (w_awaits w) \<Longrightarrow>
   event_stream (w_events (suspended d w)) k = event_stream (w_events w) k"
  by (simp add: touches_log_def suspended_def)

lemma suspended_awaits [simp]: "w_awaits (suspended d w) = Suc (w_awaits w)"
  by (simp add: suspended_def)

lemma next_event_sequence:
  assumes "event_repo_inv repo"
  shows "event_sequence (next_event (event_list_after repo t r 0) e) =
    int (length (event_list_after repo t r 0)) + 1"
  using memory_events.next_sequence [OF assms, of t r]
  by (cases "event_list_after repo t r 0") (simp_all add: next_event_def)

lemma append_returns:
  assumes r: "rely d" and w: "world_sound d w" and f: "fresh d w (''event'', event_id e)"
    and fin: "finite (rivals d (event_stream_key e) (w_awaits w))"
    and fuel: "card (rivals d (event_stream_key e) (w_awaits w)) < n"
  obtains e' t where "append_rounds n d e w = (Inr e', t)"
    and "e' = e\<lparr>event_sequence := event_sequence e'\<rparr>"
    and "event_stream (w_events t) (event_stream_key e) \<noteq> []"
    and "last (event_stream (w_events t) (event_stream_key e)) = e'"
    and "event_sequence e' = int (length (event_stream (w_events t) (event_stream_key e)))"
proof -
  let ?k = "event_stream_key e"
  have "\<exists>e' t es. append_rounds n d e w = (Inr e', t) \<and>
      e' = e\<lparr>event_sequence := event_sequence e'\<rparr> \<and>
      event_stream (w_events t) ?k = es @ [e'] \<and> event_sequence e' = int (length es) + 1"
    using w f fin fuel
  proof (induction n arbitrary: w e)
    case (Suc n)
    let ?w1 = "suspended d w" and ?k = "event_stream_key e"
    let ?w2 = "suspended d ?w1" and ?es = "event_stream (w_events (suspended d w)) (event_stream_key e)"
    have w1: "world_sound d ?w1" using r Suc.prems(1) by (rule suspended_sound)
    have w2: "world_sound d ?w2" using r w1 by (rule suspended_sound)
    have inv: "event_repo_inv (w_events ?w1)" "event_repo_inv (w_events ?w2)"
      using w1 w2 by (simp_all add: world_sound_def)
    have ids: "ids_distinct d" using r by (simp add: rely_def)
    have f1: "fresh d ?w1 (''event'', event_id e)"
      using fresh_stable [OF ids suspended_sys [OF r Suc.prems(1)] Suc.prems(1,2)] .
    have f2: "fresh d ?w2 (''event'', event_id e)"
      using fresh_stable [OF ids suspended_sys [OF r w1] w1 f1] .
    have cur: "event_list_after (w_events ?w1) (event_tenant_id e) (event_run_id e) 0 = ?es"
      using event_list_after_all [OF inv(1)] by (simp add: event_stream_key_def)
    define e' where "e' = next_event ?es e"
    have e': "event_id e' = event_id e" "event_stream_key e' = ?k"
        "event_sequence e' = int (length ?es) + 1"
      using next_event_sequence [OF inv(1), of "event_tenant_id e" "event_run_id e" e] cur
      by (simp_all add: e'_def)
    have new: "dict_get (events_by_id (w_events ?w2)) (event_id e) = None"
      using f2 by (simp add: fresh_def)
    have step: "append_rounds (Suc n) d e w = (case event_append e' (w_events ?w2) of
        Inr es \<Rightarrow> (Inr e', ?w2\<lparr>w_events := es\<rparr>)
      | Inl x \<Rightarrow> if is_event_sequence_conflict x then append_rounds n d e' ?w2 else (Inl x, ?w2))"
      by (simp add: bindP_apply tryP_apply await_def ask_def cur events_append_def e'_def
        split: sum.split)
    show ?case
    proof (cases "length (event_stream (w_events ?w2) ?k) = length ?es")
      case True
      then have "event_append e' (w_events ?w2) = Inr (w_events ?w2
          \<lparr>events_items := dict_set ?k (event_stream (w_events ?w2) ?k @ [e'])
             (events_items (w_events ?w2)),
           events_by_id := dict_set (event_id e) e' (events_by_id (w_events ?w2))\<rparr>)"
        using new e' by (simp add: event_append_def Let_def)
      with True e' step show ?thesis
        by (intro exI [of _ e'] exI [of _ "event_stream (w_events ?w2) ?k"])
           (auto simp: e'_def next_event_def)
    next
      case False
      then obtain m where "event_append e' (w_events ?w2) = Inl (EventSequenceConflictError m)"
        using new e' by (auto simp: event_append_def Let_def)
      then have go: "append_rounds (Suc n) d e w = append_rounds n d e' ?w2" using step by simp
      have "touches_log d ?k (w_awaits ?w1)"
      proof (rule ccontr)
        assume "\<not> touches_log d ?k (w_awaits ?w1)"
        then have "event_stream (w_events ?w2) ?k = ?es" by (rule suspended_stream)
        with False show False by simp
      qed
      then have "Suc (w_awaits w) \<in> rivals d ?k (w_awaits w)" by (simp add: rivals_def)
      with Suc.prems(3) have "card (rivals d ?k (w_awaits w) - {Suc (w_awaits w)}) <
          card (rivals d ?k (w_awaits w))"
        by (rule card_Diff1_less)
      then have "card (rivals d ?k (w_awaits w) - {Suc (w_awaits w)}) < n"
        using Suc.prems(4) by linarith
      moreover have "card (rivals d ?k (w_awaits ?w2)) \<le>
          card (rivals d ?k (w_awaits w) - {Suc (w_awaits w)})"
        using Suc.prems(3) by (intro card_mono) (auto simp: rivals_Suc)
      ultimately have card: "card (rivals d ?k (w_awaits ?w2)) < n"
          "finite (rivals d ?k (w_awaits ?w2))"
        using Suc.prems(3) by (auto simp: rivals_Suc)
      have "\<exists>x t es. append_rounds n d e' ?w2 = (Inr x, t) \<and>
          x = e'\<lparr>event_sequence := event_sequence x\<rparr> \<and>
          event_stream (w_events t) (event_stream_key e') = es @ [x] \<and>
          event_sequence x = int (length es) + 1"
        using w2 f2 card e' by (intro Suc.IH) simp_all
      then show ?thesis unfolding go e'(2) by (auto simp: e'_def next_event_def)
    qed
  qed simp
  then show thesis using that by fastforce
qed

lemma event_history_nth:
  assumes "event_history s t" and "i < length (event_stream s k)"
  shows "i < length (event_stream t k)" and "event_stream t k ! i = event_stream s k ! i"
proof -
  from assms(1) obtain es where "event_stream t k = event_stream s k @ es"
    unfolding event_history_def by blast
  with assms(2) show "i < length (event_stream t k)"
    "event_stream t k ! i = event_stream s k ! i"
    by (simp_all add: nth_append)
qed


text \<open>Another writer gets in between reading the log and appending to it.\<close>

definition rival_writer :: "nat \<Rightarrow> unit handler" where
  "rival_writer n = (if n = 1
     then bindP (event_service_append quiet_deps ''t'' ''r'' ''s'' ''other'' []) (\<lambda>_. ret ())
     else ret ())"

definition rival_deps :: deps where
  "rival_deps = quiet_deps\<lparr>d_others := (\<lambda>n w. snd (rival_writer n w))\<rparr>"

lemma rival_rely: "rely rival_deps"
  by (rule rely_handler [where m = rival_writer])
     (auto simp: rival_deps_def rival_writer_def intro!: upholds_if upholds_bind upholds_ret
       upholds_event_append quiet_rely)

lemma rival_rivals: "rivals rival_deps k a \<subseteq> {1}"
  by (auto simp: rivals_def touches_log_def rival_deps_def rival_writer_def split: if_splits)

lemma rival_result:
  "fst (event_service_append rival_deps ''t'' ''r'' ''s'' ''mine'' [] world_empty) =
     Inr \<lparr>event_id = ''event'', event_run_id = ''r'', event_session_id = ''s'',
       event_tenant_id = ''t'', event_sequence = 2, event_type = ''mine'', event_timestamp = 0,
       event_payload = [], event_schema_version = 1, event_trace_id = None, event_span_id = None\<rparr>"
  by code_simp


end
