(* ===== verification/Quota_Service.thy ===== *)
theory Quota_Service
  imports Event_Service
begin

section \<open>Quota service\<close>

text \<open>
  \<^verbatim>\<open>QuotaService\<close> of \<^verbatim>\<open>src/src/harness/quota/service.py\<close> without an audit sink: which policies
  constrain a request, reservation, commit and release of amounts, admission of a run (all its
  reservations or none), the accounting of its result, reaping and the usage view. The keyword
  arguments that describe the caller travel together as \<open>quota_caller\<close>.
\<close>

record quota_caller =
  caller_organization_id :: "string option"
  caller_team_ids :: "string list"
  caller_user_id :: "string option"
  caller_agent_name :: "string option"
  caller_environment :: "string option"
  caller_api_key_id :: "string option"

subsection \<open>Policies and constraints\<close>

definition builtin_policy :: "string \<Rightarrow> quota_policy" where
  "builtin_policy tenant_id =
     \<lparr>policy_tenant_id = tenant_id, policy_id = ''tenant-default'', policy_revision = 0,
      policy_scope = global_scope, policy_limits = default_limits, policy_alert_thresholds = [],
      policy_updated_by = ''platform-default'', policy_updated_at = 0\<rparr>"

fun dict_update :: "('k, 'v) dict \<Rightarrow> ('k, 'v) dict \<Rightarrow> ('k, 'v) dict" where
  "dict_update d [] = d"
| "dict_update d ((k, v) # kvs) = dict_update (dict_set k v d) kvs"

definition visible_policies :: "string \<Rightarrow> quota_policy list \<Rightarrow> quota_policy list" where
  "visible_policies tenant_id stored =
     (if \<not> (\<exists>p \<in> set stored. scope_key (policy_scope p) = scope_key global_scope)
      then builtin_policy tenant_id # stored
      else map (\<lambda>p. if scope_key (policy_scope p) = scope_key global_scope
             then p\<lparr>policy_limits := dict_update default_limits (policy_limits p)\<rparr> else p) stored)"

definition quota_service_list_policies :: "('x) deps_scheme \<Rightarrow> string \<Rightarrow> quota_policy list handler" where
  "quota_service_list_policies d tenant_id =
     bindP (await d (ask (\<lambda>w. Inr (quota_list_policies (w_quota w) tenant_id)))) (\<lambda>stored.
       ret (visible_policies tenant_id stored))"

definition quota_service_replace_policy ::
  "('x) deps_scheme \<Rightarrow> string \<Rightarrow> string \<Rightarrow> string \<Rightarrow> replace_quota_policy_request \<Rightarrow>
   quota_policy handler" where
  "quota_service_replace_policy d tenant_id user_id pid request =
     bindP (clock d) (\<lambda>now.
       await d (quota_call (quota_replace_policy
         \<lparr>policy_tenant_id = tenant_id, policy_id = pid,
          policy_revision = replace_expected_revision request + 1,
          policy_scope = replace_scope request, policy_limits = replace_limits request,
          policy_alert_thresholds = replace_alert_thresholds request,
          policy_updated_by = user_id, policy_updated_at = now\<rparr>
         (replace_expected_revision request))))"

definition scope_field :: "string option \<Rightarrow> string option \<Rightarrow> bool" where
  "scope_field wanted actual \<longleftrightarrow> wanted = None \<or> wanted = actual"

definition policy_applies :: "quota_caller \<Rightarrow> quota_resource \<Rightarrow> quota_policy \<Rightarrow> bool" where
  "policy_applies c res p \<longleftrightarrow>
     (let s = policy_scope p in
      scope_field (scope_organization_id s) (caller_organization_id c) \<and>
      (case scope_team_id s of None \<Rightarrow> True | Some team \<Rightarrow> team \<in> set (caller_team_ids c)) \<and>
      scope_field (scope_user_id s) (caller_user_id c) \<and>
      scope_field (scope_agent_name s) (caller_agent_name c) \<and>
      scope_field (scope_environment s) (caller_environment c) \<and>
      scope_field (scope_api_key_id s) (caller_api_key_id c) \<and>
      dict_has (policy_limits p) res)"

fun select_policies ::
  "quota_caller \<Rightarrow> quota_resource \<Rightarrow> quota_policy list \<Rightarrow> (string, quota_policy) dict \<Rightarrow>
   (string, quota_policy) dict" where
  "select_policies c res [] selected = selected"
| "select_policies c res (p # ps) selected =
     select_policies c res ps
       (if policy_applies c res p \<and>
           (case dict_get selected (scope_key (policy_scope p)) of
              None \<Rightarrow> True
            | Some current \<Rightarrow> policy_revision current < policy_revision p)
        then dict_set (scope_key (policy_scope p)) p selected
        else selected)"

definition constraints_of ::
  "string \<Rightarrow> quota_policy list \<Rightarrow> quota_caller \<Rightarrow> quota_resource \<Rightarrow> quota_constraint list" where
  "constraints_of tenant_id stored c res =
     map (\<lambda>(k, p). \<lparr>constraint_scope_key = k,
              constraint_limit = dict_get_or (policy_limits p) res 0\<rparr>)
       (py_sorted fst (select_policies c res (builtin_policy tenant_id # stored) []))"

subsection \<open>Reserving, committing, releasing\<close>

definition quota_service_reserve ::
  "('x) deps_scheme \<Rightarrow> string \<Rightarrow> quota_resource \<Rightarrow> int \<Rightarrow> string \<Rightarrow> string \<Rightarrow> quota_caller \<Rightarrow> int \<Rightarrow>
   resource_reservation handler" where
  "quota_service_reserve d tenant_id res amount subject_id idem c ttl_seconds =
     (if amount < 1 then raise (ValueError ''quota reservation amount must be positive'')
      else
        let organization = Some (str_or (caller_organization_id c) tenant_id) in
        bindP (clock d) (\<lambda>now.
        bindP (await d (ask (\<lambda>w. Inr (quota_list_policies (w_quota w) tenant_id)))) (\<lambda>stored.
        bindP (id_generator d ''quota'') (\<lambda>rid.
          let constraints = constraints_of tenant_id stored
                (c\<lparr>caller_organization_id := organization\<rparr>) res in
          await d (quota_call (quota_reserve
            \<lparr>resv_tenant_id = tenant_id, resv_id = rid, resv_idempotency_key = idem,
             resv_resource = res, resv_amount = amount, resv_constraints = constraints,
             resv_organization_id = organization, resv_team_ids = caller_team_ids c,
             resv_user_id = caller_user_id c, resv_agent_name = caller_agent_name c,
             resv_environment = caller_environment c, resv_api_key_id = caller_api_key_id c,
             resv_subject_id = subject_id, resv_state = ReservationActive, resv_created_at = now,
             resv_expires_at = now + ttl_seconds * 1000000, resv_completed_at = None\<rparr>
            (window_key res now)))))))"

definition quota_service_commit ::
  "('x) deps_scheme \<Rightarrow> resource_reservation \<Rightarrow> int option \<Rightarrow> resource_reservation handler" where
  "quota_service_commit d r amount =
     (let committed = (case amount of None \<Rightarrow> resv_amount r | Some a \<Rightarrow> a) in
      bindP (clock d) (\<lambda>now.
      bindP (id_generator d ''usage'') (\<lambda>entry.
        if committed < 0
        then raise (ValueError ''usage ledger amount must not be negative'')
        else await d (quota_call (quota_commit (resv_tenant_id r) (resv_id r) committed
          (window_key (resv_resource r) (resv_created_at r))
          \<lparr>ledger_tenant_id = resv_tenant_id r, ledger_entry_id = entry,
           ledger_reservation_id = Some (resv_id r), ledger_resource = resv_resource r,
           ledger_amount = Some committed, ledger_cost_state = CostKnown,
           ledger_organization_id = resv_organization_id r, ledger_team_ids = resv_team_ids r,
           ledger_user_id = resv_user_id r, ledger_agent_name = resv_agent_name r,
           ledger_environment = resv_environment r, ledger_api_key_id = resv_api_key_id r,
           ledger_subject_id = resv_subject_id r, ledger_occurred_at = now\<rparr>)))))"

definition quota_service_release ::
  "('x) deps_scheme \<Rightarrow> resource_reservation \<Rightarrow> bool \<Rightarrow> resource_reservation handler" where
  "quota_service_release d r expired =
     await d (quota_call (quota_release (resv_tenant_id r) (resv_id r)
       (if expired then ReservationExpired else ReservationReleased)
       (window_key (resv_resource r) (resv_created_at r))))"

definition quota_service_consume ::
  "('x) deps_scheme \<Rightarrow> string \<Rightarrow> quota_resource \<Rightarrow> int \<Rightarrow> string \<Rightarrow> string \<Rightarrow> quota_caller \<Rightarrow>
   resource_reservation handler" where
  "quota_service_consume d tenant_id res amount subject_id idem c =
     bindP (quota_service_reserve d tenant_id res amount subject_id idem c 3600) (\<lambda>r.
       quota_service_commit d r None)"

fun release_all :: "('x) deps_scheme \<Rightarrow> resource_reservation list \<Rightarrow> unit handler" where
  "release_all d [] = ret ()"
| "release_all d (r # rs) = thenP (quota_service_release d r False) (release_all d rs)"

subsection \<open>Admission of a run\<close>

text \<open>The reservations of a run: one slot, and its budget and tokens where these are bounded.\<close>

definition run_demands ::
  "string \<Rightarrow> rat option \<Rightarrow> int option \<Rightarrow> (quota_resource \<times> int \<times> string) list" where
  "run_demands rid max_budget_usd max_model_tokens =
     [(ConcurrentRuns, 1, ''run:'' @ rid @ '':concurrency'')] @
     (case max_budget_usd of
        None \<Rightarrow> []
      | Some v \<Rightarrow> [(ModelCostMicroUsd, micro_usd v, ''run:'' @ rid @ '':cost'')]) @
     (case max_model_tokens of
        None \<Rightarrow> []
      | Some n \<Rightarrow> [(ModelTokens, n, ''run:'' @ rid @ '':tokens'')])"

fun admit_demands ::
  "('x) deps_scheme \<Rightarrow> string \<Rightarrow> string \<Rightarrow> quota_caller \<Rightarrow> int \<Rightarrow>
   (quota_resource \<times> int \<times> string) list \<Rightarrow> resource_reservation list \<Rightarrow>
   resource_reservation list handler" where
  "admit_demands d tenant_id rid c ttl [] admitted = ret admitted"
| "admit_demands d tenant_id rid c ttl ((res, amount, idem) # demands) admitted =
     bindP (tryP (quota_service_reserve d tenant_id res amount rid idem c ttl)) (\<lambda>outcome.
       case outcome of
         Inr r \<Rightarrow> admit_demands d tenant_id rid c ttl demands (admitted @ [r])
       | Inl e \<Rightarrow> thenP (release_all d admitted) (raise e))"

definition admit_run ::
  "('x) deps_scheme \<Rightarrow> string \<Rightarrow> string \<Rightarrow> quota_caller \<Rightarrow> rat option \<Rightarrow> int option \<Rightarrow> int \<Rightarrow>
   resource_reservation list handler" where
  "admit_run d tenant_id rid c max_budget_usd max_model_tokens ttl =
     admit_demands d tenant_id rid (c\<lparr>caller_organization_id := Some tenant_id\<rparr>) ttl
       (run_demands rid max_budget_usd max_model_tokens) []"

text \<open>\<open>created\<close> holds what this call reserved itself; only that is released on failure.\<close>

fun ensure_demands ::
  "('x) deps_scheme \<Rightarrow> string \<Rightarrow> string \<Rightarrow> quota_caller \<Rightarrow> int \<Rightarrow>
   (quota_resource \<times> int \<times> string) list \<Rightarrow> resource_reservation list \<Rightarrow>
   resource_reservation list \<Rightarrow> resource_reservation list handler" where
  "ensure_demands d tenant_id rid c ttl [] admitted created = ret admitted"
| "ensure_demands d tenant_id rid c ttl ((res, amount, idem) # demands) admitted created =
     bindP (await d (ask (\<lambda>w. Inr (quota_get_reservation (w_quota w) tenant_id idem)))) (\<lambda>existing.
       case existing of
         Some r \<Rightarrow> ensure_demands d tenant_id rid c ttl demands (admitted @ [r]) created
       | None \<Rightarrow>
           bindP (tryP (quota_service_reserve d tenant_id res amount rid idem c ttl)) (\<lambda>outcome.
             case outcome of
               Inr r \<Rightarrow> ensure_demands d tenant_id rid c ttl demands (admitted @ [r]) (created @ [r])
             | Inl e \<Rightarrow> thenP (release_all d created) (raise e)))"

definition ensure_run_admitted ::
  "('x) deps_scheme \<Rightarrow> string \<Rightarrow> string \<Rightarrow> quota_caller \<Rightarrow> rat option \<Rightarrow> int option \<Rightarrow> int \<Rightarrow>
   resource_reservation list handler" where
  "ensure_run_admitted d tenant_id rid c max_budget_usd max_model_tokens ttl =
     ensure_demands d tenant_id rid (c\<lparr>caller_organization_id := Some tenant_id\<rparr>) ttl
       (run_demands rid max_budget_usd max_model_tokens) [] []"

subsection \<open>The result of a run\<close>

definition usage_tokens :: "json_obj option \<Rightarrow> int" where
  "usage_tokens usage =
     sum_list (map (\<lambda>k. case dict_get (case usage of None \<Rightarrow> [] | Some u \<Rightarrow> u) k of
         Some (JInt n) \<Rightarrow> if 0 < n then n else 0 | _ \<Rightarrow> 0)
       [''input_tokens'', ''output_tokens'', ''cache_creation_input_tokens'',
        ''cache_read_input_tokens''])"

fun known_cost :: "json \<Rightarrow> rat option" where
  "known_cost (JInt n) = Some (of_int n)"
| "known_cost (JFloat q) = Some q"
| "known_cost _ = None"

definition record_run_result ::
  "('x) deps_scheme \<Rightarrow> string \<Rightarrow> string \<Rightarrow> quota_caller \<Rightarrow> json_obj option \<Rightarrow> json \<Rightarrow> unit handler"
where
  "record_run_result d tenant_id rid c0 usage total_cost_usd =
     (let c = c0\<lparr>caller_organization_id := Some tenant_id\<rparr>; tokens = usage_tokens usage in
      bindP (await d (ask (\<lambda>w. Inr (quota_get_reservation (w_quota w) tenant_id
               (''run:'' @ rid @ '':tokens''))))) (\<lambda>token_reservation.
      thenP (case token_reservation of
               Some r \<Rightarrow> thenP (quota_service_commit d r (Some tokens)) (ret ())
             | None \<Rightarrow> whenP (tokens \<noteq> 0)
                 (thenP (quota_service_consume d tenant_id ModelTokens tokens rid
                    (''run:'' @ rid @ '':actual-tokens'') c) (ret ())))
      (bindP (await d (ask (\<lambda>w. Inr (quota_get_reservation (w_quota w) tenant_id
               (''run:'' @ rid @ '':cost''))))) (\<lambda>cost_reservation.
        case known_cost total_cost_usd of
          Some v \<Rightarrow>
            (case cost_reservation of
               Some r \<Rightarrow> thenP (quota_service_commit d r (Some (micro_usd v))) (ret ())
             | None \<Rightarrow> whenP (micro_usd v \<noteq> 0)
                 (thenP (quota_service_consume d tenant_id ModelCostMicroUsd (micro_usd v) rid
                    (''run:'' @ rid @ '':actual-cost'') c) (ret ())))
        | None \<Rightarrow>
            thenP (case cost_reservation of
                     Some r \<Rightarrow> thenP (quota_service_release d r False) (ret ())
                   | None \<Rightarrow> ret ())
            (bindP (id_generator d ''usage'') (\<lambda>entry.
             bindP (clock d) (\<lambda>now.
               await d (quota_call (quota_add_ledger
                 \<lparr>ledger_tenant_id = tenant_id, ledger_entry_id = entry,
                  ledger_reservation_id = None, ledger_resource = ModelCostMicroUsd,
                  ledger_amount = None, ledger_cost_state = CostUnknown,
                  ledger_organization_id = caller_organization_id c,
                  ledger_team_ids = caller_team_ids c, ledger_user_id = caller_user_id c,
                  ledger_agent_name = caller_agent_name c,
                  ledger_environment = caller_environment c,
                  ledger_api_key_id = caller_api_key_id c, ledger_subject_id = rid,
                  ledger_occurred_at = now\<rparr>)))))))))"

subsection \<open>Releasing in bulk\<close>

definition release_subject :: "('x) deps_scheme \<Rightarrow> string \<Rightarrow> string \<Rightarrow> int handler" where
  "release_subject d tenant_id subject_id =
     bindP (await d (ask (\<lambda>w. Inr (quota_list_active (w_quota w) tenant_id)))) (\<lambda>rs.
       foldP (\<lambda>released r.
           if resv_subject_id r \<noteq> subject_id then ret released
           else thenP (quota_service_release d r False) (ret (released + 1))) 0 rs)"

definition release_idempotency ::
  "('x) deps_scheme \<Rightarrow> string \<Rightarrow> string \<Rightarrow> resource_reservation option handler" where
  "release_idempotency d tenant_id idem =
     bindP (await d (ask (\<lambda>w. Inr (quota_get_reservation (w_quota w) tenant_id idem)))) (\<lambda>x.
       case x of
         None \<Rightarrow> ret None
       | Some r \<Rightarrow>
           if resv_state r \<noteq> ReservationActive then ret (Some r)
           else bindP (quota_service_release d r False) (\<lambda>released. ret (Some released)))"

definition quota_reap_expired :: "('x) deps_scheme \<Rightarrow> string \<Rightarrow> int handler" where
  "quota_reap_expired d tenant_id =
     bindP (clock d) (\<lambda>now.
     bindP (await d (ask (\<lambda>w. Inr (quota_list_active (w_quota w) tenant_id)))) (\<lambda>rs.
       foldP (\<lambda>expired r.
           if now < resv_expires_at r then ret expired
           else thenP (quota_service_release d r True) (ret (expired + 1))) 0 rs))"

definition reap_expired_all :: "('x) deps_scheme \<Rightarrow> int \<Rightarrow> int handler" where
  "reap_expired_all d max_items =
     bindP (clock d) (\<lambda>now.
     bindP (await d (ask (\<lambda>w. Inr (quota_list_expired_active (w_quota w) now max_items)))) (\<lambda>rs.
       foldP (\<lambda>released r. thenP (quota_service_release d r True) (ret (released + 1))) 0 rs))"

subsection \<open>Usage and alerts\<close>

definition alert_severity_of :: "int \<Rightarrow> string" where
  "alert_severity_of usage_percent =
     (if 100 \<le> usage_percent then ''critical''
      else if 90 \<le> usage_percent then ''warning'' else ''info'')"

text \<open>Of two policies with one scope key, the dictionary keeps the last.\<close>

definition policy_by_scope :: "quota_policy list \<Rightarrow> (string, quota_policy) dict" where
  "policy_by_scope ps = dict_update [] (map (\<lambda>p. (scope_key (policy_scope p), p)) ps)"

definition counter_alert :: "(string, quota_policy) dict \<Rightarrow> quota_counter \<Rightarrow> quota_alert list" where
  "counter_alert by_scope v =
     (case dict_get by_scope (counter_scope_key v) of
        None \<Rightarrow> []
      | Some p \<Rightarrow>
          (case (dict_get (policy_alert_thresholds p) (counter_resource v), counter_limit v) of
             (Some threshold, Some l) \<Rightarrow>
               let used = counter_used v; usage_percent = (used * 100 + l - 1) div l in
               if usage_percent < threshold then []
               else [\<lparr>alert_id = counter_scope_key v @ '':'' @
                        quota_resource_value (counter_resource v) @ '':'' @
                        counter_window_key v @ '':'' @ str_of_int threshold,
                      alert_policy_id = policy_id p, alert_scope_key = counter_scope_key v,
                      alert_resource = counter_resource v,
                      alert_window_key = counter_window_key v,
                      alert_threshold_percent = threshold,
                      alert_usage_percent = usage_percent, alert_used = used, alert_limit = l,
                      alert_severity = alert_severity_of usage_percent\<rparr>]
           | _ \<Rightarrow> []))"

definition quota_alerts :: "quota_policy list \<Rightarrow> quota_counter list \<Rightarrow> quota_alert list" where
  "quota_alerts ps counters =
     py_sorted (\<lambda>a. (alert_severity a \<noteq> ''critical'', alert_severity a \<noteq> ''warning'',
         alert_scope_key a, quota_resource_value (alert_resource a)))
       (concat (map (counter_alert (policy_by_scope ps)) counters))"

definition quota_usage :: "('x) deps_scheme \<Rightarrow> string \<Rightarrow> quota_usage_view handler" where
  "quota_usage d tenant_id =
     bindP (await d (ask (\<lambda>w. Inr (quota_list_ledger (w_quota w) tenant_id)))) (\<lambda>entries.
     bindP (quota_service_list_policies d tenant_id) (\<lambda>policies.
     bindP (await d (ask (\<lambda>w. Inr (quota_list_counters (w_quota w) tenant_id)))) (\<lambda>counters.
     bindP (await d (ask (\<lambda>w. Inr (quota_list_active (w_quota w) tenant_id)))) (\<lambda>active.
       ret \<lparr>usage_policies = policies, usage_counters = counters,
            usage_active_reservations = active,
            usage_unknown_cost_entries = int (length (filter (\<lambda>l.
              ledger_resource l = ModelCostMicroUsd \<and> ledger_cost_state l = CostUnknown) entries)),
            usage_alerts = quota_alerts policies counters\<rparr>))))"

end
