(* ===== verification/Quota_Admission.thy ===== *)
theory Quota_Admission
  imports Quota_Service
begin

section \<open>Quota service: policies, protocol and admission\<close>

text \<open>
  What the quota service guarantees: the constraints of a request are those of the newest
  applicable policy per scope, every handler keeps the books balanced under interference, and
  the admission of a run reserves everything or nothing.
\<close>

subsection \<open>Selection of policies\<close>

lemma select_policies_wf: "dict_wf selected \<Longrightarrow> dict_wf (select_policies c res ps selected)"
  by (induction ps arbitrary: selected) auto

definition selected_ok ::
  "quota_caller \<Rightarrow> quota_resource \<Rightarrow> quota_policy list \<Rightarrow> (string, quota_policy) dict \<Rightarrow> bool" where
  "selected_ok c res ps selected \<longleftrightarrow>
     (\<forall>k p. dict_get selected k = Some p \<longrightarrow>
        p \<in> set ps \<and> policy_applies c res p \<and> scope_key (policy_scope p) = k) \<and>
     (\<forall>p \<in> set ps. policy_applies c res p \<longrightarrow>
        (case dict_get selected (scope_key (policy_scope p)) of
           None \<Rightarrow> False | Some q \<Rightarrow> policy_revision p \<le> policy_revision q))"

lemma select_policies_ok:
  "selected_ok c res seen selected \<Longrightarrow>
   selected_ok c res (seen @ ps) (select_policies c res ps selected)"
proof (induction ps arbitrary: seen selected)
  case (Cons p ps)
  let ?sel = "if policy_applies c res p \<and>
      (case dict_get selected (scope_key (policy_scope p)) of
         None \<Rightarrow> True | Some current \<Rightarrow> policy_revision current < policy_revision p)
    then dict_set (scope_key (policy_scope p)) p selected else selected"
  have "selected_ok c res (seen @ [p]) ?sel"
    using Cons.prems unfolding selected_ok_def
    by (fastforce split: option.splits if_splits)
  from Cons.IH [OF this] show ?case by simp
qed simp

lemma selected_ok_newest:
  assumes "selected_ok c res ps selected" and "p \<in> set ps" and "policy_applies c res p"
  shows "\<exists>q. dict_get selected (scope_key (policy_scope p)) = Some q \<and>
    policy_revision p \<le> policy_revision q"
  using assms unfolding selected_ok_def
  by (cases "dict_get selected (scope_key (policy_scope p))") auto

lemma selected_ok_member:
  assumes "selected_ok c res ps selected" and "dict_get selected k = Some q"
  shows "q \<in> set ps" and "policy_applies c res q" and "scope_key (policy_scope q) = k"
  using assms unfolding selected_ok_def by blast+

lemma constraints_of_scope_keys:
  "map constraint_scope_key (constraints_of tenant_id stored c res) =
   map fst (py_sorted fst (select_policies c res (builtin_policy tenant_id # stored) []))"
  by (simp add: constraints_of_def comp_def case_prod_beta)

lemma distinct_constraints_of:
  "distinct (map constraint_scope_key (constraints_of tenant_id stored c res))"
proof -
  let ?sel = "select_policies c res (builtin_policy tenant_id # stored) []"
  have "distinct (map fst ?sel)" by (rule select_policies_wf) simp
  then have "distinct (map fst (py_sorted fst ?sel))"
    by (simp add: py_sorted_def distinct_map)
  then show ?thesis by (simp only: constraints_of_scope_keys)
qed



subsection \<open>The protocol\<close>

lemma sys_quota:
  assumes "quota_history (w_quota w) q"
    and "world_sound d w \<Longrightarrow> quota_inv window_key q"
    and "\<And>k i. dict_has (quota_reservations q) (k, i) \<Longrightarrow>
      dict_has (quota_reservations (w_quota w)) (k, i) \<or>
      ((''quota'', i) \<in> own \<and> drawn d ''quota'' {..<w_ids w} i)"
  shows "sys_own d own w (w\<lparr>w_quota := q\<rparr>)"
proof (rule sys_ownI)
  show "world_sound d w \<Longrightarrow> world_sound d (w\<lparr>w_quota := q\<rparr>)"
    using assms(2,3) unfolding world_sound_def by (simp del: not_None_eq) blast
  show "stores_grow d own w (w\<lparr>w_quota := q\<rparr>)"
    by (rule stores_growI)
       (use assms(3) in \<open>auto simp: event_history_refl new_ids_def simp del: not_None_eq\<close>)
qed (use assms(1) in \<open>simp_all add: run_history_refl approval_history.R_refl\<close>)

lemma quota_reserve_has:
  "quota_reserve r wk repo = (x, t) \<Longrightarrow> dict_has (quota_reservations t) k \<Longrightarrow>
   dict_has (quota_reservations repo) k \<or> k = (resv_tenant_id r, resv_id r)"
  by (auto simp: quota_reserve_def Let_def split: option.splits if_splits)

lemma quota_release_has:
  "quota_release tenant_id rid st wk repo = (x, t) \<Longrightarrow>
   dict_has (quota_reservations t) k \<longleftrightarrow> dict_has (quota_reservations repo) k"
  by (auto simp: quota_release_def Let_def split: option.splits if_splits prod.splits sum.splits)

lemma quota_commit_has:
  "quota_commit tenant_id rid amount wk l repo = (x, t) \<Longrightarrow>
   dict_has (quota_reservations t) k \<longleftrightarrow> dict_has (quota_reservations repo) k"
  by (auto simp: quota_commit_def Let_def split: option.splits if_splits prod.splits sum.splits)

lemma upholds_reserve:
  assumes "resv_state r = ReservationActive" and "0 < resv_amount r"
    and "distinct (map constraint_scope_key (resv_constraints r))"
    and wk: "wk = window_key (resv_resource r) (resv_created_at r)"
  shows "upholds d K {(''quota'', resv_id r)} (quota_call (quota_reserve r wk))"
proof (rule upholdsI)
  fix w o1 t
  assume w: "world_sound d w"
    and own: "\<And>p. p \<in> {(''quota'', resv_id r)} \<Longrightarrow> fresh d w p"
    and run: "quota_call (quota_reserve r wk) w = (o1, t)"
  obtain x q where q: "quota_reserve r wk (w_quota w) = (x, q)"
    by (cases "quota_reserve r wk (w_quota w)")
  from own have f: "drawn d ''quota'' {..<w_ids w} (resv_id r)"
    "\<not> dict_has (quota_reservations (w_quota w)) (k, resv_id r)" for k
    by (auto simp: fresh_def)
  then have new: "reservation_new (w_quota w) r" using assms by (simp add: reservation_new_def)
  have "sys_own d {(''quota'', resv_id r)} w (w\<lparr>w_quota := q\<rparr>)"
  proof (rule sys_quota)
    show "quota_history (w_quota w) q" using q f(2) by (rule quota_history_reserve)
    show "world_sound d w \<Longrightarrow> quota_inv window_key q"
      using quota_inv_reserve [of window_key "w_quota w" r x q, OF _ new q [unfolded wk]] by (simp add: world_sound_def)
  next
    fix k i
    assume "dict_has (quota_reservations q) (k, i)"
    from quota_reserve_has [OF q this] f(1)
    show "dict_has (quota_reservations (w_quota w)) (k, i) \<or>
        (''quota'', i) \<in> {(''quota'', resv_id r)} \<and> drawn d ''quota'' {..<w_ids w} i"
      by auto
  qed
  then show "sys_own d {(''quota'', resv_id r)} w t" using run q by (auto simp: quota_call_def)
qed

lemma knows_reservation:
  assumes "world_sound d w" and "holds w (KnowsReservation r)"
    and "dict_get (quota_reservations (w_quota w)) (resv_tenant_id r, resv_id r) = Some c"
  shows "resv_resource c = resv_resource r" and "resv_created_at c = resv_created_at r"
proof -
  from assms(2,3) have "resv_later r c" by simp
  then show "resv_resource c = resv_resource r" "resv_created_at c = resv_created_at r"
    unfolding resv_later_def by (cases r, cases c, auto)+
qed

lemma upholds_release:
  assumes known: "KnowsReservation r \<in> K"
    and wk: "wk = window_key (resv_resource r) (resv_created_at r)"
  shows "upholds d K own (quota_call (quota_release (resv_tenant_id r) (resv_id r) st wk))"
proof (rule upholds_unowned, rule upholdsI)
  fix w o1 t
  assume w: "world_sound d w" and K: "\<And>f. f \<in> K \<Longrightarrow> holds w f"
    and run: "quota_call (quota_release (resv_tenant_id r) (resv_id r) st wk) w = (o1, t)"
  obtain x q where q: "quota_release (resv_tenant_id r) (resv_id r) st wk (w_quota w) = (x, q)"
    by (cases "quota_release (resv_tenant_id r) (resv_id r) st wk (w_quota w)")
  have "sys d w (w\<lparr>w_quota := q\<rparr>)"
  proof (rule sys_quota)
    show "quota_history (w_quota w) q" using q by (rule quota_history_release)
    show "world_sound d w \<Longrightarrow> quota_inv window_key q"
      using quota_inv_release [of window_key, OF _ _ q] knows_reservation [OF w K [OF known]] wk
      by (simp add: world_sound_def)
  qed (simp only: quota_release_has [OF q] simp_thms)
  then show "sys d w t" using run q by (auto simp: quota_call_def)
qed

lemma upholds_commit:
  assumes known: "KnowsReservation r \<in> K"
    and wk: "wk = window_key (resv_resource r) (resv_created_at r)"
  shows "upholds d K own (quota_call (quota_commit (resv_tenant_id r) (resv_id r) amount wk l))"
proof (rule upholds_unowned, rule upholdsI)
  fix w o1 t
  assume w: "world_sound d w" and K: "\<And>f. f \<in> K \<Longrightarrow> holds w f"
    and run: "quota_call (quota_commit (resv_tenant_id r) (resv_id r) amount wk l) w = (o1, t)"
  obtain x q where q: "quota_commit (resv_tenant_id r) (resv_id r) amount wk l (w_quota w) = (x, q)"
    by (cases "quota_commit (resv_tenant_id r) (resv_id r) amount wk l (w_quota w)")
  have "sys d w (w\<lparr>w_quota := q\<rparr>)"
  proof (rule sys_quota)
    show "quota_history (w_quota w) q" using q by (rule quota_history_commit)
    show "world_sound d w \<Longrightarrow> quota_inv window_key q"
      using quota_inv_commit [of window_key, OF _ _ q] knows_reservation [OF w K [OF known]] wk
      by (simp add: world_sound_def)
  qed (simp only: quota_commit_has [OF q] simp_thms)
  then show "sys d w t" using run q by (auto simp: quota_call_def)
qed

lemma upholds_add_ledger: "upholds d K own (quota_call (quota_add_ledger l))"
proof (rule upholds_quiet)
  show "sys d w (snd (quota_call (quota_add_ledger l) w))" for w
    by (auto simp: quota_call_def quota_add_ledger_def Let_def sys.R_refl world_sound_def
      intro!: sys_quota quota_history_same intro: quota_inv_same)
qed

lemma upholds_replace_policy: "upholds d K own (quota_call (quota_replace_policy p n))"
proof (rule upholds_quiet)
  show "sys d w (snd (quota_call (quota_replace_policy p n) w))" for w
    by (auto simp: quota_call_def quota_replace_policy_def Let_def sys.R_refl world_sound_def
      intro!: sys_quota quota_history_same intro: quota_inv_same)
qed

subsubsection \<open>The handlers\<close>

lemma upholds_bind_quota_get:
  assumes r: "rely d"
    and f: "upholds d K own (f None)"
      "\<And>x. upholds d (insert (KnowsReservation x) K) own (f (Some x))"
  shows "upholds d K own (bindP (await d (ask (\<lambda>w. Inr (quota_get_reservation (w_quota w) tn i)))) f)"
proof (rule upholds_bind_learn [OF r upholds_await [OF r upholds_ask],
      where L = "\<lambda>x. case x of None \<Rightarrow> {} | Some y \<Rightarrow> {KnowsReservation y}"])
  fix w x t g
  assume w: "world_sound d w"
    and run: "await d (ask (\<lambda>w. Inr (quota_get_reservation (w_quota w) tn i))) w = (Inr x, t)"
    and g: "g \<in> (case x of None \<Rightarrow> {} | Some y \<Rightarrow> {KnowsReservation y})"
  from run have t: "t = suspended d w" and x: "x = quota_get_reservation (w_quota t) tn i"
    by (auto simp: await_def ask_def)
  from g obtain y where y: "x = Some y" and "g = KnowsReservation y" by (cases x) auto
  moreover have "quota_inv window_key (w_quota t)"
    using suspended_sound [OF r w] by (simp add: t world_sound_def)
  moreover from x y obtain rid where "dict_get (quota_reservations (w_quota t)) (tn, rid) = Some y"
    by (auto simp: quota_get_reservation_def split: option.splits)
  ultimately show "holds t g" using quota_inv_stored(1) by (fastforce simp: resv_later_def)
next
  show "upholds d (K \<union> (case x of None \<Rightarrow> {} | Some y \<Rightarrow> {KnowsReservation y})) own (f x)" for x
    using f by (cases x) simp_all
qed

lemma upholds_bind_reservations:
  assumes r: "rely d"
    and stored: "\<And>repo y. dict_wf (quota_reservations repo) \<Longrightarrow> y \<in> set (l repo) \<Longrightarrow>
      \<exists>k. dict_get (quota_reservations repo) k = Some y"
    and f: "\<And>rs. upholds d (K \<union> KnowsReservation ` set rs) own (f rs)"
  shows "upholds d K own (bindP (await d (ask (\<lambda>w. Inr (l (w_quota w))))) f)"
proof (rule upholds_bind_learn [OF r upholds_await [OF r upholds_ask],
      where L = "\<lambda>rs. KnowsReservation ` set rs"])
  fix w rs t g
  assume w: "world_sound d w" and run: "await d (ask (\<lambda>w. Inr (l (w_quota w)))) w = (Inr rs, t)"
    and g: "g \<in> KnowsReservation ` set rs"
  from run have t: "t = suspended d w" and rs: "rs = l (w_quota t)"
    by (auto simp: await_def ask_def)
  from g obtain y where y: "y \<in> set rs" "g = KnowsReservation y" by auto
  have inv: "quota_inv window_key (w_quota t)"
    using suspended_sound [OF r w] by (simp add: t world_sound_def)
  from stored [OF quota_inv_wf [OF inv]] y(1) rs obtain k where
    "dict_get (quota_reservations (w_quota t)) k = Some y" by blast
  with quota_inv_stored(1) [OF inv this] y(2) show "holds t g" by (simp add: resv_later_def)
qed (rule f)

lemma list_active_stored:
  assumes "dict_wf (quota_reservations repo)" and "y \<in> set (quota_list_active repo tn)"
  shows "\<exists>k. dict_get (quota_reservations repo) k = Some y"
proof -
  from assms(2) obtain b where "((tn, b), y) \<in> set (quota_reservations repo)"
    unfolding quota_list_active_def by auto
  with assms(1) have "dict_get (quota_reservations repo) (tn, b) = Some y"
    by (rule map_of_is_SomeI)
  then show ?thesis by blast
qed

lemma list_expired_active_stored:
  assumes "dict_wf (quota_reservations repo)" and "y \<in> set (quota_list_expired_active repo now n)"
  shows "\<exists>k. dict_get (quota_reservations repo) k = Some y"
proof -
  have "y \<in> set (dict_values (quota_reservations repo))"
    using assms(2) set_py_prefix unfolding quota_list_expired_active_def by fastforce
  with assms(1) show ?thesis by (blast elim: dict_value_cases)
qed

lemma upholds_fold_mem:
  assumes r: "rely d" and f: "\<And>b x. x \<in> set xs \<Longrightarrow> upholds d K {} (f b x)"
  shows "upholds d K {} (foldP f b xs)"
  using f by (induction xs arbitrary: b) (auto intro: upholds_ret upholds_bind [OF r])

lemma upholds_Pair: "upholds d K own (Pair (Inr x))"
  using upholds_ret [of d K own x] by (simp add: ret_def)

lemma upholds_bind_clock:
  "rely d \<Longrightarrow> (\<And>x. upholds d K own (f x)) \<Longrightarrow> upholds d K own (bindP (clock d) f)"
  by (rule upholds_bind, assumption, rule upholds_clock)

lemma upholds_service_release:
  "rely d \<Longrightarrow> KnowsReservation r \<in> K \<Longrightarrow> upholds d K own (quota_service_release d r expired)"
  unfolding quota_service_release_def by (rule upholds_await, assumption, rule upholds_release) simp_all

lemma upholds_service_commit:
  assumes r: "rely d" and known: "KnowsReservation r \<in> K"
  shows "upholds d K {} (quota_service_commit d r amount)"
  unfolding quota_service_commit_def Let_def
  by (intro upholds_bind [OF r] upholds_clock upholds_plain_id [OF r] upholds_if upholds_raise
    upholds_await [OF r] upholds_commit [OF known] refl)

lemma upholds_service_reserve:
  assumes r: "rely d"
  shows "upholds d K {} (quota_service_reserve d tn res amount subj idem c ttl)"
proof (cases "amount < 1")
  case False
  have "upholds d K {(''quota'', rid)} (quota_call (quota_reserve
      \<lparr>resv_tenant_id = tn, resv_id = rid, resv_idempotency_key = idem, resv_resource = res,
       resv_amount = amount, resv_constraints = constraints_of tn stored c' res,
       resv_organization_id = org, resv_team_ids = caller_team_ids c,
       resv_user_id = caller_user_id c, resv_agent_name = caller_agent_name c,
       resv_environment = caller_environment c, resv_api_key_id = caller_api_key_id c,
       resv_subject_id = subj, resv_state = ReservationActive, resv_created_at = now,
       resv_expires_at = now + ttl * 1000000, resv_completed_at = None\<rparr> (window_key res now)))"
    for rid stored c' org now
    using upholds_reserve [of "\<lparr>resv_tenant_id = tn, resv_id = rid, resv_idempotency_key = idem,
       resv_resource = res, resv_amount = amount, resv_constraints = constraints_of tn stored c' res,
       resv_organization_id = org, resv_team_ids = caller_team_ids c,
       resv_user_id = caller_user_id c, resv_agent_name = caller_agent_name c,
       resv_environment = caller_environment c, resv_api_key_id = caller_api_key_id c,
       resv_subject_id = subj, resv_state = ReservationActive, resv_created_at = now,
       resv_expires_at = now + ttl * 1000000, resv_completed_at = None\<rparr>" "window_key res now" d K]
      False by (simp add: distinct_constraints_of)
  with False show ?thesis
    unfolding quota_service_reserve_def Let_def
    by (simp only: if_False)
       (intro upholds_bind [OF r] upholds_clock upholds_await [OF r] upholds_ask
          upholds_new_id [OF r])
qed (simp add: quota_service_reserve_def upholds_raise)

text \<open>What it returns is stored, also when the call replays an earlier one.\<close>

lemma quota_reserve_stored:
  assumes "quota_reserve r wk repo = (Inr x, t)" and "quota_inv win t"
  shows "dict_get (quota_reservations t) (resv_tenant_id x, resv_id x) = Some x"
proof -
  have "\<exists>rid. dict_get (quota_reservations t) (resv_tenant_id r, rid) = Some x"
  proof (cases "dict_get (quota_idempotency repo) (resv_tenant_id r, resv_idempotency_key r)")
    case None
    with assms(1) show ?thesis
      by (intro exI [of _ "resv_id r"]) (auto simp: quota_reserve_def Let_def split: option.splits)
  next
    case (Some rid)
    with assms(1) show ?thesis
      by (intro exI [of _ rid])
         (auto simp: quota_reserve_def Let_def split: option.splits if_splits)
  qed
  then obtain rid where "dict_get (quota_reservations t) (resv_tenant_id r, rid) = Some x"
    by blast
  with quota_inv_stored(1) [OF assms(2) this] show ?thesis by simp
qed

lemma service_reserve_known:
  assumes r: "rely d" and w: "world_sound d w"
    and run: "quota_service_reserve d tn res amount subj idem c ttl w = (Inr x, t)"
  shows "dict_get (quota_reservations (w_quota t)) (resv_tenant_id x, resv_id x) = Some x"
proof -
  have "sys d w t" by (rule upholdsD [OF upholds_service_reserve [OF r] w _ _ run, where K = "{}"]) simp_all
  then have inv: "quota_inv window_key (w_quota t)" using w by (auto dest: sys_ownD simp: world_sound_def)
  from run obtain rv wk repo where "quota_reserve rv wk repo = (Inr x, w_quota t)"
    by (auto simp: quota_service_reserve_def Let_def await_def quota_call_def
      bindP_apply ask_def clock_def id_generator_def split: if_splits prod.splits)
  then show ?thesis using inv by (rule quota_reserve_stored)
qed

lemma tryP_Inr: "tryP m w = (Inr x, t) \<Longrightarrow> m w = (x, t)"
  by (cases "m w") (simp add: tryP_def)

lemma upholds_bind_service_reserve:
  assumes r: "rely d"
    and f: "\<And>x. upholds d (insert (KnowsReservation x) K) own (f (Inr x))"
      "\<And>e. upholds d K own (f (Inl e))"
  shows "upholds d K own
    (bindP (tryP (quota_service_reserve d tn res amount subj idem c ttl)) f)"
proof (rule upholds_bind_learn [OF r upholds_try [OF upholds_service_reserve [OF r]],
      where L = "\<lambda>x. case x of Inl e \<Rightarrow> {} | Inr y \<Rightarrow> {KnowsReservation y}"])
  fix w x t g
  assume w: "world_sound d w"
    and run: "tryP (quota_service_reserve d tn res amount subj idem c ttl) w = (Inr x, t)"
    and g: "g \<in> (case x of Inl e \<Rightarrow> {} | Inr y \<Rightarrow> {KnowsReservation y})"
  then obtain y where "g = KnowsReservation y" "x = Inr y" by (cases x) auto
  moreover from run have "quota_service_reserve d tn res amount subj idem c ttl w = (x, t)"
    by (rule tryP_Inr)
  ultimately have "g = KnowsReservation y"
    "quota_service_reserve d tn res amount subj idem c ttl w = (Inr y, t)" by simp_all
  with service_reserve_known [OF r w] show "holds t g" by (simp add: resv_later_def)
next
  show "upholds d (K \<union> (case x of Inl e \<Rightarrow> {} | Inr y \<Rightarrow> {KnowsReservation y})) own (f x)" for x
    using f by (cases x) simp_all
qed

lemma upholds_service_consume:
  assumes r: "rely d"
  shows "upholds d K {} (quota_service_consume d tn res amount subj idem c)"
proof -
  have "quota_service_consume d tn res amount subj idem c =
      bindP (tryP (quota_service_reserve d tn res amount subj idem c 3600))
        (\<lambda>x. case x of Inl e \<Rightarrow> raise e | Inr y \<Rightarrow> quota_service_commit d y None)"
    by (auto simp: quota_service_consume_def fun_eq_iff prog_apply split: prod.split sum.split)
  then show ?thesis
    by (auto intro!: upholds_bind_service_reserve [OF r] upholds_raise
      upholds_service_commit [OF r])
qed

lemma upholds_release_all:
  assumes r: "rely d" and "\<And>x. x \<in> set rs \<Longrightarrow> KnowsReservation x \<in> K"
  shows "upholds d K {} (release_all d rs)"
  using assms(2)
  by (induction rs) (auto intro: upholds_ret upholds_then [OF r] upholds_service_release [OF r])

lemma upholds_admit_demands:
  assumes r: "rely d" and "\<And>x. x \<in> set admitted \<Longrightarrow> KnowsReservation x \<in> K"
  shows "upholds d K {} (admit_demands d tn rid c ttl demands admitted)"
  using assms(2)
proof (induction demands arbitrary: admitted K)
  case (Cons dm demands)
  obtain res amount idem where dm: "dm = (res, amount, idem)" by (cases dm)
  show ?case
    unfolding dm admit_demands.simps
    using Cons.prems
    by (auto intro!: upholds_bind_service_reserve [OF r] Cons.IH upholds_then [OF r]
      upholds_release_all [OF r] upholds_raise)
qed (simp add: upholds_ret)

lemma upholds_admit_run: "rely d \<Longrightarrow> upholds d K {} (admit_run d tn rid c budget tokens ttl)"
  unfolding admit_run_def by (rule upholds_admit_demands) simp_all

lemma upholds_ensure_demands:
  assumes r: "rely d" and "\<And>x. x \<in> set created \<Longrightarrow> KnowsReservation x \<in> K"
  shows "upholds d K {} (ensure_demands d tn rid c ttl demands admitted created)"
  using assms(2)
proof (induction demands arbitrary: admitted created K)
  case (Cons dm demands)
  obtain res amount idem where dm: "dm = (res, amount, idem)" by (cases dm)
  show ?case
    unfolding dm ensure_demands.simps
    using Cons.prems
    by (auto intro!: upholds_bind_quota_get [OF r] upholds_bind_service_reserve [OF r] Cons.IH
      upholds_then [OF r] upholds_release_all [OF r] upholds_raise)
qed (simp add: upholds_ret)

lemma upholds_ensure_run_admitted:
  "rely d \<Longrightarrow> upholds d K {} (ensure_run_admitted d tn rid c budget tokens ttl)"
  unfolding ensure_run_admitted_def by (rule upholds_ensure_demands) simp_all

lemma upholds_release_subject: "rely d \<Longrightarrow> upholds d K {} (release_subject d tn subj)"
  unfolding release_subject_def
  by (rule upholds_bind_reservations [OF _ list_active_stored], assumption, assumption+)
     (rule upholds_fold_mem, assumption,
      auto intro!: upholds_if upholds_ret upholds_Pair upholds_then upholds_service_release)

lemma upholds_quota_reap: "rely d \<Longrightarrow> upholds d K {} (quota_reap_expired d tn)"
  unfolding quota_reap_expired_def
  by (rule upholds_bind, assumption, rule upholds_clock,
      rule upholds_bind_reservations [OF _ list_active_stored], assumption, assumption+)
     (rule upholds_fold_mem, assumption,
      auto intro!: upholds_if upholds_ret upholds_Pair upholds_then upholds_service_release)

lemma upholds_reap_expired_all: "rely d \<Longrightarrow> upholds d K {} (reap_expired_all d n)"
  unfolding reap_expired_all_def
  by (rule upholds_bind, assumption, rule upholds_clock,
      rule upholds_bind_reservations [OF _ list_expired_active_stored], assumption, assumption+)
     (rule upholds_fold_mem, assumption,
      auto intro!: upholds_ret upholds_Pair upholds_then upholds_service_release)

lemma upholds_release_idempotency: "rely d \<Longrightarrow> upholds d K {} (release_idempotency d tn i)"
  unfolding release_idempotency_def
  by (rule upholds_bind_quota_get)
     (auto intro!: upholds_ret upholds_if upholds_bind upholds_service_release)

lemma upholds_record_run_result:
  "rely d \<Longrightarrow> upholds d K {} (record_run_result d tn rid c usage cost)"
  unfolding record_run_result_def Let_def
  by (auto intro!: upholds_bind_quota_get upholds_then upholds_ret upholds_when upholds_option
    upholds_service_commit upholds_service_consume upholds_service_release upholds_plain_id
    upholds_bind_clock upholds_await upholds_add_ledger)

lemma upholds_service_replace_policy:
  "rely d \<Longrightarrow> upholds d K {} (quota_service_replace_policy d tn u p request)"
  unfolding quota_service_replace_policy_def
  by (auto intro!: upholds_bind upholds_clock upholds_await upholds_replace_policy)

end
