(* ===== verification/Quota_Atomic.thy ===== *)
theory Quota_Atomic
  imports Quota_Admission
begin

section \<open>Admission of a run is all or nothing\<close>

text \<open>
  \<open>alone d\<close>: nothing else runs while the handler waits. Then a failed \<open>admit_run\<close> leaves every
  counter as it was, and a successful one has made exactly the run's reservations.
\<close>

definition alone :: "('x) deps_scheme \<Rightarrow> bool" where
  "alone d \<longleftrightarrow> d_others d = (\<lambda>n w. w)"

lemma alone_suspended: "alone d \<Longrightarrow> suspended d w = w\<lparr>w_awaits := Suc (w_awaits w)\<rparr>"
  by (simp add: suspended_def alone_def)

lemma alone_rely: "alone d \<Longrightarrow> ids_distinct d \<Longrightarrow> rely d"
  by (simp add: rely_def alone_def sys.R_refl)

abbreviation quota_held :: "world \<Rightarrow> counter_key \<Rightarrow> int" where
  "quota_held w k \<equiv> held window_key (w_quota w) k"

abbreviation shares :: "counter_key \<Rightarrow> resource_reservation list \<Rightarrow> int" where
  "shares k rs \<equiv> sum_list (map (share window_key k) rs)"

abbreviation resv_key :: "resource_reservation \<Rightarrow> string \<times> string" where
  "resv_key r \<equiv> (resv_tenant_id r, resv_id r)"

definition stored_active :: "world \<Rightarrow> resource_reservation list \<Rightarrow> bool" where
  "stored_active w rs \<longleftrightarrow> distinct (map resv_key rs) \<and>
     (\<forall>r \<in> set rs. dict_get (quota_reservations (w_quota w)) (resv_key r) = Some r \<and>
        resv_state r = ReservationActive)"

lemma sound_quota: "world_sound d w \<Longrightarrow> quota_inv window_key (w_quota w)"
  by (simp add: world_sound_def)

lemma stored_active_other:
  assumes "stored_active w rs" and "k \<notin> set (map resv_key rs)"
    and t: "quota_reservations (w_quota t) = dict_set k u (quota_reservations (w_quota w))"
  shows "stored_active t rs"
  unfolding stored_active_def
proof (intro conjI ballI)
  fix x
  assume x: "x \<in> set rs"
  then have "resv_key x \<in> set (map resv_key rs)" by simp
  with assms(2) have "resv_key x \<noteq> k" by metis
  then have "dict_get (quota_reservations (w_quota t)) (resv_key x) =
      dict_get (quota_reservations (w_quota w)) (resv_key x)"
    by (simp add: t)
  with x assms(1) show "dict_get (quota_reservations (w_quota t)) (resv_key x) = Some x"
    unfolding stored_active_def by simp
  from x assms(1) show "resv_state x = ReservationActive" unfolding stored_active_def by simp
qed (use assms(1) in \<open>simp add: stored_active_def\<close>)

lemma release_all_alone:
  assumes d: "alone d"
  shows "quota_inv window_key (w_quota w) \<Longrightarrow> stored_active w rs \<Longrightarrow>
    \<exists>t. release_all d rs w = (Inr (), t) \<and> quota_inv window_key (w_quota t) \<and>
      (\<forall>k. quota_held t k = quota_held w k - shares k rs)"
proof (induction rs arbitrary: w)
  case (Cons r rs)
  from Cons.prems(2) have r: "dict_get (quota_reservations (w_quota w)) (resv_key r) = Some r"
    "resv_state r = ReservationActive" by (simp_all add: stored_active_def)
  let ?u = "r\<lparr>resv_state := ReservationReleased, resv_completed_at := Some (resv_expires_at r)\<rparr>"
  obtain q where q: "quota_release (resv_tenant_id r) (resv_id r) ReservationReleased
      (window_key (resv_resource r) (resv_created_at r)) (w_quota w) = (Inr ?u, q)"
    and qs: "quota_reservations q = dict_set (resv_key r) ?u (quota_reservations (w_quota w))"
    and inv: "quota_inv window_key q"
    using quota_release_active [OF Cons.prems(1) r, of ReservationReleased] by blast
  let ?w = "w\<lparr>w_awaits := Suc (w_awaits w), w_quota := q\<rparr>"
  have step: "quota_service_release d r False w = (Inr ?u, ?w)"
    by (simp add: quota_service_release_def await_def alone_suspended [OF d] quota_call_def q)
  have held: "held window_key q k = quota_held w k - share window_key k r" for k
    using held_set [OF quota_inv_wf [OF Cons.prems(1)] qs, of window_key k] r(1)
    by (simp add: share_def)
  have "stored_active w rs" "resv_key r \<notin> set (map resv_key rs)"
    using Cons.prems(2) unfolding stored_active_def by auto
  then have "stored_active ?w rs" by (rule stored_active_other) (simp add: qs)
  moreover have "quota_inv window_key (w_quota ?w)" using inv by simp
  ultimately obtain t where t: "release_all d rs ?w = (Inr (), t)"
    "quota_inv window_key (w_quota t)" "\<And>k. quota_held t k = quota_held ?w k - shares k rs"
    using Cons.IH [of ?w] by blast
  from step t held show ?case
    by (intro exI [of _ t] conjI allI) (simp_all add: thenP_apply)
qed simp

definition idem_free :: "world \<Rightarrow> string \<Rightarrow> string \<Rightarrow> bool" where
  "idem_free w tn idem \<longleftrightarrow> dict_get (quota_idempotency (w_quota w)) (tn, idem) = None"

lemma service_reserve_alone:
  assumes d: "alone d" and ids: "ids_distinct d" and w: "world_sound d w"
    and free: "idem_free w tn idem"
    and run: "quota_service_reserve d tn res amount subj idem c ttl w = (x, t)"
  shows "world_sound d t"
    and "case x of
        Inl e \<Rightarrow> w_quota t = w_quota w
      | Inr r \<Rightarrow> resv_state r = ReservationActive \<and> resv_tenant_id r = tn \<and>
          resv_idempotency_key r = idem \<and> resv_resource r = res \<and> resv_amount r = amount \<and>
          \<not> dict_has (quota_reservations (w_quota w)) (resv_key r) \<and>
          quota_reservations (w_quota t) = dict_set (resv_key r) r (quota_reservations (w_quota w)) \<and>
          quota_idempotency (w_quota t) =
            dict_set (tn, idem) (resv_id r) (quota_idempotency (w_quota w))"
proof -
  note r = alone_rely [OF d ids]
  have "sys d w t"
    by (rule upholdsD [OF upholds_service_reserve [OF r] w _ _ run, where K = "{}"]) simp_all
  then show "world_sound d t" using w by (rule sys_ownD)
  have "\<not> drawn d ''quota'' {..<w_ids w} (d_new_id d ''quota'' (w_ids w))"
    by (rule drawn_disjoint [OF ids, where ns = "{w_ids w}"]) (auto simp: drawn_def)
  with w have fresh: "\<not> dict_has (quota_reservations (w_quota w)) (tn, d_new_id d ''quota'' (w_ids w))"
    unfolding world_sound_def by blast
  show "case x of
        Inl e \<Rightarrow> w_quota t = w_quota w
      | Inr r \<Rightarrow> resv_state r = ReservationActive \<and> resv_tenant_id r = tn \<and>
          resv_idempotency_key r = idem \<and> resv_resource r = res \<and> resv_amount r = amount \<and>
          \<not> dict_has (quota_reservations (w_quota w)) (resv_key r) \<and>
          quota_reservations (w_quota t) = dict_set (resv_key r) r (quota_reservations (w_quota w)) \<and>
          quota_idempotency (w_quota t) =
            dict_set (tn, idem) (resv_id r) (quota_idempotency (w_quota w))"
    using run free fresh
    by (auto simp: quota_service_reserve_def quota_reserve_def idem_free_def Let_def await_def
      alone_suspended [OF d] bindP_apply clock_def ask_def id_generator_def quota_call_def
      split: if_splits option.splits)
qed

lemma admit_demands_alone:
  assumes d: "alone d" and ids: "ids_distinct d"
  shows "world_sound d w \<Longrightarrow> stored_active w admitted \<Longrightarrow>
    distinct (map (\<lambda>(_, _, idem). idem) demands) \<Longrightarrow>
    (\<And>res amount idem. (res, amount, idem) \<in> set demands \<Longrightarrow> idem_free w tn idem) \<Longrightarrow>
    (case admit_demands d tn rid c ttl demands admitted w of
       (Inl e, t) \<Rightarrow> \<forall>k. quota_held t k = quota_held w k - shares k admitted
     | (Inr rs, t) \<Rightarrow> (\<exists>new. rs = admitted @ new \<and>
         map (\<lambda>r. (resv_resource r, resv_amount r, resv_idempotency_key r)) new = demands \<and>
         stored_active t rs \<and>
         (\<forall>k. quota_held t k = quota_held w k + shares k new)))"
proof (induction demands arbitrary: w admitted)
  case (Cons dm demands)
  obtain res amount idem where dm: "dm = (res, amount, idem)" by (cases dm)
  obtain x t where run: "quota_service_reserve d tn res amount rid idem c ttl w = (x, t)"
    by (cases "quota_service_reserve d tn res amount rid idem c ttl w")
  have free: "idem_free w tn idem" by (rule Cons.prems(4) [of res amount]) (simp add: dm)
  note res = service_reserve_alone [OF d ids Cons.prems(1) free run]
  show ?case
  proof (cases x)
    case (Inl e)
    with res(2) have same: "w_quota t = w_quota w" by simp
    then have "quota_inv window_key (w_quota t)" "stored_active t admitted"
      using Cons.prems(1,2) by (simp_all add: sound_quota stored_active_def)
    from release_all_alone [OF d this] obtain u where
      "release_all d admitted t = (Inr (), u)" "\<forall>k. quota_held u k = quota_held t k - shares k admitted"
      by blast
    with run Inl same show ?thesis by (simp add: dm bindP_apply tryP_apply thenP_apply)
  next
    case (Inr r)
    from res(2) have r: "resv_state r = ReservationActive" "resv_tenant_id r = tn"
      "resv_idempotency_key r = idem" "resv_resource r = res" "resv_amount r = amount"
      "\<not> dict_has (quota_reservations (w_quota w)) (resv_key r)"
      and qs: "quota_reservations (w_quota t) =
        dict_set (resv_key r) r (quota_reservations (w_quota w))"
      and qi: "quota_idempotency (w_quota t) =
        dict_set (tn, idem) (resv_id r) (quota_idempotency (w_quota w))"
      unfolding Inr sum.case by blast+
    have held: "quota_held t k = quota_held w k + share window_key k r" for k
      using held_set [OF quota_inv_wf [OF sound_quota [OF Cons.prems(1)]] qs, of window_key k] r(6)
      by simp
    have "resv_key r \<notin> set (map resv_key admitted)"
      using Cons.prems(2) r(6) by (auto simp: stored_active_def)
    then have st: "stored_active t (admitted @ [r])"
      using stored_active_other [OF Cons.prems(2) _ qs] r(1)
      unfolding stored_active_def qs by (auto simp del: prod.inject)
    have "case admit_demands d tn rid c ttl demands (admitted @ [r]) t of
       (Inl e, u) \<Rightarrow> \<forall>k. quota_held u k = quota_held t k - shares k (admitted @ [r])
     | (Inr rs, u) \<Rightarrow> (\<exists>new. rs = (admitted @ [r]) @ new \<and>
         map (\<lambda>r. (resv_resource r, resv_amount r, resv_idempotency_key r)) new = demands \<and>
         stored_active u rs \<and>
         (\<forall>k. quota_held u k = quota_held t k + shares k new))"
      using res(1) st
    proof (rule Cons.IH)
      show "distinct (map (\<lambda>(_, _, idem). idem) demands)" using Cons.prems(3) by simp
      show "idem_free t tn idem'" if "(res', amount', idem') \<in> set demands" for res' amount' idem'
        using that Cons.prems(3) Cons.prems(4) [of res' amount' idem'] dm
        by (force simp: idem_free_def qi)
    qed
    then show ?thesis
      using run Inr r held
      by (auto simp: dm bindP_apply tryP_apply split: prod.splits sum.splits)
  qed
qed (simp add: stored_active_def)

lemma distinct_run_demands: "distinct (map (\<lambda>(_, _, idem). idem) (run_demands rid budget tokens))"
  by (simp add: run_demands_def split: option.split)


subsection \<open>Releasing everything a run holds\<close>

definition released_form :: "resource_reservation \<Rightarrow> resource_reservation" where
  "released_form r = r\<lparr>resv_state := ReservationReleased, resv_completed_at := Some (resv_expires_at r)\<rparr>"

lemma service_release_alone:
  assumes d: "alone d" and inv: "quota_inv window_key (w_quota w)"
    and r: "dict_get (quota_reservations (w_quota w)) (resv_key r) = Some r"
      "resv_state r = ReservationActive"
  obtains q where "quota_service_release d r False w =
      (Inr (released_form r), w\<lparr>w_awaits := Suc (w_awaits w), w_quota := q\<rparr>)"
    and "quota_reservations q =
      dict_set (resv_key r) (released_form r) (quota_reservations (w_quota w))"
    and "quota_inv window_key q"
proof -
  obtain q where q: "quota_release (resv_tenant_id r) (resv_id r) ReservationReleased
      (window_key (resv_resource r) (resv_created_at r)) (w_quota w) = (Inr (released_form r), q)"
    and qs: "quota_reservations q =
      dict_set (resv_key r) (released_form r) (quota_reservations (w_quota w))"
    and qi: "quota_inv window_key q"
    using quota_release_active [OF inv r, of ReservationReleased] unfolding released_form_def by blast
  show thesis
    by (rule that [OF _ qs qi])
       (simp add: quota_service_release_def await_def alone_suspended [OF d] quota_call_def q)
qed

lemma release_subject_loop:
  assumes d: "alone d"
  shows "quota_inv window_key (w_quota w) \<Longrightarrow> stored_active w rs \<Longrightarrow>
    \<exists>n t. foldP (\<lambda>released r.
          if resv_subject_id r \<noteq> subj then ret released
          else thenP (quota_service_release d r False) (ret (released + 1))) b rs w = (Inr n, t) \<and>
      t = w\<lparr>w_awaits := w_awaits t, w_quota := w_quota t\<rparr> \<and> quota_inv window_key (w_quota t) \<and>
      (\<forall>k. dict_get (quota_reservations (w_quota t)) k =
        map_option (\<lambda>r. if r \<in> set rs \<and> resv_subject_id r = subj then released_form r else r)
          (dict_get (quota_reservations (w_quota w)) k))"
proof (induction rs arbitrary: w b)
  case Nil
  then show ?case by (simp add: option.map_ident)
next
  case (Cons r rs)
  have rest: "stored_active w rs" "resv_key r \<notin> set (map resv_key rs)"
    and r: "dict_get (quota_reservations (w_quota w)) (resv_key r) = Some r"
      "resv_state r = ReservationActive"
    using Cons.prems(2) unfolding stored_active_def by auto
  have own: "k = resv_key r" if "dict_get (quota_reservations (w_quota w)) k = Some r" for k
    using quota_inv_stored(1) [OF Cons.prems(1) that] .
  show ?case
  proof (cases "resv_subject_id r = subj")
    case False
    from Cons.IH [OF Cons.prems(1) rest(1), of b] False show ?thesis
      by (auto simp: ret_def intro!: option.map_cong)
  next
    case True
    obtain q where q: "quota_service_release d r False w =
        (Inr (released_form r), w\<lparr>w_awaits := Suc (w_awaits w), w_quota := q\<rparr>)"
      and qs: "quota_reservations q =
        dict_set (resv_key r) (released_form r) (quota_reservations (w_quota w))"
      and qi: "quota_inv window_key q"
      using service_release_alone [OF d Cons.prems(1) r] by blast
    let ?w = "w\<lparr>w_awaits := Suc (w_awaits w), w_quota := q\<rparr>"
    have "stored_active ?w rs" using rest by (rule stored_active_other) (simp add: qs)
    with Cons.IH [of ?w "b + 1"] qi obtain n t where
      run: "foldP (\<lambda>released r. if resv_subject_id r \<noteq> subj then ret released
          else thenP (quota_service_release d r False) (ret (released + 1))) (b + 1) rs ?w = (Inr n, t)"
      and t: "t = ?w\<lparr>w_awaits := w_awaits t, w_quota := w_quota t\<rparr>" "quota_inv window_key (w_quota t)"
      and res: "\<And>k. dict_get (quota_reservations (w_quota t)) k =
        map_option (\<lambda>r. if r \<in> set rs \<and> resv_subject_id r = subj then released_form r else r)
          (dict_get (quota_reservations q) k)"
      by auto
    have "released_form r \<notin> set rs"
      using rest(1) unfolding stored_active_def released_form_def by auto
    then have "dict_get (quota_reservations (w_quota t)) k =
        map_option (\<lambda>x. if x \<in> set (r # rs) \<and> resv_subject_id x = subj then released_form x else x)
          (dict_get (quota_reservations (w_quota w)) k)" for k
      using r True own [of k] unfolding res qs
      by (cases "dict_get (quota_reservations (w_quota w)) k") auto
    moreover have "t = w\<lparr>w_awaits := w_awaits t, w_quota := w_quota t\<rparr>"
      using t(1) by (cases t) simp
    ultimately show ?thesis using run q True t(2) by (auto simp: bindP_apply thenP_apply)
  qed
qed

lemma release_subject_alone:
  assumes d: "alone d" and inv: "quota_inv window_key (w_quota w)"
  obtains n t where "release_subject d tn subj w = (Inr n, t)"
    and "t = w\<lparr>w_awaits := w_awaits t, w_quota := w_quota t\<rparr>" and "quota_inv window_key (w_quota t)"
    and "\<And>i r. dict_get (quota_reservations (w_quota t)) (tn, i) = Some r \<Longrightarrow>
      resv_subject_id r = subj \<Longrightarrow> resv_state r \<noteq> ReservationActive"
proof -
  let ?w = "w\<lparr>w_awaits := Suc (w_awaits w)\<rparr>" and ?rs = "quota_list_active (w_quota w) tn"
  have mem: "r \<in> set ?rs \<longleftrightarrow> resv_state r = ReservationActive \<and>
      (\<exists>i. dict_get (quota_reservations (w_quota w)) (tn, i) = Some r)" for r
    unfolding quota_list_active_def
    using dict_mem_iff [OF quota_inv_wf [OF inv]] by (auto simp: image_iff)
  have keys: "map resv_key ?rs = map fst (filter (\<lambda>((stored_tenant, _), r).
      stored_tenant = tn \<and> resv_state r = ReservationActive) (quota_reservations (w_quota w)))"
  proof -
    have "resv_key (snd p) = fst p" if "p \<in> set (quota_reservations (w_quota w))" for p
      using that quota_inv_stored(1) [OF inv, of "fst p" "snd p"]
        dict_mem_iff [OF quota_inv_wf [OF inv], of "fst p" "snd p"] by simp
    then show ?thesis by (simp add: quota_list_active_def)
  qed
  have "distinct (map resv_key ?rs)"
    unfolding keys using quota_inv_wf [OF inv] by (rule distinct_map_filter)
  moreover have "dict_get (quota_reservations (w_quota w)) (resv_key r) = Some r"
    if "r \<in> set ?rs" for r
    using that mem quota_inv_stored(1) [OF inv] by fastforce
  ultimately have st: "stored_active ?w ?rs"
    using mem by (simp add: stored_active_def)
  obtain n :: int and t where run: "foldP (\<lambda>released r. if resv_subject_id r \<noteq> subj then ret released
        else thenP (quota_service_release d r False) (ret (released + 1))) 0 ?rs ?w = (Inr n, t)"
    and t: "t = ?w\<lparr>w_awaits := w_awaits t, w_quota := w_quota t\<rparr>" "quota_inv window_key (w_quota t)"
    and res: "\<And>k. dict_get (quota_reservations (w_quota t)) k =
      map_option (\<lambda>r. if r \<in> set ?rs \<and> resv_subject_id r = subj then released_form r else r)
        (dict_get (quota_reservations (w_quota w)) k)"
    using release_subject_loop [OF d _ st, of subj 0] inv by auto
  show thesis
  proof (rule that)
    show "release_subject d tn subj w = (Inr n, t)"
      using run by (simp add: release_subject_def bindP_apply await_def ask_def alone_suspended [OF d])
    show "t = w\<lparr>w_awaits := w_awaits t, w_quota := w_quota t\<rparr>" using t(1) by (cases t) simp
    show "quota_inv window_key (w_quota t)" by (rule t(2))
  next
    fix i r
    assume "dict_get (quota_reservations (w_quota t)) (tn, i) = Some r" and subj: "resv_subject_id r = subj"
    then obtain r0 where r0: "dict_get (quota_reservations (w_quota w)) (tn, i) = Some r0"
      and r: "r = (if r0 \<in> set ?rs \<and> resv_subject_id r0 = subj then released_form r0 else r0)"
      using res [of "(tn, i)"] by auto
    show "resv_state r \<noteq> ReservationActive"
      using r r0 subj mem [of r0] by (auto simp: released_form_def split: if_splits)
  qed
qed

text \<open>A budget beyond the tenant's limit: the slot is reserved first and given back.\<close>

definition plain_caller :: quota_caller where
  "plain_caller = \<lparr>caller_organization_id = None, caller_team_ids = [], caller_user_id = Some ''u'',
     caller_agent_name = Some ''a'', caller_environment = None, caller_api_key_id = None\<rparr>"

lemma quiet_alone: "alone quiet_deps"
  by (simp add: alone_def quiet_deps_def)


end
