(* ===== verification/Python_Text.thy ===== *)
theory Python_Text
  imports Python_Values
begin

section \<open>Text as the policies read it: white space, paths, patterns and shell words\<close>

text \<open>
  The parts of the Python standard library that the policies, \<^verbatim>\<open>bash_safety.py\<close> above all, and
  other components are written with: \<^verbatim>\<open>str.strip\<close>, \<^verbatim>\<open>str.lower\<close> and \<^verbatim>\<open>str.split\<close>, \<^verbatim>\<open>PurePosixPath\<close>, the regular
  expressions it uses (ordered alternatives, greedy and lazy repetition of character classes,
  named groups and references to them) and \<^verbatim>\<open>shlex\<close> in the configuration it uses. A character
  is a code point below 256.
\<close>

subsection \<open>Strings\<close>

definition py_space :: "char \<Rightarrow> bool" where
  "py_space c \<longleftrightarrow> (let n = (of_char c :: nat) in
     9 \<le> n \<and> n \<le> 13 \<or> 28 \<le> n \<and> n \<le> 32 \<or> n = 133 \<or> n = 160)"

definition strip_chars :: "(char \<Rightarrow> bool) \<Rightarrow> string \<Rightarrow> string" where
  "strip_chars p s = rev (dropWhile p (rev (dropWhile p s)))"

abbreviation py_strip :: "string \<Rightarrow> string" where
  "py_strip \<equiv> strip_chars py_space"

lemma length_strip: "length (strip_chars p s) \<le> length s"
  unfolding strip_chars_def
  by (metis length_dropWhile_le length_rev order_trans)

definition py_lower_char :: "char \<Rightarrow> char" where
  "py_lower_char c = (let n = (of_char c :: nat) in
     if 65 \<le> n \<and> n \<le> 90 \<or> 192 \<le> n \<and> n \<le> 222 \<and> n \<noteq> 215 then char_of (n + 32) else c)"

definition py_lower :: "string \<Rightarrow> string" where
  "py_lower s = map py_lower_char s"

definition starts_with :: "string \<Rightarrow> string \<Rightarrow> bool" where
  "starts_with w s \<longleftrightarrow> take (length w) s = w"

fun split_at_char :: "char \<Rightarrow> string \<Rightarrow> string list" where
  "split_at_char d [] = [[]]"
| "split_at_char d (c # cs) =
     (if c = d then [] # split_at_char d cs
      else case split_at_char d cs of [] \<Rightarrow> [[c]] | w # ws \<Rightarrow> (c # w) # ws)"

fun join_with :: "string \<Rightarrow> string list \<Rightarrow> string" where
  "join_with sep [] = []"
| "join_with sep [x] = x"
| "join_with sep (x # y # xs) = x @ sep @ join_with sep (y # xs)"

text \<open>\<^verbatim>\<open>w in s\<close>\<close>

fun is_substring :: "string \<Rightarrow> string \<Rightarrow> bool" where
  "is_substring w [] = (w = [])"
| "is_substring w (x # xs) = (take (length w) (x # xs) = w \<or> is_substring w xs)"

lemma is_substring_iff: "is_substring w s \<longleftrightarrow> (\<exists>u v. s = u @ w @ v)"
proof (induction s)
  case (Cons x xs)
  have "(\<exists>u v. x # xs = u @ w @ v) \<longleftrightarrow> (\<exists>v. x # xs = w @ v) \<or> (\<exists>u v. xs = u @ w @ v)"
    by (metis append_Cons append_Nil list.exhaust list.sel(3))
  moreover have "(\<exists>v. x # xs = w @ v) \<longleftrightarrow> take (length w) (x # xs) = w"
    by (metis append_eq_conv_conj append_take_drop_id)
  ultimately show ?case using Cons.IH by simp
qed auto

text \<open>The part of a string after the first occurrence of a character, or \<open>None\<close> without one.\<close>

fun after_char :: "char \<Rightarrow> string \<Rightarrow> string option" where
  "after_char d [] = None"
| "after_char d (c # cs) = (if c = d then Some cs else after_char d cs)"

text \<open>The part before the first occurrence: \<^verbatim>\<open>value.split(d, 1)[0]\<close>.\<close>

definition before_char :: "char \<Rightarrow> string \<Rightarrow> string" where
  "before_char d s = takeWhile (\<lambda>c. c \<noteq> d) s"

subsection \<open>Pure POSIX paths\<close>

text \<open>
  A path is its root (empty, one or two slashes) and its parts without empty parts and dots.
\<close>

record pure_path =
  path_root :: string
  path_tail :: "string list"

definition pure_path_of :: "string \<Rightarrow> pure_path" where
  "pure_path_of s =
     (let rest = dropWhile (\<lambda>c. c = CHR ''/'') s; n = length s - length rest
      in \<lparr>path_root = (if n = 0 then [] else if n = 2 then ''//'' else ''/''),
          path_tail = filter (\<lambda>p. p \<noteq> [] \<and> p \<noteq> ''.'') (split_at_char (CHR ''/'') rest)\<rparr>)"

definition path_is_absolute :: "pure_path \<Rightarrow> bool" where
  "path_is_absolute p \<longleftrightarrow> path_root p \<noteq> []"

definition path_parts :: "pure_path \<Rightarrow> string list" where
  "path_parts p = (if path_root p = [] then path_tail p else path_root p # path_tail p)"

definition path_parent :: "pure_path \<Rightarrow> pure_path" where
  "path_parent p = p\<lparr>path_tail := butlast (path_tail p)\<rparr>"

definition path_name :: "pure_path \<Rightarrow> string" where
  "path_name p = (if path_tail p = [] then [] else last (path_tail p))"

definition path_relative_to :: "pure_path \<Rightarrow> pure_path \<Rightarrow> bool" where
  "path_relative_to p q \<longleftrightarrow>
     path_root p = path_root q \<and> take (length (path_tail q)) (path_tail p) = path_tail q"

definition path_below :: "pure_path \<Rightarrow> pure_path \<Rightarrow> pure_path" where
  "path_below p q = \<lparr>path_root = [], path_tail = drop (length (path_tail q)) (path_tail p)\<rparr>"

definition path_as_posix :: "pure_path \<Rightarrow> string" where
  "path_as_posix p =
     (if path_root p = [] \<and> path_tail p = [] then ''.''
      else path_root p @ join_with ''/'' (path_tail p))"

lemma path_relative_to_refl: "path_relative_to p p"
  by (simp add: path_relative_to_def)

lemma path_relative_to_trans:
  "path_relative_to p q \<Longrightarrow> path_relative_to q r \<Longrightarrow> path_relative_to p r"
  unfolding path_relative_to_def by (metis nat_le_linear take_all take_take min.absorb1 min.absorb2)

subsection \<open>Regular expressions\<close>

type_synonym rx_env = "(string \<times> string) list"

datatype rx =
    RxEmpty
  | RxChar "char \<Rightarrow> bool"
  | RxGreedy "char \<Rightarrow> bool"
  | RxLazy "char \<Rightarrow> bool"
  | RxSeq rx rx
  | RxAlt rx rx
  | RxGroup string rx
  | RxBack string
  | RxEnd

fun star_rests :: "(char \<Rightarrow> bool) \<Rightarrow> string \<Rightarrow> string list" where
  "star_rests p [] = [[]]"
| "star_rests p (c # cs) = (c # cs) # (if p c then star_rests p cs else [])"

text \<open>All ways to match a prefix, in the order in which the backtracking engine tries them.\<close>

fun rx_match :: "rx \<Rightarrow> rx_env \<Rightarrow> string \<Rightarrow> (rx_env \<times> string) list" where
  "rx_match RxEmpty env s = [(env, s)]"
| "rx_match (RxChar p) env s = (case s of [] \<Rightarrow> [] | c # cs \<Rightarrow> if p c then [(env, cs)] else [])"
| "rx_match (RxGreedy p) env s = map (Pair env) (rev (star_rests p s))"
| "rx_match (RxLazy p) env s = map (Pair env) (star_rests p s)"
| "rx_match (RxSeq a b) env s = concat (map (\<lambda>(e, r). rx_match b e r) (rx_match a env s))"
| "rx_match (RxAlt a b) env s = rx_match a env s @ rx_match b env s"
| "rx_match (RxGroup g a) env s =
     map (\<lambda>(e, r). ((g, take (length s - length r) s) # e, r)) (rx_match a env s)"
| "rx_match (RxBack g) env s =
     (case map_of env g of
        None \<Rightarrow> []
      | Some w \<Rightarrow> if starts_with w s then [(env, drop (length w) s)] else [])"
| "rx_match RxEnd env s = (if s = [] then [(env, s)] else [])"

definition rx_fullmatch :: "rx \<Rightarrow> string \<Rightarrow> rx_env option" where
  "rx_fullmatch r s =
     (case filter (\<lambda>(e, rest). rest = []) (rx_match r [] s) of
        [] \<Rightarrow> None
      | (e, _) # _ \<Rightarrow> Some e)"

fun rx_literal :: "string \<Rightarrow> rx" where
  "rx_literal [] = RxEmpty"
| "rx_literal (c # cs) = RxSeq (RxChar (\<lambda>x. x = c)) (rx_literal cs)"

definition rx_plus :: "(char \<Rightarrow> bool) \<Rightarrow> rx" where
  "rx_plus p = RxSeq (RxChar p) (RxGreedy p)"

fun rx_all :: "rx list \<Rightarrow> rx" where
  "rx_all [] = RxEmpty"
| "rx_all (r # rs) = RxSeq r (rx_all rs)"

lemma star_rests_suffix: "r \<in> set (star_rests p s) \<Longrightarrow> \<exists>u. s = u @ r \<and> list_all p u"
proof (induction s)
  case (Cons c cs)
  then consider "r = c # cs" | "p c" "r \<in> set (star_rests p cs)" by (auto split: if_splits)
  then show ?case
  proof cases
    case 2
    with Cons.IH obtain u where "cs = u @ r" "list_all p u" by blast
    with 2 show ?thesis by (intro exI [of _ "c # u"]) simp
  qed simp
qed simp

lemma rx_match_suffix: "(e, r) \<in> set (rx_match a env s) \<Longrightarrow> \<exists>u. s = u @ r"
proof (induction a arbitrary: env s e r)
  case (RxSeq a b)
  then obtain e' r' where "(e', r') \<in> set (rx_match a env s)" "(e, r) \<in> set (rx_match b e' r')"
    by auto
  with RxSeq.IH obtain u v where "s = u @ r'" "r' = v @ r" by blast
  then have "s = (u @ v) @ r" by simp
  then show ?case ..
next
  case (RxBack g)
  then obtain w where "starts_with w s" "r = drop (length w) s"
    by (auto split: option.splits if_splits)
  then show ?case unfolding starts_with_def by (metis append_take_drop_id)
qed (fastforce dest: star_rests_suffix split: list.splits if_splits)+

lemma rx_match_length: "(e, r) \<in> set (rx_match a env s) \<Longrightarrow> length r \<le> length s"
  using rx_match_suffix by fastforce

text \<open>What a group captures is no longer than the text that was still there.\<close>

lemma rx_match_groups:
  "(e, r) \<in> set (rx_match a env s) \<Longrightarrow> map_of e g = Some w \<Longrightarrow> map_of env g = Some w \<or> length w \<le> length s"
proof (induction a arbitrary: env s e r)
  case (RxSeq a b)
  then obtain e' r' where "(e', r') \<in> set (rx_match a env s)" "(e, r) \<in> set (rx_match b e' r')"
    by auto
  with RxSeq.IH(1) [OF this(1)] RxSeq.IH(2) [OF this(2) RxSeq.prems(2)]
  show ?case using rx_match_length [of e' r' a env s] by fastforce
next
  case (RxGroup h a)
  then obtain e' where e': "(e', r) \<in> set (rx_match a env s)"
    "e = (h, take (length s - length r) s) # e'"
    by auto
  show ?case
  proof (cases "g = h")
    case True
    with e' RxGroup.prems(2) show ?thesis by auto
  next
    case False
    with e' RxGroup.prems(2) RxGroup.IH [OF e'(1)] show ?thesis by simp
  qed
next
  case (RxAlt a b)
  from RxAlt.prems(1) consider "(e, r) \<in> set (rx_match a env s)" | "(e, r) \<in> set (rx_match b env s)"
    by auto
  then show ?case using RxAlt.IH RxAlt.prems(2) by cases blast+
qed (auto split: list.splits if_splits option.splits)

subsection \<open>Shell words\<close>

text \<open>
  \<^verbatim>\<open>shlex.shlex(command, posix=True, punctuation_chars=";&|()<>")\<close> with \<^verbatim>\<open>whitespace_split\<close> and
  without comments, as a machine over the characters. Its states are the source's: between
  words, in a word, in a run of punctuation, in a quote, after a backslash (in a word or in a
  quote). \<open>quoted\<close> keeps an empty word that was quoted. An unclosed quote or escape is a
  \<^verbatim>\<open>ValueError\<close>, here \<open>None\<close>.
\<close>

datatype lex_state = LexBlank | LexWord | LexPunct | LexQuote char | LexEscape "char option"

definition lex_space :: "char \<Rightarrow> bool" where
  "lex_space c \<longleftrightarrow> c = CHR '' '' \<or> c = CHR 0x09 \<or> c = CHR 0x0D \<or> c = CHR 0x0A"

definition lex_punct :: "char \<Rightarrow> bool" where
  "lex_punct c \<longleftrightarrow> c \<in> set '';&|()<>''"

definition lex_quote :: "char \<Rightarrow> bool" where
  "lex_quote c \<longleftrightarrow> c = CHR 0x27 \<or> c = CHR 0x22"

definition lex_backslash :: char where
  "lex_backslash = CHR 0x5C"

text \<open>What a character starts between two words.\<close>

definition lex_start :: "char \<Rightarrow> lex_state \<times> string" where
  "lex_start c =
     (if lex_space c then (LexBlank, [])
      else if c = lex_backslash then (LexEscape None, [])
      else if lex_punct c then (LexPunct, [c])
      else if lex_quote c then (LexQuote c, [])
      else (LexWord, [c]))"

fun shlex_run :: "lex_state \<Rightarrow> bool \<Rightarrow> string \<Rightarrow> string \<Rightarrow> string list option" where
  "shlex_run LexBlank quoted tok [] = Some []"
| "shlex_run LexWord quoted tok [] = Some (if tok \<noteq> [] \<or> quoted then [tok] else [])"
| "shlex_run LexPunct quoted tok [] = Some [tok]"
| "shlex_run (LexQuote q) quoted tok [] = None"
| "shlex_run (LexEscape q) quoted tok [] = None"
| "shlex_run LexBlank quoted tok (c # cs) = (case lex_start c of (st, t) \<Rightarrow> shlex_run st False t cs)"
| "shlex_run LexWord quoted tok (c # cs) =
     (if lex_space c then map_option (\<lambda>ts. if tok \<noteq> [] \<or> quoted then tok # ts else ts)
        (shlex_run LexBlank False [] cs)
      else if lex_quote c then shlex_run (LexQuote c) quoted tok cs
      else if c = lex_backslash then shlex_run (LexEscape None) quoted tok cs
      else if \<not> lex_punct c then shlex_run LexWord quoted (tok @ [c]) cs
      else map_option (\<lambda>ts. if tok \<noteq> [] \<or> quoted then tok # ts else ts)
        (case lex_start c of (st, t) \<Rightarrow> shlex_run st False t cs))"
| "shlex_run LexPunct quoted tok (c # cs) =
     (if lex_punct c then shlex_run LexPunct quoted (tok @ [c]) cs
      else map_option ((#) tok) (case lex_start c of (st, t) \<Rightarrow> shlex_run st False t cs))"
| "shlex_run (LexQuote q) quoted tok (c # cs) =
     (if c = q then shlex_run LexWord True tok cs
      else if c = lex_backslash \<and> q = CHR 0x22 then shlex_run (LexEscape (Some q)) True tok cs
      else shlex_run (LexQuote q) True (tok @ [c]) cs)"
| "shlex_run (LexEscape None) quoted tok (c # cs) = shlex_run LexWord quoted (tok @ [c]) cs"
| "shlex_run (LexEscape (Some q)) quoted tok (c # cs) =
     shlex_run (LexQuote q) quoted
       (if c \<noteq> lex_backslash \<and> c \<noteq> q then tok @ [lex_backslash, c] else tok @ [c]) cs"

definition shlex_tokens :: "string \<Rightarrow> string list option" where
  "shlex_tokens command = shlex_run LexBlank False [] command"

end
