(* ===== verification/Deployment_Models.thy ===== *)
theory Deployment_Models
  imports Core_Models Python_Text
begin

section \<open>Deployment models and environment boundaries\<close>

text \<open>
  The data of \<^verbatim>\<open>src/src/harness/deployments/models.py\<close> and the boundary checks of
  \<^verbatim>\<open>boundaries.py\<close> that other services use. What pydantic checks when a model is built is a
  \<open>..._valid\<close> predicate or a function that returns the error the validator raises.
  \<open>digest\<close> stands for SHA-256 over the canonical JSON of a resource policy; reading a stored
  policy snapshot back (\<^verbatim>\<open>model_validate\<close>) is the parameter \<open>parse\<close>. Finite floats are
  rationals.
\<close>

datatype environment_name = EnvTest | EnvCanary | EnvProduction

fun environment_name_value :: "environment_name \<Rightarrow> string" where
  "environment_name_value EnvTest = ''test''"
| "environment_name_value EnvCanary = ''canary''"
| "environment_name_value EnvProduction = ''production''"

datatype deployment_status =
  DeployQueued | DeployReconciling | DeploySucceeded | DeployFailed

definition deployment_is_terminal :: "deployment_status \<Rightarrow> bool" where
  "deployment_is_terminal s \<longleftrightarrow> s \<in> {DeploySucceeded, DeployFailed}"

record deployment_route =
  route_snapshot_id :: string
  route_weight :: int

definition deployment_route_valid :: "deployment_route \<Rightarrow> bool" where
  "deployment_route_valid r \<longleftrightarrow> route_snapshot_id r \<noteq> [] \<and> 1 \<le> route_weight r \<and> route_weight r \<le> 100"

datatype credential_scope = ScopeUser | ScopeTeam | ScopeWorkload

fun credential_scope_value :: "credential_scope \<Rightarrow> string" where
  "credential_scope_value ScopeUser = ''user''"
| "credential_scope_value ScopeTeam = ''team''"
| "credential_scope_value ScopeWorkload = ''workload''"

datatype network_access = NetNone | NetInternal | NetExternal

record environment_quota_boundary =
  boundary_max_run_budget_usd :: "rat option"
  boundary_max_model_tokens :: "int option"
  boundary_max_artifact_bytes :: "int option"

definition environment_quota_boundary_valid :: "environment_quota_boundary \<Rightarrow> bool" where
  "environment_quota_boundary_valid b \<longleftrightarrow>
     (case boundary_max_run_budget_usd b of None \<Rightarrow> True | Some v \<Rightarrow> 0 < v) \<and>
     (case boundary_max_model_tokens b of None \<Rightarrow> True | Some n \<Rightarrow> 1 \<le> n \<and> n \<le> 10000000) \<and>
     (case boundary_max_artifact_bytes b of
        None \<Rightarrow> True | Some n \<Rightarrow> 1 \<le> n \<and> n \<le> 10 * 1024 * 1024 * 1024)"

record environment_resource_policy =
  respol_execution_profile_id :: string
  respol_execution_profile_version :: int
  respol_network_profile_id :: string
  respol_network_profile_version :: int
  respol_network_access :: "network_access list"
  respol_allowed_model_routes :: "string list"
  respol_capability_catalog_revision :: int
  respol_allowed_mcp_references :: "string list"
  respol_allowed_knowledge_references :: "string list"
  respol_credential_scopes :: "credential_scope list"
  respol_quota :: environment_quota_boundary

text \<open>\<^verbatim>\<open>str.strip()\<close> is empty exactly on a string of white space.\<close>

definition blank :: "string \<Rightarrow> bool" where
  "blank s \<longleftrightarrow> list_all py_space s"

definition unique_resource_ids :: "environment_resource_policy \<Rightarrow> herror + unit" where
  "unique_resource_ids p =
     (if \<not> distinct (respol_network_access p)
      then Inl (ValueError ''duplicate network access in Environment policy'')
      else if \<not> distinct (respol_allowed_model_routes p)
      then Inl (ValueError ''duplicate model route in Environment policy'')
      else if \<not> distinct (respol_allowed_mcp_references p)
      then Inl (ValueError ''duplicate MCP reference in Environment policy'')
      else if \<not> distinct (respol_allowed_knowledge_references p)
      then Inl (ValueError ''duplicate knowledge reference in Environment policy'')
      else if \<not> distinct (respol_credential_scopes p)
      then Inl (ValueError ''duplicate credential scope in Environment policy'')
      else if respol_allowed_model_routes p = []
      then Inl (ValueError ''Environment policy must allow at least one model route'')
      else if respol_credential_scopes p = []
      then Inl (ValueError ''Environment policy must allow at least one credential scope'')
      else if list_ex blank (respol_allowed_model_routes p)
      then Inl (ValueError ''Environment policy contains an empty model route'')
      else if list_ex blank (respol_allowed_mcp_references p)
      then Inl (ValueError ''Environment policy contains an empty MCP reference'')
      else if list_ex blank (respol_allowed_knowledge_references p)
      then Inl (ValueError ''Environment policy contains an empty knowledge reference'')
      else Inr ())"

definition default_resource_policy :: environment_resource_policy where
  "default_resource_policy =
     \<lparr>respol_execution_profile_id = ''isolated-default'', respol_execution_profile_version = 1,
      respol_network_profile_id = ''registered-mcp-only'', respol_network_profile_version = 1,
      respol_network_access = [NetNone, NetInternal, NetExternal],
      respol_allowed_model_routes = [''deepseek-v4-flash'', ''deepseek-v4-pro'',
        ''new-api-default'', ''minimax-m3'', ''glm-5-2'', ''anthropic-official''],
      respol_capability_catalog_revision = 1,
      respol_allowed_mcp_references = [''tavily-readonly''],
      respol_allowed_knowledge_references = [],
      respol_credential_scopes = [ScopeUser, ScopeTeam, ScopeWorkload],
      respol_quota = \<lparr>boundary_max_run_budget_usd = None, boundary_max_model_tokens = None,
        boundary_max_artifact_bytes = None\<rparr>\<rparr>"

record environment =
  env_tenant_id :: string
  env_owner_user_id :: string
  env_agent_name :: string
  env_name :: environment_name
  env_revision :: int
  env_policy_revision :: int
  env_resource_policy :: environment_resource_policy
  env_routes :: "deployment_route list"
  env_healthy_snapshot_id :: "string option"
  env_updated_at :: time

definition valid_routes :: "deployment_route list \<Rightarrow> herror + unit" where
  "valid_routes routes =
     (if routes \<noteq> [] \<and> sum_list (map route_weight routes) \<noteq> 100
      then Inl (ValueError ''deployment route weights must total 100'')
      else if \<not> distinct (map route_snapshot_id routes)
      then Inl (ValueError ''deployment route snapshots must be unique'')
      else Inr ())"

record environment_policy_snapshot =
  polsnap_environment :: environment_name
  polsnap_environment_revision :: int
  polsnap_policy_revision :: int
  polsnap_policy_hash :: string
  polsnap_resource_policy :: environment_resource_policy
  polsnap_captured_at :: time

definition valid_policy_hash ::
  "(environment_resource_policy \<Rightarrow> string) \<Rightarrow> environment_policy_snapshot \<Rightarrow> herror + unit" where
  "valid_policy_hash digest s =
     (if polsnap_policy_hash s \<noteq> digest (polsnap_resource_policy s)
      then Inl (ValueError ''Environment policy snapshot hash does not match its policy'')
      else Inr ())"

record deployment_snapshot =
  depsnap_tenant_id :: string
  depsnap_snapshot_id :: string
  depsnap_agent_name :: string
  depsnap_agent_version :: string
  depsnap_environment :: environment_name
  depsnap_manifest_hash :: string
  depsnap_package_hash :: string
  depsnap_image_digest :: string
  depsnap_execution_profile :: string
  depsnap_execution_profile_version :: int
  depsnap_execution_profile_hash :: string
  depsnap_environment_policy_snapshot :: "environment_policy_snapshot option"
  depsnap_config :: json_obj
  depsnap_eval_gate_passed :: bool
  depsnap_eval_required_datasets :: int
  depsnap_preview_id :: "string option"
  depsnap_created_by :: string
  depsnap_created_at :: time

datatype deployment_action = Promote | Rollback

record deployment =
  deploy_tenant_id :: string
  deploy_deployment_id :: string
  deploy_agent_name :: string
  deploy_environment :: environment_name
  deploy_action :: deployment_action
  deploy_target_snapshot_id :: string
  deploy_previous_snapshot_id :: "string option"
  deploy_canary_percent :: int
  deploy_expected_environment_revision :: int
  deploy_idempotency_key :: string
  deploy_requested_by :: string
  deploy_status :: deployment_status
  deploy_fencing_token :: int
  deploy_created_at :: time
  deploy_updated_at :: time
  deploy_completed_at :: "time option"
  deploy_error_code :: "string option"

record promote_request =
  promote_agent_name :: string
  promote_agent_version :: string
  promote_environment :: environment_name
  promote_expected_environment_revision :: int
  promote_canary_percent :: int
  promote_image_digest :: string
  promote_execution_profile :: string
  promote_config :: json_obj
  promote_preview_id :: "string option"
  promote_idempotency_key :: string

definition forbidden_config_words :: "string list" where
  "forbidden_config_words = [''secret'', ''token'', ''password'', ''credential'', ''api_key'',
     ''apikey'', ''provider'', ''sandbox'', ''cpu'', ''memory'', ''disk'', ''network'',
     ''egress'', ''ttl'']"

definition config_is_non_secret :: "promote_request \<Rightarrow> herror + unit" where
  "config_is_non_secret r =
     (if \<exists>k \<in> set (map fst (promote_config r)).
           list_ex (\<lambda>w. is_substring w (py_lower k)) forbidden_config_words
      then Inl (ValueError ''deployment config contains secret-like or platform-managed keys'')
      else Inr ())"

record rollback_request =
  rollback_snapshot_id :: string
  rollback_expected_environment_revision :: int
  rollback_idempotency_key :: string

record deployment_view =
  view_deployment :: deployment
  view_target :: deployment_snapshot
  view_environment :: environment

record deployment_resolution =
  resolution_agent_name :: string
  resolution_agent_version :: string
  resolution_environment :: environment_name
  resolution_snapshot_id :: string
  resolution_environment_policy_snapshot :: environment_policy_snapshot

subsection \<open>Boundaries of a session\<close>

definition session_environment_policy ::
  "(json_obj \<Rightarrow> environment_policy_snapshot option) \<Rightarrow> session \<Rightarrow>
   herror + environment_policy_snapshot option" where
  "session_environment_policy parse s =
     (case session_environment_snapshot s of
        None \<Rightarrow> Inr None
      | Some raw \<Rightarrow>
          (case parse raw of
             None \<Rightarrow> Inl (ConflictError ''Session Environment policy snapshot is invalid'')
           | Some snapshot \<Rightarrow> Inr (Some snapshot)))"

definition environment_quota_boundary_of ::
  "(json_obj \<Rightarrow> environment_policy_snapshot option) \<Rightarrow> session \<Rightarrow>
   herror + environment_quota_boundary option" where
  "environment_quota_boundary_of parse s =
     (case session_environment_policy parse s of
        Inl e \<Rightarrow> Inl e
      | Inr None \<Rightarrow> Inr None
      | Inr (Some snapshot) \<Rightarrow> Inr (Some (respol_quota (polsnap_resource_policy snapshot))))"

text \<open>The parts of an agent's manifest the runtime check reads.\<close>

record agent_requirements =
  requires_catalog_revision :: "int option"
  requires_route :: string
  requires_fallback_route :: "string option"
  requires_tool_mcps :: "string option list"
  requires_knowledge :: "string list"

definition denied :: "string list \<Rightarrow> string list \<Rightarrow> string list" where
  "denied wanted allowed =
     sort (filter (\<lambda>x. x \<notin> set allowed) (dedup_keep_first wanted))"

definition enforce_runtime_environment ::
  "(json_obj \<Rightarrow> environment_policy_snapshot option) \<Rightarrow> session \<Rightarrow> agent_requirements \<Rightarrow>
   herror + unit" where
  "enforce_runtime_environment parse s a =
     (case session_environment_policy parse s of
        Inl e \<Rightarrow> Inl e
      | Inr None \<Rightarrow> Inr ()
      | Inr (Some snapshot) \<Rightarrow>
          let p = polsnap_resource_policy snapshot;
              routes = requires_route a #
                (case requires_fallback_route a of
                   None \<Rightarrow> [] | Some f \<Rightarrow> if f = [] then [] else [f]);
              denied_routes = denied routes (respol_allowed_model_routes p);
              denied_mcp = denied (List.map_filter id (requires_tool_mcps a))
                (respol_allowed_mcp_references p);
              denied_knowledge = denied (requires_knowledge a)
                (respol_allowed_knowledge_references p)
          in if (case requires_catalog_revision a of
                   None \<Rightarrow> False | Some r \<Rightarrow> r \<noteq> respol_capability_catalog_revision p)
             then Inl (ConflictError
               ''Session Environment snapshot denies the Agent tool directory revision'')
             else if denied_routes \<noteq> []
             then Inl (ConflictError (''Session Environment snapshot denies model routes: '' @
               join_with '', '' denied_routes))
             else if denied_mcp \<noteq> []
             then Inl (ConflictError (''Session Environment snapshot denies MCP resources: '' @
               join_with '', '' denied_mcp))
             else if denied_knowledge \<noteq> []
             then Inl (ConflictError (''Session Environment snapshot denies Knowledge Bases: '' @
               join_with '', '' denied_knowledge))
             else Inr ())"

lemma set_denied [simp]: "set (denied wanted allowed) = set wanted - set allowed"
  by (auto simp: denied_def)

lemma denied_Nil: "denied wanted allowed = [] \<longleftrightarrow> set wanted \<subseteq> set allowed"
proof -
  have "denied wanted allowed = [] \<longleftrightarrow> set (denied wanted allowed) = {}" by (simp only: set_empty)
  then show ?thesis by auto
qed

text \<open>
  C32. A session that runs under an environment snapshot starts an agent only if every model
  route, MCP server and knowledge base the agent names, and its tool directory revision, are
  allowed by the snapshot.
\<close>

theorem runtime_environment_enforced:
  assumes "session_environment_policy parse s = Inr (Some snapshot)"
  shows "enforce_runtime_environment parse s a = Inr () \<longleftrightarrow>
    (let p = polsnap_resource_policy snapshot in
     (case requires_catalog_revision a of
        None \<Rightarrow> True | Some r \<Rightarrow> r = respol_capability_catalog_revision p) \<and>
     requires_route a \<in> set (respol_allowed_model_routes p) \<and>
     (case requires_fallback_route a of
        None \<Rightarrow> True | Some f \<Rightarrow> f = [] \<or> f \<in> set (respol_allowed_model_routes p)) \<and>
     (\<forall>m. Some m \<in> set (requires_tool_mcps a) \<longrightarrow> m \<in> set (respol_allowed_mcp_references p)) \<and>
     set (requires_knowledge a) \<subseteq> set (respol_allowed_knowledge_references p))"
proof -
  have mcps: "set (List.map_filter id xs) \<subseteq> A \<longleftrightarrow> (\<forall>m. Some m \<in> set xs \<longrightarrow> m \<in> A)"
    for xs :: "string option list" and A
    by (force simp: map_filter_def)
  show ?thesis
    using assms
    by (auto simp: enforce_runtime_environment_def denied_Nil mcps Let_def split: option.split)
qed

definition sample_session :: session where
  "sample_session = \<lparr>session_id = ''s'', session_tenant_id = ''t'', session_user_id = ''u'',
     session_agent_owner_user_id = None, session_agent_name = ''a'', session_agent_version = ''1'',
     session_created_at = 0, session_team_ids = [], session_api_key_id = None,
     session_claude_session_id = None, session_workspace_snapshot_id = None,
     session_environment = Some ''test'', session_deployment_snapshot_id = None,
     session_environment_snapshot = Some [], session_knowledge_snapshot_bindings = []\<rparr>"

definition sample_snapshot :: environment_policy_snapshot where
  "sample_snapshot = \<lparr>polsnap_environment = EnvTest, polsnap_environment_revision = 1,
     polsnap_policy_revision = 1, polsnap_policy_hash = [],
     polsnap_resource_policy = default_resource_policy, polsnap_captured_at = 0\<rparr>"

definition sample_requirements :: agent_requirements where
  "sample_requirements = \<lparr>requires_catalog_revision = Some 1, requires_route = ''glm-5-2'',
     requires_fallback_route = None, requires_tool_mcps = [None, Some ''tavily-readonly''],
     requires_knowledge = []\<rparr>"

lemma runtime_environment_enforced_witness:
  "enforce_runtime_environment (\<lambda>raw. Some sample_snapshot) sample_session sample_requirements = Inr ()"
proof -
  have "session_environment_policy (\<lambda>raw. Some sample_snapshot) sample_session =
      Inr (Some sample_snapshot)"
    by (simp add: session_environment_policy_def sample_session_def)
  from runtime_environment_enforced [OF this, of sample_requirements] show ?thesis
    by (simp add: sample_requirements_def sample_snapshot_def default_resource_policy_def)
qed

end
