(* ===== verification/Run_Service.thy ===== *)
theory Run_Service
  imports Quota_Atomic Deployment_Models
begin

section \<open>Run service\<close>

text \<open>
  \<^verbatim>\<open>RunService\<close> of \<^verbatim>\<open>src/src/harness/application/runs.py\<close>: creating a run (replay of an
  idempotency key, deduplication of an active input, admission, the queued event with the
  reason a predecessor gives, the queue), and cancelling it. Tracing and metrics only write to
  the observability back end and are left out. \<open>rd_parse\<close> reads a stored policy snapshot back,
  \<open>rd_plan\<close> is the resolver of quota plans the service may be configured with. The creation
  lock keeps two creations of one session apart in one process; the model does without it, so
  what is shown holds between processes as well.
\<close>

record run_quota_plan =
  plan_max_budget_usd :: "rat option"
  plan_max_model_tokens :: "int option"
  plan_ttl_seconds :: int

record run_creation =
  creation_run :: run
  creation_created :: bool
  creation_deduplicated :: bool

record run_deps = deps +
  rd_trace_context :: "(string, string) dict"
  rd_admission :: bool
  rd_plan :: "(string \<Rightarrow> string \<Rightarrow> string \<Rightarrow> string \<Rightarrow> herror + run_quota_plan) option"
  rd_parse :: "json_obj \<Rightarrow> environment_policy_snapshot option"

subsection \<open>What makes two requests the same\<close>

fun json_str :: "json \<Rightarrow> string option" where
  "json_str (JStr s) = Some s"
| "json_str _ = None"

fun all_some :: "'a option list \<Rightarrow> 'a list option" where
  "all_some [] = Some []"
| "all_some (None # xs) = None"
| "all_some (Some x # xs) = map_option (\<lambda>ys. x # ys) (all_some xs)"

definition request_attachment_ids :: "json \<Rightarrow> string list option" where
  "request_attachment_ids v =
     (case v of JList xs \<Rightarrow> map_option sort (all_some (map json_str xs)) | _ \<Rightarrow> None)"

definition same_user_request :: "json_obj \<Rightarrow> json_obj \<Rightarrow> bool" where
  "same_user_request left right =
     (case (dict_get left ''prompt'', dict_get right ''prompt'') of
        (Some (JStr left_prompt), Some (JStr right_prompt)) \<Rightarrow>
          left_prompt = right_prompt \<and>
          request_attachment_ids (dict_get_or left ''input_artifact_ids'' (JList [])) =
          request_attachment_ids (dict_get_or right ''input_artifact_ids'' (JList []))
      | _ \<Rightarrow> False)"

definition blocking_predecessor :: "run list \<Rightarrow> run option" where
  "blocking_predecessor active_runs =
     (case py_sorted (\<lambda>r. (run_created_at r, run_id r)) active_runs of
        [] \<Rightarrow> None
      | first # rest \<Rightarrow>
          (case List.find (\<lambda>r. run_status r = RunWaitingApproval) (first # rest) of
             None \<Rightarrow> Some first | Some r \<Rightarrow> Some r))"

definition min_bound :: "'a::linorder option \<Rightarrow> 'a option \<Rightarrow> 'a option" where
  "min_bound own bound =
     (case bound of
        None \<Rightarrow> own
      | Some b \<Rightarrow> Some (case own of None \<Rightarrow> b | Some a \<Rightarrow> min a b))"

definition apply_environment_quota ::
  "(json_obj \<Rightarrow> environment_policy_snapshot option) \<Rightarrow> run_quota_plan \<Rightarrow> session \<Rightarrow>
   herror + run_quota_plan" where
  "apply_environment_quota parse plan s =
     (case environment_quota_boundary_of parse s of
        Inl e \<Rightarrow> Inl e
      | Inr None \<Rightarrow> Inr plan
      | Inr (Some b) \<Rightarrow> Inr
          \<lparr>plan_max_budget_usd = min_bound (plan_max_budget_usd plan) (boundary_max_run_budget_usd b),
           plan_max_model_tokens =
             min_bound (plan_max_model_tokens plan) (boundary_max_model_tokens b),
           plan_ttl_seconds = plan_ttl_seconds plan\<rparr>)"

subsection \<open>Creating a run\<close>

definition caller_of_session :: "session \<Rightarrow> quota_caller" where
  "caller_of_session s =
     \<lparr>caller_organization_id = None, caller_team_ids = session_team_ids s,
      caller_user_id = Some (session_user_id s), caller_agent_name = Some (session_agent_name s),
      caller_environment = session_environment s, caller_api_key_id = session_api_key_id s\<rparr>"

definition resolve_plan :: "run_deps \<Rightarrow> string \<Rightarrow> session \<Rightarrow> run_quota_plan handler" where
  "resolve_plan d tenant_id s =
     bindP (case rd_plan d of
         None \<Rightarrow> ret \<lparr>plan_max_budget_usd = None, plan_max_model_tokens = None,
                    plan_ttl_seconds = 3600\<rparr>
       | Some resolver \<Rightarrow> await d (ask (\<lambda>w. resolver tenant_id (resolved_agent_owner_user_id s)
                              (session_agent_name s) (session_agent_version s)))) (\<lambda>plan.
       ask (\<lambda>w. apply_environment_quota (rd_parse d) plan s))"

definition admit_new_run :: "run_deps \<Rightarrow> string \<Rightarrow> session \<Rightarrow> string \<Rightarrow> bool handler" where
  "admit_new_run d tenant_id s rid =
     (if rd_admission d
      then bindP (resolve_plan d tenant_id s) (\<lambda>plan.
             thenP (admit_run d tenant_id rid (caller_of_session s) (plan_max_budget_usd plan)
                      (plan_max_model_tokens plan) (plan_ttl_seconds plan))
               (ret True))
      else ret False)"

text \<open>The two reasons are Chinese texts; strings are sequences of UTF-8 bytes.\<close>

definition reason_waiting :: string where
  "reason_waiting =
    [CHR 0xE5, CHR 0x89, CHR 0x8D, CHR 0xE5, CHR 0xBA, CHR 0x8F, CHR 0xE4, CHR 0xBB,
     CHR 0xBB, CHR 0xE5, CHR 0x8A, CHR 0xA1, CHR 0xE7, CHR 0xAD, CHR 0x89, CHR 0xE5,
     CHR 0xBE, CHR 0x85, CHR 0xE5, CHR 0xAE, CHR 0xA1, CHR 0xE6, CHR 0x89, CHR 0xB9]"

definition reason_active :: string where
  "reason_active =
    [CHR 0xE5, CHR 0x89, CHR 0x8D, CHR 0xE5, CHR 0xBA, CHR 0x8F, CHR 0xE4, CHR 0xBB,
     CHR 0xBB, CHR 0xE5, CHR 0x8A, CHR 0xA1, CHR 0xE4, CHR 0xBB, CHR 0x8D, CHR 0xE5,
     CHR 0x9C, CHR 0xA8, CHR 0xE6, CHR 0x89, CHR 0xA7, CHR 0xE8, CHR 0xA1, CHR 0x8C]"

definition queue_payload :: "run option \<Rightarrow> json_obj" where
  "queue_payload predecessor =
     (case predecessor of
        None \<Rightarrow> []
      | Some r \<Rightarrow>
          let waiting = (run_status r = RunWaitingApproval) in
          [(''reason_code'', JStr (if waiting then ''predecessor_waiting_approval''
              else ''predecessor_active'')),
           (''reason'', JStr (if waiting then reason_waiting else reason_active)),
           (''blocked_by_run_id'', JStr (run_id r)),
           (''blocked_by_status'', JStr (run_status_value (run_status r)))])"

definition new_run ::
  "run_deps \<Rightarrow> string \<Rightarrow> string \<Rightarrow> string \<Rightarrow> json_obj \<Rightarrow> string \<Rightarrow> time \<Rightarrow> run" where
  "new_run d tenant_id sid idem req rid timestamp =
     \<lparr>run_id = rid, run_session_id = sid, run_tenant_id = tenant_id, run_status = RunQueued,
      run_idempotency_key = idem, run_created_at = timestamp, run_updated_at = timestamp,
      run_fencing_token = 0, run_error_code = None, run_input = req,
      run_trace_context = rd_trace_context d\<rparr>"

definition publish_run :: "run_deps \<Rightarrow> run \<Rightarrow> run list \<Rightarrow> run_creation handler" where
  "publish_run d r active_runs =
     thenP (event_service_append d (run_tenant_id r) (run_id r) (run_session_id r) ''run.queued''
              (queue_payload (blocking_predecessor active_runs)))
     (thenP (await d (queue_enqueue_task \<lparr>task_tenant_id = run_tenant_id r,
               task_run_id = run_id r, task_session_id = Some (run_session_id r)\<rparr>))
       (ret \<lparr>creation_run = r, creation_created = True, creation_deduplicated = False\<rparr>))"

definition create_locked ::
  "run_deps \<Rightarrow> string \<Rightarrow> string \<Rightarrow> string \<Rightarrow> json_obj \<Rightarrow> bool \<Rightarrow> run_creation handler" where
  "create_locked d tenant_id sid idem req deduplicate_active_input =
     bindP (await d (ask (\<lambda>w. session_get (w_sessions w) tenant_id sid))) (\<lambda>s.
     bindP (await d (ask (\<lambda>w. run_find_by_idempotency_key (w_runs w) tenant_id sid idem)))
       (\<lambda>existing.
     case existing of
       Some r \<Rightarrow> ret \<lparr>creation_run = r, creation_created = False, creation_deduplicated = False\<rparr>
     | None \<Rightarrow>
         bindP (await d (ask (\<lambda>w. Inr (run_list_for_sessions (w_runs w) tenant_id [sid] 200))))
           (\<lambda>listed.
         let active_runs = filter (\<lambda>r. \<not> is_terminal (run_status r)) listed in
         case (if deduplicate_active_input
               then List.find (\<lambda>r. same_user_request (run_input r) req) active_runs
               else None) of
           Some r \<Rightarrow> ret \<lparr>creation_run = r, creation_created = False, creation_deduplicated = True\<rparr>
         | None \<Rightarrow>
             bindP (clock d) (\<lambda>timestamp.
             bindP (id_generator d ''run'') (\<lambda>rid.
             let r = new_run d tenant_id sid idem req rid timestamp in
             bindP (admit_new_run d tenant_id s rid) (\<lambda>admitted.
             bindP (tryP (await d (runs_add r))) (\<lambda>outcome.
               case outcome of
                 Inl e \<Rightarrow> thenP (whenP admitted
                            (thenP (release_subject d tenant_id rid) (ret ()))) (raise e)
               | Inr _ \<Rightarrow> publish_run d r active_runs)))))))"

subsection \<open>Cancelling a run\<close>

definition advance :: "('x) deps_scheme \<Rightarrow> run \<Rightarrow> run_status \<Rightarrow> run handler" where
  "advance d r target =
     bindP (ask (\<lambda>w. transition (run_status r) target)) (\<lambda>status.
     bindP (clock d) (\<lambda>now.
       ret (r\<lparr>run_status := status, run_updated_at := now,
              run_fencing_token := run_fencing_token r + 1\<rparr>)))"

definition release_admission :: "run_deps \<Rightarrow> string \<Rightarrow> string \<Rightarrow> unit handler" where
  "release_admission d tenant_id rid =
     whenP (rd_admission d) (thenP (release_subject d tenant_id rid) (ret ()))"

definition finish_cancel :: "run_deps \<Rightarrow> string \<Rightarrow> string \<Rightarrow> run \<Rightarrow> run handler" where
  "finish_cancel d tenant_id rid current =
     bindP (advance d current RunCancelled) (\<lambda>cancelled.
     bindP (await d (runs_compare_and_set RunCancelling cancelled)) (\<lambda>won.
       if \<not> won
       then bindP (await d (runs_get tenant_id rid)) (\<lambda>latest.
              if is_terminal (run_status latest) then ret latest
              else raise (ConflictError (''run changed while cancellation completed: '' @ rid)))
       else
         thenP (event_service_append d tenant_id rid (run_session_id current) ''run.cancelled'' [])
         (thenP (release_admission d tenant_id rid)
           (ret cancelled))))"

text \<open>From provisioning and running the worker finishes the cancellation.\<close>

definition hand_over :: "run_deps \<Rightarrow> string \<Rightarrow> string \<Rightarrow> run_status \<Rightarrow> run \<Rightarrow> run handler" where
  "hand_over d tenant_id rid requested_from current =
     (if requested_from = RunProvisioning \<or> requested_from = RunRunning then ret current
      else finish_cancel d tenant_id rid current)"

definition request_cancel :: "run_deps \<Rightarrow> string \<Rightarrow> string \<Rightarrow> run \<Rightarrow> run handler" where
  "request_cancel d tenant_id rid current =
     bindP (advance d current RunCancelling) (\<lambda>cancelling.
     bindP (await d (runs_compare_and_set (run_status current) cancelling)) (\<lambda>won.
       if \<not> won
       then bindP (await d (runs_get tenant_id rid)) (\<lambda>latest.
              if is_terminal (run_status latest) then ret latest
              else if run_status latest \<noteq> RunCancelling
              then raise (ConflictError
                     (''run changed while cancellation was requested: '' @ rid))
              else hand_over d tenant_id rid (run_status current) latest)
       else
         thenP (event_service_append d tenant_id rid (run_session_id cancelling)
                  ''run.cancelling'' [])
           (hand_over d tenant_id rid (run_status current) cancelling)))"

definition run_cancel :: "run_deps \<Rightarrow> string \<Rightarrow> string \<Rightarrow> run handler" where
  "run_cancel d tenant_id rid =
     bindP (await d (runs_get tenant_id rid)) (\<lambda>current.
       if is_terminal (run_status current)
       then thenP (release_admission d tenant_id rid) (ret current)
       else if run_status current = RunCancelling then ret current
       else request_cancel d tenant_id rid current)"

subsection \<open>The protocol\<close>

lemma transition_edge: "transition s t = Inr u \<Longrightarrow> u = t \<and> (s, t) \<in> run_move"
  by (auto simp: run_move_def run_edge_def transition_def split: if_splits)

text \<open>\<open>advance\<close> builds the next version of a run that was read: the input of a compare-and-set.\<close>

definition next_version :: "run \<Rightarrow> run \<Rightarrow> bool" where
  "next_version r u \<longleftrightarrow> (run_status r, run_status u) \<in> run_move \<and> run_same r u \<and>
     run_fencing_token u = run_fencing_token r + 1"

lemma upholds_bind_advance:
  assumes r: "rely d" and f: "\<And>u. next_version x u \<Longrightarrow> run_status u = target \<Longrightarrow>
      upholds d K own (f u)"
  shows "upholds d K own (bindP (advance d x target) f)"
proof (cases "transition (run_status x) target")
  case (Inl e)
  then have "bindP (advance d x target) f = raise e"
    by (simp add: advance_def ask_def bindP_apply fun_eq_iff)
  then show ?thesis by (simp add: upholds_raise)
next
  case (Inr s)
  let ?u = "\<lambda>now. x\<lparr>run_status := s, run_updated_at := now,
      run_fencing_token := run_fencing_token x + 1\<rparr>"
  have "bindP (advance d x target) f = bindP (clock d) (\<lambda>now. f (?u now))"
    by (simp add: advance_def ask_def bindP_apply clock_def fun_eq_iff Inr)
  moreover have "next_version x (?u now)" "run_status (?u now) = target" for now
    using transition_edge [OF Inr] by (simp_all add: next_version_def run_same_def)
  ultimately show ?thesis using f r by (auto intro: upholds_bind_clock)
qed

lemma upholds_bind_cas_next:
  assumes "rely d" and "KnowsRun x \<in> K" and "next_version x u" and "st = run_status x"
    and "upholds d K own (f False)" and "upholds d (insert (KnowsRun u) K) own (f True)"
  shows "upholds d K own (bindP (await d (runs_compare_and_set st u)) f)"
  using assms by (intro upholds_bind_runs_cas [where x = x]) (simp_all add: next_version_def)

lemma upholds_ask_bind:
  "rely d \<Longrightarrow> (\<And>x. upholds d K own (f x)) \<Longrightarrow> upholds d K own (bindP (await d (ask g)) f)"
  by (rule upholds_bind, assumption, rule upholds_await, assumption, rule upholds_ask)

lemma upholds_release_admission: "rely d \<Longrightarrow> upholds d K {} (release_admission d tn rid)"
  unfolding release_admission_def
  by (auto intro!: upholds_when upholds_then upholds_release_subject upholds_ret)

lemma upholds_finish_cancel:
  assumes r: "rely d" and known: "KnowsRun x \<in> K" and st: "run_status x = RunCancelling"
  shows "upholds d K {} (finish_cancel d tn rid x)"
  unfolding finish_cancel_def
  using r known st
  by (auto intro!: upholds_bind_advance upholds_bind_cas_next [where x = x] upholds_bind_runs_get
    upholds_if upholds_ret upholds_raise upholds_then upholds_event_append
    upholds_release_admission)

lemma upholds_hand_over:
  assumes r: "rely d" and known: "KnowsRun x \<in> K" and st: "run_status x = RunCancelling"
  shows "upholds d K {} (hand_over d tn rid s x)"
  unfolding hand_over_def using upholds_finish_cancel [OF assms] by (auto intro: upholds_ret)

lemma upholds_run_cancel: "rely d \<Longrightarrow> upholds d K {} (run_cancel d tn rid)"
  unfolding run_cancel_def request_cancel_def
  by (rule upholds_bind_runs_get, assumption)
     (auto intro!: upholds_if upholds_bind_advance upholds_bind_cas_next upholds_bind_runs_get
       upholds_ret upholds_raise upholds_then upholds_event_append upholds_release_admission
       upholds_hand_over)

lemma upholds_admit_new_run: "rely d \<Longrightarrow> upholds d K {} (admit_new_run d tn s rid)"
  unfolding admit_new_run_def resolve_plan_def
  by (auto intro!: upholds_if upholds_ret upholds_bind upholds_then upholds_admit_run
    upholds_option upholds_await upholds_ask)

lemma upholds_create_locked:
  assumes r: "rely d"
  shows "upholds d K {} (create_locked d tn sid idem req dedup)"
proof -
  have "upholds d K {} (runs_add (new_run d tn sid idem req rid ts))" for K rid ts
    by (rule upholds_runs_add) (simp_all add: new_run_def)
  then show ?thesis
    unfolding create_locked_def publish_run_def Let_def
    using r
    by (intro upholds_ask_bind upholds_option upholds_ret upholds_bind_clock upholds_plain_id
      upholds_bind upholds_admit_new_run upholds_try upholds_await upholds_sum upholds_then
      upholds_when upholds_release_subject upholds_raise upholds_event_append upholds_enqueue)
qed

subsection \<open>A concrete service\<close>

definition quiet_run_deps :: run_deps where
  "quiet_run_deps = deps.extend quiet_deps
     \<lparr>rd_trace_context = [], rd_admission = False, rd_plan = None, rd_parse = (\<lambda>_. None)\<rparr>"

lemma quiet_run_deps_simps [simp]:
  "d_new_id quiet_run_deps = d_new_id quiet_deps" "d_clock quiet_run_deps = d_clock quiet_deps"
  "d_others quiet_run_deps = (\<lambda>n w. w)" "d_rounds quiet_run_deps = 3"
  "rd_admission quiet_run_deps = False" "rd_trace_context quiet_run_deps = []"
  by (simp_all add: quiet_run_deps_def quiet_deps_def deps.defs)

lemma quiet_run_ids: "ids_distinct quiet_run_deps"
  by (rule quiet_ids) simp

lemma quiet_run_alone: "alone quiet_run_deps"
  by (simp add: alone_def)

lemma quiet_run_rely: "rely quiet_run_deps"
  by (rule alone_rely [OF quiet_run_alone quiet_run_ids])

text \<open>A world with one session, and the same world after its first run was created.\<close>

definition session_world :: world where
  "session_world = world_empty\<lparr>w_sessions := [((''t'', ''s''), sample_session)]\<rparr>"

definition queued_world :: world where
  "queued_world = snd (create_locked quiet_run_deps ''t'' ''s'' ''k'' [] True session_world)"

definition first_run :: run where
  "first_run = new_run quiet_run_deps ''t'' ''s'' ''k'' [] ''run'' 0"

lemma session_world_sound: "world_sound quiet_run_deps session_world"
proof -
  have "sys quiet_run_deps world_empty session_world"
    by (rule sys_same) (simp_all add: session_world_def)
  then show ?thesis using world_sound_empty by (rule sys_ownD)
qed

lemma queued_world_sound: "world_sound quiet_run_deps queued_world"
proof -
  have "sys quiet_run_deps session_world queued_world"
    using upholds_create_locked [OF quiet_run_rely, of "{}"] session_world_sound
    unfolding upholds_def queued_world_def by blast
  then show ?thesis using session_world_sound by (rule sys_ownD)
qed

lemma queued_world_run:
  "dict_get (runs_items (w_runs queued_world)) (''t'', ''run'') = Some first_run"
  "session_get (w_sessions queued_world) ''t'' ''s'' = Inr sample_session"
  by code_simp+

end
