(* ===== verification/Run_Properties.thy ===== *)
theory Run_Properties
  imports Run_Service
begin

section \<open>Run service: what its handlers do\<close>

text \<open>
  The outcome of creating and of cancelling a run, stated over the whole state: which run is
  returned, what is stored, which events the log gains and what the queue holds. \<open>alone\<close> means
  that nothing else runs meanwhile; the protocol theorems of \<^verbatim>\<open>Run_Service\<close> cover the rest.
\<close>

lemma next_event_stream:
  assumes "event_repo_inv repo"
  shows "event_sequence (next_event (event_list_after repo t r 0) e) =
    int (length (event_stream repo (t, r))) + 1"
  using next_event_sequence [OF assms, of t r e] event_list_after_all [OF assms] by simp

text \<open>Appending an event when nothing else writes: the log of the run gains exactly it.\<close>

lemma append_alone:
  assumes d: "alone d" and ids: "ids_distinct d" and w: "world_sound d w" and rounds: "0 < d_rounds d"
  obtains e es where "event_service_append d tn rid sid type payload w =
      (Inr e, w\<lparr>w_events := es, w_bus := bus_publish e (w_bus w), w_ids := Suc (w_ids w),
        w_clock_reads := Suc (w_clock_reads w), w_awaits := w_awaits w + 3\<rparr>)"
    and "event_type e = type" and "event_payload e = payload" and "event_session_id e = sid"
    and "event_sequence e = int (length (event_stream (w_events w) (tn, rid))) + 1"
    and "\<And>k. event_stream es k =
      (if k = (tn, rid) then event_stream (w_events w) k @ [e] else event_stream (w_events w) k)"
proof -
  let ?i = "d_new_id d ''event'' (w_ids w)"
  let ?e0 = "\<lparr>event_id = ?i, event_run_id = rid, event_session_id = sid,
    event_tenant_id = tn, event_sequence = 1, event_type = type,
    event_timestamp = d_clock d (w_clock_reads w), event_payload = payload,
    event_schema_version = 1, event_trace_id = d_trace_id d, event_span_id = d_span_id d\<rparr>"
  let ?e = "next_event (event_list_after (w_events w) tn rid 0) ?e0"
  have inv: "event_repo_inv (w_events w)" using w by (simp add: world_sound_def)
  have "\<not> drawn d ''event'' {..<w_ids w} ?i"
    by (rule drawn_disjoint [OF ids, where ns = "{w_ids w}"]) (auto simp: drawn_def)
  with w have new: "dict_get (events_by_id (w_events w)) ?i = None"
    unfolding world_sound_def by auto
  have seq: "event_sequence ?e = int (length (event_stream (w_events w) (tn, rid))) + 1"
    using inv by (rule next_event_stream)
  then obtain es where app: "event_append ?e (w_events w) = Inr es"
    using new by (auto simp: event_append_def event_stream_key_def Let_def)
  have stream: "event_stream es k =
      (if k = (tn, rid) then event_stream (w_events w) k @ [?e] else event_stream (w_events w) k)" for k
    using app by (cases rule: event_append_cases) (use new in \<open>auto simp: event_stream_key_def\<close>)
  obtain n where n: "d_rounds d = Suc n" using rounds by (cases "d_rounds d") auto
  have "event_service_append d tn rid sid type payload w =
      (Inr ?e, w\<lparr>w_events := es, w_bus := bus_publish ?e (w_bus w), w_ids := Suc (w_ids w),
        w_clock_reads := Suc (w_clock_reads w), w_awaits := w_awaits w + 3\<rparr>)"
    using app
    by (simp add: event_service_append_def n bindP_apply thenP_apply tryP_apply await_def
      alone_suspended [OF d] id_generator_def clock_def ask_def events_append_def
      bus_publish_event_def)
  then show thesis
    by (rule that) (use seq stream in \<open>simp_all add: next_event_def\<close>)
qed

subsection \<open>Creating a run\<close>

text \<open>
  Creating a run is idempotent: if the session exists and some run of it was created under
  the same idempotency key, the call returns that run, reports that nothing was created, and
  changes no repository, log, queue or quota counter.
\<close>

theorem create_replays:
  assumes d: "alone d" and w: "world_sound d w"
    and s: "session_get (w_sessions w) tn sid = Inr s"
    and r: "dict_get (runs_items (w_runs w)) (run_key r) = Some r" "run_idem_key r = (tn, sid, idem)"
  shows "create_locked d tn sid idem req dedup w =
    (Inr \<lparr>creation_run = r, creation_created = False, creation_deduplicated = False\<rparr>,
     w\<lparr>w_awaits := w_awaits w + 2\<rparr>)"
proof -
  have inv: "run_repo_inv (w_runs w)" using w by (simp add: world_sound_def)
  from run_repo_inv_indexed [OF inv r(1)] r(2)
  have "dict_get (runs_idempotency (w_runs w)) (tn, sid, idem) = Some (run_id r)" by simp
  moreover from r(2) have "run_key r = (tn, run_id r)" by (simp add: run_key_def run_idem_key_def)
  ultimately have "run_find_by_idempotency_key (w_runs w) tn sid idem = Inr (Some r)"
    using r(1) by (simp add: run_find_by_idempotency_key_def)
  then show ?thesis
    using s by (simp add: create_locked_def bindP_apply await_def ask_def alone_suspended [OF d])
qed

lemma create_replays_witness:
  "create_locked quiet_run_deps ''t'' ''s'' ''k'' [] True queued_world =
    (Inr \<lparr>creation_run = first_run, creation_created = False, creation_deduplicated = False\<rparr>,
     queued_world\<lparr>w_awaits := w_awaits queued_world + 2\<rparr>)"
proof -
  have "run_key first_run = (''t'', ''run'')" "run_idem_key first_run = (''t'', ''s'', ''k'')"
    by (simp_all add: first_run_def new_run_def run_key_def run_idem_key_def)
  then show ?thesis
    using queued_world_run
    by (intro create_replays [OF quiet_run_alone queued_world_sound]) simp_all
qed

text \<open>
  C26. Creating a run without admission: when no run has the idempotency key and no active run
  of the session carries the same request (or deduplication is off), the new run is stored
  queued with token 0, the log of the run gains one event, \<^verbatim>\<open>run.queued\<close>, whose payload names
  the predecessor that blocks it, and the task is handed to the queue.
\<close>

theorem create_stores_and_queues:
  assumes d: "alone d" "ids_distinct d" "0 < d_rounds d" "\<not> rd_admission d"
    and w: "world_sound d w"
    and s: "session_get (w_sessions w) tn sid = Inr s"
    and no_key: "run_find_by_idempotency_key (w_runs w) tn sid idem = Inr None"
    and active: "active = filter (\<lambda>r. \<not> is_terminal (run_status r))
      (run_list_for_sessions (w_runs w) tn [sid] 200)"
    and no_dup: "dedup \<longrightarrow> (\<forall>r \<in> set active. \<not> same_user_request (run_input r) req)"
    and no_id: "\<not> dict_has (runs_items (w_runs w)) (tn, d_new_id d ''run'' (w_ids w))"
  shows "case create_locked d tn sid idem req dedup w of
      (Inl e, u) \<Rightarrow> False
    | (Inr c, u) \<Rightarrow>
        (let r = new_run d tn sid idem req (d_new_id d ''run'' (w_ids w))
                   (d_clock d (w_clock_reads w));
             k = (tn, run_id r)
         in c = \<lparr>creation_run = r, creation_created = True, creation_deduplicated = False\<rparr> \<and>
            dict_get (runs_items (w_runs u)) k = Some r \<and>
            (\<exists>e. event_stream (w_events u) k = event_stream (w_events w) k @ [e] \<and>
               event_type e = ''run.queued'' \<and>
               event_payload e = queue_payload (blocking_predecessor active)) \<and>
            w_queue u = queue_enqueue \<lparr>task_tenant_id = tn, task_run_id = run_id r,
              task_session_id = Some sid\<rparr> (w_queue w) \<and>
            w_quota u = w_quota w \<and> w_approvals u = w_approvals w)"
proof -
  let ?rid = "d_new_id d ''run'' (w_ids w)"
  let ?r = "new_run d tn sid idem req ?rid (d_clock d (w_clock_reads w))"
  have keys: "run_key ?r = (tn, ?rid)" "run_idem_key ?r = (tn, sid, idem)" "run_id ?r = ?rid"
    "run_tenant_id ?r = tn" "run_session_id ?r = sid"
    by (simp_all add: new_run_def run_key_def run_idem_key_def)
  have inv: "run_repo_inv (w_runs w)" using w by (simp add: world_sound_def)
  have "dict_get (runs_idempotency (w_runs w)) (tn, sid, idem) = None"
    using no_key run_repo_inv_index [OF inv, of "(tn, sid, idem)"]
    by (auto simp: run_find_by_idempotency_key_def split: option.splits)
  then obtain rs where add: "run_add ?r (w_runs w) = Inr rs"
    using no_id by (simp add: run_add_def keys)
  have find: "(if dedup then List.find (\<lambda>r. same_user_request (run_input r) req) active else None) = None"
    using no_dup by (auto simp: find_None_iff)
  let ?w0 = "w\<lparr>w_clock_reads := Suc (w_clock_reads w), w_ids := Suc (w_ids w),
    w_awaits := w_awaits w + 4\<rparr>"
  let ?w1 = "?w0\<lparr>w_runs := rs\<rparr>"
  have "sys d ?w0 ?w1"
  proof (rule sys_runs)
    show "run_repo_inv rs" using inv add by (rule run_repo_inv_add)
    show "run_history (w_runs ?w0) rs"
      using run_history_add [OF add] by (simp add: new_run_def)
  qed
  moreover have "sys d w ?w0" by (rule sys_same) simp_all
  ultimately have w1: "world_sound d ?w1" using w by (blast dest: sys_ownD(5))
  obtain e es where app: "event_service_append d tn ?rid sid ''run.queued''
      (queue_payload (blocking_predecessor active)) ?w1 =
      (Inr e, ?w1\<lparr>w_events := es, w_bus := bus_publish e (w_bus ?w1), w_ids := Suc (w_ids ?w1),
        w_clock_reads := Suc (w_clock_reads ?w1), w_awaits := w_awaits ?w1 + 3\<rparr>)"
    and e: "event_type e = ''run.queued''"
      "event_payload e = queue_payload (blocking_predecessor active)"
    and es: "\<And>k. event_stream es k = (if k = (tn, ?rid)
      then event_stream (w_events ?w1) k @ [e] else event_stream (w_events ?w1) k)"
    using append_alone [OF d(1,2) w1 d(3)] by metis
  have "create_locked d tn sid idem req dedup w =
      (Inr \<lparr>creation_run = ?r, creation_created = True, creation_deduplicated = False\<rparr>,
       ?w1\<lparr>w_events := es, w_bus := bus_publish e (w_bus ?w1), w_ids := Suc (w_ids ?w1),
        w_clock_reads := Suc (w_clock_reads ?w1), w_awaits := w_awaits ?w1 + 4,
        w_queue := queue_enqueue \<lparr>task_tenant_id = tn, task_run_id = ?rid,
          task_session_id = Some sid\<rparr> (w_queue w)\<rparr>)"
    using s no_key find add app d(4)
    by (cases dedup) (simp_all add: create_locked_def publish_run_def bindP_apply thenP_apply tryP_apply await_def
      ask_def alone_suspended [OF d(1)] clock_def id_generator_def admit_new_run_def runs_add_def
      queue_enqueue_task_def active [symmetric] keys Let_def numeral_eq_Suc)
  then show ?thesis
    using run_add_Inr(3) [OF add] e es by (simp add: keys Let_def)
qed

lemma create_stores_and_queues_witness:
  "fst (create_locked quiet_run_deps ''t'' ''s'' ''k'' [] True session_world) =
    Inr \<lparr>creation_run = first_run, creation_created = True, creation_deduplicated = False\<rparr>"
proof -
  have empty: "session_get (w_sessions session_world) ''t'' ''s'' = Inr sample_session"
    "w_runs session_world = run_repo_empty" "w_ids session_world = 0"
    "w_clock_reads session_world = 0"
    by (simp_all add: session_world_def world_empty_def session_get_def)
  have none: "run_find_by_idempotency_key run_repo_empty ''t'' ''s'' ''k'' = Inr None"
    "run_list_for_sessions run_repo_empty ''t'' [''s''] 200 = []"
    "dict_get (runs_items run_repo_empty) (''t'', d_new_id quiet_deps ''run'' 0) = None"
    by code_simp+
  have first: "first_run = new_run quiet_run_deps ''t'' ''s'' ''k'' []
      (d_new_id quiet_deps ''run'' 0) (d_clock quiet_deps 0)"
    by (simp add: first_run_def quiet_deps_def)
  show ?thesis
    using create_stores_and_queues [OF quiet_run_alone quiet_run_ids _ _ session_world_sound
      empty(1), of "''k''" "[]" True "[]"]
    by (auto simp: empty none first Let_def split: prod.splits sum.splits)
qed

subsection \<open>Single steps when nothing else runs\<close>

definition keeps_rest :: "world \<Rightarrow> world \<Rightarrow> bool" where
  "keeps_rest w w' \<longleftrightarrow> w_sessions w' = w_sessions w \<and> w_approvals w' = w_approvals w \<and>
     w_queue w' = w_queue w \<and> w_quota w' = w_quota w \<and>
     w_inline_waiters w' = w_inline_waiters w \<and> w_inline_tenants w' = w_inline_tenants w \<and>
     w_futures w' = w_futures w"

lemma keeps_rest_refl [simp]: "keeps_rest w w"
  by (simp add: keeps_rest_def)

lemma keeps_rest_trans: "keeps_rest a b \<Longrightarrow> keeps_rest b c \<Longrightarrow> keeps_rest a c"
  by (simp add: keeps_rest_def)

lemma step_append:
  assumes d: "alone d" "ids_distinct d" "0 < d_rounds d" and w: "world_sound d w"
  obtains e w' where "event_service_append d tn rid sid type payload w = (Inr e, w')"
    and "event_type e = type" and "event_payload e = payload"
    and "world_sound d w'" and "keeps_rest w w'" and "w_runs w' = w_runs w"
    and "w_clock_reads w' = Suc (w_clock_reads w)"
    and "\<And>k. event_stream (w_events w') k =
      (if k = (tn, rid) then event_stream (w_events w) k @ [e] else event_stream (w_events w) k)"
proof -
  obtain e es where run: "event_service_append d tn rid sid type payload w =
      (Inr e, w\<lparr>w_events := es, w_bus := bus_publish e (w_bus w), w_ids := Suc (w_ids w),
        w_clock_reads := Suc (w_clock_reads w), w_awaits := w_awaits w + 3\<rparr>)"
    and e: "event_type e = type" "event_payload e = payload"
    and es: "\<And>k. event_stream es k =
      (if k = (tn, rid) then event_stream (w_events w) k @ [e] else event_stream (w_events w) k)"
    using append_alone [OF d(1,2) w d(3)] by metis
  have "sys d w (snd (event_service_append d tn rid sid type payload w))"
    using upholds_event_append [OF alone_rely [OF d(1,2)], of "{}"] w
    unfolding upholds_def by blast
  then have "world_sound d (snd (event_service_append d tn rid sid type payload w))"
    using w by (rule sys_ownD)
  with run e es show thesis
    by (intro that [of e "w\<lparr>w_events := es, w_bus := bus_publish e (w_bus w),
        w_ids := Suc (w_ids w), w_clock_reads := Suc (w_clock_reads w),
        w_awaits := w_awaits w + 3\<rparr>"]) (simp_all add: keeps_rest_def)
qed

lemma step_get:
  assumes d: "alone d" and w: "world_sound d w"
    and r: "dict_get (runs_items (w_runs w)) (tn, rid) = Some r"
  obtains w' where "bindP (await d (runs_get tn rid)) f w = f r w'"
    and "world_sound d w'" and "keeps_rest w w'" and "w_runs w' = w_runs w"
    and "w_clock_reads w' = w_clock_reads w" and "w_events w' = w_events w"
proof -
  let ?w = "w\<lparr>w_awaits := Suc (w_awaits w)\<rparr>"
  have "world_sound d ?w" using sys_ownD(5) [OF sys_same [of ?w w d "{}"] w] by simp
  then show thesis
    using r by (intro that [of ?w])
      (simp_all add: bindP_apply await_def alone_suspended [OF d] runs_get_def ask_def run_get_def
        keeps_rest_def)
qed

lemma run_cas_stored:
  assumes "dict_get (runs_items s) (run_key u) = Some c" and "run_status c = e"
    and "run_fencing_token u = run_fencing_token c + 1"
  shows "run_cas e u s = Inr (True, s\<lparr>runs_items := dict_set (run_key u) u (runs_items s)\<rparr>)"
  using assms by (simp add: run_cas_def)

lemma sound_update_run:
  assumes w: "world_sound d w" and r: "dict_get (runs_items (w_runs w)) (run_key r) = Some r"
    and u: "next_version r u"
  shows "world_sound d (w\<lparr>w_runs := (w_runs w)\<lparr>runs_items :=
    dict_set (run_key u) u (runs_items (w_runs w))\<rparr>\<rparr>)"
proof -
  have keys: "run_key u = run_key r" "run_idem_key u = run_idem_key r"
    using u run_same_keys unfolding next_version_def by blast+
  have cas: "run_cas (run_status r) u (w_runs w) = Inr (True, (w_runs w)\<lparr>runs_items :=
      dict_set (run_key u) u (runs_items (w_runs w))\<rparr>)"
    using r u by (intro run_cas_stored [of _ _ r]) (simp_all add: keys next_version_def)
  have "sys d w (w\<lparr>w_runs := (w_runs w)\<lparr>runs_items :=
      dict_set (run_key u) u (runs_items (w_runs w))\<rparr>\<rparr>)"
  proof (rule sys_runs)
    show "run_history (w_runs w) ((w_runs w)\<lparr>runs_items :=
        dict_set (run_key u) u (runs_items (w_runs w))\<rparr>)"
      using u run_history_cas(1) [OF cas r run_later_refl] by (simp add: next_version_def)
    show "run_repo_inv ((w_runs w)\<lparr>runs_items :=
        dict_set (run_key u) u (runs_items (w_runs w))\<rparr>)" if "world_sound d w"
      using cas r that by (intro run_repo_inv_cas [OF _ cas]) (simp_all add: world_sound_def keys)
  qed
  then show ?thesis using w by (rule sys_ownD)
qed

text \<open>Reading the clock, building the next version and writing it by compare-and-set.\<close>

lemma step_move:
  assumes d: "alone d" and w: "world_sound d w"
    and r: "dict_get (runs_items (w_runs w)) (run_key r) = Some r"
    and edge: "target \<in> set (allowed_transitions (run_status r))"
    and u: "u = r\<lparr>run_status := target, run_updated_at := d_clock d (w_clock_reads w),
      run_fencing_token := run_fencing_token r + 1\<rparr>"
    and st: "st = run_status r"
  obtains w' where "\<And>f :: run \<Rightarrow> bool \<Rightarrow> 'b handler. bindP (advance d r target) (\<lambda>x.
      bindP (await d (runs_compare_and_set st x)) (f x)) w = f u True w'"
    and "world_sound d w'" and "keeps_rest w w'" and "w_clock_reads w' = Suc (w_clock_reads w)"
    and "w_events w' = w_events w" and "run_key u = run_key r"
    and "dict_get (runs_items (w_runs w')) (run_key u) = Some u"
proof -
  have "\<not> is_terminal (run_status r)" using edge by (cases "run_status r") auto
  with edge have t: "transition (run_status r) target = Inr target" by (simp add: transition_def)
  have nv: "next_version r u"
    using transition_edge [OF t] by (simp add: u next_version_def run_same_def)
  have key: "run_key u = run_key r" by (simp add: u run_key_def)
  let ?w = "w\<lparr>w_clock_reads := Suc (w_clock_reads w), w_awaits := Suc (w_awaits w)\<rparr>"
  let ?rs = "(w_runs w)\<lparr>runs_items := dict_set (run_key u) u (runs_items (w_runs w))\<rparr>"
  have "world_sound d ?w" using sys_ownD(5) [OF sys_same [of ?w w d "{}"] w] by simp
  then have sound: "world_sound d (?w\<lparr>w_runs := ?rs\<rparr>)"
    using sound_update_run [of d ?w r u] r nv by simp
  have cas: "run_cas st u (w_runs w) = Inr (True, ?rs)"
    using r st key by (intro run_cas_stored [of _ _ r]) (simp, simp, simp add: u)
  show thesis
  proof (rule that [of "?w\<lparr>w_runs := ?rs\<rparr>", OF _ sound])
    show "bindP (advance d r target) (\<lambda>x. bindP (await d (runs_compare_and_set st x)) (f x)) w =
        f u True (?w\<lparr>w_runs := ?rs\<rparr>)" for f :: "run \<Rightarrow> bool \<Rightarrow> 'b handler"
      using cas by (simp add: bindP_apply advance_def ask_def clock_def await_def
        alone_suspended [OF d] runs_compare_and_set_def t u)
  qed (simp_all add: keeps_rest_def key)
qed

subsection \<open>Cancelling a run\<close>

lemma release_admission_alone:
  assumes d: "alone d" and w: "world_sound d w"
  obtains w' where "release_admission d tn rid w = (Inr (), w')"
    and "w_runs w' = w_runs w" and "w_events w' = w_events w"
    and "if rd_admission d
      then \<forall>i q. dict_get (quota_reservations (w_quota w')) (tn, i) = Some q \<longrightarrow>
        resv_subject_id q = rid \<longrightarrow> resv_state q \<noteq> ReservationActive
      else w_quota w' = w_quota w"
proof (cases "rd_admission d")
  case True
  obtain n t where t: "release_subject d tn rid w = (Inr n, t)"
    "t = w\<lparr>w_awaits := w_awaits t, w_quota := w_quota t\<rparr>"
    "\<And>i r. dict_get (quota_reservations (w_quota t)) (tn, i) = Some r \<Longrightarrow>
      resv_subject_id r = rid \<Longrightarrow> resv_state r \<noteq> ReservationActive"
    using release_subject_alone [OF d sound_quota [OF w]] by metis
  have "w_runs t = w_runs w" "w_events t = w_events w" by (subst t(2), simp)+
  with t(1,3) True show thesis
    by (intro that [of t]) (simp_all add: release_admission_def whenP_def thenP_apply)
next
  case False
  then show thesis by (intro that [of w]) (simp_all add: release_admission_def whenP_def)
qed

lemma finish_cancel_alone:
  assumes d: "alone d" "ids_distinct d" "0 < d_rounds d" and w: "world_sound d w"
    and c: "dict_get (runs_items (w_runs w)) (tn, rid) = Some c" "run_status c = RunCancelling"
  obtains u w' e where "finish_cancel d tn rid c w = (Inr u, w')"
    and "u = c\<lparr>run_status := RunCancelled, run_updated_at := d_clock d (w_clock_reads w),
      run_fencing_token := run_fencing_token c + 1\<rparr>"
    and "dict_get (runs_items (w_runs w')) (tn, rid) = Some u"
    and "event_stream (w_events w') (tn, rid) = event_stream (w_events w) (tn, rid) @ [e]"
    and "event_type e = ''run.cancelled''"
    and "if rd_admission d
      then \<forall>i q. dict_get (quota_reservations (w_quota w')) (tn, i) = Some q \<longrightarrow>
        resv_subject_id q = rid \<longrightarrow> resv_state q \<noteq> ReservationActive
      else w_quota w' = w_quota w"
proof -
  have key: "run_key c = (tn, rid)"
    using w c by (intro run_repo_inv_key [of "w_runs w"]) (simp_all add: world_sound_def)
  define u where "u = c\<lparr>run_status := RunCancelled, run_updated_at := d_clock d (w_clock_reads w),
    run_fencing_token := run_fencing_token c + 1\<rparr>"
  have edge: "RunCancelled \<in> set (allowed_transitions (run_status c))" by (simp add: c)
  obtain w1 where move: "\<And>f :: run \<Rightarrow> bool \<Rightarrow> run handler. bindP (advance d c RunCancelled)
      (\<lambda>x. bindP (await d (runs_compare_and_set RunCancelling x)) (f x)) w = f u True w1"
    and w1: "world_sound d w1" "keeps_rest w w1" "w_events w1 = w_events w"
      "run_key u = run_key c"
      "dict_get (runs_items (w_runs w1)) (run_key u) = Some u"
    by (rule step_move [OF d(1) w c(1) [folded key] edge u_def c(2) [symmetric]], rule that)
  obtain e w2 where 2: "event_service_append d tn rid (run_session_id c) ''run.cancelled'' [] w1 =
      (Inr e, w2)" and w2: "event_type e = ''run.cancelled''" "world_sound d w2"
      "keeps_rest w1 w2" "w_runs w2 = w_runs w1"
      "\<And>k. event_stream (w_events w2) k = (if k = (tn, rid)
        then event_stream (w_events w1) k @ [e] else event_stream (w_events w1) k)"
    using step_append [OF d w1(1)] by metis
  obtain w3 where 3: "release_admission d tn rid w2 = (Inr (), w3)"
    and w3: "w_runs w3 = w_runs w2" "w_events w3 = w_events w2"
      "if rd_admission d
       then \<forall>i q. dict_get (quota_reservations (w_quota w3)) (tn, i) = Some q \<longrightarrow>
         resv_subject_id q = rid \<longrightarrow> resv_state q \<noteq> ReservationActive
       else w_quota w3 = w_quota w2"
    using release_admission_alone [OF d(1) w2(2)] by metis
  have "finish_cancel d tn rid c w = (Inr u, w3)"
    unfolding finish_cancel_def move using 2 3 by (simp add: thenP_apply)
  moreover have "w_quota w2 = w_quota w" using w1(2) w2(3) by (simp add: keeps_rest_def)
  ultimately show thesis
    using w1 w2 w3 key by (intro that [OF _ u_def, of w3 e]) simp_all
qed

definition cancelled_from :: "('x) deps_scheme \<Rightarrow> world \<Rightarrow> run \<Rightarrow> run" where
  "cancelled_from d w r = r\<lparr>run_status := RunCancelled,
     run_updated_at := d_clock d (w_clock_reads w + 2),
     run_fencing_token := run_fencing_token r + 2\<rparr>"

text \<open>
  C27. Cancelling a run that no worker executes (queued, or waiting for an approval) finishes
  within the call: the run is stored cancelled with its token two higher and everything else
  kept, its log gains \<^verbatim>\<open>run.cancelling\<close> and \<^verbatim>\<open>run.cancelled\<close> in this order, and where runs are
  admitted no active reservation of the run is left.
\<close>

theorem cancel_idle_run:
  assumes d: "alone d" "ids_distinct d" "0 < d_rounds d"
    and w: "world_sound d w"
    and r: "dict_get (runs_items (w_runs w)) (tn, rid) = Some r"
    and idle: "run_status r = RunQueued \<or> run_status r = RunWaitingApproval"
  shows "case run_cancel d tn rid w of
      (Inl e, u) \<Rightarrow> False
    | (Inr x, u) \<Rightarrow>
        x = cancelled_from d w r \<and>
        dict_get (runs_items (w_runs u)) (tn, rid) = Some x \<and>
        (\<exists>e1 e2. event_stream (w_events u) (tn, rid) =
             event_stream (w_events w) (tn, rid) @ [e1, e2] \<and>
           event_type e1 = ''run.cancelling'' \<and> event_type e2 = ''run.cancelled'') \<and>
        (if rd_admission d
         then \<forall>i q. dict_get (quota_reservations (w_quota u)) (tn, i) = Some q \<longrightarrow>
           resv_subject_id q = rid \<longrightarrow> resv_state q \<noteq> ReservationActive
         else w_quota u = w_quota w)"
proof -
  have key: "run_key r = (tn, rid)"
    using w r by (intro run_repo_inv_key [of "w_runs w"]) (simp add: world_sound_def)
  define c where "c = r\<lparr>run_status := RunCancelling, run_updated_at := d_clock d (w_clock_reads w),
    run_fencing_token := run_fencing_token r + 1\<rparr>"
  have live: "\<not> is_terminal (run_status r)" "run_status r \<noteq> RunCancelling"
    "RunCancelling \<in> set (allowed_transitions (run_status r))"
    "\<And>w. hand_over d tn rid (run_status r) c w = finish_cancel d tn rid c w"
    using idle by (auto simp: hand_over_def)
  obtain w1 where 1: "run_cancel d tn rid w = request_cancel d tn rid r w1"
    and w1: "world_sound d w1" "keeps_rest w w1" "w_runs w1 = w_runs w"
      "w_clock_reads w1 = w_clock_reads w" "w_events w1 = w_events w"
    using step_get [OF d(1) w r, of "\<lambda>current. if is_terminal (run_status current)
       then thenP (release_admission d tn rid) (ret current)
       else if run_status current = RunCancelling then ret current
       else request_cancel d tn rid current"] live
    unfolding run_cancel_def by auto
  have r1: "dict_get (runs_items (w_runs w1)) (run_key r) = Some r" using r by (simp add: w1 key)
  obtain w2 where move: "\<And>f :: run \<Rightarrow> bool \<Rightarrow> run handler. bindP (advance d r RunCancelling)
      (\<lambda>x. bindP (await d (runs_compare_and_set (run_status r) x)) (f x)) w1 = f c True w2"
    and w2: "world_sound d w2" "keeps_rest w1 w2" "w_clock_reads w2 = Suc (w_clock_reads w1)"
      "w_events w2 = w_events w1" "run_key c = run_key r"
      "dict_get (runs_items (w_runs w2)) (run_key c) = Some c"
    by (rule step_move [OF d(1) w1(1) r1 live(3) c_def [folded w1(4)] refl])
      (rule that)
  obtain e1 w3 where 3: "event_service_append d tn rid (run_session_id c) ''run.cancelling'' [] w2 =
      (Inr e1, w3)" and w3: "event_type e1 = ''run.cancelling''" "world_sound d w3"
      "keeps_rest w2 w3" "w_runs w3 = w_runs w2" "w_clock_reads w3 = Suc (w_clock_reads w2)"
      "\<And>k. event_stream (w_events w3) k = (if k = (tn, rid)
        then event_stream (w_events w2) k @ [e1] else event_stream (w_events w2) k)"
    using step_append [OF d w2(1)] by metis
  have c3: "dict_get (runs_items (w_runs w3)) (run_key c) = Some c" using w2 w3 by simp
  obtain w' e2 where fin: "finish_cancel d tn rid c w3 = (Inr (cancelled_from d w r), w')"
    and w': "dict_get (runs_items (w_runs w')) (tn, rid) = Some (cancelled_from d w r)"
      "event_stream (w_events w') (tn, rid) = event_stream (w_events w3) (tn, rid) @ [e2]"
      "event_type e2 = ''run.cancelled''"
      "if rd_admission d
       then \<forall>i q. dict_get (quota_reservations (w_quota w')) (tn, i) = Some q \<longrightarrow>
         resv_subject_id q = rid \<longrightarrow> resv_state q \<noteq> ReservationActive
       else w_quota w' = w_quota w3"
    by (rule finish_cancel_alone [OF d w3(2) c3 [unfolded w2(5) key]])
      (auto simp: c_def cancelled_from_def w1(4) w2(3) w3(5))
  have "run_cancel d tn rid w = (Inr (cancelled_from d w r), w')"
    unfolding 1 request_cancel_def move using 3 fin live(4) by (simp add: thenP_apply)
  moreover have "w_quota w3 = w_quota w"
    using w1(2) w2(2) w3(3) by (simp add: keeps_rest_def)
  ultimately show ?thesis
    using w' w3(1,6) w1(5) w2(4) by simp
qed

lemma cancel_idle_run_witness:
  "fst (run_cancel quiet_run_deps ''t'' ''run'' queued_world) =
    Inr (cancelled_from quiet_run_deps queued_world first_run)"
  using cancel_idle_run [OF quiet_run_alone quiet_run_ids _ queued_world_sound queued_world_run(1)]
  by (auto simp: first_run_def new_run_def split: prod.splits sum.splits)

end
