(* ===== verification/Approval_Service.thy ===== *)
theory Approval_Service
  imports Run_Service
begin

section \<open>Approval service\<close>

text \<open>
  \<^verbatim>\<open>ApprovalService\<close> of \<^verbatim>\<open>src/src/harness/application/approvals.py\<close>. An approval pauses a
  running run; a decision resumes it (a new task in the queue, or the worker that polls inline),
  or ends it as rejected; an approval that is not decided in time expires. The table of inline
  waiters and their futures belong to one process; they are part of \<open>world\<close> because handlers
  that interleave share them. Spans and metrics are left out. \<open>ad_iso\<close> renders a time the way
  the dump of a model does. The polling loop is bounded by \<open>d_rounds\<close>.
\<close>

record approval_deps = deps +
  ad_queue :: bool
  ad_ttl :: int
  ad_iso :: "time \<Rightarrow> string"

definition finallyP :: "('s, 'e, 'a) prog \<Rightarrow> ('s, 'e, unit) prog \<Rightarrow> ('s, 'e, 'a) prog" where
  "finallyP m c = bindP (tryP m) (\<lambda>outcome.
     thenP c (case outcome of Inl e \<Rightarrow> raise e | Inr x \<Rightarrow> ret x))"

subsection \<open>Inline waiters\<close>

definition has_inline_waiter :: "string \<Rightarrow> world \<Rightarrow> bool" where
  "has_inline_waiter aid w \<longleftrightarrow> dict_has (w_inline_waiters w) aid"

definition register_inline_waiter :: "string \<Rightarrow> string \<Rightarrow> unit handler" where
  "register_inline_waiter tenant_id aid = modifyP (\<lambda>w.
     if has_inline_waiter aid w then w
     else w\<lparr>w_inline_waiters := dict_set aid (length (w_futures w)) (w_inline_waiters w),
            w_inline_tenants := dict_set aid tenant_id (w_inline_tenants w),
            w_futures := dict_set (length (w_futures w)) None (w_futures w)\<rparr>)"

text \<open>\<open>future_result\<close> is None while the future is not done; a done future keeps its result.\<close>

definition future_result :: "nat \<Rightarrow> world \<Rightarrow> approval_status option" where
  "future_result f w = (case dict_get (w_futures w) f of None \<Rightarrow> None | Some r \<Rightarrow> r)"

definition resolve_waiter :: "string \<Rightarrow> approval_status \<Rightarrow> unit handler" where
  "resolve_waiter aid status = modifyP (\<lambda>w.
     case dict_get (w_inline_waiters w) aid of
       None \<Rightarrow> w
     | Some f \<Rightarrow> if future_result f w = None
                then w\<lparr>w_futures := dict_set f (Some status) (w_futures w)\<rparr> else w)"

definition drop_waiter :: "string \<Rightarrow> unit handler" where
  "drop_waiter aid = modifyP (\<lambda>w. w\<lparr>w_inline_waiters := dict_pop aid (w_inline_waiters w),
     w_inline_tenants := dict_pop aid (w_inline_tenants w)\<rparr>)"

subsection \<open>Moving the run\<close>

definition move_run :: "('x) deps_scheme \<Rightarrow> run \<Rightarrow> run_status \<Rightarrow> run handler" where
  "move_run d r status =
     bindP (advance d r status) (\<lambda>updated.
     bindP (await d (runs_compare_and_set (run_status r) updated)) (\<lambda>won.
       if \<not> won then raise (ConflictError (''run changed during approval: '' @ run_id r))
       else
         thenP (event_service_append d (run_tenant_id r) (run_id r) (run_session_id r)
                  (''run.'' @ run_status_value status) [])
           (ret updated)))"

definition ensure_inline_run_resumed :: "('x) deps_scheme \<Rightarrow> approval_request \<Rightarrow> unit handler" where
  "ensure_inline_run_resumed d a =
     bindP (await d (runs_get (approval_tenant_id a) (approval_run_id a))) (\<lambda>r.
       if run_status r \<noteq> RunWaitingApproval then ret ()
       else catchP (thenP (move_run d r RunRunning) (ret ())) (\<lambda>e.
         if \<not> is_conflict_error e then raise e
         else bindP (await d (runs_get (approval_tenant_id a) (approval_run_id a))) (\<lambda>refreshed.
           if run_status refreshed = RunWaitingApproval then raise e else ret ())))"

definition enqueue_resumed_run :: "approval_deps \<Rightarrow> approval_request \<Rightarrow> unit handler" where
  "enqueue_resumed_run d a =
     whenP (ad_queue d)
       (bindP (await d (runs_get (approval_tenant_id a) (approval_run_id a))) (\<lambda>r.
         await d (queue_enqueue_task \<lparr>task_tenant_id = approval_tenant_id a,
           task_run_id = approval_run_id a, task_session_id = Some (run_session_id r)\<rparr>)))"

subsection \<open>Ending an approval\<close>

definition tool_error_payload :: "approval_request \<Rightarrow> string \<Rightarrow> string \<Rightarrow> json_obj" where
  "tool_error_payload a code message =
     [(''tool_call_id'', JStr (approval_tool_call_id a)), (''is_error'', JBool True),
      (''error'', JObj [(''code'', JStr code), (''message'', JStr message)])]"

definition cancel_pending_approval ::
  "('x) deps_scheme \<Rightarrow> approval_request \<Rightarrow> run \<Rightarrow> string \<Rightarrow> approval_request handler" where
  "cancel_pending_approval d current r reason =
     (let cancelled = current\<lparr>approval_status := ApprovalCancelled\<rparr> in
      bindP (await d (approvals_compare_and_set ApprovalPending cancelled)) (\<lambda>changed.
        if \<not> changed
        then await d (approvals_get (approval_tenant_id current) (approval_id current))
        else
          thenP (event_service_append d (approval_tenant_id current) (run_id r)
                   (run_session_id r) ''approval.cancelled''
                   [(''approval_id'', JStr (approval_id current)), (''reason'', JStr reason)])
          (thenP (resolve_waiter (approval_id current) ApprovalCancelled)
            (ret cancelled))))"

definition cancel_pending ::
  "('x) deps_scheme \<Rightarrow> string \<Rightarrow> string \<Rightarrow> string \<Rightarrow> approval_request handler" where
  "cancel_pending d tenant_id aid reason =
     bindP (await d (approvals_get tenant_id aid)) (\<lambda>current.
       if approval_status current \<noteq> ApprovalPending then ret current
       else bindP (await d (runs_get tenant_id (approval_run_id current))) (\<lambda>r.
         cancel_pending_approval d current r reason))"

definition expire_rest :: "('x) deps_scheme \<Rightarrow> approval_request \<Rightarrow> run \<Rightarrow> unit handler" where
  "expire_rest d current r =
     bindP (readP (has_inline_waiter (approval_id current))) (\<lambda>has_local_waiter.
       if approval_inline current \<and> has_local_waiter
       then ensure_inline_run_resumed d (current\<lparr>approval_status := ApprovalExpired\<rparr>)
       else whenP (\<not> is_terminal (run_status r) \<and> run_status r \<noteq> RunCancelling)
         (thenP (event_service_append d (approval_tenant_id current) (run_id r)
                   (run_session_id r) ''tool.result''
                   (tool_error_payload current ''approval_expired'' ''tool approval expired''))
           (whenP (run_status r = RunWaitingApproval)
             (thenP (move_run d r RunRejected) (ret ())))))"

definition expire_approval :: "('x) deps_scheme \<Rightarrow> approval_request \<Rightarrow> approval_request handler" where
  "expire_approval d current =
     (let expired = current\<lparr>approval_status := ApprovalExpired\<rparr> in
      bindP (await d (approvals_compare_and_set ApprovalPending expired)) (\<lambda>changed.
        if \<not> changed
        then await d (approvals_get (approval_tenant_id current) (approval_id current))
        else
          bindP (await d (runs_get (approval_tenant_id current) (approval_run_id current))) (\<lambda>r.
          thenP (event_service_append d (approval_tenant_id current) (run_id r)
                   (run_session_id r) ''approval.expired''
                   [(''approval_id'', JStr (approval_id current))])
          (thenP (expire_rest d current r)
          (thenP (resolve_waiter (approval_id current) ApprovalExpired)
            (ret expired))))))"

text \<open>The clock is only read for an approval that is still pending.\<close>

definition reap_one_approval :: "('x) deps_scheme \<Rightarrow> int \<Rightarrow> approval_request \<Rightarrow> int handler" where
  "reap_one_approval d expired_count a =
     bindP (await d (approvals_get (approval_tenant_id a) (approval_id a))) (\<lambda>current.
       if approval_status current \<noteq> ApprovalPending then ret expired_count
       else bindP (clock d) (\<lambda>now.
         if now < approval_expires_at current then ret expired_count
         else bindP (expire_approval d current) (\<lambda>result.
           ret (if approval_status result = ApprovalExpired then expired_count + 1
                else expired_count))))"

definition approvals_reap_expired :: "('x) deps_scheme \<Rightarrow> int \<Rightarrow> int handler" where
  "approvals_reap_expired d max_items =
     (if max_items < 1 then raise (ValueError ''approval reaper limit must be positive'')
      else bindP (clock d) (\<lambda>now.
        bindP (await d (ask (\<lambda>w. Inr (approval_list_expired_pending (w_approvals w) now max_items))))
          (\<lambda>due. foldP (reap_one_approval d) 0 due)))"

subsection \<open>Waiting inline\<close>

fun wait_rounds ::
  "nat \<Rightarrow> ('x) deps_scheme \<Rightarrow> nat \<Rightarrow> string \<Rightarrow> string \<Rightarrow> approval_status handler" where
  "wait_rounds 0 d future tenant_id aid = raise NotReturned"
| "wait_rounds (Suc n) d future tenant_id aid =
     bindP (await d (approvals_get tenant_id aid)) (\<lambda>current.
       if approval_status current \<noteq> ApprovalPending
       then thenP (whenP (approval_inline current \<and> approval_status current = ApprovalApproved)
                     (ensure_inline_run_resumed d current))
              (ret (approval_status current))
       else bindP (await d (runs_get tenant_id (approval_run_id current))) (\<lambda>r.
         if run_status r \<in> {RunCancelling, RunCancelled}
         then bindP (cancel_pending_approval d current r ''run cancellation requested'')
                (\<lambda>cancelled. ret (approval_status cancelled))
         else bindP (clock d) (\<lambda>now.
           if approval_expires_at current \<le> now
           then bindP (expire_approval d current) (\<lambda>expired. ret (approval_status expired))
           else bindP (await d (readP (future_result future))) (\<lambda>completed.
             case completed of
               Some status \<Rightarrow> ret status
             | None \<Rightarrow> wait_rounds n d future tenant_id aid))))"

definition wait_for_decision :: "('x) deps_scheme \<Rightarrow> string \<Rightarrow> approval_status handler" where
  "wait_for_decision d aid =
     bindP (readP (\<lambda>w. (dict_get (w_inline_waiters w) aid, dict_get (w_inline_tenants w) aid)))
       (\<lambda>waiter.
       case waiter of
         (Some future, Some tenant_id) \<Rightarrow>
           finallyP (wait_rounds (d_rounds d) d future tenant_id aid) (drop_waiter aid)
       | _ \<Rightarrow> raise (ConflictError (''inline approval waiter is not registered: '' @ aid)))"

subsection \<open>Requesting\<close>

record approval_call =
  call_tool_call_id :: string
  call_reason :: string
  call_message_id :: "string option"
  call_inline :: bool
  call_tool_name :: "string option"
  call_argument_summary :: "json_obj option"
  call_sandbox_provider :: "string option"
  call_sandbox_isolation :: "string option"
  call_policy_rule :: "string option"
  call_risk :: "string option"

definition json_opt :: "string option \<Rightarrow> json" where
  "json_opt v = (case v of None \<Rightarrow> JNull | Some s \<Rightarrow> JStr s)"

definition approval_dump :: "(time \<Rightarrow> string) \<Rightarrow> approval_request \<Rightarrow> json_obj" where
  "approval_dump show_time a =
     [(''approval_id'', JStr (approval_id a)), (''run_id'', JStr (approval_run_id a)),
      (''tenant_id'', JStr (approval_tenant_id a)),
      (''tool_call_id'', JStr (approval_tool_call_id a)),
      (''status'', JStr (approval_status_value (approval_status a))),
      (''reason'', JStr (approval_reason a)),
      (''expires_at'', JStr (show_time (approval_expires_at a))),
      (''created_at'', JStr (show_time (approval_created_at a))),
      (''inline'', JBool (approval_inline a)), (''tool_name'', json_opt (approval_tool_name a)),
      (''argument_summary'', JObj (approval_argument_summary a)),
      (''sandbox_provider'', json_opt (approval_sandbox_provider a)),
      (''sandbox_isolation'', json_opt (approval_sandbox_isolation a)),
      (''policy_rule'', json_opt (approval_policy_rule a)), (''risk'', json_opt (approval_risk a))]"

definition new_approval ::
  "approval_deps \<Rightarrow> string \<Rightarrow> string \<Rightarrow> approval_call \<Rightarrow> string \<Rightarrow> time \<Rightarrow> approval_request" where
  "new_approval d tenant_id rid c aid now =
     \<lparr>approval_id = aid, approval_run_id = rid, approval_tenant_id = tenant_id,
      approval_tool_call_id = call_tool_call_id c, approval_status = ApprovalPending,
      approval_reason = call_reason c, approval_expires_at = now + ad_ttl d,
      approval_created_at = now, approval_inline = call_inline c,
      approval_tool_name = call_tool_name c,
      approval_argument_summary = (case call_argument_summary c of None \<Rightarrow> [] | Some a \<Rightarrow> a),
      approval_sandbox_provider = call_sandbox_provider c,
      approval_sandbox_isolation = call_sandbox_isolation c,
      approval_policy_rule = call_policy_rule c, approval_risk = call_risk c\<rparr>"

definition requested_payload :: "approval_deps \<Rightarrow> approval_call \<Rightarrow> approval_request \<Rightarrow> json_obj" where
  "requested_payload d c a =
     (case call_message_id c of
        None \<Rightarrow> approval_dump (ad_iso d) a
      | Some m \<Rightarrow> dict_set ''message_id'' (JStr m) (approval_dump (ad_iso d) a))"

definition approvals_request ::
  "approval_deps \<Rightarrow> string \<Rightarrow> string \<Rightarrow> approval_call \<Rightarrow> approval_request handler" where
  "approvals_request d tenant_id rid c =
     bindP (await d (ask (\<lambda>w. approval_find_by_tool_call (w_approvals w) tenant_id rid
              (call_tool_call_id c)))) (\<lambda>found.
     case found of
       Some existing \<Rightarrow>
         thenP (whenP (call_inline c \<and> approval_status existing = ApprovalPending)
                  (register_inline_waiter tenant_id (approval_id existing)))
           (ret existing)
     | None \<Rightarrow>
         bindP (await d (runs_get tenant_id rid)) (\<lambda>r.
           if run_status r \<noteq> RunRunning
           then raise (ConflictError ''approval can only pause a running Run'')
           else bindP (clock d) (\<lambda>now.
             bindP (id_generator d ''approval'') (\<lambda>aid.
             let a = new_approval d tenant_id rid c aid now in
             thenP (whenP (call_inline c) (register_inline_waiter tenant_id (approval_id a)))
             (thenP (await d (approvals_add a))
             (thenP (event_service_append d tenant_id rid (run_session_id r)
                       ''approval.requested'' (requested_payload d c a))
             (thenP (move_run d r RunWaitingApproval)
               (ret a))))))))"

subsection \<open>Deciding\<close>

definition decided_approved ::
  "approval_deps \<Rightarrow> approval_request \<Rightarrow> run \<Rightarrow> approval_request \<Rightarrow> unit handler" where
  "decided_approved d current r updated =
     thenP (move_run d r RunRunning)
       (whenP (\<not> approval_inline current) (enqueue_resumed_run d updated))"

definition decided_rejected ::
  "approval_deps \<Rightarrow> string \<Rightarrow> approval_request \<Rightarrow> run \<Rightarrow> unit handler" where
  "decided_rejected d tenant_id current r =
     thenP (whenP (\<not> approval_inline current)
              (thenP (event_service_append d tenant_id (run_id r) (run_session_id r)
                        ''tool.result''
                        (tool_error_payload current ''approval_rejected'' ''tool use rejected''))
                (ret ())))
       (thenP (move_run d r RunRejected) (ret ()))"

definition decide_again ::
  "approval_deps \<Rightarrow> approval_status \<Rightarrow> approval_request \<Rightarrow> approval_request handler" where
  "decide_again d decision current =
     thenP (whenP (approval_inline current \<and> decision = ApprovalApproved)
              (ensure_inline_run_resumed d current))
     (thenP (whenP (decision = ApprovalApproved \<and> \<not> approval_inline current)
              (enqueue_resumed_run d current))
       (ret current))"

definition apply_decision ::
  "approval_deps \<Rightarrow> string \<Rightarrow> string \<Rightarrow> approval_status \<Rightarrow> approval_request \<Rightarrow>
   approval_request handler" where
  "apply_decision d tenant_id aid decision current =
     (let updated = current\<lparr>approval_status := decision\<rparr> in
      bindP (await d (approvals_compare_and_set ApprovalPending updated)) (\<lambda>won.
        if \<not> won then raise (ConflictError ''approval changed while decision was applied'')
        else
          bindP (await d (runs_get tenant_id (approval_run_id current))) (\<lambda>r.
          thenP (event_service_append d tenant_id (run_id r) (run_session_id r)
                   (''approval.'' @ approval_status_value decision)
                   [(''approval_id'', JStr aid)])
          (thenP (if decision = ApprovalApproved then decided_approved d current r updated
                  else decided_rejected d tenant_id current r)
          (thenP (resolve_waiter aid decision)
            (ret updated))))))"

definition approvals_decide ::
  "approval_deps \<Rightarrow> string \<Rightarrow> string \<Rightarrow> approval_status \<Rightarrow> approval_request handler" where
  "approvals_decide d tenant_id aid decision =
     (if decision \<notin> {ApprovalApproved, ApprovalRejected}
      then raise (ConflictError ''approval decision must be approved or rejected'')
      else bindP (await d (approvals_get tenant_id aid)) (\<lambda>current.
        if approval_status current = decision then decide_again d decision current
        else if approval_status current \<noteq> ApprovalPending
        then raise (ConflictError
               (''approval is already '' @ approval_status_value (approval_status current)))
        else bindP (clock d) (\<lambda>decided_at.
          if approval_expires_at current \<le> decided_at
          then thenP (expire_approval d current) (raise (ConflictError ''approval has expired''))
          else apply_decision d tenant_id aid decision current)))"

end
