(* ===== verification/Outcomes.thy ===== *)
theory Outcomes
  imports Approval_Service
begin

section \<open>What a handler that returns has established\<close>

text \<open>
  Rules for the approval ports, and \<open>returns d K m Q\<close>: whenever \<open>m\<close>, started in a sound state
  in which the facts \<open>K\<close> hold, returns \<open>x\<close> and leaves the state \<open>t\<close>, then \<open>Q x t\<close>, whatever
  the others did at its awaits. The rules follow the control flow like those of \<open>upholds\<close>.
\<close>

subsection \<open>Awaiting the approval store\<close>

lemma approvals_get_found:
  assumes r: "rely d" and w: "world_sound d w"
    and run: "await d (approvals_get tenant_id aid) w = (Inr x, t)"
  shows "approval_key x = (tenant_id, aid)" and "holds t (KnowsApproval x)" and "t = suspended d w"
proof -
  let ?s = "suspended d w"
  from run show t: "t = ?s" by (simp add: await_def approvals_get_def ask_def)
  from run have g: "dict_get (approvals_items (w_approvals ?s)) (tenant_id, aid) = Some x"
    by (auto simp: await_def approvals_get_def ask_def approval_get_def split: option.splits)
  have "approval_repo_inv (w_approvals ?s)"
    using suspended_sound [OF r w] by (simp add: world_sound_def)
  then show k: "approval_key x = (tenant_id, aid)" using g by (rule approval_repo_inv_item)
  from g t k show "holds t (KnowsApproval x)" by (simp add: approval_later_def)
qed

lemma runs_get_found:
  assumes r: "rely d" and w: "world_sound d w"
    and run: "await d (runs_get tenant_id rid) w = (Inr x, t)"
  shows "run_key x = (tenant_id, rid)" and "holds t (KnowsRun x)" and "t = suspended d w"
proof -
  let ?s = "suspended d w"
  from run show t: "t = ?s" by (simp add: await_def runs_get_def ask_def)
  from run have g: "dict_get (runs_items (w_runs ?s)) (tenant_id, rid) = Some x"
    by (auto simp: await_def runs_get_def ask_def run_get_def split: option.splits)
  have "run_repo_inv (w_runs ?s)" using suspended_sound [OF r w] by (simp add: world_sound_def)
  then show k: "run_key x = (tenant_id, rid)" using g by (rule run_repo_inv_key)
  from g t k show "holds t (KnowsRun x)" by (simp add: run_later_refl)
qed

lemma upholds_approvals_get: "upholds d K own (approvals_get tn aid)"
  unfolding approvals_get_def by (rule upholds_ask)

lemma upholds_bind_approvals_get:
  assumes r: "rely d" and f: "\<And>x. approval_key x = (tenant_id, aid) \<Longrightarrow>
      upholds d (insert (KnowsApproval x) K) own (f x)"
  shows "upholds d K own (bindP (await d (approvals_get tenant_id aid)) f)"
proof -
  let ?g = "await d (approvals_get tenant_id aid)"
  let ?f = "\<lambda>x. if approval_key x = (tenant_id, aid) then f x else ret undefined"
  have "upholds d K own (bindP ?g ?f)"
    using r by (rule upholds_bind_learn [where L = "\<lambda>x. {KnowsApproval x}"])
      (use approvals_get_found [OF r] f in \<open>auto intro!: upholds_await [OF r]
        upholds_approvals_get upholds_ret simp del: holds.simps\<close>)
  moreover have "bindP ?g ?f w = bindP ?g f w" if "world_sound d w" for w
    using approvals_get_found [OF r that] by (auto simp: bindP_apply split: prod.split sum.split)
  ultimately show ?thesis unfolding upholds_def by simp
qed

text \<open>The compare-and-set of every decision: from pending, with only the status changed.\<close>

lemma approvals_cas_step:
  assumes w: "world_sound d w" and K: "holds w (KnowsApproval a)" and s: "s \<noteq> ApprovalPending"
    and run: "approvals_compare_and_set ApprovalPending (a\<lparr>approval_status := s\<rparr>) w = (o1, t)"
  shows "sys_own d own w t"
    and "o1 = Inr True \<Longrightarrow> holds t (KnowsApproval (a\<lparr>approval_status := s\<rparr>))"
proof -
  let ?u = "a\<lparr>approval_status := s\<rparr>"
  have k: "approval_key ?u = approval_key a" by (simp add: approval_key_def)
  from K obtain c where c: "dict_get (approvals_items (w_approvals w)) (approval_key a) = Some c"
    "approval_later a c"
    by (auto split: option.splits)
  have both: "sys_own d own w t \<and> (o1 = Inr True \<longrightarrow> holds t (KnowsApproval ?u))"
  proof (cases "approval_cas ApprovalPending ?u (w_approvals w)")
    case (Inl e)
    with run show ?thesis by (auto simp: approvals_compare_and_set_def sys.R_refl)
  next
    case (Inr p)
    then obtain b as where p: "approval_cas ApprovalPending ?u (w_approvals w) = Inr (b, as)"
      by (cases p) simp
    with run have t: "t = w\<lparr>w_approvals := as\<rparr>" "o1 = Inr b"
      by (simp_all add: approvals_compare_and_set_def)
    have "approval_repo_inv as" if "world_sound d w"
      by (rule approval_repo_inv_cas [OF _ p c]) (use that in \<open>simp add: world_sound_def\<close>)
    then show ?thesis
      using sys_approvals [OF approval_history_cas(1) [OF p c s]] approval_history_cas(2) [OF p c s]
      by (auto simp: t k approval_later_def)
  qed
  from both show "sys_own d own w t" by blast
  from both show "o1 = Inr True \<Longrightarrow> holds t (KnowsApproval ?u)" by blast
qed

lemma approvals_cas_awaited:
  assumes r: "rely d" and known: "KnowsApproval a \<in> K" and s: "s \<noteq> ApprovalPending"
  shows "upholds d K own (await d (approvals_compare_and_set ApprovalPending
      (a\<lparr>approval_status := s\<rparr>)))"
  using r
proof (rule upholds_await)
  show "upholds d K own (approvals_compare_and_set ApprovalPending (a\<lparr>approval_status := s\<rparr>))"
    by (rule upholdsI) (blast intro: approvals_cas_step(1) [OF _ _ s] known)
qed

lemma approvals_cas_won:
  assumes r: "rely d" and w: "world_sound d w" and K: "holds w (KnowsApproval a)"
    and s: "s \<noteq> ApprovalPending"
    and run: "await d (approvals_compare_and_set ApprovalPending (a\<lparr>approval_status := s\<rparr>)) w =
      (Inr True, t)"
  shows "holds t (KnowsApproval (a\<lparr>approval_status := s\<rparr>))"
  using approvals_cas_step(2) [OF suspended_sound [OF r w]
    holds_stable [OF suspended_sys [OF r w] K] s] run
  by (simp add: await_def)

lemma upholds_bind_approvals_cas:
  assumes r: "rely d" and known: "KnowsApproval a \<in> K" and s: "s \<noteq> ApprovalPending"
    and f: "upholds d K own (f False)"
      "upholds d (insert (KnowsApproval (a\<lparr>approval_status := s\<rparr>)) K) own (f True)"
  shows "upholds d K own (bindP (await d (approvals_compare_and_set ApprovalPending
      (a\<lparr>approval_status := s\<rparr>))) f)"
proof (rule upholds_bind_learn [OF r,
    where L = "\<lambda>b. if b then {KnowsApproval (a\<lparr>approval_status := s\<rparr>)} else {}"])
  show "upholds d (K \<union> (if b then {KnowsApproval (a\<lparr>approval_status := s\<rparr>)} else {})) own (f b)"
    for b using f by (cases b) simp_all
qed (use approvals_cas_awaited [OF r known s] approvals_cas_won [OF r _ _ s] known
  in \<open>auto split: if_splits simp del: holds.simps\<close>)

lemma upholds_approvals_add: "upholds d K own (approvals_add a)"
proof (rule upholdsI)
  fix w o1 t
  assume w: "world_sound d w" and run: "approvals_add a w = (o1, t)"
  show "sys_own d own w t"
  proof (cases "approval_add a (w_approvals w)")
    case (Inl e)
    with run show ?thesis by (auto simp: approvals_add_def sys.R_refl)
  next
    case (Inr as)
    have "approval_repo_inv as" if "world_sound d w"
      by (rule approval_repo_inv_add [OF _ Inr]) (use that in \<open>simp add: world_sound_def\<close>)
    with Inr run show ?thesis
      using approval_history_add [OF Inr] by (auto simp: approvals_add_def intro: sys_approvals)
  qed
qed

subsection \<open>Every approval handler respects the protocol\<close>

lemma upholds_read: "upholds d K own (readP f)"
  by (rule upholdsI) (auto simp: sys.R_refl)

lemma upholds_waiters:
  "upholds d K own (register_inline_waiter tn aid)" "upholds d K own (resolve_waiter aid s)"
  "upholds d K own (drop_waiter aid)"
  unfolding register_inline_waiter_def resolve_waiter_def drop_waiter_def
  by (rule upholds_modify; auto split: option.split)+

lemma upholds_move_run:
  assumes r: "rely d" and known: "KnowsRun x \<in> K"
  shows "upholds d K {} (move_run d x s)"
  unfolding move_run_def
  using r known
  by (auto intro!: upholds_bind_advance upholds_bind_cas_next [where x = x] upholds_if
    upholds_raise upholds_then upholds_event_append upholds_ret)

lemma upholds_ensure_inline_run_resumed: "rely d \<Longrightarrow> upholds d K {} (ensure_inline_run_resumed d a)"
  unfolding ensure_inline_run_resumed_def
  by (rule upholds_bind_runs_get, assumption)
     (auto intro!: upholds_if upholds_ret upholds_catch upholds_then upholds_move_run upholds_raise
       upholds_bind_runs_get)

lemma upholds_enqueue_resumed_run: "rely d \<Longrightarrow> upholds d K {} (enqueue_resumed_run d a)"
  unfolding enqueue_resumed_run_def
  by (auto intro!: upholds_when upholds_bind_runs_get upholds_await upholds_enqueue)

lemma upholds_cancel_pending_approval:
  "rely d \<Longrightarrow> KnowsApproval a \<in> K \<Longrightarrow> upholds d K {} (cancel_pending_approval d a r reason)"
  unfolding cancel_pending_approval_def Let_def
  by (rule upholds_bind_approvals_cas)
     (auto intro!: upholds_await upholds_approvals_get upholds_then upholds_event_append
       upholds_waiters upholds_ret)

lemma upholds_cancel_pending: "rely d \<Longrightarrow> upholds d K {} (cancel_pending d tn aid reason)"
  unfolding cancel_pending_def
  by (auto intro!: upholds_bind_approvals_get upholds_if upholds_ret upholds_bind_runs_get
    upholds_cancel_pending_approval)

lemma upholds_expire_rest:
  "rely d \<Longrightarrow> KnowsRun r \<in> K \<Longrightarrow> upholds d K {} (expire_rest d a r)"
  unfolding expire_rest_def
  by (auto intro!: upholds_bind upholds_read upholds_if upholds_ensure_inline_run_resumed
    upholds_when upholds_then upholds_event_append upholds_move_run upholds_ret)

lemma upholds_expire_approval:
  "rely d \<Longrightarrow> KnowsApproval a \<in> K \<Longrightarrow> upholds d K {} (expire_approval d a)"
  unfolding expire_approval_def Let_def
  by (rule upholds_bind_approvals_cas)
     (auto intro!: upholds_await upholds_approvals_get upholds_bind_runs_get upholds_then
       upholds_event_append upholds_expire_rest upholds_waiters upholds_ret)

lemma upholds_reap_approvals: "rely d \<Longrightarrow> upholds d K {} (approvals_reap_expired d n)"
  unfolding approvals_reap_expired_def reap_one_approval_def
  by (auto intro!: upholds_if upholds_raise upholds_bind_clock upholds_ask_bind upholds_fold
    upholds_bind_approvals_get upholds_ret upholds_bind upholds_clock upholds_expire_approval)

lemma upholds_finally:
  "rely d \<Longrightarrow> upholds d K {} m \<Longrightarrow> upholds d K {} c \<Longrightarrow> upholds d K {} (finallyP m c)"
  unfolding finallyP_def
  by (auto intro!: upholds_bind upholds_try upholds_then upholds_sum upholds_raise upholds_ret)

lemma upholds_wait_rounds: "rely d \<Longrightarrow> upholds d K {} (wait_rounds n d f tn aid)"
  by (induction n arbitrary: K)
    (auto intro!: upholds_raise upholds_bind_approvals_get upholds_if upholds_then upholds_when
      upholds_ensure_inline_run_resumed upholds_ret upholds_bind_runs_get upholds_bind
      upholds_cancel_pending_approval upholds_bind_clock upholds_expire_approval upholds_await
      upholds_read upholds_option)

lemma upholds_wait_for_decision: "rely d \<Longrightarrow> upholds d K {} (wait_for_decision d aid)"
  unfolding wait_for_decision_def
  by (rule upholds_bind, assumption, rule upholds_read)
     (auto intro!: upholds_finally upholds_wait_rounds upholds_waiters upholds_raise
       split: prod.split option.split)

lemma upholds_approvals_request: "rely d \<Longrightarrow> upholds d K {} (approvals_request d tn rid c)"
  unfolding approvals_request_def Let_def
  by (auto intro!: upholds_ask_bind upholds_option upholds_then upholds_when upholds_waiters
    upholds_ret upholds_bind_runs_get upholds_if upholds_raise upholds_bind_clock upholds_plain_id
    upholds_await upholds_approvals_add upholds_event_append upholds_move_run)

lemma upholds_apply_decision:
  assumes r: "rely d" and known: "KnowsApproval a \<in> K" and s: "s \<noteq> ApprovalPending"
  shows "upholds d K {} (apply_decision d tn aid s a)"
  unfolding apply_decision_def Let_def decided_approved_def decided_rejected_def
  using r known s
  by (auto intro!: upholds_bind_approvals_cas upholds_if upholds_raise upholds_bind_runs_get
    upholds_then upholds_event_append upholds_move_run upholds_when upholds_enqueue_resumed_run
    upholds_ret upholds_waiters)

lemma upholds_approvals_decide: "rely d \<Longrightarrow> upholds d K {} (approvals_decide d tn aid s)"
  unfolding approvals_decide_def decide_again_def
  by (auto intro!: upholds_if upholds_raise upholds_bind_approvals_get upholds_then upholds_when
    upholds_ensure_inline_run_resumed upholds_enqueue_resumed_run upholds_ret upholds_bind_clock
    upholds_expire_approval upholds_apply_decision)

subsection \<open>Outcomes\<close>

definition returns ::
  "('x) deps_scheme \<Rightarrow> fact set \<Rightarrow> 'a handler \<Rightarrow> ('a \<Rightarrow> world \<Rightarrow> bool) \<Rightarrow> bool" where
  "returns d K m Q \<longleftrightarrow>
     (\<forall>w x t. world_sound d w \<longrightarrow> (\<forall>f \<in> K. holds w f) \<longrightarrow> m w = (Inr x, t) \<longrightarrow> Q x t)"

lemma returnsI:
  assumes "\<And>w x t. world_sound d w \<Longrightarrow> (\<And>f. f \<in> K \<Longrightarrow> holds w f) \<Longrightarrow> m w = (Inr x, t) \<Longrightarrow> Q x t"
  shows "returns d K m Q"
  unfolding returns_def using assms by blast

lemma returnsD:
  "returns d K m Q \<Longrightarrow> world_sound d w \<Longrightarrow> (\<And>f. f \<in> K \<Longrightarrow> holds w f) \<Longrightarrow> m w = (Inr x, t) \<Longrightarrow> Q x t"
  unfolding returns_def by blast

definition is_error :: "'e + 'a \<Rightarrow> bool" where
  "is_error r = (case r of Inl _ \<Rightarrow> True | Inr _ \<Rightarrow> False)"

lemma is_error_simps [simp]: "is_error (Inl e)" "\<not> is_error (Inr x)"
  by (simp_all add: is_error_def)

lemma returns_weaken: "returns d K m P \<Longrightarrow> (\<And>x t. P x t \<Longrightarrow> Q x t) \<Longrightarrow> returns d K m Q"
  unfolding returns_def by blast

lemma returns_ret:
  "(\<And>w. world_sound d w \<Longrightarrow> (\<And>f. f \<in> K \<Longrightarrow> holds w f) \<Longrightarrow> Q x w) \<Longrightarrow> returns d K (ret x) Q"
  by (rule returnsI) auto

lemma returns_raise: "returns d K (raise e) Q"
  by (rule returnsI) simp

lemma returns_if:
  "(b \<Longrightarrow> returns d K m Q) \<Longrightarrow> (\<not> b \<Longrightarrow> returns d K n Q) \<Longrightarrow> returns d K (if b then m else n) Q"
  by simp

lemma returns_bind_learn:
  assumes r: "rely d" and m: "upholds d K {} m"
    and learn: "\<And>w x t. world_sound d w \<Longrightarrow> (\<And>f. f \<in> K \<Longrightarrow> holds w f) \<Longrightarrow> m w = (Inr x, t) \<Longrightarrow>
      P x \<and> (\<forall>f \<in> L x. holds t f)"
    and f: "\<And>x. P x \<Longrightarrow> returns d (K \<union> L x) (f x) Q"
  shows "returns d K (bindP m f) Q"
proof (rule returnsI)
  fix w y u
  assume w: "world_sound d w" and K: "\<And>f. f \<in> K \<Longrightarrow> holds w f" and run: "bindP m f w = (Inr y, u)"
  from run obtain x t where mt: "m w = (Inr x, t)" and fx: "f x t = (Inr y, u)"
    by (rule bindP_InrE)
  have wt: "sys d w t" by (rule upholdsD [OF m w _ _ mt]) (simp_all add: K)
  note new = learn [OF w K mt]
  show "Q y u"
  proof (rule returnsD [OF f [of x] _ _ fx])
    show "P x" using new by blast
    show "world_sound d t" using wt w by (rule sys_ownD)
    show "g \<in> K \<union> L x \<Longrightarrow> holds t g" for g using new holds_stable [OF wt] K by blast
  qed
qed

lemma returns_bind:
  assumes "rely d" and "upholds d K {} m" and "\<And>x. returns d K (f x) Q"
  shows "returns d K (bindP m f) Q"
  using assms by (intro returns_bind_learn [where L = "\<lambda>_. {}" and P = "\<lambda>_. True"]) simp_all

lemma returns_then:
  "rely d \<Longrightarrow> upholds d K {} m \<Longrightarrow> returns d K n Q \<Longrightarrow> returns d K (thenP m n) Q"
  unfolding thenP_def by (rule returns_bind)

lemma returns_bind_clock:
  "rely d \<Longrightarrow> (\<And>x. returns d K (f x) Q) \<Longrightarrow> returns d K (bindP (clock d) f) Q"
  by (rule returns_bind) (auto intro: upholds_clock)

lemma returns_bind_runs_get:
  assumes r: "rely d" and f: "\<And>x. run_key x = (tn, rid) \<Longrightarrow>
      returns d (insert (KnowsRun x) K) (f x) Q"
  shows "returns d K (bindP (await d (runs_get tn rid)) f) Q"
  using r
  by (rule returns_bind_learn [where P = "\<lambda>x. run_key x = (tn, rid)" and L = "\<lambda>x. {KnowsRun x}"])
    (use f runs_get_found [OF r] in \<open>auto intro!: upholds_await r upholds_ask simp: runs_get_def
      simp del: holds.simps\<close>)

lemma returns_bind_approvals_get:
  assumes r: "rely d" and f: "\<And>x. approval_key x = (tn, aid) \<Longrightarrow>
      returns d (insert (KnowsApproval x) K) (f x) Q"
  shows "returns d K (bindP (await d (approvals_get tn aid)) f) Q"
  using r
  by (rule returns_bind_learn [where P = "\<lambda>x. approval_key x = (tn, aid)"
        and L = "\<lambda>x. {KnowsApproval x}"])
    (use f approvals_get_found [OF r] in \<open>auto intro!: upholds_await r upholds_approvals_get
      simp del: holds.simps\<close>)

lemma returns_bind_approvals_cas:
  assumes r: "rely d" and known: "KnowsApproval a \<in> K" and s: "s \<noteq> ApprovalPending"
    and f: "returns d K (f False) Q"
      "returns d (insert (KnowsApproval (a\<lparr>approval_status := s\<rparr>)) K) (f True) Q"
  shows "returns d K (bindP (await d (approvals_compare_and_set ApprovalPending
      (a\<lparr>approval_status := s\<rparr>))) f) Q"
proof (rule returns_bind_learn [OF r, where P = "\<lambda>_. True"
    and L = "\<lambda>b. if b then {KnowsApproval (a\<lparr>approval_status := s\<rparr>)} else {}"])
  show "returns d (K \<union> (if b then {KnowsApproval (a\<lparr>approval_status := s\<rparr>)} else {})) (f b) Q"
    for b using f by (cases b) simp_all
qed (use approvals_cas_awaited [OF r known s] approvals_cas_won [OF r _ _ s] known
  in \<open>auto split: if_splits simp del: holds.simps\<close>)

lemma runs_cas_won:
  assumes r: "rely d" and w: "world_sound d w"
    and run: "await d (runs_compare_and_set st u) w = (Inr True, t)"
  shows "holds t (KnowsRun u)"
  using run
  by (auto simp: await_def runs_compare_and_set_def run_later_refl split: sum.splits prod.splits
    elim!: run_cas_cases)

lemma runs_cas_awaited:
  assumes r: "rely d" and known: "KnowsRun x \<in> K" and u: "next_version x u"
  shows "upholds d K {} (await d (runs_compare_and_set (run_status x) u))"
proof -
  have "upholds d K {} (bindP (await d (runs_compare_and_set (run_status x) u)) ret)"
    using r known u by (rule upholds_bind_cas_next) (auto intro: upholds_ret)
  moreover have "bindP m ret = m" for m :: "bool handler"
    by (auto simp: fun_eq_iff bindP_apply split: prod.split sum.split)
  ultimately show ?thesis by simp
qed

lemma returns_bind_cas_next:
  assumes r: "rely d" and known: "KnowsRun x \<in> K" and u: "next_version x u"
    and st: "st = run_status x"
    and f: "returns d K (f False) Q" "returns d (insert (KnowsRun u) K) (f True) Q"
  shows "returns d K (bindP (await d (runs_compare_and_set st u)) f) Q"
proof (rule returns_bind_learn [OF r, where P = "\<lambda>_. True"
    and L = "\<lambda>b. if b then {KnowsRun u} else {}"])
  show "returns d (K \<union> (if b then {KnowsRun u} else {})) (f b) Q" for b
    using f by (cases b) simp_all
qed (use runs_cas_awaited [OF r known u] runs_cas_won [OF r] st
  in \<open>auto split: if_splits simp del: holds.simps\<close>)

lemma returns_bind_advance:
  assumes r: "rely d" and f: "\<And>u. next_version x u \<Longrightarrow> run_status u = target \<Longrightarrow>
      returns d K (f u) Q"
  shows "returns d K (bindP (advance d x target) f) Q"
proof (cases "transition (run_status x) target")
  case (Inl e)
  then have "bindP (advance d x target) f = raise e"
    by (simp add: advance_def ask_def bindP_apply fun_eq_iff)
  then show ?thesis by (simp add: returns_raise)
next
  case (Inr s)
  let ?u = "\<lambda>now. x\<lparr>run_status := s, run_updated_at := now,
      run_fencing_token := run_fencing_token x + 1\<rparr>"
  have "bindP (advance d x target) f = bindP (clock d) (\<lambda>now. f (?u now))"
    by (simp add: advance_def ask_def bindP_apply clock_def fun_eq_iff Inr)
  moreover have "next_version x (?u now)" "run_status (?u now) = target" for now
    using transition_edge [OF Inr] by (simp_all add: next_version_def run_same_def)
  ultimately show ?thesis using f r by (auto intro: returns_bind_clock)
qed

text \<open>An approval that left the pending status is what the store holds from then on.\<close>

lemma holds_decided:
  assumes "holds t (KnowsApproval a)" and "approval_status a \<noteq> ApprovalPending"
  shows "dict_get (approvals_items (w_approvals t)) (approval_key a) = Some a"
  using assms by (auto simp: approval_later_def split: option.splits)

lemma run_later_cancelling:
  assumes "run_later x y" and "run_status x = RunCancelling"
  shows "is_terminal (run_status y) \<or> run_status y = RunCancelling"
proof -
  from assms obtain n where "(RunCancelling, run_status y) \<in> run_move ^^ n"
    unfolding run_later_def by metis
  then show ?thesis
  proof (cases n)
    case (Suc m)
    with \<open>(RunCancelling, run_status y) \<in> run_move ^^ n\<close> obtain s
      where "(RunCancelling, s) \<in> run_move" "(s, run_status y) \<in> run_move ^^ m"
      by (metis relpow_Suc_D2)
    then show ?thesis using relpow_from_terminal [of s "run_status y" m]
      by (auto simp: run_move_iff)
  qed simp
qed

lemma holds_terminal:
  assumes "holds t (KnowsRun r)" and "is_terminal (run_status r)"
  shows "dict_get (runs_items (w_runs t)) (run_key r) = Some r"
  using assms run_later_terminal by (fastforce split: option.splits)

subsection \<open>Concrete approval worlds\<close>

definition quiet_approval_deps :: approval_deps where
  "quiet_approval_deps = deps.extend quiet_deps
     \<lparr>ad_queue = True, ad_ttl = 900000000, ad_iso = (\<lambda>_. ''now'')\<rparr>"

text \<open>A world with one run, and with an approval of it when it waits for one.\<close>

definition sample_call :: approval_call where
  "sample_call = \<lparr>call_tool_call_id = ''c'', call_reason = ''why'',
     call_message_id = None, call_inline = False, call_tool_name = None,
     call_argument_summary = None, call_sandbox_provider = None, call_sandbox_isolation = None,
     call_policy_rule = None, call_risk = None\<rparr>"

definition sample_run :: "run_status \<Rightarrow> int \<Rightarrow> run" where
  "sample_run s n = \<lparr>run_id = ''r'', run_session_id = ''s'', run_tenant_id = ''t'', run_status = s,
     run_idempotency_key = ''k'', run_created_at = 0, run_updated_at = 0, run_fencing_token = n,
     run_error_code = None, run_input = [], run_trace_context = []\<rparr>"

definition sample_approval :: "bool \<Rightarrow> approval_request" where
  "sample_approval inline =
     (new_approval quiet_approval_deps ''t'' ''r'' sample_call ''a'' 0)\<lparr>approval_inline := inline\<rparr>"

definition running_world :: world where
  "running_world = world_empty\<lparr>
     w_runs := \<lparr>runs_items = [((''t'', ''r''), sample_run RunRunning 2)],
                runs_idempotency = [((''t'', ''s'', ''k''), ''r'')]\<rparr>\<rparr>"

definition waiting_world :: "bool \<Rightarrow> world" where
  "waiting_world inline = world_empty\<lparr>
     w_runs := \<lparr>runs_items = [((''t'', ''r''), sample_run RunWaitingApproval 3)],
                runs_idempotency = [((''t'', ''s'', ''k''), ''r'')]\<rparr>,
     w_approvals := \<lparr>approvals_items = [((''t'', ''a''), sample_approval inline)],
                     approvals_by_tool = [((''t'', ''r'', ''c''), ''a'')]\<rparr>\<rparr>"

lemma quiet_approval_deps_simps [simp]:
  "d_new_id quiet_approval_deps = d_new_id quiet_deps" "d_clock quiet_approval_deps = d_clock quiet_deps"
  "d_others quiet_approval_deps = (\<lambda>n w. w)" "d_rounds quiet_approval_deps = 3"
  "ad_queue quiet_approval_deps" "ad_ttl quiet_approval_deps = 900000000"
  by (simp_all add: quiet_approval_deps_def quiet_deps_def deps.defs)

lemma quiet_approval_ids: "ids_distinct quiet_approval_deps"
  by (rule quiet_ids) simp

lemma quiet_approval_alone: "alone quiet_approval_deps"
  by (simp add: alone_def)

lemma quiet_approval_rely: "rely quiet_approval_deps"
  by (rule alone_rely [OF quiet_approval_alone quiet_approval_ids])

lemma upholds_sound:
  assumes "upholds d {} {} m" and "world_sound d w"
  shows "world_sound d (snd (m w))"
proof -
  have "sys d w (snd (m w))" using assms unfolding upholds_def by blast
  then show ?thesis using assms(2) by (rule sys_ownD)
qed

lemma sample_run_born:
  "run_born (sample_run RunRunning 2)" "run_born (sample_run RunWaitingApproval 3)"
proof -
  have 1: "(RunQueued, RunProvisioning) \<in> run_move ^^ 1" by (simp add: run_move_iff)
  have 2: "(RunQueued, RunRunning) \<in> run_move ^^ Suc 1"
    by (rule relpow_Suc_I [OF 1]) (simp add: run_move_iff)
  have "(RunQueued, RunWaitingApproval) \<in> run_move ^^ Suc (Suc 1)"
    by (rule relpow_Suc_I [OF 2]) (simp add: run_move_iff)
  with 2 have "(RunQueued, RunRunning) \<in> run_move ^^ 2"
    "(RunQueued, RunWaitingApproval) \<in> run_move ^^ 3"
    by (simp_all add: numeral_eq_Suc)
  then show "run_born (sample_run RunRunning 2)" "run_born (sample_run RunWaitingApproval 3)"
    unfolding run_born_def sample_run_def
    by (auto intro: exI [of _ "2 :: nat"] exI [of _ "3 :: nat"])
qed

lemma sample_worlds_sound:
  "world_sound quiet_approval_deps running_world"
  "world_sound quiet_approval_deps (waiting_world inline)"
  using world_sound_empty [of quiet_approval_deps] sample_run_born
  by (auto simp: world_sound_def running_world_def waiting_world_def world_empty_def
    run_repo_inv_def approval_repo_inv_def run_key_def run_idem_key_def sample_run_def
    sample_approval_def new_approval_def approval_key_def approval_tool_key_def sample_call_def
    approval_repo_empty_def run_repo_empty_def
    split: if_splits)

text \<open>A rival that rejects the approval at one of the other service's awaits.\<close>

definition rival_decides :: "nat \<Rightarrow> nat \<Rightarrow> unit handler" where
  "rival_decides late n = whenP (n = late)
     (thenP (approvals_decide quiet_approval_deps ''t'' ''a'' ApprovalRejected)
       (ret ()))"

definition rival_approval_deps :: "nat \<Rightarrow> approval_deps" where
  "rival_approval_deps late = quiet_approval_deps\<lparr>d_others := (\<lambda>n w. snd (rival_decides late n w))\<rparr>"

lemma rival_approval_rely: "rely (rival_approval_deps late)"
proof (rule rely_handler [of _ "rival_decides late"])
  have "upholds quiet_approval_deps {} {} (rival_decides late n)" for n
    unfolding rival_decides_def using quiet_approval_rely
    by (auto intro!: upholds_when upholds_then upholds_approvals_decide upholds_ret)
  then show "upholds quiet_deps {} {} (rival_decides late n)" for n
    unfolding upholds_def using sys_cong [of quiet_approval_deps quiet_deps] by simp
qed (simp_all add: rival_approval_deps_def)

end
