(* ===== verification/Approval_Properties.thy ===== *)
theory Approval_Properties
  imports Run_Properties Outcomes
begin

section \<open>Approvals: outcomes under interference and alone\<close>

text \<open>
  First what a decision and a cancellation have established when they return, whatever else ran
  at their awaits; then the exact effect of requesting, deciding and expiring an approval when
  nothing else runs.
\<close>

subsection \<open>Under interference\<close>

lemma returns_apply_decision:
  assumes r: "rely d" and known: "KnowsApproval a \<in> K" and s: "s \<noteq> ApprovalPending"
  shows "returns d K (apply_decision d tn aid s a)
    (\<lambda>x t. x = a\<lparr>approval_status := s\<rparr> \<and> holds t (KnowsApproval x))"
  unfolding apply_decision_def Let_def decided_approved_def decided_rejected_def
  using r known s
  by (auto intro!: returns_bind_approvals_cas returns_raise returns_bind_runs_get
    returns_then returns_ret upholds_then upholds_event_append upholds_move_run upholds_when
    upholds_enqueue_resumed_run upholds_ret upholds_waiters simp del: holds.simps)

lemma returns_decide:
  assumes r: "rely d"
  shows "returns d {} (approvals_decide d tn aid s)
    (\<lambda>x t. approval_key x = (tn, aid) \<and> approval_status x = s \<and> s \<noteq> ApprovalPending \<and>
       holds t (KnowsApproval x))"
proof -
  have again: "returns d {KnowsApproval c} (decide_again d s c)
      (\<lambda>x t. x = c \<and> holds t (KnowsApproval c))" for c s
    unfolding decide_again_def using r
    by (auto intro!: returns_then returns_ret upholds_when upholds_ensure_inline_run_resumed
      upholds_enqueue_resumed_run simp del: holds.simps)
  show ?thesis
    unfolding approvals_decide_def
    using r
    by (auto intro!: returns_raise returns_bind_approvals_get returns_if returns_bind_clock
      returns_then upholds_expire_approval returns_weaken [OF again] returns_weaken [OF returns_apply_decision]
      simp: approval_key_def simp del: holds.simps)
qed

text \<open>
  C3. A decision is final, whatever runs beside it: if deciding an approval returns, the
  approval has the status asked for and is stored, it stays stored unchanged in every later
  state of the program, and any later decision on it that returns, returns the same approval
  (so it asked for the same status).
\<close>

theorem decide_is_final:
  assumes r: "rely d" and w: "world_sound d w"
    and run: "approvals_decide d tn aid s w = (Inr a, t)"
  shows "approval_status a = s \<and>
    (\<forall>u. sys d t u \<longrightarrow> dict_get (approvals_items (w_approvals u)) (tn, aid) = Some a) \<and>
    (\<forall>u s' b v. sys d t u \<longrightarrow> approvals_decide d tn aid s' u = (Inr b, v) \<longrightarrow> s' = s \<and> b = a)"
proof -
  have tw: "sys d w t"
    using upholds_approvals_decide [OF r, of "{}" tn aid s] w run
    unfolding upholds_def by (metis empty_iff snd_conv)
  have a: "approval_key a = (tn, aid)" "approval_status a = s" "s \<noteq> ApprovalPending"
    "holds t (KnowsApproval a)"
    using returnsD [OF returns_decide [OF r] w _ run] by auto
  have stays: "dict_get (approvals_items (w_approvals u)) (tn, aid) = Some a" if "sys d t u" for u
    using holds_decided [OF holds_stable [OF that a(4)]] a by simp
  moreover have "s' = s \<and> b = a"
    if tu: "sys d t u" and again: "approvals_decide d tn aid s' u = (Inr b, v)" for u s' b v
  proof -
    have u: "world_sound d u" using tu sys_ownD(5) [OF tw w] by (rule sys_ownD)
    have b: "approval_key b = (tn, aid)" "approval_status b = s'" "s' \<noteq> ApprovalPending"
      "holds v (KnowsApproval b)"
      using returnsD [OF returns_decide [OF r] u _ again] by auto
    have "sys d u v"
      using upholds_approvals_decide [OF r, of "{}" tn aid s'] u again
      unfolding upholds_def by (metis empty_iff snd_conv)
    with tu have "sys d t v" by (rule sys.R_trans)
    from stays [OF this] holds_decided [OF b(4)] a b show ?thesis by simp
  qed
  ultimately show ?thesis using a by blast
qed

lemma decide_is_final_witness:
  "\<exists>a t. approvals_decide (rival_approval_deps 2) ''t'' ''a'' ApprovalApproved
      (waiting_world False) = (Inr a, t) \<and> approval_status a = ApprovalApproved \<and>
    dict_get (approvals_items (w_approvals t)) (''t'', ''a'') = Some a"
proof -
  let ?run = "approvals_decide (rival_approval_deps 2) ''t'' ''a'' ApprovalApproved
    (waiting_world False)"
  have "\<not> is_error (fst ?run)" by code_simp
  then obtain a t where run: "?run = (Inr a, t)" by (cases ?run, cases "fst ?run") auto
  have "world_sound (rival_approval_deps 2) (waiting_world False)"
    using sample_worlds_sound(2) sys_cong(2) [of "rival_approval_deps 2" quiet_approval_deps]
    by (simp add: rival_approval_deps_def)
  from decide_is_final [OF rival_approval_rely this run] run show ?thesis
    by (blast intro: sys.R_refl)
qed

lemma returns_finish_cancel:
  assumes r: "rely d" and known: "KnowsRun x \<in> K" and st: "run_status x = RunCancelling"
  shows "returns d K (finish_cancel d tn rid x)
    (\<lambda>y t. (run_key y = (tn, rid) \<or> run_key y = run_key x) \<and> is_terminal (run_status y) \<and>
       holds t (KnowsRun y))"
  unfolding finish_cancel_def
  using r known st
  by (auto intro!: returns_bind_advance returns_bind_cas_next [where x = x] returns_bind_runs_get
    returns_if returns_ret returns_raise returns_then upholds_event_append
    upholds_release_admission simp: next_version_def run_same_keys simp del: holds.simps)

lemma returns_run_cancel:
  assumes r: "rely d"
  shows "returns d {} (run_cancel d tn rid)
    (\<lambda>y t. run_key y = (tn, rid) \<and> (is_terminal (run_status y) \<or> run_status y = RunCancelling) \<and>
       holds t (KnowsRun y))"
proof -
  have hand: "returns d K (hand_over d tn rid s x)
      (\<lambda>y t. run_key y = (tn, rid) \<and> (is_terminal (run_status y) \<or> run_status y = RunCancelling) \<and>
         holds t (KnowsRun y))"
    if "KnowsRun x \<in> K" "run_status x = RunCancelling" "run_key x = (tn, rid)" for K s x
    unfolding hand_over_def using that r
    by (auto intro!: returns_if returns_ret returns_weaken [OF returns_finish_cancel] simp del: holds.simps)
  show ?thesis
    unfolding run_cancel_def request_cancel_def
    using r
    by (auto intro!: returns_bind_runs_get returns_if returns_then upholds_release_admission
      returns_ret returns_bind_advance returns_bind_cas_next returns_raise hand
      upholds_event_append simp: next_version_def run_same_keys simp del: holds.simps)
qed

text \<open>
  C4. A cancellation that returns is effective, whatever runs beside it: the run it returns is
  cancelling or terminal, in every later state of the program the stored run is cancelling or
  terminal as well (nothing brings it back), and when the returned run is terminal it is the
  stored one for ever.
\<close>

theorem cancel_is_effective:
  assumes r: "rely d" and w: "world_sound d w"
    and run: "run_cancel d tn rid w = (Inr x, t)" and tu: "sys d t u"
  shows "\<exists>y. dict_get (runs_items (w_runs u)) (tn, rid) = Some y \<and> run_later x y \<and>
    (is_terminal (run_status y) \<or> run_status y = RunCancelling) \<and>
    (is_terminal (run_status x) \<longrightarrow> y = x)"
proof -
  have x: "run_key x = (tn, rid)" "is_terminal (run_status x) \<or> run_status x = RunCancelling"
    "holds t (KnowsRun x)"
    using returnsD [OF returns_run_cancel [OF r] w _ run] by auto
  from holds_stable [OF tu x(3)] x(1)
  obtain y where y: "dict_get (runs_items (w_runs u)) (tn, rid) = Some y" "run_later x y"
    by (auto split: option.splits)
  have "is_terminal (run_status y) \<or> run_status y = RunCancelling"
    using x(2) y(2) run_later_cancelling run_later_terminal by blast
  with y show ?thesis using run_later_terminal by blast
qed

lemma cancel_is_effective_witness:
  "\<exists>x t y. run_cancel quiet_run_deps ''t'' ''run'' queued_world = (Inr x, t) \<and>
    dict_get (runs_items (w_runs t)) (''t'', ''run'') = Some y \<and> run_later x y \<and>
    (is_terminal (run_status y) \<or> run_status y = RunCancelling)"
proof -
  let ?run = "run_cancel quiet_run_deps ''t'' ''run'' queued_world"
  have "\<not> is_error (fst ?run)" by code_simp
  then obtain x t where run: "?run = (Inr x, t)" by (cases ?run, cases "fst ?run") auto
  from cancel_is_effective [OF quiet_run_rely queued_world_sound run sys.R_refl] run show ?thesis
    by blast
qed

end
