(* ===== verification/Approval_Effects.thy ===== *)
theory Approval_Effects
  imports Approval_Properties
begin

section \<open>Approvals: the exact effect of each operation\<close>

text \<open>
  What requesting, deciding and expiring an approval leaves behind when nothing else runs:
  the stored approval, the stored run, the events added to the run's log, and the queue.
\<close>

subsection \<open>Single steps\<close>

lemma sound_counters [simp]:
  "world_sound d (w\<lparr>w_awaits := n\<rparr>) = world_sound d w"
  "world_sound d (w\<lparr>w_clock_reads := n\<rparr>) = world_sound d w"
  "world_sound d (w\<lparr>w_queue := q\<rparr>) = world_sound d w"
  "world_sound d (w\<lparr>w_futures := fs\<rparr>) = world_sound d w"
  by (simp_all add: world_sound_def)

lemma runs_get_alone:
  assumes "alone d" and "dict_get (runs_items (w_runs w)) (tn, rid) = Some r"
  shows "bindP (await d (runs_get tn rid)) f w = f r (w\<lparr>w_awaits := Suc (w_awaits w)\<rparr>)"
  using assms by (simp add: bindP_apply await_def alone_suspended runs_get_def ask_def run_get_def)

lemma approvals_get_alone:
  assumes "alone d" and "dict_get (approvals_items (w_approvals w)) (tn, aid) = Some a"
  shows "bindP (await d (approvals_get tn aid)) f w = f a (w\<lparr>w_awaits := Suc (w_awaits w)\<rparr>)"
  using assms
  by (simp add: bindP_apply await_def alone_suspended approvals_get_def ask_def approval_get_def)

lemma clock_step:
  "bindP (clock d) f w = f (d_clock d (w_clock_reads w)) (w\<lparr>w_clock_reads := Suc (w_clock_reads w)\<rparr>)"
  by (simp add: bindP_apply clock_def)

lemma then_step: "m w = (Inr x, t) \<Longrightarrow> thenP m n w = n t"
  by (simp add: thenP_apply)

definition set_approval :: "approval_request \<Rightarrow> world \<Rightarrow> world" where
  "set_approval a w = w\<lparr>w_approvals := (w_approvals w)\<lparr>approvals_items :=
     dict_set (approval_key a) a (approvals_items (w_approvals w))\<rparr>\<rparr>"

lemma set_approval_simps [simp]:
  "w_runs (set_approval a w) = w_runs w" "w_events (set_approval a w) = w_events w"
  "w_queue (set_approval a w) = w_queue w" "w_quota (set_approval a w) = w_quota w"
  "w_sessions (set_approval a w) = w_sessions w"
  "w_inline_waiters (set_approval a w) = w_inline_waiters w"
  "w_inline_tenants (set_approval a w) = w_inline_tenants w"
  "w_futures (set_approval a w) = w_futures w" "w_ids (set_approval a w) = w_ids w"
  "w_clock_reads (set_approval a w) = w_clock_reads w" "w_awaits (set_approval a w) = w_awaits w"
  "dict_get (approvals_items (w_approvals (set_approval a w))) k =
     (if k = approval_key a then Some a else dict_get (approvals_items (w_approvals w)) k)"
  by (simp_all add: set_approval_def)

lemma approvals_cas_alone:
  assumes d: "alone d" and w: "world_sound d w"
    and a: "dict_get (approvals_items (w_approvals w)) (approval_key a) = Some a"
      "approval_status a = ApprovalPending" and s: "s \<noteq> ApprovalPending"
  shows "bindP (await d (approvals_compare_and_set ApprovalPending (a\<lparr>approval_status := s\<rparr>))) f w =
      f True (set_approval (a\<lparr>approval_status := s\<rparr>) (w\<lparr>w_awaits := Suc (w_awaits w)\<rparr>))"
    and "world_sound d (set_approval (a\<lparr>approval_status := s\<rparr>) (w\<lparr>w_awaits := Suc (w_awaits w)\<rparr>))"
proof -
  let ?u = "a\<lparr>approval_status := s\<rparr>" and ?w = "w\<lparr>w_awaits := Suc (w_awaits w)\<rparr>"
  have k: "approval_key ?u = approval_key a" by (simp add: approval_key_def)
  have run: "approvals_compare_and_set ApprovalPending ?u ?w = (Inr True, set_approval ?u ?w)"
    using a by (simp add: approvals_compare_and_set_def approval_cas_def k set_approval_def)
  then show "bindP (await d (approvals_compare_and_set ApprovalPending ?u)) f w =
      f True (set_approval ?u ?w)"
    by (simp add: bindP_apply await_def alone_suspended [OF d])
  have "holds ?w (KnowsApproval a)" using a by (simp add: approval_later_def)
  then have "sys_own d {} ?w (set_approval ?u ?w)"
    using w run by (intro approvals_cas_step(1) [OF _ _ s]) simp_all
  then show "world_sound d (set_approval ?u ?w)" using w by (simp add: sys_ownD(5))
qed

definition moved :: "('x) deps_scheme \<Rightarrow> nat \<Rightarrow> run_status \<Rightarrow> run \<Rightarrow> run" where
  "moved d reads s r = r\<lparr>run_status := s, run_updated_at := d_clock d reads,
     run_fencing_token := run_fencing_token r + 1\<rparr>"

lemma move_run_alone:
  assumes d: "alone d" "ids_distinct d" "0 < d_rounds d" and w: "world_sound d w"
    and r: "dict_get (runs_items (w_runs w)) (run_key r) = Some r"
    and edge: "s \<in> set (allowed_transitions (run_status r))"
  obtains e w' where "move_run d r s w = (Inr (moved d (w_clock_reads w) s r), w')"
    and "world_sound d w'" and "keeps_rest w w'"
    and "dict_get (runs_items (w_runs w')) (run_key r) = Some (moved d (w_clock_reads w) s r)"
    and "event_type e = ''run.'' @ run_status_value s"
    and "event_stream (w_events w') (run_key r) = event_stream (w_events w) (run_key r) @ [e]"
proof -
  let ?u = "moved d (w_clock_reads w) s r"
  obtain w1 where move: "\<And>f :: run \<Rightarrow> bool \<Rightarrow> run handler. bindP (advance d r s)
      (\<lambda>x. bindP (await d (runs_compare_and_set (run_status r) x)) (f x)) w = f ?u True w1"
    and w1: "world_sound d w1" "keeps_rest w w1" "w_clock_reads w1 = Suc (w_clock_reads w)"
      "w_events w1 = w_events w" "run_key ?u = run_key r"
      "dict_get (runs_items (w_runs w1)) (run_key ?u) = Some ?u"
    by (rule step_move [OF d(1) w r edge moved_def refl], rule that)
  obtain e w2 where app: "event_service_append d (run_tenant_id r) (run_id r) (run_session_id r)
      (''run.'' @ run_status_value s) [] w1 = (Inr e, w2)"
    and w2: "event_type e = ''run.'' @ run_status_value s" "world_sound d w2" "keeps_rest w1 w2"
      "w_runs w2 = w_runs w1"
      "\<And>k. event_stream (w_events w2) k = (if k = (run_tenant_id r, run_id r)
        then event_stream (w_events w1) k @ [e] else event_stream (w_events w1) k)"
    using step_append [OF d w1(1)] by metis
  have "move_run d r s w = (Inr ?u, w2)"
    unfolding move_run_def move using app by (simp add: thenP_apply)
  then show thesis
    by (rule that [of w2 e])
      (use w1 w2 keeps_rest_trans in \<open>auto simp: run_key_def\<close>)
qed

lemma append_step:
  assumes d: "alone d" "ids_distinct d" "0 < d_rounds d" and w: "world_sound d w"
  obtains e w' where "\<And>n. thenP (event_service_append d tn rid sid type payload) n w = n w'"
    and "event_type e = type" and "world_sound d w'" and "keeps_rest w w'" and "w_runs w' = w_runs w"
    and "event_stream (w_events w') (tn, rid) = event_stream (w_events w) (tn, rid) @ [e]"
proof -
  obtain e w' where "event_service_append d tn rid sid type payload w = (Inr e, w')"
    and "event_type e = type" "world_sound d w'" "keeps_rest w w'" "w_runs w' = w_runs w"
      "event_stream (w_events w') (tn, rid) = event_stream (w_events w) (tn, rid) @ [e]"
    using step_append [OF d w, of tn rid sid type payload] by metis
  then show thesis by (intro that [of w' e]) (simp_all add: then_step)
qed

text \<open>Waking a waiter changes futures only.\<close>

lemma resolve_waiter_run:
  "\<exists>fs. resolve_waiter aid s w = (Inr (), w\<lparr>w_futures := fs\<rparr>)"
proof (cases "dict_get (w_inline_waiters w) aid")
  case None
  then show ?thesis by (intro exI [of _ "w_futures w"]) (simp add: resolve_waiter_def)
next
  case (Some f)
  then show ?thesis
    by (cases "future_result f w = None")
       (auto simp: resolve_waiter_def intro: exI [of _ "w_futures w"])
qed

lemma run_of_approval:
  assumes w: "world_sound d w"
    and a: "dict_get (approvals_items (w_approvals w)) (tn, aid) = Some a"
    and r: "dict_get (runs_items (w_runs w)) (tn, rid) = Some r"
  shows "approval_key a = (tn, aid)" "approval_tenant_id a = tn" "approval_id a = aid"
    "run_key r = (tn, rid)" "run_tenant_id r = tn" "run_id r = rid"
proof -
  show "approval_key a = (tn, aid)"
    using w a by (intro approval_repo_inv_item(1) [of "w_approvals w"]) (simp_all add: world_sound_def)
  then show "approval_tenant_id a = tn" "approval_id a = aid" by (simp_all add: approval_key_def)
  show "run_key r = (tn, rid)"
    using w r by (intro run_repo_inv_key [of "w_runs w"]) (simp_all add: world_sound_def)
  then show "run_tenant_id r = tn" "run_id r = rid" by (simp_all add: run_key_def)
qed

lemma waiting_world_holds:
  "dict_get (approvals_items (w_approvals (waiting_world False))) (''t'', ''a'') =
    Some (sample_approval False)"
  "dict_get (runs_items (w_runs (waiting_world False)))
    (''t'', approval_run_id (sample_approval False)) = Some (sample_run RunWaitingApproval 3)"
  "approval_status (sample_approval False) = ApprovalPending"
  "\<not> approval_inline (sample_approval False)"
  "run_status (sample_run RunWaitingApproval 3) = RunWaitingApproval"
  "d_clock quiet_approval_deps (w_clock_reads (waiting_world False)) <
    approval_expires_at (sample_approval False)"
  by (simp_all add: waiting_world_def sample_approval_def new_approval_def sample_run_def
    world_empty_def quiet_deps_def)

subsection \<open>Deciding\<close>

lemma decide_starts:
  assumes d: "alone d" and a: "dict_get (approvals_items (w_approvals w)) (tn, aid) = Some a"
    "approval_status a = ApprovalPending" "d_clock d (w_clock_reads w) < approval_expires_at a"
    and s: "s = ApprovalApproved \<or> s = ApprovalRejected"
  shows "approvals_decide d tn aid s w = apply_decision d tn aid s a
    (w\<lparr>w_awaits := Suc (w_awaits w), w_clock_reads := Suc (w_clock_reads w)\<rparr>)"
  using s a by (auto simp: approvals_decide_def approvals_get_alone [OF d a(1)] clock_step)

lemma apply_decision_starts:
  assumes d: "alone d" "ids_distinct d" "0 < d_rounds d" and w: "world_sound d w"
    and a: "dict_get (approvals_items (w_approvals w)) (tn, aid) = Some a"
      "approval_status a = ApprovalPending" and s: "s \<noteq> ApprovalPending"
    and r: "dict_get (runs_items (w_runs w)) (tn, approval_run_id a) = Some r"
  obtains e w' where "apply_decision d tn aid s a w =
      thenP (if s = ApprovalApproved then decided_approved d a r (a\<lparr>approval_status := s\<rparr>)
             else decided_rejected d tn a r)
        (thenP (resolve_waiter aid s) (ret (a\<lparr>approval_status := s\<rparr>))) w'"
    and "event_type e = ''approval.'' @ approval_status_value s"
    and "world_sound d w'" and "w_runs w' = w_runs w" and "w_queue w' = w_queue w"
    and "w_quota w' = w_quota w"
    and "dict_get (approvals_items (w_approvals w')) (tn, aid) = Some (a\<lparr>approval_status := s\<rparr>)"
    and "event_stream (w_events w') (run_key r) = event_stream (w_events w) (run_key r) @ [e]"
proof -
  let ?u = "a\<lparr>approval_status := s\<rparr>"
  note k = run_of_approval [OF w a(1) r]
  let ?w1 = "set_approval ?u (w\<lparr>w_awaits := Suc (w_awaits w)\<rparr>)"
  note cas = approvals_cas_alone [OF d(1) w a(1) [folded k(1)] a(2) s]
  have ku: "approval_key ?u = (tn, aid)" using k(1) by (simp add: approval_key_def)
  have r1: "dict_get (runs_items (w_runs ?w1)) (tn, approval_run_id a) = Some r" using r by simp
  have sound: "world_sound d (?w1\<lparr>w_awaits := Suc (w_awaits ?w1)\<rparr>)"
    using cas(2) by (simp only: sound_counters)
  obtain e w2 where app: "\<And>n :: approval_request handler. thenP (event_service_append d tn
      (run_id r) (run_session_id r) (''approval.'' @ approval_status_value s)
      [(''approval_id'', JStr aid)]) n (?w1\<lparr>w_awaits := Suc (w_awaits ?w1)\<rparr>) = n w2"
    and e: "event_type e = ''approval.'' @ approval_status_value s"
    and w2: "world_sound d w2" "keeps_rest (?w1\<lparr>w_awaits := Suc (w_awaits ?w1)\<rparr>) w2"
      "w_runs w2 = w_runs (?w1\<lparr>w_awaits := Suc (w_awaits ?w1)\<rparr>)"
      "event_stream (w_events w2) (tn, run_id r) =
        event_stream (w_events (?w1\<lparr>w_awaits := Suc (w_awaits ?w1)\<rparr>)) (tn, run_id r) @ [e]"
    by (rule append_step [OF d sound], rule that)
  have "apply_decision d tn aid s a w =
      thenP (if s = ApprovalApproved then decided_approved d a r ?u else decided_rejected d tn a r)
        (thenP (resolve_waiter aid s) (ret ?u)) w2"
    unfolding apply_decision_def Let_def cas(1)
    by (simp only: not_True_eq_False if_False runs_get_alone [OF d(1) r1] app)
  with e w2 ku show thesis
    by (intro that [of w2 e]) (simp_all add: keeps_rest_def k)
qed

lemma enqueue_alone:
  assumes d: "alone d" and r: "dict_get (runs_items (w_runs w))
    (approval_tenant_id a, approval_run_id a) = Some r"
  obtains n q where "enqueue_resumed_run d a w = (Inr (), w\<lparr>w_awaits := n, w_queue := q\<rparr>)"
    and "q = (if ad_queue d then queue_enqueue \<lparr>task_tenant_id = approval_tenant_id a,
      task_run_id = approval_run_id a, task_session_id = Some (run_session_id r)\<rparr> (w_queue w)
      else w_queue w)"
proof (cases "ad_queue d")
  case True
  with r show thesis
    by (intro that [of _ "w_awaits w + 2"])
      (simp_all add: enqueue_resumed_run_def whenP_def runs_get_alone [OF d r] await_def
        alone_suspended [OF d] queue_enqueue_task_def)
next
  case False
  then show thesis
    by (intro that [of _ "w_awaits w"]) (simp_all add: enqueue_resumed_run_def whenP_def)
qed

text \<open>
  C28. Approving a pending approval in time, when no worker waits inline for it: the approval is
  stored approved, the waiting run is stored running with its token one higher, the log of the
  run gains \<^verbatim>\<open>approval.approved\<close> and \<^verbatim>\<open>run.running\<close> in this order, and a task for the run is put
  into the queue (where there is one).
\<close>

theorem approve_resumes_run:
  assumes d: "alone d" "ids_distinct d" "0 < d_rounds d" and w: "world_sound d w"
    and a: "dict_get (approvals_items (w_approvals w)) (tn, aid) = Some a"
      "approval_status a = ApprovalPending" "\<not> approval_inline a"
      "d_clock d (w_clock_reads w) < approval_expires_at a"
    and r: "dict_get (runs_items (w_runs w)) (tn, approval_run_id a) = Some r"
      "run_status r = RunWaitingApproval"
  shows "case approvals_decide d tn aid ApprovalApproved w of
      (Inl e, u) \<Rightarrow> False
    | (Inr x, u) \<Rightarrow>
        x = a\<lparr>approval_status := ApprovalApproved\<rparr> \<and>
        dict_get (approvals_items (w_approvals u)) (tn, aid) = Some x \<and>
        (\<exists>r'. dict_get (runs_items (w_runs u)) (run_key r) = Some r' \<and> run_same r r' \<and>
           run_status r' = RunRunning \<and> run_fencing_token r' = run_fencing_token r + 1) \<and>
        (\<exists>e1 e2. event_stream (w_events u) (run_key r) =
             event_stream (w_events w) (run_key r) @ [e1, e2] \<and>
           event_type e1 = ''approval.approved'' \<and> event_type e2 = ''run.running'') \<and>
        w_queue u = (if ad_queue d then queue_enqueue \<lparr>task_tenant_id = tn,
          task_run_id = approval_run_id a, task_session_id = Some (run_session_id r)\<rparr> (w_queue w)
          else w_queue w) \<and>
        w_quota u = w_quota w"
proof -
  let ?w = "w\<lparr>w_awaits := Suc (w_awaits w), w_clock_reads := Suc (w_clock_reads w)\<rparr>"
  let ?u = "a\<lparr>approval_status := ApprovalApproved\<rparr>"
  note k = run_of_approval [OF w a(1) r(1)]
  obtain e1 w1 where 1: "apply_decision d tn aid ApprovalApproved a ?w =
      thenP (decided_approved d a r ?u) (thenP (resolve_waiter aid ApprovalApproved) (ret ?u)) w1"
    and e1: "event_type e1 = ''approval.approved''"
    and w1: "world_sound d w1" "w_runs w1 = w_runs w" "w_queue w1 = w_queue w"
      "w_quota w1 = w_quota w"
      "dict_get (approvals_items (w_approvals w1)) (tn, aid) = Some ?u"
      "event_stream (w_events w1) (run_key r) = event_stream (w_events w) (run_key r) @ [e1]"
    by (rule apply_decision_starts [OF d, of ?w tn aid a ApprovalApproved r])
      (use w a r in \<open>auto intro: that\<close>)
  obtain e2 w2 where 2: "move_run d r RunRunning w1 =
      (Inr (moved d (w_clock_reads w1) RunRunning r), w2)"
    and w2: "keeps_rest w1 w2" "event_type e2 = ''run.running''"
      "dict_get (runs_items (w_runs w2)) (run_key r) =
        Some (moved d (w_clock_reads w1) RunRunning r)"
      "event_stream (w_events w2) (run_key r) = event_stream (w_events w1) (run_key r) @ [e2]"
    using r w1 k by (rule_tac move_run_alone [OF d w1(1), of r RunRunning]) auto
  have r2: "dict_get (runs_items (w_runs w2)) (approval_tenant_id ?u, approval_run_id ?u) =
      Some (moved d (w_clock_reads w1) RunRunning r)"
    using w2(3) k by simp
  obtain n q where 3: "enqueue_resumed_run d ?u w2 = (Inr (), w2\<lparr>w_awaits := n, w_queue := q\<rparr>)"
    and raw: "q = (if ad_queue d then queue_enqueue \<lparr>task_tenant_id = approval_tenant_id ?u,
        task_run_id = approval_run_id ?u,
        task_session_id = Some (run_session_id (moved d (w_clock_reads w1) RunRunning r))\<rparr>
        (w_queue w2) else w_queue w2)"
    by (rule enqueue_alone [OF d(1) r2], rule that)
  have q: "q = (if ad_queue d then queue_enqueue \<lparr>task_tenant_id = tn,
      task_run_id = approval_run_id a, task_session_id = Some (run_session_id r)\<rparr> (w_queue w)
      else w_queue w)"
    using raw w2(1) w1(3) k by (simp add: moved_def keeps_rest_def)
  obtain fs where 4: "resolve_waiter aid ApprovalApproved (w2\<lparr>w_awaits := n, w_queue := q\<rparr>) =
      (Inr (), w2\<lparr>w_awaits := n, w_queue := q\<rparr>\<lparr>w_futures := fs\<rparr>)"
    using resolve_waiter_run by blast
  have "approvals_decide d tn aid ApprovalApproved w =
      thenP (decided_approved d a r ?u) (thenP (resolve_waiter aid ApprovalApproved) (ret ?u)) w1"
    using decide_starts [OF d(1) a(1,2,4), of ApprovalApproved] 1 by simp
  then show ?thesis
    using 2 3 4 q a w1 w2 e1 k
    by (simp add: decided_approved_def whenP_def thenP_apply moved_def run_same_def keeps_rest_def)
qed

lemma approve_resumes_run_witness:
  "\<not> is_error (fst (approvals_decide quiet_approval_deps ''t'' ''a'' ApprovalApproved
      (waiting_world False)))"
  using approve_resumes_run [OF quiet_approval_alone quiet_approval_ids _ sample_worlds_sound(2)
      waiting_world_holds(1,3,4) _ waiting_world_holds(2,5)] waiting_world_holds(6)
  by (auto simp: is_error_def split: prod.splits sum.splits)

text \<open>The tail that rejects a waiting run: the tool result the model is given, and the move.\<close>

definition rejected_version :: "run \<Rightarrow> run \<Rightarrow> bool" where
  "rejected_version r r' \<longleftrightarrow> run_same r r' \<and> run_status r' = RunRejected \<and>
     run_fencing_token r' = run_fencing_token r + 1"

lemma reject_waiting_run:
  assumes d: "alone d" "ids_distinct d" "0 < d_rounds d" and w: "world_sound d w"
    and r: "dict_get (runs_items (w_runs w)) (tn, rid) = Some r"
      "run_status r = RunWaitingApproval"
  obtains e1 e2 r' w' where "thenP (event_service_append d tn rid
      (run_session_id r) ''tool.result'' payload) (thenP (move_run d r RunRejected) (ret ())) w =
      (Inr (), w')"
    and "keeps_rest w w'"
    and "dict_get (runs_items (w_runs w')) (tn, rid) = Some r'" and "rejected_version r r'"
    and "event_stream (w_events w') (tn, rid) = event_stream (w_events w) (tn, rid) @ [e1, e2]"
    and "event_type e1 = ''tool.result''" and "event_type e2 = ''run.rejected''"
proof -
  have key: "run_key r = (tn, rid)"
    using w r by (intro run_repo_inv_key [of "w_runs w"]) (simp_all add: world_sound_def)
  obtain e1 w1 where 1: "\<And>n :: unit handler. thenP (event_service_append d tn rid
      (run_session_id r) ''tool.result'' payload) n w = n w1"
    and w1: "event_type e1 = ''tool.result''" "world_sound d w1" "keeps_rest w w1"
      "w_runs w1 = w_runs w"
      "event_stream (w_events w1) (tn, rid) = event_stream (w_events w) (tn, rid) @ [e1]"
    by (rule append_step [OF d w], rule that)
  have r1: "dict_get (runs_items (w_runs w1)) (run_key r) = Some r" using r w1(4) key by simp
  have edge: "RunRejected \<in> set (allowed_transitions (run_status r))" by (simp add: r)
  obtain e2 w2 where 2: "move_run d r RunRejected w1 =
      (Inr (moved d (w_clock_reads w1) RunRejected r), w2)"
    and w2: "world_sound d w2" "keeps_rest w1 w2"
      "dict_get (runs_items (w_runs w2)) (run_key r) =
        Some (moved d (w_clock_reads w1) RunRejected r)"
      "event_type e2 = ''run.'' @ run_status_value RunRejected"
      "event_stream (w_events w2) (run_key r) = event_stream (w_events w1) (run_key r) @ [e2]"
    by (rule move_run_alone [OF d w1(2) r1 edge], rule that)
  show thesis
  proof (rule that [of w2 "moved d (w_clock_reads w1) RunRejected r" e1 e2])
    show "keeps_rest w w2" using w1(3) w2(2) by (rule keeps_rest_trans)
  qed (use 1 2 w1 w2 key in \<open>simp_all add: thenP_apply rejected_version_def moved_def run_same_def\<close>)
qed



subsection \<open>Expiring\<close>

text \<open>
  An approval that is not decided in time cannot be approved any more: the late decision is
  refused with a conflict, the approval is stored expired and the waiting run is stored rejected,
  with \<^verbatim>\<open>approval.expired\<close>, \<^verbatim>\<open>tool.result\<close> and \<^verbatim>\<open>run.rejected\<close> added to its log (when no worker
  of this process waits inline).
\<close>

theorem late_decision_expires:
  assumes d: "alone d" "ids_distinct d" "0 < d_rounds d" and w: "world_sound d w"
    and a: "dict_get (approvals_items (w_approvals w)) (tn, aid) = Some a"
      "approval_status a = ApprovalPending"
      "\<not> (approval_inline a \<and> has_inline_waiter aid w)"
      "approval_expires_at a \<le> d_clock d (w_clock_reads w)"
    and r: "dict_get (runs_items (w_runs w)) (tn, approval_run_id a) = Some r"
      "run_status r = RunWaitingApproval"
    and s: "s = ApprovalApproved \<or> s = ApprovalRejected"
  shows "case approvals_decide d tn aid s w of
      (Inr x, u) \<Rightarrow> False
    | (Inl e, u) \<Rightarrow>
        e = ConflictError ''approval has expired'' \<and>
        dict_get (approvals_items (w_approvals u)) (tn, aid) =
          Some (a\<lparr>approval_status := ApprovalExpired\<rparr>) \<and>
        (\<exists>r'. dict_get (runs_items (w_runs u)) (run_key r) = Some r' \<and> rejected_version r r') \<and>
        (\<exists>e1 e2 e3. event_stream (w_events u) (run_key r) =
             event_stream (w_events w) (run_key r) @ [e1, e2, e3] \<and>
           event_type e1 = ''approval.expired'' \<and> event_type e2 = ''tool.result'' \<and>
           event_type e3 = ''run.rejected'') \<and>
        w_queue u = w_queue w \<and> w_quota u = w_quota w"
proof -
  let ?w = "w\<lparr>w_awaits := Suc (w_awaits w), w_clock_reads := Suc (w_clock_reads w)\<rparr>"
  let ?u = "a\<lparr>approval_status := ApprovalExpired\<rparr>"
  note k = run_of_approval [OF w a(1) r(1)]
  let ?w1 = "set_approval ?u (?w\<lparr>w_awaits := Suc (w_awaits ?w)\<rparr>)"
  let ?w2 = "?w1\<lparr>w_awaits := Suc (w_awaits ?w1)\<rparr>"
  have a1: "dict_get (approvals_items (w_approvals ?w)) (approval_key a) = Some a"
    "world_sound d ?w" using a k w by simp_all
  have "ApprovalExpired \<noteq> ApprovalPending" by simp
  note cas = approvals_cas_alone [OF d(1) a1(2,1) a(2) this]
  have ku: "approval_key ?u = (tn, aid)" using k(1) by (simp add: approval_key_def)
  have r1: "dict_get (runs_items (w_runs ?w1)) (tn, approval_run_id a) = Some r" using r by simp
  have sound: "world_sound d ?w2" using cas(2) by simp
  obtain e1 w3 where 3: "\<And>n :: approval_request handler. thenP (event_service_append d tn
      (approval_run_id a) (run_session_id r) ''approval.expired''
      [(''approval_id'', JStr aid)]) n ?w2 = n w3"
    and w3: "event_type e1 = ''approval.expired''" "world_sound d w3" "keeps_rest ?w2 w3"
      "w_runs w3 = w_runs ?w2"
      "event_stream (w_events w3) (tn, approval_run_id a) =
        event_stream (w_events ?w2) (tn, approval_run_id a) @ [e1]"
    by (rule append_step [OF d sound], rule that)
  have r3: "dict_get (runs_items (w_runs w3)) (tn, approval_run_id a) = Some r"
    using r w3(4) by simp
  obtain e2 e3 r' w4 where 4: "thenP (event_service_append d tn (approval_run_id a)
      (run_session_id r) ''tool.result''
      (tool_error_payload a ''approval_expired'' ''tool approval expired''))
      (thenP (move_run d r RunRejected) (ret ())) w3 = (Inr (), w4)"
    and w4: "keeps_rest w3 w4" "dict_get (runs_items (w_runs w4)) (tn, approval_run_id a) = Some r'"
      "rejected_version r r'"
      "event_stream (w_events w4) (tn, approval_run_id a) =
        event_stream (w_events w3) (tn, approval_run_id a) @ [e2, e3]"
      "event_type e2 = ''tool.result''" "event_type e3 = ''run.rejected''"
    by (rule reject_waiting_run [OF d w3(2) r3 r(2)], rule that)
  obtain fs where 5: "resolve_waiter aid ApprovalExpired w4 = (Inr (), w4\<lparr>w_futures := fs\<rparr>)"
    using resolve_waiter_run by blast
  have rest: "expire_rest d a r w3 = (Inr (), w4)"
    using 4 a(3) w3(3) r(2) k
    by (auto simp: expire_rest_def bindP_apply whenP_def keeps_rest_def has_inline_waiter_def)
  have "expire_approval d a ?w = thenP (expire_rest d a r)
      (thenP (resolve_waiter aid ApprovalExpired) (ret ?u)) w3"
    unfolding expire_approval_def Let_def cas(1)
    by (simp only: not_True_eq_False if_False k runs_get_alone [OF d(1) r1] 3)
  then have "expire_approval d a ?w = (Inr ?u, w4\<lparr>w_futures := fs\<rparr>)"
    using rest 5 by (simp add: thenP_apply)
  then have "approvals_decide d tn aid s w =
      (Inl (ConflictError ''approval has expired''), w4\<lparr>w_futures := fs\<rparr>)"
    using s a by (auto simp: approvals_decide_def approvals_get_alone [OF d(1) a(1)] clock_step
      thenP_apply)
  then show ?thesis
    using w3 w4 ku k by (simp add: keeps_rest_def)
qed

lemma late_decision_expires_witness:
  "is_error (fst (approvals_decide quiet_approval_deps ''t'' ''a'' ApprovalApproved
      ((waiting_world False)\<lparr>w_clock_reads := 900\<rparr>)))"
proof -
  let ?w = "(waiting_world False)\<lparr>w_clock_reads := 900\<rparr>"
  have "approval_expires_at (sample_approval False) \<le> d_clock quiet_approval_deps (w_clock_reads ?w)"
    by (simp add: sample_approval_def new_approval_def quiet_deps_def)
  moreover have "world_sound quiet_approval_deps ?w" by (simp add: sample_worlds_sound)
  moreover have "dict_get (approvals_items (w_approvals ?w)) (''t'', ''a'') =
      Some (sample_approval False)"
    "dict_get (runs_items (w_runs ?w)) (''t'', approval_run_id (sample_approval False)) =
      Some (sample_run RunWaitingApproval 3)"
    using waiting_world_holds by simp_all
  ultimately show ?thesis
    using late_decision_expires [OF quiet_approval_alone quiet_approval_ids, of ?w "''t''" "''a''"
        "sample_approval False" "sample_run RunWaitingApproval 3" ApprovalApproved]
      waiting_world_holds
    by (auto simp: is_error_def split: prod.splits sum.splits)
qed

subsection \<open>Requesting\<close>

text \<open>
  Requesting an approval for a running run pauses it: if the tool call has no approval yet,
  the approval returned is pending, expires after the configured time and is stored, the run is
  stored waiting with its token one higher, and the log of the run gains
  \<^verbatim>\<open>approval.requested\<close> and \<^verbatim>\<open>run.waiting_approval\<close>.
\<close>

theorem request_pauses_run:
  assumes d: "alone d" "ids_distinct d" "0 < d_rounds d" and w: "world_sound d w"
    and new: "approval_find_by_tool_call (w_approvals w) tn rid (call_tool_call_id c) = Inr None"
      "\<not> dict_has (approvals_items (w_approvals w)) (tn, d_new_id d ''approval'' (w_ids w))"
    and r: "dict_get (runs_items (w_runs w)) (tn, rid) = Some r" "run_status r = RunRunning"
    and inline: "\<not> call_inline c"
  shows "case approvals_request d tn rid c w of
      (Inl e, u) \<Rightarrow> False
    | (Inr a, u) \<Rightarrow>
        a = new_approval d tn rid c (d_new_id d ''approval'' (w_ids w)) (d_clock d (w_clock_reads w)) \<and>
        approval_status a = ApprovalPending \<and>
        approval_expires_at a = d_clock d (w_clock_reads w) + ad_ttl d \<and>
        dict_get (approvals_items (w_approvals u)) (tn, approval_id a) = Some a \<and>
        (\<exists>r'. dict_get (runs_items (w_runs u)) (tn, rid) = Some r' \<and> run_same r r' \<and>
           run_status r' = RunWaitingApproval \<and>
           run_fencing_token r' = run_fencing_token r + 1) \<and>
        (\<exists>e1 e2. event_stream (w_events u) (tn, rid) =
             event_stream (w_events w) (tn, rid) @ [e1, e2] \<and>
           event_type e1 = ''approval.requested'' \<and> event_type e2 = ''run.waiting_approval'')"
proof -
  let ?id = "d_new_id d ''approval'' (w_ids w)"
  let ?a = "new_approval d tn rid c ?id (d_clock d (w_clock_reads w))"
  have keys: "approval_key ?a = (tn, ?id)" "approval_tool_key ?a = (tn, rid, call_tool_call_id c)"
    "approval_id ?a = ?id"
    by (simp_all add: new_approval_def approval_key_def approval_tool_key_def)
  have inv: "approval_repo_inv (w_approvals w)" using w by (simp add: world_sound_def)
  have key: "run_key r = (tn, rid)"
    using w r by (intro run_repo_inv_key [of "w_runs w"]) (simp_all add: world_sound_def)
  have "dict_get (approvals_by_tool (w_approvals w)) (tn, rid, call_tool_call_id c) = None"
    using new(1) by (auto simp: approval_find_by_tool_call_def split: option.splits)
  then obtain as where add: "approval_add ?a (w_approvals w) = Inr as"
    and stored: "dict_get (approvals_items as) (tn, ?id) = Some ?a"
    using new(2) by (simp add: approval_add_def keys)
  let ?w0 = "w\<lparr>w_clock_reads := Suc (w_clock_reads w), w_ids := Suc (w_ids w),
    w_awaits := w_awaits w + 3\<rparr>"
  let ?w1 = "?w0\<lparr>w_approvals := as\<rparr>"
  have "sys d w ?w0" by (rule sys_same) simp_all
  moreover have "sys d ?w0 ?w1"
    using approval_history_add [OF add] approval_repo_inv_add [OF inv add]
    by (intro sys_approvals) simp_all
  ultimately have sound: "world_sound d ?w1" using w by (blast dest: sys_ownD(5))
  obtain e1 w2 where 2: "\<And>n :: approval_request handler. thenP (event_service_append d tn rid
      (run_session_id r) ''approval.requested'' (requested_payload d c ?a)) n ?w1 = n w2"
    and w2: "event_type e1 = ''approval.requested''" "world_sound d w2" "keeps_rest ?w1 w2"
      "w_runs w2 = w_runs ?w1"
      "event_stream (w_events w2) (tn, rid) = event_stream (w_events ?w1) (tn, rid) @ [e1]"
    by (rule append_step [OF d sound], rule that)
  have r2: "dict_get (runs_items (w_runs w2)) (run_key r) = Some r" using r w2(4) key by simp
  have edge: "RunWaitingApproval \<in> set (allowed_transitions (run_status r))" by (simp add: r)
  obtain e2 w3 where 3: "move_run d r RunWaitingApproval w2 =
      (Inr (moved d (w_clock_reads w2) RunWaitingApproval r), w3)"
    and w3: "world_sound d w3" "keeps_rest w2 w3"
      "dict_get (runs_items (w_runs w3)) (run_key r) =
        Some (moved d (w_clock_reads w2) RunWaitingApproval r)"
      "event_type e2 = ''run.'' @ run_status_value RunWaitingApproval"
      "event_stream (w_events w3) (run_key r) = event_stream (w_events w2) (run_key r) @ [e2]"
    by (rule move_run_alone [OF d w2(2) r2 edge], rule that)
  have "approvals_request d tn rid c w = (Inr ?a, w3)"
    using new(1) r inline add 2 3
    by (simp add: approvals_request_def bindP_apply await_def ask_def alone_suspended [OF d(1)]
      runs_get_def run_get_def clock_def id_generator_def Let_def whenP_def thenP_apply
      approvals_add_def numeral_eq_Suc)
  then show ?thesis
    using w2 w3 stored key keys
    by (simp add: keeps_rest_def moved_def run_same_def new_approval_def)
qed

lemma request_pauses_run_witness:
  "\<not> is_error (fst (approvals_request quiet_approval_deps ''t'' ''r'' sample_call running_world))"
  using request_pauses_run [OF quiet_approval_alone quiet_approval_ids _ sample_worlds_sound(1),
      of "''t''" "''r''" sample_call "sample_run RunRunning 2"]
  by (auto simp: is_error_def running_world_def world_empty_def approval_repo_empty_def
    approval_find_by_tool_call_def sample_run_def sample_call_def split: prod.splits sum.splits)

end
