(* ===== verification/Platform.thy ===== *)
theory Platform
  imports Approval_Effects
begin

section \<open>The platform: any handlers, in any order, interleaved at every await\<close>

text \<open>
  A \<open>call\<close> is a request to one of the services; \<open>perform\<close> runs its handler. A step of the
  platform is one call, interrupted at every await by \<open>d_others\<close>, which is arbitrary as long as
  it respects the protocol; \<open>perform_upholds\<close> shows that every call respects it, so calls may
  interrupt each other. \<open>platform_steps\<close> are sequences of calls.
\<close>

datatype call =
    CreateRun string string string json_obj bool
  | CancelRun string string
  | RequestApproval string string approval_call
  | DecideApproval string string approval_status
  | CancelApproval string string string
  | WaitApproval string
  | ReapApprovals int
  | AppendEvent string string string string json_obj
  | AdmitRun string string quota_caller "rat option" "int option" int
  | EnsureAdmitted string string quota_caller "rat option" "int option" int
  | RecordResult string string quota_caller "json_obj option" json
  | ReleaseSubject string string
  | ReleaseIdempotency string string
  | ReapQuota string
  | ReapQuotaAll int
  | ReplacePolicy string string string replace_quota_policy_request

definition discard :: "'a handler \<Rightarrow> unit handler" where
  "discard m = thenP m (ret ())"

fun perform :: "run_deps \<Rightarrow> approval_deps \<Rightarrow> call \<Rightarrow> unit handler" where
  "perform rd ad (CreateRun tn sid idem req dedup) = discard (create_locked rd tn sid idem req dedup)"
| "perform rd ad (CancelRun tn rid) = discard (run_cancel rd tn rid)"
| "perform rd ad (RequestApproval tn rid c) = discard (approvals_request ad tn rid c)"
| "perform rd ad (DecideApproval tn aid s) = discard (approvals_decide ad tn aid s)"
| "perform rd ad (CancelApproval tn aid reason) = discard (cancel_pending ad tn aid reason)"
| "perform rd ad (WaitApproval aid) = discard (wait_for_decision ad aid)"
| "perform rd ad (ReapApprovals n) = discard (approvals_reap_expired ad n)"
| "perform rd ad (AppendEvent tn rid sid type payload) =
     discard (event_service_append rd tn rid sid type payload)"
| "perform rd ad (AdmitRun tn rid c budget tokens ttl) =
     discard (admit_run rd tn rid c budget tokens ttl)"
| "perform rd ad (EnsureAdmitted tn rid c budget tokens ttl) =
     discard (ensure_run_admitted rd tn rid c budget tokens ttl)"
| "perform rd ad (RecordResult tn rid c usage cost) =
     discard (record_run_result rd tn rid c usage cost)"
| "perform rd ad (ReleaseSubject tn subj) = discard (release_subject rd tn subj)"
| "perform rd ad (ReleaseIdempotency tn i) = discard (release_idempotency rd tn i)"
| "perform rd ad (ReapQuota tn) = discard (quota_reap_expired rd tn)"
| "perform rd ad (ReapQuotaAll n) = discard (reap_expired_all rd n)"
| "perform rd ad (ReplacePolicy tn uid pid req) =
     discard (quota_service_replace_policy rd tn uid pid req)"

text \<open>The services share the generator of ids; each lives with others that keep the protocol.\<close>

definition services :: "run_deps \<Rightarrow> approval_deps \<Rightarrow> bool" where
  "services rd ad \<longleftrightarrow> rely rd \<and> rely ad \<and> d_new_id rd = d_new_id ad"

inductive platform_steps :: "run_deps \<Rightarrow> approval_deps \<Rightarrow> world \<Rightarrow> world \<Rightarrow> bool" for rd ad where
  none: "platform_steps rd ad w w"
| call: "platform_steps rd ad w u \<Longrightarrow> perform rd ad c u = (r, v) \<Longrightarrow> platform_steps rd ad w v"

lemma upholds_discard: "rely d \<Longrightarrow> upholds d K {} m \<Longrightarrow> upholds d K {} (discard m)"
  unfolding discard_def by (intro upholds_then upholds_ret)

lemma upholds_change_deps:
  assumes "upholds d {} {} m" and "d_new_id d = d_new_id d'"
  shows "upholds d' {} {} m"
  using assms(1) unfolding upholds_def by (simp add: sys_cong [OF assms(2)])

lemma perform_upholds:
  assumes "services rd ad"
  shows "upholds rd {} {} (perform rd ad c)"
proof -
  have rd: "rely rd" and ad: "rely ad" and ids: "d_new_id ad = d_new_id rd"
    using assms by (simp_all add: services_def)
  show ?thesis
  proof (cases c)
    case (RequestApproval tn rid ac)
    then show ?thesis using upholds_discard [OF ad upholds_approvals_request [OF ad]]
      by (auto intro: upholds_change_deps [OF _ ids])
  next
    case (DecideApproval tn aid s)
    then show ?thesis using upholds_discard [OF ad upholds_approvals_decide [OF ad]]
      by (auto intro: upholds_change_deps [OF _ ids])
  next
    case (CancelApproval tn aid reason)
    then show ?thesis using upholds_discard [OF ad upholds_cancel_pending [OF ad]]
      by (auto intro: upholds_change_deps [OF _ ids])
  next
    case (WaitApproval aid)
    then show ?thesis using upholds_discard [OF ad upholds_wait_for_decision [OF ad]]
      by (auto intro: upholds_change_deps [OF _ ids])
  next
    case (ReapApprovals n)
    then show ?thesis using upholds_discard [OF ad upholds_reap_approvals [OF ad]]
      by (auto intro: upholds_change_deps [OF _ ids])
  qed (auto intro!: upholds_discard rd upholds_create_locked upholds_run_cancel upholds_event_append
    upholds_admit_run upholds_ensure_run_admitted upholds_record_run_result upholds_release_subject
    upholds_release_idempotency upholds_quota_reap upholds_reap_expired_all
    upholds_service_replace_policy)
qed

lemma platform_step_sys:
  assumes "services rd ad" and "perform rd ad c w = (r, t)" and "world_sound rd w"
  shows "sys rd w t"
  using upholdsD [OF perform_upholds [OF assms(1)] assms(3) _ _ assms(2)] by simp

lemma platform_steps_sys:
  assumes "platform_steps rd ad w t" and "services rd ad" and "world_sound rd w"
  shows "sys rd w t \<and> world_sound rd t"
  using assms
proof (induction rule: platform_steps.induct)
  case (none w)
  then show ?case by (simp add: sys.R_refl)
next
  case (call w u c r v)
  then have wu: "sys rd w u" "world_sound rd u" by simp_all
  from call.prems(1) call.hyps(2) wu(2) have uv: "sys rd u v" by (rule platform_step_sys)
  with wu(1) have "sys rd w v" by (rule sys.R_trans)
  moreover have "world_sound rd v" using uv wu(2) by (rule sys_ownD)
  ultimately show ?case by simp
qed

text \<open>One call as the interference of every other: the second process does \<open>c\<close> at each await.\<close>

definition busy_run_deps :: "call \<Rightarrow> run_deps" where
  "busy_run_deps c = quiet_run_deps\<lparr>d_others :=
     (\<lambda>n w. snd (perform quiet_run_deps quiet_approval_deps c w))\<rparr>"

definition busy_approval_deps :: "call \<Rightarrow> approval_deps" where
  "busy_approval_deps c = quiet_approval_deps\<lparr>d_others :=
     (\<lambda>n w. snd (perform quiet_run_deps quiet_approval_deps c w))\<rparr>"

lemma quiet_services: "services quiet_run_deps quiet_approval_deps"
  by (simp add: services_def quiet_run_rely quiet_approval_rely)

lemma busy_services: "services (busy_run_deps c) (busy_approval_deps c)"
proof -
  have up: "upholds quiet_deps {} {} (perform quiet_run_deps quiet_approval_deps c)"
    using perform_upholds [OF quiet_services] by (rule upholds_change_deps) simp
  have "rely (busy_run_deps c)"
    by (rule rely_handler [of _ "\<lambda>_. perform quiet_run_deps quiet_approval_deps c"])
      (simp_all add: busy_run_deps_def up)
  moreover have "rely (busy_approval_deps c)"
    by (rule rely_handler [of _ "\<lambda>_. perform quiet_run_deps quiet_approval_deps c"])
      (simp_all add: busy_approval_deps_def up)
  ultimately show ?thesis
    by (simp add: services_def) (simp add: busy_run_deps_def busy_approval_deps_def)
qed

end
