(* ===== verification/Policy_Rules.thy ===== *)
theory Policy_Rules
  imports Core_Models Python_Text
begin

section \<open>Tool policies\<close>

text \<open>
  \<^verbatim>\<open>src/src/harness/policy\<close>: rules that allow, deny or ask about a tool call, the engine that
  selects one of the rules that match, the profiles the server ships, and the rules that
  classify what a tool returned. \<^verbatim>\<open>fnmatch\<close> is modelled on the pattern syntax of the standard
  library (\<^verbatim>\<open>*\<close>, \<^verbatim>\<open>?\<close>, character sets with ranges and negation) on single-byte characters.
  \<^verbatim>\<open>str(value)\<close> of an argument that is neither a string, a number nor a constant is the
  parameter \<open>show\<close>.
\<close>

subsection \<open>Patterns\<close>

datatype glob_item =
    GlobStar
  | GlobAny
  | GlobChar char
  | GlobSet bool "string list"

text \<open>
  The inside of a bracket is cut at the hyphens that make ranges: the last character of a piece
  and the first of the next are the ends of a range. A range whose ends are in the wrong order
  is dropped with both its ends.
\<close>

fun find_dash :: "nat \<Rightarrow> string \<Rightarrow> nat option" where
  "find_dash k [] = None"
| "find_dash 0 (c # cs) = (if c = CHR ''-'' then Some 0 else map_option Suc (find_dash 0 cs))"
| "find_dash (Suc k) (c # cs) = map_option Suc (find_dash k cs)"

lemma find_dash_less: "find_dash k s = Some p \<Longrightarrow> p < length s"
  by (induction k s arbitrary: p rule: find_dash.induct) (auto split: if_splits)

function range_pieces :: "nat \<Rightarrow> string \<Rightarrow> string list" where
  "range_pieces k s =
     (case find_dash k s of
        None \<Rightarrow> [s]
      | Some p \<Rightarrow>
          if drop (p + 1) s = [] then [take p s @ ''-'']
          else take p s # range_pieces 2 (drop (p + 1) s))"
  by pat_completeness auto
termination
  by (relation "measure (\<lambda>(k, s). length s)") (auto dest: find_dash_less)

declare range_pieces.simps [simp del]

fun drop_empty_ranges :: "string list \<Rightarrow> string list" where
  "drop_empty_ranges [] = []"
| "drop_empty_ranges (x # xs) =
     (case drop_empty_ranges xs of
        [] \<Rightarrow> [x]
      | y # ys \<Rightarrow>
          if (of_char (hd y) :: nat) < of_char (last x) then (butlast x @ tl y) # ys
          else x # y # ys)"

definition bracket_set :: "string \<Rightarrow> glob_item" where
  "bracket_set body =
     (let pieces = drop_empty_ranges
            (range_pieces (if body \<noteq> [] \<and> hd body = CHR ''!'' then 2 else 1) body)
      in case pieces of
           (c # cs) # rest \<Rightarrow> if c = CHR ''!'' then GlobSet True (cs # rest) else GlobSet False pieces
         | _ \<Rightarrow> GlobSet False pieces)"

text \<open>
  The body of a bracket ends at the first closing bracket that is neither its first character
  nor follows the exclamation mark directly; without one the opening bracket is literal.
\<close>

fun until_bracket :: "string \<Rightarrow> (string \<times> string) option" where
  "until_bracket [] = None"
| "until_bracket (c # cs) =
     (if c = CHR '']'' then Some ([], cs)
      else map_option (\<lambda>(body, rest). (c # body, rest)) (until_bracket cs))"

definition bracket_body :: "string \<Rightarrow> (string \<times> string) option" where
  "bracket_body s =
     (let lead = (if s \<noteq> [] \<and> hd s = CHR ''!'' then ''!'' else []);
          s' = drop (length lead) s;
          lead' = (if s' \<noteq> [] \<and> hd s' = CHR '']'' then lead @ '']'' else lead);
          s'' = drop (length lead') s
      in map_option (\<lambda>(body, rest). (lead' @ body, rest)) (until_bracket s''))"

lemma until_bracket_less: "until_bracket s = Some (body, rest) \<Longrightarrow> length rest < length s"
  by (induction s arbitrary: body rest) (fastforce split: if_splits)+

lemma bracket_body_less: "bracket_body s = Some (body, rest) \<Longrightarrow> length rest < length s"
  unfolding bracket_body_def Let_def by (auto dest!: until_bracket_less simp del: drop_drop)

function glob_items :: "string \<Rightarrow> glob_item list" where
  "glob_items [] = []"
| "glob_items (c # cs) =
     (if c = CHR ''*'' then GlobStar # glob_items cs
      else if c = CHR ''?'' then GlobAny # glob_items cs
      else if c = CHR ''['' then
        (case bracket_body cs of
           None \<Rightarrow> GlobChar c # glob_items cs
         | Some (body, rest) \<Rightarrow> bracket_set body # glob_items rest)
      else GlobChar c # glob_items cs)"
  by pat_completeness auto
termination
  by (relation "measure length") (auto dest: bracket_body_less)

fun in_pieces :: "char \<Rightarrow> string list \<Rightarrow> bool" where
  "in_pieces c [] = False"
| "in_pieces c [x] = (c \<in> set x)"
| "in_pieces c (x # y # rest) =
     (c \<in> set x \<or>
      (x \<noteq> [] \<and> y \<noteq> [] \<and> (of_char (last x) :: nat) \<le> of_char c \<and> (of_char c :: nat) \<le> of_char (hd y)) \<or>
      in_pieces c (y # rest))"

fun glob_matches :: "glob_item list \<Rightarrow> string \<Rightarrow> bool" where
  "glob_matches [] s = (s = [])"
| "glob_matches (GlobStar # ps) [] = glob_matches ps []"
| "glob_matches (GlobStar # ps) (c # cs) =
     (glob_matches ps (c # cs) \<or> glob_matches (GlobStar # ps) cs)"
| "glob_matches (GlobAny # ps) s = (case s of [] \<Rightarrow> False | c # cs \<Rightarrow> glob_matches ps cs)"
| "glob_matches (GlobChar x # ps) s =
     (case s of [] \<Rightarrow> False | c # cs \<Rightarrow> c = x \<and> glob_matches ps cs)"
| "glob_matches (GlobSet neg pieces # ps) s =
     (case s of [] \<Rightarrow> False | c # cs \<Rightarrow> in_pieces c pieces \<noteq> neg \<and> glob_matches ps cs)"

definition fnmatch :: "string \<Rightarrow> string \<Rightarrow> bool" where
  "fnmatch name pat = glob_matches (glob_items pat) name"

text \<open>The specification: a text matches when it can be cut into one part per item.\<close>

fun item_language :: "glob_item \<Rightarrow> string set" where
  "item_language GlobStar = UNIV"
| "item_language GlobAny = {[c] | c. True}"
| "item_language (GlobChar x) = {[x]}"
| "item_language (GlobSet neg pieces) = {[c] | c. in_pieces c pieces \<noteq> neg}"

fun glob_language :: "glob_item list \<Rightarrow> string set" where
  "glob_language [] = {[]}"
| "glob_language (p # ps) = {u @ v | u v. u \<in> item_language p \<and> v \<in> glob_language ps}"

lemma glob_language_star_Cons:
  "c # cs \<in> glob_language (GlobStar # ps) \<longleftrightarrow>
   c # cs \<in> glob_language ps \<or> cs \<in> glob_language (GlobStar # ps)"
proof
  assume "c # cs \<in> glob_language (GlobStar # ps)"
  then obtain u v where "c # cs = u @ v" "v \<in> glob_language ps" by auto
  then show "c # cs \<in> glob_language ps \<or> cs \<in> glob_language (GlobStar # ps)"
    by (cases u) auto
next
  assume "c # cs \<in> glob_language ps \<or> cs \<in> glob_language (GlobStar # ps)"
  then show "c # cs \<in> glob_language (GlobStar # ps)"
  proof
    assume "cs \<in> glob_language (GlobStar # ps)"
    then obtain u v where "cs = u @ v" "v \<in> glob_language ps" by auto
    then have "c # cs = (c # u) @ v" by simp
    with \<open>v \<in> glob_language ps\<close> show ?thesis by (force simp del: append_Cons)
  next
    assume "c # cs \<in> glob_language ps"
    then show ?thesis by (force intro: exI [of _ "[]"])
  qed
qed

lemma glob_language_one:
  assumes "p \<noteq> GlobStar"
  shows "s \<in> glob_language (p # ps) \<longleftrightarrow>
    (case s of [] \<Rightarrow> False | c # cs \<Rightarrow> [c] \<in> item_language p \<and> cs \<in> glob_language ps)"
proof -
  have one: "\<exists>c. u = [c]" if "u \<in> item_language p" for u
    using assms that by (cases p) auto
  show ?thesis
  proof (cases s)
    case Nil
    then show ?thesis using one by fastforce
  next
    case (Cons c cs)
    have "(\<exists>u v. c # cs = u @ v \<and> u \<in> item_language p \<and> v \<in> glob_language ps) \<longleftrightarrow>
        [c] \<in> item_language p \<and> cs \<in> glob_language ps"
      using one by (metis append_Cons append_Nil list.inject)
    with Cons show ?thesis by auto
  qed
qed

lemma glob_matches_language: "glob_matches ps s \<longleftrightarrow> s \<in> glob_language ps"
proof (induction ps s rule: glob_matches.induct)
  case (3 ps c cs)
  then show ?case by (simp only: glob_matches.simps glob_language_star_Cons)
next
  case (2 ps)
  then show ?case by simp
qed (auto simp: glob_language_one simp del: glob_language.simps(2) split: list.splits)

subsection \<open>Rules\<close>

datatype policy_decision = PolicyAllow | PolicyDeny | PolicyAsk

datatype context_trust = TrustSafe | TrustSensitive | TrustUntrusted

datatype sandbox_isolation = IsolationWorkspace | IsolationContainer

record policy_context =
  context_tenant_id :: string
  context_agent_name :: string
  context_tool_name :: string
  context_arguments :: json_obj
  context_sandbox_isolation :: sandbox_isolation
  context_trust_level :: context_trust

record policy_rule =
  rule_name :: string
  rule_decision :: policy_decision
  rule_tenant_id :: "string option"
  rule_agent_name :: "string option"
  rule_tool :: "string option"
  rule_path_glob :: "string option"
  rule_command_contains :: "string option"
  rule_sandbox_isolation :: "sandbox_isolation option"
  rule_context_trust :: "context_trust option"
  rule_priority :: int

record policy_result =
  result_decision :: policy_decision
  result_rule_name :: string
  result_reason :: string

fun decision_precedence :: "policy_decision \<Rightarrow> nat" where
  "decision_precedence PolicyAllow = 0"
| "decision_precedence PolicyAsk = 1"
| "decision_precedence PolicyDeny = 2"

fun py_str :: "(json \<Rightarrow> string) \<Rightarrow> json \<Rightarrow> string" where
  "py_str show (JStr s) = s"
| "py_str show JNull = ''None''"
| "py_str show (JBool b) = (if b then ''True'' else ''False'')"
| "py_str show (JInt i) = str_of_int i"
| "py_str show v = show v"

definition context_path :: "(json \<Rightarrow> string) \<Rightarrow> policy_context \<Rightarrow> string" where
  "context_path show c = py_str show (dict_get_or (context_arguments c) ''file_path''
     (dict_get_or (context_arguments c) ''path'' (JStr [])))"

definition rule_field :: "'a option \<Rightarrow> ('a \<Rightarrow> bool) \<Rightarrow> bool" where
  "rule_field f ok = (case f of None \<Rightarrow> True | Some v \<Rightarrow> ok v)"

definition rule_matches :: "(json \<Rightarrow> string) \<Rightarrow> policy_rule \<Rightarrow> policy_context \<Rightarrow> bool" where
  "rule_matches show r c \<longleftrightarrow>
     rule_field (rule_tenant_id r) (\<lambda>t. t = context_tenant_id c) \<and>
     rule_field (rule_agent_name r) (\<lambda>a. a = context_agent_name c) \<and>
     rule_field (rule_tool r) (\<lambda>pat. fnmatch (context_tool_name c) pat) \<and>
     rule_field (rule_sandbox_isolation r) (\<lambda>i. i = context_sandbox_isolation c) \<and>
     rule_field (rule_context_trust r) (\<lambda>t. t = context_trust_level c) \<and>
     rule_field (rule_path_glob r) (\<lambda>pat. fnmatch (context_path show c) pat) \<and>
     rule_field (rule_command_contains r) (\<lambda>w. is_substring w
       (py_str show (dict_get_or (context_arguments c) ''command'' (JStr []))))"

definition rule_specificity :: "policy_rule \<Rightarrow> nat" where
  "rule_specificity r =
     of_bool (rule_tenant_id r \<noteq> None) + of_bool (rule_agent_name r \<noteq> None) +
     of_bool (rule_tool r \<noteq> None) + of_bool (rule_path_glob r \<noteq> None) +
     of_bool (rule_command_contains r \<noteq> None) + of_bool (rule_sandbox_isolation r \<noteq> None) +
     of_bool (rule_context_trust r \<noteq> None)"

definition rule_rank :: "policy_rule \<Rightarrow> int \<times> nat \<times> nat \<times> string" where
  "rule_rank r = (rule_priority r, rule_specificity r, decision_precedence (rule_decision r),
     rule_name r)"

definition policy_evaluate ::
  "(json \<Rightarrow> string) \<Rightarrow> policy_rule list \<Rightarrow> policy_context \<Rightarrow> policy_result" where
  "policy_evaluate show rules c =
     (case py_max rule_rank (filter (\<lambda>r. rule_matches show r c) rules) of
        None \<Rightarrow> \<lparr>result_decision = PolicyDeny, result_rule_name = ''implicit-deny'',
                 result_reason = ''no policy rule matched''\<rparr>
      | Some r \<Rightarrow> \<lparr>result_decision = rule_decision r, result_rule_name = rule_name r,
                   result_reason = ''matched policy rule '' @ rule_name r\<rparr>)"

subsection \<open>The shipped profiles\<close>

definition plain_rule :: "string \<Rightarrow> string \<Rightarrow> policy_decision \<Rightarrow> policy_rule" where
  "plain_rule name tool decision =
     \<lparr>rule_name = name, rule_decision = decision, rule_tenant_id = None, rule_agent_name = None,
      rule_tool = Some tool, rule_path_glob = None, rule_command_contains = None,
      rule_sandbox_isolation = None, rule_context_trust = None, rule_priority = 0\<rparr>"

definition knowledge_search_read_rules :: "policy_rule list" where
  "knowledge_search_read_rules =
     concat (map (\<lambda>server. map (\<lambda>tool. plain_rule (server @ ''-'' @ tool)
         (''mcp__'' @ server @ ''__'' @ tool) PolicyAllow)
       [''sag_search'', ''sag_explain_search'', ''sag_get_event'', ''sag_get_document'',
        ''sag_list_chunks''])
       [''novel-search'', ''knowledge-search''])"

definition propose_memory :: string where
  "propose_memory = ''mcp__harness-memory__propose_memory''"

definition default_policy_rules :: "policy_rule list" where
  "default_policy_rules =
     [plain_rule ''tool-directory-search'' ''ToolSearch'' PolicyAllow,
      plain_rule ''mcp-directory-search'' ''MCPSearch'' PolicyAllow,
      plain_rule ''read'' ''Read'' PolicyAllow, plain_rule ''glob'' ''Glob'' PolicyAllow,
      plain_rule ''grep'' ''Grep'' PolicyAllow, plain_rule ''delegate'' ''Task'' PolicyAllow,
      plain_rule ''delegate-agent'' ''Agent'' PolicyAllow,
      (plain_rule ''untrusted-memory-deny'' propose_memory PolicyDeny)
        \<lparr>rule_context_trust := Some TrustUntrusted, rule_priority := 100\<rparr>,
      (plain_rule ''sensitive-memory-review'' propose_memory PolicyAsk)
        \<lparr>rule_context_trust := Some TrustSensitive, rule_priority := 100\<rparr>,
      plain_rule ''harness-memory-update'' propose_memory PolicyAllow,
      plain_rule ''harness-artifact-publish'' ''mcp__harness-artifacts__publish_artifact''
        PolicyAllow,
      plain_rule ''tavily-search'' ''mcp__tavily__tavily_search'' PolicyAllow,
      plain_rule ''tavily-extract'' ''mcp__tavily__tavily_extract'' PolicyAllow] @
     knowledge_search_read_rules @
     [plain_rule ''workspace-write'' ''Write'' PolicyAllow,
      plain_rule ''workspace-edit'' ''Edit'' PolicyAllow,
      (plain_rule ''destructive-rm'' ''Bash'' PolicyDeny)
        \<lparr>rule_command_contains := Some ''rm '',
         rule_sandbox_isolation := Some IsolationWorkspace\<rparr>,
      plain_rule ''bash-review'' ''Bash'' PolicyAsk]"

definition read_only_policy_rules :: "policy_rule list" where
  "read_only_policy_rules =
     [plain_rule ''tool-directory-search'' ''ToolSearch'' PolicyAllow,
      plain_rule ''mcp-directory-search'' ''MCPSearch'' PolicyAllow,
      plain_rule ''read'' ''Read'' PolicyAllow, plain_rule ''glob'' ''Glob'' PolicyAllow,
      plain_rule ''grep'' ''Grep'' PolicyAllow,
      plain_rule ''harness-artifact-publish'' ''mcp__harness-artifacts__publish_artifact''
        PolicyAllow,
      plain_rule ''tavily-search'' ''mcp__tavily__tavily_search'' PolicyAllow,
      plain_rule ''tavily-extract'' ''mcp__tavily__tavily_extract'' PolicyAllow] @
     knowledge_search_read_rules"

definition policy_resolve ::
  "(string, policy_rule list) dict \<Rightarrow> string \<Rightarrow> herror + policy_rule list" where
  "policy_resolve profiles profile_id =
     (case dict_get profiles profile_id of
        None \<Rightarrow> Inl (ValueError (''unknown permission policy profile: '' @ profile_id))
      | Some rules \<Rightarrow> Inr rules)"

definition default_policy_profiles :: "(string, policy_rule list) dict" where
  "default_policy_profiles =
     [(''production-read-only'', read_only_policy_rules),
      (''production-standard'', default_policy_rules),
      (''production-orchestrator'', default_policy_rules),
      (''local-standard'', default_policy_rules)]"

subsection \<open>Rules about results\<close>

record tool_result_policy_rule =
  trule_name :: string
  trule_trust :: context_trust
  trule_tool :: string
  trule_agent_name :: "string option"
  trule_priority :: int

record tool_result_policy_result =
  tresult_trust :: context_trust
  tresult_rule_name :: string
  tresult_reason :: string

fun trust_precedence :: "context_trust \<Rightarrow> nat" where
  "trust_precedence TrustSafe = 0"
| "trust_precedence TrustSensitive = 1"
| "trust_precedence TrustUntrusted = 2"

definition trule_rank :: "tool_result_policy_rule \<Rightarrow> int \<times> nat \<times> nat \<times> string" where
  "trule_rank r = (trule_priority r,
     of_bool (trule_agent_name r \<noteq> None) + of_bool (trule_tool r \<noteq> ''*''),
     trust_precedence (trule_trust r), trule_name r)"

definition result_evaluate ::
  "tool_result_policy_rule list \<Rightarrow> string \<Rightarrow> string \<Rightarrow> tool_result_policy_result" where
  "result_evaluate rules tool_name agent_name =
     (case py_max trule_rank (filter (\<lambda>r. fnmatch tool_name (trule_tool r) \<and>
          rule_field (trule_agent_name r) (\<lambda>a. a = agent_name)) rules) of
        None \<Rightarrow> \<lparr>tresult_trust = TrustSafe, tresult_rule_name = ''implicit-safe'',
                 tresult_reason = ''no tool-result policy rule matched''\<rparr>
      | Some r \<Rightarrow> \<lparr>tresult_trust = trule_trust r, tresult_rule_name = trule_name r,
                   tresult_reason = ''matched tool-result policy rule '' @ trule_name r\<rparr>)"

definition stricter_trust :: "context_trust \<Rightarrow> context_trust \<Rightarrow> context_trust" where
  "stricter_trust left right =
     (if trust_precedence right \<le> trust_precedence left then left else right)"

end
