(* ===== verification/Bash_Safety.thy ===== *)
theory Bash_Safety
  imports Python_Text
begin

section \<open>Low-risk shell commands\<close>

text \<open>
  \<^verbatim>\<open>src/src/harness/policy/bash_safety.py\<close>: the classifier that lets a shell command run in the
  sandbox without an approval. A command is a file written by a literal here-document, a checked
  Python program given as a here-document, or a list of simple commands. \<^verbatim>\<open>ast.parse\<close> is the
  parameter \<open>bash_parse\<close> of the environment (\<open>None\<close> is its \<^verbatim>\<open>SyntaxError\<close>).
\<close>

definition low_risk_commands :: "string list" where
  "low_risk_commands =
     [''['', ''basename'', ''cat'', ''cmp'', ''comm'', ''cp'', ''cut'', ''date'', ''diff'',
      ''dirname'', ''du'', ''echo'', ''false'', ''file'', ''find'', ''grep'', ''head'', ''id'',
      ''jq'', ''ls'', ''md5sum'', ''mkdir'', ''ps'', ''pwd'', ''python'', ''python3'',
      ''readlink'', ''realpath'', ''rg'', ''sha1sum'', ''sha256sum'', ''shasum'', ''stat'',
      ''tail'', ''test'', ''true'', ''uname'', ''wc'', ''whoami'']"

definition command_separators :: "string list" where
  "command_separators = ['';'', ''&&'', ''||'', ''|'']"

definition rejected_shell_tokens :: "string list" where
  "rejected_shell_tokens =
     [''&'', ''('', '')'', ''<'', ''>'', ''<<'', ''>>'', ''<<<'', ''<>'', ''&>'']"

definition unsafe_find_actions :: "string list" where
  "unsafe_find_actions =
     [''-delete'', ''-exec'', ''-execdir'', ''-fls'', ''-fprint'', ''-fprintf'', ''-ok'',
      ''-okdir'']"

definition sandbox_wide_metadata_commands :: "string list" where
  "sandbox_wide_metadata_commands =
     [''du'', ''file'', ''find'', ''ls'', ''readlink'', ''realpath'', ''stat'']"

definition protected_workspace_roots :: "string list" where
  "protected_workspace_roots = [''.claude'', ''.git'', ''.harness-runtime'', ''inputs'']"

definition safe_python_modules :: "string list" where
  "safe_python_modules =
     [''csv'', ''hashlib'', ''json'', ''math'', ''pathlib'', ''re'', ''statistics'']"

definition safe_python_calls :: "string list" where
  "safe_python_calls =
     [''Path'', ''all'', ''any'', ''bool'', ''dict'', ''enumerate'', ''float'', ''int'',
      ''isinstance'', ''len'', ''list'', ''max'', ''min'', ''print'', ''range'', ''round'',
      ''set'', ''sorted'', ''str'', ''sum'', ''tuple'', ''zip'']"

definition safe_python_methods :: "string list" where
  "safe_python_methods =
     [''as_posix'', ''decode'', ''endswith'', ''exists'', ''find'', ''get'', ''glob'',
      ''group'', ''groups'', ''hexdigest'', ''is_dir'', ''is_file'', ''items'', ''iterdir'',
      ''join'', ''keys'', ''lower'', ''match'', ''read_bytes'', ''read_text'',
      ''relative_to'', ''rglob'', ''search'', ''split'', ''splitlines'', ''startswith'',
      ''stat'', ''strip'', ''upper'', ''values'']"

definition rejected_python_nodes :: "string list" where
  "rejected_python_nodes =
     [''AsyncFor'', ''AsyncFunctionDef'', ''Await'', ''ClassDef'', ''Delete'', ''FunctionDef'',
      ''Global'', ''Lambda'', ''Nonlocal'', ''Raise'', ''While'', ''With'']"

text \<open>
  A syntax tree, with the fields the check reads; every other node is its class name and its
  children. An imported name comes with its \<^verbatim>\<open>as\<close> name.
\<close>

datatype py_node =
    PyImport "(string \<times> string option) list"
  | PyImportFrom nat "string option" "(string \<times> string option) list"
  | PyAttribute py_node string
  | PyName string
  | PyCall py_node "py_node list" "py_node list"
  | PyBinOp string py_node py_node
  | PyConstStr string
  | PyNode string "py_node list"

record bash_env =
  bash_workspace :: string
  bash_remote :: "string option"
  bash_generated :: "string list"
  bash_parse :: "string \<Rightarrow> py_node option"

definition bash_remote_path :: "bash_env \<Rightarrow> pure_path option" where
  "bash_remote_path b =
     (case bash_remote b of
        None \<Rightarrow> None
      | Some r \<Rightarrow> if r = [] then None else Some (pure_path_of r))"

definition bash_roots :: "bash_env \<Rightarrow> pure_path list" where
  "bash_roots b =
     [pure_path_of (bash_workspace b), pure_path_of ''/workspace''] @
     (case bash_remote_path b of None \<Rightarrow> [] | Some r \<Rightarrow> [r])"

subsection \<open>Words\<close>

text \<open>
  Redirections to the null device are removed first: \<open>null_redirection\<close> is one match of the
  pattern, and \<open>drop_null_redirections\<close> replaces from left to right, where \<open>here\<close> says whether
  the position is the start or follows white space.
\<close>

definition null_redirection :: "string \<Rightarrow> string option" where
  "null_redirection s =
     (let s' = (case s of c # cs \<Rightarrow> if c \<in> set ''012'' then cs else s | [] \<Rightarrow> s)
      in case s' of
           [] \<Rightarrow> None
         | c # cs \<Rightarrow>
             if c \<noteq> CHR ''>'' then None
             else
               let target = dropWhile py_space cs; rest = drop 9 target
               in if starts_with ''/dev/null'' target \<and>
                    (rest = [] \<or> py_space (hd rest) \<or> hd rest = CHR '';'')
                  then Some rest else None)"

lemma null_redirection_shorter: "null_redirection s = Some r \<Longrightarrow> length r < length s"
proof -
  assume *: "null_redirection s = Some r"
  then obtain cs where "r = drop 9 (dropWhile py_space cs)" "Suc (length cs) \<le> length s"
    by (auto simp: null_redirection_def Let_def split: list.splits if_splits)
  then show ?thesis using length_dropWhile_le [of py_space cs] by simp
qed

function drop_null_redirections :: "bool \<Rightarrow> string \<Rightarrow> string" where
  "drop_null_redirections here s =
     (case if here then null_redirection s else None of
        Some r \<Rightarrow> drop_null_redirections False r
      | None \<Rightarrow> (case s of [] \<Rightarrow> [] | c # cs \<Rightarrow> c # drop_null_redirections (py_space c) cs))"
  by pat_completeness auto
termination
  by (relation "measure (\<lambda>(here, s). length s)")
     (auto dest: null_redirection_shorter split: if_splits)

declare drop_null_redirections.simps [simp del]

definition bash_tokenize :: "string \<Rightarrow> string list option" where
  "bash_tokenize command =
     (let command = drop_null_redirections True command
      in if py_strip command = [] \<or>
            list_ex (\<lambda>c. c \<in> {CHR 0x00, CHR 0x0A, CHR 0x0D, CHR 0x60, CHR 0x24}) command
         then None else shlex_tokens command)"

definition bash_command_name :: "string \<Rightarrow> string option" where
  "bash_command_name value =
     (if CHR ''/'' \<notin> set value then Some value
      else
        let pure = pure_path_of value
        in if path_parent pure \<noteq> pure_path_of ''/bin'' \<and> path_parent pure \<noteq> pure_path_of ''/usr/bin''
           then None else Some (path_name pure))"

definition path_stays_in_workspace :: "bash_env \<Rightarrow> string \<Rightarrow> bool" where
  "path_stays_in_workspace b value =
     (let candidate = (case after_char (CHR ''='') value of None \<Rightarrow> value | Some v \<Rightarrow> v)
      in if starts_with ''-'' candidate then True
         else
           let pure = pure_path_of candidate
           in if ''..'' \<in> set (path_parts pure) then False
              else if \<not> path_is_absolute pure then True
              else list_ex (\<lambda>base. path_relative_to pure base) (bash_roots b))"

subsection \<open>Python programs\<close>

fun py_children :: "py_node \<Rightarrow> py_node list" where
  "py_children (PyAttribute v attr) = [v]"
| "py_children (PyCall f args keywords) = f # args @ keywords"
| "py_children (PyBinOp op l r) = [l, r]"
| "py_children (PyNode cls ns) = ns"
| "py_children _ = []"

fun py_node_class :: "py_node \<Rightarrow> string" where
  "py_node_class (PyNode cls ns) = cls"
| "py_node_class (PyImport ns) = ''Import''"
| "py_node_class (PyImportFrom l m ns) = ''ImportFrom''"
| "py_node_class (PyAttribute v a) = ''Attribute''"
| "py_node_class (PyName n) = ''Name''"
| "py_node_class (PyCall f a k) = ''Call''"
| "py_node_class (PyBinOp op l r) = ''BinOp''"
| "py_node_class (PyConstStr s) = ''Constant''"

fun py_node_ok :: "bash_env \<Rightarrow> py_node \<Rightarrow> bool" where
  "py_node_ok b (PyImport names) =
     list_all (\<lambda>(name, _). before_char (CHR ''.'') name \<in> set safe_python_modules) names"
| "py_node_ok b (PyImportFrom level modname names) =
     (level = 0 \<and>
      (case modname of
         None \<Rightarrow> False
       | Some m \<Rightarrow> before_char (CHR ''.'') m \<in> set safe_python_modules) \<and>
      \<not> list_ex (\<lambda>(name, _). name = ''*'') names)"
| "py_node_ok b (PyAttribute v attr) =
     (\<not> starts_with ''_'' attr \<and> attr \<notin> {''parent'', ''parents''})"
| "py_node_ok b (PyName n) = (\<not> starts_with ''_'' n)"
| "py_node_ok b (PyCall f args keywords) =
     (case f of
        PyName n \<Rightarrow>
          n \<in> set safe_python_calls \<and>
          (if n = ''Path'' then
             keywords = [] \<and>
             (case args of [PyConstStr s] \<Rightarrow> path_stays_in_workspace b s | _ \<Rightarrow> False)
           else True)
      | PyAttribute v attr \<Rightarrow> attr \<in> set safe_python_methods
      | _ \<Rightarrow> False)"
| "py_node_ok b (PyBinOp op l r) =
     (if op = ''Div'' then
        (case r of
           PyConstStr s \<Rightarrow>
             \<not> starts_with ''/'' s \<and> ''..'' \<notin> set (path_parts (pure_path_of s))
         | _ \<Rightarrow> False)
      else True)"
| "py_node_ok b (PyConstStr s) = True"
| "py_node_ok b (PyNode cls ns) = (cls \<notin> set rejected_python_nodes)"

text \<open>\<^verbatim>\<open>ast.walk\<close>: the node and all its descendants.\<close>

fun py_tree_ok :: "bash_env \<Rightarrow> py_node \<Rightarrow> bool" where
  "py_tree_ok b (PyAttribute v attr) = (py_node_ok b (PyAttribute v attr) \<and> py_tree_ok b v)"
| "py_tree_ok b (PyCall f args keywords) =
     (py_node_ok b (PyCall f args keywords) \<and> py_tree_ok b f \<and>
      list_all (py_tree_ok b) args \<and> list_all (py_tree_ok b) keywords)"
| "py_tree_ok b (PyBinOp op l r) =
     (py_node_ok b (PyBinOp op l r) \<and> py_tree_ok b l \<and> py_tree_ok b r)"
| "py_tree_ok b (PyNode cls ns) = (py_node_ok b (PyNode cls ns) \<and> list_all (py_tree_ok b) ns)"
| "py_tree_ok b n = py_node_ok b n"

subsection \<open>Here-documents\<close>

definition rx_spaces :: rx where
  "rx_spaces = RxGreedy py_space"

definition word_start_char :: "char \<Rightarrow> bool" where
  "word_start_char c \<longleftrightarrow> (let n = (of_char c :: nat) in 65 \<le> n \<and> n \<le> 90 \<or> n = 95 \<or> 97 \<le> n \<and> n \<le> 122)"

definition word_char :: "char \<Rightarrow> bool" where
  "word_char c \<longleftrightarrow> word_start_char c \<or> (let n = (of_char c :: nat) in 48 \<le> n \<and> n \<le> 57)"

definition heredoc_word :: rx where
  "heredoc_word =
     rx_all [RxGroup ''quote'' (RxChar lex_quote),
       RxGroup ''delimiter'' (RxSeq (RxChar word_start_char) (RxGreedy word_char)),
       RxBack ''quote'']"

definition newline :: string where
  "newline = [CHR 0x0A]"

definition quoted_python_heredoc :: rx where
  "quoted_python_heredoc =
     rx_all [rx_spaces, RxAlt (rx_literal ''/usr/bin/'') RxEmpty,
       RxAlt (rx_literal ''python'') (rx_literal ''python3''), rx_plus py_space,
       rx_literal ''-'', rx_plus py_space, rx_literal ''<<'', heredoc_word, rx_spaces,
       rx_literal newline, RxGroup ''body'' (RxGreedy (\<lambda>_. True)), rx_literal newline,
       RxBack ''delimiter'', rx_spaces, RxEnd]"

definition heredoc_path :: rx where
  "heredoc_path =
     RxGroup ''path''
       (RxAlt (rx_all [RxChar (\<lambda>c. c = CHR 0x27), rx_plus (\<lambda>c. c \<noteq> CHR 0x27), RxChar (\<lambda>c. c = CHR 0x27)])
       (RxAlt (rx_all [RxChar (\<lambda>c. c = CHR 0x22), rx_plus (\<lambda>c. c \<noteq> CHR 0x22), RxChar (\<lambda>c. c = CHR 0x22)])
          (rx_plus (\<lambda>c. \<not> py_space c))))"

definition after_cat :: rx where
  "after_cat =
     rx_all [rx_literal ''at'', rx_spaces, rx_literal ''>'', rx_spaces, heredoc_path, rx_spaces,
       rx_literal ''<<'', rx_spaces, heredoc_word, rx_spaces, rx_literal newline,
       RxGroup ''body'' (RxLazy (\<lambda>_. True)), rx_literal newline, RxBack ''delimiter'',
       RxAlt (rx_all [rx_spaces, rx_literal newline, RxGroup ''tail'' (RxGreedy (\<lambda>_. True))])
         RxEmpty,
       rx_spaces, RxEnd]"

definition literal_file_heredoc :: rx where
  "literal_file_heredoc = RxSeq rx_spaces (RxSeq (RxChar (\<lambda>x. x = CHR ''c'')) after_cat)"

definition group_text :: "rx_env \<Rightarrow> string \<Rightarrow> string" where
  "group_text m g = (case map_of m g of None \<Rightarrow> [] | Some s \<Rightarrow> s)"

definition python_heredoc_is_low_risk :: "bash_env \<Rightarrow> string \<Rightarrow> bool" where
  "python_heredoc_is_low_risk b command =
     (case rx_fullmatch quoted_python_heredoc command of
        None \<Rightarrow> False
      | Some m \<Rightarrow>
          (case bash_parse b (group_text m ''body'') of
             None \<Rightarrow> False
           | Some tree \<Rightarrow> py_tree_ok b tree))"

definition utf8_length :: "string \<Rightarrow> int" where
  "utf8_length s = sum_list (map (\<lambda>c. if (of_char c :: nat) < 128 then 1 else 2) s)"

text \<open>The path of a here-document inside the workspace, or \<open>None\<close> when it has no such place.\<close>

definition heredoc_target :: "bash_env \<Rightarrow> string \<Rightarrow> pure_path option" where
  "heredoc_target b raw_path =
     (let target = pure_path_of raw_path
      in if path_is_absolute target then
           (case py_max (\<lambda>base. length (path_parts base))
                (filter (path_relative_to target) (bash_roots b)) of
              None \<Rightarrow> None
            | Some base \<Rightarrow> Some (path_below target base))
         else Some target)"

definition literal_workspace_heredoc :: "bash_env \<Rightarrow> string \<Rightarrow> string option" where
  "literal_workspace_heredoc b command =
     (case rx_fullmatch literal_file_heredoc command of
        None \<Rightarrow> None
      | Some m \<Rightarrow>
          if utf8_length (group_text m ''body'') > 1024 * 1024 then None
          else
            let raw_path = strip_chars lex_quote (group_text m ''path'')
            in if \<not> path_stays_in_workspace b raw_path then None
               else
                 (case heredoc_target b raw_path of
                    None \<Rightarrow> None
                  | Some target \<Rightarrow>
                      if path_parts target = [] \<or>
                         hd (path_parts target) \<in> set protected_workspace_roots
                      then None else Some (py_strip (group_text m ''tail''))))"

lemma rx_fullmatch_SomeD:
  "rx_fullmatch r s = Some m \<Longrightarrow> (m, []) \<in> set (rx_match r [] s)"
proof -
  assume "rx_fullmatch r s = Some m"
  then obtain b xs where "filter (\<lambda>(e, rest). rest = []) (rx_match r [] s) = (m, b) # xs"
    by (auto simp: rx_fullmatch_def split: list.splits)
  then have "(m, b) \<in> set (filter (\<lambda>(e, rest). rest = []) (rx_match r [] s))" by simp
  then show ?thesis by auto
qed

lemma literal_heredoc_groups:
  assumes "rx_fullmatch literal_file_heredoc s = Some m" and "map_of m g = Some w"
  shows "length w < length s"
proof -
  have "(m, []) \<in> set (rx_match literal_file_heredoc [] s)"
    using assms(1) by (rule rx_fullmatch_SomeD)
  then obtain r r' where r: "r \<in> set (star_rests py_space s)" "r = CHR ''c'' # r'"
    and m: "(m, []) \<in> set (rx_match after_cat [] r')"
    by (auto simp: literal_file_heredoc_def rx_spaces_def split: list.splits if_splits)
  have "length r' < length s" using star_rests_suffix [OF r(1)] r(2) by auto
  moreover have "length w \<le> length r'" using rx_match_groups [OF m assms(2)] by simp
  ultimately show ?thesis by simp
qed

lemma literal_heredoc_shorter:
  assumes "literal_workspace_heredoc b s = Some t" and "t \<noteq> []"
  shows "length t < length s"
proof -
  obtain m where m: "rx_fullmatch literal_file_heredoc s = Some m"
    and t: "t = py_strip (group_text m ''tail'')"
    using assms(1)
    by (auto simp: literal_workspace_heredoc_def Let_def split: option.splits if_splits)
  show ?thesis
  proof (cases "map_of m ''tail''")
    case None
    with t assms(2) show ?thesis by (simp add: group_text_def strip_chars_def)
  next
    case (Some w)
    then show ?thesis
      using t literal_heredoc_groups [OF m Some] length_strip [of py_space w]
      by (simp add: group_text_def)
  qed
qed

subsection \<open>Simple commands\<close>

definition python_script_ok :: "bash_env \<Rightarrow> string \<Rightarrow> bool" where
  "python_script_ok b token =
     (let script = pure_path_of token;
          posix = path_as_posix script;
          trusted_generated = token \<in> set (bash_generated b) \<or>
            (\<not> path_is_absolute script \<and>
             (if starts_with ''./'' posix then drop 2 posix else posix) \<in> set (bash_generated b))
      in \<not> starts_with ''-'' token \<and>
         (trusted_generated \<or>
          (\<not> path_is_absolute script \<and>
           (take 2 (path_parts script) = [''.claude'', ''skills''] \<or>
            take 2 (path_parts script) = [''.harness-runtime'', ''bundle-tools'']))))"

definition option_is :: "string \<Rightarrow> string \<Rightarrow> bool" where
  "option_is opt lowered \<longleftrightarrow> lowered = opt \<or> starts_with (opt @ ''='') lowered"

definition detection_output :: pure_path where
  "detection_output = pure_path_of ''/tmp/detection_output''"

text \<open>
  One argument of the active command: \<open>None\<close> rejects the whole command, otherwise the index of
  the next argument.
\<close>

definition argument_step :: "bash_env \<Rightarrow> string \<Rightarrow> nat \<Rightarrow> string \<Rightarrow> nat option" where
  "argument_step b active index token =
     (let lowered = py_lower token; path = pure_path_of token
      in if active = ''mkdir'' \<and> starts_with ''-'' token \<and> token \<noteq> ''-p'' then None
         else if active = ''cp'' \<and> starts_with ''-'' token then None
         else if active \<in> {''python'', ''python3''} \<and> index = 0 \<and> \<not> python_script_ok b token then None
         else if active = ''rg'' \<and> option_is ''--pre'' lowered then None
         else if active = ''find'' \<and> lowered \<in> set unsafe_find_actions then None
         else if active \<in> set sandbox_wide_metadata_commands \<and> path_is_absolute path
         then Some (index + 1)
         else if active \<in> {''head'', ''tail''} \<and> option_is ''--pid'' lowered then None
         else if active = ''echo'' then Some index
         else if \<not> (active = ''cp'' \<and> path_is_absolute path \<and> path_relative_to path detection_output) \<and>
           \<not> path_stays_in_workspace b token
         then None else Some (index + 1))"

fun tokens_low_risk :: "bash_env \<Rightarrow> bool \<Rightarrow> string \<Rightarrow> nat \<Rightarrow> string list \<Rightarrow> bool" where
  "tokens_low_risk b expecting active index [] = (\<not> expecting)"
| "tokens_low_risk b expecting active index (token # tokens) =
     (if token \<in> set rejected_shell_tokens then False
      else if token \<in> set command_separators then
        (if expecting then False else tokens_low_risk b True [] 0 tokens)
      else if expecting then
        (case bash_command_name token of
           None \<Rightarrow> False
         | Some name \<Rightarrow>
             if name \<in> set low_risk_commands then tokens_low_risk b False name 0 tokens else False)
      else
        (case argument_step b active index token of
           None \<Rightarrow> False
         | Some i \<Rightarrow> tokens_low_risk b False active i tokens))"

function sandboxed_bash_is_low_risk :: "bash_env \<Rightarrow> string \<Rightarrow> bool" where
  "sandboxed_bash_is_low_risk b command =
     (case literal_workspace_heredoc b command of
        Some tail \<Rightarrow> if tail = [] then True else sandboxed_bash_is_low_risk b tail
      | None \<Rightarrow>
          python_heredoc_is_low_risk b command \<or>
          (case bash_tokenize command of
             None \<Rightarrow> False
           | Some tokens \<Rightarrow> tokens \<noteq> [] \<and> tokens_low_risk b True [] 0 tokens))"
  by pat_completeness auto
termination
  by (relation "measure (\<lambda>(b, s). length s)") (auto dest: literal_heredoc_shorter)

declare sandboxed_bash_is_low_risk.simps [simp del]

end
