(* ===== verification/Redaction.thy ===== *)
theory Redaction
  imports Policy_Rules
begin

section \<open>What is taken out of events before they are stored\<close>

text \<open>
  \<^verbatim>\<open>src/src/harness/runtime/audit_redaction.py\<close> removes secrets from the arguments of a tool
  call, \<^verbatim>\<open>src/src/harness/runtime/input_redaction.py\<close> the text of internal instructions.
  \<^verbatim>\<open>re.sub\<close> is modelled on the regular expressions of \<^verbatim>\<open>Python_Text\<close>; all three patterns start
  at a word boundary with a letter and match at least one character. The character that marks a
  cut text is outside the code points of the model; \<open>ellip\<close> stands for it.
\<close>

subsection \<open>Substitution\<close>

definition py_word :: "char \<Rightarrow> bool" where
  "py_word c \<longleftrightarrow> (let n = (of_char c :: nat) in
     48 \<le> n \<and> n \<le> 57 \<or> 65 \<le> n \<and> n \<le> 90 \<or> n = 95 \<or> 97 \<le> n \<and> n \<le> 122 \<or>
     n \<in> {170, 178, 179, 181, 185, 186, 188, 189, 190} \<or> 192 \<le> n \<and> n \<noteq> 215 \<and> n \<noteq> 247)"

definition word_start :: "char option \<Rightarrow> char \<Rightarrow> bool" where
  "word_start prev c \<longleftrightarrow> (case prev of None \<Rightarrow> py_word c | Some b \<Rightarrow> py_word b \<noteq> py_word c)"

text \<open>A literal of small letters under the flag that ignores case.\<close>

fun rx_nocase :: "string \<Rightarrow> rx" where
  "rx_nocase [] = RxEmpty"
| "rx_nocase (c # cs) = RxSeq (RxChar (\<lambda>x. py_lower_char x = c)) (rx_nocase cs)"

text \<open>
  \<open>rx_sub\<close> scans from left to right; \<open>prev\<close> is the character before the position. The match
  found first by the backtracking engine is replaced, and the scan goes on behind it.
\<close>

function rx_sub :: "rx \<Rightarrow> (rx_env \<Rightarrow> string) \<Rightarrow> char option \<Rightarrow> string \<Rightarrow> string" where
  "rx_sub r put prev [] = []"
| "rx_sub r put prev (c # cs) =
     (case (if word_start prev c then rx_match r [] (c # cs) else []) of
        [] \<Rightarrow> c # rx_sub r put (Some c) cs
      | (env, rest) # _ \<Rightarrow>
          if length cs < length rest then c # rx_sub r put (Some c) cs
          else put env @ rx_sub r put (Some ((c # cs) ! (length cs - length rest))) rest)"
  by pat_completeness auto
termination
  by (relation "measure (\<lambda>(r, put, prev, s). length s)") auto

definition redaction_mark :: string where
  "redaction_mark = ''[REDACTED]''"

definition rx_group :: "rx_env \<Rightarrow> string \<Rightarrow> string" where
  "rx_group env g = (case map_of env g of None \<Rightarrow> [] | Some s \<Rightarrow> s)"

text \<open>\<^verbatim>\<open>[^\s'"&]\<close>\<close>

definition secret_char :: "char \<Rightarrow> bool" where
  "secret_char c \<longleftrightarrow> \<not> py_space c \<and> c \<notin> {CHR 0x27, CHR 0x22, CHR ''&''}"

definition authorization_text :: rx where
  "authorization_text =
     RxSeq (RxGroup ''1'' (RxSeq (rx_nocase ''authorization'') (RxSeq (RxGreedy py_space)
       (RxSeq (RxChar (\<lambda>c. c \<in> {CHR '':'', CHR ''=''})) (RxGreedy py_space)))))
       (rx_plus (\<lambda>c. c \<notin> {CHR 0x27, CHR 0x22, CHR 0x0A}))"

definition bearer_text :: rx where
  "bearer_text = RxSeq (RxGroup ''1'' (RxSeq (rx_nocase ''bearer'') (rx_plus py_space)))
     (rx_plus secret_char)"

definition secret_assignment :: rx where
  "secret_assignment =
     RxSeq (RxGroup ''1''
       (RxAlt (rx_nocase ''token'')
       (RxAlt (RxSeq (rx_nocase ''api'')
          (RxSeq (RxAlt (RxChar (\<lambda>c. c \<in> {CHR ''_'', CHR ''-''})) RxEmpty) (rx_nocase ''key'')))
       (RxAlt (rx_nocase ''secret'') (rx_nocase ''password'')))))
     (RxSeq (RxGroup ''2'' (RxSeq (RxGreedy py_space)
       (RxSeq (RxChar (\<lambda>c. c \<in> {CHR '':'', CHR ''=''})) (RxGreedy py_space))))
       (rx_plus secret_char))"

definition redact_text :: "char \<Rightarrow> nat \<Rightarrow> string \<Rightarrow> string" where
  "redact_text ellip limit value =
     (let first = (\<lambda>env. rx_group env ''1'' @ redaction_mark);
          both = (\<lambda>env. rx_group env ''1'' @ rx_group env ''2'' @ redaction_mark);
          redacted = rx_sub secret_assignment both None
            (rx_sub bearer_text first None (rx_sub authorization_text first None value))
      in if length redacted \<le> limit then redacted else take (limit - 1) redacted @ [ellip])"

subsection \<open>Arguments of a tool call\<close>

definition sensitive_key_markers :: "string list" where
  "sensitive_key_markers =
     [''api_key'', ''apikey'', ''authorization'', ''credential'', ''headers'', ''password'',
      ''secret'', ''token'']"

definition sensitive_key :: "string \<Rightarrow> bool" where
  "sensitive_key key \<longleftrightarrow> (\<exists>m \<in> set sensitive_key_markers. is_substring m (py_lower key))"

function (sequential) redact_value :: "char \<Rightarrow> string \<Rightarrow> json \<Rightarrow> json" where
  "redact_value ellip key v =
     (if sensitive_key key then JStr redaction_mark
      else case v of
        JStr s \<Rightarrow> JStr (redact_text ellip 2000 s)
      | JObj entries \<Rightarrow> JObj (map (\<lambda>(k, x). (k, redact_value ellip k x)) entries)
      | JList xs \<Rightarrow> JList (map (redact_value ellip []) xs)
      | _ \<Rightarrow> v)"
  by pat_completeness auto
termination
  by (relation "measure (\<lambda>(ellip, key, v). size v)")
     (auto intro: size_json_list_mem size_json_obj_mem)

declare redact_value.simps [simp del]

definition content_fields_by_tool :: "(string, string list) dict" where
  "content_fields_by_tool =
     [(''Write'', [''content'']), (''Edit'', [''old_string'', ''new_string'']),
      (''mcp__harness-memory__update_user_memory'', [''content'']),
      (''mcp__harness-memory__propose_memory'', [''content''])]"

definition redact_tool_arguments :: "char \<Rightarrow> string \<Rightarrow> json_obj \<Rightarrow> json_obj" where
  "redact_tool_arguments ellip tool_name arguments =
     foldl (\<lambda>redacted field.
         if dict_has redacted field then dict_set field (JStr redaction_mark) redacted
         else redacted)
       (case redact_value ellip [] (JObj arguments) of JObj entries \<Rightarrow> entries | _ \<Rightarrow> [])
       (dict_get_or content_fields_by_tool tool_name [])"

subsection \<open>Internal instructions\<close>

text \<open>
  \<^verbatim>\<open>str.casefold\<close> differs from \<^verbatim>\<open>str.lower\<close> below 256 for the sharp s, which it doubles, and for
  the micro sign, which it moves out of the code points of the model; neither is a part of a
  marker, so the micro sign is kept.
\<close>

definition py_casefold :: "string \<Rightarrow> string" where
  "py_casefold s = concat (map (\<lambda>c. if of_char c = (223::nat) then ''ss'' else [py_lower_char c]) s)"

fun json_truthy :: "json \<Rightarrow> bool" where
  "json_truthy JNull = False"
| "json_truthy (JBool b) = b"
| "json_truthy (JInt i) = (i \<noteq> 0)"
| "json_truthy (JFloat q) = (q \<noteq> 0)"
| "json_truthy (JStr s) = (s \<noteq> [])"
| "json_truthy (JList xs) = (xs \<noteq> [])"
| "json_truthy (JObj xs) = (xs \<noteq> [])"

definition internal_agent_asset_marker :: string where
  "internal_agent_asset_marker = ''internal_agent_asset_access''"

definition staged_input_read_marker :: string where
  "staged_input_read_marker = ''staged_input_read''"

definition internal_agent_asset_redaction :: string where
  "internal_agent_asset_redaction = ''[Internal Skill or prompt content hidden]''"

definition reading_commands :: "string list" where
  "reading_commands = [''cat '', ''sed '', ''head '', ''tail '', ''grep '', ''rg '', ''awk '']"

definition internal_asset_markers :: "string list" where
  "internal_asset_markers =
     [''/.claude/skills/'', ''.claude/skills/'', ''/.claude/agents/'', ''.claude/agents/'',
      ''/.harness-runtime/'', ''.harness-runtime/'', ''/prompts/system.md'', ''prompts/system.md'',
      ''/systemprompt.md'', ''systemprompt.md'', ''/system-prompt.md'', ''system-prompt.md'',
      ''/system_prompt.md'', ''system_prompt.md'', ''/claude.md'', ''claude.md'']"

definition names_internal_asset :: "string \<Rightarrow> bool" where
  "names_internal_asset candidate \<longleftrightarrow>
     (let normalized = py_casefold
        (map (\<lambda>c. if c = CHR 0x5C then CHR ''/'' else c) candidate)
      in \<exists>m \<in> set internal_asset_markers. is_substring m normalized)"

text \<open>\<^verbatim>\<open>str(payload.get(key, ""))\<close>; \<open>show\<close> is \<^verbatim>\<open>str\<close> of an object, a list or a float.\<close>

definition payload_text :: "(json \<Rightarrow> string) \<Rightarrow> json_obj \<Rightarrow> string \<Rightarrow> string" where
  "payload_text show payload key = py_str show (dict_get_or payload key (JStr []))"

definition internal_agent_asset_access :: "(json \<Rightarrow> string) \<Rightarrow> json_obj \<Rightarrow> bool" where
  "internal_agent_asset_access show payload \<longleftrightarrow>
     (let name = py_casefold (payload_text show payload ''name'');
          marked = json_truthy (dict_get_or payload internal_agent_asset_marker JNull)
      in case dict_get payload ''arguments'' of
           Some (JObj values) \<Rightarrow>
             if name = ''read''
             then (case dict_get_or values ''file_path'' (dict_get_or values ''path'' JNull) of
                     JStr raw \<Rightarrow> names_internal_asset raw \<or> marked
                   | _ \<Rightarrow> marked)
             else if name = ''bash''
             then (case dict_get values ''command'' of
                     Some (JStr command) \<Rightarrow>
                       (\<exists>t \<in> set reading_commands. is_substring t (py_casefold command)) \<and>
                         names_internal_asset command \<or> marked
                   | _ \<Rightarrow> marked)
             else marked
         | _ \<Rightarrow> marked)"

definition hide_internal_content :: "json_obj \<Rightarrow> json_obj" where
  "hide_internal_content payload =
     dict_set ''redaction_reason'' (JStr ''internal_agent_asset'')
       (dict_set ''redacted'' (JBool True)
         (dict_set ''content'' (JStr internal_agent_asset_redaction) payload))"

text \<open>The ids of the calls whose results are hidden are carried along; the caller keeps them.\<close>

fun redact_internal_agent_asset_events ::
  "(json \<Rightarrow> string) \<Rightarrow> run_event list \<Rightarrow> string list \<Rightarrow> run_event list \<times> string list" where
  "redact_internal_agent_asset_events show [] protected = ([], protected)"
| "redact_internal_agent_asset_events show (e # es) protected =
     (let payload = event_payload e;
          call = payload_text show payload ''tool_call_id'';
          protected' = (if event_type e = ''tool.request'' \<and> call \<noteq> [] \<and>
              internal_agent_asset_access show payload
            then List.insert call protected else protected);
          e' = (if event_type e = ''tool.result'' \<and> call \<in> set protected'
            then e\<lparr>event_payload := hide_internal_content payload\<rparr> else e)
      in case redact_internal_agent_asset_events show es protected' of
           (projected, final) \<Rightarrow> (e' # projected, final))"

end
