(* ===== verification/Tool_Gate.thy ===== *)
theory Tool_Gate
  imports Approval_Service Policy_Rules Bash_Safety Redaction
begin

section \<open>The gate every tool call passes\<close>

text \<open>
  \<^verbatim>\<open>src/src/harness/runtime/sdk_tool_gate.py\<close>: the hooks that decide about a tool call before it
  runs and learn from its result. The state of one gate, shared by the hooks of a run, is
  \<open>gate_state\<close>; a hook is a program over it and the world. Where a hook awaits a service, the
  other processes change the world (\<open>d_others\<close>, inside the service) and the other hooks of the
  gate change its state: \<open>gd_hooks n\<close>, arbitrary, for the n-th await. What the file system
  answers is the parameter \<open>gd_files\<close>, which may change at every await. Spans are left out.
\<close>

subsection \<open>Paths\<close>

definition path_join :: "pure_path \<Rightarrow> pure_path \<Rightarrow> pure_path" where
  "path_join p q =
     (if path_is_absolute q then q else p\<lparr>path_tail := path_tail p @ path_tail q\<rparr>)"

definition path_join_parts :: "pure_path \<Rightarrow> string list \<Rightarrow> pure_path" where
  "path_join_parts p parts = p\<lparr>path_tail := path_tail p @ parts\<rparr>"

text \<open>
  \<open>fv_resolve\<close> is \<^verbatim>\<open>Path.resolve(strict=False)\<close> and \<open>fv_resolve_strict\<close> its strict form, \<open>None\<close>
  where they raise an error that the code catches; \<open>fv_references\<close> lists the directories that
  \<^verbatim>\<open>glob("*/references")\<close> finds below a directory.
\<close>

record file_view =
  fv_resolve :: "pure_path \<Rightarrow> pure_path option"
  fv_resolve_strict :: "pure_path \<Rightarrow> pure_path option"
  fv_exists :: "pure_path \<Rightarrow> bool"
  fv_is_file :: "pure_path \<Rightarrow> bool"
  fv_references :: "pure_path \<Rightarrow> pure_path list"

fun index_of :: "'a \<Rightarrow> 'a list \<Rightarrow> nat option" where
  "index_of x [] = None"
| "index_of x (y # ys) = (if x = y then Some 0 else map_option Suc (index_of x ys))"

subsection \<open>The files a run has made\<close>

record file_capabilities =
  fc_workspace :: pure_path
  fc_remote :: "pure_path option"
  fc_protected :: "pure_path list"

record gate_state =
  gt_trust :: context_trust
  gt_pending :: "(string, string \<times> context_trust \<times> string) dict"
  gt_initial_exists :: "(pure_path, bool) dict"
  gt_generated :: "pure_path list"
  gt_writes :: "(string, pure_path) dict"

definition gate_empty :: gate_state where
  "gate_empty = \<lparr>gt_trust = TrustSafe, gt_pending = [], gt_initial_exists = [],
     gt_generated = [], gt_writes = []\<rparr>"

definition normalize_candidate :: "file_capabilities \<Rightarrow> string \<Rightarrow> pure_path" where
  "normalize_candidate fc value =
     (let pure = pure_path_of value; parts = path_parts pure in
      if path_is_absolute pure \<and> 2 \<le> length parts \<and> parts ! 1 = ''workspace''
      then path_join_parts (fc_workspace fc) (drop 2 parts)
      else
        case fc_remote fc of
          Some remote \<Rightarrow>
            if path_is_absolute pure \<and> path_relative_to pure remote
            then path_join_parts (fc_workspace fc) (path_tail (path_below pure remote))
            else path_join (fc_workspace fc) pure
        | None \<Rightarrow> path_join (fc_workspace fc) pure)"

definition fc_normalize :: "file_view \<Rightarrow> file_capabilities \<Rightarrow> string \<Rightarrow> pure_path option" where
  "fc_normalize fv fc value =
     (if py_strip value = [] then None
      else case fv_resolve fv (normalize_candidate fc value) of
        None \<Rightarrow> None
      | Some resolved \<Rightarrow>
          if resolved = fc_workspace fc \<or> \<not> path_relative_to resolved (fc_workspace fc)
          then None else Some resolved)"

definition fc_target :: "file_view \<Rightarrow> file_capabilities \<Rightarrow> json_obj \<Rightarrow> pure_path option" where
  "fc_target fv fc arguments =
     (case dict_get_or arguments ''file_path'' (dict_get_or arguments ''path'' JNull) of
        JStr value \<Rightarrow> fc_normalize fv fc value
      | _ \<Rightarrow> None)"

definition new_file_capabilities ::
  "file_view \<Rightarrow> pure_path \<Rightarrow> string option \<Rightarrow> string list \<Rightarrow> string list \<Rightarrow>
   file_capabilities" where
  "new_file_capabilities fv workspace remote input_files processed =
     (let fc = \<lparr>fc_workspace = workspace, fc_remote = map_option pure_path_of remote,
                fc_protected = []\<rparr>
      in fc\<lparr>fc_protected := List.map_filter (fc_normalize fv fc) (input_files @ processed)\<rparr>)"

text \<open>Where a stale path to a skill file or an input points to now.\<close>

definition skill_candidates :: "file_view \<Rightarrow> file_capabilities \<Rightarrow> string list \<Rightarrow> pure_path list" where
  "skill_candidates fv fc parts =
     (case List.find (\<lambda>i. take 2 (drop i parts) = [''.claude'', ''skills'']) [0..<length parts - 2] of
        Some i \<Rightarrow> [path_join_parts (fc_workspace fc) (drop i parts)]
      | None \<Rightarrow>
          let reference_parts = (case index_of ''references'' parts of
                None \<Rightarrow> [] | Some i \<Rightarrow> drop (i + 1) parts)
          in if reference_parts \<noteq> [] \<and> ''..'' \<notin> set reference_parts
             then map (\<lambda>root. path_join_parts root reference_parts)
               (fv_references fv (path_join_parts (fc_workspace fc) [''.claude'', ''skills'']))
             else [])"

definition skill_matches :: "file_view \<Rightarrow> pure_path \<Rightarrow> pure_path list \<Rightarrow> pure_path list" where
  "skill_matches fv skills_root candidates =
     foldl (\<lambda>matches candidate.
         case fv_resolve fv candidate of
           None \<Rightarrow> matches
         | Some resolved \<Rightarrow>
             if path_relative_to resolved skills_root \<and> fv_is_file fv resolved \<and>
               resolved \<notin> set matches
             then matches @ [resolved] else matches) [] candidates"

definition input_candidate :: "file_view \<Rightarrow> file_capabilities \<Rightarrow> pure_path \<Rightarrow> pure_path option" where
  "input_candidate fv fc pure =
     (case index_of ''inputs'' (path_parts pure) of
        None \<Rightarrow> None
      | Some i \<Rightarrow>
          if \<not> path_is_absolute pure then None
          else
            case fv_resolve_strict fv (path_join_parts (fc_workspace fc) (drop i (path_parts pure))) of
              None \<Rightarrow> None
            | Some resolved \<Rightarrow>
                if path_relative_to resolved (fc_workspace fc) \<and> fv_is_file fv resolved
                then Some resolved else None)"

definition stale_read ::
  "file_view \<Rightarrow> file_capabilities \<Rightarrow> pure_path \<Rightarrow> (string \<Rightarrow> json_obj) \<Rightarrow> json_obj option" where
  "stale_read fv fc pure put =
     (case input_candidate fv fc pure of
        Some resolved \<Rightarrow> Some (put (path_as_posix resolved))
      | None \<Rightarrow>
          let skills_root = path_join_parts (fc_workspace fc) [''.claude'', ''skills''] in
          (case skill_matches fv skills_root (skill_candidates fv fc (path_parts pure)) of
             [match] \<Rightarrow> Some (put (path_as_posix (path_below match (fc_workspace fc))))
           | _ \<Rightarrow> None))"

definition normalize_skill_read ::
  "file_view \<Rightarrow> file_capabilities \<Rightarrow> json_obj \<Rightarrow> json_obj option" where
  "normalize_skill_read fv fc arguments =
     (case dict_get arguments ''file_path'' of
        Some (JStr value) \<Rightarrow>
          if py_strip value = [] then None
          else
            let pure = pure_path_of value; parts = path_parts pure;
                put = (\<lambda>p. dict_set ''file_path'' (JStr p) arguments) in
            (case fc_normalize fv fc value of
               Some current \<Rightarrow>
                 if fv_is_file fv current
                 then if path_is_absolute pure \<and> 2 \<le> length parts \<and> parts ! 1 = ''workspace''
                      then Some (put (path_as_posix current)) else None
                 else stale_read fv fc pure put
             | None \<Rightarrow> stale_read fv fc pure put)
      | _ \<Rightarrow> None)"

definition is_generated :: "gate_state \<Rightarrow> pure_path \<Rightarrow> bool" where
  "is_generated g target \<longleftrightarrow> target \<in> set (gt_generated g)"

definition path_suffix :: "pure_path \<Rightarrow> string" where
  "path_suffix p =
     (let name = path_name p; tail = rev (takeWhile (\<lambda>c. c \<noteq> CHR ''.'') (rev name)) in
      if tail \<noteq> [] \<and> Suc (length tail) < length name then CHR ''.'' # tail else [])"

definition generated_python_files :: "file_capabilities \<Rightarrow> gate_state \<Rightarrow> string list" where
  "generated_python_files fc g =
     concat (map (\<lambda>target.
         if py_lower (path_suffix target) \<noteq> ''.py'' then []
         else
           let below = path_below target (fc_workspace fc); relative = path_as_posix below in
           [relative, ''./'' @ relative, path_as_posix target, ''/workspace/'' @ relative] @
           (case fc_remote fc of
              None \<Rightarrow> []
            | Some remote \<Rightarrow> [path_as_posix (path_join remote below)]))
       (gt_generated g))"

definition gate_observe :: "file_view \<Rightarrow> pure_path \<Rightarrow> gate_state \<Rightarrow> gate_state" where
  "gate_observe fv target g =
     (if dict_has (gt_initial_exists g) target then g
      else g\<lparr>gt_initial_exists := dict_set target (fv_exists fv target) (gt_initial_exists g)\<rparr>)"

definition file_protected :: "file_capabilities \<Rightarrow> pure_path \<Rightarrow> bool" where
  "file_protected fc target \<longleftrightarrow> target \<in> set (fc_protected fc) \<or>
     (case path_tail (path_below target (fc_workspace fc)) of
        [] \<Rightarrow> False | part # _ \<Rightarrow> part = ''inputs'')"

definition note_authorized_write ::
  "file_capabilities \<Rightarrow> string \<Rightarrow> pure_path \<Rightarrow> gate_state \<Rightarrow> herror + gate_state" where
  "note_authorized_write fc call target g =
     (case dict_get (gt_initial_exists g) target of
        None \<Rightarrow> Inl KeyError
      | Some existed \<Rightarrow>
          Inr (if \<not> existed \<and> \<not> file_protected fc target
               then g\<lparr>gt_writes := dict_set call target (gt_writes g)\<rparr> else g))"

subsection \<open>Names\<close>

definition supported_builtins :: "string list" where
  "supported_builtins = [''Read'', ''Write'', ''Edit'', ''Bash'', ''Glob'', ''Grep'']"

definition proxy_prefix :: string where
  "proxy_prefix = ''mcp__harness-sandbox__''"

definition canonical_tool_name :: "string \<Rightarrow> string" where
  "canonical_tool_name name =
     (if \<not> starts_with proxy_prefix name then name
      else
        let candidate = drop (length proxy_prefix) name in
        case List.find (\<lambda>builtin. py_lower builtin = candidate) supported_builtins of
          Some builtin \<Rightarrow> builtin
        | None \<Rightarrow> name)"

definition note_success :: "string \<Rightarrow> string \<Rightarrow> gate_state \<Rightarrow> gate_state" where
  "note_success call tool g =
     (let g' = g\<lparr>gt_writes := dict_pop call (gt_writes g)\<rparr> in
      case dict_get (gt_writes g) call of
        None \<Rightarrow> g'
      | Some target \<Rightarrow>
          if canonical_tool_name tool = ''Write''
          then g'\<lparr>gt_generated := List.insert target (gt_generated g)\<rparr> else g')"

definition note_failure :: "string \<Rightarrow> gate_state \<Rightarrow> gate_state" where
  "note_failure call g = g\<lparr>gt_writes := dict_pop call (gt_writes g)\<rparr>"

definition approval_risk_of :: "string \<Rightarrow> string" where
  "approval_risk_of tool =
     (if tool = ''Bash'' then ''high'' else if tool \<in> {''Write'', ''Edit''} then ''medium'' else ''low'')"

definition approval_argument_keys :: "string list" where
  "approval_argument_keys =
     [''command'', ''file_path'', ''path'', ''query'', ''url'', ''urls'', ''description'',
      ''subagent_type'', ''pattern'', ''glob'']"

fun json_strings :: "json list \<Rightarrow> string list option" where
  "json_strings [] = Some []"
| "json_strings (JStr s # vs) = map_option ((#) s) (json_strings vs)"
| "json_strings (_ # vs) = None"

definition approval_argument_summary_of :: "char \<Rightarrow> json_obj \<Rightarrow> json_obj" where
  "approval_argument_summary_of ellip arguments =
     concat (map (\<lambda>key.
         case dict_get arguments key of
           Some (JStr value) \<Rightarrow> [(key, JStr (redact_text ellip 500 value))]
         | Some (JList values) \<Rightarrow>
             (case json_strings values of
                None \<Rightarrow> []
              | Some items \<Rightarrow> [(key, JList (map (\<lambda>item. JStr (redact_text ellip 200 item)) (take 5 items)))])
         | _ \<Rightarrow> []) approval_argument_keys)"

subsection \<open>What a gate is configured with\<close>

record resolved_policy =
  rp_policy_id :: string
  rp_call_policy :: "policy_rule list"
  rp_result_policy :: "tool_result_policy_rule list"

record runtime_context =
  rc_run :: run
  rc_session :: session
  rc_workspace :: string
  rc_sandbox_provider :: string
  rc_sandbox_isolation :: sandbox_isolation
  rc_remote_workspace :: "string option"
  rc_assistant_message_id :: string
  rc_input_files :: "string list"
  rc_processed_input_paths :: "string list"
  rc_has_executor :: bool
  rc_resolved_policy :: "resolved_policy option"

record tool_gate =
  tg_policy :: "policy_rule list option"
  tg_profiles :: "(string, policy_rule list) dict option"
  tg_quotas :: bool

definition new_tool_gate ::
  "policy_rule list option \<Rightarrow> (string, policy_rule list) dict option \<Rightarrow> bool \<Rightarrow> herror + tool_gate" where
  "new_tool_gate policy profiles quotas =
     (if (policy = None) = (profiles = None)
      then Inl (ValueError ''configure exactly one policy engine or profile registry'')
      else Inr \<lparr>tg_policy = policy, tg_profiles = profiles, tg_quotas = quotas\<rparr>)"

record gate_config =
  gc_context :: runtime_context
  gc_policy_id :: string
  gc_policy :: "policy_rule list"
  gc_subagents :: "(string, string \<times> policy_rule list) dict"
  gc_result_trust :: "(string, context_trust) dict"
  gc_files :: file_capabilities
  gc_quotas :: bool

definition gate_policy :: "tool_gate \<Rightarrow> runtime_context \<Rightarrow> string \<Rightarrow> herror + policy_rule list" where
  "gate_policy gate context active =
     (case rc_resolved_policy context of
        Some rp \<Rightarrow> Inr (rp_call_policy rp)
      | None \<Rightarrow>
          (case tg_profiles gate of
             Some profiles \<Rightarrow> policy_resolve profiles active
           | None \<Rightarrow>
               (case tg_policy gate of
                  Some rules \<Rightarrow> Inr rules
                | None \<Rightarrow> Inl (RuntimeError ''assertion failed''))))"

fun gate_subagents ::
  "tool_gate \<Rightarrow> string \<Rightarrow> policy_rule list \<Rightarrow> (string \<times> string) list \<Rightarrow>
   herror + (string, string \<times> policy_rule list) dict" where
  "gate_subagents gate active rules [] = Inr []"
| "gate_subagents gate active rules ((name, child) # rest) =
     (case (case tg_profiles gate of
              None \<Rightarrow> Inr (active, rules)
            | Some profiles \<Rightarrow> map_sum id (Pair child) (policy_resolve profiles child)) of
        Inl e \<Rightarrow> Inl e
      | Inr entry \<Rightarrow> map_sum id (\<lambda>subagents. (name, entry) # subagents)
          (gate_subagents gate active rules rest))"

definition gate_hooks ::
  "file_view \<Rightarrow> tool_gate \<Rightarrow> runtime_context \<Rightarrow> string option \<Rightarrow> (string, string) dict \<Rightarrow>
   (string, context_trust) dict \<Rightarrow> herror + gate_config" where
  "gate_hooks fv gate context wanted subagent_policy_ids result_trust =
     (let active = (case rc_resolved_policy context of
            Some rp \<Rightarrow> rp_policy_id rp | None \<Rightarrow> str_or wanted ''local-standard'')
      in case gate_policy gate context active of
           Inl e \<Rightarrow> Inl e
         | Inr rules \<Rightarrow>
             (case gate_subagents gate active rules subagent_policy_ids of
                Inl e \<Rightarrow> Inl e
              | Inr subagents \<Rightarrow>
                  (case fv_resolve fv (pure_path_of (rc_workspace context)) of
                     None \<Rightarrow> Inl (RuntimeError ''workspace'')
                   | Some workspace \<Rightarrow>
                       Inr \<lparr>gc_context = context, gc_policy_id = active, gc_policy = rules,
                            gc_subagents = subagents, gc_result_trust = result_trust,
                            gc_files = new_file_capabilities fv workspace
                              (rc_remote_workspace context) (rc_input_files context)
                              (rc_processed_input_paths context),
                            gc_quotas = tg_quotas gate\<rparr>)))"

record hook_input =
  hi_tool_name :: string
  hi_tool_use_id :: string
  hi_tool_input :: json_obj
  hi_agent_type :: "string option"
  hi_agent_id :: "string option"

record hook_output =
  ho_decision :: string
  ho_reason :: string
  ho_updated_input :: "json_obj option"

definition hook_output_of :: "string \<Rightarrow> string \<Rightarrow> json_obj option \<Rightarrow> hook_output" where
  "hook_output_of decision reason updated =
     \<lparr>ho_decision = decision, ho_reason = reason, ho_updated_input = updated\<rparr>"

subsection \<open>The decision\<close>

text \<open>
  What the gate is constructed with: the approval service and the others share \<open>gd_services\<close>.
  \<open>gd_show\<close> is \<^verbatim>\<open>str\<close> of an object, a list or a float and \<open>gd_parse\<close> the Python parser.
\<close>

record gate_deps =
  gd_services :: approval_deps
  gd_hooks :: "nat \<Rightarrow> gate_state \<Rightarrow> gate_state"
  gd_files :: "nat \<Rightarrow> file_view"
  gd_show :: "json \<Rightarrow> string"
  gd_parse :: "string \<Rightarrow> py_node option"
  gd_ellipsis :: char

type_synonym 'a ghandler = "(gate_state \<times> world, herror, 'a) prog"

definition shared :: "gate_deps \<Rightarrow> 'a handler \<Rightarrow> 'a ghandler" where
  "shared d m = (\<lambda>(g, w). case m w of (r, t) \<Rightarrow> (r, (gd_hooks d (w_awaits t) g, t)))"

definition files_now :: "gate_deps \<Rightarrow> file_view ghandler" where
  "files_now d = readP (\<lambda>(g, w). gd_files d (w_awaits w))"

definition gate_read :: "(gate_state \<Rightarrow> 'a) \<Rightarrow> 'a ghandler" where
  "gate_read f = readP (\<lambda>(g, w). f g)"

definition gate_update :: "(gate_state \<Rightarrow> gate_state) \<Rightarrow> unit ghandler" where
  "gate_update f = modifyP (\<lambda>(g, w). (f g, w))"

fun context_trust_value :: "context_trust \<Rightarrow> string" where
  "context_trust_value TrustSafe = ''safe''"
| "context_trust_value TrustSensitive = ''sensitive''"
| "context_trust_value TrustUntrusted = ''untrusted''"

fun sandbox_isolation_value :: "sandbox_isolation \<Rightarrow> string" where
  "sandbox_isolation_value IsolationWorkspace = ''workspace''"
| "sandbox_isolation_value IsolationContainer = ''container''"

text \<open>The role a delegation asks for: the first key that holds a text.\<close>

definition requested_alias :: "json_obj \<Rightarrow> string" where
  "requested_alias arguments =
     (case List.map_filter (\<lambda>key. case dict_get arguments key of
               Some (JStr s) \<Rightarrow> if s = [] then None else Some s | _ \<Rightarrow> None)
             [''subagent_type'', ''agent'', ''name''] of
        [] \<Rightarrow> [] | s # _ \<Rightarrow> s)"

definition delegation_refused :: "gate_config \<Rightarrow> string \<Rightarrow> json_obj \<Rightarrow> bool" where
  "delegation_refused cfg tool arguments \<longleftrightarrow> tool \<in> {''Task'', ''Agent''} \<and> gc_subagents cfg \<noteq> [] \<and>
     \<not> dict_has (gc_subagents cfg) (requested_alias arguments)"

definition mcp_prefix :: string where
  "mcp_prefix = ''mcp__''"

definition bundle_prefix :: string where
  "bundle_prefix = ''mcp__harness-python-''"

definition gate_bash_env :: "gate_deps \<Rightarrow> gate_config \<Rightarrow> gate_state \<Rightarrow> bash_env" where
  "gate_bash_env d cfg g =
     \<lparr>bash_workspace = rc_workspace (gc_context cfg),
      bash_remote = rc_remote_workspace (gc_context cfg),
      bash_generated = generated_python_files (gc_files cfg) g, bash_parse = gd_parse d\<rparr>"

definition gate_policy_context ::
  "gate_config \<Rightarrow> string \<Rightarrow> json_obj \<Rightarrow> context_trust \<Rightarrow> policy_context" where
  "gate_policy_context cfg tool arguments trust =
     \<lparr>context_tenant_id = run_tenant_id (rc_run (gc_context cfg)),
      context_agent_name = session_agent_name (rc_session (gc_context cfg)),
      context_tool_name = tool, context_arguments = arguments,
      context_sandbox_isolation = rc_sandbox_isolation (gc_context cfg),
      context_trust_level = trust\<rparr>"

definition allowed_by :: "string \<Rightarrow> string \<Rightarrow> policy_result" where
  "allowed_by rule reason =
     \<lparr>result_decision = PolicyAllow, result_rule_name = rule, result_reason = reason\<rparr>"

text \<open>
  The verdict: the policy decides unless the target was made by this run; a low-risk command, a
  declared remote tool that no rule names and a declared tool of the bundle are let through.
\<close>

definition tool_verdict ::
  "gate_deps \<Rightarrow> gate_config \<Rightarrow> policy_rule list \<Rightarrow> hook_input \<Rightarrow> json_obj \<Rightarrow> context_trust \<Rightarrow>
   pure_path option \<Rightarrow> gate_state \<Rightarrow> policy_result" where
  "tool_verdict d cfg rules hi arguments trust target g =
     (let raw = hi_tool_name hi; tool = canonical_tool_name raw;
          declared = (\<lambda>name. dict_has (gc_result_trust cfg) name);
          r1 = (if (case target of None \<Rightarrow> False | Some p \<Rightarrow> is_generated g p)
            then allowed_by ''run-generated-file'' ''matched run-created file capability''
            else policy_evaluate (gd_show d) rules (gate_policy_context cfg tool arguments trust));
          r2 = (if tool = ''Bash'' \<and> result_decision r1 = PolicyAsk \<and>
              sandboxed_bash_is_low_risk (gate_bash_env d cfg g)
                (payload_text (gd_show d) arguments ''command'')
            then allowed_by ''sandbox-low-risk-bash'' ''matched sandbox low-risk Bash policy''
            else r1);
          r3 = (if result_decision r2 = PolicyDeny \<and> result_rule_name r2 = ''implicit-deny'' \<and>
              starts_with mcp_prefix raw \<and> \<not> starts_with bundle_prefix raw \<and>
              (declared raw \<or> declared tool)
            then allowed_by ''published-mcp-tool''
              ''matched MCP tool declared by the published Agent tool directory''
            else r2)
      in if result_decision r3 = PolicyDeny \<and> starts_with bundle_prefix raw \<and> declared raw \<and>
           rc_has_executor (gc_context cfg)
         then allowed_by ''declared-sandbox-python-tool''
           ''matched declared Bundle Python tool in isolated Sandbox''
         else r3)"

subsection \<open>Authorizing a call\<close>

definition gate_event :: "gate_deps \<Rightarrow> gate_config \<Rightarrow> string \<Rightarrow> json_obj \<Rightarrow> unit ghandler" where
  "gate_event d cfg type payload =
     (let r = rc_run (gc_context cfg) in
      thenP (shared d (event_service_append (gd_services d) (run_tenant_id r) (run_id r)
               (run_session_id r) type payload)) (ret ()))"

definition append_denied :: "gate_deps \<Rightarrow> gate_config \<Rightarrow> string \<Rightarrow> string \<Rightarrow> unit ghandler" where
  "append_denied d cfg call reason =
     gate_event d cfg ''tool.result''
       [(''tool_call_id'', JStr call), (''is_error'', JBool True),
        (''error'', JObj [(''code'', JStr ''policy_denied''), (''message'', JStr reason)])]"

definition deny_call :: "gate_deps \<Rightarrow> gate_config \<Rightarrow> string \<Rightarrow> string \<Rightarrow> hook_output ghandler" where
  "deny_call d cfg call reason =
     thenP (append_denied d cfg call reason) (ret (hook_output_of ''deny'' reason None))"

text \<open>The arguments the tool will run with, when the gate changes them.\<close>

definition updated_arguments :: "file_view \<Rightarrow> gate_config \<Rightarrow> string \<Rightarrow> json_obj \<Rightarrow> json_obj option" where
  "updated_arguments fv cfg tool arguments =
     (let moved = (if tool = ''Read'' then normalize_skill_read fv (gc_files cfg) arguments else None)
      in if tool = ''Read'' \<and> dict_get arguments ''pages'' = Some (JStr [])
         then Some (dict_pop ''pages'' (case moved of
           None \<Rightarrow> arguments | Some a \<Rightarrow> if a = [] then arguments else a))
         else moved)"

fun staged_input_paths ::
  "file_view \<Rightarrow> pure_path \<Rightarrow> string list \<Rightarrow> herror + (pure_path, string) dict" where
  "staged_input_paths fv workspace [] = Inr []"
| "staged_input_paths fv workspace (relative # rest) =
     (case fv_resolve fv (path_join workspace (pure_path_of relative)) of
        None \<Rightarrow> Inl (RuntimeError relative)
      | Some p \<Rightarrow> map_sum id (\<lambda>staged. if dict_has staged p then staged else (p, relative) # staged)
          (staged_input_paths fv workspace rest))"

definition staged_read_path ::
  "file_view \<Rightarrow> pure_path \<Rightarrow> (pure_path, string) dict \<Rightarrow> string \<Rightarrow> json_obj \<Rightarrow> string option" where
  "staged_read_path fv workspace staged tool arguments =
     (if py_casefold tool \<noteq> ''read'' then None
      else case dict_get arguments ''file_path'' of
        Some (JStr raw) \<Rightarrow>
          if raw = [] then None
          else (case fv_resolve fv (path_join workspace (pure_path_of raw)) of
                  None \<Rightarrow> None | Some p \<Rightarrow> dict_get staged p)
      | _ \<Rightarrow> None)"

definition request_payload ::
  "gate_deps \<Rightarrow> gate_config \<Rightarrow> string \<Rightarrow> hook_input \<Rightarrow> json_obj \<Rightarrow> context_trust \<Rightarrow>
   string option \<Rightarrow> json_obj" where
  "request_payload d cfg pid hi arguments trust relative =
     (let context = gc_context cfg; tool = canonical_tool_name (hi_tool_name hi);
          base = [(''name'', JStr tool), (''tool_call_id'', JStr (hi_tool_use_id hi)),
            (''arguments'', JObj arguments), (''policy_checked'', JBool True),
            (''policy_profile'', JStr pid), (''context_trust'', JStr (context_trust_value trust)),
            (''message_id'', JStr (rc_assistant_message_id context)),
            (''sandbox'', JObj [(''provider'', JStr (rc_sandbox_provider context)),
               (''isolation'', JStr (sandbox_isolation_value (rc_sandbox_isolation context)))])];
          staged = (case relative of
              None \<Rightarrow> base
            | Some path \<Rightarrow> dict_set staged_input_read_marker (JBool True)
                (dict_set ''arguments'' (JObj (dict_set ''file_path'' (JStr path) arguments)) base));
          marked = (if internal_agent_asset_access (gd_show d) staged
            then dict_set internal_agent_asset_marker (JBool True) staged else staged);
          audited = (case dict_get marked ''arguments'' of
              Some (JObj audit) \<Rightarrow> dict_set ''arguments''
                (JObj (redact_tool_arguments (gd_ellipsis d) tool audit)) marked
            | _ \<Rightarrow> marked)
      in case hi_agent_id hi of
           None \<Rightarrow> audited
         | Some i \<Rightarrow> if i = [] then audited else dict_set ''agent_id'' (JStr i) audited)"

definition approval_call_of ::
  "gate_deps \<Rightarrow> gate_config \<Rightarrow> hook_input \<Rightarrow> json_obj \<Rightarrow> policy_result \<Rightarrow> approval_call" where
  "approval_call_of d cfg hi arguments result =
     (let context = gc_context cfg; tool = canonical_tool_name (hi_tool_name hi) in
      \<lparr>call_tool_call_id = hi_tool_use_id hi, call_reason = result_reason result,
       call_message_id = Some (rc_assistant_message_id context), call_inline = True,
       call_tool_name = Some tool,
       call_argument_summary = Some (approval_argument_summary_of (gd_ellipsis d) arguments),
       call_sandbox_provider = Some (rc_sandbox_provider context),
       call_sandbox_isolation = Some (sandbox_isolation_value (rc_sandbox_isolation context)),
       call_policy_rule = Some (result_rule_name result), call_risk = Some (approval_risk_of tool)\<rparr>)"

text \<open>
  A wait that is cut off after \<open>d_rounds\<close> rounds is the cancelled task: the waiter is dropped, the
  approval is cancelled and the exception goes on.
\<close>

definition await_approval ::
  "gate_deps \<Rightarrow> gate_config \<Rightarrow> hook_input \<Rightarrow> json_obj \<Rightarrow> policy_result \<Rightarrow>
   approval_status ghandler" where
  "await_approval d cfg hi arguments result =
     (let r = rc_run (gc_context cfg) in
      bindP (shared d (approvals_request (gd_services d) (run_tenant_id r) (run_id r)
               (approval_call_of d cfg hi arguments result))) (\<lambda>approval.
        catchP (shared d (wait_for_decision (gd_services d) (approval_id approval))) (\<lambda>e.
          if e = NotReturned
          then thenP (shared d (cancel_pending (gd_services d) (run_tenant_id r)
                        (approval_id approval) ''tool authorization wait interrupted''))
                 (raise e)
          else raise e)))"

definition gate_caller :: "gate_config \<Rightarrow> quota_caller" where
  "gate_caller cfg =
     \<lparr>caller_organization_id = None, caller_team_ids = [], caller_user_id = None,
      caller_agent_name = Some (session_agent_name (rc_session (gc_context cfg))),
      caller_environment = session_environment (rc_session (gc_context cfg)),
      caller_api_key_id = None\<rparr>"

definition subagent_key :: "gate_config \<Rightarrow> string \<Rightarrow> string" where
  "subagent_key cfg call = ''run:'' @ run_id (rc_run (gc_context cfg)) @ '':subagent:'' @ call"

definition charge_call :: "gate_deps \<Rightarrow> gate_config \<Rightarrow> hook_input \<Rightarrow> unit ghandler" where
  "charge_call d cfg hi =
     (let r = rc_run (gc_context cfg); raw = hi_tool_name hi; call = hi_tool_use_id hi in
      if \<not> gc_quotas cfg then ret ()
      else if starts_with mcp_prefix raw
      then thenP (shared d (quota_service_consume (gd_services d) (run_tenant_id r) McpRequests 1
             (run_id r) (''run:'' @ run_id r @ '':mcp:'' @ call) (gate_caller cfg))) (ret ())
      else if canonical_tool_name raw \<in> {''Task'', ''Agent''}
      then thenP (shared d (quota_service_reserve (gd_services d) (run_tenant_id r)
             ConcurrentSubagents 1 (run_id r) (subagent_key cfg call) (gate_caller cfg) 3600)) (ret ())
      else ret ())"

definition allow_call ::
  "gate_deps \<Rightarrow> gate_config \<Rightarrow> hook_input \<Rightarrow> string \<Rightarrow> json_obj option \<Rightarrow> hook_output ghandler" where
  "allow_call d cfg hi reason updated =
     bindP (tryP (charge_call d cfg hi)) (\<lambda>outcome.
       case outcome of
         Inl e \<Rightarrow>
           (case e of
              QuotaExceededError res _ _ _ \<Rightarrow>
                deny_call d cfg (hi_tool_use_id hi) (''quota exceeded for '' @ res)
            | _ \<Rightarrow> raise e)
       | Inr _ \<Rightarrow>
           thenP (gate_event d cfg ''tool.allowed'' [(''tool_call_id'', JStr (hi_tool_use_id hi))])
             (ret (hook_output_of ''allow'' reason updated)))"

definition note_write :: "gate_config \<Rightarrow> hook_input \<Rightarrow> pure_path option \<Rightarrow> unit ghandler" where
  "note_write cfg hi target =
     (case target of
        None \<Rightarrow> ret ()
      | Some p \<Rightarrow>
          if canonical_tool_name (hi_tool_name hi) \<noteq> ''Write'' then ret ()
          else (\<lambda>(g, w). case note_authorized_write (gc_files cfg) (hi_tool_use_id hi) p g of
                 Inl e \<Rightarrow> (Inl e, (g, w)) | Inr g' \<Rightarrow> (Inr (), (g', w))))"

definition carry_out ::
  "gate_deps \<Rightarrow> gate_config \<Rightarrow> hook_input \<Rightarrow> json_obj \<Rightarrow> json_obj option \<Rightarrow> pure_path option \<Rightarrow>
   policy_result \<Rightarrow> hook_output ghandler" where
  "carry_out d cfg hi arguments updated target result =
     (let go = thenP (note_write cfg hi target) (allow_call d cfg hi (result_reason result) updated) in
      case result_decision result of
        PolicyDeny \<Rightarrow> deny_call d cfg (hi_tool_use_id hi) (result_reason result)
      | PolicyAsk \<Rightarrow>
          bindP (await_approval d cfg hi arguments result) (\<lambda>decision.
            if decision \<noteq> ApprovalApproved
            then ret (hook_output_of ''deny'' ''tool use was not approved'' None) else go)
      | PolicyAllow \<Rightarrow> go)"

definition judge ::
  "gate_deps \<Rightarrow> gate_config \<Rightarrow> policy_rule list \<Rightarrow> hook_input \<Rightarrow> json_obj \<Rightarrow> json_obj option \<Rightarrow>
   context_trust \<Rightarrow> pure_path option \<Rightarrow> hook_output ghandler" where
  "judge d cfg rules hi arguments updated trust target =
     bindP (gate_read (tool_verdict d cfg rules hi arguments trust target))
       (carry_out d cfg hi arguments updated target)"

definition decide_call ::
  "gate_deps \<Rightarrow> gate_config \<Rightarrow> policy_rule list \<Rightarrow> hook_input \<Rightarrow> json_obj \<Rightarrow> json_obj option \<Rightarrow>
   context_trust \<Rightarrow> hook_output ghandler" where
  "decide_call d cfg rules hi arguments updated trust =
     (let tool = canonical_tool_name (hi_tool_name hi) in
      if delegation_refused cfg tool arguments
      then deny_call d cfg (hi_tool_use_id hi)
        ''subagent role is not declared by the published Agent Manifest''
      else if tool \<notin> {''Write'', ''Edit''}
      then judge d cfg rules hi arguments updated trust None
      else bindP (files_now d) (\<lambda>fv.
        case fc_target fv (gc_files cfg) arguments of
          None \<Rightarrow> deny_call d cfg (hi_tool_use_id hi)
            ''write path must stay within the run workspace''
        | Some p \<Rightarrow> thenP (gate_update (gate_observe fv p))
            (judge d cfg rules hi arguments updated trust (Some p))))"

definition authorize ::
  "gate_deps \<Rightarrow> gate_config \<Rightarrow> string \<times> policy_rule list \<Rightarrow> hook_input \<Rightarrow> context_trust \<Rightarrow>
   hook_output ghandler" where
  "authorize d cfg policy hi trust =
     bindP (files_now d) (\<lambda>fv.
       let tool = canonical_tool_name (hi_tool_name hi);
           updated = updated_arguments fv cfg tool (hi_tool_input hi);
           arguments = (case updated of None \<Rightarrow> hi_tool_input hi | Some a \<Rightarrow> a);
           workspace = pure_path_of (rc_workspace (gc_context cfg))
       in case staged_input_paths fv workspace (rc_input_files (gc_context cfg)) of
            Inl e \<Rightarrow> raise e
          | Inr staged \<Rightarrow>
              thenP (gate_event d cfg ''tool.request''
                (request_payload d cfg (fst policy) hi arguments trust
                  (staged_read_path fv workspace staged tool arguments)))
              (decide_call d cfg (snd policy) hi arguments updated trust))"

subsection \<open>The hooks\<close>

definition select_policy :: "gate_config \<Rightarrow> hook_input \<Rightarrow> string \<times> policy_rule list" where
  "select_policy cfg hi =
     (let main = (gc_policy_id cfg, gc_policy cfg); agents = gc_subagents cfg;
          agent_type = str_or (hi_agent_type hi) []; agent_id = str_or (hi_agent_id hi) [];
          key = (if dict_has agents agent_type then agent_type
                 else if dict_has agents agent_id then agent_id else [])
      in if agents = [] then main
         else case (if key = [] then None else dict_get agents key) of
           Some entry \<Rightarrow> entry
         | None \<Rightarrow> if agent_type \<noteq> [] \<or> agent_id \<noteq> [] then (''unknown-subagent'', []) else main)"

text \<open>The trust of what the call will return, and the rule that says so.\<close>

definition expected_trust :: "gate_config \<Rightarrow> hook_input \<Rightarrow> context_trust \<times> string" where
  "expected_trust cfg hi =
     (let tool = canonical_tool_name (hi_tool_name hi);
          catalog = dict_get_or (gc_result_trust cfg) (hi_tool_name hi)
            (dict_get_or (gc_result_trust cfg) tool TrustSafe)
      in case rc_resolved_policy (gc_context cfg) of
           None \<Rightarrow> (catalog, ''tool-catalog'')
         | Some rp \<Rightarrow>
             let result = result_evaluate (rp_result_policy rp) tool
                   (str_or (hi_agent_type hi) (str_or (hi_agent_id hi)
                     (session_agent_name (rc_session (gc_context cfg)))));
                 trust = stricter_trust catalog (tresult_trust result)
             in (trust, if trust = tresult_trust result then tresult_rule_name result
                        else ''tool-catalog''))"

definition note_expected :: "gate_config \<Rightarrow> hook_input \<Rightarrow> gate_state \<Rightarrow> gate_state" where
  "note_expected cfg hi g =
     (case expected_trust cfg hi of (trust, rule) \<Rightarrow>
        if trust = TrustSafe then g
        else g\<lparr>gt_pending := dict_set (hi_tool_use_id hi)
          (canonical_tool_name (hi_tool_name hi), trust, rule) (gt_pending g)\<rparr>)"

definition forget_expected :: "hook_input \<Rightarrow> gate_state \<Rightarrow> gate_state" where
  "forget_expected hi g = g\<lparr>gt_pending := dict_pop (hi_tool_use_id hi) (gt_pending g)\<rparr>"

definition pre_tool_use :: "gate_deps \<Rightarrow> gate_config \<Rightarrow> hook_input \<Rightarrow> hook_output ghandler" where
  "pre_tool_use d cfg hi =
     thenP (gate_update (note_expected cfg hi))
     (bindP (gate_read gt_trust) (\<lambda>trust.
      bindP (authorize d cfg (select_policy cfg hi) hi trust) (\<lambda>output.
        thenP (whenP (ho_decision output = ''deny'') (gate_update (forget_expected hi)))
          (ret output))))"

definition post_tool_use :: "hook_input \<Rightarrow> unit ghandler" where
  "post_tool_use hi = gate_update (note_success (hi_tool_use_id hi) (hi_tool_name hi))"

definition post_tool_use_failure :: "hook_input \<Rightarrow> unit ghandler" where
  "post_tool_use_failure hi = gate_update (note_failure (hi_tool_use_id hi))"

definition trust_changed_payload ::
  "string \<Rightarrow> string \<Rightarrow> context_trust \<Rightarrow> context_trust \<Rightarrow> string \<Rightarrow> json_obj" where
  "trust_changed_payload call tool earlier later rule =
     [(''tool_call_id'', JStr call), (''tool_name'', JStr tool),
      (''previous'', JStr (context_trust_value earlier)),
      (''current'', JStr (context_trust_value later))] @
     (if rule = ''tool-catalog'' then [] else [(''policy_rule'', JStr rule)])"

definition trace_tool_success :: "gate_deps \<Rightarrow> gate_config \<Rightarrow> hook_input \<Rightarrow> unit ghandler" where
  "trace_tool_success d cfg hi =
     bindP (gate_read (\<lambda>g. (dict_get (gt_pending g) (hi_tool_use_id hi), gt_trust g))) (\<lambda>found.
     thenP (gate_update (forget_expected hi))
     (case found of
        (Some (tool, trust, rule), current) \<Rightarrow>
          whenP (trust_precedence current < trust_precedence trust)
            (thenP (gate_update (\<lambda>g. g\<lparr>gt_trust := trust\<rparr>))
              (gate_event d cfg ''context.trust.changed''
                (trust_changed_payload (hi_tool_use_id hi) tool current trust rule)))
      | (None, _) \<Rightarrow> ret ()))"

definition trace_tool_failure :: "hook_input \<Rightarrow> unit ghandler" where
  "trace_tool_failure hi = gate_update (forget_expected hi)"

definition release_delegation :: "gate_deps \<Rightarrow> gate_config \<Rightarrow> hook_input \<Rightarrow> unit ghandler" where
  "release_delegation d cfg hi =
     (if \<not> gc_quotas cfg then ret ()
      else thenP (shared d (release_idempotency (gd_services d)
             (run_tenant_id (rc_run (gc_context cfg))) (subagent_key cfg (hi_tool_use_id hi))))
        (ret ()))"

datatype gate_hook =
    PreToolUse hook_input
  | PostToolUse hook_input
  | PostToolUseFailure hook_input
  | ToolSucceeded hook_input
  | ToolFailed hook_input
  | DelegationEnded hook_input

fun perform_hook :: "gate_deps \<Rightarrow> gate_config \<Rightarrow> gate_hook \<Rightarrow> unit ghandler" where
  "perform_hook d cfg (PreToolUse hi) = thenP (pre_tool_use d cfg hi) (ret ())"
| "perform_hook d cfg (PostToolUse hi) = post_tool_use hi"
| "perform_hook d cfg (PostToolUseFailure hi) = post_tool_use_failure hi"
| "perform_hook d cfg (ToolSucceeded hi) = trace_tool_success d cfg hi"
| "perform_hook d cfg (ToolFailed hi) = trace_tool_failure hi"
| "perform_hook d cfg (DelegationEnded hi) = release_delegation d cfg hi"

inductive gate_steps ::
  "gate_deps \<Rightarrow> gate_config \<Rightarrow> gate_state \<times> world \<Rightarrow> gate_state \<times> world \<Rightarrow> bool" for d cfg where
  none: "gate_steps d cfg s s"
| hook: "gate_steps d cfg s t \<Longrightarrow> perform_hook d cfg h t = (r, u) \<Longrightarrow> gate_steps d cfg s u"

end
