(* ===== verification/Subagent_Governor.thy ===== *)
theory Subagent_Governor
  imports Redaction
begin

section \<open>The governor of subagents\<close>

text \<open>
  \<^verbatim>\<open>src/src/harness/runtime/subagent_governance.py\<close>: a state machine beside the event stream
  of one run. It knows the roles the published manifest declares (the bindings), follows the
  delegations the lead agent requests, and turns lifecycle events of subagents into events that
  carry the role, or raises. \<open>show\<close> is \<^verbatim>\<open>str()\<close> on values that are not strings, \<open>validate\<close> the
  parser of a stored manifest snapshot (only what the governor reads of it is in
  \<open>governed_manifest\<close>). A reading of the monotonic clock is a rational number of seconds and the
  argument \<open>now\<close>; Python's rounding of the difference to a float is not modelled. The tracing
  spans are not part of the model. The \<open>name\<close> of a tool request is taken to be hashable.
\<close>

record limit_spec =
  limit_timeout_seconds :: "int option"
  limit_max_subagents :: int
  limit_max_subagent_tasks :: int
  limit_max_concurrent_subagents :: int
  limit_max_subagent_usage_units :: "int option"

record subagent_spec =
  subagent_ref :: string
  subagent_alias :: "string option"

record governed_manifest =
  gm_subagents :: "subagent_spec list"
  gm_policy :: string
  gm_limits :: limit_spec

record subagent_binding =
  binding_alias :: string
  binding_agent_name :: string
  binding_agent_version :: string
  binding_policy :: string
  binding_timeout_seconds :: "int option"

record task_state =
  task_state_id :: string
  task_state_binding :: subagent_binding
  task_state_started_at :: rat
  task_state_parent :: "string option"

record governor =
  gov_limits :: limit_spec
  gov_bindings :: "(string, subagent_binding) dict"
  gov_tool_aliases :: "(string, string) dict"
  gov_tasks :: "(string, task_state) dict"
  gov_started :: "string list"

record runtime_event =
  re_type :: string
  re_payload :: json_obj

type_synonym 'a governed = "(governor, herror, 'a) prog"

subsection \<open>Construction\<close>

text \<open>\<^verbatim>\<open>rpartition("@")\<close>: the parts around the last \<^verbatim>\<open>@\<close>, when there is one.\<close>

definition split_reference :: "string \<Rightarrow> (string \<times> string) option" where
  "split_reference ref =
     (if CHR ''@'' \<notin> set ref then None
      else Some (rev (tl (dropWhile (\<lambda>c. c \<noteq> CHR ''@'') (rev ref))),
                 rev (takeWhile (\<lambda>c. c \<noteq> CHR ''@'') (rev ref))))"

definition subagent_runtime_name :: "subagent_spec \<Rightarrow> string" where
  "subagent_runtime_name s =
     str_or (subagent_alias s)
       (case split_reference (subagent_ref s) of None \<Rightarrow> subagent_ref s | Some (name, _) \<Rightarrow> name)"

definition declared_subagents :: "governed_manifest \<Rightarrow> (string, subagent_spec) dict" where
  "declared_subagents lead =
     foldl (\<lambda>d s. dict_set (subagent_runtime_name s) s d) [] (gm_subagents lead)"

fun bind_versions ::
  "(json_obj \<Rightarrow> herror + governed_manifest) \<Rightarrow> (string, agent_version) dict \<Rightarrow>
   (string, subagent_binding) dict \<Rightarrow> herror + (string, subagent_binding) dict" where
  "bind_versions validate [] bindings = Inr bindings"
| "bind_versions validate ((alias, v) # versions) bindings =
     (case validate (version_snapshot v) of
        Inl e \<Rightarrow> Inl e
      | Inr snapshot \<Rightarrow>
          if gm_subagents snapshot \<noteq> []
          then Inl (RuntimeError
            (''nested delegation is not supported: '' @ alias @ '' declares subagents''))
          else bind_versions validate versions (dict_set alias
            \<lparr>binding_alias = alias, binding_agent_name = version_name v,
             binding_agent_version = version_version v, binding_policy = gm_policy snapshot,
             binding_timeout_seconds = limit_timeout_seconds (gm_limits snapshot)\<rparr> bindings))"

fun bind_declared ::
  "governed_manifest \<Rightarrow> (string, subagent_spec) dict \<Rightarrow> (string, subagent_binding) dict \<Rightarrow>
   herror + (string, subagent_binding) dict" where
  "bind_declared lead [] bindings = Inr bindings"
| "bind_declared lead ((alias, s) # declared) bindings =
     (case split_reference (subagent_ref s) of
        None \<Rightarrow> Inl (RuntimeError (''subagent reference is not pinned: '' @ subagent_ref s))
      | Some (name, ver) \<Rightarrow>
          bind_declared lead declared (dict_set alias
            \<lparr>binding_alias = alias, binding_agent_name = name, binding_agent_version = ver,
             binding_policy = gm_policy lead,
             binding_timeout_seconds = limit_timeout_seconds (gm_limits lead)\<rparr> bindings))"

definition string_set_diff :: "string list \<Rightarrow> string list \<Rightarrow> json" where
  "string_set_diff xs ys = JList (map JStr (py_sorted id (filter (\<lambda>x. x \<notin> set ys) xs)))"

definition governor_new ::
  "(json \<Rightarrow> string) \<Rightarrow> (json_obj \<Rightarrow> herror + governed_manifest) \<Rightarrow> governed_manifest \<Rightarrow>
   (string, agent_version) dict \<Rightarrow> herror + governor" where
  "governor_new show validate lead versions =
     (let declared = declared_subagents lead; limits = gm_limits lead;
          start = (\<lambda>bindings. \<lparr>gov_limits = limits, gov_bindings = bindings,
            gov_tool_aliases = [], gov_tasks = [], gov_started = []\<rparr>)
      in if versions \<noteq> [] \<and> set (map fst declared) \<noteq> set (map fst versions)
         then Inl (RuntimeError (''subagent runtime bindings do not match the pinned manifest '' @
           ''(missing='' @ show (string_set_diff (map fst declared) (map fst versions)) @
           '', extra='' @ show (string_set_diff (map fst versions) (map fst declared)) @ '')''))
         else if limit_max_subagents limits < int (length declared)
         then Inl (RuntimeError (''declared subagents exceed maxSubagents='' @
           str_of_int (limit_max_subagents limits)))
         else if versions \<noteq> []
         then map_sum id start (bind_versions validate versions [])
         else map_sum id start (bind_declared lead declared []))"

definition active_tasks :: "governor \<Rightarrow> task_state list" where
  "active_tasks g = dict_values (gov_tasks g)"

subsection \<open>Which role an event belongs to\<close>

definition delegation_alias :: "json_obj \<Rightarrow> string" where
  "delegation_alias values =
     (case List.find (\<lambda>v. case v of JStr s \<Rightarrow> s \<noteq> [] | _ \<Rightarrow> False)
        (map (\<lambda>key. dict_get_or values key JNull) [''subagent_type'', ''agent'', ''name'']) of
        Some (JStr s) \<Rightarrow> s | _ \<Rightarrow> [])"

definition alias_from_tool_request :: "runtime_event \<Rightarrow> governor \<Rightarrow> governor" where
  "alias_from_tool_request e g =
     (if re_type e \<noteq> ''tool.request'' \<or>
         dict_get_or (re_payload e) ''name'' JNull \<notin> {JStr ''Task'', JStr ''Agent''}
      then g
      else case dict_get (re_payload e) ''arguments'' of
        Some (JObj values) \<Rightarrow>
          (case dict_get (re_payload e) ''tool_call_id'' of
             Some (JStr call) \<Rightarrow>
               g\<lparr>gov_tool_aliases := dict_set call (delegation_alias values) (gov_tool_aliases g)\<rparr>
           | _ \<Rightarrow> g)
      | _ \<Rightarrow> g)"

definition runtime_task_types :: "(string, string) dict" where
  "runtime_task_types =
     [(''runtime.task.started'', ''subagent.started''),
      (''runtime.task.updated'', ''subagent.updated''),
      (''runtime.task.completed'', ''subagent.completed''),
      (''runtime.task.failed'', ''subagent.failed'')]"

definition terminal_types :: "string list" where
  "terminal_types = [''subagent.completed'', ''subagent.failed'']"

definition bound_alias :: "governor \<Rightarrow> json option \<Rightarrow> string option" where
  "bound_alias g candidate =
     (case candidate of
        Some (JStr s) \<Rightarrow> if dict_has (gov_bindings g) s then Some s else None
      | _ \<Rightarrow> None)"

definition promote_runtime_task ::
  "(json \<Rightarrow> string) \<Rightarrow> governor \<Rightarrow> runtime_event \<Rightarrow> runtime_event option" where
  "promote_runtime_task show g e =
     (case dict_get runtime_task_types (re_type e) of
        None \<Rightarrow> None
      | Some type \<Rightarrow>
          let task = payload_text show (re_payload e) ''task_id'';
              linked = dict_has (gov_tool_aliases g)
                (payload_text show (re_payload e) ''parent_tool_use_id'')
          in if re_type e = ''runtime.task.started''
             then if bound_alias g (dict_get (re_payload e) ''alias'') = None \<and>
                     bound_alias g (dict_get (re_payload e) ''task_type'') = None \<and> \<not> linked
                  then None else Some (e\<lparr>re_type := type\<rparr>)
             else if \<not> dict_has (gov_tasks g) task \<and> \<not> linked
             then None else Some (e\<lparr>re_type := type\<rparr>))"

definition nonempty_text :: "json option \<Rightarrow> bool" where
  "nonempty_text candidate \<longleftrightarrow> (case candidate of Some (JStr s) \<Rightarrow> s \<noteq> [] | _ \<Rightarrow> False)"

definition resolve_alias :: "(json \<Rightarrow> string) \<Rightarrow> governor \<Rightarrow> runtime_event \<Rightarrow> herror + string" where
  "resolve_alias show g e =
     (let p = re_payload e;
          candidates = [dict_get p ''alias'', dict_get p ''task_type'',
            map_option JStr (dict_get (gov_tool_aliases g) (payload_text show p ''parent_tool_use_id''))]
      in case List.find (\<lambda>c. bound_alias g c \<noteq> None) candidates of
           Some c \<Rightarrow> Inr (the (bound_alias g c))
         | None \<Rightarrow>
             if list_ex nonempty_text candidates
             then Inl (RuntimeError ''subagent event references an undeclared role alias'')
             else case gov_bindings g of
               [(alias, _)] \<Rightarrow> Inr alias
             | _ \<Rightarrow> Inl (RuntimeError ''subagent event is not bound to a declared role alias''))"

subsection \<open>Enriching a lifecycle event\<close>

definition safe_usage :: "json_obj \<Rightarrow> (string, int) dict" where
  "safe_usage p =
     (case dict_get p ''usage'' of
        Some (JObj usage) \<Rightarrow>
          List.map_filter (\<lambda>key. case dict_get usage key of
              Some (JInt v) \<Rightarrow> if 0 \<le> v then Some (key, v) else None | _ \<Rightarrow> None)
            [''total_tokens'', ''tool_uses'', ''duration_ms'']
      | _ \<Rightarrow> [])"

text \<open>\<^verbatim>\<open>round\<close> of Python 3 rounds halves to the even neighbour.\<close>

definition py_round :: "rat \<Rightarrow> int" where
  "py_round q =
     (let f = \<lfloor>q\<rfloor>; r = q - of_int f
      in if r < 1 / 2 then f else if 1 / 2 < r then f + 1 else if even f then f else f + 1)"

definition event_duration :: "task_state \<Rightarrow> rat \<Rightarrow> json_obj \<Rightarrow> int" where
  "event_duration s now p =
     dict_get_or (safe_usage p) ''duration_ms''
       (max 0 (py_round ((now - task_state_started_at s) * 1000)))"

definition enriched_payload :: "task_state \<Rightarrow> rat \<Rightarrow> json_obj \<Rightarrow> json_obj" where
  "enriched_payload s now p =
     foldl (\<lambda>q (k, v). dict_set k v q) p
       [(''event_schema'', JStr ''harness.subagent.v1''),
        (''alias'', JStr (binding_alias (task_state_binding s))),
        (''agent_name'', JStr (binding_agent_name (task_state_binding s))),
        (''agent_version'', JStr (binding_agent_version (task_state_binding s))),
        (''policy_profile'', JStr (binding_policy (task_state_binding s))),
        (''depth'', JInt 1), (''duration_ms'', JInt (event_duration s now p)),
        (''usage'', JObj (map (\<lambda>(k, v). (k, JInt v)) (safe_usage p)))]"

definition enrich ::
  "limit_spec \<Rightarrow> runtime_event \<Rightarrow> task_state \<Rightarrow> rat \<Rightarrow> herror + runtime_event" where
  "enrich limits e s now =
     (let p = re_payload e; alias = binding_alias (task_state_binding s)
      in if (case limit_max_subagent_usage_units limits of
               None \<Rightarrow> False | Some n \<Rightarrow> n < dict_get_or (safe_usage p) ''total_tokens'' 0)
         then Inl (RuntimeError (''subagent token budget exceeded for alias '' @ alias))
         else if (case binding_timeout_seconds (task_state_binding s) of
               None \<Rightarrow> False | Some n \<Rightarrow> n * 1000 < event_duration s now p)
         then Inl (RuntimeError (''subagent duration exceeded for alias '' @ alias))
         else Inr (e\<lparr>re_payload := enriched_payload s now p\<rparr>))"

subsection \<open>Processing an event\<close>

definition is_lifecycle :: "runtime_event \<Rightarrow> bool" where
  "is_lifecycle e \<longleftrightarrow> starts_with ''subagent.'' (re_type e) \<and> re_type e \<noteq> ''subagent.delta''"

definition lift_result :: "'e + 'a \<Rightarrow> ('s, 'e, 'a) prog" where
  "lift_result r = (\<lambda>s. (r, s))"

definition task_count_exceeded :: "limit_spec \<Rightarrow> herror" where
  "task_count_exceeded limits = RuntimeError (''subagent task count exceeds maxSubagentTasks='' @
     str_of_int (limit_max_subagent_tasks limits))"

definition concurrency_exceeded :: "limit_spec \<Rightarrow> herror" where
  "concurrency_exceeded limits =
     RuntimeError (''concurrent subagents exceed maxConcurrentSubagents='' @
       str_of_int (limit_max_concurrent_subagents limits))"

definition begin_task ::
  "(json \<Rightarrow> string) \<Rightarrow> rat \<Rightarrow> runtime_event \<Rightarrow> string \<Rightarrow> string option \<Rightarrow> task_state governed" where
  "begin_task show now e task parent =
     bindP (\<lambda>g. (resolve_alias show g e, g)) (\<lambda>alias.
     bindP (readP gov_bindings) (\<lambda>bindings.
       case dict_get bindings alias of
         None \<Rightarrow> raise KeyError
       | Some b \<Rightarrow>
           let s = \<lparr>task_state_id = task, task_state_binding = b, task_state_started_at = now,
                 task_state_parent = parent\<rparr>
           in thenP (modifyP (\<lambda>g. g\<lparr>gov_tasks := dict_set task s (gov_tasks g),
                gov_started := List.insert task (gov_started g)\<rparr>)) (ret s)))"

definition start_task ::
  "(json \<Rightarrow> string) \<Rightarrow> rat \<Rightarrow> runtime_event \<Rightarrow> string \<Rightarrow> task_state governed" where
  "start_task show now e task =
     bindP (readP id) (\<lambda>g.
       if task \<in> set (gov_started g)
       then raise (RuntimeError (''duplicate subagent start: '' @ task))
       else if limit_max_subagent_tasks (gov_limits g) \<le> int (length (gov_started g))
       then raise (task_count_exceeded (gov_limits g))
       else
         let parent = dict_get_or (re_payload e) ''parent_tool_use_id'' JNull
         in bindP (begin_task show now e task
                (if json_truthy parent then Some (py_str show parent) else None)) (\<lambda>s.
            bindP (readP (\<lambda>g. int (length (gov_tasks g)))) (\<lambda>active.
              if limit_max_concurrent_subagents (gov_limits g) < active
              then thenP (modifyP (\<lambda>g. g\<lparr>gov_tasks := dict_pop task (gov_tasks g)\<rparr>))
                     (raise (concurrency_exceeded (gov_limits g)))
              else ret s)))"

definition find_task ::
  "(json \<Rightarrow> string) \<Rightarrow> rat \<Rightarrow> runtime_event \<Rightarrow> string \<Rightarrow> task_state governed" where
  "find_task show now e task =
     bindP (readP id) (\<lambda>g.
       case dict_get (gov_tasks g) task of
         Some s \<Rightarrow> ret s
       | None \<Rightarrow>
           if limit_max_subagent_tasks (gov_limits g) \<le> int (length (gov_started g))
           then raise (task_count_exceeded (gov_limits g))
           else if limit_max_concurrent_subagents (gov_limits g) \<le> int (length (gov_tasks g))
           then raise (concurrency_exceeded (gov_limits g))
           else begin_task show now e task None)"

definition process_lifecycle ::
  "(json \<Rightarrow> string) \<Rightarrow> rat \<Rightarrow> runtime_event \<Rightarrow> runtime_event list governed" where
  "process_lifecycle show now e =
     (let task = payload_text show (re_payload e) ''task_id''
      in if task = [] then raise (RuntimeError ''subagent lifecycle event is missing task_id'')
         else
           bindP (if re_type e = ''subagent.started'' then start_task show now e task
                  else find_task show now e task) (\<lambda>s.
           bindP (readP gov_limits) (\<lambda>limits.
           bindP (lift_result (enrich limits e s now)) (\<lambda>enriched.
             thenP (whenP (re_type e \<in> set terminal_types)
                      (modifyP (\<lambda>g. g\<lparr>gov_tasks := dict_pop task (gov_tasks g)\<rparr>)))
               (ret [enriched])))))"

definition governor_process ::
  "(json \<Rightarrow> string) \<Rightarrow> rat \<Rightarrow> runtime_event \<Rightarrow> runtime_event list governed" where
  "governor_process show now e =
     thenP (modifyP (alias_from_tool_request e))
     (bindP (readP (\<lambda>g. promote_runtime_task show g e)) (\<lambda>promoted.
        if dict_has runtime_task_types (re_type e)
        then (case promoted of
                None \<Rightarrow> ret [e] | Some e' \<Rightarrow> process_lifecycle show now e')
        else if \<not> is_lifecycle e then ret [e]
        else process_lifecycle show now e))"

fun fail_tasks ::
  "limit_spec \<Rightarrow> rat \<Rightarrow> string \<Rightarrow> (string, task_state) dict \<Rightarrow> runtime_event list \<Rightarrow>
   herror + runtime_event list" where
  "fail_tasks limits now reason [] events = Inr events"
| "fail_tasks limits now reason ((task, s) # tasks) events =
     (case enrich limits
        \<lparr>re_type = ''subagent.failed'', re_payload =
           [(''task_id'', JStr task), (''status'', JStr ''failed''), (''error_code'', JStr reason),
            (''parent_tool_use_id'',
             case task_state_parent s of None \<Rightarrow> JNull | Some parent \<Rightarrow> JStr parent)]\<rparr> s now of
        Inl e \<Rightarrow> Inl e
      | Inr enriched \<Rightarrow> fail_tasks limits now reason tasks (events @ [enriched]))"

definition fail_unfinished :: "rat \<Rightarrow> string \<Rightarrow> runtime_event list governed" where
  "fail_unfinished now reason =
     bindP (readP id) (\<lambda>g.
     bindP (lift_result (fail_tasks (gov_limits g) now reason (gov_tasks g) [])) (\<lambda>events.
       thenP (modifyP (\<lambda>g. g\<lparr>gov_tasks := []\<rparr>)) (ret events)))"

end
