(* ===== verification/Orchestrator.thy ===== *)
theory Orchestrator
  imports Tool_Gate Subagent_Governor
begin

section \<open>The orchestrator of a run: moving, failing and accounting\<close>

text \<open>
  The parts of \<^verbatim>\<open>src/src/harness/worker/orchestrator.py\<close> that work on the shared state alone:
  the checked move of a run, the takeover of a run another worker left, the terminal events of
  children whose parent ends, the conversion of an error into a status, and the quota calls.
  \<open>Worker\<close> composes them around the runtime. \<open>wk_services\<close> is what the approval service is
  constructed with; the orchestrator shares its clock, its ids and its awaits. A port outside the
  model (sandbox, files, archive, runtime) is a function of the serial number of the await at
  which it answers.
\<close>

record sandbox_handle =
  handle_path :: string
  handle_provider :: string
  handle_isolation :: sandbox_isolation

record workspace_policy =
  policy_restore_session :: bool
  policy_archive_on_complete :: bool

record staged_input =
  staged_path :: string
  staged_processed_paths :: "string list"
  staged_payload :: json_obj

record active_policy =
  active_rules :: "policy_rule list option"
  active_resolved :: "(string \<times> int \<times> string) option"

text \<open>The events a runtime produces until its stream closes, or fails with an error.\<close>

record runtime_stream =
  stream_events :: "runtime_event list"
  stream_error :: "herror option"

text \<open>
  Local variables of one execution; exception handlers read them as they are when the error is
  raised, so they are part of the state.
\<close>

record worker_state =
  ws_run :: run
  ws_session :: "session option"
  ws_handle :: "sandbox_handle option"
  ws_baseline :: "(string, string) dict option"
  ws_archive_on_complete :: bool
  ws_durable :: bool
  ws_result :: "json_obj option"
  ws_staged_calls :: "string list"
  ws_internal_calls :: "string list"
  ws_active_message :: "string option"
  ws_last_message :: "string option"
  ws_text :: string
  ws_final_text :: string
  ws_final_message :: "string option"

definition new_worker_state :: "run \<Rightarrow> worker_state" where
  "new_worker_state r =
     \<lparr>ws_run = r, ws_session = None, ws_handle = None, ws_baseline = None,
      ws_archive_on_complete = True, ws_durable = True, ws_result = None, ws_staged_calls = [],
      ws_internal_calls = [], ws_active_message = None, ws_last_message = None, ws_text = [],
      ws_final_text = [], ws_final_message = None\<rparr>"

record worker_deps =
  wk_services :: approval_deps
  wk_show :: "json \<Rightarrow> string"
  wk_ellipsis :: char
  wk_files :: "nat \<Rightarrow> file_view"
  wk_polls :: "nat \<Rightarrow> nat"
  wk_backlog :: "nat \<Rightarrow> nat"
  wk_quotas :: bool
  wk_plan :: "(nat \<Rightarrow> string \<Rightarrow> string \<Rightarrow> string \<Rightarrow> string \<Rightarrow> herror + run_quota_plan) option"
  wk_parse :: "json_obj \<Rightarrow> environment_policy_snapshot option"
  wk_approvals :: bool
  wk_resolve_sandbox :: "(nat \<Rightarrow> session \<Rightarrow> herror + unit) option"
  wk_provision :: "nat \<Rightarrow> run \<Rightarrow> herror + sandbox_handle"
  wk_prepare :: "nat \<Rightarrow> herror + unit"
  wk_collect :: "nat \<Rightarrow> herror + unit"
  wk_destroy :: "nat \<Rightarrow> herror + unit"
  wk_policy_resolver :: "(nat \<Rightarrow> session \<Rightarrow> herror + active_policy) option"
  wk_policy :: "policy_rule list option"
  wk_workspace_policy :: "(nat \<Rightarrow> session \<Rightarrow> herror + workspace_policy) option"
  wk_restore :: "(nat \<Rightarrow> herror + json_obj option) option"
  wk_archive :: "(nat \<Rightarrow> herror + json_obj) option"
  wk_memory :: "(nat \<Rightarrow> herror + unit) option"
  wk_stage_inputs :: "(nat \<Rightarrow> string list \<Rightarrow> herror + staged_input list) option"
  wk_stage_assets :: "(nat \<Rightarrow> herror + string list) option"
  wk_runtime :: "nat \<Rightarrow> worker_state \<Rightarrow> string list \<Rightarrow> runtime_stream"
  wk_fingerprints :: "nat \<Rightarrow> herror + (string, string) dict"
  wk_upload :: "(nat \<Rightarrow> string \<Rightarrow> string \<Rightarrow> string + string \<Rightarrow> string \<Rightarrow> herror + json_obj) option"
  wk_output_files :: "nat \<Rightarrow> string list"
  wk_final_paths :: "nat \<Rightarrow> string \<Rightarrow> string list"
  wk_read :: "nat \<Rightarrow> string \<Rightarrow> int \<Rightarrow> herror + (string \<times> string)"
  wk_digest :: "string \<Rightarrow> string"
  wk_max_output_bytes :: int
  wk_revoke :: "(nat \<Rightarrow> herror + unit) option"

subsection \<open>Exceptions\<close>

text \<open>
  \<open>RuntimeTimeoutError\<close> is \<^verbatim>\<open>RuntimeExecutionTimeoutError\<close> and \<open>CancellationRequestedError\<close> its
  private subclass.
\<close>

definition is_timeout :: "herror \<Rightarrow> bool" where
  "is_timeout e \<longleftrightarrow> e = RuntimeTimeoutError \<or> e = CancellationRequestedError"

definition ownership_conflict :: "herror \<Rightarrow> bool" where
  "ownership_conflict e \<longleftrightarrow>
     is_conflict_error e \<and> (case e of QuotaExceededError _ _ _ _ \<Rightarrow> False | _ \<Rightarrow> True) \<and>
     list_ex (\<lambda>prefix. starts_with prefix (conflict_text e))
       [''stale worker attempted to update run:'', ''run ownership changed while reclaiming:'',
        ''run is already owned or paused:'']"

definition reported_text :: "herror \<Rightarrow> string option" where
  "reported_text e =
     (if is_conflict_error e then Some (conflict_text e)
      else case e of OtherError _ message True \<Rightarrow> Some message | _ \<Rightarrow> None)"

definition failure_code :: "herror \<Rightarrow> string" where
  "failure_code e =
     (case e of QuotaExceededError resource _ _ _ \<Rightarrow> ''quota_exceeded_'' @ resource
      | _ \<Rightarrow> ''runtime_error'')"

subsection \<open>Moving a run\<close>

definition run_append :: "worker_deps \<Rightarrow> string \<Rightarrow> run \<Rightarrow> string \<Rightarrow> json_obj \<Rightarrow> unit handler" where
  "run_append d tenant_id r type payload =
     thenP (event_service_append (wk_services d) tenant_id (run_id r) (run_session_id r) type payload)
       (ret ())"

definition worker_move ::
  "worker_deps \<Rightarrow> run \<Rightarrow> run_status \<Rightarrow> string option \<Rightarrow> json_obj \<Rightarrow> run handler" where
  "worker_move d current target error_code payload =
     bindP (ask (\<lambda>w. transition (run_status current) target)) (\<lambda>next_status.
     bindP (clock (wk_services d)) (\<lambda>now.
       let updated = current\<lparr>run_status := next_status, run_updated_at := now,
             run_fencing_token := run_fencing_token current + 1, run_error_code := error_code\<rparr>
       in bindP (await (wk_services d) (runs_compare_and_set (run_status current) updated)) (\<lambda>won.
            if \<not> won
            then raise (ConflictError (''stale worker attempted to update run: '' @ run_id current))
            else
              let event_payload = (case error_code of
                    Some code \<Rightarrow> if dict_has payload ''error_code'' then payload
                      else payload @ [(''error_code'', JStr code)]
                  | None \<Rightarrow> payload)
              in thenP (run_append d (run_tenant_id current) current
                     (''run.'' @ run_status_value target) event_payload)
                   (ret updated))))"

definition worker_reclaim :: "worker_deps \<Rightarrow> run \<Rightarrow> run handler" where
  "worker_reclaim d current =
     bindP (clock (wk_services d)) (\<lambda>now.
       let reclaimed = current\<lparr>run_updated_at := now,
             run_fencing_token := run_fencing_token current + 1\<rparr>
       in bindP (await (wk_services d) (runs_compare_and_set (run_status current) reclaimed)) (\<lambda>won.
            if \<not> won
            then raise (ConflictError
              (''run ownership changed while reclaiming: '' @ run_id current))
            else thenP (run_append d (run_tenant_id current) current ''run.recovered''
                   [(''from_status'', JStr (run_status_value (run_status current)))])
                 (ret reclaimed)))"

subsection \<open>Children of a run that ends\<close>

definition track_subagent :: "(string, json_obj) dict \<Rightarrow> run_event \<Rightarrow> (string, json_obj) dict" where
  "track_subagent active e =
     (if \<not> starts_with ''subagent.'' (event_type e) then active
      else case dict_get (event_payload e) ''task_id'' of
        Some (JStr task) \<Rightarrow>
          if task = [] then active
          else if event_type e = ''subagent.started'' then dict_set task (event_payload e) active
          else if event_type e = ''subagent.completed'' \<or> event_type e = ''subagent.failed''
          then dict_pop task active else active
      | _ \<Rightarrow> active)"

definition active_subagents :: "run_event list \<Rightarrow> (string, json_obj) dict" where
  "active_subagents events = foldl track_subagent [] events"

definition subagent_failure :: "string \<Rightarrow> string \<Rightarrow> json_obj \<Rightarrow> json_obj" where
  "subagent_failure error_code task started =
     List.map_filter (\<lambda>key. map_option (Pair key) (dict_get started key))
       [''event_schema'', ''alias'', ''agent_name'', ''agent_version'', ''policy_profile'', ''depth'',
        ''parent_tool_use_id''] @
     [(''task_id'', JStr task), (''status'', JStr ''cancelled''), (''error_code'', JStr error_code)]"

definition fail_active_subagents :: "worker_deps \<Rightarrow> string \<Rightarrow> run \<Rightarrow> string \<Rightarrow> unit handler" where
  "fail_active_subagents d tenant_id r error_code =
     bindP (event_service_list_after (wk_services d) tenant_id (run_id r) 0) (\<lambda>events.
       foldP (\<lambda>_ (task, started).
         run_append d tenant_id r ''subagent.failed'' (subagent_failure error_code task started))
         () (active_subagents events))"

subsection \<open>An error ends the run\<close>

definition handle_unexpected_error :: "worker_deps \<Rightarrow> string \<Rightarrow> string \<Rightarrow> herror \<Rightarrow> run handler" where
  "handle_unexpected_error d tenant_id rid error =
     bindP (await (wk_services d) (runs_get tenant_id rid)) (\<lambda>latest.
       if run_status latest = RunCancelling then worker_move d latest RunCancelled None []
       else if run_status latest = RunCancelled then ret latest
       else if ownership_conflict error then ret latest
       else if is_terminal (run_status latest) then ret latest
       else thenP (fail_active_subagents d tenant_id latest ''parent_failed'')
         (worker_move d latest RunFailed (Some (failure_code error))
           ((''error_type'', JStr (error_class error)) #
            (case reported_text error of None \<Rightarrow> [] | Some m \<Rightarrow> [(''message'', JStr m)]))))"

subsection \<open>Quotas of a run\<close>

definition worker_port :: "worker_deps \<Rightarrow> (nat \<Rightarrow> herror + 'a) \<Rightarrow> 'a handler" where
  "worker_port d f = await (wk_services d) (ask (\<lambda>w. f (w_awaits w)))"

definition ensure_quota_admission :: "worker_deps \<Rightarrow> string \<Rightarrow> string \<Rightarrow> session \<Rightarrow> unit handler" where
  "ensure_quota_admission d tenant_id rid s =
     whenP (wk_quotas d)
       (bindP (case wk_plan d of
            None \<Rightarrow> ret \<lparr>plan_max_budget_usd = None, plan_max_model_tokens = None,
                       plan_ttl_seconds = 3600\<rparr>
          | Some resolver \<Rightarrow> worker_port d (\<lambda>n. resolver n tenant_id (resolved_agent_owner_user_id s)
                 (session_agent_name s) (session_agent_version s))) (\<lambda>found.
        bindP (ask (\<lambda>w. apply_environment_quota (wk_parse d) found s)) (\<lambda>plan.
          thenP (ensure_run_admitted (wk_services d) tenant_id rid (caller_of_session s)
              (plan_max_budget_usd plan) (plan_max_model_tokens plan) (plan_ttl_seconds plan))
            (ret ()))))"

definition record_quota_result ::
  "worker_deps \<Rightarrow> string \<Rightarrow> string \<Rightarrow> session \<Rightarrow> json_obj \<Rightarrow> unit handler" where
  "record_quota_result d tenant_id rid s payload =
     whenP (wk_quotas d)
       (record_run_result (wk_services d) tenant_id rid (caller_of_session s)
         (case dict_get payload ''usage'' of Some (JObj usage) \<Rightarrow> Some usage | _ \<Rightarrow> None)
         (dict_get_or payload ''total_cost_usd'' JNull))"

definition release_terminal_quota :: "worker_deps \<Rightarrow> run \<Rightarrow> unit handler" where
  "release_terminal_quota d result =
     whenP (is_terminal (run_status result) \<and> wk_quotas d)
       (thenP (release_subject (wk_services d) (run_tenant_id result) (run_id result)) (ret ()))"

end
