(* ===== verification/Worker.thy ===== *)
theory Worker
  imports Orchestrator
begin

section \<open>The orchestrator of a run: one execution\<close>

text \<open>
  \<^verbatim>\<open>RunOrchestrator._execute\<close> and \<^verbatim>\<open>execute\<close> without tracing and metrics: claiming the run,
  preparing the sandbox, following the events of the runtime, publishing what the run made, and
  the handlers that turn every way an execution can fail into a status of the run.
\<close>

type_synonym 'a whandler = "(worker_state \<times> world, herror, 'a) prog"

definition srv :: "'a handler \<Rightarrow> 'a whandler" where
  "srv m s = (case m (snd s) of (r, w) \<Rightarrow> (r, (fst s, w)))"

definition local_get :: "(worker_state \<Rightarrow> 'a) \<Rightarrow> 'a whandler" where
  "local_get f = readP (\<lambda>s. f (fst s))"

definition local_set :: "(worker_state \<Rightarrow> worker_state) \<Rightarrow> unit whandler" where
  "local_set f = modifyP (\<lambda>s. (f (fst s), snd s))"

definition wport :: "worker_deps \<Rightarrow> (nat \<Rightarrow> herror + 'a) \<Rightarrow> 'a whandler" where
  "wport d f = srv (worker_port d f)"

definition files_at :: "worker_deps \<Rightarrow> file_view whandler" where
  "files_at d = srv (ask (\<lambda>w. Inr (wk_files d (w_awaits w))))"

definition append_own :: "worker_deps \<Rightarrow> string \<Rightarrow> string \<Rightarrow> json_obj \<Rightarrow> unit whandler" where
  "append_own d tenant_id type payload =
     bindP (local_get ws_run) (\<lambda>r. srv (run_append d tenant_id r type payload))"

subsection \<open>Long operations observe cancellation\<close>

text \<open>
  \<open>wk_polls n\<close> is how often the poll interval passes before the operation awaited at \<open>n\<close> is done.
\<close>

fun poll_cancellation :: "worker_deps \<Rightarrow> string \<Rightarrow> string \<Rightarrow> nat \<Rightarrow> unit handler" where
  "poll_cancellation d tenant_id rid 0 = ret ()"
| "poll_cancellation d tenant_id rid (Suc n) =
     bindP (await (wk_services d) (runs_get tenant_id rid)) (\<lambda>latest.
       if run_status latest \<in> {RunCancelling, RunCancelled} then raise CancellationRequestedError
       else poll_cancellation d tenant_id rid n)"

definition await_cancellable ::
  "worker_deps \<Rightarrow> string \<Rightarrow> string \<Rightarrow> (nat \<Rightarrow> herror + 'a) \<Rightarrow> 'a whandler" where
  "await_cancellable d tenant_id rid operation =
     bindP (srv (readP (\<lambda>w. wk_polls d (w_awaits w)))) (\<lambda>polls.
       thenP (srv (poll_cancellation d tenant_id rid polls)) (wport d operation))"

subsection \<open>Publishing what the run made\<close>

text \<open>
  Candidates are a dictionary from the path to where it was found; the listing of the outputs
  directory and the paths named in the final answer are ports.
\<close>

definition output_candidates :: "string list \<Rightarrow> string list \<Rightarrow> (string, string) dict" where
  "output_candidates files final =
     foldl (\<lambda>c p. dict_set p ''final-response'' c)
       (foldl (\<lambda>c p. dict_set p ''workspace-output'' c) [] files) final"

definition published_paths :: "run_event list \<Rightarrow> string list" where
  "published_paths events =
     List.map_filter (\<lambda>e. if event_type e = ''artifact.ready''
         then (case dict_get (event_payload e) ''source_path'' of
                 Some (JStr p) \<Rightarrow> Some p | _ \<Rightarrow> None)
         else None) events"

definition remove_prefix :: "string \<Rightarrow> string \<Rightarrow> string" where
  "remove_prefix prefix s = (if starts_with prefix s then drop (length prefix) s else s)"

definition publish_candidate ::
  "worker_deps \<Rightarrow> (nat \<Rightarrow> string \<Rightarrow> string \<Rightarrow> string + string \<Rightarrow> string \<Rightarrow> herror + json_obj) \<Rightarrow>
   string \<Rightarrow>
   (string, string) dict \<Rightarrow> string option \<Rightarrow> string list \<Rightarrow> int \<Rightarrow> string \<times> string \<Rightarrow> int whandler" where
  "publish_candidate d upload tenant_id baseline message published remaining entry =
     (case entry of (relative, source) \<Rightarrow>
       if relative \<in> set published then ret remaining
       else bindP (srv (ask (\<lambda>w. wk_read d (w_awaits w) relative remaining))) (\<lambda>(resolved, content).
         if dict_get baseline relative = Some (wk_digest d content) then ret remaining
         else
           bindP (wport d (\<lambda>n. upload n tenant_id (remove_prefix ''outputs/'' relative)
                    (Inl resolved) content)) (\<lambda>artifact.
             let payload = dict_set ''source_path'' (JStr relative)
                   (dict_set ''source'' (JStr source) artifact)
             in thenP (append_own d tenant_id ''artifact.ready''
                    (case message of None \<Rightarrow> payload
                     | Some m \<Rightarrow> dict_set ''message_id'' (JStr m) payload))
                  (ret (remaining - int (length content))))))"

definition publish_workspace_outputs ::
  "worker_deps \<Rightarrow> string \<Rightarrow> (string, string) dict \<Rightarrow> string \<Rightarrow> string option \<Rightarrow> unit whandler" where
  "publish_workspace_outputs d tenant_id baseline final_response message =
     (case wk_upload d of
        None \<Rightarrow> ret ()
      | Some upload \<Rightarrow>
          bindP (srv (ask (\<lambda>w. Inr (output_candidates (wk_output_files d (w_awaits w))
                   (wk_final_paths d (w_awaits w) final_response))))) (\<lambda>candidates.
          if 100 < length candidates
          then raise (ValueError ''workspace artifacts exceed the artifact count limit'')
          else
            bindP (local_get ws_run) (\<lambda>r.
            bindP (srv (event_service_list_after (wk_services d) tenant_id (run_id r) 0)) (\<lambda>prior.
              thenP (foldP (publish_candidate d upload tenant_id baseline message
                         (published_paths prior))
                       (wk_max_output_bytes d) (py_sorted id candidates))
                (ret ())))))"

text \<open>What was made before a failure is kept if possible; the failure stays the reason of the end.\<close>

definition recover_failed_workspace :: "worker_deps \<Rightarrow> string \<Rightarrow> bool whandler" where
  "recover_failed_workspace d tenant_id =
     bindP (local_get id) (\<lambda>l.
       case (ws_handle l, ws_baseline l) of
         (Some h, Some baseline) \<Rightarrow>
           bindP (tryP (wport d (wk_collect d))) (\<lambda>collected.
           case collected of
             Inl e \<Rightarrow> if e = NotReturned then raise e else ret False
           | Inr _ \<Rightarrow>
               thenP (catchP (publish_workspace_outputs d tenant_id baseline (ws_final_text l)
                   (ws_final_message l)) (\<lambda>e. if e = NotReturned then raise e else ret ()))
               (case wk_archive d of
                  None \<Rightarrow> ret True
                | Some archive \<Rightarrow>
                    if \<not> ws_archive_on_complete l then ret True
                    else catchP
                      (bindP (wport d archive) (\<lambda>snapshot.
                        thenP (append_own d tenant_id ''workspace.archived''
                            (dict_set ''recovered_from_failure'' (JBool True) snapshot))
                          (ret True)))
                      (\<lambda>e. if e = NotReturned then raise e else ret False)))
       | _ \<Rightarrow> ret True)"

subsection \<open>Claiming the run and preparing the sandbox\<close>

definition claim_run :: "worker_deps \<Rightarrow> run \<Rightarrow> run handler" where
  "claim_run d r =
     (if run_status r = RunRunning \<or> run_status r = RunProvisioning then worker_reclaim d r
      else worker_move d r RunProvisioning None [])"

fun input_ids :: "json list \<Rightarrow> herror + string list" where
  "input_ids [] = Inr []"
| "input_ids (JStr s # items) = map_sum id ((#) s) (input_ids items)"
| "input_ids (_ # items) = Inl (ValueError ''run input_artifact_ids must be a list of strings'')"

definition input_artifact_ids :: "run \<Rightarrow> herror + string list" where
  "input_artifact_ids r =
     (case dict_get_or (run_input r) ''input_artifact_ids'' (JList []) of
        JList items \<Rightarrow> input_ids items
      | _ \<Rightarrow> Inl (ValueError ''run input_artifact_ids must be a list of strings''))"

definition stage_inputs :: "worker_deps \<Rightarrow> string \<Rightarrow> staged_input list whandler" where
  "stage_inputs d tenant_id =
     bindP (local_get ws_run) (\<lambda>r.
     bindP (srv (ask (\<lambda>w. input_artifact_ids r))) (\<lambda>ids.
       case wk_stage_inputs d of
         None \<Rightarrow> if ids \<noteq> [] then raise (RuntimeError ''input artifact service is not configured'')
                else ret []
       | Some stage \<Rightarrow>
           bindP (wport d (\<lambda>n. stage n ids)) (\<lambda>staged.
             thenP (foldP (\<lambda>_ s. append_own d tenant_id ''input.staged'' (staged_payload s)) () staged)
               (ret staged))))"

definition restore_workspace :: "worker_deps \<Rightarrow> string \<Rightarrow> workspace_policy \<Rightarrow> unit whandler" where
  "restore_workspace d tenant_id policy =
     (case wk_restore d of
        None \<Rightarrow> ret ()
      | Some restore \<Rightarrow>
          if \<not> policy_restore_session policy then ret ()
          else bindP (wport d restore) (\<lambda>restored.
            case restored of
              None \<Rightarrow> ret ()
            | Some payload \<Rightarrow> append_own d tenant_id ''workspace.restored'' payload))"

definition stage_assets :: "worker_deps \<Rightarrow> string \<Rightarrow> unit whandler" where
  "stage_assets d tenant_id =
     (case wk_stage_assets d of
        None \<Rightarrow> ret ()
      | Some stage \<Rightarrow> bindP (wport d stage) (\<lambda>skills.
          append_own d tenant_id ''agent.assets.staged'' [(''skills'', JList (map JStr skills))]))"

subsection \<open>Following the runtime\<close>

definition staged_read_of ::
  "worker_deps \<Rightarrow> file_view \<Rightarrow> string \<Rightarrow> (pure_path, string) dict \<Rightarrow> json_obj \<Rightarrow> string option" where
  "staged_read_of d fv workspace staged payload =
     (case dict_get payload ''arguments'' of
        Some (JObj arguments) \<Rightarrow>
          staged_read_path fv (pure_path_of workspace) staged (payload_text (wk_show d) payload ''name'')
            arguments
      | _ \<Rightarrow> None)"

text \<open>A request to read a staged input or an internal asset is marked, and its call remembered.\<close>

definition mark_request ::
  "worker_deps \<Rightarrow> string \<Rightarrow> (pure_path, string) dict \<Rightarrow> json_obj \<Rightarrow> json_obj whandler" where
  "mark_request d workspace staged payload =
     (let call = payload_text (wk_show d) payload ''tool_call_id'' in
      bindP (files_at d) (\<lambda>fv.
      bindP (case staged_read_of d fv workspace staged payload of
          None \<Rightarrow> ret payload
        | Some relative \<Rightarrow>
            let arguments = (case dict_get payload ''arguments'' of Some (JObj a) \<Rightarrow> a | _ \<Rightarrow> [])
            in thenP (whenP (call \<noteq> []) (local_set (\<lambda>l. l\<lparr>ws_staged_calls :=
                   List.insert call (ws_staged_calls l)\<rparr>)))
                 (ret (dict_set staged_input_read_marker (JBool True)
                   (dict_set ''arguments'' (JObj (dict_set ''file_path'' (JStr relative) arguments))
                     payload)))) (\<lambda>p.
        if internal_agent_asset_access (wk_show d) p
        then thenP (whenP (call \<noteq> []) (local_set (\<lambda>l. l\<lparr>ws_internal_calls :=
                 List.insert call (ws_internal_calls l)\<rparr>)))
               (ret (dict_set internal_agent_asset_marker (JBool True) p))
        else ret p)))"

definition input_content_redaction :: string where
  "input_content_redaction = ''[Input file content omitted from durable events]''"

definition marked :: "json_obj \<Rightarrow> string \<Rightarrow> bool" where
  "marked payload marker \<longleftrightarrow> json_truthy (dict_get_or payload marker JNull)"

definition redact_result :: "worker_deps \<Rightarrow> string \<Rightarrow> json_obj \<Rightarrow> json_obj whandler" where
  "redact_result d tenant_id payload =
     (let call = payload_text (wk_show d) payload ''tool_call_id'' in
      bindP (local_get (\<lambda>l. (call \<in> set (ws_staged_calls l), call \<in> set (ws_internal_calls l))))
        (\<lambda>(staged, internal).
      bindP (if staged \<or> call = [] then ret (staged, internal)
             else
               bindP (local_get ws_run) (\<lambda>r.
               bindP (srv (event_service_list_after (wk_services d) tenant_id (run_id r) 0)) (\<lambda>prior.
                 ret (case List.find (\<lambda>e. event_type e = ''tool.request'' \<and>
                          payload_text (wk_show d) (event_payload e) ''tool_call_id'' = call) (rev prior) of
                     None \<Rightarrow> (False, False)
                   | Some e \<Rightarrow> (marked (event_payload e) staged_input_read_marker,
                       marked (event_payload e) internal_agent_asset_marker \<or>
                       internal_agent_asset_access (wk_show d) (event_payload e))))))
        (\<lambda>(hide_input, hide_internal).
          ret (if hide_input
            then dict_set ''redacted'' (JBool True)
                   (dict_set ''content'' (JStr input_content_redaction) payload)
            else if hide_internal then hide_internal_content payload else payload))))"

function replace_all :: "string \<Rightarrow> string \<Rightarrow> string \<Rightarrow> string" where
  "replace_all old new s =
     (if old = [] \<or> s = [] then s
      else if starts_with old s then new @ replace_all old new (drop (length old) s)
      else hd s # replace_all old new (tl s))"
  by pat_completeness auto

termination
  by (relation "measure (\<lambda>(old, new, s). length s)") (auto simp: diff_less)

declare replace_all.simps [simp del]

text \<open>The workspace path is never empty.\<close>

function (sequential) redact_workspace_paths :: "string \<Rightarrow> json \<Rightarrow> json" where
  "redact_workspace_paths path (JStr s) = JStr (replace_all path ''/workspace'' s)"
| "redact_workspace_paths path (JList xs) = JList (map (redact_workspace_paths path) xs)"
| "redact_workspace_paths path (JObj xs) = JObj (map (\<lambda>(k, x). (k, redact_workspace_paths path x)) xs)"
| "redact_workspace_paths path v = v"
  by pat_completeness auto

termination
  by (relation "measure (\<lambda>(path, v). size v)") (auto intro: size_json_list_mem size_json_obj_mem)

definition redact_payload_paths :: "worker_deps \<Rightarrow> string \<Rightarrow> json_obj \<Rightarrow> json_obj whandler" where
  "redact_payload_paths d workspace payload =
     bindP (files_at d) (\<lambda>fv.
       case fv_resolve fv (pure_path_of workspace) of
         None \<Rightarrow> raise (RuntimeError workspace)
       | Some p \<Rightarrow>
           ret (map (\<lambda>(k, v). (k, redact_workspace_paths (path_as_posix p) v)) payload))"

text \<open>\<open>payload.get("message_id") or active_message_id or ...\<close>\<close>

definition choose_message_id :: "worker_deps \<Rightarrow> string \<Rightarrow> json_obj \<Rightarrow> string whandler" where
  "choose_message_id d rid payload =
     bindP (local_get ws_active_message) (\<lambda>active.
       let given = dict_get_or payload ''message_id'' JNull in
       if json_truthy given then ret (py_str (wk_show d) given)
       else if str_or active [] \<noteq> [] then ret (str_or active [])
       else srv (id_generator (wk_services d) (''assistant-'' @ rid @ ''-'')))"

definition current_message :: "worker_state \<Rightarrow> string option" where
  "current_message l =
     (if str_or (ws_active_message l) [] \<noteq> [] then ws_active_message l else ws_last_message l)"

definition track_message ::
  "worker_deps \<Rightarrow> string \<Rightarrow> string \<Rightarrow> json_obj \<Rightarrow> json_obj whandler" where
  "track_message d rid type payload =
     (if type = ''message.start''
      then thenP (local_set (\<lambda>l. l\<lparr>ws_text := []\<rparr>))
        (bindP (choose_message_id d rid payload) (\<lambda>m.
          thenP (local_set (\<lambda>l. l\<lparr>ws_active_message := Some m\<rparr>))
            (ret (dict_set ''message_id'' (JStr m) payload))))
      else if type = ''message.delta'' \<or> type = ''message.completed''
      then bindP (choose_message_id d rid payload) (\<lambda>m.
        let p = dict_set ''message_id'' (JStr m) payload in
        thenP (local_set (\<lambda>l. if type = ''message.delta''
            then l\<lparr>ws_active_message := Some m, ws_text := ws_text l @ payload_text (wk_show d) p ''text''\<rparr>
            else l\<lparr>ws_active_message := Some m, ws_final_text := ws_text l,
                   ws_final_message := Some m, ws_last_message := Some m\<rparr>))
          (ret p))
      else if type = ''tool.request''
      then bindP (local_get current_message) (\<lambda>message.
        ret (case message of
            None \<Rightarrow> payload | Some m \<Rightarrow> dict_set ''message_id'' (JStr m) payload))
      else ret payload)"

definition audit_arguments :: "worker_deps \<Rightarrow> string \<Rightarrow> json_obj \<Rightarrow> json_obj" where
  "audit_arguments d type payload =
     (case dict_get payload ''arguments'' of
        Some (JObj arguments) \<Rightarrow>
          if type = ''tool.request''
          then dict_set ''arguments'' (JObj (redact_tool_arguments (wk_ellipsis d)
                 (payload_text (wk_show d) payload ''name'') arguments)) payload
          else payload
      | _ \<Rightarrow> payload)"

definition publish_artifact ::
  "worker_deps \<Rightarrow> (nat \<Rightarrow> string \<Rightarrow> string \<Rightarrow> string + string \<Rightarrow> string \<Rightarrow> herror + json_obj) \<Rightarrow>
   string \<Rightarrow> sandbox_handle \<Rightarrow> json_obj \<Rightarrow> unit whandler" where
  "publish_artifact d upload tenant_id h payload =
     (let relative = payload_text (wk_show d) payload ''path'' in
      thenP (whenP (handle_isolation h = IsolationContainer) (wport d (wk_collect d)))
      (bindP (srv (ask (\<lambda>w. wk_read d (w_awaits w) relative (wk_max_output_bytes d)))) (\<lambda>(name, content).
       bindP (wport d (\<lambda>n. upload n tenant_id
           (py_str (wk_show d) (dict_get_or payload ''name'' (JStr name)))
           (Inr (py_str (wk_show d)
             (dict_get_or payload ''media_type'' (JStr ''application/octet-stream'')))) content))
        (\<lambda>artifact.
       bindP (local_get current_message) (\<lambda>message.
         let p = dict_set ''source_path'' (JStr relative) artifact
         in append_own d tenant_id ''artifact.ready''
              (case message of None \<Rightarrow> p | Some m \<Rightarrow> dict_set ''message_id'' (JStr m) p))))))"

subsection \<open>One event of the runtime\<close>

definition note_result :: "string \<Rightarrow> json_obj \<Rightarrow> unit whandler" where
  "note_result type payload =
     whenP (type = ''runtime.result'') (local_set (\<lambda>l. l\<lparr>ws_result := Some payload\<rparr>))"

definition bind_sdk_session :: "worker_deps \<Rightarrow> string \<Rightarrow> string \<Rightarrow> json_obj \<Rightarrow> unit whandler" where
  "bind_sdk_session d tenant_id type payload =
     (case (type = ''runtime.system'' \<or> type = ''runtime.result'', dict_get payload ''session_id'') of
        (True, Some (JStr sdk)) \<Rightarrow>
          if sdk = [] then ret ()
          else bindP (local_get ws_session) (\<lambda>s.
            case s of
              None \<Rightarrow> ret ()
            | Some x \<Rightarrow>
                bindP (srv (await (wk_services d) (\<lambda>w.
                    case bind_claude_session_id (w_sessions w) tenant_id (session_id x) sdk of
                      Inl e \<Rightarrow> (Inl e, w)
                    | Inr (bound, t) \<Rightarrow> (Inr bound, w\<lparr>w_sessions := t\<rparr>)))) (\<lambda>bound.
                  local_set (\<lambda>l. l\<lparr>ws_session := Some bound\<rparr>)))
      | _ \<Rightarrow> ret ())"

definition denied_result :: "string \<Rightarrow> policy_result \<Rightarrow> json_obj" where
  "denied_result call result =
     [(''tool_call_id'', JStr call), (''is_error'', JBool True),
      (''error'', JObj [(''code'', JStr ''policy_denied''), (''message'', JStr (result_reason result)),
        (''rule'', JStr (result_rule_name result))])]"

definition tool_approval ::
  "worker_deps \<Rightarrow> sandbox_handle \<Rightarrow> string \<Rightarrow> string \<Rightarrow> json_obj \<Rightarrow> string option \<Rightarrow>
   policy_result \<Rightarrow> approval_call" where
  "tool_approval d h call tool summary message result =
     \<lparr>call_tool_call_id = call, call_reason = result_reason result, call_message_id = message,
      call_inline = False, call_tool_name = Some tool, call_argument_summary = Some summary,
      call_sandbox_provider = Some (handle_provider h),
      call_sandbox_isolation = Some (sandbox_isolation_value (handle_isolation h)),
      call_policy_rule = Some (result_rule_name result),
      call_risk = Some (if tool = ''Bash'' then ''high'' else ''medium'')\<rparr>"

text \<open>
  A tool request under a policy: denied calls get an error result, a call that needs an approval
  which is pending pauses the run and ends the execution.
\<close>

definition request_tool ::
  "worker_deps \<Rightarrow> string \<Rightarrow> string \<Rightarrow> sandbox_handle \<Rightarrow> policy_rule list \<Rightarrow> json_obj \<Rightarrow> json_obj \<Rightarrow>
   run option whandler" where
  "request_tool d tenant_id rid h rules arguments payload =
     (let tool = payload_text (wk_show d) payload ''name'';
          call = payload_text (wk_show d) payload ''tool_call_id''
      in thenP (append_own d tenant_id ''tool.request'' payload)
         (bindP (local_get ws_session) (\<lambda>s.
            let result = policy_evaluate (wk_show d) rules
                  \<lparr>context_tenant_id = tenant_id,
                   context_agent_name = (case s of None \<Rightarrow> [] | Some x \<Rightarrow> session_agent_name x),
                   context_tool_name = tool, context_arguments = arguments,
                   context_sandbox_isolation = IsolationWorkspace, context_trust_level = TrustSafe\<rparr>;
                allowed = thenP (append_own d tenant_id ''tool.allowed''
                    [(''tool_call_id'', JStr call), (''policy_rule'', JStr (result_rule_name result))])
                  (ret None)
            in case result_decision result of
                 PolicyDeny \<Rightarrow>
                   thenP (append_own d tenant_id ''tool.result'' (denied_result call result)) (ret None)
               | PolicyAllow \<Rightarrow> allowed
               | PolicyAsk \<Rightarrow>
                   if \<not> wk_approvals d then raise (RuntimeError ''approval service is not configured'')
                   else
                     bindP (local_get current_message) (\<lambda>message.
                     bindP (case dict_get_or payload ''arguments'' (JObj []) of
                         JObj summary \<Rightarrow> srv (approvals_request (wk_services d) tenant_id rid
                           (tool_approval d h call tool summary message result))
                       | _ \<Rightarrow> raise (OtherError ''ValidationError'' [] False)) (\<lambda>approval.
                       if approval_status approval \<noteq> ApprovalPending then allowed
                       else
                         bindP (local_get ws_active_message) (\<lambda>active.
                         thenP (case active of
                             None \<Rightarrow> ret ()
                           | Some m \<Rightarrow> append_own d tenant_id ''message.completed''
                               [(''message_id'', JStr m)])
                         (bindP (srv (await (wk_services d) (runs_get tenant_id rid))) (\<lambda>r.
                            ret (Some r)))))))))"

definition handle_payload ::
  "worker_deps \<Rightarrow> string \<Rightarrow> string \<Rightarrow> sandbox_handle \<Rightarrow> policy_rule list option \<Rightarrow>
   string \<Rightarrow> json_obj \<Rightarrow> json_obj \<Rightarrow> run option whandler" where
  "handle_payload d tenant_id rid h rules type arguments payload =
     (case (type = ''artifact.output'', wk_upload d, type = ''tool.request'', rules) of
        (True, Some upload, _) \<Rightarrow> thenP (publish_artifact d upload tenant_id h payload) (ret None)
      | (_, _, True, Some active) \<Rightarrow> request_tool d tenant_id rid h active arguments payload
      | _ \<Rightarrow>
          thenP (append_own d tenant_id type payload)
          (thenP (whenP (type = ''message.completed'')
                   (local_set (\<lambda>l. l\<lparr>ws_active_message := None\<rparr>)))
             (ret None)))"

definition handle_event ::
  "worker_deps \<Rightarrow> string \<Rightarrow> string \<Rightarrow> sandbox_handle \<Rightarrow> policy_rule list option \<Rightarrow>
   (pure_path, string) dict \<Rightarrow> runtime_event \<Rightarrow> run option whandler" where
  "handle_event d tenant_id rid h rules staged e =
     bindP (srv (await (wk_services d) (runs_get tenant_id rid))) (\<lambda>latest.
       if run_status latest = RunCancelling
       then thenP (whenP (re_type e = ''subagent.started'')
                (append_own d tenant_id (re_type e) (re_payload e)))
            (thenP (srv (fail_active_subagents d tenant_id latest ''parent_cancelled''))
              (bindP (srv (worker_move d latest RunCancelled None [])) (\<lambda>r. ret (Some r))))
       else if is_terminal (run_status latest) then ret (Some latest)
       else
         thenP (local_set (\<lambda>l. l\<lparr>ws_run := latest\<rparr>))
         (thenP (note_result (re_type e) (re_payload e))
         (thenP (bind_sdk_session d tenant_id (re_type e) (re_payload e))
         (bindP (if re_type e = ''tool.request''
                 then mark_request d (handle_path h) staged (re_payload e)
                 else if re_type e = ''tool.result'' then redact_result d tenant_id (re_payload e)
                 else ret (re_payload e)) (\<lambda>p1.
          bindP (redact_payload_paths d (handle_path h) p1) (\<lambda>p2.
          bindP (track_message d rid (re_type e) p2) (\<lambda>p3.
            handle_payload d tenant_id rid h rules (re_type e)
              (case dict_get (re_payload e) ''arguments'' of Some (JObj a) \<Rightarrow> a | _ \<Rightarrow> [])
              (audit_arguments d (re_type e) p3))))))))"

definition terminal_runtime_result :: "runtime_event \<Rightarrow> bool" where
  "terminal_runtime_result e \<longleftrightarrow> re_type e = ''runtime.result'' \<and>
     dict_get (re_payload e) ''subtype'' = Some (JStr ''success'') \<and>
     dict_get (re_payload e) ''is_error'' \<noteq> Some (JBool True) \<and>
     dict_get (re_payload e) ''stop_reason'' = Some (JStr ''end_turn'')"

text \<open>
  When the cancellation is seen while the next event is awaited, the events that were produced
  before (\<open>wk_backlog\<close> of them) are still handled.
\<close>

fun handle_backlog ::
  "(runtime_event \<Rightarrow> run option whandler) \<Rightarrow> runtime_event list \<Rightarrow> run option whandler" where
  "handle_backlog handle [] = raise CancellationRequestedError"
| "handle_backlog handle (e # es) =
     bindP (handle e) (\<lambda>result.
       case result of Some r \<Rightarrow> ret (Some r) | None \<Rightarrow> handle_backlog handle es)"

fun follow_runtime ::
  "worker_deps \<Rightarrow> string \<Rightarrow> string \<Rightarrow> (runtime_event \<Rightarrow> run option whandler) \<Rightarrow> runtime_event list \<Rightarrow>
   herror option \<Rightarrow> run option whandler" where
  "follow_runtime d tenant_id rid handle [] failure =
     thenP (await_cancellable d tenant_id rid (\<lambda>n. Inr ()))
       (case failure of None \<Rightarrow> ret None | Some e \<Rightarrow> raise e)"
| "follow_runtime d tenant_id rid handle (e # es) failure =
     bindP (tryP (await_cancellable d tenant_id rid (\<lambda>n. Inr ()))) (\<lambda>outcome.
       case outcome of
         Inl x \<Rightarrow>
           if x = CancellationRequestedError
           then bindP (srv (readP (\<lambda>w. wk_backlog d (w_awaits w)))) (\<lambda>k.
                  handle_backlog handle (take k (e # es)))
           else raise x
       | Inr _ \<Rightarrow>
           bindP (handle e) (\<lambda>result.
             case result of
               Some r \<Rightarrow> ret (Some r)
             | None \<Rightarrow>
                 if terminal_runtime_result e then ret None
                 else follow_runtime d tenant_id rid handle es failure))"

subsection \<open>One execution\<close>

definition claim_own :: "worker_deps \<Rightarrow> unit whandler" where
  "claim_own d =
     bindP (local_get ws_run) (\<lambda>r. bindP (srv (claim_run d r)) (\<lambda>claimed.
       local_set (\<lambda>l. l\<lparr>ws_run := claimed\<rparr>)))"

definition load_session :: "worker_deps \<Rightarrow> string \<Rightarrow> session whandler" where
  "load_session d tenant_id =
     bindP (local_get ws_run) (\<lambda>r.
     bindP (srv (await (wk_services d)
         (ask (\<lambda>w. session_get (w_sessions w) tenant_id (run_session_id r))))) (\<lambda>s.
       thenP (local_set (\<lambda>l. l\<lparr>ws_session := Some s\<rparr>)) (ret s)))"

definition provision_sandbox ::
  "worker_deps \<Rightarrow> string \<Rightarrow> string \<Rightarrow> session \<Rightarrow> sandbox_handle whandler" where
  "provision_sandbox d tenant_id rid s =
     thenP (case wk_resolve_sandbox d of
         None \<Rightarrow> ret () | Some resolver \<Rightarrow> wport d (\<lambda>n. resolver n s))
     (thenP (srv (ensure_quota_admission d tenant_id rid s))
     (bindP (local_get ws_run) (\<lambda>r.
      bindP (await_cancellable d tenant_id rid (\<lambda>n. wk_provision d n r)) (\<lambda>h.
        thenP (local_set (\<lambda>l. l\<lparr>ws_handle := Some h\<rparr>)) (ret h)))))"

definition resolve_policies ::
  "worker_deps \<Rightarrow> session \<Rightarrow> (active_policy \<times> workspace_policy) whandler" where
  "resolve_policies d s =
     bindP (case wk_policy_resolver d of
         None \<Rightarrow> ret \<lparr>active_rules = wk_policy d, active_resolved = None\<rparr>
       | Some resolver \<Rightarrow> wport d (\<lambda>n. resolver n s)) (\<lambda>policy.
     bindP (case wk_workspace_policy d of
         None \<Rightarrow> ret \<lparr>policy_restore_session = True, policy_archive_on_complete = True\<rparr>
       | Some resolver \<Rightarrow> wport d (\<lambda>n. resolver n s)) (\<lambda>workspace.
       thenP (local_set (\<lambda>l. l\<lparr>ws_archive_on_complete := policy_archive_on_complete workspace\<rparr>))
         (ret (policy, workspace))))"

definition start_running :: "worker_deps \<Rightarrow> string \<Rightarrow> bool \<Rightarrow> unit whandler" where
  "start_running d tenant_id is_resume =
     (if is_resume then append_own d tenant_id ''run.resumed'' []
      else bindP (local_get ws_run) (\<lambda>r.
        bindP (srv (worker_move d r RunRunning None [])) (\<lambda>running.
          local_set (\<lambda>l. l\<lparr>ws_run := running\<rparr>))))"

definition policy_event :: "worker_deps \<Rightarrow> string \<Rightarrow> active_policy \<Rightarrow> unit whandler" where
  "policy_event d tenant_id policy =
     (case active_resolved policy of
        None \<Rightarrow> ret ()
      | Some (pid, number, digest) \<Rightarrow>
          append_own d tenant_id ''policy.resolved''
            [(''policy_id'', JStr pid), (''revision'', JInt number),
             (''content_hash'', JStr digest)])"

text \<open>What the event loop needs: the sandbox, the rules, the staged inputs and the events.\<close>

definition prepare_execution ::
  "worker_deps \<Rightarrow> string \<Rightarrow> string \<Rightarrow> bool \<Rightarrow>
   (sandbox_handle \<times> policy_rule list option \<times> (pure_path, string) dict \<times> runtime_stream) whandler" where
  "prepare_execution d tenant_id rid is_resume =
     thenP (claim_own d)
     (bindP (load_session d tenant_id) (\<lambda>s.
      bindP (provision_sandbox d tenant_id rid s) (\<lambda>h.
      bindP (resolve_policies d s) (\<lambda>(policy, workspace).
        thenP (restore_workspace d tenant_id workspace)
        (thenP (case wk_memory d of None \<Rightarrow> ret () | Some memory \<Rightarrow> wport d memory)
        (bindP (stage_inputs d tenant_id) (\<lambda>staged.
         bindP (files_at d) (\<lambda>fv.
         bindP (srv (ask (\<lambda>w. staged_input_paths fv (pure_path_of (handle_path h))
             (map staged_path staged)))) (\<lambda>paths.
          thenP (stage_assets d tenant_id)
          (thenP (await_cancellable d tenant_id rid (wk_prepare d))
          (thenP (local_set (\<lambda>l. l\<lparr>ws_durable := False\<rparr>))
          (thenP (start_running d tenant_id is_resume)
          (bindP (srv (id_generator (wk_services d) (''assistant-'' @ rid @ ''-''))) (\<lambda>message.
           thenP (policy_event d tenant_id policy)
           (bindP (srv (ask (\<lambda>w. wk_fingerprints d (w_awaits w)))) (\<lambda>baseline.
            thenP (local_set (\<lambda>l. l\<lparr>ws_baseline := Some baseline,
                ws_active_message := Some message\<rparr>))
            (bindP (local_get id) (\<lambda>l.
             bindP (srv (readP (\<lambda>w. wk_runtime d (w_awaits w) l
                 (concat (map (\<lambda>i. staged_path i # staged_processed_paths i) staged)))))
               (\<lambda>stream.
              ret (h, active_rules policy, paths, stream))))))))))))))))))))"

subsection \<open>The end of an execution\<close>

definition archive_result :: "worker_deps \<Rightarrow> string \<Rightarrow> unit whandler" where
  "archive_result d tenant_id =
     bindP (local_get ws_archive_on_complete) (\<lambda>wanted.
       case (wk_archive d, wanted) of
         (Some archive, True) \<Rightarrow>
           catchP
             (bindP (wport d archive) (\<lambda>snapshot.
                thenP (append_own d tenant_id ''workspace.archived'' snapshot)
                  (local_set (\<lambda>l. l\<lparr>ws_durable := True\<rparr>))))
             (\<lambda>e. if e = NotReturned then raise e
                else thenP (local_set (\<lambda>l. l\<lparr>ws_durable := False\<rparr>))
                  (append_own d tenant_id ''workspace.archive.failed''
                    [(''error_code'', JStr ''workspace_archive_failed''),
                     (''error_type'', JStr (error_class e))]))
       | _ \<Rightarrow> local_set (\<lambda>l. l\<lparr>ws_durable := True\<rparr>))"

text \<open>The result is charged once, with the last cumulative snapshot the runtime sent.\<close>

definition charge_result :: "worker_deps \<Rightarrow> string \<Rightarrow> string \<Rightarrow> unit whandler" where
  "charge_result d tenant_id rid =
     bindP (local_get (\<lambda>l. (ws_result l, ws_session l))) (\<lambda>(result, s).
       case (result, s) of
         (Some payload, Some x) \<Rightarrow>
           thenP (local_set (\<lambda>l. l\<lparr>ws_result := None\<rparr>))
             (srv (record_quota_result d tenant_id rid x payload))
       | _ \<Rightarrow> ret ())"

definition complete_run :: "worker_deps \<Rightarrow> string \<Rightarrow> string \<Rightarrow> run whandler" where
  "complete_run d tenant_id rid =
     thenP (charge_result d tenant_id rid)
     (thenP (wport d (wk_collect d))
     (bindP (local_get id) (\<lambda>l.
      thenP (publish_workspace_outputs d tenant_id (case ws_baseline l of None \<Rightarrow> [] | Some b \<Rightarrow> b)
          (ws_final_text l) (ws_final_message l))
      (thenP (archive_result d tenant_id)
      (bindP (srv (await (wk_services d) (runs_get tenant_id rid))) (\<lambda>latest.
        if run_status latest = RunCancelling then srv (worker_move d latest RunCancelled None [])
        else if is_terminal (run_status latest) then ret latest
        else srv (worker_move d latest RunSucceeded None [])))))))"

definition run_execution :: "worker_deps \<Rightarrow> string \<Rightarrow> string \<Rightarrow> bool \<Rightarrow> run whandler" where
  "run_execution d tenant_id rid is_resume =
     bindP (prepare_execution d tenant_id rid is_resume) (\<lambda>(h, rules, staged, stream).
     bindP (follow_runtime d tenant_id rid (handle_event d tenant_id rid h rules staged)
         (stream_events stream) (stream_error stream)) (\<lambda>result.
       case result of Some r \<Rightarrow> ret r | None \<Rightarrow> complete_run d tenant_id rid))"

definition recover_workspace :: "worker_deps \<Rightarrow> string \<Rightarrow> unit whandler" where
  "recover_workspace d tenant_id =
     bindP (recover_failed_workspace d tenant_id) (\<lambda>durable.
       local_set (\<lambda>l. l\<lparr>ws_durable := durable\<rparr>))"

definition end_timed_out :: "worker_deps \<Rightarrow> string \<Rightarrow> string \<Rightarrow> run handler" where
  "end_timed_out d tenant_id rid =
     bindP (await (wk_services d) (runs_get tenant_id rid)) (\<lambda>latest.
       if run_status latest = RunCancelling
       then thenP (fail_active_subagents d tenant_id latest ''parent_cancelled'')
              (worker_move d latest RunCancelled None [])
       else if is_terminal (run_status latest) then ret latest
       else thenP (fail_active_subagents d tenant_id latest ''parent_timed_out'')
              (worker_move d latest RunTimedOut (Some ''runtime_timeout'')
                [(''timeout'', JStr ''manifest runtime limit exceeded'')]))"

definition end_result_error ::
  "worker_deps \<Rightarrow> string \<Rightarrow> string \<Rightarrow> string \<Rightarrow> int option \<Rightarrow> string \<Rightarrow> string option \<Rightarrow> run handler" where
  "end_result_error d tenant_id rid subtype api_error_status error_code user_message =
     bindP (await (wk_services d) (runs_get tenant_id rid)) (\<lambda>latest.
       if run_status latest = RunCancelling then worker_move d latest RunCancelled None []
       else if is_terminal (run_status latest) then ret latest
       else worker_move d latest RunFailed (Some error_code)
         ([(''subtype'', JStr subtype)] @
          (case api_error_status of None \<Rightarrow> [] | Some n \<Rightarrow> [(''api_error_status'', JInt n)]) @
          (case user_message of None \<Rightarrow> [] | Some m \<Rightarrow> [(''message'', JStr m)])))"

text \<open>
  The \<open>except\<close> clauses, in their order. A quota error is ignored in favour of the provider's
  failure.
\<close>

definition end_failed :: "worker_deps \<Rightarrow> string \<Rightarrow> string \<Rightarrow> herror \<Rightarrow> run whandler" where
  "end_failed d tenant_id rid e =
     (if e = NotReturned then raise e
      else if is_timeout e
      then thenP (recover_workspace d tenant_id) (srv (end_timed_out d tenant_id rid))
      else case e of
        RuntimeResultError subtype api_error_status error_code user_message \<Rightarrow>
          thenP (catchP (charge_result d tenant_id rid)
              (\<lambda>x. if x = NotReturned then raise x else ret ()))
          (thenP (recover_workspace d tenant_id)
            (srv (end_result_error d tenant_id rid subtype api_error_status error_code user_message)))
      | _ \<Rightarrow> thenP (recover_workspace d tenant_id)
            (srv (handle_unexpected_error d tenant_id rid e)))"

text \<open>The \<open>finally\<close> clause.\<close>

definition cleanup_execution :: "worker_deps \<Rightarrow> string \<Rightarrow> unit whandler" where
  "cleanup_execution d tenant_id =
     thenP (case wk_revoke d of None \<Rightarrow> ret () | Some revoke \<Rightarrow> wport d revoke)
     (bindP (local_get (\<lambda>l. (ws_handle l, ws_durable l))) (\<lambda>(h, durable).
       case h of
         None \<Rightarrow> ret ()
       | Some x \<Rightarrow>
           thenP (whenP (\<not> durable \<and> handle_provider x = ''daytona'')
             (catchP (append_own d tenant_id ''workspace.recovery_retained''
                 [(''retention_seconds'', JInt 3600),
                  (''reason'', JStr ''durable_workspace_commit_failed'')])
               (\<lambda>e. if e = NotReturned then raise e else ret ())))
           (wport d (wk_destroy d))))"

definition worker_execute :: "worker_deps \<Rightarrow> string \<Rightarrow> string \<Rightarrow> run handler" where
  "worker_execute d tenant_id rid =
     bindP (await (wk_services d) (runs_get tenant_id rid)) (\<lambda>r.
       if is_terminal (run_status r) then ret r
       else if run_status r = RunCancelling then worker_move d r RunCancelled None []
       else if run_status r = RunWaitingApproval then ret r
       else (\<lambda>w. case finallyP
           (catchP (run_execution d tenant_id rid (run_status r = RunRunning))
             (end_failed d tenant_id rid))
           (cleanup_execution d tenant_id) (new_worker_state r, w) of (x, s) \<Rightarrow> (x, snd s)))"

definition execute :: "worker_deps \<Rightarrow> string \<Rightarrow> string \<Rightarrow> run handler" where
  "execute d tenant_id rid =
     bindP (worker_execute d tenant_id rid) (\<lambda>result.
       thenP (release_terminal_quota d result) (ret result))"

end
