(* ===== verification/Guarantee.thy ===== *)
theory Guarantee
  imports Programs
begin

section \<open>Programs that keep a protocol with the help of what they know\<close>

text \<open>
  The interface between a component and those it shares its state with: \<open>sys\<close> relates any two
  states one of which any part of the system may turn into the other, \<open>sound\<close> is the
  invariant that comes with it, and facts (\<open>knows s f\<close>) are what a program has read and may
  rely on later, because nothing the system does makes them false. \<open>keeps K m\<close>: started in a
  sound state in which the facts \<open>K\<close> hold, \<open>m\<close> moves along \<open>sys\<close>, whether it returns or raises.
\<close>

named_theorems keeps_intros \<open>compositional rules for \<open>keeps\<close>\<close>

locale protocol =
  fixes sound :: "'s \<Rightarrow> bool"
    and sys :: "'s \<Rightarrow> 's \<Rightarrow> bool"
    and knows :: "'s \<Rightarrow> 'f \<Rightarrow> bool"
  assumes sys_refl: "sys s s"
    and sys_trans: "sys s t \<Longrightarrow> sys t u \<Longrightarrow> sys s u"
    and sys_sound: "sys s t \<Longrightarrow> sound s \<Longrightarrow> sound t"
    and sys_knows: "sys s t \<Longrightarrow> sound s \<Longrightarrow> knows s f \<Longrightarrow> knows t f"
begin

definition keeps :: "'f set \<Rightarrow> ('s, 'e, 'a) prog \<Rightarrow> bool" where
  "keeps K m \<longleftrightarrow> (\<forall>s. sound s \<longrightarrow> (\<forall>f \<in> K. knows s f) \<longrightarrow> sys s (snd (m s)))"

lemma keepsI:
  assumes "\<And>s r t. sound s \<Longrightarrow> (\<And>f. f \<in> K \<Longrightarrow> knows s f) \<Longrightarrow> m s = (r, t) \<Longrightarrow> sys s t"
  shows "keeps K m"
  unfolding keeps_def using assms by (metis prod.collapse)

lemma keepsD:
  assumes "keeps K m" and "sound s" and "\<And>f. f \<in> K \<Longrightarrow> knows s f" and "m s = (r, t)"
  shows "sys s t"
  using assms unfolding keeps_def by (metis snd_conv)

lemma keeps_weaken: "keeps K m \<Longrightarrow> K \<subseteq> K' \<Longrightarrow> keeps K' m"
  unfolding keeps_def by blast

lemma keeps_same: "(\<And>s. sys s (snd (m s))) \<Longrightarrow> keeps K m"
  unfolding keeps_def by blast

lemma keeps_ret [keeps_intros]: "keeps K (ret x)"
  by (rule keeps_same) (simp add: sys_refl)

lemma keeps_raise [keeps_intros]: "keeps K (raise e)"
  by (rule keeps_same) (simp add: sys_refl)

lemma keeps_readP [keeps_intros]: "keeps K (readP f)"
  by (rule keeps_same) (simp add: sys_refl)

text \<open>What the first part returns may teach facts to the rest.\<close>

lemma keeps_bind_learn:
  assumes m: "keeps K m"
    and learn: "\<And>s x t f. sound s \<Longrightarrow> (\<And>f. f \<in> K \<Longrightarrow> knows s f) \<Longrightarrow> m s = (Inr x, t) \<Longrightarrow>
      f \<in> L x \<Longrightarrow> knows t f"
    and f: "\<And>x. keeps (K \<union> L x) (f x)"
  shows "keeps K (bindP m f)"
proof (rule keepsI)
  fix s r u
  assume s: "sound s" and K: "\<And>f. f \<in> K \<Longrightarrow> knows s f" and run: "bindP m f s = (r, u)"
  obtain y t where mt: "m s = (y, t)" by (cases "m s")
  have st: "sys s t" by (rule keepsD [OF m s K mt])
  show "sys s u"
  proof (cases y)
    case (Inl e)
    with run mt st show ?thesis by simp
  next
    case (Inr x)
    with run mt have fx: "f x t = (r, u)" by simp
    have "sys t u"
    proof (rule keepsD [OF f [of x] _ _ fx])
      show "sound t" using st s by (rule sys_sound)
      show "g \<in> K \<union> L x \<Longrightarrow> knows t g" for g
        using K sys_knows [OF st s] learn [OF s K mt [unfolded Inr]] by blast
    qed
    with st show ?thesis by (rule sys_trans)
  qed
qed

lemma keeps_bind [keeps_intros]:
  assumes "keeps K m" and "\<And>x. keeps K (f x)"
  shows "keeps K (bindP m f)"
  using assms by (intro keeps_bind_learn [where L = "\<lambda>_. {}"]) simp_all

lemma keeps_then [keeps_intros]: "keeps K m \<Longrightarrow> keeps K n \<Longrightarrow> keeps K (thenP m n)"
  unfolding thenP_def by (rule keeps_bind)

lemma keeps_try [keeps_intros]: "keeps K m \<Longrightarrow> keeps K (tryP m)"
  unfolding keeps_def by (simp add: tryP_def)

lemma keeps_catch [keeps_intros]:
  assumes "keeps K m" and "\<And>e. keeps K (h e)"
  shows "keeps K (catchP m h)"
proof -
  have "catchP m h = bindP (tryP m) (\<lambda>x. case x of Inl e \<Rightarrow> h e | Inr y \<Rightarrow> ret y)"
    by (auto simp: fun_eq_iff prog_apply split: prod.split sum.split)
  moreover have "keeps K (case x of Inl e \<Rightarrow> h e | Inr y \<Rightarrow> ret y)" for x
    using assms(2) by (cases x) (simp_all add: keeps_ret)
  ultimately show ?thesis using assms(1) by (auto intro: keeps_bind keeps_try)
qed

lemma keeps_when [keeps_intros]: "(b \<Longrightarrow> keeps K m) \<Longrightarrow> keeps K (whenP b m)"
  by (simp add: whenP_def keeps_ret)

lemma keeps_if [keeps_intros]:
  "(b \<Longrightarrow> keeps K m) \<Longrightarrow> (\<not> b \<Longrightarrow> keeps K n) \<Longrightarrow> keeps K (if b then m else n)"
  by simp

lemma keeps_Let [keeps_intros]: "keeps K (f v) \<Longrightarrow> keeps K (Let v f)"
  by simp

lemma keeps_option [keeps_intros]:
  "(v = None \<Longrightarrow> keeps K m) \<Longrightarrow> (\<And>x. v = Some x \<Longrightarrow> keeps K (f x)) \<Longrightarrow>
   keeps K (case v of None \<Rightarrow> m | Some x \<Rightarrow> f x)"
  by (cases v) simp_all

lemma keeps_sum [keeps_intros]:
  "(\<And>x. v = Inl x \<Longrightarrow> keeps K (f x)) \<Longrightarrow> (\<And>x. v = Inr x \<Longrightarrow> keeps K (g x)) \<Longrightarrow>
   keeps K (case v of Inl x \<Rightarrow> f x | Inr x \<Rightarrow> g x)"
  by (cases v) simp_all

lemma keeps_fold [keeps_intros]:
  assumes "\<And>b x. keeps K (f b x)"
  shows "keeps K (foldP f b xs)"
  using assms by (induction xs arbitrary: b) (auto intro: keeps_ret keeps_bind)

text \<open>A fact may say something about the values themselves.\<close>

lemma keeps_known:
  assumes "\<And>s. sound s \<Longrightarrow> (\<And>f. f \<in> K \<Longrightarrow> knows s f) \<Longrightarrow> P" and "P \<Longrightarrow> keeps K m"
  shows "keeps K m"
proof (rule keepsI)
  fix s r t
  assume *: "sound s" "\<And>f. f \<in> K \<Longrightarrow> knows s f" "m s = (r, t)"
  have P using * assms(1) by blast
  with assms(2) have "keeps K m" by blast
  then show "sys s t" using * by (rule keepsD)
qed

text \<open>What every value that a program returns satisfies.\<close>

definition yields :: "'f set \<Rightarrow> ('s, 'e, 'a) prog \<Rightarrow> ('a \<Rightarrow> bool) \<Rightarrow> bool" where
  "yields K m P \<longleftrightarrow>
     (\<forall>s x t. sound s \<longrightarrow> (\<forall>f \<in> K. knows s f) \<longrightarrow> m s = (Inr x, t) \<longrightarrow> P x)"

lemma yieldsI:
  assumes "\<And>s x t. sound s \<Longrightarrow> (\<And>f. f \<in> K \<Longrightarrow> knows s f) \<Longrightarrow> m s = (Inr x, t) \<Longrightarrow> P x"
  shows "yields K m P"
  unfolding yields_def using assms by blast

lemma yieldsD:
  "yields K m P \<Longrightarrow> sound s \<Longrightarrow> (\<And>f. f \<in> K \<Longrightarrow> knows s f) \<Longrightarrow> m s = (Inr x, t) \<Longrightarrow> P x"
  unfolding yields_def by blast

lemma yields_ret: "P x \<Longrightarrow> yields K (ret x) P"
  by (rule yieldsI) simp

lemma yields_raise: "yields K (raise e) P"
  by (rule yieldsI) simp

lemma yields_bind:
  assumes m: "keeps K m" and f: "\<And>x. yields K (f x) P"
  shows "yields K (bindP m f) P"
proof (rule yieldsI)
  fix s x u
  assume s: "sound s" and K: "\<And>f. f \<in> K \<Longrightarrow> knows s f" and run: "bindP m f s = (Inr x, u)"
  then obtain y t where mt: "m s = (Inr y, t)" and fy: "f y t = (Inr x, u)"
    by (auto elim: bindP_InrE)
  have st: "sys s t" by (rule keepsD [OF m s K mt])
  show "P x" by (rule yieldsD [OF f sys_sound [OF st s] _ fy]) (rule sys_knows [OF st s K])
qed

lemma yields_catch:
  assumes m: "keeps K m" "yields K m P" and h: "\<And>e. yields K (h e) P"
  shows "yields K (catchP m h) P"
proof (rule yieldsI)
  fix s x u
  assume s: "sound s" and K: "\<And>f. f \<in> K \<Longrightarrow> knows s f" and run: "catchP m h s = (Inr x, u)"
  obtain y t where mt: "m s = (y, t)" by (cases "m s")
  show "P x"
  proof (cases y)
    case (Inl e)
    with run mt have he: "h e t = (Inr x, u)" by (simp add: catchP_apply)
    have st: "sys s t" by (rule keepsD [OF m(1) s K mt])
    show ?thesis by (rule yieldsD [OF h sys_sound [OF st s] _ he]) (rule sys_knows [OF st s K])
  next
    case (Inr z)
    with run mt have "m s = (Inr x, u)" by (simp add: catchP_apply)
    with m(2) s K show ?thesis by (rule yieldsD)
  qed
qed

lemma keeps_bind_yields:
  assumes m: "keeps K m" "yields K m P" and f: "\<And>x. P x \<Longrightarrow> keeps K (f x)"
  shows "keeps K (bindP m f)"
proof (rule keepsI)
  fix s r u
  assume s: "sound s" and K: "\<And>f. f \<in> K \<Longrightarrow> knows s f" and run: "bindP m f s = (r, u)"
  obtain y t where mt: "m s = (y, t)" by (cases "m s")
  have st: "sys s t" by (rule keepsD [OF m(1) s K mt])
  show "sys s u"
  proof (cases y)
    case (Inl e)
    with run mt st show ?thesis by simp
  next
    case (Inr x)
    with run mt have fx: "f x t = (r, u)" by simp
    have "P x" using m(2) s K mt [unfolded Inr] by (rule yieldsD)
    then have "sys t u"
      by (rule keepsD [OF f sys_sound [OF st s] _ fx]) (rule sys_knows [OF st s K])
    with st show ?thesis by (rule sys_trans)
  qed
qed

text \<open>The others run first: they keep the protocol too.\<close>

lemma keeps_after:
  assumes others: "\<And>s. sound s \<Longrightarrow> sys s (g s)" and m: "keeps K m"
  shows "keeps K (\<lambda>s. m (g s))"
proof (rule keepsI)
  fix s r t
  assume s: "sound s" and K: "\<And>f. f \<in> K \<Longrightarrow> knows s f" and run: "m (g s) = (r, t)"
  have sg: "sys s (g s)" using s by (rule others)
  have "sys (g s) t"
    by (rule keepsD [OF m sys_sound [OF sg s] _ run]) (rule sys_knows [OF sg s K])
  with sg show "sys s t" by (rule sys_trans)
qed

text \<open>
  Both at once, and what the returned value teaches: \<open>m\<close> keeps the protocol, and a value \<open>x\<close> that
  it returns satisfies \<open>P\<close> and comes with the facts \<open>L x\<close>.
\<close>

definition brings :: "'f set \<Rightarrow> ('s, 'e, 'a) prog \<Rightarrow> ('a \<Rightarrow> 'f set) \<Rightarrow> ('a \<Rightarrow> bool) \<Rightarrow> bool" where
  "brings K m L P \<longleftrightarrow> (\<forall>s. sound s \<longrightarrow> (\<forall>f \<in> K. knows s f) \<longrightarrow>
     sys s (snd (m s)) \<and>
     (\<forall>x. fst (m s) = Inr x \<longrightarrow> P x \<and> (\<forall>f \<in> L x. knows (snd (m s)) f)))"

lemma bringsI:
  assumes "\<And>s r t. sound s \<Longrightarrow> (\<And>f. f \<in> K \<Longrightarrow> knows s f) \<Longrightarrow> m s = (r, t) \<Longrightarrow> sys s t"
    and "\<And>s x t. sound s \<Longrightarrow> (\<And>f. f \<in> K \<Longrightarrow> knows s f) \<Longrightarrow> m s = (Inr x, t) \<Longrightarrow>
      P x \<and> (\<forall>f \<in> L x. knows t f)"
  shows "brings K m L P"
  unfolding brings_def
proof (intro allI impI)
  fix s
  assume s: "sound s" and K: "\<forall>f \<in> K. knows s f"
  obtain r t where run: "m s = (r, t)" by (cases "m s")
  have "sys s t" by (rule assms(1) [OF s _ run]) (use K in blast)
  moreover have "P x \<and> (\<forall>f \<in> L x. knows t f)" if "r = Inr x" for x
    by (rule assms(2) [OF s _ run [unfolded that]]) (use K in blast)
  ultimately show "sys s (snd (m s)) \<and>
      (\<forall>x. fst (m s) = Inr x \<longrightarrow> P x \<and> (\<forall>f \<in> L x. knows (snd (m s)) f))"
    by (simp add: run)
qed

lemma bringsD:
  assumes "brings K m L P" and "sound s" and "\<And>f. f \<in> K \<Longrightarrow> knows s f" and "m s = (r, t)"
  shows "sys s t" and "r = Inr x \<Longrightarrow> P x" and "r = Inr x \<Longrightarrow> f \<in> L x \<Longrightarrow> knows t f"
proof -
  have K: "\<forall>f \<in> K. knows s f" using assms(3) by simp
  note assms(1) [unfolded brings_def, THEN spec, THEN mp, THEN mp, OF assms(2) K]
  then show "sys s t" and "r = Inr x \<Longrightarrow> P x" and "r = Inr x \<Longrightarrow> f \<in> L x \<Longrightarrow> knows t f"
    by (simp_all add: assms(4))
qed

lemma brings_keeps: "brings K m L P \<Longrightarrow> keeps K m"
  unfolding brings_def keeps_def by blast

lemma keeps_brings: "keeps K m \<Longrightarrow> brings K m (\<lambda>_. {}) (\<lambda>_. True)"
  unfolding brings_def keeps_def by simp

lemma brings_weaken:
  assumes "brings K m L P" and "K \<subseteq> K'" and "\<And>x. P x \<Longrightarrow> Q x" and "\<And>x. P x \<Longrightarrow> M x \<subseteq> L x"
  shows "brings K' m M Q"
  using assms unfolding brings_def by (meson subsetD)

lemma brings_known:
  assumes "\<And>s. sound s \<Longrightarrow> (\<And>f. f \<in> K \<Longrightarrow> knows s f) \<Longrightarrow> A" and "A \<Longrightarrow> brings K m L P"
  shows "brings K m L P"
proof -
  have "brings K m L P" if "sound s" "\<forall>f \<in> K. knows s f" for s
    using assms that by blast
  then show ?thesis unfolding brings_def by blast
qed

lemma brings_ret: "P x \<Longrightarrow> L x \<subseteq> K \<Longrightarrow> brings K (ret x) L P"
  unfolding brings_def by (auto simp: sys_refl)

lemma brings_raise: "brings K (raise e) L P"
  unfolding brings_def by (simp add: sys_refl)

lemma brings_bind:
  assumes m: "brings K m L P" and f: "\<And>x. P x \<Longrightarrow> brings (K \<union> L x) (f x) M Q"
  shows "brings K (bindP m f) M Q"
  unfolding brings_def
proof (intro allI impI)
  fix s
  assume s: "sound s" and K: "\<forall>g \<in> K. knows s g"
  obtain r t where mt: "m s = (r, t)" by (cases "m s")
  have st: "sys s t" using bringsD(1) [OF m s _ mt] K by blast
  show "sys s (snd (bindP m f s)) \<and> (\<forall>x. fst (bindP m f s) = Inr x \<longrightarrow>
      Q x \<and> (\<forall>g \<in> M x. knows (snd (bindP m f s)) g))"
  proof (cases r)
    case (Inl e)
    with mt st show ?thesis by simp
  next
    case (Inr x)
    have x: "P x" "\<And>g. g \<in> L x \<Longrightarrow> knows t g"
      using bringsD(2,3) [OF m s _ mt] K Inr by blast+
    have "sound t" using st s by (rule sys_sound)
    moreover have "knows t g" if "g \<in> K \<union> L x" for g
      using that x(2) K sys_knows [OF st s] by blast
    ultimately have "sys t (snd (f x t)) \<and> (\<forall>y. fst (f x t) = Inr y \<longrightarrow>
        Q y \<and> (\<forall>g \<in> M y. knows (snd (f x t)) g))"
      using f [OF x(1)] unfolding brings_def by blast
    with mt Inr st show ?thesis by (auto intro: sys_trans)
  qed
qed

lemma brings_keeps_bind:
  "keeps K m \<Longrightarrow> (\<And>x. brings K (f x) M Q) \<Longrightarrow> brings K (bindP m f) M Q"
  by (rule brings_bind [OF keeps_brings]) simp_all

lemma keeps_brings_bind:
  assumes "brings K m L P" and "\<And>x. P x \<Longrightarrow> keeps (K \<union> L x) (f x)"
  shows "keeps K (bindP m f)"
  by (rule brings_keeps [OF brings_bind [OF assms(1) keeps_brings [OF assms(2)]]])

lemma brings_try:
  assumes "brings K m L P"
  shows "brings K (tryP m) (\<lambda>r. case r of Inl e \<Rightarrow> {} | Inr x \<Rightarrow> L x)
    (\<lambda>r. case r of Inl e \<Rightarrow> True | Inr x \<Rightarrow> P x)"
  using assms unfolding brings_def by (auto simp: tryP_def split: sum.splits)

lemma brings_catch:
  assumes m: "brings K m L P" and h: "\<And>e. brings K (h e) L P"
  shows "brings K (catchP m h) L P"
proof -
  have eq: "catchP m h = bindP (tryP m) (\<lambda>x. case x of Inl e \<Rightarrow> h e | Inr y \<Rightarrow> ret y)"
    by (auto simp: fun_eq_iff prog_apply split: prod.split sum.split)
  have step: "brings (K \<union> (case x of Inl e \<Rightarrow> {} | Inr y \<Rightarrow> L y))
      (case x of Inl e \<Rightarrow> h e | Inr y \<Rightarrow> ret y) L P"
    if "case x of Inl e \<Rightarrow> True | Inr y \<Rightarrow> P y" for x
    using that h by (cases x) (auto intro: brings_ret)
  show ?thesis unfolding eq by (rule brings_bind [OF brings_try [OF m] step])
qed

lemma brings_if:
  "(b \<Longrightarrow> brings K m L P) \<Longrightarrow> (\<not> b \<Longrightarrow> brings K n L P) \<Longrightarrow> brings K (if b then m else n) L P"
  by simp

lemma brings_after:
  assumes others: "\<And>s. sound s \<Longrightarrow> sys s (g s)" and m: "brings K m L P"
  shows "brings K (\<lambda>s. m (g s)) L P"
proof (rule bringsI)
  fix s r t
  assume s: "sound s" and K: "\<And>f. f \<in> K \<Longrightarrow> knows s f" and run: "m (g s) = (r, t)"
  have sg: "sys s (g s)" using s by (rule others)
  then have "sys (g s) t"
    using bringsD(1) [OF m sys_sound [OF sg s] _ run] sys_knows [OF sg s K] by blast
  with sg show "sys s t" by (rule sys_trans)
next
  fix s x t
  assume s: "sound s" and K: "\<And>f. f \<in> K \<Longrightarrow> knows s f" and run: "m (g s) = (Inr x, t)"
  have sg: "sys s (g s)" using s by (rule others)
  show "P x \<and> (\<forall>f \<in> L x. knows t f)"
    using bringsD(2,3) [OF m sys_sound [OF sg s] _ run] sys_knows [OF sg s K] by blast
qed

end

end
