(* ===== verification/Worker_Guarantees.thy ===== *)
theory Worker_Guarantees
  imports Worker Outcomes Guarantee
begin

section \<open>What an execution keeps\<close>

text \<open>
  An execution shares the world with every other handler, is interrupted at each of its awaits,
  and is shown to respect the protocol of the platform however it ends. The sound states of an
  execution are those in which, besides, the version of the run it works with is one that the
  store has held: that is what makes its compare-and-set a legal move.
\<close>

subsection \<open>Handlers of the orchestrator\<close>

lemma upholds_bind_const:
  "(\<And>x. v = Inr x \<Longrightarrow> upholds d K own (f x)) \<Longrightarrow> upholds d K own (bindP (ask (\<lambda>w. v)) f)"
proof (cases v)
  case (Inl e)
  then have "bindP (ask (\<lambda>w. v)) f = raise e" by (simp add: ask_def bindP_apply fun_eq_iff)
  then show ?thesis by (simp add: upholds_raise)
next
  case (Inr x)
  moreover from this have "bindP (ask (\<lambda>w. v)) f = f x"
    by (simp add: ask_def bindP_apply fun_eq_iff)
  moreover assume "\<And>x. v = Inr x \<Longrightarrow> upholds d K own (f x)"
  ultimately show ?thesis by simp
qed

lemma upholds_run_append:
  "rely (wk_services d) \<Longrightarrow> upholds (wk_services d) K {} (run_append d tn r type payload)"
  unfolding run_append_def by (intro upholds_then upholds_event_append upholds_ret)

lemma upholds_list_after: "rely d \<Longrightarrow> upholds d K own (event_service_list_after d tn rid n)"
  unfolding event_service_list_after_def by (intro upholds_await upholds_ask)

lemma upholds_worker_move:
  assumes r: "rely (wk_services d)" and known: "KnowsRun x \<in> K"
  shows "upholds (wk_services d) K {} (worker_move d x target code payload)"
  unfolding worker_move_def Let_def
proof (rule upholds_bind_const, rule upholds_bind [OF r upholds_clock])
  fix s now
  assume s: "transition (run_status x) target = Inr s"
  let ?u = "x\<lparr>run_status := s, run_updated_at := now,
    run_fencing_token := run_fencing_token x + 1, run_error_code := code\<rparr>"
  from s have edge: "(run_status x, run_status ?u) \<in> run_move" by (simp add: run_move_iff)
  have same: "run_same x ?u" by (simp add: run_same_def)
  show "upholds (wk_services d) K {} (bindP (await (wk_services d)
      (runs_compare_and_set (run_status x) ?u)) (\<lambda>won. if \<not> won
        then raise (ConflictError (''stale worker attempted to update run: '' @ run_id x))
        else thenP (run_append d (run_tenant_id x) x (''run.'' @ run_status_value target)
            (case code of None \<Rightarrow> payload | Some c \<Rightarrow>
              if dict_has payload ''error_code'' then payload
              else payload @ [(''error_code'', JStr c)]))
          (ret ?u)))"
    by (rule upholds_bind_runs_cas [OF r known refl edge same])
      (auto intro!: upholds_raise upholds_then upholds_run_append upholds_ret r)
qed

lemma upholds_worker_reclaim:
  assumes r: "rely (wk_services d)" and known: "KnowsRun x \<in> K"
    and st: "run_status x = RunRunning \<or> run_status x = RunProvisioning"
  shows "upholds (wk_services d) K {} (worker_reclaim d x)"
  unfolding worker_reclaim_def Let_def
proof (rule upholds_bind [OF r upholds_clock])
  fix now
  let ?u = "x\<lparr>run_updated_at := now, run_fencing_token := run_fencing_token x + 1\<rparr>"
  have edge: "(run_status x, run_status ?u) \<in> run_move" using st by (auto simp: run_move_iff)
  have same: "run_same x ?u" by (simp add: run_same_def)
  show "upholds (wk_services d) K {} (bindP (await (wk_services d)
      (runs_compare_and_set (run_status x) ?u)) (\<lambda>won. if \<not> won
        then raise (ConflictError (''run ownership changed while reclaiming: '' @ run_id x))
        else thenP (run_append d (run_tenant_id x) x ''run.recovered''
            [(''from_status'', JStr (run_status_value (run_status x)))]) (ret ?u)))"
    by (rule upholds_bind_runs_cas [OF r known refl edge same])
      (auto intro!: upholds_raise upholds_then upholds_run_append upholds_ret r)
qed

lemma upholds_fail_active_subagents:
  "rely (wk_services d) \<Longrightarrow> upholds (wk_services d) K {} (fail_active_subagents d tn r code)"
  unfolding fail_active_subagents_def
  by (auto intro!: upholds_bind upholds_list_after upholds_fold upholds_run_append)

lemma upholds_handle_unexpected_error:
  "rely (wk_services d) \<Longrightarrow> upholds (wk_services d) K {} (handle_unexpected_error d tn rid e)"
  unfolding handle_unexpected_error_def
  by (auto intro!: upholds_bind_runs_get upholds_if upholds_ret upholds_worker_move upholds_then
    upholds_fail_active_subagents)

lemma upholds_worker_port: "rely (wk_services d) \<Longrightarrow> upholds (wk_services d) K own (worker_port d f)"
  unfolding worker_port_def by (intro upholds_await upholds_ask)

lemma upholds_ensure_quota_admission:
  "rely (wk_services d) \<Longrightarrow> upholds (wk_services d) K {} (ensure_quota_admission d tn rid s)"
  unfolding ensure_quota_admission_def
  by (auto intro!: upholds_when upholds_bind upholds_option upholds_ret upholds_worker_port
    upholds_ask upholds_then upholds_ensure_run_admitted)

lemma upholds_record_quota_result:
  "rely (wk_services d) \<Longrightarrow> upholds (wk_services d) K {} (record_quota_result d tn rid s payload)"
  unfolding record_quota_result_def by (intro upholds_when upholds_record_run_result)

lemma upholds_release_terminal_quota:
  "rely (wk_services d) \<Longrightarrow> upholds (wk_services d) K {} (release_terminal_quota d r)"
  unfolding release_terminal_quota_def
  by (auto intro!: upholds_when upholds_then upholds_release_subject upholds_ret)

lemma upholds_poll_cancellation:
  "rely (wk_services d) \<Longrightarrow> upholds (wk_services d) K {} (poll_cancellation d tn rid n)"
  by (induction n arbitrary: K)
    (auto intro!: upholds_ret upholds_bind_runs_get upholds_if upholds_raise)

lemma upholds_endings:
  assumes "rely (wk_services d)"
  shows "upholds (wk_services d) K {} (end_timed_out d tn rid)"
    and "upholds (wk_services d) K {} (end_result_error d tn rid subtype api code user)"
  unfolding end_timed_out_def end_result_error_def
  using assms by (auto intro!: upholds_bind_runs_get upholds_if upholds_then upholds_ret
    upholds_fail_active_subagents upholds_worker_move)

lemma upholds_claim_run:
  "rely (wk_services d) \<Longrightarrow> KnowsRun r \<in> K \<Longrightarrow> upholds (wk_services d) K {} (claim_run d r)"
  unfolding claim_run_def by (auto intro!: upholds_if upholds_worker_reclaim upholds_worker_move)

text \<open>The version that a move or a takeover returns is one the store has held.\<close>

lemma returns_bind_runs_cas:
  assumes r: "rely d" and known: "KnowsRun x \<in> K"
    and step: "(run_status x, run_status u) \<in> run_move" "run_same x u"
      "run_fencing_token u = run_fencing_token x + 1"
    and f: "returns d K (f False) Q" "returns d (insert (KnowsRun u) K) (f True) Q"
  shows "returns d K (bindP (await d (runs_compare_and_set (run_status x) u)) f) Q"
proof (rule returns_bind_learn [OF r upholds_await_runs_cas [OF r known step],
      where L = "\<lambda>b. if b then {KnowsRun u} else {}" and P = "\<lambda>_. True"])
  show "returns d (K \<union> (if b then {KnowsRun u} else {})) (f b) Q" for b
    using f by (cases b) simp_all
qed (use await_runs_cas_won [OF r step] known in \<open>auto split: if_splits simp del: holds.simps\<close>)

lemma returns_bind_const:
  "(\<And>x. v = Inr x \<Longrightarrow> returns d K (f x) Q) \<Longrightarrow> returns d K (bindP (ask (\<lambda>w. v)) f) Q"
  unfolding returns_def by (auto simp: ask_def bindP_apply split: sum.splits)

lemma returns_worker_move:
  assumes r: "rely (wk_services d)" and known: "KnowsRun x \<in> K"
  shows "returns (wk_services d) K (worker_move d x target code payload)
    (\<lambda>y t. holds t (KnowsRun y) \<and> run_key y = run_key x \<and> run_status y = target \<and>
      run_fencing_token y = run_fencing_token x + 1)"
  unfolding worker_move_def Let_def
proof (rule returns_bind_const, rule returns_bind_clock [OF r])
  fix s now
  assume s: "transition (run_status x) target = Inr s"
  let ?u = "x\<lparr>run_status := s, run_updated_at := now,
    run_fencing_token := run_fencing_token x + 1, run_error_code := code\<rparr>"
  from s have edge: "(run_status x, run_status ?u) \<in> run_move" by (simp add: run_move_iff)
  have same: "run_same x ?u" by (simp add: run_same_def)
  show "returns (wk_services d) K (bindP (await (wk_services d)
      (runs_compare_and_set (run_status x) ?u)) (\<lambda>won. if \<not> won
        then raise (ConflictError (''stale worker attempted to update run: '' @ run_id x))
        else thenP (run_append d (run_tenant_id x) x (''run.'' @ run_status_value target)
            (case code of None \<Rightarrow> payload | Some c \<Rightarrow>
              if dict_has payload ''error_code'' then payload
              else payload @ [(''error_code'', JStr c)]))
          (ret ?u)))
    (\<lambda>y t. holds t (KnowsRun y) \<and> run_key y = run_key x \<and> run_status y = target \<and>
      run_fencing_token y = run_fencing_token x + 1)"
    by (rule returns_bind_runs_cas [OF r known edge same])
      (use s in \<open>auto intro!: returns_raise returns_then upholds_run_append returns_ret r
        simp: run_key_def simp del: holds.simps\<close>)
qed

lemma returns_worker_reclaim:
  assumes r: "rely (wk_services d)" and known: "KnowsRun x \<in> K"
    and st: "run_status x = RunRunning \<or> run_status x = RunProvisioning"
  shows "returns (wk_services d) K (worker_reclaim d x)
    (\<lambda>y t. holds t (KnowsRun y) \<and> run_key y = run_key x \<and>
      run_fencing_token y = run_fencing_token x + 1)"
  unfolding worker_reclaim_def Let_def
proof (rule returns_bind_clock [OF r])
  fix now
  let ?u = "x\<lparr>run_updated_at := now, run_fencing_token := run_fencing_token x + 1\<rparr>"
  have edge: "(run_status x, run_status ?u) \<in> run_move" using st by (auto simp: run_move_iff)
  have same: "run_same x ?u" by (simp add: run_same_def)
  show "returns (wk_services d) K (bindP (await (wk_services d)
      (runs_compare_and_set (run_status x) ?u)) (\<lambda>won. if \<not> won
        then raise (ConflictError (''run ownership changed while reclaiming: '' @ run_id x))
        else thenP (run_append d (run_tenant_id x) x ''run.recovered''
            [(''from_status'', JStr (run_status_value (run_status x)))]) (ret ?u)))
    (\<lambda>y t. holds t (KnowsRun y) \<and> run_key y = run_key x \<and>
      run_fencing_token y = run_fencing_token x + 1)"
    by (rule returns_bind_runs_cas [OF r known edge same])
      (auto intro!: returns_raise returns_then upholds_run_append returns_ret r
        simp: run_key_def simp del: holds.simps)
qed

lemma returns_claim_run:
  "rely (wk_services d) \<Longrightarrow> KnowsRun r \<in> K \<Longrightarrow> returns (wk_services d) K (claim_run d r)
    (\<lambda>y t. holds t (KnowsRun y) \<and> run_key y = run_key r \<and>
      run_fencing_token y = run_fencing_token r + 1)"
  unfolding claim_run_def
  by (auto intro!: returns_if returns_worker_reclaim returns_weaken [OF returns_worker_move]
    simp del: holds.simps)

subsection \<open>The protocol of an execution\<close>

definition exec_sound :: "worker_deps \<Rightarrow> worker_state \<times> world \<Rightarrow> bool" where
  "exec_sound d s \<longleftrightarrow> world_sound (wk_services d) (snd s) \<and> holds (snd s) (KnowsRun (ws_run (fst s)))"

definition exec_sys :: "worker_deps \<Rightarrow> worker_state \<times> world \<Rightarrow> worker_state \<times> world \<Rightarrow> bool" where
  "exec_sys d s t \<longleftrightarrow> sys (wk_services d) (snd s) (snd t) \<and> (exec_sound d s \<longrightarrow> exec_sound d t)"

definition exec_knows :: "worker_state \<times> world \<Rightarrow> fact \<Rightarrow> bool" where
  "exec_knows s f \<longleftrightarrow> holds (snd s) f"

interpretation exec: protocol "exec_sound d" "exec_sys d" exec_knows for d :: worker_deps
proof
  show "exec_sys d s s" for s by (simp add: exec_sys_def sys.R_refl)
  show "exec_sys d s t \<Longrightarrow> exec_sys d t u \<Longrightarrow> exec_sys d s u" for s t u
    unfolding exec_sys_def by (blast intro: sys.R_trans)
  show "exec_sys d s t \<Longrightarrow> exec_sound d s \<Longrightarrow> exec_sound d t" for s t
    by (simp add: exec_sys_def)
  show "exec_sys d s t \<Longrightarrow> exec_sound d s \<Longrightarrow> exec_knows s f \<Longrightarrow> exec_knows t f" for s t f
    unfolding exec_sys_def exec_knows_def by (blast intro: holds_stable)
qed

lemmas exec_intros = exec.keeps_ret exec.keeps_raise exec.keeps_then exec.keeps_try
  exec.keeps_catch exec.keeps_when exec.keeps_if exec.keeps_Let exec.keeps_option exec.keeps_fold

lemma exec_keeps_learn:
  assumes r: "rely (wk_services d)" and m: "upholds (wk_services d) K {} m"
    and q: "returns (wk_services d) K m (\<lambda>x t. P x \<and> (\<forall>f \<in> L x. holds t f))"
    and f: "\<And>x. P x \<Longrightarrow> exec.keeps d (K \<union> L x) (f x)"
  shows "exec.keeps d K (bindP (srv m) f)"
proof (rule exec.keepsI)
  fix s y u
  assume s: "exec_sound d s" and K: "\<And>f. f \<in> K \<Longrightarrow> exec_knows s f"
    and run: "bindP (srv m) f s = (y, u)"
  obtain o1 t where mt: "m (snd s) = (o1, t)" by (cases "m (snd s)")
  have w: "world_sound (wk_services d) (snd s)" using s by (simp add: exec_sound_def)
  have K': "holds (snd s) g" if "g \<in> K" for g using K [OF that] by (simp add: exec_knows_def)
  have st: "sys (wk_services d) (snd s) t" by (rule upholdsD [OF m w K' _ mt]) simp_all
  have "exec_sound d (fst s, t)"
    using s holds_stable [OF st] sys_ownD(5) [OF st w] by (simp add: exec_sound_def del: holds.simps)
  then have sys: "exec_sys d s (fst s, t)" using st by (simp add: exec_sys_def)
  show "exec_sys d s u"
  proof (cases o1)
    case (Inl e)
    with run mt sys show ?thesis by (simp add: srv_def bindP_apply)
  next
    case (Inr x)
    then have new: "P x" "\<forall>g \<in> L x. holds t g" using returnsD [OF q w K'] mt by blast+
    from Inr run mt have fx: "f x (fst s, t) = (y, u)" by (simp add: srv_def bindP_apply)
    have "exec_sys d (fst s, t) u"
    proof (rule exec.keepsD [OF f [OF new(1)] \<open>exec_sound d (fst s, t)\<close> _ fx])
      show "g \<in> K \<union> L x \<Longrightarrow> exec_knows (fst s, t) g" for g
        using new(2) K' holds_stable [OF st] by (auto simp: exec_knows_def simp del: holds.simps)
    qed
    with sys show ?thesis by (rule exec.sys_trans)
  qed
qed

lemma exec_keeps_srv:
  assumes "rely (wk_services d)" and "upholds (wk_services d) K {} m"
  shows "exec.keeps d K (srv m)"
proof -
  have "exec.keeps d K (bindP (srv m) ret)"
    using assms by (rule exec_keeps_learn [where P = "\<lambda>_. True" and L = "\<lambda>_. {}"])
      (auto intro: returnsI exec.keeps_ret)
  moreover have "bindP (srv m) ret = srv m"
    by (simp add: fun_eq_iff bindP_apply split: prod.split sum.split)
  ultimately show ?thesis by simp
qed

lemma exec_bind_srv:
  "rely (wk_services d) \<Longrightarrow> upholds (wk_services d) K {} m \<Longrightarrow> (\<And>x. exec.keeps d K (f x)) \<Longrightarrow>
   exec.keeps d K (bindP (srv m) f)"
  by (intro exec.keeps_bind exec_keeps_srv)

lemma exec_bind_get:
  "rely (wk_services d) \<Longrightarrow> (\<And>x. run_key x = (tn, rid) \<Longrightarrow> exec.keeps d (insert (KnowsRun x) K) (f x)) \<Longrightarrow>
   exec.keeps d K (bindP (srv (await (wk_services d) (runs_get tn rid))) f)"
  by (rule exec_keeps_learn [where P = "\<lambda>x. run_key x = (tn, rid)" and L = "\<lambda>x. {KnowsRun x}"])
    (auto intro!: upholds_await upholds_ask returnsI dest: runs_get_found simp: runs_get_def
      simp del: holds.simps)

lemma exec_bind_local: "(\<And>x. exec.keeps d K (f x)) \<Longrightarrow> exec.keeps d K (bindP (local_get g) f)"
  unfolding local_get_def by (rule exec.keeps_bind [OF exec.keeps_readP])

lemma exec_bind_own:
  assumes "\<And>r. exec.keeps d (insert (KnowsRun r) K) (f r)"
  shows "exec.keeps d K (bindP (local_get ws_run) f)"
  by (rule exec.keeps_bind_learn [where L = "\<lambda>r. {KnowsRun r}"])
    (use assms in \<open>auto simp: local_get_def exec_sound_def exec_knows_def exec.keeps_readP
      simp del: holds.simps\<close>)

lemma exec_local_set: "(\<And>l. ws_run (f l) = ws_run l) \<Longrightarrow> exec.keeps d K (local_set f)"
  by (rule exec.keeps_same) (simp add: local_set_def exec_sys_def exec_sound_def sys.R_refl)

lemma exec_set_run:
  assumes "KnowsRun r \<in> K"
  shows "exec.keeps d K (local_set (\<lambda>l. l\<lparr>ws_run := r\<rparr>))"
  by (rule exec.keepsI)
    (use assms in \<open>auto simp: local_set_def exec_sys_def exec_sound_def exec_knows_def sys.R_refl
      simp del: holds.simps\<close>)

subsection \<open>Every part of an execution keeps it\<close>

lemma exec_wport: "rely (wk_services d) \<Longrightarrow> exec.keeps d K (wport d f)"
  unfolding wport_def by (intro exec_keeps_srv upholds_worker_port)

lemma exec_bind_wport:
  "rely (wk_services d) \<Longrightarrow> (\<And>x. exec.keeps d K (f x)) \<Longrightarrow> exec.keeps d K (bindP (wport d g) f)"
  by (intro exec.keeps_bind exec_wport)

lemma exec_bind_ask:
  "rely (wk_services d) \<Longrightarrow> (\<And>x. exec.keeps d K (f x)) \<Longrightarrow> exec.keeps d K (bindP (srv (ask g)) f)"
  by (intro exec_bind_srv upholds_ask)

lemma exec_bind_read:
  "rely (wk_services d) \<Longrightarrow> (\<And>x. exec.keeps d K (f x)) \<Longrightarrow> exec.keeps d K (bindP (srv (readP g)) f)"
  by (intro exec_bind_srv upholds_read)

lemma exec_append_own: "rely (wk_services d) \<Longrightarrow> exec.keeps d K (append_own d tn type payload)"
  unfolding append_own_def by (intro exec_bind_local exec_keeps_srv upholds_run_append)

lemma exec_await_cancellable:
  "rely (wk_services d) \<Longrightarrow> exec.keeps d K (await_cancellable d tn rid f)"
  unfolding await_cancellable_def
  by (intro exec_bind_read exec.keeps_then exec_keeps_srv upholds_poll_cancellation exec_wport)

lemma exec_publish_candidate:
  "rely (wk_services d) \<Longrightarrow> exec.keeps d K (publish_candidate d upload tn baseline m published n entry)"
  unfolding publish_candidate_def Let_def
  by (cases entry) (auto intro!: exec_intros exec_bind_ask exec_bind_wport exec_append_own)

lemma exec_publish_outputs:
  "rely (wk_services d) \<Longrightarrow> exec.keeps d K (publish_workspace_outputs d tn baseline text m)"
  unfolding publish_workspace_outputs_def
  by (auto intro!: exec_intros exec_bind_ask exec_bind_local exec_bind_srv upholds_list_after
    exec_publish_candidate)

lemma exec_recover: "rely (wk_services d) \<Longrightarrow> exec.keeps d K (recover_failed_workspace d tn)"
  unfolding recover_failed_workspace_def
  by (auto intro!: exec_bind_local exec.keeps_bind exec.keeps_sum exec_intros exec_wport
    exec_publish_outputs exec_append_own split: option.split)

lemma exec_claim: "rely (wk_services d) \<Longrightarrow> exec.keeps d K (claim_own d)"
  unfolding claim_own_def
  by (rule exec_bind_own, rule exec_keeps_learn [where P = "\<lambda>_. True" and L = "\<lambda>x. {KnowsRun x}"])
    (auto intro!: upholds_claim_run returns_weaken [OF returns_claim_run] exec_set_run
      simp del: holds.simps)

lemma exec_load_session: "rely (wk_services d) \<Longrightarrow> exec.keeps d K (load_session d tn)"
  unfolding load_session_def
  by (auto intro!: exec_bind_local exec_bind_srv upholds_await upholds_ask exec_intros exec_local_set)

lemma exec_provision: "rely (wk_services d) \<Longrightarrow> exec.keeps d K (provision_sandbox d tn rid s)"
  unfolding provision_sandbox_def
  by (auto intro!: exec_intros exec_wport exec_keeps_srv upholds_ensure_quota_admission
    exec_bind_local exec.keeps_bind exec_await_cancellable exec_local_set)

lemma exec_resolve_policies: "rely (wk_services d) \<Longrightarrow> exec.keeps d K (resolve_policies d s)"
  unfolding resolve_policies_def
  by (auto intro!: exec.keeps_bind exec_intros exec_wport exec_local_set)

lemma exec_stage_inputs: "rely (wk_services d) \<Longrightarrow> exec.keeps d K (stage_inputs d tn)"
  unfolding stage_inputs_def
  by (auto intro!: exec_bind_local exec_bind_ask exec_intros exec_bind_wport exec_append_own)

lemma exec_restore_workspace: "rely (wk_services d) \<Longrightarrow> exec.keeps d K (restore_workspace d tn policy)"
  unfolding restore_workspace_def
  by (auto intro!: exec_bind_wport exec_intros exec_append_own)

lemma exec_stage_assets: "rely (wk_services d) \<Longrightarrow> exec.keeps d K (stage_assets d tn)"
  unfolding stage_assets_def by (auto intro!: exec_bind_wport exec_intros exec_append_own)

lemma exec_start_running: "rely (wk_services d) \<Longrightarrow> exec.keeps d K (start_running d tn resume)"
  unfolding start_running_def
  by (rule exec.keeps_if, erule exec_append_own, rule exec_bind_own,
      rule exec_keeps_learn [where P = "\<lambda>_. True" and L = "\<lambda>x. {KnowsRun x}"])
    (auto intro!: upholds_worker_move returns_weaken [OF returns_worker_move] exec_set_run
      simp del: holds.simps)

lemma exec_policy_event: "rely (wk_services d) \<Longrightarrow> exec.keeps d K (policy_event d tn policy)"
  unfolding policy_event_def
  by (auto intro!: exec_append_own exec_intros split: prod.split option.split)

lemma upholds_id_alone: "upholds d K {} (id_generator d prefix)"
  by (rule upholdsI) (auto simp: id_generator_def intro: sys_same)

lemma exec_files_at: "rely (wk_services d) \<Longrightarrow> exec.keeps d K (files_at d)"
  unfolding files_at_def by (intro exec_keeps_srv upholds_ask)

lemma exec_prepare: "rely (wk_services d) \<Longrightarrow> exec.keeps d K (prepare_execution d tn rid resume)"
  unfolding prepare_execution_def
  by (auto intro!: exec.keeps_then exec.keeps_bind exec_claim exec_load_session exec_provision
    exec_resolve_policies exec_restore_workspace exec_stage_inputs exec_files_at exec_keeps_srv
    upholds_ask upholds_read upholds_id_alone exec_stage_assets exec_await_cancellable
    exec_local_set exec_start_running exec_policy_event exec.keeps_option exec.keeps_ret exec_wport
    exec_bind_local split: prod.split)

lemma exec_mark_request: "rely (wk_services d) \<Longrightarrow> exec.keeps d K (mark_request d ws staged payload)"
  unfolding mark_request_def Let_def
  by (auto intro!: exec.keeps_bind exec_files_at exec_intros exec_local_set)

lemma exec_redact_result: "rely (wk_services d) \<Longrightarrow> exec.keeps d K (redact_result d tn payload)"
  unfolding redact_result_def Let_def
  by (auto intro!: exec_bind_local exec.keeps_bind exec_intros exec_keeps_srv upholds_list_after
    split: prod.split)

lemma exec_redact_paths: "rely (wk_services d) \<Longrightarrow> exec.keeps d K (redact_payload_paths d ws payload)"
  unfolding redact_payload_paths_def by (auto intro!: exec.keeps_bind exec_files_at exec_intros)

lemma exec_choose_message: "rely (wk_services d) \<Longrightarrow> exec.keeps d K (choose_message_id d rid payload)"
  unfolding choose_message_id_def Let_def
  by (auto intro!: exec_bind_local exec_intros exec_keeps_srv upholds_id_alone)

lemma exec_track_message: "rely (wk_services d) \<Longrightarrow> exec.keeps d K (track_message d rid type payload)"
  unfolding track_message_def Let_def
  by (intro exec.keeps_if exec.keeps_then exec_local_set exec.keeps_bind exec_choose_message
    exec_bind_local exec.keeps_ret) simp_all

lemma exec_publish_artifact:
  "rely (wk_services d) \<Longrightarrow> exec.keeps d K (publish_artifact d upload tn h payload)"
  unfolding publish_artifact_def Let_def
  by (auto intro!: exec_intros exec_wport exec_bind_ask exec_bind_wport exec_bind_local
    exec_append_own split: prod.split)

lemma exec_note_result: "exec.keeps d K (note_result type payload)"
  unfolding note_result_def by (intro exec.keeps_when exec_local_set) simp

lemma upholds_bind_session:
  "upholds d K own (\<lambda>w. case bind_claude_session_id (w_sessions w) tn sid sdk of
     Inl e \<Rightarrow> (Inl e, w) | Inr (bound, t) \<Rightarrow> (Inr bound, w\<lparr>w_sessions := t\<rparr>))"
  by (rule upholds_quiet) (auto intro: sys_same split: sum.split prod.split)

lemma exec_bind_sdk: "rely (wk_services d) \<Longrightarrow> exec.keeps d K (bind_sdk_session d tn type payload)"
  unfolding bind_sdk_session_def
  by (auto intro!: exec_intros exec_bind_local exec_bind_srv upholds_await upholds_bind_session
    exec_local_set split: option.split json.split bool.split)

lemma exec_request_tool:
  assumes r: "rely (wk_services d)"
  shows "exec.keeps d K (request_tool d tn rid h rules arguments payload)"
proof -
  have get: "exec.keeps d K (srv (await (wk_services d) (runs_get tn rid)))"
    unfolding runs_get_def using r by (intro exec_keeps_srv upholds_await upholds_ask)
  have asked: "exec.keeps d K (case v of
      JObj summary \<Rightarrow> srv (approvals_request (wk_services d) tn rid (f summary))
    | _ \<Rightarrow> raise (OtherError ''ValidationError'' [] False))" for v f
    using r by (cases v) (simp_all add: exec.keeps_raise exec_keeps_srv upholds_approvals_request)
  have paused: "exec.keeps d K (case active of None \<Rightarrow> ret () | Some m \<Rightarrow>
      append_own d tn ''message.completed'' [(''message_id'', JStr m)])" for active
    using r by (intro exec.keeps_option exec.keeps_ret exec_append_own)
  have decided: "exec.keeps d K (case decision of
      PolicyDeny \<Rightarrow> a | PolicyAllow \<Rightarrow> b | PolicyAsk \<Rightarrow> c)"
    if "exec.keeps d K a" "exec.keeps d K b" "exec.keeps d K c" for decision a b c
    using that by (cases decision) simp_all
  show ?thesis
    unfolding request_tool_def Let_def
    using r by (intro exec.keeps_then exec_append_own exec_bind_local decided exec.keeps_ret
      exec.keeps_if exec.keeps_raise exec.keeps_bind [OF asked] paused exec.keeps_bind [OF get])
qed

lemma exec_handle_payload:
  "rely (wk_services d) \<Longrightarrow> exec.keeps d K (handle_payload d tn rid h rules type arguments payload)"
proof -
  assume r: "rely (wk_services d)"
  have other: "exec.keeps d K (thenP (append_own d tn type payload)
      (thenP (whenP b (local_set (\<lambda>l. l\<lparr>ws_active_message := None\<rparr>))) (ret None)))" for b
    using r by (intro exec.keeps_then exec_append_own exec.keeps_when exec_local_set exec.keeps_ret) simp_all
  have published: "exec.keeps d K (thenP (publish_artifact d upload tn h payload) (ret None))"
    for upload using r by (intro exec.keeps_then exec_publish_artifact exec.keeps_ret)
  have "exec.keeps d K (case (a, u, q, p) of
      (True, Some upload, _) \<Rightarrow> thenP (publish_artifact d upload tn h payload) (ret None)
    | (_, _, True, Some active) \<Rightarrow> request_tool d tn rid h active arguments payload
    | _ \<Rightarrow> thenP (append_own d tn type payload)
        (thenP (whenP b (local_set (\<lambda>l. l\<lparr>ws_active_message := None\<rparr>))) (ret None)))" for a u q p b
    by (cases a; cases u; cases q; cases p)
      (simp_all add: other published exec_request_tool [OF r])
  then show ?thesis unfolding handle_payload_def .
qed

lemma exec_move:
  "rely (wk_services d) \<Longrightarrow> KnowsRun r \<in> K \<Longrightarrow> exec.keeps d K (srv (worker_move d r target code payload))"
  by (intro exec_keeps_srv upholds_worker_move)

lemma exec_handle_event:
  assumes r: "rely (wk_services d)"
  shows "exec.keeps d K (handle_event d tn rid h rules staged e)"
proof -
  let ?K = "\<lambda>x. insert (KnowsRun x) K"
  have cancelled: "exec.keeps d (?K x)
      (bindP (srv (worker_move d x RunCancelled None [])) (\<lambda>y. ret (Some y)))" for x
    using r by (intro exec_bind_srv upholds_worker_move exec.keeps_ret) simp_all
  have rest: "exec.keeps d K' (bindP
      (if re_type e = ''tool.request'' then mark_request d (handle_path h) staged (re_payload e)
       else if re_type e = ''tool.result'' then redact_result d tn (re_payload e)
       else ret (re_payload e)) (\<lambda>p1.
      bindP (redact_payload_paths d (handle_path h) p1) (\<lambda>p2.
      bindP (track_message d rid (re_type e) p2) (\<lambda>p3.
        handle_payload d tn rid h rules (re_type e) original
          (audit_arguments d (re_type e) p3)))))" for K' original
    using r by (intro exec.keeps_bind exec.keeps_if exec_mark_request exec_redact_result
      exec.keeps_ret exec_redact_paths exec_track_message exec_handle_payload)
  show ?thesis
    unfolding handle_event_def
    using r by (intro exec_bind_get exec.keeps_if exec.keeps_then exec.keeps_when exec_append_own
      exec_keeps_srv [OF _ upholds_fail_active_subagents] cancelled exec.keeps_ret exec_set_run
      exec_note_result exec_bind_sdk rest) simp_all
qed

lemma exec_handle_backlog:
  "(\<And>e. exec.keeps d K (handle e)) \<Longrightarrow> exec.keeps d K (handle_backlog handle es)"
  by (induction es) (auto intro!: exec_intros exec.keeps_bind)

lemma exec_follow_runtime:
  assumes r: "rely (wk_services d)" and h: "\<And>e. exec.keeps d K (handle e)"
  shows "exec.keeps d K (follow_runtime d tn rid handle es failure)"
  by (induction es)
    (auto intro!: r h exec_intros exec.keeps_bind exec.keeps_sum exec_await_cancellable exec_bind_read
      exec_handle_backlog)

lemma exec_archive_result: "rely (wk_services d) \<Longrightarrow> exec.keeps d K (archive_result d tn)"
  unfolding archive_result_def
  by (auto intro!: exec_bind_local exec_intros exec_bind_wport exec_append_own exec_local_set
    split: option.split bool.split)

lemma exec_charge_result: "rely (wk_services d) \<Longrightarrow> exec.keeps d K (charge_result d tn rid)"
  unfolding charge_result_def
  by (auto intro!: exec_bind_local exec_intros exec_local_set exec_keeps_srv
    upholds_record_quota_result split: option.split)

lemma exec_complete: "rely (wk_services d) \<Longrightarrow> exec.keeps d K (complete_run d tn rid)"
  unfolding complete_run_def
  by (auto intro!: exec_intros exec_charge_result exec_wport exec_bind_local exec_publish_outputs
    exec_archive_result exec_bind_get exec_move)

lemma exec_run: "rely (wk_services d) \<Longrightarrow> exec.keeps d K (run_execution d tn rid resume)"
  unfolding run_execution_def
  by (auto intro!: exec.keeps_bind exec_prepare exec_follow_runtime exec_handle_event exec_intros
    exec_complete split: prod.split)

lemma exec_recover_workspace: "rely (wk_services d) \<Longrightarrow> exec.keeps d K (recover_workspace d tn)"
  unfolding recover_workspace_def by (auto intro!: exec.keeps_bind exec_recover exec_local_set)

lemma exec_end_failed: "rely (wk_services d) \<Longrightarrow> exec.keeps d K (end_failed d tn rid e)"
  unfolding end_failed_def
  by (cases e) (auto intro!: exec_intros exec_recover_workspace exec_keeps_srv upholds_endings
    exec_charge_result upholds_handle_unexpected_error)

lemma exec_cleanup: "rely (wk_services d) \<Longrightarrow> exec.keeps d K (cleanup_execution d tn)"
  unfolding cleanup_execution_def
  by (auto intro!: exec_intros exec_wport exec_bind_local exec_append_own split: prod.split option.split)

lemma exec_finally:
  "exec.keeps d K m \<Longrightarrow> exec.keeps d K c \<Longrightarrow> exec.keeps d K (finallyP m c)"
  unfolding finallyP_def by (auto intro!: exec.keeps_bind exec_intros exec.keeps_sum)

subsection \<open>An execution as a handler\<close>

lemma upholds_execution:
  assumes "exec.keeps d {} m" and "KnowsRun r \<in> K"
  shows "upholds (wk_services d) K {} (\<lambda>w. case m (new_worker_state r, w) of (x, s) \<Rightarrow> (x, snd s))"
proof (rule upholdsI)
  fix w x t
  assume w: "world_sound (wk_services d) w" and K: "\<And>f. f \<in> K \<Longrightarrow> holds w f"
    and run: "(case m (new_worker_state r, w) of (x, s) \<Rightarrow> (x, snd s)) = (x, t)"
  then obtain s where s: "m (new_worker_state r, w) = (x, s)" "t = snd s"
    by (auto split: prod.splits)
  have "exec_sound d (new_worker_state r, w)"
    using w K assms(2) by (simp add: exec_sound_def new_worker_state_def del: holds.simps)
  from exec.keepsD [OF assms(1) this _ s(1)] show "sys_own (wk_services d) {} w t"
    by (simp add: exec_sys_def s(2))
qed

lemma upholds_worker_execute:
  "rely (wk_services d) \<Longrightarrow> upholds (wk_services d) K {} (worker_execute d tn rid)"
  unfolding worker_execute_def
  by (auto intro!: upholds_bind_runs_get upholds_if upholds_ret upholds_worker_move
    upholds_execution exec_finally exec.keeps_catch exec_run exec_end_failed exec_cleanup)

lemma upholds_execute: "rely (wk_services d) \<Longrightarrow> upholds (wk_services d) K {} (execute d tn rid)"
  unfolding execute_def
  by (auto intro!: upholds_bind upholds_worker_execute upholds_then upholds_release_terminal_quota
    upholds_ret)

end
