(* ===== verification/Worker_System.thy ===== *)
theory Worker_System
  imports Platform Worker_Guarantees
begin

section \<open>The platform with its workers\<close>

text \<open>
  \<open>system_steps\<close> are sequences of calls to the services and of executions of runs by workers,
  each interrupted at every await by anything that keeps the protocol: other calls, other
  executions, the same run executed by another worker. \<open>execute\<close> keeps the protocol, so
  executions may be the interference of calls and of each other.
\<close>

inductive system_steps :: "run_deps \<Rightarrow> worker_deps \<Rightarrow> world \<Rightarrow> world \<Rightarrow> bool" for rd wd where
  none: "system_steps rd wd w w"
| call: "system_steps rd wd w u \<Longrightarrow> perform rd (wk_services wd) c u = (r, v) \<Longrightarrow> system_steps rd wd w v"
| run: "system_steps rd wd w u \<Longrightarrow> execute wd tn rid u = (r, v) \<Longrightarrow> system_steps rd wd w v"

lemma execute_sys:
  assumes "services rd (wk_services wd)" and "execute wd tn rid w = (r, t)" and "world_sound rd w"
  shows "sys rd w t"
proof -
  have rely: "rely (wk_services wd)" and ids: "d_new_id (wk_services wd) = d_new_id rd"
    using assms(1) by (simp_all add: services_def)
  have "world_sound (wk_services wd) w" using assms(3) by (simp add: sys_cong(2) [OF ids])
  from upholdsD [OF upholds_execute [OF rely, of "{}"] this _ _ assms(2)] show ?thesis
    by (simp add: sys_cong(1) [OF ids])
qed

lemma system_steps_sys:
  assumes "system_steps rd wd w t" and "services rd (wk_services wd)" and "world_sound rd w"
  shows "sys rd w t \<and> world_sound rd t"
  using assms
proof (induction rule: system_steps.induct)
  case (none w)
  then show ?case by (simp add: sys.R_refl)
next
  case (call w u c r v)
  then show ?case
    using platform_step_sys [OF call.prems(1) call.hyps(2)] by (blast intro: sys.R_trans sys_ownD(5))
next
  case (run w u tn rid r v)
  then show ?case
    using execute_sys [OF run.prems(1) run.hyps(2)] by (blast intro: sys.R_trans sys_ownD(5))
qed

subsection \<open>A worker\<close>

text \<open>A worker with a runtime that answers in one message, without quotas, tools or artifacts.\<close>

definition plain_files :: file_view where
  "plain_files = \<lparr>fv_resolve = Some, fv_resolve_strict = Some, fv_exists = (\<lambda>_. False),
     fv_is_file = (\<lambda>_. False), fv_references = (\<lambda>_. [])\<rparr>"

definition plain_sandbox :: sandbox_handle where
  "plain_sandbox = \<lparr>handle_path = ''/w'', handle_provider = ''local'',
     handle_isolation = IsolationWorkspace\<rparr>"

definition plain_worker :: "approval_deps \<Rightarrow> runtime_stream \<Rightarrow> worker_deps" where
  "plain_worker ad stream =
     \<lparr>wk_services = ad, wk_show = (\<lambda>_. []), wk_ellipsis = CHR ''.'', wk_files = (\<lambda>_. plain_files),
      wk_polls = (\<lambda>_. 1), wk_backlog = (\<lambda>_. 0), wk_quotas = False, wk_plan = None,
      wk_parse = (\<lambda>_. None), wk_approvals = True, wk_resolve_sandbox = None,
      wk_provision = (\<lambda>_ _. Inr plain_sandbox), wk_prepare = (\<lambda>_. Inr ()), wk_collect = (\<lambda>_. Inr ()),
      wk_destroy = (\<lambda>_. Inr ()), wk_policy_resolver = None, wk_policy = None,
      wk_workspace_policy = None, wk_restore = None, wk_archive = None, wk_memory = None,
      wk_stage_inputs = None, wk_stage_assets = None, wk_runtime = (\<lambda>_ _ _. stream),
      wk_fingerprints = (\<lambda>_. Inr []), wk_upload = None, wk_output_files = (\<lambda>_. []),
      wk_final_paths = (\<lambda>_ _. []), wk_read = (\<lambda>_ _ _. Inl (ValueError [])), wk_digest = id,
      wk_max_output_bytes = 1000, wk_revoke = None\<rparr>"

lemma plain_worker_simps [simp]: "wk_services (plain_worker ad stream) = ad"
  by (simp add: plain_worker_def)

definition answering :: runtime_stream where
  "answering = \<lparr>stream_events =
      [\<lparr>re_type = ''message.delta'', re_payload = [(''text'', JStr ''hi'')]\<rparr>,
       \<lparr>re_type = ''message.completed'', re_payload = []\<rparr>],
     stream_error = None\<rparr>"

definition failing :: "herror \<Rightarrow> runtime_stream" where
  "failing e = \<lparr>stream_events = [], stream_error = Some e\<rparr>"

end
