(* ===== verification/Gate_Outcomes.thy ===== *)
theory Gate_Outcomes
  imports Tool_Gate Outcomes
begin

section \<open>What the services promise the gate\<close>

text \<open>
  An event that was appended stands in the log; an approval that was requested is the one of the
  tool call; a wait that returns reports the decision that is stored. All of it holds whatever
  the others do at the awaits, as long as they respect the protocol and, for the last, keep the
  futures of waiting calls honest.
\<close>

subsection \<open>Events\<close>

lemma history_prefix:
  assumes "sys_own d own s t" and "world_sound d s"
  obtains es where "event_stream (w_events t) k = event_stream (w_events s) k @ es"
  using stores_growD(1) [OF sys_ownD(6) [OF assms]] unfolding event_history_def by blast

lemma append_rounds_placed:
  assumes r: "rely d" and w: "world_sound d w" and f: "fresh d w (''event'', event_id e)"
    and run: "append_rounds n d e w = (Inr x, t)"
  shows "\<exists>es. event_stream (w_events t) (event_stream_key e) =
      event_stream (w_events w) (event_stream_key e) @ es @ [x] \<and>
    x = e\<lparr>event_sequence := event_sequence x\<rparr>"
  using w f run
proof (induction n arbitrary: w e)
  case (Suc n)
  let ?w1 = "suspended d w" and ?k = "event_stream_key e"
  let ?w2 = "suspended d ?w1"
  have ids: "ids_distinct d" using r by (simp add: rely_def)
  have w1: "world_sound d ?w1" using r Suc.prems(1) by (rule suspended_sound)
  have w2: "world_sound d ?w2" using r w1 by (rule suspended_sound)
  have f1: "fresh d ?w1 (''event'', event_id e)"
    using fresh_stable [OF ids suspended_sys [OF r Suc.prems(1)] Suc.prems(1,2)] .
  have f2: "fresh d ?w2 (''event'', event_id e)"
    using fresh_stable [OF ids suspended_sys [OF r w1] w1 f1] .
  obtain es1 where "event_stream (w_events ?w1) ?k = event_stream (w_events w) ?k @ es1"
    using suspended_sys [OF r Suc.prems(1)] Suc.prems(1) by (rule history_prefix)
  moreover obtain es2 where "event_stream (w_events ?w2) ?k = event_stream (w_events ?w1) ?k @ es2"
    using suspended_sys [OF r w1] w1 by (rule history_prefix)
  ultimately obtain es3 where
    old: "event_stream (w_events ?w2) ?k = event_stream (w_events w) ?k @ es3" by simp
  define e' where "e' = next_event (event_list_after (w_events ?w1) (event_tenant_id e)
    (event_run_id e) 0) e"
  have e': "event_id e' = event_id e" "event_stream_key e' = ?k"
    "e' = e\<lparr>event_sequence := event_sequence e'\<rparr>"
    by (simp_all add: e'_def) (simp add: next_event_def)
  have new: "dict_get (events_by_id (w_events ?w2)) (event_id e) = None"
    using f2 by (simp add: fresh_def)
  have step: "append_rounds (Suc n) d e w = (case event_append e' (w_events ?w2) of
      Inr es \<Rightarrow> (Inr e', ?w2\<lparr>w_events := es\<rparr>)
    | Inl y \<Rightarrow> if is_event_sequence_conflict y then append_rounds n d e' ?w2 else (Inl y, ?w2))"
    by (simp add: bindP_apply tryP_apply await_def ask_def events_append_def e'_def split: sum.split)
  show ?case
  proof (cases "event_append e' (w_events ?w2)")
    case (Inr es)
    then have "event_stream es ?k = event_stream (w_events ?w2) ?k @ [e']"
      using new e'(1,2) by (auto simp: event_append_def Let_def dict_get_or_def split: if_splits)
    moreover have "x = e'" "w_events t = es" using Inr step Suc.prems(3) by auto
    ultimately have "event_stream (w_events t) ?k = event_stream (w_events w) ?k @ es3 @ [x]"
      using old by simp
    with \<open>x = e'\<close> e'(3) show ?thesis by blast
  next
    case (Inl y)
    with step Suc.prems(3) have again: "append_rounds n d e' ?w2 = (Inr x, t)"
      by (simp split: if_splits)
    have f2': "fresh d ?w2 (''event'', event_id e')" using f2 by (simp only: e'(1))
    from Suc.IH [OF w2 f2' again, unfolded e'(2)] obtain es4 where
      "event_stream (w_events t) ?k = event_stream (w_events ?w2) ?k @ es4 @ [x]"
      and x: "x = e'\<lparr>event_sequence := event_sequence x\<rparr>" by blast
    then have "event_stream (w_events t) ?k = event_stream (w_events w) ?k @ (es3 @ es4) @ [x]"
      using old by simp
    moreover have "x = e\<lparr>event_sequence := event_sequence x\<rparr>"
      by (subst x, subst e'(3)) simp
    ultimately show ?thesis by blast
  qed
qed simp

text \<open>\<open>logged w t k type payload\<close>: between two states the log gained such an event.\<close>

definition logged :: "world \<Rightarrow> world \<Rightarrow> string \<times> string \<Rightarrow> string \<Rightarrow> json_obj \<Rightarrow> bool" where
  "logged w t k type payload \<longleftrightarrow> (\<exists>es e es'. event_stream (w_events t) k =
     event_stream (w_events w) k @ es @ e # es' \<and> event_type e = type \<and> event_payload e = payload)"

lemma event_service_append_logged:
  assumes r: "rely d" and w: "world_sound d w"
    and run: "event_service_append d tn rid sid type payload w = (Inr x, t)"
  shows "logged w t (tn, rid) type payload"
proof -
  let ?i = "d_new_id d ''event'' (w_ids w)" and ?ts = "d_clock d (w_clock_reads w)"
  let ?w = "w\<lparr>w_ids := Suc (w_ids w), w_clock_reads := Suc (w_clock_reads w)\<rparr>"
  let ?e = "\<lparr>event_id = ?i, event_run_id = rid, event_session_id = sid,
    event_tenant_id = tn, event_sequence = 1, event_type = type, event_timestamp = ?ts,
    event_payload = payload, event_schema_version = 1, event_trace_id = d_trace_id d,
    event_span_id = d_span_id d\<rparr>"
  have w': "world_sound d ?w" using sys_ownD(5) [OF sys_same [of ?w w d "{}"] w] by simp
  have "\<not> drawn d ''event'' {..<w_ids w} ?i"
    by (rule drawn_disjoint [where ns = "{w_ids w}"]) (use r in \<open>auto simp: rely_def drawn_def\<close>)
  with w have "\<not> dict_has (events_by_id (w_events w)) ?i" unfolding world_sound_def by blast
  then have f: "fresh d ?w (''event'', event_id ?e)" by (auto simp: fresh_def drawn_def)
  from run obtain e s where rounds: "append_rounds (d_rounds d) d ?e ?w = (Inr e, s)"
    and t: "w_events t = w_events (suspended d s)"
    by (auto simp: event_service_append_def id_generator_def clock_def prog_apply await_def
      bus_publish_event_def split: sum.splits prod.splits)
  from append_rounds_placed [OF r w' f rounds] obtain es where
    es: "event_stream (w_events s) (tn, rid) = event_stream (w_events w) (tn, rid) @ es @ [e]"
      "e = ?e\<lparr>event_sequence := event_sequence e\<rparr>"
    by (auto simp: event_stream_key_def)
  have up: "upholds d {} {(''event'', ?i)} (append_rounds (d_rounds d) d ?e)"
    using upholds_append_rounds [OF r, of "{}" ?e] by simp
  have "sys_own d {(''event'', ?i)} ?w s" by (rule upholdsD [OF up w' _ _ rounds]) (use f in simp_all)
  then have s: "world_sound d s" using w' by (rule sys_ownD)
  obtain es' where "event_stream (w_events t) (tn, rid) = event_stream (w_events s) (tn, rid) @ es'"
    using history_prefix [OF suspended_sys [OF r s] s] t by metis
  with es(1) have stream: "event_stream (w_events t) (tn, rid) =
      event_stream (w_events w) (tn, rid) @ es @ e # es'" by simp
  have "event_type e = type" "event_payload e = payload" by (subst es(2), simp)+
  with stream show ?thesis unfolding logged_def by blast
qed

subsection \<open>Approvals\<close>

lemma returns_ask_bind:
  assumes r: "rely d"
    and f: "\<And>w x. world_sound d w \<Longrightarrow> g w = Inr x \<Longrightarrow> P x \<and> (\<forall>f \<in> L x. holds w f)"
    and n: "\<And>x. P x \<Longrightarrow> returns d (K \<union> L x) (h x) Q"
  shows "returns d K (bindP (await d (ask g)) h) Q"
  using r
proof (rule returns_bind_learn [where P = P and L = L])
  show "upholds d K {} (await d (ask g))" by (intro upholds_await r upholds_ask)
  show "P x \<and> (\<forall>f \<in> L x. holds t f)" if "world_sound d w" "await d (ask g) w = (Inr x, t)" for w x t
    using that f [OF suspended_sound [OF r that(1)]] by (auto simp: await_def ask_def)
qed (rule n)

lemma approval_found_holds:
  assumes w: "world_sound d w"
    and found: "approval_find_by_tool_call (w_approvals w) tn rid call = Inr (Some a)"
  shows "approval_tool_key a = (tn, rid, call)" and "holds w (KnowsApproval a)"
proof -
  have inv: "approval_repo_inv (w_approvals w)" using w by (simp add: world_sound_def)
  from found obtain i where
    i: "dict_get (approvals_by_tool (w_approvals w)) (tn, rid, call) = Some i"
      "dict_get (approvals_items (w_approvals w)) (tn, i) = Some a"
    by (auto simp: approval_find_by_tool_call_def split: option.splits)
  from approval_repo_inv_tool [OF inv i(1)] i(2) show "approval_tool_key a = (tn, rid, call)"
    by (metis fst_conv option.inject)
  from approval_repo_inv_item(1) [OF inv i(2)] i(2) show "holds w (KnowsApproval a)"
    by (simp add: approval_later_def)
qed

lemma returns_approvals_add:
  assumes r: "rely d" and n: "returns d (insert (KnowsApproval a) K) h Q"
  shows "returns d K (thenP (await d (approvals_add a)) h) Q"
  unfolding thenP_def using r
proof (rule returns_bind_learn [where P = "\<lambda>_. True" and L = "\<lambda>_. {KnowsApproval a}"])
  show "upholds d K {} (await d (approvals_add a))" by (intro upholds_await r upholds_approvals_add)
  show "True \<and> (\<forall>f \<in> {KnowsApproval a}. holds t f)"
    if "await d (approvals_add a) w = (Inr x, t)" for w x t
    using that by (auto simp: await_def approvals_add_def approval_add_def approval_later_def
      split: if_splits sum.splits)
qed (use n in simp)

lemma upholds_plain_id_alone: "upholds d K {} (id_generator d prefix)"
  by (rule upholdsI) (auto simp: id_generator_def intro: sys_same)

lemma returns_approvals_request:
  assumes r: "rely d"
  shows "returns d {} (approvals_request d tn rid c)
    (\<lambda>a t. approval_tool_key a = (tn, rid, call_tool_call_id c) \<and> holds t (KnowsApproval a))"
  unfolding approvals_request_def
proof (rule returns_ask_bind [OF r, where L = "\<lambda>x. case x of None \<Rightarrow> {} | Some a \<Rightarrow> {KnowsApproval a}"
      and P = "\<lambda>x. case x of None \<Rightarrow> True
        | Some a \<Rightarrow> approval_tool_key a = (tn, rid, call_tool_call_id c)"])
  fix w x
  assume "world_sound d w"
    and "approval_find_by_tool_call (w_approvals w) tn rid (call_tool_call_id c) = Inr x"
  then show "(case x of None \<Rightarrow> True | Some a \<Rightarrow> approval_tool_key a = (tn, rid, call_tool_call_id c)) \<and>
      (\<forall>f \<in> case x of None \<Rightarrow> {} | Some a \<Rightarrow> {KnowsApproval a}. holds w f)"
    using approval_found_holds by (cases x) auto
next
  fix found
  assume P: "case found of None \<Rightarrow> True
    | Some a \<Rightarrow> approval_tool_key a = (tn, rid, call_tool_call_id c)"
  show "returns d ({} \<union> (case found of None \<Rightarrow> {} | Some a \<Rightarrow> {KnowsApproval a}))
    (case found of
       Some existing \<Rightarrow>
         thenP (whenP (call_inline c \<and> approval_status existing = ApprovalPending)
                  (register_inline_waiter tn (approval_id existing))) (ret existing)
     | None \<Rightarrow>
         bindP (await d (runs_get tn rid)) (\<lambda>r.
           if run_status r \<noteq> RunRunning
           then raise (ConflictError ''approval can only pause a running Run'')
           else bindP (clock d) (\<lambda>now.
             bindP (id_generator d ''approval'') (\<lambda>aid.
             let a = new_approval d tn rid c aid now in
             thenP (whenP (call_inline c) (register_inline_waiter tn (approval_id a)))
             (thenP (await d (approvals_add a))
             (thenP (event_service_append d tn rid (run_session_id r)
                       ''approval.requested'' (requested_payload d c a))
             (thenP (move_run d r RunWaitingApproval) (ret a))))))))
    (\<lambda>a t. approval_tool_key a = (tn, rid, call_tool_call_id c) \<and> holds t (KnowsApproval a))"
  proof (cases found)
    case (Some a)
    with P show ?thesis using r
      by (auto intro!: returns_then upholds_when upholds_waiters returns_ret simp del: holds.simps)
  next
    case None
    then show ?thesis using r
      by (auto intro!: returns_bind_runs_get returns_raise returns_bind_clock
        returns_bind upholds_plain_id_alone returns_then upholds_when upholds_waiters
        returns_approvals_add upholds_event_append upholds_move_run returns_ret
        simp: Let_def new_approval_def approval_tool_key_def simp del: holds.simps)
  qed
qed

subsection \<open>Waiting for a decision\<close>

text \<open>
  \<open>honest tn w\<close>: the waiters of this process belong to the tenant \<open>tn\<close>, and the future of a
  waiter that is done carries the decision stored for its approval. \<open>fair_waiters tn d\<close>: the
  others keep it so, and leave registered waiters registered. One tenant is assumed because the
  table of waiters is keyed by the id of the approval alone, while the store is keyed by tenant
  and id.
\<close>

definition waiting :: "world \<Rightarrow> string \<Rightarrow> nat \<Rightarrow> string \<Rightarrow> bool" where
  "waiting w aid f tn \<longleftrightarrow>
     dict_get (w_inline_waiters w) aid = Some f \<and> dict_get (w_inline_tenants w) aid = Some tn"

definition honest :: "string \<Rightarrow> world \<Rightarrow> bool" where
  "honest tn w \<longleftrightarrow> (\<forall>aid f tn'. waiting w aid f tn' \<longrightarrow> tn' = tn \<and>
     (case future_result f w of
        None \<Rightarrow> True
      | Some s \<Rightarrow> (\<exists>a. dict_get (approvals_items (w_approvals w)) (tn, aid) = Some a \<and>
          approval_status a = s \<and> s \<noteq> ApprovalPending)))"

definition waiters_kept :: "string \<Rightarrow> world \<Rightarrow> world \<Rightarrow> bool" where
  "waiters_kept tn w t \<longleftrightarrow> (honest tn w \<longrightarrow>
     honest tn t \<and> (\<forall>aid f tn'. waiting w aid f tn' \<longrightarrow> waiting t aid f tn'))"

definition fair_waiters :: "string \<Rightarrow> ('x) deps_scheme \<Rightarrow> bool" where
  "fair_waiters tn d \<longleftrightarrow> (\<forall>n w. waiters_kept tn w (d_others d n w))"

lemma honest_tenant: "honest tn w \<Longrightarrow> waiting w aid f tn' \<Longrightarrow> tn' = tn"
  unfolding honest_def by blast

lemma honest_done:
  assumes "honest tn w" and "waiting w aid f tn'" and "future_result f w = Some s"
  obtains a where "dict_get (approvals_items (w_approvals w)) (tn, aid) = Some a"
    and "approval_status a = s"
proof -
  from assms(1,2) have "case future_result f w of None \<Rightarrow> True
      | Some s \<Rightarrow> (\<exists>a. dict_get (approvals_items (w_approvals w)) (tn, aid) = Some a \<and>
          approval_status a = s \<and> s \<noteq> ApprovalPending)"
    unfolding honest_def by blast
  with assms(3) that show thesis by auto
qed

lemma waiters_kept_same:
  assumes "w_inline_waiters t = w_inline_waiters w" and "w_inline_tenants t = w_inline_tenants w"
    and "w_futures t = w_futures w" and "w_approvals t = w_approvals w"
  shows "waiters_kept tn w t"
  unfolding waiters_kept_def honest_def waiting_def future_result_def assms by blast

lemma waiters_kept_trans: "waiters_kept tn w t \<Longrightarrow> waiters_kept tn t u \<Longrightarrow> waiters_kept tn w u"
  by (simp add: waiters_kept_def)

interpretation waiters: evolution "waiters_kept tn"
  by unfold_locales (simp add: waiters_kept_def, rule waiters_kept_trans)

lemma suspended_waiters:
  assumes "fair_waiters tn d"
  shows "waiters_kept tn w (suspended d w)"
proof -
  have "waiters_kept tn w (d_others d (w_awaits w) w)"
    using assms unfolding fair_waiters_def by blast
  moreover have "waiters_kept tn (d_others d (w_awaits w) w) (suspended d w)"
    by (rule waiters_kept_same) (simp_all add: suspended_def)
  ultimately show ?thesis by (rule waiters_kept_trans)
qed

lemma approval_key_decided [simp]: "approval_key (a\<lparr>approval_status := s\<rparr>) = approval_key a"
  by (simp add: approval_key_def)

lemma returns_stored:
  assumes r: "rely d"
  shows "returns d K (await d (approvals_get (approval_tenant_id a) (approval_id a)))
    (\<lambda>x t. approval_key x = approval_key a \<and> holds t (KnowsApproval x))"
proof (rule returnsI)
  fix w x t
  assume w: "world_sound d w"
    and "await d (approvals_get (approval_tenant_id a) (approval_id a)) w = (Inr x, t)"
  from approvals_get_found [OF r this]
  show "approval_key x = approval_key a \<and> holds t (KnowsApproval x)"
    by (simp add: approval_key_def)
qed

lemma returns_cancel_pending_approval:
  assumes r: "rely d" and "KnowsApproval a \<in> K"
  shows "returns d K (cancel_pending_approval d a r reason)
    (\<lambda>x t. approval_key x = approval_key a \<and> holds t (KnowsApproval x))"
  unfolding cancel_pending_approval_def Let_def
  by (rule returns_bind_approvals_cas [OF assms])
    (use r in \<open>auto intro!: returns_stored returns_then upholds_event_append upholds_waiters
      returns_ret simp del: holds.simps\<close>)

lemma returns_expire_approval:
  assumes r: "rely d" and "KnowsApproval a \<in> K"
  shows "returns d K (expire_approval d a)
    (\<lambda>x t. approval_key x = approval_key a \<and> holds t (KnowsApproval x))"
  unfolding expire_approval_def Let_def
  by (rule returns_bind_approvals_cas [OF assms])
    (use r in \<open>auto intro!: returns_stored returns_bind_runs_get returns_then
      upholds_event_append upholds_expire_rest upholds_waiters returns_ret
      simp del: holds.simps\<close>)

lemma returns_decided:
  assumes r: "rely d" and a: "KnowsApproval a \<in> K"
  shows "returns d K (thenP (whenP (approval_inline a \<and> approval_status a = ApprovalApproved)
      (ensure_inline_run_resumed d a)) (ret (approval_status a)))
    (\<lambda>s t. s = approval_status a \<and> holds t (KnowsApproval a))"
  using assms by (auto intro!: returns_then upholds_when upholds_ensure_inline_run_resumed
    returns_ret simp del: holds.simps)

lemma wait_rounds_outcome:
  assumes r: "rely d" and fair: "fair_waiters tn d" and w: "world_sound d w" "honest tn w"
    "waiting w aid f tn"
    and run: "wait_rounds n d f tn aid w = (Inr s, t)"
  shows "\<exists>a. approval_key a = (tn, aid) \<and> approval_status a = s \<and> holds t (KnowsApproval a)"
  using w run
proof (induction n arbitrary: w)
  case (Suc n)
  let ?P = "\<lambda>s t. \<exists>a. approval_key a = (tn, aid) \<and> approval_status a = s \<and>
    holds t (KnowsApproval a)"
  let ?w1 = "suspended d w"
  let ?w2 = "suspended d ?w1"
  let ?w3 = "?w2\<lparr>w_clock_reads := Suc (w_clock_reads ?w2)\<rparr>"
  let ?w4 = "suspended d ?w3"
  have kept: "waiters_kept tn w ?w1" "waiters_kept tn ?w1 ?w2" "waiters_kept tn ?w3 ?w4"
    by (rule suspended_waiters [OF fair])+
  have same: "waiters_kept tn ?w2 ?w3" by (rule waiters_kept_same) simp_all
  have k: "honest tn ?w4" "waiting ?w4 aid f tn"
    using Suc.prems(2,3) kept same unfolding waiters_kept_def by blast+
  have w1: "world_sound d ?w1" using r Suc.prems(1) by (rule suspended_sound)
  have w2: "world_sound d ?w2" using r w1 by (rule suspended_sound)
  have w3: "world_sound d ?w3" using sys_ownD(5) [OF sys_same [of ?w3 ?w2 d "{}"] w2] by simp
  have w4: "world_sound d ?w4" using r w3 by (rule suspended_sound)
  from Suc.prems(4) obtain c where c: "await d (approvals_get tn aid) w = (Inr c, ?w1)"
    by (auto simp: bindP_apply await_def approvals_get_def ask_def split: sum.splits)
  note found = approvals_get_found [OF r Suc.prems(1) c]
  have keys: "approval_key c = (tn, aid)" "approval_tenant_id c = tn" "approval_id c = aid"
    using found(1) by (simp_all add: approval_key_def)
  show ?case
  proof (cases "approval_status c = ApprovalPending")
    case False
    with Suc.prems(4) c have "thenP (whenP (approval_inline c \<and> approval_status c = ApprovalApproved)
        (ensure_inline_run_resumed d c)) (ret (approval_status c)) ?w1 = (Inr s, t)" by simp
    from returnsD [OF returns_decided [OF r, of c "{KnowsApproval c}"] w1 _ this] found(1,2)
    show ?thesis by (auto simp del: holds.simps)
  next
    case True
    with Suc.prems(4) c obtain x where
      x: "await d (runs_get tn (approval_run_id c)) ?w1 = (Inr x, ?w2)"
      by (auto simp: bindP_apply await_def runs_get_def ask_def split: sum.splits)
    have known: "holds ?w2 (KnowsApproval c)"
      using found(2) by (rule holds_stable [OF suspended_sys [OF r w1]])
    show ?thesis
    proof (cases "run_status x \<in> {RunCancelling, RunCancelled}")
      case cancelling: True
      with True Suc.prems(4) c x obtain y where
        y: "cancel_pending_approval d c x ''run cancellation requested'' ?w2 = (Inr y, t)"
        "s = approval_status y"
        by (auto elim!: bindP_InrE)
      from returnsD [OF returns_cancel_pending_approval [OF r, of c "{KnowsApproval c}"] w2 _ y(1)]
        known keys y(2)
      show ?thesis by (auto simp del: holds.simps)
    next
      case False
      define now where "now = d_clock d (w_clock_reads ?w2)"
      have step: "(if approval_expires_at c \<le> now
          then bindP (expire_approval d c) (\<lambda>expired. ret (approval_status expired))
          else bindP (await d (readP (future_result f))) (\<lambda>completed.
            case completed of Some status \<Rightarrow> ret status
            | None \<Rightarrow> wait_rounds n d f tn aid)) ?w3 = (Inr s, t)"
        using False True Suc.prems(4) c x by (simp add: bindP_apply clock_def now_def)
      have known3: "holds ?w3 (KnowsApproval c)" using known by simp
      show ?thesis
      proof (cases "approval_expires_at c \<le> now")
        case True
        with step obtain y where y: "expire_approval d c ?w3 = (Inr y, t)" "s = approval_status y"
          by (auto elim!: bindP_InrE)
        from returnsD [OF returns_expire_approval [OF r, of c "{KnowsApproval c}"] w3 _ y(1)]
          known3 keys y(2)
        show ?thesis by (auto simp del: holds.simps)
      next
        case False
        show ?thesis
        proof (cases "future_result f ?w4")
          case None
          with False step have "wait_rounds n d f tn aid ?w4 = (Inr s, t)"
            by (simp add: bindP_apply await_def)
          then show ?thesis by (rule Suc.IH [OF w4 k])
        next
          case (Some st)
          with False step have st: "st = s" "t = ?w4" by (simp_all add: bindP_apply await_def)
          obtain a where a: "dict_get (approvals_items (w_approvals ?w4)) (tn, aid) = Some a"
            "approval_status a = st" by (rule honest_done [OF k Some])
          have "approval_key a = (tn, aid)"
            by (rule approval_repo_inv_item(1) [OF _ a(1)]) (use w4 in \<open>simp add: world_sound_def\<close>)
          with a st show ?thesis by (auto simp: approval_later_def)
        qed
      qed
    qed
  qed
qed simp

text \<open>The status a wait returns is the one stored for the approval, from then on if it is decided.\<close>

lemma wait_for_decision_outcome:
  assumes r: "rely d" and fair: "fair_waiters tn d" and w: "world_sound d w" "honest tn w"
    and run: "wait_for_decision d aid w = (Inr s, t)"
  obtains a where "approval_key a = (tn, aid)" and "approval_status a = s" and "holds t (KnowsApproval a)"
proof -
  from run obtain f tn' where "waiting w aid f tn'"
    and "finallyP (wait_rounds (d_rounds d) d f tn' aid) (drop_waiter aid) w = (Inr s, t)"
    by (auto simp: wait_for_decision_def waiting_def bindP_apply split: option.splits)
  moreover from this w(2) have "tn' = tn" by (blast dest: honest_tenant)
  ultimately have ft: "waiting w aid f tn"
    and fin: "finallyP (wait_rounds (d_rounds d) d f tn aid) (drop_waiter aid) w = (Inr s, t)"
    by simp_all
  then obtain u where u: "wait_rounds (d_rounds d) d f tn aid w = (Inr s, u)"
    and t: "w_approvals t = w_approvals u"
    by (cases "wait_rounds (d_rounds d) d f tn aid w")
      (auto simp: finallyP_def bindP_apply thenP_apply tryP_apply drop_waiter_def split: sum.splits)
  from wait_rounds_outcome [OF r fair w ft u] obtain a where
    "approval_key a = (tn, aid)" "approval_status a = s" "holds u (KnowsApproval a)" by blast
  with t show thesis by (intro that) auto
qed

subsection \<open>Requesting keeps the waiters honest\<close>

lemmas waiters_intros = waiters.evolves_ret waiters.evolves_raise waiters.evolves_readP
  waiters.evolves_bindP waiters.evolves_thenP waiters.evolves_tryP waiters.evolves_whenP
  waiters.evolves_If

lemma waiters_await:
  assumes "fair_waiters tn d" and "evolves (waiters_kept tn) m"
  shows "evolves (waiters_kept tn) (await d m)"
  unfolding evolves_def await_def
  using suspended_waiters [OF assms(1)] assms(2) waiters_kept_trans unfolding evolves_def by blast

lemma waiters_quiet: "evolves (waiters_kept tn) (clock d)" "evolves (waiters_kept tn) (id_generator d p)"
  "evolves (waiters_kept tn) (ask f)" "evolves (waiters_kept tn) (runs_get tn' rid)"
  "evolves (waiters_kept tn) (runs_compare_and_set e r)" "evolves (waiters_kept tn) (events_append x)"
  "evolves (waiters_kept tn) (bus_publish_event x)"
  by (auto simp: evolves_def clock_def id_generator_def ask_def runs_get_def
    runs_compare_and_set_def events_append_def bus_publish_event_def
    intro!: waiters_kept_same split: sum.split)

lemma waiters_register: "evolves (waiters_kept tn) (register_inline_waiter tn aid)"
proof -
  have "waiters_kept tn w (w\<lparr>w_inline_waiters := dict_set aid (length (w_futures w)) (w_inline_waiters w),
      w_inline_tenants := dict_set aid tn (w_inline_tenants w),
      w_futures := dict_set (length (w_futures w)) None (w_futures w)\<rparr>)" (is "waiters_kept tn w ?w")
    if "\<not> has_inline_waiter aid w" for w
  proof -
    have new: "waiting ?w i f tn' \<longleftrightarrow>
        (if i = aid then f = length (w_futures w) \<and> tn' = tn else waiting w i f tn')" for i f tn'
      by (auto simp: waiting_def)
    have fut: "future_result f ?w = (if f = length (w_futures w) then None else future_result f w)"
      for f by (simp add: future_result_def)
    have same: "w_approvals ?w = w_approvals w" by simp
    have old: "\<not> waiting w aid f tn'" for f tn'
      using that by (simp add: has_inline_waiter_def waiting_def)
    have "honest tn ?w" if w: "honest tn w"
      unfolding honest_def
    proof (intro allI impI)
      fix i f tn'
      assume "waiting ?w i f tn'"
      then show "tn' = tn \<and> (case future_result f ?w of None \<Rightarrow> True
          | Some s \<Rightarrow> \<exists>a. dict_get (approvals_items (w_approvals ?w)) (tn, i) = Some a \<and>
              approval_status a = s \<and> s \<noteq> ApprovalPending)"
        using w unfolding honest_def new fut same by (auto split: if_splits)
    qed
    then show ?thesis using new old unfolding waiters_kept_def by presburger
  qed
  then show ?thesis
    by (auto simp: evolves_def register_inline_waiter_def intro: waiters.R_refl)
qed

lemma waiters_approvals_add: "evolves (waiters_kept tn) (approvals_add a)"
proof (rule evolvesI)
  fix w o1 t
  assume run: "approvals_add a w = (o1, t)"
  have more: "dict_get (approvals_items (w_approvals t)) k = Some x"
    if "dict_get (approvals_items (w_approvals w)) k = Some x" for k x
    using run that by (auto simp: approvals_add_def approval_add_def split: if_splits)
  have same: "waiting t = waiting w" "future_result f t = future_result f w" for f
    using run by (auto simp: approvals_add_def waiting_def fun_eq_iff future_result_def
      split: sum.splits)
  have "honest tn t" if "honest tn w"
    unfolding honest_def
  proof (intro allI impI)
    fix i f tn'
    assume "waiting t i f tn'"
    then show "tn' = tn \<and> (case future_result f t of None \<Rightarrow> True
        | Some s \<Rightarrow> \<exists>a. dict_get (approvals_items (w_approvals t)) (tn, i) = Some a \<and>
            approval_status a = s \<and> s \<noteq> ApprovalPending)"
      using that more unfolding honest_def same by (fastforce split: option.split)
  qed
  then show "waiters_kept tn w t" by (simp add: waiters_kept_def same)
qed

lemma waiters_append_rounds: "fair_waiters tn d \<Longrightarrow> evolves (waiters_kept tn) (append_rounds n d e)"
  by (induction n arbitrary: e)
     (auto intro!: waiters_intros waiters_await waiters_quiet split: sum.split)

lemma waiters_event_append:
  "fair_waiters tn d \<Longrightarrow> evolves (waiters_kept tn) (event_service_append d tn' rid sid type payload)"
  unfolding event_service_append_def
  by (auto intro!: waiters_intros waiters_await waiters_quiet waiters_append_rounds)

lemma waiters_move_run: "fair_waiters tn d \<Longrightarrow> evolves (waiters_kept tn) (move_run d r s)"
  unfolding move_run_def advance_def
  by (auto intro!: waiters_intros waiters_await waiters_quiet waiters_event_append
    split: sum.split option.split)

lemma waiters_approvals_request:
  "fair_waiters tn d \<Longrightarrow> evolves (waiters_kept tn) (approvals_request d tn rid c)"
  unfolding approvals_request_def Let_def
  by (auto intro!: waiters_intros waiters.evolves_case_option waiters_await waiters_quiet
    waiters_register waiters_approvals_add waiters_event_append waiters_move_run)

end
