(* ===== verification/Worker_Outcomes.thy ===== *)
theory Worker_Outcomes
  imports Worker_Guarantees Gate_Outcomes
begin

section \<open>What an execution that returns has established\<close>

text \<open>
  \<open>exec_returns d K m Q\<close>: whenever \<open>m\<close>, started in a sound state of an execution in which the
  facts \<open>K\<close> hold, returns \<open>x\<close> and leaves the world \<open>t\<close>, then \<open>Q x t\<close>. The rules follow the
  control flow, like those of \<open>returns\<close>.
\<close>

definition exec_returns ::
  "worker_deps \<Rightarrow> fact set \<Rightarrow> 'a whandler \<Rightarrow> ('a \<Rightarrow> world \<Rightarrow> bool) \<Rightarrow> bool" where
  "exec_returns d K m Q \<longleftrightarrow> (\<forall>s x t. exec_sound d s \<longrightarrow> (\<forall>f \<in> K. exec_knows s f) \<longrightarrow>
     m s = (Inr x, t) \<longrightarrow> Q x (snd t))"

lemma exec_returnsI:
  assumes "\<And>s x t. exec_sound d s \<Longrightarrow> (\<And>f. f \<in> K \<Longrightarrow> exec_knows s f) \<Longrightarrow> m s = (Inr x, t) \<Longrightarrow>
    Q x (snd t)"
  shows "exec_returns d K m Q"
  unfolding exec_returns_def using assms by blast

lemma exec_returnsD:
  "exec_returns d K m Q \<Longrightarrow> exec_sound d s \<Longrightarrow> (\<And>f. f \<in> K \<Longrightarrow> exec_knows s f) \<Longrightarrow>
   m s = (Inr x, t) \<Longrightarrow> Q x (snd t)"
  unfolding exec_returns_def by blast

lemma exec_returns_weaken:
  "exec_returns d K m P \<Longrightarrow> (\<And>x t. P x t \<Longrightarrow> Q x t) \<Longrightarrow> exec_returns d K m Q"
  unfolding exec_returns_def by blast

lemma exec_returns_ret:
  "(\<And>w. (\<And>f. f \<in> K \<Longrightarrow> holds w f) \<Longrightarrow> Q x w) \<Longrightarrow> exec_returns d K (ret x) Q"
  by (rule exec_returnsI) (auto simp: exec_knows_def)

lemma exec_returns_raise: "exec_returns d K (raise e) Q"
  by (rule exec_returnsI) simp

lemma exec_returns_if:
  "(b \<Longrightarrow> exec_returns d K m Q) \<Longrightarrow> (\<not> b \<Longrightarrow> exec_returns d K n Q) \<Longrightarrow>
   exec_returns d K (if b then m else n) Q"
  by simp

lemma exec_returns_option:
  "(v = None \<Longrightarrow> exec_returns d K m Q) \<Longrightarrow> (\<And>x. v = Some x \<Longrightarrow> exec_returns d K (f x) Q) \<Longrightarrow>
   exec_returns d K (case v of None \<Rightarrow> m | Some x \<Rightarrow> f x) Q"
  by (cases v) simp_all

lemma exec_returns_sum:
  "(\<And>x. v = Inl x \<Longrightarrow> exec_returns d K (f x) Q) \<Longrightarrow> (\<And>x. v = Inr x \<Longrightarrow> exec_returns d K (g x) Q) \<Longrightarrow>
   exec_returns d K (case v of Inl x \<Rightarrow> f x | Inr x \<Rightarrow> g x) Q"
  by (cases v) simp_all

lemma exec_returns_bind_learn:
  assumes m: "exec.keeps d K m"
    and q: "exec_returns d K m (\<lambda>x t. P x \<and> (\<forall>f \<in> L x. holds t f))"
    and f: "\<And>x. P x \<Longrightarrow> exec_returns d (K \<union> L x) (f x) Q"
  shows "exec_returns d K (bindP m f) Q"
proof (rule exec_returnsI)
  fix s y u
  assume s: "exec_sound d s" and K: "\<And>f. f \<in> K \<Longrightarrow> exec_knows s f"
    and run: "bindP m f s = (Inr y, u)"
  from run obtain x t where mt: "m s = (Inr x, t)" and fx: "f x t = (Inr y, u)"
    by (rule bindP_InrE)
  have st: "exec_sys d s t" by (rule exec.keepsD [OF m s K mt])
  have new: "P x" "\<forall>f \<in> L x. holds (snd t) f" using exec_returnsD [OF q s K mt] by blast+
  show "Q y (snd u)"
  proof (rule exec_returnsD [OF f [OF new(1)] exec.sys_sound [OF st s] _ fx])
    show "g \<in> K \<union> L x \<Longrightarrow> exec_knows t g" for g
      using new(2) exec.sys_knows [OF st s K] by (auto simp: exec_knows_def simp del: holds.simps)
  qed
qed

lemma exec_returns_bind:
  "exec.keeps d K m \<Longrightarrow> (\<And>x. exec_returns d K (f x) Q) \<Longrightarrow> exec_returns d K (bindP m f) Q"
  by (rule exec_returns_bind_learn [where P = "\<lambda>_. True" and L = "\<lambda>_. {}"])
    (auto intro: exec_returnsI)

lemma exec_returns_then:
  "exec.keeps d K m \<Longrightarrow> exec_returns d K n Q \<Longrightarrow> exec_returns d K (thenP m n) Q"
  unfolding thenP_def by (rule exec_returns_bind)

lemma exec_returns_bind_local:
  "(\<And>x. exec_returns d K (f x) Q) \<Longrightarrow> exec_returns d K (bindP (local_get g) f) Q"
  unfolding local_get_def by (rule exec_returns_bind [OF exec.keeps_readP])

lemma exec_returns_srv: "returns (wk_services d) K m Q \<Longrightarrow> exec_returns d K (srv m) Q"
  unfolding returns_def exec_returns_def
  by (auto simp: srv_def exec_sound_def exec_knows_def simp del: holds.simps split: prod.splits)

lemma exec_returns_bind_srv:
  assumes "rely (wk_services d)" and "upholds (wk_services d) K {} m"
    and "returns (wk_services d) K m (\<lambda>x t. P x \<and> (\<forall>f \<in> L x. holds t f))"
    and "\<And>x. P x \<Longrightarrow> exec_returns d (K \<union> L x) (f x) Q"
  shows "exec_returns d K (bindP (srv m) f) Q"
  using exec_keeps_srv [OF assms(1,2)] exec_returns_srv [OF assms(3)] assms(4)
  by (rule exec_returns_bind_learn)

lemma exec_returns_bind_get:
  assumes "rely (wk_services d)"
    and "\<And>x. run_key x = (tn, rid) \<Longrightarrow> exec_returns d (insert (KnowsRun x) K) (f x) Q"
  shows "exec_returns d K (bindP (srv (await (wk_services d) (runs_get tn rid))) f) Q"
  by (rule exec_returns_bind_srv [where P = "\<lambda>x. run_key x = (tn, rid)" and L = "\<lambda>x. {KnowsRun x}"])
    (use assms in \<open>auto intro!: upholds_await upholds_ask returnsI dest: runs_get_found
      simp: runs_get_def simp del: holds.simps\<close>)

lemma exec_returns_catch:
  assumes m: "exec.keeps d K m" "exec_returns d K m Q"
    and h: "\<And>e. exec_returns d K (h e) Q"
  shows "exec_returns d K (catchP m h) Q"
proof (rule exec_returnsI)
  fix s x u
  assume s: "exec_sound d s" and K: "\<And>f. f \<in> K \<Longrightarrow> exec_knows s f"
    and run: "catchP m h s = (Inr x, u)"
  obtain y t where mt: "m s = (y, t)" by (cases "m s")
  show "Q x (snd u)"
  proof (cases y)
    case (Inl e)
    with run mt have he: "h e t = (Inr x, u)" by (simp add: catchP_apply)
    have st: "exec_sys d s t" by (rule exec.keepsD [OF m(1) s K mt])
    show ?thesis
      by (rule exec_returnsD [OF h exec.sys_sound [OF st s] _ he]) (rule exec.sys_knows [OF st s K])
  next
    case (Inr z)
    with run mt have "m s = (Inr x, u)" by (simp add: catchP_apply)
    with m(2) s K show ?thesis by (rule exec_returnsD)
  qed
qed

text \<open>What the cleanup does not undo, it keeps.\<close>

lemma exec_returns_finally:
  assumes m: "exec.keeps d K m" "exec_returns d K m Q" and c: "exec.keeps d K c"
    and stable: "\<And>x w t. sys (wk_services d) w t \<Longrightarrow> Q x w \<Longrightarrow> Q x t"
  shows "exec_returns d K (finallyP m c) Q"
proof (rule exec_returnsI)
  fix s x u
  assume s: "exec_sound d s" and K: "\<And>f. f \<in> K \<Longrightarrow> exec_knows s f"
    and run: "finallyP m c s = (Inr x, u)"
  from run obtain t y where mt: "m s = (Inr x, t)" and ct: "c t = (Inr y, u)"
    by (cases "m s") (auto simp: finallyP_def prog_apply split: sum.splits prod.splits)
  have st: "exec_sys d s t" by (rule exec.keepsD [OF m(1) s K mt])
  have "exec_sys d t u"
    by (rule exec.keepsD [OF c exec.sys_sound [OF st s] _ ct]) (rule exec.sys_knows [OF st s K])
  then show "Q x (snd u)"
    using stable exec_returnsD [OF m(2) s K mt] by (auto simp: exec_sys_def)
qed

subsection \<open>How an execution ends\<close>

text \<open>
  \<open>settled tn rid r t\<close>: \<open>r\<close> is a version of the run that the store has held, and it is at its
  end, or waits for a decision, or an approval was requested for it.
\<close>

definition settled :: "string \<Rightarrow> string \<Rightarrow> run \<Rightarrow> world \<Rightarrow> bool" where
  "settled tn rid r t \<longleftrightarrow> run_key r = (tn, rid) \<and> holds t (KnowsRun r) \<and>
     (is_terminal (run_status r) \<or> run_status r = RunWaitingApproval \<or>
      (\<exists>a. approval_tenant_id a = tn \<and> approval_run_id a = rid \<and> holds t (KnowsApproval a)))"

lemma settled_stable:
  assumes st: "sys_own d own s t" and r: "settled tn rid r s"
  shows "settled tn rid r t"
  using r holds_stable [OF st, of "KnowsRun r"] holds_stable [OF st, of "KnowsApproval _"]
  unfolding settled_def by blast

lemma returns_end_move:
  assumes "rely (wk_services d)" and "KnowsRun x \<in> K" and "run_key x = (tn, rid)"
    and "is_terminal target"
  shows "returns (wk_services d) K (worker_move d x target code payload) (settled tn rid)"
  using returns_worker_move [OF assms(1,2)]
  by (rule returns_weaken) (use assms(3,4) in \<open>simp add: settled_def del: holds.simps\<close>)

lemma returns_terminal:
  "KnowsRun x \<in> K \<Longrightarrow> run_key x = (tn, rid) \<Longrightarrow> is_terminal (run_status x) \<Longrightarrow>
   returns d K (ret x) (settled tn rid)"
  by (rule returns_ret) (simp add: settled_def del: holds.simps)

lemma returns_endings:
  assumes "rely (wk_services d)"
  shows "returns (wk_services d) K (end_timed_out d tn rid) (settled tn rid)"
    and "returns (wk_services d) K (end_result_error d tn rid subtype api code user) (settled tn rid)"
  unfolding end_timed_out_def end_result_error_def
  using assms by (auto intro!: returns_bind_runs_get returns_if returns_then
    upholds_fail_active_subagents returns_end_move returns_terminal)

lemma returns_unexpected_error:
  assumes "rely (wk_services d)" and "\<not> ownership_conflict e"
  shows "returns (wk_services d) K (handle_unexpected_error d tn rid e) (settled tn rid)"
  unfolding handle_unexpected_error_def
  using assms by (auto intro!: returns_bind_runs_get returns_if returns_then
    upholds_fail_active_subagents returns_end_move returns_terminal)

lemma exec_returns_end_move:
  "rely (wk_services d) \<Longrightarrow> KnowsRun x \<in> K \<Longrightarrow> run_key x = (tn, rid) \<Longrightarrow> is_terminal target \<Longrightarrow>
   exec_returns d K (srv (worker_move d x target code payload)) (settled tn rid)"
  by (intro exec_returns_srv returns_end_move)

lemma exec_returns_terminal:
  "KnowsRun x \<in> K \<Longrightarrow> run_key x = (tn, rid) \<Longrightarrow> is_terminal (run_status x) \<Longrightarrow>
   exec_returns d K (ret x) (settled tn rid)"
  by (rule exec_returns_ret) (simp add: settled_def del: holds.simps)

lemma exec_returns_complete:
  assumes r: "rely (wk_services d)"
  shows "exec_returns d K (complete_run d tn rid) (settled tn rid)"
  unfolding complete_run_def
  using r by (intro exec_returns_then exec_charge_result exec_wport
    exec_returns_bind_local exec_publish_outputs
    exec_archive_result exec_returns_bind_get exec_returns_if exec_returns_end_move
    exec_returns_terminal) simp_all

lemma exec_returns_end_failed:
  assumes r: "rely (wk_services d)" and e: "\<not> ownership_conflict e"
  shows "exec_returns d K (end_failed d tn rid e) (settled tn rid)"
proof -
  have "exec_returns d K (thenP (recover_workspace d tn) (srv m)) (settled tn rid)"
    if "returns (wk_services d) K m (settled tn rid)" for m
    using r that by (intro exec_returns_then exec_recover_workspace exec_returns_srv)
  note recovered = this
  have charged: "exec.keeps d K (catchP (charge_result d tn rid)
      (\<lambda>x. if x = NotReturned then raise x else ret ()))"
    using r by (intro exec.keeps_catch exec_charge_result exec.keeps_if exec.keeps_raise exec.keeps_ret)
  show ?thesis
    unfolding end_failed_def
    using r e by (cases e) (simp_all add: exec_returns_raise recovered returns_endings
      returns_unexpected_error exec_returns_then [OF charged] is_timeout_def)
qed

text \<open>The loop over the events of the runtime may end the run, or go on.\<close>

definition settled_if :: "string \<Rightarrow> string \<Rightarrow> run option \<Rightarrow> world \<Rightarrow> bool" where
  "settled_if tn rid result t \<longleftrightarrow> (\<forall>r. result = Some r \<longrightarrow> settled tn rid r t)"

lemma exec_returns_None: "exec_returns d K (ret None) (settled_if tn rid)"
  by (rule exec_returns_ret) (simp add: settled_if_def)

lemma exec_returns_goes_on:
  "exec.keeps d K m \<Longrightarrow> exec_returns d K (thenP m (ret None)) (settled_if tn rid)"
  by (intro exec_returns_then exec_returns_None)

lemma exec_returns_request_tool:
  assumes r: "rely (wk_services d)"
  shows "exec_returns d K (request_tool d tn rid h rules arguments payload) (settled_if tn rid)"
proof -
  have paused: "exec.keeps d K' (case active of None \<Rightarrow> ret () | Some m \<Rightarrow>
      append_own d tn ''message.completed'' [(''message_id'', JStr m)])" for active K'
    using r by (intro exec.keeps_option exec.keeps_ret exec_append_own)
  let ?A = "\<lambda>a. approval_tenant_id a = tn \<and> approval_run_id a = rid"
  have approved: "exec_returns d K (bindP (case v of
      JObj summary \<Rightarrow> srv (approvals_request (wk_services d) tn rid (call summary))
    | _ \<Rightarrow> raise (OtherError ''ValidationError'' [] False)) f) (settled_if tn rid)"
    if f: "\<And>a. ?A a \<Longrightarrow> exec_returns d (K \<union> {KnowsApproval a}) (f a) (settled_if tn rid)"
    for v call f
  proof (cases v)
    case (JObj summary)
    have "returns (wk_services d) K (approvals_request (wk_services d) tn rid (call summary))
        (\<lambda>a t. ?A a \<and> (\<forall>f \<in> {KnowsApproval a}. holds t f))"
      using returns_approvals_request [OF r, of tn rid "call summary"]
      unfolding returns_def by (auto simp: approval_tool_key_def simp del: holds.simps)
    from exec_returns_bind_srv [OF r upholds_approvals_request [OF r] this f] show ?thesis
      by (simp add: JObj)
  qed (simp_all add: exec_returns_raise)
  have pending: "exec_returns d K' (bindP (srv (await (wk_services d) (runs_get tn rid)))
      (\<lambda>x. ret (Some x))) (settled_if tn rid)" if "KnowsApproval a \<in> K'" and "?A a" for K' a
    using r
  proof (rule exec_returns_bind_get)
    show "exec_returns d (insert (KnowsRun x) K') (ret (Some x)) (settled_if tn rid)"
      if "run_key x = (tn, rid)" for x
      by (rule exec_returns_ret, unfold settled_if_def settled_def)
        (use that \<open>KnowsApproval a \<in> K'\<close> \<open>?A a\<close> in blast)
  qed
  have decided: "exec_returns d K (case decision of
      PolicyDeny \<Rightarrow> a | PolicyAllow \<Rightarrow> b | PolicyAsk \<Rightarrow> c) (settled_if tn rid)"
    if "exec_returns d K a (settled_if tn rid)" "exec_returns d K b (settled_if tn rid)"
      "exec_returns d K c (settled_if tn rid)" for decision a b c
    using that by (cases decision) simp_all
  show ?thesis
    unfolding request_tool_def Let_def
    using r by (intro exec_returns_then exec_append_own exec_returns_bind_local decided
      exec_returns_goes_on exec_returns_if exec_returns_raise approved paused pending) simp_all
qed

lemma exec_returns_handle_payload:
  assumes r: "rely (wk_services d)"
  shows "exec_returns d K (handle_payload d tn rid h rules type arguments payload) (settled_if tn rid)"
proof -
  have other: "exec_returns d K (thenP (append_own d tn type payload)
      (thenP (whenP b (local_set (\<lambda>l. l\<lparr>ws_active_message := None\<rparr>))) (ret None)))
      (settled_if tn rid)" for b
    using r by (intro exec_returns_then exec_append_own exec_returns_goes_on exec.keeps_when
      exec_local_set) simp_all
  have "exec_returns d K (case (a, u, q, p) of
      (True, Some upload, _) \<Rightarrow> thenP (publish_artifact d upload tn h payload) (ret None)
    | (_, _, True, Some active) \<Rightarrow> request_tool d tn rid h active arguments payload
    | _ \<Rightarrow> thenP (append_own d tn type payload)
        (thenP (whenP b (local_set (\<lambda>l. l\<lparr>ws_active_message := None\<rparr>))) (ret None)))
      (settled_if tn rid)" for a u q p b
    by (cases a; cases u; cases q; cases p)
      (simp_all add: other exec_returns_goes_on [OF exec_publish_artifact [OF r]]
        exec_returns_request_tool [OF r])
  then show ?thesis unfolding handle_payload_def .
qed

lemma exec_returns_handle_event:
  assumes r: "rely (wk_services d)"
  shows "exec_returns d K (handle_event d tn rid h rules staged e) (settled_if tn rid)"
proof -
  let ?K = "\<lambda>x. insert (KnowsRun x) K"
  have cancelled: "exec_returns d (?K x)
      (bindP (srv (worker_move d x RunCancelled None [])) (\<lambda>y. ret (Some y))) (settled_if tn rid)"
    if "run_key x = (tn, rid)" for x
  proof (rule exec_returns_bind_srv [OF r, where P = "\<lambda>y. run_key y = (tn, rid) \<and> run_status y = RunCancelled"
        and L = "\<lambda>y. {KnowsRun y}"])
    show "returns (wk_services d) (?K x) (worker_move d x RunCancelled None [])
        (\<lambda>y t. (run_key y = (tn, rid) \<and> run_status y = RunCancelled) \<and> (\<forall>f \<in> {KnowsRun y}. holds t f))"
      by (rule returns_weaken [OF returns_worker_move [OF r]])
        (use that in \<open>auto simp del: holds.simps\<close>)
  qed (auto intro!: upholds_worker_move r exec_returns_ret simp: settled_if_def settled_def
    simp del: holds.simps)
  have over: "exec_returns d (?K x) (ret (Some x)) (settled_if tn rid)"
    if "run_key x = (tn, rid)" "is_terminal (run_status x)" for x
    using that by (auto intro!: exec_returns_ret simp: settled_if_def settled_def simp del: holds.simps)
  have rest: "exec_returns d K' (bindP
      (if re_type e = ''tool.request'' then mark_request d (handle_path h) staged (re_payload e)
       else if re_type e = ''tool.result'' then redact_result d tn (re_payload e)
       else ret (re_payload e)) (\<lambda>p1.
      bindP (redact_payload_paths d (handle_path h) p1) (\<lambda>p2.
      bindP (track_message d rid (re_type e) p2) (\<lambda>p3.
        handle_payload d tn rid h rules (re_type e) original
          (audit_arguments d (re_type e) p3))))) (settled_if tn rid)" for K' original
    using r by (intro exec_returns_bind exec.keeps_if exec_mark_request exec_redact_result
      exec.keeps_ret exec_redact_paths exec_track_message exec_returns_handle_payload)
  show ?thesis
    unfolding handle_event_def
    using r by (intro exec_returns_bind_get exec_returns_if exec_returns_then exec.keeps_when
      exec_append_own exec_keeps_srv [OF _ upholds_fail_active_subagents] cancelled over exec_set_run
      exec_note_result exec_bind_sdk rest) simp_all
qed

text \<open>One event, then the rest: the outcome of the event decides whether there is a rest.\<close>

lemma exec_returns_step:
  assumes k: "exec.keeps d K m" and h: "exec_returns d K m (settled_if tn rid)"
    and g: "exec_returns d K g (settled_if tn rid)"
  shows "exec_returns d K (bindP m (\<lambda>result. case result of Some r \<Rightarrow> ret (Some r) | None \<Rightarrow> g))
    (settled_if tn rid)"
proof (rule exec_returnsI)
  fix s x u
  assume s: "exec_sound d s" "\<And>f. f \<in> K \<Longrightarrow> exec_knows s f"
    and run: "bindP m (\<lambda>result. case result of Some r \<Rightarrow> ret (Some r) | None \<Rightarrow> g) s = (Inr x, u)"
  from run obtain y t where mt: "m s = (Inr y, t)"
    and ft: "(case y of Some r \<Rightarrow> ret (Some r) | None \<Rightarrow> g) t = (Inr x, u)"
    by (rule bindP_InrE)
  have st: "exec_sys d s t" by (rule exec.keepsD [OF k s mt])
  show "settled_if tn rid x (snd u)"
  proof (cases y)
    case None
    with ft have rest: "g t = (Inr x, u)" by simp
    show ?thesis
      by (rule exec_returnsD [OF g exec.sys_sound [OF st s(1)] _ rest]) (rule exec.sys_knows [OF st s])
  next
    case (Some r)
    with ft exec_returnsD [OF h s mt] show ?thesis by simp
  qed
qed

lemma exec_returns_backlog:
  "(\<And>e. exec.keeps d K (handle e)) \<Longrightarrow> (\<And>e. exec_returns d K (handle e) (settled_if tn rid)) \<Longrightarrow>
   exec_returns d K (handle_backlog handle es) (settled_if tn rid)"
  by (induction es) (simp_all add: exec_returns_raise exec_returns_step)

lemma exec_returns_follow:
  assumes r: "rely (wk_services d)" and k: "\<And>e. exec.keeps d K (handle e)"
    and h: "\<And>e. exec_returns d K (handle e) (settled_if tn rid)"
  shows "exec_returns d K (follow_runtime d tn rid handle es failure) (settled_if tn rid)"
proof (induction es)
  case Nil
  show ?case
    using r by (auto intro!: exec_returns_then exec_await_cancellable exec_returns_option
      exec_returns_None exec_returns_raise)
next
  case (Cons e es)
  have next_one: "exec_returns d K (bindP (handle e) (\<lambda>result. case result of Some r \<Rightarrow> ret (Some r)
      | None \<Rightarrow> if terminal_runtime_result e then ret None
                else follow_runtime d tn rid handle es failure)) (settled_if tn rid)"
    by (intro exec_returns_step k h exec_returns_if exec_returns_None Cons.IH)
  show ?case
    unfolding follow_runtime.simps
    using r by (intro exec_returns_bind exec.keeps_try exec_await_cancellable exec_returns_sum
      exec_returns_if exec_keeps_srv upholds_read exec_returns_backlog k h exec_returns_raise next_one)
qed

lemma exec_returns_run:
  assumes r: "rely (wk_services d)"
  shows "exec_returns d K (run_execution d tn rid resume) (settled tn rid)"
proof -
  have loop: "exec_returns d K (bindP (follow_runtime d tn rid (handle_event d tn rid h rules staged) es failure)
      (\<lambda>result. case result of Some x \<Rightarrow> ret x | None \<Rightarrow> complete_run d tn rid)) (settled tn rid)"
    for h rules staged es failure
  proof (rule exec_returnsI)
    let ?f = "follow_runtime d tn rid (handle_event d tn rid h rules staged) es failure"
    fix s x u
    assume s: "exec_sound d s" "\<And>f. f \<in> K \<Longrightarrow> exec_knows s f"
      and run: "bindP ?f (\<lambda>result. case result of Some x \<Rightarrow> ret x
        | None \<Rightarrow> complete_run d tn rid) s = (Inr x, u)"
    from run obtain y t where mt: "?f s = (Inr y, t)"
      and ft: "(case y of Some x \<Rightarrow> ret x | None \<Rightarrow> complete_run d tn rid) t = (Inr x, u)"
      by (rule bindP_InrE)
    have k: "exec.keeps d K (handle_event d tn rid h rules staged e)" for e
      using r by (rule exec_handle_event)
    have st: "exec_sys d s t" by (rule exec.keepsD [OF exec_follow_runtime [OF r k] s mt])
    have q: "settled_if tn rid y (snd t)"
      by (rule exec_returnsD [OF exec_returns_follow [OF r k exec_returns_handle_event [OF r]] s mt])
    show "settled tn rid x (snd u)"
    proof (cases y)
      case None
      with ft have rest: "complete_run d tn rid t = (Inr x, u)" by simp
      show ?thesis
        by (rule exec_returnsD [OF exec_returns_complete [OF r] exec.sys_sound [OF st s(1)] _ rest])
          (rule exec.sys_knows [OF st s])
    qed (use ft q in \<open>auto simp: settled_if_def\<close>)
  qed
  then show ?thesis
    unfolding run_execution_def
    by (intro exec_returns_bind [OF exec_prepare [OF r]]) (simp split: prod.split)
qed

end
