(* ===== verification/Worker_Properties.thy ===== *)
theory Worker_Properties
  imports Worker_System Worker_Outcomes
begin

section \<open>Properties of executions\<close>

declare holds.simps [simp del]

subsection \<open>An execution that returns\<close>

definition stored_version :: "string \<Rightarrow> string \<Rightarrow> run \<Rightarrow> world \<Rightarrow> bool" where
  "stored_version tn rid r t \<longleftrightarrow> run_key r = (tn, rid) \<and> holds t (KnowsRun r)"

lemma settled_version: "settled tn rid r t \<Longrightarrow> stored_version tn rid r t"
  by (simp add: settled_def stored_version_def)

lemma version_stable: "sys_own d own s t \<Longrightarrow> stored_version tn rid r s \<Longrightarrow> stored_version tn rid r t"
  using holds_stable unfolding stored_version_def by blast

lemma returns_version_ret:
  "KnowsRun x \<in> K \<Longrightarrow> run_key x = (tn, rid) \<Longrightarrow> returns d K (ret x) (stored_version tn rid)"
  by (rule returns_ret) (simp add: stored_version_def del: holds.simps)

lemma returns_version_move:
  assumes "rely (wk_services d)" and "KnowsRun x \<in> K" and "run_key x = (tn, rid)"
  shows "returns (wk_services d) K (worker_move d x target code payload) (stored_version tn rid)"
  using returns_worker_move [OF assms(1,2)]
  by (rule returns_weaken) (use assms(3) in \<open>simp add: stored_version_def del: holds.simps\<close>)

lemma returns_version_unexpected:
  "rely (wk_services d) \<Longrightarrow>
   returns (wk_services d) K (handle_unexpected_error d tn rid e) (stored_version tn rid)"
  unfolding handle_unexpected_error_def
  by (auto intro!: returns_bind_runs_get returns_if returns_then upholds_fail_active_subagents
    returns_version_move returns_version_ret)

lemma exec_returns_version:
  assumes r: "rely (wk_services d)"
  shows "exec_returns d K (end_failed d tn rid e) (stored_version tn rid)"
proof (cases "ownership_conflict e")
  case True
  then have "end_failed d tn rid e = thenP (recover_workspace d tn)
      (srv (handle_unexpected_error d tn rid e))"
    by (cases e) (simp_all add: end_failed_def is_timeout_def ownership_conflict_def)
  then show ?thesis
    using r by (simp add: exec_returns_then exec_recover_workspace exec_returns_srv
      returns_version_unexpected)
next
  case False
  show ?thesis
    by (rule exec_returns_weaken [OF exec_returns_end_failed [OF r False]]) (rule settled_version)
qed

text \<open>What the execution of a run runs in, and when it lost the run to another worker.\<close>

definition lost_ownership :: "worker_deps \<Rightarrow> string \<Rightarrow> string \<Rightarrow> world \<Rightarrow> bool" where
  "lost_ownership d tn rid w \<longleftrightarrow>
     (\<exists>r e s. run_get (w_runs (suspended (wk_services d) w)) tn rid = Inr r \<and>
        run_execution d tn rid (run_status r = RunRunning)
          (new_worker_state r, suspended (wk_services d) w) = (Inl e, s) \<and> ownership_conflict e)"

lemma execution_settles:
  assumes r: "rely (wk_services d)" and w: "world_sound (wk_services d) w"
    and run: "worker_execute d tn rid w = (Inr x, t)"
  shows "stored_version tn rid x t \<and> (settled tn rid x t \<or> lost_ownership d tn rid w)"
proof -
  let ?get = "await (wk_services d) (runs_get tn rid)" and ?w = "suspended (wk_services d) w"
  from run obtain r0 u where g: "?get w = (Inr r0, u)" and rest:
    "(if is_terminal (run_status r0) then ret r0
      else if run_status r0 = RunCancelling then worker_move d r0 RunCancelled None []
      else if run_status r0 = RunWaitingApproval then ret r0
      else (\<lambda>w. case finallyP (catchP (run_execution d tn rid (run_status r0 = RunRunning))
          (end_failed d tn rid)) (cleanup_execution d tn) (new_worker_state r0, w) of
        (x, s) \<Rightarrow> (x, snd s))) u = (Inr x, t)"
    unfolding worker_execute_def by (rule bindP_InrE)
  note found = runs_get_found [OF r w g]
  have u: "world_sound (wk_services d) u" unfolding found(3) using r w by (rule suspended_sound)
  have stored: "run_get (w_runs ?w) tn rid = Inr r0"
    using g by (simp add: await_def runs_get_def ask_def found(3))
  consider "is_terminal (run_status r0) \<or> run_status r0 = RunWaitingApproval" and "x = r0" and "t = u"
    | "run_status r0 = RunCancelling" and "worker_move d r0 RunCancelled None [] u = (Inr x, t)"
    | s where "finallyP (catchP (run_execution d tn rid (run_status r0 = RunRunning))
          (end_failed d tn rid)) (cleanup_execution d tn) (new_worker_state r0, u) = (Inr x, s)"
        and "t = snd s"
    using rest by (auto split: if_splits prod.splits)
  then show ?thesis
  proof cases
    case 1
    then have "settled tn rid x t" using found by (auto simp: settled_def simp del: holds.simps)
    then show ?thesis by (blast intro: settled_version)
  next
    case 2
    have "returns (wk_services d) {KnowsRun r0} (worker_move d r0 RunCancelled None []) (settled tn rid)"
      using r found by (intro returns_end_move) simp_all
    from returnsD [OF this u _ 2(2)] found(2) have "settled tn rid x t" by blast
    then show ?thesis by (blast intro: settled_version)
  next
    case 3
    let ?m = "run_execution d tn rid (run_status r0 = RunRunning)"
    have s0: "exec_sound d (new_worker_state r0, u)"
      using u found(2) by (simp add: exec_sound_def new_worker_state_def del: holds.simps)
    have k: "exec.keeps d {} (catchP ?m (end_failed d tn rid))"
      using r by (intro exec.keeps_catch exec_run exec_end_failed)
    from 3(1) obtain v y where
      mid: "catchP ?m (end_failed d tn rid) (new_worker_state r0, u) = (Inr x, v)"
      and fin: "cleanup_execution d tn v = (Inr y, s)"
      by (cases "catchP ?m (end_failed d tn rid) (new_worker_state r0, u)")
        (auto simp: finallyP_def prog_apply split: sum.splits prod.splits)
    have v: "exec_sound d v"
      by (rule exec.sys_sound [OF exec.keepsD [OF k s0 _ mid] s0]) simp
    have vt: "sys (wk_services d) (snd v) t"
      using exec.keepsD [OF exec_cleanup [OF r, of "{}"] v _ fin] by (simp add: exec_sys_def 3(2))
    have "stored_version tn rid x (snd v) \<and> (settled tn rid x (snd v) \<or> lost_ownership d tn rid w)"
    proof -
      obtain out v' where pair: "?m (new_worker_state r0, u) = (out, v')"
        by (cases "?m (new_worker_state r0, u)")
      show ?thesis
      proof (cases out)
        case (Inr z)
        with pair mid have "?m (new_worker_state r0, u) = (Inr x, v)" by (simp add: catchP_apply)
        from exec_returnsD [OF exec_returns_run [OF r, of "{}"] s0 _ this] show ?thesis
          by (simp add: settled_version)
      next
        case (Inl e)
        with pair mid have e: "end_failed d tn rid e v' = (Inr x, v)"
          and m: "?m (new_worker_state r0, u) = (Inl e, v')" by (simp_all add: catchP_apply)
        have v': "exec_sound d v'"
          by (rule exec.sys_sound [OF exec.keepsD [OF exec_run [OF r, of "{}"] s0 _ m] s0]) simp
        have "stored_version tn rid x (snd v)"
          by (rule exec_returnsD [OF exec_returns_version [OF r, of "{}"] v' _ e]) simp
        moreover have "settled tn rid x (snd v)" if "\<not> ownership_conflict e"
          by (rule exec_returnsD [OF exec_returns_end_failed [OF r that, of "{}"] v' _ e]) simp
        moreover have "lost_ownership d tn rid w" if "ownership_conflict e"
          using that m stored unfolding lost_ownership_def found(3) by blast
        ultimately show ?thesis by blast
      qed
    qed
    then show ?thesis using version_stable [OF vt] settled_stable [OF vt] by blast
  qed
qed


end
