(* ===== verification/Worker_Children.thy ===== *)
theory Worker_Children
  imports Worker_Properties
begin

section \<open>Children of a run that ends, and workers that compete for one\<close>

subsection \<open>The log decides which children are active\<close>

definition child_ended :: "string \<Rightarrow> run_event \<Rightarrow> bool" where
  "child_ended task e \<longleftrightarrow>
     (event_type e = ''subagent.completed'' \<or> event_type e = ''subagent.failed'') \<and>
     dict_get (event_payload e) ''task_id'' = Some (JStr task)"

lemma track_subagent_keeps:
  "dict_has active task \<Longrightarrow> dict_has (track_subagent active e) task \<or> child_ended task e"
  by (auto simp: track_subagent_def child_ended_def split: option.splits json.splits)

lemma tracked_or_ended:
  "dict_has active task \<Longrightarrow>
   dict_has (foldl track_subagent active es) task \<or> (\<exists>e \<in> set es. child_ended task e)"
proof (induction es arbitrary: active)
  case (Cons e es)
  from track_subagent_keeps [OF Cons.prems, of e] Cons.IH show ?case by auto
qed simp

lemma active_or_ended:
  assumes "dict_has (active_subagents xs) task"
  shows "dict_has (active_subagents (xs @ ys)) task \<or> (\<exists>e \<in> set ys. child_ended task e)"
  using tracked_or_ended [of "active_subagents xs" task ys] assms
  by (simp add: active_subagents_def)

lemma dict_get_copied:
  "k \<notin> set ks \<Longrightarrow>
   dict_get (List.map_filter (\<lambda>key. map_option (Pair key) (dict_get started key)) ks @ rest) k =
   dict_get rest k"
proof (induction ks)
  case (Cons x ks)
  then show ?case by (cases "dict_get started x") (simp_all add: List.map_filter_simps)
qed (simp add: List.map_filter_simps)

lemma subagent_failure_task: "dict_get (subagent_failure code task started) ''task_id'' = Some (JStr task)"
  unfolding subagent_failure_def by (subst dict_get_copied) simp_all

subsection \<open>What was logged stays logged\<close>

definition log_of :: "world \<Rightarrow> string \<Rightarrow> string \<Rightarrow> run_event list" where
  "log_of w tn rid = event_stream (w_events w) (tn, rid)"

definition logged_end :: "world \<Rightarrow> world \<Rightarrow> string \<Rightarrow> string \<Rightarrow> string \<Rightarrow> bool" where
  "logged_end w t tn rid task \<longleftrightarrow>
     (\<exists>es. log_of t tn rid = log_of w tn rid @ es \<and> (\<exists>e \<in> set es. child_ended task e))"

lemma logged_end_before:
  assumes "sys_own d own w u" and "world_sound d w" and "logged_end u t tn rid task"
  shows "logged_end w t tn rid task"
proof -
  obtain es where "event_stream (w_events u) (tn, rid) = event_stream (w_events w) (tn, rid) @ es"
    using assms(1,2) by (rule history_prefix)
  with assms(3) show ?thesis unfolding logged_end_def log_of_def by force
qed

lemma logged_end_after:
  assumes "logged_end w u tn rid task" and "sys_own d own u t" and "world_sound d u"
  shows "logged_end w t tn rid task"
proof -
  obtain es where "event_stream (w_events t) (tn, rid) = event_stream (w_events u) (tn, rid) @ es"
    using assms(2,3) by (rule history_prefix)
  with assms(1) show ?thesis unfolding logged_end_def log_of_def by force
qed

lemma run_append_ends:
  assumes r: "rely (wk_services d)" and w: "world_sound (wk_services d) w"
    and run: "run_append d tn x ''subagent.failed'' (subagent_failure code task started) w = (Inr y, t)"
  shows "logged_end w t tn (run_id x) task"
proof -
  from run obtain e where "event_service_append (wk_services d) tn (run_id x) (run_session_id x)
      ''subagent.failed'' (subagent_failure code task started) w = (Inr e, t)"
    unfolding run_append_def thenP_def by (auto elim: bindP_InrE)
  from event_service_append_logged [OF r w this] show ?thesis
    unfolding logged_def logged_end_def log_of_def child_ended_def
    by (force simp: subagent_failure_task)
qed

lemma fail_all_ends:
  assumes r: "rely (wk_services d)" and w: "world_sound (wk_services d) w"
    and run: "foldP (\<lambda>_ (task, started). run_append d tn x ''subagent.failed''
      (subagent_failure code task started)) () children w = (Inr y, t)"
    and task: "dict_has children task"
  shows "logged_end w t tn (run_id x) task"
  using w run task
proof (induction children arbitrary: w)
  case (Cons child children)
  obtain k started where child: "child = (k, started)" by (cases child)
  from Cons.prems(2) obtain z u where
    one: "run_append d tn x ''subagent.failed'' (subagent_failure code k started) w = (Inr z, u)"
    and rest: "foldP (\<lambda>_ (task, started). run_append d tn x ''subagent.failed''
      (subagent_failure code task started)) () children u = (Inr y, t)"
    by (auto simp: child elim!: bindP_InrE)
  have wu: "sys (wk_services d) w u"
    using upholdsD [OF upholds_run_append [OF r, of "{}"] Cons.prems(1) _ _ one] by simp
  then have u: "world_sound (wk_services d) u" using Cons.prems(1) by (rule sys_ownD)
  have "upholds (wk_services d) {} {} (foldP (\<lambda>_ (task, started). run_append d tn x
      ''subagent.failed'' (subagent_failure code task started)) () children)"
    using r by (auto intro!: upholds_fold upholds_run_append)
  from upholdsD [OF this u _ _ rest] have ut: "sys (wk_services d) u t" by simp
  show ?case
  proof (cases "k = task")
    case True
    with run_append_ends [OF r Cons.prems(1) one] ut u show ?thesis
      by (blast intro: logged_end_after)
  next
    case False
    with Cons.prems(3) child have "dict_has children task" by simp
    with Cons.IH [OF u rest] wu Cons.prems(1) show ?thesis by (blast intro: logged_end_before)
  qed
qed simp

lemma fail_active_ends:
  assumes r: "rely (wk_services d)" and w: "world_sound (wk_services d) w"
    and run: "fail_active_subagents d tn x code w = (Inr y, t)"
    and task: "dict_has (active_subagents (log_of w tn (run_id x))) task"
  shows "logged_end w t tn (run_id x) task"
proof -
  let ?s = "suspended (wk_services d) w"
  have s: "world_sound (wk_services d) ?s" and ws: "sys (wk_services d) w ?s"
    using r w by (rule suspended_sound, rule suspended_sys)
  then have inv: "event_repo_inv (w_events ?s)" by (simp add: world_sound_def)
  have rest: "foldP (\<lambda>_ (task, started). run_append d tn x ''subagent.failed''
      (subagent_failure code task started)) () (active_subagents (log_of ?s tn (run_id x))) ?s = (Inr y, t)"
    using run by (simp add: fail_active_subagents_def event_service_list_after_def await_def ask_def
      bindP_apply event_list_after_all [OF inv] log_of_def)
  obtain es where es: "log_of ?s tn (run_id x) = log_of w tn (run_id x) @ es"
    unfolding log_of_def using ws w by (rule history_prefix)
  have "upholds (wk_services d) {} {} (foldP (\<lambda>_ (task, started). run_append d tn x
      ''subagent.failed'' (subagent_failure code task started)) ()
      (active_subagents (log_of ?s tn (run_id x))))"
    using r by (auto intro!: upholds_fold upholds_run_append)
  from upholdsD [OF this s _ _ rest] have st: "sys (wk_services d) ?s t" by simp
  from active_or_ended [OF task, of es] show ?thesis
  proof
    assume "dict_has (active_subagents (log_of w tn (run_id x) @ es)) task"
    then have "dict_has (active_subagents (log_of ?s tn (run_id x))) task" by (simp add: es)
    from fail_all_ends [OF r s rest this] ws w show ?thesis by (blast intro: logged_end_before)
  next
    assume "\<exists>e \<in> set es. child_ended task e"
    with es have "logged_end w ?s tn (run_id x) task" unfolding logged_end_def by blast
    then show ?thesis using st s by (rule logged_end_after)
  qed
qed

subsection \<open>Ends that take the children along\<close>

lemma children_ended:
  assumes r: "rely (wk_services d)" and w: "world_sound (wk_services d) w"
    and x: "run_id x = rid" and task: "dict_has (active_subagents (log_of w tn rid)) task"
    and ws: "sys (wk_services d) w u" and u: "world_sound (wk_services d) u"
    and run: "thenP (fail_active_subagents d tn x code) (worker_move d x target err payload) u = (Inr y, t)"
    and known: "holds u (KnowsRun x)"
  shows "logged_end w t tn rid task"
proof -
  from run obtain z v where fail: "fail_active_subagents d tn x code u = (Inr z, v)"
    and move: "worker_move d x target err payload v = (Inr y, t)"
    unfolding thenP_def by (rule bindP_InrE)
  have uv: "sys (wk_services d) u v"
    using upholdsD [OF upholds_fail_active_subagents [OF r, of "{}"] u _ _ fail] by simp
  then have v: "world_sound (wk_services d) v" using u by (rule sys_ownD)
  have "upholds (wk_services d) {KnowsRun x} {} (worker_move d x target err payload)"
    using r by (rule upholds_worker_move) simp
  from upholdsD [OF this v _ _ move] holds_stable [OF uv known] have vt: "sys (wk_services d) v t"
    by simp
  obtain es where es: "log_of u tn rid = log_of w tn rid @ es"
    unfolding log_of_def using ws w by (rule history_prefix)
  have "logged_end w v tn rid task"
    using active_or_ended [OF task, of es]
  proof
    assume "dict_has (active_subagents (log_of w tn rid @ es)) task"
    then have "dict_has (active_subagents (log_of u tn (run_id x))) task" by (simp add: es x)
    from fail_active_ends [OF r u fail this] ws w show ?thesis by (simp add: x logged_end_before)
  next
    assume "\<exists>e \<in> set es. child_ended task e"
    with es have "logged_end w u tn rid task" unfolding logged_end_def by blast
    then show ?thesis using uv u by (rule logged_end_after)
  qed
  then show ?thesis using vt v by (rule logged_end_after)
qed

text \<open>
  C7. A run that a timeout or an unexpected error ends takes its children along: every child that
  the log shows as started and not ended, when the end begins, has an event of its own end in the
  log when the handler returns, whatever the others append meanwhile. (The run was not at its end
  already when the handler read it.)
\<close>

theorem end_takes_children_along:
  assumes "rely (wk_services d)" and "world_sound (wk_services d) w"
    and "end_timed_out d tn rid w = (Inr x, t) \<or>
      handle_unexpected_error d tn rid e w = (Inr x, t) \<and> run_status x = RunFailed"
    and "case dict_get (runs_items (w_runs (suspended (wk_services d) w))) (tn, rid) of
      None \<Rightarrow> True | Some r \<Rightarrow> \<not> is_terminal (run_status r)"
    and "dict_has (active_subagents (log_of w tn rid)) task"
  shows "logged_end w t tn rid task"
proof -
  let ?get = "await (wk_services d) (runs_get tn rid)" and ?s = "suspended (wk_services d) w"
  have ws: "sys (wk_services d) w ?s" and s: "world_sound (wk_services d) ?s"
    using assms(1,2) by (rule suspended_sys, rule suspended_sound)
  from assms(3) obtain r where get: "?get w = (Inr r, ?s)"
    by (auto simp: end_timed_out_def handle_unexpected_error_def await_def runs_get_def ask_def
      bindP_apply split: sum.splits)
  note found = runs_get_found [OF assms(1,2) get]
  have live: "\<not> is_terminal (run_status r)"
    using assms(4) get by (auto simp: await_def runs_get_def ask_def run_get_def split: option.splits)
  have rid: "run_id r = rid" using found(1) by (simp add: run_key_def)
  note ended = children_ended [OF assms(1,2) rid assms(5) ws s _ found(2)]
  from assms(3) show ?thesis
  proof
    assume "end_timed_out d tn rid w = (Inr x, t)"
    with get live show ?thesis
      by (auto simp: end_timed_out_def split: if_splits intro: ended)
  next
    assume "handle_unexpected_error d tn rid e w = (Inr x, t) \<and> run_status x = RunFailed"
    then have "handle_unexpected_error d tn rid e w = (Inr x, t)" and f: "run_status x = RunFailed"
      by simp_all
    with get have rest: "(if run_status r = RunCancelling then worker_move d r RunCancelled None []
      else if run_status r = RunCancelled then ret r
      else if ownership_conflict e then ret r
      else if is_terminal (run_status r) then ret r
      else thenP (fail_active_subagents d tn r ''parent_failed'')
        (worker_move d r RunFailed (Some (failure_code e)) ((''error_type'', JStr (error_class e)) #
          (case reported_text e of None \<Rightarrow> [] | Some m \<Rightarrow> [(''message'', JStr m)])))) ?s = (Inr x, t)"
      by (simp add: handle_unexpected_error_def)
    have "run_status r \<noteq> RunCancelling"
    proof
      assume c: "run_status r = RunCancelling"
      have "returns (wk_services d) {KnowsRun r} (worker_move d r RunCancelled None [])
          (\<lambda>y t. run_status y = RunCancelled)"
        by (rule returns_weaken [OF returns_worker_move [OF assms(1)]]) simp_all
      from returnsD [OF this s, of x t] found(2) rest c f show False by simp
    qed
    with rest live f show ?thesis by (auto split: if_splits intro: ended)
  qed
qed

subsection \<open>Workers that compete for a run\<close>

lemma cas_stale:
  assumes w: "holds w (KnowsRun c)" and c: "run_key u = run_key c"
    and token: "run_fencing_token u \<le> run_fencing_token c"
  shows "runs_compare_and_set st u w = (Inr False, w)"
proof -
  from w obtain c' where c': "dict_get (runs_items (w_runs w)) (run_key c) = Some c'" "run_later c c'"
    by (auto simp: holds.simps split: option.splits)
  from run_later_token [OF c'(2)] token have "run_fencing_token c' \<noteq> run_fencing_token u - 1" by simp
  with c' c show ?thesis by (simp add: runs_compare_and_set_def run_cas_def)
qed

text \<open>A version that is not the newest any more loses every compare-and-set.\<close>

lemma returns_bind_stale:
  assumes r: "rely d" and known: "KnowsRun c \<in> K" and c: "run_key u = run_key c"
    and token: "run_fencing_token u \<le> run_fencing_token c" and f: "returns d {} (f False) Q"
  shows "returns d K (bindP (await d (runs_compare_and_set st u)) f) Q"
proof (rule returnsI)
  fix w x t
  let ?s = "suspended d w"
  assume w: "world_sound d w" and K: "\<And>f. f \<in> K \<Longrightarrow> holds w f"
    and run: "bindP (await d (runs_compare_and_set st u)) f w = (Inr x, t)"
  have "holds ?s (KnowsRun c)" using holds_stable [OF suspended_sys [OF r w] K [OF known]] .
  from cas_stale [OF this c token] run have "f False ?s = (Inr x, t)"
    by (simp add: await_def bindP_apply)
  with f suspended_sound [OF r w] show "Q x t" by (auto dest: returnsD)
qed

lemma returns_claim_stale:
  assumes r: "rely (wk_services d)" and c: "run_key c = run_key x"
      "run_fencing_token c = run_fencing_token x + 1"
  shows "returns (wk_services d) {KnowsRun c} (claim_run d x) (\<lambda>_ _. False)"
  unfolding claim_run_def worker_reclaim_def worker_move_def Let_def
  by (intro returns_if returns_bind_const returns_bind_clock r;
      rule returns_bind_stale [OF r, where c = c])
    (use c in \<open>simp_all add: returns_raise run_key_def\<close>)

text \<open>
  C6. Two workers never both own one version of a run: when a claim has returned (a queued run
  moved to provisioning, or a run taken over from a worker that is gone), the version it returned
  carries the next fencing token, and from then on every claim that starts from the old version
  fails, after whatever else the system did in between.
\<close>

theorem one_worker_claims:
  assumes "rely (wk_services d)" and "world_sound (wk_services d) w"
    and "dict_get (runs_items (w_runs w)) (run_key r) = Some r"
    and "claim_run d r w = (Inr c, t)"
    and "sys (wk_services d) t u"
    and "rely (wk_services d')" and "d_new_id (wk_services d') = d_new_id (wk_services d)"
  shows "run_fencing_token c = run_fencing_token r + 1 \<and> is_error (fst (claim_run d' r u))"
proof -
  have known: "holds w (KnowsRun r)" using assms(3) by (simp add: holds.simps run_later_refl)
  have "returns (wk_services d) {KnowsRun r} (claim_run d r) (\<lambda>y t. holds t (KnowsRun y) \<and>
      run_key y = run_key r \<and> run_fencing_token y = run_fencing_token r + 1)"
    using assms(1) by (rule returns_claim_run) simp
  from returnsD [OF this assms(2) _ assms(4)] known
  have c: "holds t (KnowsRun c)" "run_key c = run_key r"
    "run_fencing_token c = run_fencing_token r + 1" by auto
  have "upholds (wk_services d) {KnowsRun r} {} (claim_run d r)"
    using assms(1) by (rule upholds_claim_run) simp
  from upholdsD [OF this assms(2) _ _ assms(4)] known have "sys (wk_services d) w t" by simp
  then have "world_sound (wk_services d) t" using assms(2) by (rule sys_ownD)
  then have "world_sound (wk_services d) u" using assms(5) by (blast dest: sys_ownD(5))
  then have u: "world_sound (wk_services d') u" by (simp add: sys_cong(2) [OF assms(7)])
  have cu: "holds u (KnowsRun c)" using assms(5) c(1) by (rule holds_stable)
  have "is_error (fst (claim_run d' r u))"
  proof (cases "fst (claim_run d' r u)")
    case (Inr y)
    then have "claim_run d' r u = (Inr y, snd (claim_run d' r u))" by (simp add: prod_eq_iff)
    from returnsD [OF returns_claim_stale [OF assms(6) c(2,3)] u _ this] cu show ?thesis by simp
  qed simp
  with c(3) show ?thesis by blast
qed

end
