(* ===== verification/Worker_Samples.thy ===== *)
theory Worker_Samples
  imports Worker_Children
begin

section \<open>Executions of sample runs\<close>

text \<open>
  The properties of executions applied to the first run of a session, and what an execution does
  when the runtime answers, fails, or reports the error of the provider.
\<close>

abbreviation sample_worker :: "runtime_stream \<Rightarrow> worker_deps" where
  "sample_worker \<equiv> plain_worker quiet_approval_deps"

definition executed :: "runtime_stream \<Rightarrow> (herror + run) \<times> world" where
  "executed stream = execute (sample_worker stream) ''t'' ''run'' queued_world"

definition status_of :: "herror + run \<Rightarrow> run_status option" where
  "status_of r = (case r of Inl _ \<Rightarrow> None | Inr x \<Rightarrow> Some (run_status x))"

lemma answered_execution: "status_of (fst (executed answering)) = Some RunSucceeded"
  by code_simp

lemma failed_execution:
  "status_of (fst (executed (failing (OtherError ''APIError'' ''no'' False)))) = Some RunFailed"
  by code_simp

lemma sample_rely: "rely (wk_services (sample_worker stream))"
  by (simp add: quiet_approval_rely)

lemma queued_sound: "world_sound (wk_services (sample_worker stream)) queued_world"
  using queued_world_sound sys_cong(2) [of quiet_run_deps quiet_approval_deps] by simp


definition child_world :: world where
  "child_world = snd (event_service_append quiet_approval_deps ''t'' ''r'' ''s'' ''subagent.started''
     [(''task_id'', JStr ''k'')] running_world)"

lemma child_world_sound: "world_sound (wk_services (sample_worker stream)) child_world"
proof -
  have "sys quiet_approval_deps running_world child_world"
    using upholds_event_append [OF quiet_approval_rely, of "{}"] sample_worlds_sound
    unfolding upholds_def child_world_def by blast
  then show ?thesis using sample_worlds_sound by (auto dest: sys_ownD(5))
qed

lemma child_world_facts:
  "dict_has (active_subagents (log_of child_world ''t'' ''r'')) ''k''"
  "\<not> is_error (fst (end_timed_out (sample_worker answering) ''t'' ''r'' child_world))"
  "case dict_get (runs_items (w_runs (suspended quiet_approval_deps child_world))) (''t'', ''r'') of
     None \<Rightarrow> True | Some r \<Rightarrow> \<not> is_terminal (run_status r)"
  by code_simp+

lemma end_takes_children_along_witness:
  "\<exists>t. logged_end child_world t ''t'' ''r'' ''k''"
proof -
  let ?e = "end_timed_out (sample_worker answering) ''t'' ''r'' child_world"
  from child_world_facts(2) obtain x where "fst ?e = Inr x" by (cases "fst ?e") auto
  then have "?e = (Inr x, snd ?e)" by (simp add: prod_eq_iff)
  from end_takes_children_along [OF sample_rely child_world_sound disjI1 [OF this] _ child_world_facts(1)]
    child_world_facts(3) show ?thesis by auto
qed

lemma claimed: "\<not> is_error (fst (claim_run (sample_worker answering) first_run queued_world))"
  by code_simp

lemma one_worker_claims_witness:
  "is_error (fst (claim_run (sample_worker answering) first_run
    (snd (claim_run (sample_worker answering) first_run queued_world))))"
proof -
  let ?d = "sample_worker answering"
  let ?e = "claim_run ?d first_run queued_world"
  from claimed obtain c where "fst ?e = Inr c" by (cases "fst ?e") auto
  then have run: "?e = (Inr c, snd ?e)" by (simp add: prod_eq_iff)
  have key: "run_key first_run = (''t'', ''run'')" by code_simp
  from one_worker_claims [OF sample_rely queued_sound _ run sys.R_refl sample_rely refl]
    queued_world_run(1) show ?thesis by (simp add: key)
qed

text \<open>
  A failure that the provider reports ends the run without its children: \<^verbatim>\<open>_execute\<close> calls
  \<^verbatim>\<open>_fail_active_subagents\<close> (\<open>Give every started child a durable terminal before its parent
  terminates\<close>) for a timeout and for an unexpected error, but not for a \<^verbatim>\<open>RuntimeResultError\<close>; the
  child stays active in the log of a failed run.
\<close>

definition provider_failure :: runtime_stream where
  "provider_failure = \<lparr>stream_events =
      [\<lparr>re_type = ''subagent.started'', re_payload = [(''task_id'', JStr ''k'')]\<rparr>],
     stream_error = Some (RuntimeResultError ''error_during_execution'' None ''provider_error'' None)\<rparr>"

theorem provider_failure_leaves_children:
  "status_of (fst (executed provider_failure)) = Some RunFailed \<and>
   dict_has (active_subagents (log_of (snd (executed provider_failure)) ''t'' ''run'')) ''k''"
  by code_simp

end
