(* ===== verification/Worker_Loop.thy ===== *)
theory Worker_Loop
  imports Memory_Queue
begin

section \<open>The loop of a worker process\<close>

text \<open>
  \<^verbatim>\<open>worker_loop\<close> of \<^verbatim>\<open>src/src/harness/worker/main.py\<close>: tasks are taken from the queue, each is
  executed by a child coroutine, children of one session wait for each other at a lock, and every
  child acknowledges or returns its task. What happens between two awaits is one event; any
  sequence of events that \<open>loop_step\<close> admits is a history of the process. Whether an execution
  raises, and whether a call to the queue fails, is part of the event. Locks are objects: the
  table maps a session to the lock it uses now, and each child keeps the lock it was given.
\<close>

datatype child_phase =
    ChildWaiting
  | ChildExecuting
  | ChildSettling bool
  | ChildLeaving
  | ChildDone

record child =
  child_task :: run_task
  child_lock :: nat
  child_phase :: child_phase

record loop_state =
  loop_queue :: task_queue
  loop_children :: "(nat, child) dict"
  loop_locks :: "(string \<times> string, nat) dict"
  loop_users :: "(string \<times> string, int) dict"
  loop_holders :: "(nat, nat) dict"
  loop_next :: nat
  loop_stopped :: bool

definition loop_start :: loop_state where
  "loop_start = \<lparr>loop_queue = queue_empty, loop_children = [], loop_locks = [], loop_users = [],
     loop_holders = [], loop_next = 0, loop_stopped = False\<rparr>"

definition session_key_of :: "run_task \<Rightarrow> string \<times> string" where
  "session_key_of t = (task_tenant_id t,
     (case task_session_id t of None \<Rightarrow> task_run_id t
      | Some s \<Rightarrow> if s = [] then task_run_id t else s))"

datatype loop_event =
    Arrive run_task
  | Poll
  | PollFails
  | Reap
  | Acquire nat
  | Executed nat bool
  | Settled nat bool
  | Renewed nat
  | Leave nat
  | StopLoop

definition live_children :: "(nat, child) dict \<Rightarrow> (nat, child) dict" where
  "live_children cs = filter (\<lambda>(i, c). child_phase c \<noteq> ChildDone) cs"

definition spawn :: "run_task \<Rightarrow> loop_state \<Rightarrow> loop_state" where
  "spawn t s =
     (let key = session_key_of t;
          lock = (case dict_get (loop_locks s) key of None \<Rightarrow> loop_next s | Some l \<Rightarrow> l)
      in s\<lparr>loop_locks := dict_set key lock (loop_locks s),
           loop_users := dict_set key ((case dict_get (loop_users s) key of
             None \<Rightarrow> 0 | Some n \<Rightarrow> n) + 1) (loop_users s),
           loop_children := dict_set (loop_next s)
             \<lparr>child_task = t, child_lock = lock, child_phase = ChildWaiting\<rparr> (loop_children s),
           loop_next := loop_next s + 1\<rparr>)"

definition poll :: "nat \<Rightarrow> loop_state \<Rightarrow> loop_state option" where
  "poll concurrency s =
     (if loop_stopped s \<or> concurrency \<le> length (loop_children s) then None
      else case queue_dequeue (loop_queue s) of
        (None, q) \<Rightarrow> Some (s\<lparr>loop_queue := q, loop_children := live_children (loop_children s)\<rparr>)
      | (Some t, q) \<Rightarrow> Some (spawn t (s\<lparr>loop_queue := q\<rparr>)))"

definition set_phase :: "nat \<Rightarrow> child \<Rightarrow> child_phase \<Rightarrow> loop_state \<Rightarrow> loop_state" where
  "set_phase i c p s = s\<lparr>loop_children := dict_set i (c\<lparr>child_phase := p\<rparr>) (loop_children s)\<rparr>"

definition settle :: "run_task \<Rightarrow> bool \<Rightarrow> task_queue \<Rightarrow> task_queue" where
  "settle t ok q = (if ok then queue_acknowledge t q else queue_retry t q)"

definition leave :: "child \<Rightarrow> loop_state \<Rightarrow> loop_state" where
  "leave c s =
     (let key = session_key_of (child_task c);
          remaining = (case dict_get (loop_users s) key of None \<Rightarrow> 0 | Some n \<Rightarrow> n) - 1
      in if remaining = 0
         then s\<lparr>loop_users := dict_pop key (loop_users s), loop_locks := dict_pop key (loop_locks s)\<rparr>
         else s\<lparr>loop_users := dict_set key remaining (loop_users s)\<rparr>)"

definition child_step ::
  "nat \<Rightarrow> (child \<Rightarrow> loop_state option) \<Rightarrow> loop_state \<Rightarrow> loop_state option" where
  "child_step i f s = (case dict_get (loop_children s) i of None \<Rightarrow> None | Some c \<Rightarrow> f c)"

fun loop_step :: "nat \<Rightarrow> loop_event \<Rightarrow> loop_state \<Rightarrow> loop_state option" where
  "loop_step n (Arrive t) s = Some (s\<lparr>loop_queue := queue_enqueue t (loop_queue s)\<rparr>)"
| "loop_step n Poll s = poll n s"
| "loop_step n PollFails s =
     (if loop_stopped s \<or> n \<le> length (loop_children s) then None else Some s)"
| "loop_step n Reap s =
     (if loop_stopped s \<or> length (loop_children s) < n \<or>
         \<not> list_ex (\<lambda>(i, c). child_phase c = ChildDone) (loop_children s)
      then None else Some (s\<lparr>loop_children := live_children (loop_children s)\<rparr>))"
| "loop_step n (Acquire i) s = child_step i (\<lambda>c.
     if child_phase c = ChildWaiting \<and> \<not> dict_has (loop_holders s) (child_lock c)
     then Some (set_phase i c ChildExecuting
       (s\<lparr>loop_holders := dict_set (child_lock c) i (loop_holders s)\<rparr>))
     else None) s"
| "loop_step n (Executed i ok) s = child_step i (\<lambda>c.
     if child_phase c = ChildExecuting
     then Some (set_phase i c (ChildSettling ok)
       (s\<lparr>loop_holders := dict_pop (child_lock c) (loop_holders s)\<rparr>))
     else None) s"
| "loop_step n (Settled i reached) s = child_step i (\<lambda>c.
     case child_phase c of
       ChildSettling ok \<Rightarrow> Some (set_phase i c ChildLeaving
         (if reached then s\<lparr>loop_queue := settle (child_task c) ok (loop_queue s)\<rparr> else s))
     | _ \<Rightarrow> None) s"
| "loop_step n (Renewed i) s = child_step i (\<lambda>c.
     if child_phase c = ChildDone then None
     else Some (s\<lparr>loop_queue := queue_extend_lease (child_task c) (loop_queue s)\<rparr>)) s"
| "loop_step n (Leave i) s = child_step i (\<lambda>c.
     if child_phase c = ChildLeaving then Some (set_phase i c ChildDone (leave c s)) else None) s"
| "loop_step n StopLoop s = Some (s\<lparr>loop_stopped := True\<rparr>)"

fun loop_run :: "nat \<Rightarrow> loop_event list \<Rightarrow> loop_state \<Rightarrow> loop_state option" where
  "loop_run n [] s = Some s"
| "loop_run n (e # es) s = (case loop_step n e s of None \<Rightarrow> None | Some t \<Rightarrow> loop_run n es t)"

text \<open>\<open>worker_loop\<close> refuses a concurrency below one before it starts.\<close>

definition worker_loop :: "int \<Rightarrow> loop_event list \<Rightarrow> herror + loop_state option" where
  "worker_loop concurrency es =
     (if concurrency < 1 then Inl (ValueError ''worker concurrency must be at least 1'')
      else Inr (loop_run (nat concurrency) es loop_start))"

inductive loop_reachable :: "nat \<Rightarrow> loop_state \<Rightarrow> bool" for n where
  start: "loop_reachable n loop_start"
| step: "loop_reachable n s \<Longrightarrow> loop_step n e s = Some t \<Longrightarrow> loop_reachable n t"

subsection \<open>The invariant of the tables\<close>

definition child_live :: "child \<Rightarrow> bool" where
  "child_live c \<longleftrightarrow> child_phase c \<noteq> ChildDone"

definition counts :: "string \<times> string \<Rightarrow> child \<Rightarrow> int" where
  "counts key c = (if child_live c \<and> session_key_of (child_task c) = key then 1 else 0)"

definition users_of :: "string \<times> string \<Rightarrow> loop_state \<Rightarrow> int" where
  "users_of key s = sum_list (map (counts key) (dict_values (loop_children s)))"

definition tables_ok :: "loop_state \<Rightarrow> bool" where
  "tables_ok s \<longleftrightarrow>
     dict_wf (loop_children s) \<and>
     (\<forall>i c. dict_get (loop_children s) i = Some c \<longrightarrow> i < loop_next s) \<and>
     (\<forall>key. dict_get (loop_users s) key =
        (if users_of key s = 0 then None else Some (users_of key s))) \<and>
     (\<forall>key. dict_has (loop_locks s) key \<longleftrightarrow> dict_has (loop_users s) key)"

definition locks_ok :: "loop_state \<Rightarrow> bool" where
  "locks_ok s \<longleftrightarrow>
     (\<forall>i c. dict_get (loop_children s) i = Some c \<longrightarrow> child_live c \<longrightarrow>
        dict_get (loop_locks s) (session_key_of (child_task c)) = Some (child_lock c)) \<and>
     (\<forall>i c. dict_get (loop_children s) i = Some c \<longrightarrow>
        (child_phase c = ChildExecuting \<longleftrightarrow> dict_get (loop_holders s) (child_lock c) = Some i)) \<and>
     (\<forall>l i. dict_get (loop_holders s) l = Some i \<longrightarrow>
        (\<exists>c. dict_get (loop_children s) i = Some c \<and> child_lock c = l))"

lemma users_of_set:
  assumes "dict_wf (loop_children s)"
  shows "users_of key (s\<lparr>loop_children := dict_set i c (loop_children s)\<rparr>) = users_of key s -
    (case dict_get (loop_children s) i of None \<Rightarrow> 0 | Some b \<Rightarrow> counts key b) + counts key c"
  using sum_values_dict_set [OF assms, of "counts key" i c] by (simp add: users_of_def)

lemma users_of_nonneg: "0 \<le> users_of key s"
  unfolding users_of_def by (rule sum_list_nonneg) (auto simp: counts_def)

lemma users_of_live:
  assumes "dict_get (loop_children s) i = Some c" and "child_live c"
  shows "1 \<le> users_of (session_key_of (child_task c)) s"
proof -
  let ?key = "session_key_of (child_task c)"
  have "counts ?key c \<le> users_of ?key s"
    unfolding users_of_def using dict_get_value [OF assms(1)]
    by (intro sum_list_nonneg_mem) (auto simp: counts_def)
  then show ?thesis using assms(2) by (simp add: counts_def)
qed

text \<open>Two live children of one session count for two.\<close>

lemma users_of_two:
  assumes wf: "dict_wf (loop_children s)"
    and i: "dict_get (loop_children s) i = Some c" "child_live c"
    and j: "dict_get (loop_children s) j = Some b" "child_live b" "i \<noteq> j"
    and key: "session_key_of (child_task c) = session_key_of (child_task b)"
  shows "2 \<le> users_of (session_key_of (child_task b)) s"
proof -
  let ?key = "session_key_of (child_task b)"
  let ?t = "s\<lparr>loop_children := dict_set i (c\<lparr>child_phase := ChildDone\<rparr>) (loop_children s)\<rparr>"
  have "1 \<le> users_of ?key ?t"
    using users_of_live [of ?t j b] j by simp
  moreover have "users_of ?key ?t = users_of ?key s - 1"
    using users_of_set [OF wf, of ?key i] i key by (simp add: counts_def child_live_def)
  ultimately show ?thesis by simp
qed

lemma sum_list_filter_zero:
  fixes f :: "'a \<Rightarrow> int"
  assumes "\<And>x. x \<in> set xs \<Longrightarrow> \<not> P x \<Longrightarrow> f x = 0"
  shows "sum_list (map f (filter P xs)) = sum_list (map f xs)"
  using assms by (induction xs) auto

lemma live_children_get:
  "dict_wf cs \<Longrightarrow> dict_get (live_children cs) i = Some c \<longleftrightarrow> dict_get cs i = Some c \<and> child_live c"
proof (induction cs)
  case (Cons p cs)
  obtain j b where p: "p = (j, b)" by (cases p)
  with Cons.prems have j: "dict_get cs j = None" by (simp add: map_of_eq_None_iff)
  from Cons have IH: "dict_get (live_children cs) i = Some c \<longleftrightarrow> dict_get cs i = Some c \<and> child_live c"
    by simp
  then show ?case
    using j by (auto simp: p live_children_def child_live_def)
qed (simp add: live_children_def)

lemma live_children_wf: "dict_wf cs \<Longrightarrow> dict_wf (live_children cs)"
  by (induction cs) (auto simp: live_children_def)

lemma users_of_reaped:
  "users_of key (s\<lparr>loop_children := live_children (loop_children s)\<rparr>) = users_of key s"
proof -
  have "sum_list (map (\<lambda>p. counts key (snd p)) (live_children (loop_children s))) =
      sum_list (map (\<lambda>p. counts key (snd p)) (loop_children s))"
    unfolding live_children_def
    by (rule sum_list_filter_zero) (auto simp: counts_def child_live_def)
  then show ?thesis by (simp add: users_of_def comp_def)
qed

lemma users_of_cong: "loop_children s = loop_children t \<Longrightarrow> users_of key s = users_of key t"
  by (simp add: users_of_def)

subsection \<open>Every event keeps it\<close>

lemma tables_start: "tables_ok loop_start" "locks_ok loop_start"
  by (simp_all add: tables_ok_def locks_ok_def loop_start_def users_of_def)

lemma tables_reap:
  assumes "tables_ok s" and "locks_ok s"
  shows "tables_ok (s\<lparr>loop_children := live_children (loop_children s)\<rparr>)"
    and "locks_ok (s\<lparr>loop_children := live_children (loop_children s)\<rparr>)"
proof -
  have wf: "dict_wf (loop_children s)" using assms(1) by (simp add: tables_ok_def)
  note get = live_children_get [OF wf]
  show "tables_ok (s\<lparr>loop_children := live_children (loop_children s)\<rparr>)"
    using assms(1) by (simp add: tables_ok_def users_of_reaped live_children_wf get)
  have "\<exists>c. dict_get (live_children (loop_children s)) i = Some c \<and> child_lock c = l"
    if "dict_get (loop_holders s) l = Some i" for l i
  proof -
    from assms(2) that obtain c where c: "dict_get (loop_children s) i = Some c" "child_lock c = l"
      unfolding locks_ok_def by blast
    with assms(2) that have "child_phase c = ChildExecuting" unfolding locks_ok_def by blast
    with c show ?thesis by (auto simp: get child_live_def)
  qed
  then show "locks_ok (s\<lparr>loop_children := live_children (loop_children s)\<rparr>)"
    using assms(2) by (auto simp: locks_ok_def get)
qed

text \<open>A child that stays alive: the tables of sessions do not change.\<close>

lemma tables_phase:
  assumes "tables_ok s" and "dict_get (loop_children s) i = Some c"
    and "child_live c" and "p \<noteq> ChildDone"
    and "loop_children t = dict_set i (c\<lparr>child_phase := p\<rparr>) (loop_children s)"
    and "loop_users t = loop_users s" "loop_locks t = loop_locks s" "loop_next t = loop_next s"
  shows "tables_ok t"
proof -
  have wf: "dict_wf (loop_children s)" using assms(1) by (simp add: tables_ok_def)
  have "users_of key t = users_of key s" for key
    using users_of_set [OF wf, of key i "c\<lparr>child_phase := p\<rparr>"] assms(2-5)
      users_of_cong [of t "s\<lparr>loop_children := dict_set i (c\<lparr>child_phase := p\<rparr>) (loop_children s)\<rparr>" key]
    by (simp add: counts_def child_live_def)
  then show ?thesis using assms by (auto simp: tables_ok_def split: if_splits)
qed

lemma locks_okD:
  assumes "locks_ok s"
  shows "dict_get (loop_children s) i = Some c \<Longrightarrow> child_live c \<Longrightarrow>
      dict_get (loop_locks s) (session_key_of (child_task c)) = Some (child_lock c)"
    and "dict_get (loop_children s) i = Some c \<Longrightarrow>
      child_phase c = ChildExecuting \<longleftrightarrow> dict_get (loop_holders s) (child_lock c) = Some i"
    and "dict_get (loop_holders s) l = Some i \<Longrightarrow>
      \<exists>c. dict_get (loop_children s) i = Some c \<and> child_lock c = l"
  using assms unfolding locks_ok_def by blast+

lemma locks_okI:
  assumes "\<And>i c. dict_get (loop_children s) i = Some c \<Longrightarrow> child_live c \<Longrightarrow>
      dict_get (loop_locks s) (session_key_of (child_task c)) = Some (child_lock c)"
    and "\<And>i c. dict_get (loop_children s) i = Some c \<Longrightarrow>
      child_phase c = ChildExecuting \<longleftrightarrow> dict_get (loop_holders s) (child_lock c) = Some i"
    and "\<And>l i. dict_get (loop_holders s) l = Some i \<Longrightarrow>
      \<exists>c. dict_get (loop_children s) i = Some c \<and> child_lock c = l"
  shows "locks_ok s"
  unfolding locks_ok_def using assms by blast

definition loop_inv :: "loop_state \<Rightarrow> bool" where
  "loop_inv s \<longleftrightarrow> tables_ok s \<and> locks_ok s"

lemma loop_inv_same:
  assumes "loop_inv s" and "loop_children t = loop_children s" and "loop_users t = loop_users s"
    and "loop_locks t = loop_locks s" and "loop_holders t = loop_holders s" and "loop_next t = loop_next s"
  shows "loop_inv t"
  using assms users_of_cong [of t s] by (simp add: loop_inv_def tables_ok_def locks_ok_def)

lemma loop_inv_acquire:
  assumes inv: "loop_inv s" and c: "dict_get (loop_children s) i = Some c"
    and p: "child_phase c = ChildWaiting" and free: "\<not> dict_has (loop_holders s) (child_lock c)"
  shows "loop_inv (set_phase i c ChildExecuting
    (s\<lparr>loop_holders := dict_set (child_lock c) i (loop_holders s)\<rparr>))" (is "loop_inv ?t")
proof -
  note l = locks_okD [of s] and inv' = inv [unfolded loop_inv_def]
  have "tables_ok ?t"
    by (rule tables_phase [of s i c ChildExecuting])
      (use inv' c p in \<open>auto simp: set_phase_def child_live_def\<close>)
  moreover have "locks_ok ?t"
    using inv' c p free
    by (intro locks_okI) (auto simp: set_phase_def child_live_def dest: l split: if_splits)
  ultimately show ?thesis by (simp add: loop_inv_def)
qed

lemma loop_inv_executed:
  assumes inv: "loop_inv s" and c: "dict_get (loop_children s) i = Some c"
    and p: "child_phase c = ChildExecuting"
  shows "loop_inv (set_phase i c (ChildSettling ok)
    (s\<lparr>loop_holders := dict_pop (child_lock c) (loop_holders s)\<rparr>))" (is "loop_inv ?t")
proof -
  note l = locks_okD [of s] and inv' = inv [unfolded loop_inv_def]
  have held: "dict_get (loop_holders s) (child_lock c) = Some i" using inv' c p l(2) by blast
  have "tables_ok ?t"
    by (rule tables_phase [of s i c "ChildSettling ok"])
      (use inv' c p in \<open>auto simp: set_phase_def child_live_def\<close>)
  moreover have "locks_ok ?t"
  proof (rule locks_okI)
    show "child_phase b = ChildExecuting \<longleftrightarrow> dict_get (loop_holders ?t) (child_lock b) = Some j"
      if "dict_get (loop_children ?t) j = Some b" for j b
      using that inv' c p held l(2) [of j b] by (auto simp: set_phase_def split: if_splits)
  qed (use inv' c p in \<open>auto simp: set_phase_def child_live_def dest: l split: if_splits\<close>)
  ultimately show ?thesis by (simp add: loop_inv_def)
qed

lemma loop_inv_settled:
  assumes inv: "loop_inv s" and c: "dict_get (loop_children s) i = Some c"
    and p: "child_phase c = ChildSettling ok"
  shows "loop_inv (set_phase i c ChildLeaving (s\<lparr>loop_queue := q\<rparr>))" (is "loop_inv ?t")
proof -
  note l = locks_okD [of s] and inv' = inv [unfolded loop_inv_def]
  have "tables_ok ?t"
    by (rule tables_phase [of s i c ChildLeaving])
      (use inv' c p in \<open>auto simp: set_phase_def child_live_def\<close>)
  moreover have "locks_ok ?t"
    using inv' c p l(2) [of i c]
    by (intro locks_okI) (auto simp: set_phase_def child_live_def dest: l split: if_splits)
  ultimately show ?thesis by (simp add: loop_inv_def)
qed

lemma leave_fields:
  "loop_children (leave c s) = loop_children s" "loop_holders (leave c s) = loop_holders s"
  "loop_next (leave c s) = loop_next s" "loop_queue (leave c s) = loop_queue s"
  "loop_stopped (leave c s) = loop_stopped s"
  by (simp_all add: leave_def Let_def)

lemma loop_inv_leave:
  assumes inv: "loop_inv s" and c: "dict_get (loop_children s) i = Some c"
    and p: "child_phase c = ChildLeaving"
  shows "loop_inv (set_phase i c ChildDone (leave c s))" (is "loop_inv ?t")
proof -
  note l = locks_okD [of s]
  have tab: "tables_ok s" and lok: "locks_ok s" using inv by (simp_all add: loop_inv_def)
  let ?k = "session_key_of (child_task c)"
  have wf: "dict_wf (loop_children s)" using tab by (simp add: tables_ok_def)
  have live: "child_live c" using p by (simp add: child_live_def)
  have pos: "1 \<le> users_of ?k s" using c live by (rule users_of_live)
  have users: "dict_get (loop_users s) key = (if users_of key s = 0 then None else Some (users_of key s))"
    for key using tab unfolding tables_ok_def by blast
  have after: "users_of key ?t = users_of key s - (if key = ?k then 1 else 0)" for key
    using users_of_set [OF wf, of key i "c\<lparr>child_phase := ChildDone\<rparr>"] c live
      users_of_cong [of ?t "s\<lparr>loop_children := dict_set i (c\<lparr>child_phase := ChildDone\<rparr>) (loop_children s)\<rparr>" key]
    by (simp add: counts_def child_live_def set_phase_def leave_fields)
  have "tables_ok ?t"
    unfolding tables_ok_def after
  proof (intro conjI allI impI)
    show "dict_get (loop_users ?t) key = (if users_of key s - (if key = ?k then 1 else 0) = 0 then None
        else Some (users_of key s - (if key = ?k then 1 else 0)))" for key
      using users pos by (auto simp: set_phase_def leave_def Let_def)
    have "dict_has (loop_locks s) key \<longleftrightarrow> dict_has (loop_users s) key" for key
      using tab unfolding tables_ok_def by blast
    then show "dict_has (loop_locks ?t) key \<longleftrightarrow> dict_has (loop_users ?t) key" for key
      using users [of ?k] pos by (auto simp: set_phase_def leave_def Let_def)
  qed (use tab c in \<open>auto simp: tables_ok_def set_phase_def leave_fields split: if_splits\<close>)
  moreover have "locks_ok ?t"
  proof (rule locks_okI)
    fix j b
    assume b: "dict_get (loop_children ?t) j = Some b" "child_live b"
    then have j: "j \<noteq> i" "dict_get (loop_children s) j = Some b"
      by (auto simp: set_phase_def leave_fields child_live_def split: if_splits)
    have "2 \<le> users_of ?k s" if "session_key_of (child_task b) = ?k"
      using users_of_two [OF wf j(2) b(2) c live j(1) that] .
    then show "dict_get (loop_locks ?t) (session_key_of (child_task b)) = Some (child_lock b)"
      using l(1) [OF lok j(2) b(2)] users [of ?k] pos by (auto simp: set_phase_def leave_def Let_def)
  next
    show "child_phase b = ChildExecuting \<longleftrightarrow> dict_get (loop_holders ?t) (child_lock b) = Some j"
      if "dict_get (loop_children ?t) j = Some b" for j b
      using that l(2) [OF lok, of j b] l(2) [OF lok c] p
      by (auto simp: set_phase_def leave_fields split: if_splits)
  qed (use lok c in \<open>auto simp: set_phase_def leave_fields dest: l split: if_splits\<close>)
  ultimately show ?thesis by (simp add: loop_inv_def)
qed

lemma loop_inv_spawn:
  assumes inv: "loop_inv s"
  shows "loop_inv (spawn task s)" (is "loop_inv ?t")
proof -
  note l = locks_okD [of s]
  have tab: "tables_ok s" and lok: "locks_ok s" using inv by (simp_all add: loop_inv_def)
  let ?k = "session_key_of task" and ?n = "loop_next s"
  let ?lock = "case dict_get (loop_locks s) ?k of None \<Rightarrow> ?n | Some l \<Rightarrow> l"
  let ?c = "\<lparr>child_task = task, child_lock = ?lock, child_phase = ChildWaiting\<rparr>"
  have wf: "dict_wf (loop_children s)" using tab by (simp add: tables_ok_def)
  have users: "dict_get (loop_users s) key = (if users_of key s = 0 then None else Some (users_of key s))"
    for key using tab unfolding tables_ok_def by blast
  have new: "dict_get (loop_children s) ?n = None"
    using tab by (cases "dict_get (loop_children s) ?n") (auto simp: tables_ok_def)
  have children: "loop_children ?t = dict_set ?n ?c (loop_children s)"
    by (simp add: spawn_def Let_def)
  have after: "users_of key ?t = users_of key s + (if key = ?k then 1 else 0)" for key
    using users_of_set [OF wf, of key ?n ?c] new children
      users_of_cong [of ?t "s\<lparr>loop_children := dict_set ?n ?c (loop_children s)\<rparr>" key]
    by (simp add: counts_def child_live_def)
  have "tables_ok ?t"
    unfolding tables_ok_def after children
  proof (intro conjI allI impI)
    show "dict_get (loop_users ?t) key = (if users_of key s + (if key = ?k then 1 else 0) = 0 then None
        else Some (users_of key s + (if key = ?k then 1 else 0)))" for key
      using users users_of_nonneg [of ?k s] by (auto simp: spawn_def Let_def)
    have "dict_has (loop_locks s) key \<longleftrightarrow> dict_has (loop_users s) key" for key
      using tab unfolding tables_ok_def by blast
    then show "dict_has (loop_locks ?t) key \<longleftrightarrow> dict_has (loop_users ?t) key" for key
      by (simp add: spawn_def Let_def)
  qed (use tab wf in \<open>auto simp: tables_ok_def spawn_def Let_def split: if_splits\<close>)
  moreover have "locks_ok ?t"
  proof (rule locks_okI)
    show "dict_get (loop_locks ?t) (session_key_of (child_task b)) = Some (child_lock b)"
      if "dict_get (loop_children ?t) j = Some b" "child_live b" for j b
      using that l(1) [OF lok, of j b] by (auto simp: children spawn_def Let_def split: if_splits)
    have "dict_get (loop_holders s) x \<noteq> Some ?n" for x
      using l(3) [OF lok, of x ?n] new by auto
    then show "child_phase b = ChildExecuting \<longleftrightarrow> dict_get (loop_holders ?t) (child_lock b) = Some j"
      if "dict_get (loop_children ?t) j = Some b" for j b
      using that l(2) [OF lok, of j b] by (auto simp: children spawn_def Let_def split: if_splits)
    show "\<exists>b. dict_get (loop_children ?t) j = Some b \<and> child_lock b = x"
      if "dict_get (loop_holders ?t) x = Some j" for x j
      using l(3) [OF lok, of x j] that new by (auto simp: children spawn_def Let_def)
  qed
  ultimately show ?thesis by (simp add: loop_inv_def)
qed

lemma loop_step_inv:
  assumes inv: "loop_inv s" and run: "loop_step n e s = Some t"
  shows "loop_inv t"
proof (cases e)
  case Poll
  with run consider q where "t = s\<lparr>loop_queue := q, loop_children := live_children (loop_children s)\<rparr>"
    | q task where "t = spawn task (s\<lparr>loop_queue := q\<rparr>)"
    by (auto simp: poll_def split: if_splits prod.splits option.splits)
  then show ?thesis
  proof cases
    case 1
    have "loop_inv (s\<lparr>loop_queue := q\<rparr>)" by (rule loop_inv_same [OF inv]) simp_all
    with 1 tables_reap [of "s\<lparr>loop_queue := q\<rparr>"] show ?thesis by (simp add: loop_inv_def)
  next
    case 2
    have "loop_inv (s\<lparr>loop_queue := q\<rparr>)" by (rule loop_inv_same [OF inv]) simp_all
    with 2 show ?thesis by (simp add: loop_inv_spawn)
  qed
next
  case Reap
  with run inv tables_reap [of s] show ?thesis by (auto simp: loop_inv_def split: if_splits)
next
  case (Acquire i)
  with run inv show ?thesis
    by (auto simp: child_step_def split: option.splits if_splits intro: loop_inv_acquire)
next
  case (Executed i ok)
  with run inv show ?thesis
    by (auto simp: child_step_def split: option.splits if_splits intro: loop_inv_executed)
next
  case (Settled i reached)
  with run obtain c ok where c: "dict_get (loop_children s) i = Some c" "child_phase c = ChildSettling ok"
    and t: "t = set_phase i c ChildLeaving
      (if reached then s\<lparr>loop_queue := settle (child_task c) ok (loop_queue s)\<rparr> else s)"
    by (auto simp: child_step_def split: option.splits child_phase.splits)
  show ?thesis
    using loop_inv_settled [OF inv c, of "settle (child_task c) ok (loop_queue s)"]
      loop_inv_settled [OF inv c, of "loop_queue s"] by (simp add: t)
next
  case (Leave i)
  with run inv show ?thesis
    by (auto simp: child_step_def split: option.splits if_splits intro: loop_inv_leave)
qed (use run inv in \<open>auto simp: child_step_def queue_extend_lease_def split: option.splits if_splits
  intro: loop_inv_same\<close>)

lemma loop_reachable_inv: "loop_reachable n s \<Longrightarrow> loop_inv s"
  by (induction rule: loop_reachable.induct)
    (auto simp: loop_inv_def [of loop_start] tables_start intro: loop_step_inv)

subsection \<open>Capacity and progress\<close>

lemma length_dict_set_le: "length (dict_set i c cs) \<le> Suc (length cs)"
  by (induction cs) auto

lemma length_dict_set_has: "dict_get cs i = Some b \<Longrightarrow> length (dict_set i c cs) = length cs"
  by (induction cs) (auto split: if_splits)

lemma length_live_le: "length (live_children cs) \<le> length cs"
  by (simp add: live_children_def)

lemma loop_step_capacity:
  assumes "length (loop_children s) \<le> n" and "loop_step n e s = Some t"
  shows "length (loop_children t) \<le> n"
proof (cases e)
  case Poll
  have "length (dict_set i c (loop_children s)) \<le> n" if "\<not> n \<le> length (loop_children s)" for i c
    using length_dict_set_le [of i c "loop_children s"] that by simp
  with Poll assms length_live_le [of "loop_children s"] show ?thesis
    by (auto simp: poll_def spawn_def Let_def split: if_splits prod.splits option.splits)
next
  case Reap
  with assms length_live_le [of "loop_children s"] show ?thesis by (auto split: if_splits)
qed (use assms in \<open>auto simp: child_step_def set_phase_def leave_fields length_dict_set_has
  split: option.splits if_splits child_phase.splits\<close>)

lemma loop_capacity: "loop_reachable n s \<Longrightarrow> length (loop_children s) \<le> n"
  by (induction rule: loop_reachable.induct)
    (auto simp: loop_start_def intro: loop_step_capacity)

fun phase_rank :: "child_phase \<Rightarrow> int" where
  "phase_rank ChildWaiting = 4"
| "phase_rank ChildExecuting = 3"
| "phase_rank (ChildSettling ok) = 2"
| "phase_rank ChildLeaving = 1"
| "phase_rank ChildDone = 0"

definition remaining_work :: "loop_state \<Rightarrow> int" where
  "remaining_work s = sum_list (map (\<lambda>c. phase_rank (child_phase c)) (dict_values (loop_children s)))"

definition child_progress :: "loop_event \<Rightarrow> bool" where
  "child_progress e \<longleftrightarrow> (case e of
     Acquire i \<Rightarrow> True | Executed i ok \<Rightarrow> True | Settled i r \<Rightarrow> True | Leave i \<Rightarrow> True | _ \<Rightarrow> False)"

lemma phase_rank_range: "0 \<le> phase_rank p" "phase_rank p \<le> 4"
  by (cases p; simp)+

lemma remaining_bounds: "0 \<le> remaining_work s" "remaining_work s \<le> 4 * int (length (loop_children s))"
proof -
  have "0 \<le> sum_list (map (\<lambda>c. phase_rank (child_phase c)) cs) \<and>
      sum_list (map (\<lambda>c. phase_rank (child_phase c)) cs) \<le> 4 * int (length cs)" for cs
    by (induction cs) (auto simp: phase_rank_range intro: add_mono)
  from this [of "dict_values (loop_children s)"]
  show "0 \<le> remaining_work s" "remaining_work s \<le> 4 * int (length (loop_children s))"
    by (simp_all add: remaining_work_def)
qed

lemma remaining_phase:
  assumes "dict_wf (loop_children s)" and "dict_get (loop_children s) i = Some c"
    and "loop_children t = dict_set i (c\<lparr>child_phase := p\<rparr>) (loop_children s)"
  shows "remaining_work t = remaining_work s - phase_rank (child_phase c) + phase_rank p"
  using sum_values_dict_set [OF assms(1), of "\<lambda>c. phase_rank (child_phase c)" i "c\<lparr>child_phase := p\<rparr>"]
  by (simp add: remaining_work_def assms(2,3))

lemma progress_decreases:
  assumes "loop_inv s" and "child_progress e" and "loop_step n e s = Some t"
  shows "remaining_work t = remaining_work s - 1"
proof -
  have wf: "dict_wf (loop_children s)" using assms(1) by (simp add: loop_inv_def tables_ok_def)
  show ?thesis
    using assms(2,3)
    by (cases e) (auto simp: child_progress_def child_step_def set_phase_def leave_fields
      split: option.splits if_splits child_phase.splits
      dest!: remaining_phase [OF wf, where t = t])
qed

lemma progress_possible:
  assumes inv: "loop_inv s" and "remaining_work s \<noteq> 0"
  shows "\<exists>e. child_progress e \<and> loop_step n e s \<noteq> None"
proof -
  have lok: "locks_ok s" using inv by (simp add: loop_inv_def)
  have wf: "dict_wf (loop_children s)" using inv by (simp add: loop_inv_def tables_ok_def)
  have "\<exists>c \<in> set (dict_values (loop_children s)). phase_rank (child_phase c) \<noteq> 0"
  proof (rule ccontr)
    assume "\<not> ?thesis"
    then have "map (\<lambda>c. phase_rank (child_phase c)) (dict_values (loop_children s)) =
        map (\<lambda>c. 0) (dict_values (loop_children s))" by (intro map_cong) auto
    with assms(2) show False by (simp add: remaining_work_def map_replicate_const sum_list_replicate)
  qed
  then obtain c where cm: "c \<in> set (dict_values (loop_children s))" and rank: "phase_rank (child_phase c) \<noteq> 0"
    by blast
  from wf cm obtain i where c: "dict_get (loop_children s) i = Some c" by (rule dict_value_cases)
  show ?thesis
  proof (cases "child_phase c")
    case ChildWaiting
    show ?thesis
    proof (cases "dict_get (loop_holders s) (child_lock c)")
      case None
      with c ChildWaiting have "loop_step n (Acquire i) s \<noteq> None" by (simp add: child_step_def)
      moreover have "child_progress (Acquire i)" by (simp add: child_progress_def)
      ultimately show ?thesis by blast
    next
      case (Some j)
      then obtain b where b: "dict_get (loop_children s) j = Some b" "child_lock b = child_lock c"
        using locks_okD(3) [OF lok] by blast
      with Some have "child_phase b = ChildExecuting" using locks_okD(2) [OF lok b(1)] by simp
      with b have "loop_step n (Executed j True) s \<noteq> None" by (simp add: child_step_def)
      moreover have "child_progress (Executed j True)" by (simp add: child_progress_def)
      ultimately show ?thesis by blast
    qed
  next
    case ChildExecuting
    with c have "loop_step n (Executed i True) s \<noteq> None" by (simp add: child_step_def)
    moreover have "child_progress (Executed i True)" by (simp add: child_progress_def)
    ultimately show ?thesis by blast
  next
    case (ChildSettling ok)
    with c have "loop_step n (Settled i True) s \<noteq> None" by (simp add: child_step_def)
    moreover have "child_progress (Settled i True)" by (simp add: child_progress_def)
    ultimately show ?thesis by blast
  next
    case ChildLeaving
    with c have "loop_step n (Leave i) s \<noteq> None" by (simp add: child_step_def)
    moreover have "child_progress (Leave i)" by (simp add: child_progress_def)
    ultimately show ?thesis by blast
  qed (use rank in simp)
qed

lemma nothing_left:
  assumes inv: "loop_inv s" and rem: "remaining_work s = 0"
  shows "dict_get (loop_locks s) key = None \<and> dict_get (loop_users s) key = None \<and>
    dict_get (loop_holders s) l = None"
proof -
  have tab: "tables_ok s" and lok: "locks_ok s" using inv by (simp_all add: loop_inv_def)
  have ranks: "phase_rank (child_phase c) = 0" if "c \<in> set (dict_values (loop_children s))" for c
  proof -
    have "phase_rank (child_phase c) \<le> remaining_work s"
      unfolding remaining_work_def by (rule sum_list_nonneg_mem) (use that phase_rank_range in auto)
    with rem phase_rank_range(1) [of "child_phase c"] show ?thesis by simp
  qed
  have over: "\<not> child_live c" if "c \<in> set (dict_values (loop_children s))" for c
    using ranks [OF that] by (cases "child_phase c") (simp_all add: child_live_def)
  have "map (counts key) (dict_values (loop_children s)) = map (\<lambda>c. 0) (dict_values (loop_children s))"
    by (intro map_cong) (use over in \<open>auto simp: counts_def\<close>)
  then have "users_of key s = 0"
    by (simp add: users_of_def map_replicate_const sum_list_replicate)
  moreover have "dict_get (loop_users s) key =
      (if users_of key s = 0 then None else Some (users_of key s))"
    using tab unfolding tables_ok_def by blast
  ultimately have u: "dict_get (loop_users s) key = None" by simp
  have "dict_has (loop_locks s) key \<longleftrightarrow> dict_has (loop_users s) key"
    using tab unfolding tables_ok_def by blast
  moreover have "dict_get (loop_holders s) l = None"
  proof (rule ccontr)
    assume "dict_get (loop_holders s) l \<noteq> None"
    then obtain i where i: "dict_get (loop_holders s) l = Some i" by blast
    from locks_okD(3) [OF lok i] obtain c
      where c: "dict_get (loop_children s) i = Some c" "child_lock c = l" by blast
    with locks_okD(2) [OF lok c(1)] i have "child_live c" by (simp add: child_live_def)
    with over dict_get_value [OF c(1)] show False by blast
  qed
  ultimately show ?thesis using u by simp
qed

subsection \<open>Leases\<close>

definition holding :: "child \<Rightarrow> bool" where
  "holding c \<longleftrightarrow> child_phase c \<noteq> ChildLeaving \<and> child_phase c \<noteq> ChildDone"

definition leases_ok :: "loop_state \<Rightarrow> bool" where
  "leases_ok s \<longleftrightarrow> queue_reachable (loop_queue s) \<and>
     (\<forall>i c. dict_get (loop_children s) i = Some c \<longrightarrow> holding c \<longrightarrow>
        task_key (child_task c) \<in> set (queue_leased (loop_queue s))) \<and>
     (\<forall>i j c b. dict_get (loop_children s) i = Some c \<longrightarrow> dict_get (loop_children s) j = Some b \<longrightarrow>
        holding c \<longrightarrow> holding b \<longrightarrow> i \<noteq> j \<longrightarrow> task_key (child_task c) \<noteq> task_key (child_task b))"

lemma leases_okI:
  assumes "queue_reachable (loop_queue s)"
    and "\<And>i c. dict_get (loop_children s) i = Some c \<Longrightarrow> holding c \<Longrightarrow>
        task_key (child_task c) \<in> set (queue_leased (loop_queue s))"
    and "\<And>i j c b. dict_get (loop_children s) i = Some c \<Longrightarrow> dict_get (loop_children s) j = Some b \<Longrightarrow>
        holding c \<Longrightarrow> holding b \<Longrightarrow> i \<noteq> j \<Longrightarrow> task_key (child_task c) \<noteq> task_key (child_task b)"
  shows "leases_ok s"
  unfolding leases_ok_def using assms by blast

lemma leases_okD:
  assumes "leases_ok s"
  shows "queue_reachable (loop_queue s)"
    and "dict_get (loop_children s) i = Some c \<Longrightarrow> holding c \<Longrightarrow>
        task_key (child_task c) \<in> set (queue_leased (loop_queue s))"
    and "dict_get (loop_children s) i = Some c \<Longrightarrow> dict_get (loop_children s) j = Some b \<Longrightarrow>
        holding c \<Longrightarrow> holding b \<Longrightarrow> i \<noteq> j \<Longrightarrow> task_key (child_task c) \<noteq> task_key (child_task b)"
  using assms unfolding leases_ok_def by blast+

text \<open>The children that hold a task shrink, and the leases stay.\<close>

lemma leases_shrink:
  assumes ok: "leases_ok s" and q: "queue_reachable (loop_queue t)"
    and same: "\<And>i c. dict_get (loop_children t) i = Some c \<Longrightarrow> holding c \<Longrightarrow>
      \<exists>b. dict_get (loop_children s) i = Some b \<and> holding b \<and> child_task b = child_task c"
    and kept: "\<And>i c. dict_get (loop_children t) i = Some c \<Longrightarrow> holding c \<Longrightarrow>
      task_key (child_task c) \<in> set (queue_leased (loop_queue s)) \<Longrightarrow>
      task_key (child_task c) \<in> set (queue_leased (loop_queue t))"
  shows "leases_ok t"
proof (rule leases_okI [OF q])
  show "task_key (child_task c) \<in> set (queue_leased (loop_queue t))"
    if "dict_get (loop_children t) i = Some c" "holding c" for i c
  proof -
    from same [OF that] obtain b where b: "dict_get (loop_children s) i = Some b" "holding b"
      "child_task b = child_task c" by blast
    then show ?thesis using leases_okD(2) [OF ok b(1,2)] kept [OF that] by simp
  qed
  show "task_key (child_task c) \<noteq> task_key (child_task b)"
    if "dict_get (loop_children t) i = Some c" "dict_get (loop_children t) j = Some b"
      "holding c" "holding b" "i \<noteq> j" for i j c b
    using same [OF that(1,3)] same [OF that(2,4)] leases_okD(3) [OF ok _ _ _ _ that(5)] by force
qed

lemma leases_step:
  assumes ok: "leases_ok s" and inv: "loop_inv s" and run: "loop_step n e s = Some t"
  shows "leases_ok t"
proof -
  note queue = leases_okD(1) [OF ok]
  have wf: "dict_wf (loop_children s)" using inv by (simp add: loop_inv_def tables_ok_def)
  have fresh: "dict_get (loop_children s) (loop_next s) = None"
    using inv by (cases "dict_get (loop_children s) (loop_next s)") (auto simp: loop_inv_def tables_ok_def)
  show ?thesis
  proof (cases e)
    case (Arrive task)
    have "queue_reachable (queue_apply (Enqueue task) (loop_queue s))"
      using queue by (rule queue_reachable.step) simp
    with Arrive run ok show ?thesis
      by (auto intro!: leases_shrink [OF ok] simp: queue_enqueue_def)
  next
    case Poll
    have q: "queue_reachable (snd (queue_dequeue (loop_queue s)))"
      using queue_reachable.step [OF queue, of Dequeue] by simp
    show ?thesis
    proof (cases "queue_items (loop_queue s)")
      case Nil
      with Poll run have t: "t = s\<lparr>loop_children := live_children (loop_children s)\<rparr>"
        by (auto simp: poll_def queue_dequeue_def split: if_splits)
      show ?thesis
        by (rule leases_shrink [OF ok]) (use queue in \<open>auto simp: t live_children_get [OF wf]\<close>)
    next
      case (Cons task rest)
      let ?q = "snd (queue_dequeue (loop_queue s))"
      from Cons Poll run have t: "t = spawn task (s\<lparr>loop_queue := ?q\<rparr>)"
        by (auto simp: poll_def queue_dequeue_def split: if_splits)
      have new: "task_key task \<notin> set (queue_leased (loop_queue s))"
        using queue_reachable_inv [OF queue] Cons by (auto simp: queue_inv_def)
      have leased: "set (queue_leased ?q) = insert (task_key task) (set (queue_leased (loop_queue s)))"
        using Cons by (simp add: queue_dequeue_def)
      obtain l where children: "loop_children t = dict_set (loop_next s)
          \<lparr>child_task = task, child_lock = l, child_phase = ChildWaiting\<rparr> (loop_children s)"
        by (simp add: t spawn_def Let_def)
      have queue_t: "loop_queue t = ?q" by (simp add: t spawn_def Let_def)
      show ?thesis
      proof (rule leases_okI)
        show "task_key (child_task c) \<noteq> task_key (child_task b)"
          if "dict_get (loop_children t) i = Some c" "dict_get (loop_children t) j = Some b"
            "holding c" "holding b" "i \<noteq> j" for i j c b
          using that new leases_okD(2) [OF ok, of i c] leases_okD(2) [OF ok, of j b]
            leases_okD(3) [OF ok, of i c j b] unfolding children
          by (auto split: if_splits)
      qed (use q leased leases_okD(2) [OF ok] in \<open>auto simp: queue_t children split: if_splits\<close>)
    qed
  next
    case Reap
    with run have t: "t = s\<lparr>loop_children := live_children (loop_children s)\<rparr>"
      by (auto split: if_splits)
    show ?thesis
      by (rule leases_shrink [OF ok]) (use queue in \<open>auto simp: t live_children_get [OF wf]\<close>)
  next
    case (Settled i reached)
    with run obtain c done_ok where c: "dict_get (loop_children s) i = Some c"
        "child_phase c = ChildSettling done_ok"
      and t: "t = set_phase i c ChildLeaving
        (if reached then s\<lparr>loop_queue := settle (child_task c) done_ok (loop_queue s)\<rparr> else s)"
      by (auto simp: child_step_def split: option.splits child_phase.splits)
    have hold: "holding c" using c by (simp add: holding_def)
    have leased: "task_key (child_task c) \<in> set (queue_leased (loop_queue s))"
      using leases_okD(2) [OF ok c(1) hold] .
    have q: "queue_reachable (settle (child_task c) done_ok (loop_queue s))"
      using queue_reachable.step [OF queue, of "Acknowledge (child_task c)"]
        queue_reachable.step [OF queue, of "Retry (child_task c)"] leased
      by (simp add: settle_def)
    have others: "task_key (child_task b) \<noteq> task_key (child_task c)"
      if "dict_get (loop_children s) j = Some b" "holding b" "j \<noteq> i" for j b
      using leases_okD(3) [OF ok that(1) c(1) that(2) hold that(3)] .
    show ?thesis
    proof (rule leases_shrink [OF ok])
      show "task_key (child_task b) \<in> set (queue_leased (loop_queue t))"
        if "dict_get (loop_children t) j = Some b" "holding b"
          "task_key (child_task b) \<in> set (queue_leased (loop_queue s))" for j b
        using that others [of j b]
        by (auto simp: t set_phase_def settle_def queue_acknowledge_def queue_retry_def holding_def
          split: if_splits)
    qed (use q queue c in \<open>auto simp: t set_phase_def holding_def split: if_splits\<close>)
  next
    case (Acquire i)
    with run show ?thesis
      by (auto intro!: leases_shrink [OF ok] simp: child_step_def set_phase_def holding_def queue
        split: option.splits if_splits)
  next
    case (Executed i done_ok)
    with run show ?thesis
      by (auto intro!: leases_shrink [OF ok] simp: child_step_def set_phase_def holding_def queue
        split: option.splits if_splits)
  next
    case (Leave i)
    with run show ?thesis
      by (auto intro!: leases_shrink [OF ok] simp: child_step_def set_phase_def holding_def queue
        leave_fields split: option.splits if_splits)
  qed (use run queue in \<open>auto intro!: leases_shrink [OF ok] simp: child_step_def queue_extend_lease_def
    split: option.splits if_splits\<close>)
qed

lemma loop_reachable_leases: "loop_reachable n s \<Longrightarrow> leases_ok s"
proof (induction rule: loop_reachable.induct)
  case start
  show ?case
    by (simp add: leases_ok_def loop_start_def queue_reachable.start)
next
  case (step s e t)
  then show ?case using loop_reachable_inv by (blast intro: leases_step)
qed

subsection \<open>Properties\<close>

text \<open>
  C8. In every state of a worker process: no two children execute runs of one session at the same
  time, no more children exist than the concurrency allows, every child that has not settled its
  task holds the lease of it and shares it with no other child, and the queue has only seen calls
  that its contract allows (tasks are acknowledged or returned by the child that holds them).
\<close>

theorem worker_loop_safe:
  assumes "loop_reachable n s"
  shows "(\<forall>i j c b. dict_get (loop_children s) i = Some c \<longrightarrow> dict_get (loop_children s) j = Some b \<longrightarrow>
      child_phase c = ChildExecuting \<longrightarrow> child_phase b = ChildExecuting \<longrightarrow>
      session_key_of (child_task c) = session_key_of (child_task b) \<longrightarrow> i = j) \<and>
    length (loop_children s) \<le> n \<and> queue_reachable (loop_queue s) \<and>
    (\<forall>i c. dict_get (loop_children s) i = Some c \<longrightarrow> holding c \<longrightarrow>
      task_key (child_task c) \<in> set (queue_leased (loop_queue s)) \<and>
      (\<forall>j b. dict_get (loop_children s) j = Some b \<longrightarrow> holding b \<longrightarrow> j \<noteq> i \<longrightarrow>
        task_key (child_task b) \<noteq> task_key (child_task c)))"
proof -
  have lok: "locks_ok s" using loop_reachable_inv [OF assms] by (simp add: loop_inv_def)
  have ok: "leases_ok s" using assms by (rule loop_reachable_leases)
  have "i = j" if c: "dict_get (loop_children s) i = Some c" "child_phase c = ChildExecuting"
    and b: "dict_get (loop_children s) j = Some b" "child_phase b = ChildExecuting"
    and same: "session_key_of (child_task c) = session_key_of (child_task b)" for i j c b
  proof -
    have "child_lock c = child_lock b"
      using locks_okD(1) [OF lok c(1)] locks_okD(1) [OF lok b(1)] c(2) b(2) same
      by (simp add: child_live_def)
    then show ?thesis
      using locks_okD(2) [OF lok c(1)] locks_okD(2) [OF lok b(1)] c(2) b(2) by simp
  qed
  then show ?thesis
    using loop_capacity [OF assms] leases_okD [OF ok] by blast
qed

text \<open>
  C9. A worker process that takes no more tasks comes to an end: in every state each step of a
  child (getting the lock, returning from the execution, settling the task, leaving) lowers the
  remaining work by one, while some work remains some child can take such a step, so that no
  waiting at the locks of sessions is for ever; the work is at most four steps per child; and when
  none remains, all locks and counts of sessions have been given back.
\<close>

theorem worker_loop_drains:
  assumes "loop_reachable n s"
  shows "(\<forall>e t. child_progress e \<longrightarrow> loop_step n e s = Some t \<longrightarrow>
      remaining_work t = remaining_work s - 1) \<and>
    (remaining_work s = 0 \<or> (\<exists>e. child_progress e \<and> loop_step n e s \<noteq> None)) \<and>
    0 \<le> remaining_work s \<and> remaining_work s \<le> 4 * int n \<and>
    (remaining_work s = 0 \<longrightarrow> (\<forall>key l. dict_get (loop_locks s) key = None \<and>
      dict_get (loop_users s) key = None \<and> dict_get (loop_holders s) l = None))"
proof -
  have inv: "loop_inv s" using assms by (rule loop_reachable_inv)
  have "remaining_work s \<le> 4 * int n"
    using remaining_bounds(2) [of s] loop_capacity [OF assms] by linarith
  with progress_decreases [OF inv] progress_possible [OF inv] nothing_left [OF inv]
    remaining_bounds(1) [of s] show ?thesis by blast
qed

lemma loop_run_reachable: "loop_run n es s = Some t \<Longrightarrow> loop_reachable n s \<Longrightarrow> loop_reachable n t"
  by (induction es arbitrary: s) (auto split: option.splits intro: loop_reachable.step)

text \<open>Two runs of one session: the second child waits for the first.\<close>

definition sample_history :: "loop_event list" where
  "sample_history =
     [Arrive \<lparr>task_tenant_id = ''t'', task_run_id = ''r1'', task_session_id = Some ''s''\<rparr>,
      Arrive \<lparr>task_tenant_id = ''t'', task_run_id = ''r2'', task_session_id = Some ''s''\<rparr>,
      Poll, Poll, Acquire 0]"

definition sample_loop :: loop_state where
  "sample_loop = the (loop_run 2 sample_history loop_start)"

lemma sample_loop_reachable: "loop_reachable 2 sample_loop"
proof -
  have "loop_run 2 sample_history loop_start \<noteq> None" by code_simp
  then have "loop_run 2 sample_history loop_start = Some sample_loop"
    unfolding sample_loop_def by (cases "loop_run 2 sample_history loop_start") simp_all
  then show ?thesis by (rule loop_run_reachable) (rule loop_reachable.start)
qed

lemma sample_loop_waits: "loop_step 2 (Acquire 1) sample_loop = None"
  by code_simp

lemma worker_loop_safe_witness:
  "length (loop_children sample_loop) \<le> 2 \<and> queue_reachable (loop_queue sample_loop)"
  using worker_loop_safe [OF sample_loop_reachable] by blast

lemma worker_loop_drains_witness: "0 \<le> remaining_work sample_loop \<and> remaining_work sample_loop \<le> 8"
  using worker_loop_drains [OF sample_loop_reachable] by simp

end
