(* ===== verification/Lifecycle_Models.thy ===== *)
theory Lifecycle_Models
  imports Memory_Catalog Redaction
begin

section \<open>Retention, legal holds and jobs on user data\<close>

text \<open>
  \<^verbatim>\<open>src/src/harness/lifecycle/models.py\<close> and the in-memory repository of
  \<^verbatim>\<open>lifecycle/repositories.py\<close>: retention policies, legal holds, and the jobs that export or delete
  the data of a scope through one adapter per external store. The \<open>..._valid\<close> predicates are the
  constraints a constructor checks; \<^verbatim>\<open>model_copy\<close> does not check them.
\<close>

datatype lifecycle_scope_kind = TenantScope | UserScope | SessionScope | AgentScope

fun lifecycle_scope_kind_value :: "lifecycle_scope_kind \<Rightarrow> string" where
  "lifecycle_scope_kind_value TenantScope = ''tenant''"
| "lifecycle_scope_kind_value UserScope = ''user''"
| "lifecycle_scope_kind_value SessionScope = ''session''"
| "lifecycle_scope_kind_value AgentScope = ''agent''"

datatype lifecycle_job_kind = JobExport | JobDelete | JobRetention

datatype lifecycle_job_status = JobQueued | JobRunning | JobSucceeded | JobPartialFailed | JobFailed

definition job_is_terminal :: "lifecycle_job_status \<Rightarrow> bool" where
  "job_is_terminal s \<longleftrightarrow> s \<in> {JobSucceeded, JobPartialFailed, JobFailed}"

datatype lifecycle_adapter_status =
    AdapterPending
  | AdapterRunning
  | AdapterSucceeded
  | AdapterFailed
  | AdapterSkipped

fun adapter_status_value :: "lifecycle_adapter_status \<Rightarrow> string" where
  "adapter_status_value AdapterPending = ''pending''"
| "adapter_status_value AdapterRunning = ''running''"
| "adapter_status_value AdapterSucceeded = ''succeeded''"
| "adapter_status_value AdapterFailed = ''failed''"
| "adapter_status_value AdapterSkipped = ''skipped''"

record lifecycle_scope =
  lscope_kind :: lifecycle_scope_kind
  lscope_subject_id :: string

definition lifecycle_scope_valid :: "lifecycle_scope \<Rightarrow> bool" where
  "lifecycle_scope_valid s \<longleftrightarrow> lscope_subject_id s \<noteq> []"

record retention_policy =
  retention_tenant_id :: string
  retention_policy_id :: string
  retention_revision :: int
  retention_session_days :: int
  retention_artifact_days :: int
  retention_trace_days :: int
  retention_eval_days :: int
  retention_updated_by :: string
  retention_updated_at :: time

definition retention_policy_valid :: "retention_policy \<Rightarrow> bool" where
  "retention_policy_valid p \<longleftrightarrow> retention_tenant_id p \<noteq> [] \<and> retention_policy_id p \<noteq> [] \<and>
     0 \<le> retention_revision p \<and> 1 \<le> retention_session_days p \<and> 1 \<le> retention_artifact_days p \<and>
     1 \<le> retention_trace_days p \<and> 1 \<le> retention_eval_days p \<and> retention_updated_by p \<noteq> []"

record replace_retention_request =
  request_expected_revision :: int
  request_session_days :: int
  request_artifact_days :: int
  request_trace_days :: int
  request_eval_days :: int

record legal_hold =
  hold_tenant_id :: string
  hold_hold_id :: string
  hold_scope :: lifecycle_scope
  hold_reason :: string
  hold_active :: bool
  hold_created_by :: string
  hold_created_at :: time
  hold_released_by :: "string option"
  hold_released_at :: "time option"

definition legal_hold_valid :: "legal_hold \<Rightarrow> bool" where
  "legal_hold_valid h \<longleftrightarrow> hold_tenant_id h \<noteq> [] \<and> hold_hold_id h \<noteq> [] \<and>
     lifecycle_scope_valid (hold_scope h) \<and> hold_reason h \<noteq> [] \<and> length (hold_reason h) \<le> 1000 \<and>
     hold_created_by h \<noteq> []"

record adapter_result =
  result_adapter :: string
  result_status :: lifecycle_adapter_status
  result_attempts :: int
  result_processed_items :: int
  result_error_code :: "string option"
  result_error_message :: "string option"
  result_updated_at :: time

definition adapter_result_valid :: "adapter_result \<Rightarrow> bool" where
  "adapter_result_valid r \<longleftrightarrow> result_adapter r \<noteq> [] \<and> 0 \<le> result_attempts r \<and>
     0 \<le> result_processed_items r"

record lifecycle_job =
  job_tenant_id :: string
  job_job_id :: string
  job_kind :: lifecycle_job_kind
  job_scope :: lifecycle_scope
  job_requested_by :: string
  job_idempotency_key :: string
  job_status :: lifecycle_job_status
  job_fencing_token :: int
  job_adapters :: "adapter_result list"
  job_retention_cutoffs :: "(string, time) dict"
  job_export_object_id :: "string option"
  job_export_filename :: "string option"
  job_created_at :: time
  job_updated_at :: time
  job_completed_at :: "time option"

definition lifecycle_job_valid :: "lifecycle_job \<Rightarrow> bool" where
  "lifecycle_job_valid j \<longleftrightarrow> job_tenant_id j \<noteq> [] \<and> job_job_id j \<noteq> [] \<and>
     lifecycle_scope_valid (job_scope j) \<and> job_requested_by j \<noteq> [] \<and>
     job_idempotency_key j \<noteq> [] \<and> 0 \<le> job_fencing_token j \<and>
     list_all adapter_result_valid (job_adapters j)"

record lifecycle_job_request =
  request_kind :: lifecycle_job_kind
  request_scope :: lifecycle_scope
  request_idempotency_key :: string

definition lifecycle_job_request_valid :: "lifecycle_job_request \<Rightarrow> bool" where
  "lifecycle_job_request_valid r \<longleftrightarrow> lifecycle_scope_valid (request_scope r) \<and>
     request_idempotency_key r \<noteq> [] \<and>
     \<not> (request_kind r = JobRetention \<and> lscope_kind (request_scope r) \<noteq> TenantScope)"

record lifecycle_overview =
  overview_policy :: retention_policy
  overview_holds :: "legal_hold list"
  overview_jobs :: "lifecycle_job list"

subsection \<open>Dates\<close>

text \<open>
  \<^verbatim>\<open>isoformat\<close> of a date and of a time in UTC, and the form pydantic writes. Days are counted from
  1970-01-01; the civil date is found within its era of 400 years, whose years start in March.
\<close>

definition microseconds_per_day :: int where
  "microseconds_per_day = 86400000000"

definition zero_padded :: "nat \<Rightarrow> int \<Rightarrow> string" where
  "zero_padded n i = (let s = str_of_int i in replicate (n - length s) (CHR ''0'') @ s)"

definition month_and_day :: "int \<Rightarrow> int \<times> int" where
  "month_and_day doy =
     (if (5 * doy + 2) div 153 < 10 then (5 * doy + 2) div 153 + 3 else (5 * doy + 2) div 153 - 9,
      doy - (153 * ((5 * doy + 2) div 153) + 2) div 5 + 1)"

definition date_in_era :: "int \<Rightarrow> int \<Rightarrow> int \<Rightarrow> int \<times> int \<times> int" where
  "date_in_era era doe yoe =
     (case month_and_day (doe - (365 * yoe + yoe div 4 - yoe div 100)) of
        (month, day) \<Rightarrow> (yoe + era * 400 + (if month \<le> 2 then 1 else 0), month, day))"

definition civil_date :: "int \<Rightarrow> int \<times> int \<times> int" where
  "civil_date days =
     (case ((days + 719468) div 146097, (days + 719468) mod 146097) of
        (era, doe) \<Rightarrow>
          date_in_era era doe ((doe - doe div 1460 + doe div 36524 - doe div 146096) div 365))"

definition iso_date :: "time \<Rightarrow> string" where
  "iso_date t = (case civil_date (t div microseconds_per_day) of (y, m, d) \<Rightarrow>
     zero_padded 4 y @ ''-'' @ zero_padded 2 m @ ''-'' @ zero_padded 2 d)"

definition clock_text :: "int \<Rightarrow> int \<Rightarrow> string" where
  "clock_text second micro =
     zero_padded 2 (second div 3600) @ '':'' @ zero_padded 2 (second div 60 mod 60) @ '':'' @
     zero_padded 2 (second mod 60) @ (if micro = 0 then [] else ''.'' @ zero_padded 6 micro)"

definition iso_time :: "string \<Rightarrow> time \<Rightarrow> string" where
  "iso_time zone t = iso_date t @ ''T'' @
     clock_text (t mod microseconds_per_day div 1000000) (t mod 1000000) @ zone"

lemma iso_date_leap_day: "iso_date 951782400000000 = ''2000-02-29''"
  by code_simp

lemma iso_date_day: "s div microseconds_per_day = t div microseconds_per_day \<Longrightarrow> iso_date s = iso_date t"
  by (simp add: iso_date_def)

subsection \<open>The in-memory repository\<close>

record lifecycle_repo =
  lc_policies :: "(string \<times> string, retention_policy) dict"
  lc_holds :: "(string \<times> string, legal_hold) dict"
  lc_jobs :: "(string \<times> string, lifecycle_job) dict"
  lc_idempotency :: "(string \<times> string, string) dict"

definition lifecycle_repo_empty :: lifecycle_repo where
  "lifecycle_repo_empty = \<lparr>lc_policies = [], lc_holds = [], lc_jobs = [], lc_idempotency = []\<rparr>"

definition retention_key :: "retention_policy \<Rightarrow> string \<times> string" where
  "retention_key p = (retention_tenant_id p, retention_policy_id p)"

definition hold_key :: "legal_hold \<Rightarrow> string \<times> string" where
  "hold_key h = (hold_tenant_id h, hold_hold_id h)"

definition job_key :: "lifecycle_job \<Rightarrow> string \<times> string" where
  "job_key j = (job_tenant_id j, job_job_id j)"

definition job_idem_key :: "lifecycle_job \<Rightarrow> string \<times> string" where
  "job_idem_key j = (job_tenant_id j, job_idempotency_key j)"

definition list_policy_tenants :: "lifecycle_repo \<Rightarrow> string list" where
  "list_policy_tenants repo =
     py_sorted (\<lambda>t. t) (dedup_keep_first (map (fst \<circ> fst) (lc_policies repo)))"

definition policy_get :: "lifecycle_repo \<Rightarrow> string \<Rightarrow> retention_policy option" where
  "policy_get repo tenant_id = dict_get (lc_policies repo) (tenant_id, ''tenant-default'')"

definition policy_replace ::
  "retention_policy \<Rightarrow> int \<Rightarrow> lifecycle_repo \<Rightarrow> herror + lifecycle_repo" where
  "policy_replace p expected_revision repo =
     (let actual = (case dict_get (lc_policies repo) (retention_key p) of
            None \<Rightarrow> 0 | Some current \<Rightarrow> retention_revision current)
      in if actual \<noteq> expected_revision
         then Inl (ConflictError (''retention policy revision changed: expected='' @
           str_of_int expected_revision @ '' actual='' @ str_of_int actual))
         else Inr (repo\<lparr>lc_policies := dict_set (retention_key p) p (lc_policies repo)\<rparr>))"

definition hold_add :: "legal_hold \<Rightarrow> lifecycle_repo \<Rightarrow> herror + lifecycle_repo" where
  "hold_add h repo =
     (if dict_has (lc_holds repo) (hold_key h)
      then Inl (ConflictError (''legal hold already exists: '' @ hold_hold_id h))
      else Inr (repo\<lparr>lc_holds := dict_set (hold_key h) h (lc_holds repo)\<rparr>))"

definition hold_get :: "lifecycle_repo \<Rightarrow> string \<Rightarrow> string \<Rightarrow> herror + legal_hold" where
  "hold_get repo tenant_id hid =
     (case dict_get (lc_holds repo) (tenant_id, hid) of
        None \<Rightarrow> Inl (NotFoundError (''legal hold not found: '' @ hid))
      | Some h \<Rightarrow> Inr h)"

definition hold_update :: "legal_hold \<Rightarrow> lifecycle_repo \<Rightarrow> herror + lifecycle_repo" where
  "hold_update h repo =
     (if \<not> dict_has (lc_holds repo) (hold_key h)
      then Inl (NotFoundError (''legal hold not found: '' @ hold_hold_id h))
      else Inr (repo\<lparr>lc_holds := dict_set (hold_key h) h (lc_holds repo)\<rparr>))"

definition hold_list :: "lifecycle_repo \<Rightarrow> string \<Rightarrow> legal_hold list" where
  "hold_list repo tenant_id =
     map snd (filter (\<lambda>((stored_tenant, _), h). stored_tenant = tenant_id) (lc_holds repo))"

definition job_add ::
  "lifecycle_job \<Rightarrow> lifecycle_repo \<Rightarrow> herror + (lifecycle_job \<times> lifecycle_repo)" where
  "job_add j repo =
     (case dict_get (lc_idempotency repo) (job_idem_key j) of
        Some existing_id \<Rightarrow>
          (case dict_get (lc_jobs repo) (job_tenant_id j, existing_id) of
             None \<Rightarrow> Inl KeyError
           | Some existing \<Rightarrow> Inr (existing, repo))
      | None \<Rightarrow>
          Inr (j, repo\<lparr>lc_jobs := dict_set (job_key j) j (lc_jobs repo),
                 lc_idempotency := dict_set (job_idem_key j) (job_job_id j) (lc_idempotency repo)\<rparr>))"

definition find_job_by_idempotency ::
  "lifecycle_repo \<Rightarrow> string \<Rightarrow> string \<Rightarrow> lifecycle_job option" where
  "find_job_by_idempotency repo tenant_id key =
     (case dict_get (lc_idempotency repo) (tenant_id, key) of
        None \<Rightarrow> None
      | Some jid \<Rightarrow> if jid = [] then None else dict_get (lc_jobs repo) (tenant_id, jid))"

definition job_get :: "lifecycle_repo \<Rightarrow> string \<Rightarrow> string \<Rightarrow> herror + lifecycle_job" where
  "job_get repo tenant_id jid =
     (case dict_get (lc_jobs repo) (tenant_id, jid) of
        None \<Rightarrow> Inl (NotFoundError (''data lifecycle job not found: '' @ jid))
      | Some j \<Rightarrow> Inr j)"

definition job_list :: "lifecycle_repo \<Rightarrow> string \<Rightarrow> int \<Rightarrow> lifecycle_job list" where
  "job_list repo tenant_id limit =
     py_prefix limit (py_sorted_desc job_created_at
       (map snd (filter (\<lambda>((stored_tenant, _), j). stored_tenant = tenant_id) (lc_jobs repo))))"

definition list_runnable :: "lifecycle_repo \<Rightarrow> int \<Rightarrow> lifecycle_job list" where
  "list_runnable repo limit =
     py_prefix limit (py_sorted job_created_at
       (filter (\<lambda>j. job_status j = JobQueued) (dict_values (lc_jobs repo))))"

definition job_cas ::
  "lifecycle_job_status \<Rightarrow> lifecycle_job \<Rightarrow> lifecycle_repo \<Rightarrow> bool \<times> lifecycle_repo" where
  "job_cas expected_status j repo =
     (case dict_get (lc_jobs repo) (job_key j) of
        None \<Rightarrow> (False, repo)
      | Some current \<Rightarrow>
          if job_status current \<noteq> expected_status \<or>
             job_fencing_token current + 1 \<noteq> job_fencing_token j
          then (False, repo)
          else (True, repo\<lparr>lc_jobs := dict_set (job_key j) j (lc_jobs repo)\<rparr>))"

definition job_lookup :: "lifecycle_repo \<Rightarrow> string \<times> string \<Rightarrow> herror + lifecycle_job" where
  "job_lookup repo k = job_get repo (fst k) (snd k)"

definition hold_lookup :: "lifecycle_repo \<Rightarrow> string \<times> string \<Rightarrow> herror + legal_hold" where
  "hold_lookup repo k = hold_get repo (fst k) (snd k)"

interpretation holds: keyed_store hold_add hold_lookup hold_key
  by unfold_locales
     (auto simp: hold_add_def hold_lookup_def hold_get_def hold_key_def
       split: if_splits option.splits)

interpretation lifecycle_jobs: versioned_store job_lookup "\<lambda>e j repo. Inr (job_cas e j repo)" job_key
    job_fencing_token
  by unfold_locales
     (auto simp: job_cas_def job_lookup_def job_get_def job_key_def
       split: if_splits option.splits)

end
