(* ===== verification/Lifecycle_Service.thy ===== *)
theory Lifecycle_Service
  imports Lifecycle_Models Guarantee
begin

section \<open>The service for retention, holds and jobs on user data\<close>

text \<open>
  \<^verbatim>\<open>src/src/harness/lifecycle/service.py\<close>. The state is the repository, the store of exports,
  the sessions that the resolver of scopes reads, and \<open>lcw_calls\<close>, the calls to the adapters'
  \<^verbatim>\<open>delete\<close> that reached the external stores so far, with the job as it was handed over and whether
  the call returned. \<open>lcd_others n\<close> is what everything else does at the n-th await. The adapters are
  parameters: their answers are functions of the number of the await. The optional audit records are
  left out.
\<close>

datatype delete_call = DeleteCall (called_job: lifecycle_job) (called_adapter: string) (called_ok: bool)

record lifecycle_world =
  lcw_repo :: lifecycle_repo
  lcw_exports :: artifact_store
  lcw_sessions :: session_repo
  lcw_calls :: "delete_call list"
  lcw_clock_reads :: nat
  lcw_ids :: nat
  lcw_awaits :: nat

record lifecycle_adapter =
  lcad_name :: string
  lcad_export :: "nat \<Rightarrow> lifecycle_job \<Rightarrow> herror + (json \<times> int)"
  lcad_delete :: "nat \<Rightarrow> lifecycle_job \<Rightarrow> herror + int"

text \<open>
  The resolver of scopes: the default, the one of \<^verbatim>\<open>composition.py\<close>, which looks the session up, or
  another. \<open>lcd_put_error\<close> says when the object store refuses an export; \<open>lcd_zip\<close> packs the named
  JSON documents of an export into an archive.
\<close>

datatype scope_resolver =
    SameScope
  | SessionScopes
  | OtherScopes "nat \<Rightarrow> string \<Rightarrow> lifecycle_scope \<Rightarrow> herror + lifecycle_scope list"

record lifecycle_deps =
  lcd_clock :: "nat \<Rightarrow> time"
  lcd_new_id :: "string \<Rightarrow> nat \<Rightarrow> string"
  lcd_others :: "nat \<Rightarrow> lifecycle_world \<Rightarrow> lifecycle_world"
  lcd_adapters :: "lifecycle_adapter list"
  lcd_resolver :: scope_resolver
  lcd_put_error :: "nat \<Rightarrow> herror option"
  lcd_zip :: "(string \<times> json) list \<Rightarrow> string"
  lcd_sha :: "string \<Rightarrow> string"
  lcd_ellip :: char

type_synonym 'a lc_handler = "(lifecycle_world, herror, 'a) prog"

definition lifecycle_empty :: lifecycle_world where
  "lifecycle_empty = \<lparr>lcw_repo = lifecycle_repo_empty, lcw_exports = [], lcw_sessions = [],
     lcw_calls = [], lcw_clock_reads = 0, lcw_ids = 0, lcw_awaits = 0\<rparr>"

definition lc_clock :: "lifecycle_deps \<Rightarrow> time lc_handler" where
  "lc_clock d w = (Inr (lcd_clock d (lcw_clock_reads w)), w\<lparr>lcw_clock_reads := Suc (lcw_clock_reads w)\<rparr>)"

definition lc_new_id :: "lifecycle_deps \<Rightarrow> string \<Rightarrow> string lc_handler" where
  "lc_new_id d prefix w = (Inr (lcd_new_id d prefix (lcw_ids w)), w\<lparr>lcw_ids := Suc (lcw_ids w)\<rparr>)"

definition lc_suspended :: "lifecycle_deps \<Rightarrow> lifecycle_world \<Rightarrow> lifecycle_world" where
  "lc_suspended d w = (lcd_others d (lcw_awaits w) w)\<lparr>lcw_awaits := Suc (lcw_awaits w)\<rparr>"

definition lc_await :: "lifecycle_deps \<Rightarrow> 'a lc_handler \<Rightarrow> 'a lc_handler" where
  "lc_await d m w = m (lc_suspended d w)"

text \<open>The shapes of a call: a query, a write that may be refused, a write with an answer.\<close>

definition lc_ask :: "(lifecycle_world \<Rightarrow> herror + 'a) \<Rightarrow> 'a lc_handler" where
  "lc_ask f w = (f w, w)"

definition repo_query :: "(lifecycle_repo \<Rightarrow> 'a) \<Rightarrow> 'a lc_handler" where
  "repo_query f = lc_ask (\<lambda>w. Inr (f (lcw_repo w)))"

definition repo_write :: "(lifecycle_repo \<Rightarrow> herror + lifecycle_repo) \<Rightarrow> unit lc_handler" where
  "repo_write f w =
     (case f (lcw_repo w) of Inl e \<Rightarrow> (Inl e, w) | Inr r \<Rightarrow> (Inr (), w\<lparr>lcw_repo := r\<rparr>))"

definition jobs_add :: "lifecycle_job \<Rightarrow> lifecycle_job lc_handler" where
  "jobs_add j w =
     (case job_add j (lcw_repo w) of Inl e \<Rightarrow> (Inl e, w) | Inr (x, r) \<Rightarrow> (Inr x, w\<lparr>lcw_repo := r\<rparr>))"

definition jobs_get :: "string \<Rightarrow> string \<Rightarrow> lifecycle_job lc_handler" where
  "jobs_get tenant_id jid = lc_ask (\<lambda>w. job_get (lcw_repo w) tenant_id jid)"

definition jobs_cas :: "lifecycle_job_status \<Rightarrow> lifecycle_job \<Rightarrow> bool lc_handler" where
  "jobs_cas expected j w = (case job_cas expected j (lcw_repo w) of (b, r) \<Rightarrow> (Inr b, w\<lparr>lcw_repo := r\<rparr>))"

text \<open>A pydantic constructor: it raises when a constraint is violated.\<close>

definition construct :: "('a \<Rightarrow> bool) \<Rightarrow> 'a \<Rightarrow> 'a lc_handler" where
  "construct valid x = (if valid x then ret x else raise (ValueError ''validation error''))"

text \<open>The constructor of the service refuses two adapters of one name.\<close>

definition adapter_names :: "lifecycle_deps \<Rightarrow> string list" where
  "adapter_names d = map lcad_name (lcd_adapters d)"

definition lifecycle_service :: "lifecycle_deps \<Rightarrow> herror + unit" where
  "lifecycle_service d =
     (if card (set (adapter_names d)) \<noteq> length (adapter_names d)
      then Inl (ValueError ''lifecycle adapter names must be unique'') else Inr ())"

subsection \<open>Policies\<close>

definition default_retention :: "string \<Rightarrow> retention_policy" where
  "default_retention tenant_id = \<lparr>retention_tenant_id = tenant_id,
     retention_policy_id = ''tenant-default'', retention_revision = 0, retention_session_days = 90,
     retention_artifact_days = 90, retention_trace_days = 30, retention_eval_days = 365,
     retention_updated_by = ''platform-default'', retention_updated_at = 0\<rparr>"

definition retention_of :: "lifecycle_deps \<Rightarrow> string \<Rightarrow> retention_policy lc_handler" where
  "retention_of d tenant_id =
     bindP (lc_await d (repo_query (\<lambda>r. policy_get r tenant_id))) (\<lambda>p.
       case p of None \<Rightarrow> construct retention_policy_valid (default_retention tenant_id)
       | Some x \<Rightarrow> ret x)"

definition replace_retention ::
  "lifecycle_deps \<Rightarrow> string \<Rightarrow> string \<Rightarrow> replace_retention_request \<Rightarrow> retention_policy lc_handler" where
  "replace_retention d tenant_id user request =
     bindP (lc_clock d) (\<lambda>now.
     bindP (construct retention_policy_valid \<lparr>retention_tenant_id = tenant_id,
       retention_policy_id = ''tenant-default'',
       retention_revision = request_expected_revision request + 1,
       retention_session_days = request_session_days request,
       retention_artifact_days = request_artifact_days request,
       retention_trace_days = request_trace_days request,
       retention_eval_days = request_eval_days request,
       retention_updated_by = user, retention_updated_at = now\<rparr>) (\<lambda>p.
     thenP (lc_await d (repo_write (policy_replace p (request_expected_revision request))))
       (ret p)))"

subsection \<open>Holds\<close>

definition validate_scope :: "string \<Rightarrow> lifecycle_scope \<Rightarrow> unit lc_handler" where
  "validate_scope tenant_id s =
     (if lscope_kind s = TenantScope \<and> lscope_subject_id s \<noteq> tenant_id
      then raise (ConflictError ''tenant lifecycle scope must match authenticated tenant'')
      else ret ())"

definition create_hold ::
  "lifecycle_deps \<Rightarrow> string \<Rightarrow> string \<Rightarrow> lifecycle_scope \<Rightarrow> string \<Rightarrow> legal_hold lc_handler" where
  "create_hold d tenant_id user s reason =
     thenP (validate_scope tenant_id s)
    (bindP (lc_new_id d ''hold'') (\<lambda>hid.
     bindP (lc_clock d) (\<lambda>now.
     bindP (construct legal_hold_valid \<lparr>hold_tenant_id = tenant_id, hold_hold_id = hid, hold_scope = s,
       hold_reason = reason, hold_active = True, hold_created_by = user, hold_created_at = now,
       hold_released_by = None, hold_released_at = None\<rparr>) (\<lambda>h.
     thenP (lc_await d (repo_write (hold_add h))) (ret h)))))"

definition release_hold ::
  "lifecycle_deps \<Rightarrow> string \<Rightarrow> string \<Rightarrow> string \<Rightarrow> legal_hold lc_handler" where
  "release_hold d tenant_id user hid =
     bindP (lc_await d (lc_ask (\<lambda>w. hold_get (lcw_repo w) tenant_id hid))) (\<lambda>current.
       if \<not> hold_active current then ret current
       else bindP (lc_clock d) (\<lambda>now.
         let released = current\<lparr>hold_active := False, hold_released_by := Some user,
               hold_released_at := Some now\<rparr>
         in thenP (lc_await d (repo_write (hold_update released))) (ret released)))"

text \<open>\<^verbatim>\<open>lifecycle_scopes\<close> of \<^verbatim>\<open>composition.py\<close>: a session also belongs to its user and its agent.\<close>

definition session_scopes :: "lifecycle_deps \<Rightarrow> string \<Rightarrow> lifecycle_scope \<Rightarrow> lifecycle_scope list lc_handler" where
  "session_scopes d tenant_id s =
     (if lscope_kind s \<noteq> SessionScope then ret [s]
      else bindP (lc_await d (lc_ask (\<lambda>w. session_get (lcw_sessions w) tenant_id (lscope_subject_id s))))
        (\<lambda>x. ret [s, \<lparr>lscope_kind = UserScope, lscope_subject_id = session_user_id x\<rparr>,
                \<lparr>lscope_kind = AgentScope, lscope_subject_id = session_agent_name x\<rparr>]))"

definition related_scopes :: "lifecycle_deps \<Rightarrow> string \<Rightarrow> lifecycle_scope \<Rightarrow> lifecycle_scope list lc_handler" where
  "related_scopes d tenant_id s =
     (case lcd_resolver d of
        SameScope \<Rightarrow> ret [s]
      | SessionScopes \<Rightarrow> session_scopes d tenant_id s
      | OtherScopes f \<Rightarrow> lc_await d (lc_ask (\<lambda>w. f (lcw_awaits w) tenant_id s)))"

definition scopes_overlap :: "lifecycle_scope \<Rightarrow> lifecycle_scope \<Rightarrow> bool" where
  "scopes_overlap left right \<longleftrightarrow>
     (if lscope_kind left = TenantScope \<or> lscope_kind right = TenantScope then True
      else lscope_kind left = lscope_kind right \<and> lscope_subject_id left = lscope_subject_id right)"

definition blocking_hold ::
  "lifecycle_deps \<Rightarrow> string \<Rightarrow> lifecycle_scope \<Rightarrow> legal_hold option lc_handler" where
  "blocking_hold d tenant_id s =
     bindP (related_scopes d tenant_id s) (\<lambda>related.
     bindP (lc_await d (repo_query (\<lambda>r. hold_list r tenant_id))) (\<lambda>hs.
       ret (List.find (\<lambda>h. hold_active h \<and> list_ex (scopes_overlap (hold_scope h)) related) hs)))"

subsection \<open>Jobs\<close>

definition hold_conflict :: "legal_hold \<Rightarrow> herror" where
  "hold_conflict h = ConflictError (''legal_hold_active:'' @ hold_hold_id h)"

definition refuse_held :: "lifecycle_deps \<Rightarrow> string \<Rightarrow> lifecycle_job_kind \<Rightarrow> lifecycle_scope \<Rightarrow> unit lc_handler" where
  "refuse_held d tenant_id kind s =
     whenP (kind \<in> {JobDelete, JobRetention})
       (bindP (blocking_hold d tenant_id s) (\<lambda>h.
          case h of None \<Rightarrow> ret () | Some x \<Rightarrow> raise (hold_conflict x)))"

definition cutoffs_of ::
  "lifecycle_deps \<Rightarrow> string \<Rightarrow> lifecycle_job_kind \<Rightarrow> time \<Rightarrow> (string, time) dict lc_handler" where
  "cutoffs_of d tenant_id kind now =
     (if kind = JobRetention then
        bindP (retention_of d tenant_id) (\<lambda>p.
          ret [(''sessions'', now - retention_session_days p * microseconds_per_day),
               (''artifacts'', now - retention_artifact_days p * microseconds_per_day),
               (''traces'', now - retention_trace_days p * microseconds_per_day),
               (''evals'', now - retention_eval_days p * microseconds_per_day)])
      else ret [])"

definition pending_adapters :: "lifecycle_deps \<Rightarrow> time \<Rightarrow> adapter_result list" where
  "pending_adapters d now = map (\<lambda>a. \<lparr>result_adapter = lcad_name a, result_status = AdapterPending,
     result_attempts = 0, result_processed_items = 0, result_error_code = None,
     result_error_message = None, result_updated_at = now\<rparr>) (lcd_adapters d)"

definition create_job ::
  "lifecycle_deps \<Rightarrow> string \<Rightarrow> string \<Rightarrow> lifecycle_job_request \<Rightarrow> lifecycle_job lc_handler" where
  "create_job d tenant_id user request =
     thenP (validate_scope tenant_id (request_scope request))
    (bindP (lc_await d (repo_query (\<lambda>r.
        find_job_by_idempotency r tenant_id (request_idempotency_key request)))) (\<lambda>found.
     case found of
       Some existing \<Rightarrow>
         if job_kind existing \<noteq> request_kind request \<or> job_scope existing \<noteq> request_scope request
         then raise (ConflictError ''data lifecycle idempotency key was reused'')
         else ret existing
     | None \<Rightarrow>
         thenP (refuse_held d tenant_id (request_kind request) (request_scope request))
        (bindP (lc_clock d) (\<lambda>now.
         bindP (cutoffs_of d tenant_id (request_kind request) now) (\<lambda>cutoffs.
         bindP (lc_new_id d ''lifecycle'') (\<lambda>jid.
         bindP (construct lifecycle_job_valid \<lparr>job_tenant_id = tenant_id, job_job_id = jid,
           job_kind = request_kind request, job_scope = request_scope request,
           job_requested_by = user, job_idempotency_key = request_idempotency_key request,
           job_status = JobQueued, job_fencing_token = 0, job_adapters = pending_adapters d now,
           job_retention_cutoffs = cutoffs, job_export_object_id = None,
           job_export_filename = None, job_created_at = now, job_updated_at = now,
           job_completed_at = None\<rparr>) (\<lambda>j.
         lc_await d (jobs_add j))))))))"

text \<open>
  A scheduled job per tenant with a policy and UTC day; a tenant under a hold is skipped. The clock
  is read once, so that all tenants get the same day.
\<close>

definition retention_request :: "string \<Rightarrow> string \<Rightarrow> lifecycle_job_request" where
  "retention_request tenant_id today = \<lparr>request_kind = JobRetention,
     request_scope = \<lparr>lscope_kind = TenantScope, lscope_subject_id = tenant_id\<rparr>,
     request_idempotency_key = ''retention:'' @ today\<rparr>"

definition enqueue_due_retention_jobs :: "lifecycle_deps \<Rightarrow> lifecycle_job list lc_handler" where
  "enqueue_due_retention_jobs d =
     bindP (lc_clock d) (\<lambda>now.
     bindP (lc_await d (repo_query list_policy_tenants)) (\<lambda>tenants.
       foldP (\<lambda>created tenant_id.
         bindP (tryP (bindP (construct lifecycle_job_request_valid
             (retention_request tenant_id (iso_date now)))
           (create_job d tenant_id ''system:retention''))) (\<lambda>r.
         case r of
           Inl e \<Rightarrow>
             if is_conflict_error e \<and> take 18 (conflict_text e) = ''legal_hold_active:''
             then ret created else raise e
         | Inr j \<Rightarrow> ret (created @ [j]))) [] tenants))"

definition reset_adapter :: "lifecycle_deps \<Rightarrow> lifecycle_job_kind \<Rightarrow> adapter_result \<Rightarrow> adapter_result lc_handler" where
  "reset_adapter d kind r =
     (if kind = JobExport \<or> result_status r = AdapterFailed
      then bindP (lc_clock d) (\<lambda>now. ret (r\<lparr>result_status := AdapterPending,
        result_error_code := None, result_error_message := None, result_updated_at := now\<rparr>))
      else ret r)"

definition reset_adapters ::
  "lifecycle_deps \<Rightarrow> lifecycle_job_kind \<Rightarrow> adapter_result list \<Rightarrow> adapter_result list lc_handler" where
  "reset_adapters d kind rs =
     foldP (\<lambda>acc r. bindP (reset_adapter d kind r) (\<lambda>x. ret (acc @ [x]))) []
       (filter (\<lambda>r. result_adapter r \<noteq> ''export-artifact'') rs)"

definition retry_job :: "lifecycle_deps \<Rightarrow> string \<Rightarrow> string \<Rightarrow> lifecycle_job lc_handler" where
  "retry_job d tenant_id jid =
     bindP (lc_await d (jobs_get tenant_id jid)) (\<lambda>current.
       if job_status current \<notin> {JobPartialFailed, JobFailed}
       then raise (ConflictError ''only failed data lifecycle jobs can be retried'')
       else
         thenP (refuse_held d tenant_id (job_kind current) (job_scope current))
        (bindP (reset_adapters d (job_kind current) (job_adapters current)) (\<lambda>rs.
         bindP (lc_clock d) (\<lambda>now.
           let reset = current\<lparr>job_status := JobQueued, job_adapters := rs, job_updated_at := now,
                 job_completed_at := None, job_fencing_token := job_fencing_token current + 1\<rparr>
           in bindP (lc_await d (jobs_cas (job_status current) reset)) (\<lambda>won.
                if won then ret reset
                else raise (ConflictError ''data lifecycle job changed before retry''))))))"

definition overview :: "lifecycle_deps \<Rightarrow> string \<Rightarrow> lifecycle_overview lc_handler" where
  "overview d tenant_id =
     bindP (retention_of d tenant_id) (\<lambda>p.
     bindP (lc_await d (repo_query (\<lambda>r. hold_list r tenant_id))) (\<lambda>hs.
     bindP (lc_await d (repo_query (\<lambda>r. job_list r tenant_id 100))) (\<lambda>js.
       ret \<lparr>overview_policy = p, overview_holds = hs, overview_jobs = js\<rparr>)))"

definition get_lifecycle_job :: "lifecycle_deps \<Rightarrow> string \<Rightarrow> string \<Rightarrow> lifecycle_job lc_handler" where
  "get_lifecycle_job d tenant_id jid = lc_await d (jobs_get tenant_id jid)"

definition list_lifecycle_jobs :: "lifecycle_deps \<Rightarrow> string \<Rightarrow> int \<Rightarrow> lifecycle_job list lc_handler" where
  "list_lifecycle_jobs d tenant_id limit = lc_await d (repo_query (\<lambda>r. job_list r tenant_id limit))"

definition download_export :: "lifecycle_deps \<Rightarrow> string \<Rightarrow> string \<Rightarrow> (lifecycle_job \<times> string) lc_handler" where
  "download_export d tenant_id jid =
     bindP (lc_await d (jobs_get tenant_id jid)) (\<lambda>j.
       if job_kind j \<noteq> JobExport \<or> str_or (job_export_object_id j) [] = []
       then raise (ConflictError ''data lifecycle export is not ready'')
       else bindP (lc_await d (lc_ask (\<lambda>w.
           store_get (lcw_exports w) tenant_id (str_or (job_export_object_id j) []))))
         (\<lambda>content. ret (j, content)))"

end
