(* ===== verification/Lifecycle_Controller.thy ===== *)
theory Lifecycle_Controller
  imports Lifecycle_Service
begin

section \<open>The controller that carries out jobs on user data\<close>

text \<open>
  \<^verbatim>\<open>src/src/harness/lifecycle/controller.py\<close> and the empty adapter of \<^verbatim>\<open>adapters.py\<close>. One call of
  \<open>process_job\<close> (\<^verbatim>\<open>process_once\<close>) claims the oldest queued job, runs its adapters one after the other
  with a compare-and-set before and after each call, and writes the outcome.
\<close>

subsection \<open>What an export may contain\<close>

definition export_secret_markers :: "string list" where
  "export_secret_markers =
     [''apikey'', ''api_key'', ''api-key'', ''authorization'', ''credential'', ''password'', ''secret'',
      ''accesstoken'', ''access_token'', ''access-token'',
      ''refreshtoken'', ''refresh_token'', ''refresh-token'']"

definition export_secret_key :: "string \<Rightarrow> bool" where
  "export_secret_key key \<longleftrightarrow> (\<exists>m \<in> set export_secret_markers. is_substring m (py_lower key))"

function (sequential) sanitize_export :: "char \<Rightarrow> string \<Rightarrow> json \<Rightarrow> json" where
  "sanitize_export ellip key v =
     (if export_secret_key key then JStr redaction_mark
      else case v of
        JObj entries \<Rightarrow> JObj (map (\<lambda>(k, x). (k, sanitize_export ellip k x)) entries)
      | JList xs \<Rightarrow> JList (map (sanitize_export ellip []) xs)
      | JStr s \<Rightarrow> JStr (redact_text ellip 1000000 s)
      | _ \<Rightarrow> v)"
  by pat_completeness auto
termination
  by (relation "measure (\<lambda>(ellip, key, v). size v)")
     (auto intro: size_json_list_mem size_json_obj_mem)

declare sanitize_export.simps [simp del]

definition empty_adapter :: "string \<Rightarrow> lifecycle_adapter" where
  "empty_adapter name = \<lparr>lcad_name = name, lcad_export = (\<lambda>n j. Inr (JObj [], 0)),
     lcad_delete = (\<lambda>n j. Inr 0)\<rparr>"

definition adapter_table :: "lifecycle_deps \<Rightarrow> (string, lifecycle_adapter) dict" where
  "adapter_table d = foldl (\<lambda>t a. dict_set (lcad_name a) a t) [] (lcd_adapters d)"

subsection \<open>Steps\<close>

text \<open>The controller has its own version of the check for holds; it stops at the first match.\<close>

fun hold_matches :: "legal_hold \<Rightarrow> lifecycle_scope list \<Rightarrow> bool" where
  "hold_matches h [] = False"
| "hold_matches h (s # ss) =
     (if lscope_kind (hold_scope h) = TenantScope \<or> lscope_kind s = TenantScope \<or>
         (lscope_kind (hold_scope h) = lscope_kind s \<and>
          lscope_subject_id (hold_scope h) = lscope_subject_id s)
      then True else hold_matches h ss)"

fun first_blocking :: "lifecycle_scope list \<Rightarrow> legal_hold list \<Rightarrow> string option" where
  "first_blocking related [] = None"
| "first_blocking related (h # hs) =
     (if \<not> hold_active h then first_blocking related hs
      else if hold_matches h related then Some (hold_hold_id h)
      else first_blocking related hs)"

definition job_blocking_hold :: "lifecycle_deps \<Rightarrow> lifecycle_job \<Rightarrow> string option lc_handler" where
  "job_blocking_hold d j =
     bindP (related_scopes d (job_tenant_id j) (job_scope j)) (\<lambda>related.
     bindP (lc_await d (repo_query (\<lambda>r. hold_list r (job_tenant_id j)))) (\<lambda>hs.
       ret (first_blocking related hs)))"

definition put_result :: "adapter_result \<Rightarrow> adapter_result list \<Rightarrow> adapter_result list" where
  "put_result x rs = map (\<lambda>r. if result_adapter r = result_adapter x then x else r) rs"

definition replace_adapter ::
  "lifecycle_deps \<Rightarrow> lifecycle_job \<Rightarrow> adapter_result \<Rightarrow> lifecycle_job lc_handler" where
  "replace_adapter d j x =
     bindP (lc_clock d) (\<lambda>now.
       let updated = j\<lparr>job_adapters := put_result x (job_adapters j), job_updated_at := now,
             job_fencing_token := job_fencing_token j + 1\<rparr>
       in bindP (lc_await d (jobs_cas JobRunning updated)) (\<lambda>won.
            if won then ret updated
            else raise (ConflictError ''data lifecycle job fencing conflict'')))"

text \<open>
  \<^verbatim>\<open>next\<close> without a default raises \<^verbatim>\<open>StopIteration\<close> when every adapter has succeeded, which a
  coroutine turns into a \<^verbatim>\<open>RuntimeError\<close>.
\<close>

definition mark_hold_failure :: "lifecycle_deps \<Rightarrow> lifecycle_job \<Rightarrow> string \<Rightarrow> lifecycle_job lc_handler" where
  "mark_hold_failure d j hid =
     (case List.find (\<lambda>r. result_status r \<noteq> AdapterSucceeded) (job_adapters j) of
        None \<Rightarrow> raise (RuntimeError ''coroutine raised StopIteration'')
      | Some target \<Rightarrow>
          bindP (lc_clock d) (\<lambda>now.
            replace_adapter d j (target\<lparr>result_status := AdapterFailed,
              result_error_code := Some ''LegalHoldActive'',
              result_error_message := Some (''Deletion is blocked by legal hold '' @ hid @ ''.''),
              result_updated_at := now\<rparr>)))"

definition external_delete :: "lifecycle_adapter \<Rightarrow> lifecycle_job \<Rightarrow> int lc_handler" where
  "external_delete a j w =
     (let r = lcad_delete a (lcw_awaits w) j
      in (r, w\<lparr>lcw_calls := lcw_calls w @
            [DeleteCall j (lcad_name a) (case r of Inl _ \<Rightarrow> False | Inr _ \<Rightarrow> True)]\<rparr>))"

type_synonym fragments = "(string, json) dict"

text \<open>One call of an adapter: the new fragments of the export and the number of items.\<close>

definition call_adapter ::
  "lifecycle_deps \<Rightarrow> lifecycle_adapter \<Rightarrow> lifecycle_job \<Rightarrow> fragments \<Rightarrow> (fragments \<times> int) lc_handler" where
  "call_adapter d a j fragments =
     (if job_kind j = JobExport then
        bindP (lc_await d (lc_ask (\<lambda>w. lcad_export a (lcw_awaits w) j))) (\<lambda>(fragment, count).
          ret (dict_set (lcad_name a) (sanitize_export (lcd_ellip d) [] fragment) fragments, count))
      else bindP (lc_await d (external_delete a j)) (\<lambda>count. ret (fragments, count)))"

definition started_result :: "adapter_result \<Rightarrow> time \<Rightarrow> adapter_result" where
  "started_result r now = r\<lparr>result_status := AdapterRunning,
     result_attempts := result_attempts r + 1, result_updated_at := now\<rparr>"

definition failed_result :: "adapter_result \<Rightarrow> herror \<Rightarrow> time \<Rightarrow> adapter_result" where
  "failed_result r e now = r\<lparr>result_status := AdapterFailed,
     result_error_code := Some (error_class e),
     result_error_message := Some ''Adapter operation failed; retry is available.'',
     result_updated_at := now\<rparr>"

definition succeeded_result :: "adapter_result \<Rightarrow> int \<Rightarrow> time \<Rightarrow> adapter_result" where
  "succeeded_result r count now = r\<lparr>result_status := AdapterSucceeded,
     result_processed_items := count, result_error_code := None, result_error_message := None,
     result_updated_at := now\<rparr>"

text \<open>
  One round of the loop: the job and fragments to go on with, and whether the loop goes on. The
  list that is iterated over is the one from the start of the loop. \<open>NotReturned\<close> stands for the
  cancellation of the task, which \<^verbatim>\<open>except Exception\<close> does not catch.
\<close>

definition run_adapter ::
  "lifecycle_deps \<Rightarrow> adapter_result \<Rightarrow> lifecycle_job \<Rightarrow> fragments \<Rightarrow>
   (bool \<times> lifecycle_job \<times> fragments) lc_handler" where
  "run_adapter d item j fragments =
     (case dict_get (adapter_table d) (result_adapter item) of
        None \<Rightarrow> raise KeyError
      | Some a \<Rightarrow>
          bindP (lc_clock d) (\<lambda>now.
            let started = started_result item now in
            bindP (replace_adapter d j started) (\<lambda>running.
            bindP (tryP (call_adapter d a running fragments)) (\<lambda>answer.
              case answer of
                Inl e \<Rightarrow>
                  if e = NotReturned then raise e
                  else bindP (lc_clock d) (\<lambda>t.
                    bindP (replace_adapter d running (failed_result started e t)) (\<lambda>j'.
                      ret (job_kind j' = JobExport, j', fragments)))
              | Inr (fragments', count) \<Rightarrow>
                  bindP (lc_clock d) (\<lambda>t.
                    bindP (replace_adapter d running (succeeded_result started count t)) (\<lambda>j'.
                      ret (True, j', fragments')))))))"

fun run_adapters ::
  "lifecycle_deps \<Rightarrow> adapter_result list \<Rightarrow> lifecycle_job \<Rightarrow> fragments \<Rightarrow>
   (lifecycle_job \<times> fragments) lc_handler" where
  "run_adapters d [] j fragments = ret (j, fragments)"
| "run_adapters d (item # items) j fragments =
     (if result_status item = AdapterSucceeded then run_adapters d items j fragments
      else bindP (run_adapter d item j fragments) (\<lambda>(go_on, j', fragments').
        if go_on then run_adapters d items j' fragments' else ret (j', fragments')))"

subsection \<open>The archive of an export\<close>

definition adapter_result_json :: "adapter_result \<Rightarrow> json" where
  "adapter_result_json r =
     (let optional = (\<lambda>x. case x of None \<Rightarrow> JNull | Some s \<Rightarrow> JStr s) in
      JObj [(''adapter'', JStr (result_adapter r)),
        (''status'', JStr (adapter_status_value (result_status r))),
        (''attempts'', JInt (result_attempts r)),
        (''processedItems'', JInt (result_processed_items r)),
        (''errorCode'', optional (result_error_code r)),
        (''errorMessage'', optional (result_error_message r)),
        (''updatedAt'', JStr (iso_time ''Z'' (result_updated_at r)))])"

definition export_manifest :: "lifecycle_job \<Rightarrow> time \<Rightarrow> json" where
  "export_manifest j now =
     JObj [(''schemaVersion'', JStr ''harness.data-export/v1''),
       (''tenantId'', JStr (job_tenant_id j)),
       (''jobId'', JStr (job_job_id j)),
       (''scope'', JObj [(''kind'', JStr (lifecycle_scope_kind_value (lscope_kind (job_scope j)))),
          (''subjectId'', JStr (lscope_subject_id (job_scope j)))]),
       (''createdAt'', JStr (iso_time ''+00:00'' now)),
       (''adapters'', JList (map adapter_result_json (job_adapters j)))]"

definition archive_files :: "lifecycle_job \<Rightarrow> time \<Rightarrow> fragments \<Rightarrow> (string \<times> json) list" where
  "archive_files j now fragments =
     (''manifest.json'', export_manifest j now) #
     map (\<lambda>(name, fragment). (''data/'' @ name @ ''.json'', fragment)) (py_sorted fst fragments)"

definition export_put :: "lifecycle_deps \<Rightarrow> string \<Rightarrow> string \<Rightarrow> string \<Rightarrow> unit lc_handler" where
  "export_put d tenant_id object_id content w =
     (case lcd_put_error d (lcw_awaits w) of
        Some e \<Rightarrow> (Inl e, w)
      | None \<Rightarrow> (Inr (), w\<lparr>lcw_exports :=
          snd (store_put (lcd_sha d) tenant_id object_id content (lcw_exports w))\<rparr>))"

definition export_result :: "lifecycle_adapter_status \<Rightarrow> int \<Rightarrow> string option \<Rightarrow> string option \<Rightarrow> time \<Rightarrow> adapter_result" where
  "export_result status items code message now = \<lparr>result_adapter = ''export-artifact'',
     result_status = status, result_attempts = 1, result_processed_items = items,
     result_error_code = code, result_error_message = message, result_updated_at = now\<rparr>"

definition store_export :: "lifecycle_deps \<Rightarrow> lifecycle_job \<Rightarrow> fragments \<Rightarrow> lifecycle_job lc_handler" where
  "store_export d j fragments =
     (let object_id = ''lifecycle_export_'' @ job_job_id j;
          filename = ''data-export-'' @ lifecycle_scope_kind_value (lscope_kind (job_scope j)) @
            ''-'' @ lscope_subject_id (job_scope j) @ ''.zip''
      in bindP (lc_clock d) (\<lambda>now.
         thenP (lc_await d (export_put d (job_tenant_id j) object_id
           (lcd_zip d (archive_files j now fragments))))
        (bindP (lc_clock d) (\<lambda>t.
           ret (j\<lparr>job_export_object_id := Some object_id, job_export_filename := Some filename,
             job_adapters := job_adapters j @ [export_result AdapterSucceeded 1 None None t]\<rparr>)))))"

definition try_export :: "lifecycle_deps \<Rightarrow> lifecycle_job \<Rightarrow> fragments \<Rightarrow> lifecycle_job lc_handler" where
  "try_export d j fragments =
     catchP (store_export d j fragments) (\<lambda>e.
       if e = NotReturned then raise e
       else bindP (lc_clock d) (\<lambda>t.
         ret (j\<lparr>job_adapters := job_adapters j @ [export_result AdapterFailed 0
           (Some (error_class e))
           (Some ''Export artifact could not be stored; retry is available.'') t]\<rparr>)))"

subsection \<open>A job from the queue to its outcome\<close>

definition count_status :: "lifecycle_adapter_status \<Rightarrow> adapter_result list \<Rightarrow> nat" where
  "count_status s rs = length (filter (\<lambda>r. result_status r = s) rs)"

definition outcome_status :: "adapter_result list \<Rightarrow> lifecycle_job_status" where
  "outcome_status rs =
     (if count_status AdapterFailed rs = 0 then JobSucceeded
      else if count_status AdapterSucceeded rs \<noteq> 0 then JobPartialFailed else JobFailed)"

definition finish_job :: "lifecycle_deps \<Rightarrow> lifecycle_job \<Rightarrow> lifecycle_job lc_handler" where
  "finish_job d j =
     bindP (lc_clock d) (\<lambda>now.
     bindP (lc_clock d) (\<lambda>completed.
       let terminal = j\<lparr>job_status := outcome_status (job_adapters j), job_updated_at := now,
             job_completed_at := Some completed, job_fencing_token := job_fencing_token j + 1\<rparr>
       in bindP (lc_await d (jobs_cas JobRunning terminal)) (\<lambda>won.
            if won then ret terminal
            else raise (ConflictError ''data lifecycle job changed before completion''))))"

definition carry_out_job :: "lifecycle_deps \<Rightarrow> lifecycle_job \<Rightarrow> lifecycle_job lc_handler" where
  "carry_out_job d j =
     bindP (if job_kind j \<noteq> JobExport then job_blocking_hold d j else ret None) (\<lambda>held.
     bindP (case held of
         Some hid \<Rightarrow> bindP (mark_hold_failure d j hid) (\<lambda>j'. ret (j', []))
       | None \<Rightarrow> run_adapters d (job_adapters j) j []) (\<lambda>(j', fragments).
     bindP (if job_kind j' = JobExport then try_export d j' fragments else ret j') (\<lambda>j''.
       finish_job d j'')))"

definition claim_job :: "lifecycle_job \<Rightarrow> time \<Rightarrow> lifecycle_job" where
  "claim_job j now = j\<lparr>job_status := JobRunning, job_updated_at := now,
     job_fencing_token := job_fencing_token j + 1\<rparr>"

definition process_job :: "lifecycle_deps \<Rightarrow> lifecycle_job option lc_handler" where
  "process_job d =
     bindP (lc_await d (repo_query (\<lambda>r. list_runnable r 1))) (\<lambda>runnable.
     case runnable of
       [] \<Rightarrow> ret None
     | queued # _ \<Rightarrow>
         bindP (lc_clock d) (\<lambda>now.
         bindP (lc_await d (jobs_cas JobQueued (claim_job queued now))) (\<lambda>won.
           if \<not> won then ret None
           else bindP (carry_out_job d (claim_job queued now)) (\<lambda>j. ret (Some j)))))"

end
