(* ===== verification/Lifecycle_Protocol.thy ===== *)
theory Lifecycle_Protocol
  imports Lifecycle_Controller
begin

section \<open>What never happens to the jobs on user data\<close>

text \<open>
  The protocol of the services and controllers that share the repository. A job that deletes is
  well formed when its adapters have succeeded up to some point, at most the next one runs or has
  failed, and the rest is pending; every success it records is backed by a call of \<^verbatim>\<open>delete\<close> that
  returned. Jobs only move on, recorded successes of a deletion stay, and calls to the external
  stores are never taken back.
\<close>

subsection \<open>Jobs\<close>

definition destructive :: "lifecycle_job \<Rightarrow> bool" where
  "destructive j \<longleftrightarrow> job_kind j \<noteq> JobExport"

abbreviation all_in :: "lifecycle_adapter_status \<Rightarrow> adapter_result list \<Rightarrow> bool" where
  "all_in s rs \<equiv> list_all (\<lambda>r. result_status r = s) rs"

fun tidy :: "adapter_result list \<Rightarrow> bool" where
  "tidy [] = True"
| "tidy (r # rs) = (case result_status r of
      AdapterSucceeded \<Rightarrow> tidy rs | AdapterSkipped \<Rightarrow> False | _ \<Rightarrow> all_in AdapterPending rs)"

fun status_fits :: "lifecycle_job_status \<Rightarrow> adapter_result list \<Rightarrow> bool" where
  "status_fits JobQueued rs = list_all (\<lambda>r. result_status r \<in> {AdapterSucceeded, AdapterPending}) rs"
| "status_fits JobRunning rs = True"
| "status_fits JobSucceeded rs = all_in AdapterSucceeded rs"
| "status_fits JobPartialFailed rs = (list_ex (\<lambda>r. result_status r = AdapterFailed) rs \<and>
      list_ex (\<lambda>r. result_status r = AdapterSucceeded) rs)"
| "status_fits JobFailed rs = (list_ex (\<lambda>r. result_status r = AdapterFailed) rs \<and>
      \<not> list_ex (\<lambda>r. result_status r = AdapterSucceeded) rs)"

definition job_sound :: "lifecycle_job \<Rightarrow> bool" where
  "job_sound j \<longleftrightarrow> 0 \<le> job_fencing_token j \<and>
     (destructive j \<longrightarrow> distinct (map result_adapter (job_adapters j)) \<and> tidy (job_adapters j) \<and>
        status_fits (job_status j) (job_adapters j))"

definition same_job :: "lifecycle_job \<Rightarrow> lifecycle_job \<Rightarrow> bool" where
  "same_job a b \<longleftrightarrow> (\<exists>st tok rs oid name u c. b = a\<lparr>job_status := st, job_fencing_token := tok,
     job_adapters := rs, job_export_object_id := oid, job_export_filename := name,
     job_updated_at := u, job_completed_at := c\<rparr>)"

definition job_later :: "lifecycle_job \<Rightarrow> lifecycle_job \<Rightarrow> bool" where
  "job_later a b \<longleftrightarrow> same_job a b \<and>
     job_fencing_token a \<le> job_fencing_token b \<and>
     (job_fencing_token a = job_fencing_token b \<longrightarrow> b = a) \<and>
     (job_status a = JobSucceeded \<longrightarrow> b = a) \<and>
     (destructive a \<longrightarrow> (\<forall>r \<in> set (job_adapters a). result_status r = AdapterSucceeded \<longrightarrow>
        result_adapter r \<noteq> ''export-artifact'' \<longrightarrow> r \<in> set (job_adapters b)))"

lemma same_job_refl: "same_job a a"
proof -
  have "a = a\<lparr>job_status := job_status a, job_fencing_token := job_fencing_token a,
      job_adapters := job_adapters a, job_export_object_id := job_export_object_id a,
      job_export_filename := job_export_filename a, job_updated_at := job_updated_at a,
      job_completed_at := job_completed_at a\<rparr>" by simp
  then show ?thesis unfolding same_job_def by blast
qed

lemma same_job_fields:
  assumes "same_job a b"
  shows "job_key b = job_key a" "job_idem_key b = job_idem_key a" "destructive b = destructive a"
    "job_kind b = job_kind a" "job_scope b = job_scope a" "job_tenant_id b = job_tenant_id a"
    "job_job_id b = job_job_id a" "job_idempotency_key b = job_idempotency_key a"
    "job_requested_by b = job_requested_by a" "job_created_at b = job_created_at a"
    "job_retention_cutoffs b = job_retention_cutoffs a"
  using assms unfolding same_job_def job_key_def job_idem_key_def destructive_def by auto

lemma same_jobI:
  assumes "job_kind b = job_kind a" "job_scope b = job_scope a" "job_tenant_id b = job_tenant_id a"
    "job_job_id b = job_job_id a" "job_idempotency_key b = job_idempotency_key a"
    "job_requested_by b = job_requested_by a" "job_created_at b = job_created_at a"
    "job_retention_cutoffs b = job_retention_cutoffs a"
  shows "same_job a b"
proof -
  have "b = a\<lparr>job_status := job_status b, job_fencing_token := job_fencing_token b,
      job_adapters := job_adapters b, job_export_object_id := job_export_object_id b,
      job_export_filename := job_export_filename b, job_updated_at := job_updated_at b,
      job_completed_at := job_completed_at b\<rparr>" using assms by simp
  then show ?thesis unfolding same_job_def by blast
qed

lemma same_job_trans: "same_job a b \<Longrightarrow> same_job b c \<Longrightarrow> same_job a c"
  using same_job_fields [of a b] same_job_fields [of b c] by (intro same_jobI) simp_all

lemma job_later_refl: "job_later a a"
  by (simp add: job_later_def same_job_refl)

lemma job_later_same: "job_later a b \<Longrightarrow> same_job a b"
  by (simp add: job_later_def)

lemmas job_later_fields = same_job_fields [OF job_later_same]

lemma job_laterD:
  assumes "job_later a b"
  shows "job_fencing_token a \<le> job_fencing_token b"
    and "job_fencing_token a = job_fencing_token b \<Longrightarrow> b = a"
    and "job_status a = JobSucceeded \<Longrightarrow> b = a"
    and "destructive a \<Longrightarrow> r \<in> set (job_adapters a) \<Longrightarrow> result_status r = AdapterSucceeded \<Longrightarrow>
      result_adapter r \<noteq> ''export-artifact'' \<Longrightarrow> r \<in> set (job_adapters b)"
  using assms unfolding job_later_def by blast+

lemma job_laterI:
  assumes "same_job a b" and "job_fencing_token a < job_fencing_token b" and "job_status a \<noteq> JobSucceeded"
    and "\<And>r. destructive a \<Longrightarrow> r \<in> set (job_adapters a) \<Longrightarrow> result_status r = AdapterSucceeded \<Longrightarrow>
      result_adapter r \<noteq> ''export-artifact'' \<Longrightarrow> r \<in> set (job_adapters b)"
  shows "job_later a b"
  unfolding job_later_def using assms by simp

lemma job_later_trans:
  assumes ab: "job_later a b" and bc: "job_later b c"
  shows "job_later a c"
proof (cases "b = a \<or> c = b")
  case False
  then have "job_fencing_token a < job_fencing_token b" "job_fencing_token b < job_fencing_token c"
    using job_laterD(1,2) [OF ab] job_laterD(1,2) [OF bc] order_less_le by blast+
  moreover have "job_status a \<noteq> JobSucceeded" using job_laterD(3) [OF ab] False by blast
  moreover have "r \<in> set (job_adapters c)" if "destructive a" "r \<in> set (job_adapters a)"
      "result_status r = AdapterSucceeded" "result_adapter r \<noteq> ''export-artifact''" for r
    using job_laterD(4) [OF bc _ job_laterD(4) [OF ab that]] that job_later_fields(3) [OF ab] by blast
  ultimately show ?thesis
    by (intro job_laterI same_job_trans [OF job_later_same [OF ab] job_later_same [OF bc]]) auto
qed (use assms in auto)

subsection \<open>Calls\<close>

definition backed :: "delete_call list \<Rightarrow> lifecycle_job \<Rightarrow> bool" where
  "backed cs j \<longleftrightarrow> (destructive j \<longrightarrow>
     (\<forall>r \<in> set (job_adapters j). result_status r = AdapterSucceeded \<longrightarrow>
        (\<exists>v. DeleteCall v (result_adapter r) True \<in> set cs \<and> job_later v j \<and>
           job_fencing_token v < job_fencing_token j)))"

definition call_ok :: "delete_call list \<Rightarrow> delete_call \<Rightarrow> bool" where
  "call_ok cs c \<longleftrightarrow> (let v = called_job c in
     destructive v \<and> job_status v = JobRunning \<and> backed cs v \<and>
     (\<exists>before r after. job_adapters v = before @ r # after \<and> result_adapter r = called_adapter c \<and>
        result_status r = AdapterRunning \<and> all_in AdapterSucceeded before \<and>
        all_in AdapterPending after))"

definition calls_ok :: "delete_call list \<Rightarrow> bool" where
  "calls_ok cs \<longleftrightarrow> (\<forall>n < length cs. call_ok (take n cs) (cs ! n))"

lemma calls_ok_snoc: "calls_ok (cs @ [c]) \<longleftrightarrow> calls_ok cs \<and> call_ok cs c"
  unfolding calls_ok_def by (auto simp: nth_append less_Suc_eq)

lemma backed_mono: "backed cs j \<Longrightarrow> set cs \<subseteq> set ds \<Longrightarrow> backed ds j"
  unfolding backed_def by blast

subsection \<open>The repository\<close>

definition lifecycle_repo_inv :: "delete_call list \<Rightarrow> lifecycle_repo \<Rightarrow> bool" where
  "lifecycle_repo_inv cs repo \<longleftrightarrow> dict_wf (lc_jobs repo) \<and> dict_wf (lc_holds repo) \<and>
     (\<forall>k j. dict_get (lc_jobs repo) k = Some j \<longrightarrow> job_key j = k \<and> job_sound j \<and> backed cs j \<and>
        dict_get (lc_idempotency repo) (job_idem_key j) = Some (job_job_id j)) \<and>
     (\<forall>ik jid. dict_get (lc_idempotency repo) ik = Some jid \<longrightarrow>
        (\<exists>j. dict_get (lc_jobs repo) (fst ik, jid) = Some j \<and> job_idem_key j = ik)) \<and>
     (\<forall>k h. dict_get (lc_holds repo) k = Some h \<longrightarrow> hold_key h = k) \<and>
     (\<forall>k p. dict_get (lc_policies repo) k = Some p \<longrightarrow> retention_key p = k) \<and>
     (\<forall>c \<in> set cs. \<exists>j. dict_get (lc_jobs repo) (job_key (called_job c)) = Some j \<and>
        job_later (called_job c) j)"

lemma lifecycle_repo_invI:
  assumes "dict_wf (lc_jobs repo)" and "dict_wf (lc_holds repo)"
    and "\<And>k j. dict_get (lc_jobs repo) k = Some j \<Longrightarrow> job_key j = k \<and> job_sound j \<and> backed cs j \<and>
      dict_get (lc_idempotency repo) (job_idem_key j) = Some (job_job_id j)"
    and "\<And>ik jid. dict_get (lc_idempotency repo) ik = Some jid \<Longrightarrow>
      \<exists>j. dict_get (lc_jobs repo) (fst ik, jid) = Some j \<and> job_idem_key j = ik"
    and "\<And>k h. dict_get (lc_holds repo) k = Some h \<Longrightarrow> hold_key h = k"
    and "\<And>k p. dict_get (lc_policies repo) k = Some p \<Longrightarrow> retention_key p = k"
    and "\<And>c. c \<in> set cs \<Longrightarrow> \<exists>j. dict_get (lc_jobs repo) (job_key (called_job c)) = Some j \<and>
      job_later (called_job c) j"
  shows "lifecycle_repo_inv cs repo"
  unfolding lifecycle_repo_inv_def using assms by blast

lemma lifecycle_repo_invD:
  assumes "lifecycle_repo_inv cs repo"
  shows "dict_wf (lc_jobs repo)" and "dict_wf (lc_holds repo)"
    and "dict_get (lc_jobs repo) k = Some j \<Longrightarrow> job_key j = k \<and> job_sound j \<and> backed cs j \<and>
      dict_get (lc_idempotency repo) (job_idem_key j) = Some (job_job_id j)"
    and "dict_get (lc_idempotency repo) ik = Some jid \<Longrightarrow>
      \<exists>j. dict_get (lc_jobs repo) (fst ik, jid) = Some j \<and> job_idem_key j = ik"
    and "dict_get (lc_holds repo) k = Some h \<Longrightarrow> hold_key h = k"
    and "dict_get (lc_policies repo) k = Some p \<Longrightarrow> retention_key p = k"
    and "c \<in> set cs \<Longrightarrow> \<exists>j. dict_get (lc_jobs repo) (job_key (called_job c)) = Some j \<and>
      job_later (called_job c) j"
  using assms unfolding lifecycle_repo_inv_def by blast+

definition policy_later :: "retention_policy \<Rightarrow> retention_policy \<Rightarrow> bool" where
  "policy_later p q \<longleftrightarrow> retention_key q = retention_key p \<and>
     retention_revision p \<le> retention_revision q \<and>
     (retention_revision p = retention_revision q \<longrightarrow> q = p)"

definition hold_later :: "legal_hold \<Rightarrow> legal_hold \<Rightarrow> bool" where
  "hold_later g h \<longleftrightarrow> h = g\<lparr>hold_active := hold_active h, hold_released_by := hold_released_by h,
     hold_released_at := hold_released_at h\<rparr> \<and> (\<not> hold_active g \<longrightarrow> \<not> hold_active h)"

definition kept :: "('v \<Rightarrow> 'v \<Rightarrow> bool) \<Rightarrow> ('k, 'v) dict \<Rightarrow> ('k, 'v) dict \<Rightarrow> bool" where
  "kept R s t \<longleftrightarrow> (\<forall>k a. dict_get s k = Some a \<longrightarrow> (\<exists>b. dict_get t k = Some b \<and> R a b))"

lemma keptD: "kept R s t \<Longrightarrow> dict_get s k = Some a \<Longrightarrow> \<exists>b. dict_get t k = Some b \<and> R a b"
  unfolding kept_def by blast

lemma kept_refl: "(\<And>a. R a a) \<Longrightarrow> kept R s s"
  unfolding kept_def by blast

lemma kept_trans:
  assumes "kept R s t" and "kept R t u" and "\<And>a b c. R a b \<Longrightarrow> R b c \<Longrightarrow> R a c"
  shows "kept R s u"
  unfolding kept_def using assms by (meson keptD)

lemma kept_set:
  assumes "\<And>a. R a a" and "\<And>a. dict_get s k = Some a \<Longrightarrow> R a v"
  shows "kept R s (dict_set k v s)"
  unfolding kept_def using assms by auto

definition lifecycle_history :: "lifecycle_repo \<Rightarrow> lifecycle_repo \<Rightarrow> bool" where
  "lifecycle_history s t \<longleftrightarrow> kept job_later (lc_jobs s) (lc_jobs t) \<and>
     kept (=) (lc_idempotency s) (lc_idempotency t) \<and>
     kept hold_later (lc_holds s) (lc_holds t) \<and> kept policy_later (lc_policies s) (lc_policies t)"

lemma policy_later_refl: "policy_later p p"
  by (simp add: policy_later_def)

lemma policy_later_trans: "policy_later p q \<Longrightarrow> policy_later q r \<Longrightarrow> policy_later p r"
  unfolding policy_later_def by (metis order_antisym order_trans)

lemma hold_later_refl: "hold_later h h"
  by (simp add: hold_later_def)

lemma hold_later_trans: "hold_later g h \<Longrightarrow> hold_later h i \<Longrightarrow> hold_later g i"
  unfolding hold_later_def by (cases g; cases h; cases i) auto

lemma lifecycle_history_refl: "lifecycle_history s s"
  by (simp add: lifecycle_history_def kept_refl job_later_refl hold_later_refl policy_later_refl)

lemma lifecycle_history_trans:
  "lifecycle_history s t \<Longrightarrow> lifecycle_history t u \<Longrightarrow> lifecycle_history s u"
  unfolding lifecycle_history_def
  by (blast intro: kept_trans job_later_trans hold_later_trans policy_later_trans trans)

subsection \<open>The protocol\<close>

definition lc_sound :: "lifecycle_deps \<Rightarrow> lifecycle_world \<Rightarrow> bool" where
  "lc_sound d w \<longleftrightarrow> lifecycle_repo_inv (lcw_calls w) (lcw_repo w) \<and> calls_ok (lcw_calls w) \<and>
     (\<forall>k. dict_has (lc_jobs (lcw_repo w)) k \<longrightarrow>
        (\<exists>n < lcw_ids w. snd k = lcd_new_id d ''lifecycle'' n))"

definition lc_sys :: "lifecycle_deps \<Rightarrow> lifecycle_world \<Rightarrow> lifecycle_world \<Rightarrow> bool" where
  "lc_sys d s t \<longleftrightarrow> lifecycle_history (lcw_repo s) (lcw_repo t) \<and>
     (\<exists>cs. lcw_calls t = lcw_calls s @ cs) \<and> lcw_ids s \<le> lcw_ids t \<and>
     (\<forall>k. dict_has (lc_jobs (lcw_repo t)) k \<longrightarrow> dict_has (lc_jobs (lcw_repo s)) k \<or>
        (\<exists>n. lcw_ids s \<le> n \<and> n < lcw_ids t \<and> snd k = lcd_new_id d ''lifecycle'' n)) \<and>
     (lc_sound d s \<longrightarrow> lc_sound d t)"

datatype lifecycle_fact = KnowsJob lifecycle_job | KnowsCall delete_call | KnowsHold legal_hold

fun lc_knows :: "lifecycle_world \<Rightarrow> lifecycle_fact \<Rightarrow> bool" where
  "lc_knows w (KnowsJob v) \<longleftrightarrow> job_sound v \<and> backed (lcw_calls w) v \<and>
     (\<exists>j. dict_get (lc_jobs (lcw_repo w)) (job_key v) = Some j \<and> job_later v j)"
| "lc_knows w (KnowsCall c) \<longleftrightarrow> c \<in> set (lcw_calls w)"
| "lc_knows w (KnowsHold g) \<longleftrightarrow>
     (\<exists>h. dict_get (lc_holds (lcw_repo w)) (hold_key g) = Some h \<and> hold_later g h)"

lemma lc_sysI:
  assumes "lifecycle_history (lcw_repo s) (lcw_repo t)" and "lcw_calls t = lcw_calls s @ cs"
    and "lcw_ids s \<le> lcw_ids t"
    and "\<And>k. dict_has (lc_jobs (lcw_repo t)) k \<Longrightarrow> dict_has (lc_jobs (lcw_repo s)) k \<or>
      (\<exists>n. lcw_ids s \<le> n \<and> n < lcw_ids t \<and> snd k = lcd_new_id d ''lifecycle'' n)"
    and "lc_sound d s \<Longrightarrow> lc_sound d t"
  shows "lc_sys d s t"
  unfolding lc_sys_def using assms by blast

lemma lc_sysD:
  assumes "lc_sys d s t"
  shows "lifecycle_history (lcw_repo s) (lcw_repo t)"
    and "set (lcw_calls s) \<subseteq> set (lcw_calls t)" and "lcw_ids s \<le> lcw_ids t"
    and "dict_has (lc_jobs (lcw_repo t)) k \<Longrightarrow> dict_has (lc_jobs (lcw_repo s)) k \<or>
      (\<exists>n. lcw_ids s \<le> n \<and> n < lcw_ids t \<and> snd k = lcd_new_id d ''lifecycle'' n)"
    and "lc_sound d s \<Longrightarrow> lc_sound d t"
proof -
  note * = assms [unfolded lc_sys_def]
  show "lifecycle_history (lcw_repo s) (lcw_repo t)" "lcw_ids s \<le> lcw_ids t" using * by blast+
  show "set (lcw_calls s) \<subseteq> set (lcw_calls t)" using * by (metis set_append sup_ge1)
  show "lc_sound d s \<Longrightarrow> lc_sound d t" using * by blast
  show "dict_has (lc_jobs (lcw_repo t)) k \<Longrightarrow> dict_has (lc_jobs (lcw_repo s)) k \<or>
      (\<exists>n. lcw_ids s \<le> n \<and> n < lcw_ids t \<and> snd k = lcd_new_id d ''lifecycle'' n)"
    using * by blast
qed

lemma lc_sys_refl: "lc_sys d s s"
  by (rule lc_sysI [where cs = "[]"]) (simp_all add: lifecycle_history_refl)

lemma lc_sys_trans:
  assumes st: "lc_sys d s t" and tu: "lc_sys d t u"
  shows "lc_sys d s u"
proof -
  obtain cs where cs: "lcw_calls t = lcw_calls s @ cs" using st unfolding lc_sys_def by blast
  obtain ds where ds: "lcw_calls u = lcw_calls t @ ds" using tu unfolding lc_sys_def by blast
  have ids: "lcw_ids s \<le> lcw_ids t" "lcw_ids t \<le> lcw_ids u" using lc_sysD(3) st tu by blast+
  show ?thesis
  proof (rule lc_sysI [where cs = "cs @ ds"])
    show "lifecycle_history (lcw_repo s) (lcw_repo u)"
      using lc_sysD(1) [OF st] lc_sysD(1) [OF tu] by (rule lifecycle_history_trans)
    show "lcw_calls u = lcw_calls s @ cs @ ds" using cs ds by simp
    show "lcw_ids s \<le> lcw_ids u" using ids by simp
    show "lc_sound d s \<Longrightarrow> lc_sound d u" using lc_sysD(5) st tu by blast
    fix k
    assume "dict_has (lc_jobs (lcw_repo u)) k"
    then consider "dict_has (lc_jobs (lcw_repo t)) k"
      | n where "lcw_ids t \<le> n" "n < lcw_ids u" "snd k = lcd_new_id d ''lifecycle'' n"
      using lc_sysD(4) [OF tu] by blast
    then show "dict_has (lc_jobs (lcw_repo s)) k \<or>
        (\<exists>n. lcw_ids s \<le> n \<and> n < lcw_ids u \<and> snd k = lcd_new_id d ''lifecycle'' n)"
    proof cases
      case 1
      then show ?thesis using lc_sysD(4) [OF st] ids order_less_le_trans by blast
    qed (use ids order_trans in blast)
  qed
qed

lemma lifecycle_historyD:
  assumes "lifecycle_history s t"
  shows "dict_get (lc_jobs s) k = Some a \<Longrightarrow> \<exists>b. dict_get (lc_jobs t) k = Some b \<and> job_later a b"
    and "dict_get (lc_idempotency s) ik = Some jid \<Longrightarrow> dict_get (lc_idempotency t) ik = Some jid"
    and "dict_get (lc_holds s) k = Some g \<Longrightarrow> \<exists>h. dict_get (lc_holds t) k = Some h \<and> hold_later g h"
    and "dict_get (lc_policies s) k = Some p \<Longrightarrow>
      \<exists>q. dict_get (lc_policies t) k = Some q \<and> policy_later p q"
  using assms unfolding lifecycle_history_def kept_def by blast+

interpretation lifecycle: protocol "lc_sound d" "lc_sys d" lc_knows for d :: lifecycle_deps
proof unfold_locales
  show "lc_sys d s s" for s by (rule lc_sys_refl)
  show "lc_sys d s u" if "lc_sys d s t" "lc_sys d t u" for s t u
    using that by (rule lc_sys_trans)
  show "lc_sound d t" if "lc_sys d s t" "lc_sound d s" for s t
    using that by (rule lc_sysD)
  show "lc_knows t f" if st: "lc_sys d s t" and s: "lc_knows s f" for s t f
  proof (cases f)
    case (KnowsJob v)
    with s obtain a where "job_sound v" "backed (lcw_calls s) v"
        "dict_get (lc_jobs (lcw_repo s)) (job_key v) = Some a" "job_later v a"
      by auto
    with KnowsJob lifecycle_historyD(1) [OF lc_sysD(1) [OF st]] lc_sysD(2) [OF st] show ?thesis
      using backed_mono job_later_trans by (metis lc_knows.simps(1))
  next
    case (KnowsCall c)
    with s lc_sysD(2) [OF st] show ?thesis by auto
  next
    case (KnowsHold g)
    with s obtain h where "dict_get (lc_holds (lcw_repo s)) (hold_key g) = Some h" "hold_later g h"
      by auto
    with KnowsHold lifecycle_historyD(3) [OF lc_sysD(1) [OF st]] show ?thesis
      using hold_later_trans by (metis lc_knows.simps(3))
  qed
qed

end
