(* ===== verification/Lifecycle_Guarantees.thy ===== *)
theory Lifecycle_Guarantees
  imports Lifecycle_Protocol
begin

section \<open>Service and controller keep the protocol\<close>

text \<open>
  Every call to the repository and to an adapter respects \<open>lc_sys\<close>, so do the operations, whatever
  other services and controllers do at their awaits. \<open>lc_rely\<close> is what they expect: generated ids of
  jobs do not repeat, the adapters passed the check of the constructor, and the others keep the
  protocol.
\<close>

definition lc_rely :: "lifecycle_deps \<Rightarrow> bool" where
  "lc_rely d \<longleftrightarrow> inj (lcd_new_id d ''lifecycle'') \<and> lifecycle_service d = Inr () \<and>
     (\<forall>n w. lc_sound d w \<longrightarrow> lc_sys d w (lcd_others d n w))"

lemma service_distinct: "lifecycle_service d = Inr () \<longleftrightarrow> distinct (adapter_names d)"
  by (simp add: lifecycle_service_def card_distinct distinct_card split: if_splits)
     (metis card_distinct distinct_card)

lemma lc_sys_same:
  assumes "lcw_repo t = lcw_repo s" "lcw_calls t = lcw_calls s" "lcw_ids t = lcw_ids s"
  shows "lc_sys d s t"
  by (rule lc_sysI [where cs = "[]"])
     (use assms in \<open>simp_all add: lifecycle_history_refl lc_sound_def\<close>)

lemma keeps_lc_clock [keeps_intros]: "lifecycle.keeps d K (lc_clock d')"
  by (rule lifecycle.keeps_same, rule lc_sys_same) (simp_all add: lc_clock_def)

lemma keeps_lc_ask [keeps_intros]: "lifecycle.keeps d K (lc_ask f)"
  by (rule lifecycle.keeps_same, rule lc_sys_same) (simp_all add: lc_ask_def)

lemma keeps_repo_query [keeps_intros]: "lifecycle.keeps d K (repo_query f)"
  unfolding repo_query_def by (rule keeps_lc_ask)

lemma keeps_construct [keeps_intros]: "lifecycle.keeps d K (construct valid x)"
  unfolding construct_def by (intro keeps_intros)

lemma lc_suspended_sys:
  assumes "lc_rely d" and "lc_sound d w"
  shows "lc_sys d w (lc_suspended d w)"
proof -
  have "lc_sys d w (lcd_others d (lcw_awaits w) w)" using assms by (simp add: lc_rely_def)
  moreover have "lc_sys d (lcd_others d (lcw_awaits w) w) (lc_suspended d w)"
    by (rule lc_sys_same) (simp_all add: lc_suspended_def)
  ultimately show ?thesis by (rule lc_sys_trans)
qed

lemma keeps_lc_await [keeps_intros]:
  "lc_rely d \<Longrightarrow> lifecycle.keeps d K m \<Longrightarrow> lifecycle.keeps d K (lc_await d m)"
  using lifecycle.keeps_after [OF lc_suspended_sys] by (simp add: lc_await_def [abs_def])

lemma brings_lc_await:
  "lc_rely d \<Longrightarrow> lifecycle.brings d K m L P \<Longrightarrow> lifecycle.brings d K (lc_await d m) L P"
  using lifecycle.brings_after [OF lc_suspended_sys] by (simp add: lc_await_def [abs_def])

lemma brings_clock_bind:
  "(\<And>t. lifecycle.brings d K (f t) M Q) \<Longrightarrow> lifecycle.brings d K (bindP (lc_clock d') f) M Q"
  by (rule lifecycle.brings_keeps_bind [OF keeps_lc_clock])

subsection \<open>Reading\<close>

lemma brings_read:
  assumes "\<And>w x f. lc_sound d w \<Longrightarrow> g w = Inr x \<Longrightarrow> P x \<and> (\<forall>f \<in> L x. lc_knows w f)"
  shows "lifecycle.brings d K (lc_ask g) L P"
  by (rule lifecycle.bringsI) (auto simp: lc_ask_def lc_sys_refl dest: assms)

lemma sound_job:
  assumes "lc_sound d w" and "dict_get (lc_jobs (lcw_repo w)) k = Some j"
  shows "job_key j = k" and "lc_knows w (KnowsJob j)"
proof -
  have "lifecycle_repo_inv (lcw_calls w) (lcw_repo w)" using assms(1) by (simp add: lc_sound_def)
  with assms(2) show "job_key j = k" "lc_knows w (KnowsJob j)"
    using lifecycle_repo_invD(3) by (fastforce intro: job_later_refl)+
qed

lemma brings_jobs_get: "lifecycle.brings d K (jobs_get tn jid) (\<lambda>j. {KnowsJob j}) (\<lambda>_. True)"
  unfolding jobs_get_def
  by (rule brings_read) (auto simp: job_get_def split: option.splits dest: sound_job(2))

lemma brings_list_runnable:
  "lifecycle.brings d K (repo_query (\<lambda>r. list_runnable r n)) (\<lambda>js. KnowsJob ` set js)
     (\<lambda>js. \<forall>j \<in> set js. job_status j = JobQueued)"
  unfolding repo_query_def
proof (rule brings_read)
  fix w js f
  assume w: "lc_sound d w" and js: "Inr (list_runnable (lcw_repo w) n) = Inr js"
  have "\<exists>k. dict_get (lc_jobs (lcw_repo w)) k = Some j \<and> job_status j = JobQueued"
    if "j \<in> set js" for j
  proof -
    have "j \<in> set (filter (\<lambda>j. job_status j = JobQueued) (dict_values (lc_jobs (lcw_repo w))))"
      using that js set_py_prefix unfolding list_runnable_def by fastforce
    then have j: "j \<in> set (dict_values (lc_jobs (lcw_repo w)))" "job_status j = JobQueued" by auto
    have "dict_wf (lc_jobs (lcw_repo w))"
      using w unfolding lc_sound_def by (blast dest: lifecycle_repo_invD(1))
    from dict_value_cases [OF this j(1)] j(2) show ?thesis by blast
  qed
  then show "(\<forall>j \<in> set js. job_status j = JobQueued) \<and> (\<forall>f \<in> KnowsJob ` set js. lc_knows w f)"
    using sound_job(2) [OF w] by blast
qed

subsection \<open>Writing policies, holds and jobs\<close>

lemma lc_soundD:
  assumes "lc_sound d w"
  shows "lifecycle_repo_inv (lcw_calls w) (lcw_repo w)" and "calls_ok (lcw_calls w)"
    and "dict_has (lc_jobs (lcw_repo w)) k \<Longrightarrow> \<exists>n < lcw_ids w. snd k = lcd_new_id d ''lifecycle'' n"
  using assms unfolding lc_sound_def by blast+

text \<open>A write that leaves the jobs alone.\<close>

lemma lc_sys_settings:
  assumes "lc_jobs r = lc_jobs (lcw_repo w)" "lc_idempotency r = lc_idempotency (lcw_repo w)"
    and "kept hold_later (lc_holds (lcw_repo w)) (lc_holds r)"
    and "kept policy_later (lc_policies (lcw_repo w)) (lc_policies r)"
    and "lc_sound d w \<Longrightarrow> dict_wf (lc_holds r)"
    and "\<And>k h. lc_sound d w \<Longrightarrow> dict_get (lc_holds r) k = Some h \<Longrightarrow> hold_key h = k"
    and "\<And>k p. lc_sound d w \<Longrightarrow> dict_get (lc_policies r) k = Some p \<Longrightarrow> retention_key p = k"
  shows "lc_sys d w (w\<lparr>lcw_repo := r\<rparr>)"
proof (rule lc_sysI [where cs = "[]"])
  show "lifecycle_history (lcw_repo w) (lcw_repo (w\<lparr>lcw_repo := r\<rparr>))"
    using assms(1-4) by (simp add: lifecycle_history_def kept_refl job_later_refl)
  show "lc_sound d (w\<lparr>lcw_repo := r\<rparr>)" if w: "lc_sound d w"
  proof -
    note inv = lifecycle_repo_invD [OF lc_soundD(1) [OF w]]
    have "lifecycle_repo_inv (lcw_calls w) r"
      using inv(1,3,4,7) assms(5-7) [OF w] by (intro lifecycle_repo_invI) (simp_all add: assms(1,2))
    then show ?thesis using lc_soundD(2,3) [OF w] assms(1) by (simp add: lc_sound_def)
  qed
qed (simp_all add: assms(1))

lemma lc_sound_keys:
  assumes "lc_sound d w"
  shows "dict_wf (lc_holds (lcw_repo w))"
    and "dict_get (lc_holds (lcw_repo w)) k = Some h \<Longrightarrow> hold_key h = k"
    and "dict_get (lc_policies (lcw_repo w)) k = Some p \<Longrightarrow> retention_key p = k"
  using lifecycle_repo_invD(2,5,6) [OF lc_soundD(1) [OF assms]] by blast+

lemma keeps_policy_replace:
  assumes "retention_revision p = n + 1"
  shows "lifecycle.keeps d K (repo_write (policy_replace p n))"
proof (rule lifecycle.keepsI)
  fix w r t
  assume w: "lc_sound d w" and run: "repo_write (policy_replace p n) w = (r, t)"
  let ?r = "(lcw_repo w)\<lparr>lc_policies := dict_set (retention_key p) p (lc_policies (lcw_repo w))\<rparr>"
  have "lc_sys d w (w\<lparr>lcw_repo := ?r\<rparr>)"
    if "\<And>q. dict_get (lc_policies (lcw_repo w)) (retention_key p) = Some q \<Longrightarrow> retention_revision q = n"
    by (rule lc_sys_settings)
       (use that lc_sound_keys lc_sound_keys(3) [OF w, of "retention_key p"] assms in \<open>auto intro!: kept_set kept_refl hold_later_refl policy_later_refl
         simp: policy_later_def split: if_splits\<close>)
  then show "lc_sys d w t"
    using run by (auto simp: repo_write_def policy_replace_def Let_def lc_sys_refl
      split: sum.splits if_splits option.splits)
qed

lemma keeps_hold_add: "lifecycle.keeps d K (repo_write (hold_add h))"
proof (rule lifecycle.keepsI)
  fix w r t
  assume w: "lc_sound d w" and run: "repo_write (hold_add h) w = (r, t)"
  let ?r = "(lcw_repo w)\<lparr>lc_holds := dict_set (hold_key h) h (lc_holds (lcw_repo w))\<rparr>"
  have "lc_sys d w (w\<lparr>lcw_repo := ?r\<rparr>)" if "dict_get (lc_holds (lcw_repo w)) (hold_key h) = None"
    by (rule lc_sys_settings)
       (use that lc_sound_keys in \<open>auto intro!: kept_set kept_refl hold_later_refl policy_later_refl
         split: if_splits\<close>)
  then show "lc_sys d w t"
    using run by (auto simp: repo_write_def hold_add_def lc_sys_refl split: sum.splits if_splits)
qed

lemma keeps_hold_update:
  assumes "KnowsHold g \<in> K" and "h = g\<lparr>hold_active := False, hold_released_by := u, hold_released_at := t'\<rparr>"
  shows "lifecycle.keeps d K (repo_write (hold_update h))"
proof (rule lifecycle.keepsI)
  fix w r t
  assume w: "lc_sound d w" and K: "\<And>f. f \<in> K \<Longrightarrow> lc_knows w f"
    and run: "repo_write (hold_update h) w = (r, t)"
  have key: "hold_key h = hold_key g" using assms(2) by (simp add: hold_key_def)
  from K [OF assms(1)] obtain c where c: "dict_get (lc_holds (lcw_repo w)) (hold_key g) = Some c"
      "hold_later g c" by auto
  have later: "hold_later c h"
    using c(2) unfolding hold_later_def assms(2) by (cases g; cases c) simp
  let ?r = "(lcw_repo w)\<lparr>lc_holds := dict_set (hold_key h) h (lc_holds (lcw_repo w))\<rparr>"
  have "lc_sys d w (w\<lparr>lcw_repo := ?r\<rparr>)"
    by (rule lc_sys_settings)
       (use c later key lc_sound_keys in \<open>auto intro!: kept_set kept_refl hold_later_refl policy_later_refl
         split: if_splits\<close>)
  then show "lc_sys d w t"
    using run by (auto simp: repo_write_def hold_update_def lc_sys_refl split: sum.splits if_splits)
qed

lemma brings_hold_get:
  "lifecycle.brings d K (lc_ask (\<lambda>w. hold_get (lcw_repo w) tn hid)) (\<lambda>h. {KnowsHold h}) (\<lambda>_. True)"
proof (rule brings_read)
  fix w h f
  assume "lc_sound d w" and "hold_get (lcw_repo w) tn hid = Inr h"
  then have "dict_get (lc_holds (lcw_repo w)) (hold_key h) = Some h"
    using lc_sound_keys(2) by (force simp: hold_get_def split: option.splits)
  then show "True \<and> (\<forall>f \<in> {KnowsHold h}. lc_knows w f)" by (simp add: hold_later_refl)
qed

text \<open>The compare-and-set of the next version of a job that was read.\<close>

lemma brings_jobs_cas:
  assumes a: "KnowsJob a \<in> K" and step: "job_later a b" "job_fencing_token b = job_fencing_token a + 1"
    and b: "job_sound b"
    and bk: "\<And>cs. backed cs a \<Longrightarrow> (\<And>c. KnowsCall c \<in> K \<Longrightarrow> c \<in> set cs) \<Longrightarrow> backed cs b"
  shows "lifecycle.brings d K (jobs_cas e b) (\<lambda>won. if won then {KnowsJob b} else {}) (\<lambda>_. True)"
proof (rule lifecycle.bringsI)
  have won: "lc_sys d w t \<and> lc_knows t (KnowsJob b)"
    if w: "lc_sound d w" and K: "\<And>f. f \<in> K \<Longrightarrow> lc_knows w f"
      and c: "dict_get (lc_jobs (lcw_repo w)) (job_key b) = Some c" "job_fencing_token c + 1 = job_fencing_token b"
      and t: "t = w\<lparr>lcw_repo := (lcw_repo w)\<lparr>lc_jobs := dict_set (job_key b) b (lc_jobs (lcw_repo w))\<rparr>\<rparr>"
    for w t c
  proof -
    have same: "job_key b = job_key a" "job_idem_key b = job_idem_key a" "job_job_id b = job_job_id a"
      using job_later_fields [OF step(1)] by blast+
    from K [OF a] c(1) same have "job_later a c" by auto
    with c(2) step(2) have ca: "c = a" using job_laterD(2) by simp
    have "backed (lcw_calls w) a" using K [OF a] by simp
    moreover have "c \<in> set (lcw_calls w)" if "KnowsCall c \<in> K" for c using K [OF that] by simp
    ultimately have backed: "backed (lcw_calls w) b" by (rule bk)
    note inv = lifecycle_repo_invD [OF lc_soundD(1) [OF w]]
    have "lifecycle_repo_inv (lcw_calls w)
        ((lcw_repo w)\<lparr>lc_jobs := dict_set (job_key b) b (lc_jobs (lcw_repo w))\<rparr>)"
    proof (rule lifecycle_repo_invI)
      show "dict_get (lc_jobs ((lcw_repo w)\<lparr>lc_jobs := dict_set (job_key b) b (lc_jobs (lcw_repo w))\<rparr>)) k = Some j \<Longrightarrow>
          job_key j = k \<and> job_sound j \<and> backed (lcw_calls w) j \<and>
          dict_get (lc_idempotency ((lcw_repo w)\<lparr>lc_jobs := dict_set (job_key b) b (lc_jobs (lcw_repo w))\<rparr>))
            (job_idem_key j) = Some (job_job_id j)" for k j
        using inv(3) [of k j] inv(3) [OF c(1)] b backed same ca by (auto split: if_splits)
      show "\<exists>j. dict_get (lc_jobs ((lcw_repo w)\<lparr>lc_jobs := dict_set (job_key b) b (lc_jobs (lcw_repo w))\<rparr>)) (fst ik, jid) = Some j \<and>
          job_idem_key j = ik"
        if "dict_get (lc_idempotency ((lcw_repo w)\<lparr>lc_jobs := dict_set (job_key b) b (lc_jobs (lcw_repo w))\<rparr>)) ik = Some jid" for ik jid
        using inv(4) [of ik jid] that c(1) same ca by auto
      show "\<exists>j. dict_get (lc_jobs ((lcw_repo w)\<lparr>lc_jobs := dict_set (job_key b) b (lc_jobs (lcw_repo w))\<rparr>)) (job_key (called_job x)) = Some j \<and>
          job_later (called_job x) j" if "x \<in> set (lcw_calls w)" for x
        using inv(7) [OF that] c(1) ca step(1) job_later_trans by auto
    qed (use inv(1,2,5,6) in simp_all)
    moreover have "\<exists>n < lcw_ids w. snd k = lcd_new_id d ''lifecycle'' n"
      if "dict_has (dict_set (job_key b) b (lc_jobs (lcw_repo w))) k" for k
      using that lc_soundD(3) [OF w, of k] c(1) by (cases "k = job_key b") simp_all
    ultimately have sound: "lc_sound d t"
      unfolding lc_sound_def t using lc_soundD(2) [OF w]
      by (intro conjI allI impI) simp_all
    have "lc_sys d w t"
      by (rule lc_sysI [where cs = "[]"])
         (use sound c(1) ca step(1) in \<open>auto simp: t lifecycle_history_def intro!: kept_set kept_refl
           job_later_refl hold_later_refl policy_later_refl split: if_splits\<close>)
    then show ?thesis using b backed by (simp add: t job_later_refl)
  qed
  fix w r t
  assume w: "lc_sound d w" and K: "\<And>f. f \<in> K \<Longrightarrow> lc_knows w f"
  show "lc_sys d w t" if "jobs_cas e b w = (r, t)"
    using that won [OF w K] by (auto simp: jobs_cas_def job_cas_def lc_sys_refl split: option.splits if_splits)
  fix x
  show "True \<and> (\<forall>f \<in> (if x then {KnowsJob b} else {}). lc_knows t f)" if "jobs_cas e b w = (Inr x, t)"
    using that won [OF w K] by (auto simp: jobs_cas_def job_cas_def split: option.splits if_splits)
qed

subsection \<open>New jobs\<close>

lemma lc_sys_ids:
  assumes "lcw_repo t = lcw_repo s" "lcw_calls t = lcw_calls s" "lcw_ids s \<le> lcw_ids t"
  shows "lc_sys d s t"
proof (rule lc_sysI [where cs = "[]"])
  show "lc_sound d t" if s: "lc_sound d s"
  proof -
    have "\<exists>n < lcw_ids t. snd k = lcd_new_id d ''lifecycle'' n"
      if "dict_has (lc_jobs (lcw_repo t)) k" for k
    proof -
      from that assms(1) obtain n where "n < lcw_ids s" "snd k = lcd_new_id d ''lifecycle'' n"
        using lc_soundD(3) [OF s, of k] by auto
      with assms(3) show ?thesis by (intro exI [of _ n]) simp
    qed
    then show ?thesis
      unfolding lc_sound_def using lc_soundD(1,2) [OF s] assms(1,2)
      by (intro conjI allI impI) simp_all
  qed
qed (use assms in \<open>simp_all add: lifecycle_history_refl\<close>)

text \<open>Adding under an id that no job has.\<close>

lemma lifecycle_repo_inv_add:
  assumes inv: "lifecycle_repo_inv cs repo" and j: "job_sound j" "backed cs j"
    and new: "dict_get (lc_jobs repo) (job_key j) = None"
      "dict_get (lc_idempotency repo) (job_idem_key j) = None"
  shows "lifecycle_repo_inv cs (repo\<lparr>lc_jobs := dict_set (job_key j) j (lc_jobs repo),
    lc_idempotency := dict_set (job_idem_key j) (job_job_id j) (lc_idempotency repo)\<rparr>)"
proof -
  note old = lifecycle_repo_invD [OF inv]
  have idem: "dict_get (lc_jobs repo) k = Some i \<Longrightarrow> job_idem_key i \<noteq> job_idem_key j" for k i
    using old(3) [of k i] new(2) by auto
  have key: "(fst (job_idem_key j), job_job_id j) = job_key j"
    by (simp add: job_idem_key_def job_key_def)
  show ?thesis
  proof (rule lifecycle_repo_invI)
    fix k i
    assume "dict_get (lc_jobs (repo\<lparr>lc_jobs := dict_set (job_key j) j (lc_jobs repo),
      lc_idempotency := dict_set (job_idem_key j) (job_job_id j) (lc_idempotency repo)\<rparr>)) k = Some i"
    then show "job_key i = k \<and> job_sound i \<and> backed cs i \<and>
        dict_get (lc_idempotency (repo\<lparr>lc_jobs := dict_set (job_key j) j (lc_jobs repo),
          lc_idempotency := dict_set (job_idem_key j) (job_job_id j) (lc_idempotency repo)\<rparr>))
          (job_idem_key i) = Some (job_job_id i)"
      using old(3) [of k i] idem [of k i] j by (auto split: if_splits)
  next
    fix ik jid
    assume ik: "dict_get (lc_idempotency (repo\<lparr>lc_jobs := dict_set (job_key j) j (lc_jobs repo),
      lc_idempotency := dict_set (job_idem_key j) (job_job_id j) (lc_idempotency repo)\<rparr>)) ik = Some jid"
    show "\<exists>i. dict_get (lc_jobs (repo\<lparr>lc_jobs := dict_set (job_key j) j (lc_jobs repo),
        lc_idempotency := dict_set (job_idem_key j) (job_job_id j) (lc_idempotency repo)\<rparr>)) (fst ik, jid) = Some i \<and>
        job_idem_key i = ik"
    proof (cases "ik = job_idem_key j")
      case True
      with ik key show ?thesis by auto
    next
      case False
      with ik old(4) [of ik jid] obtain i where "dict_get (lc_jobs repo) (fst ik, jid) = Some i"
          "job_idem_key i = ik" by auto
      with new(1) show ?thesis by auto
    qed
  next
    fix c
    assume "c \<in> set cs"
    with old(7) [of c] obtain i where "dict_get (lc_jobs repo) (job_key (called_job c)) = Some i"
        "job_later (called_job c) i" by blast
    with new(1) show "\<exists>i. dict_get (lc_jobs (repo\<lparr>lc_jobs := dict_set (job_key j) j (lc_jobs repo),
        lc_idempotency := dict_set (job_idem_key j) (job_job_id j) (lc_idempotency repo)\<rparr>))
        (job_key (called_job c)) = Some i \<and> job_later (called_job c) i" by auto
  qed (use old(1,2,5,6) in simp_all)
qed

lemma keeps_add_job:
  assumes r: "lc_rely d"
    and J: "\<And>jid. job_sound (J jid) \<and> job_job_id (J jid) = jid \<and> all_in AdapterPending (job_adapters (J jid))"
  shows "lifecycle.keeps d K (bindP (lc_new_id d ''lifecycle'') (\<lambda>jid.
    bindP (construct valid (J jid)) (\<lambda>j. lc_await d (jobs_add j))))"
proof (rule lifecycle.keepsI)
  fix w x t
  assume w: "lc_sound d w" and run: "bindP (lc_new_id d ''lifecycle'') (\<lambda>jid.
    bindP (construct valid (J jid)) (\<lambda>j. lc_await d (jobs_add j))) w = (x, t)"
  define w1 where "w1 = w\<lparr>lcw_ids := Suc (lcw_ids w)\<rparr>"
  define j where "j = J (lcd_new_id d ''lifecycle'' (lcw_ids w))"
  have w1: "lc_sys d w w1" "lc_sound d w1"
    using lc_sys_ids [of w1 w] w lc_sysD(5) by (auto simp: w1_def)
  from run have run: "bindP (construct valid j) (\<lambda>j. lc_await d (jobs_add j)) w1 = (x, t)"
    by (simp add: lc_new_id_def bindP_apply w1_def j_def)
  show "lc_sys d w t"
  proof (cases "valid j")
    case False
    with run w1(1) show ?thesis by (simp add: construct_def)
  next
    case True
    define w2 where "w2 = lc_suspended d w1"
    have w2: "lc_sys d w1 w2" "lc_sys d w w2" "lc_sound d w2"
      using lc_suspended_sys [OF r w1(2)] lc_sys_trans [OF w1(1)] lc_sysD(5) w1(2) by (auto simp: w2_def)
    from run True have run: "jobs_add j w2 = (x, t)" by (simp add: construct_def lc_await_def w2_def)
    have jid: "snd (job_key j) = lcd_new_id d ''lifecycle'' (lcw_ids w)"
      using J by (simp add: job_key_def j_def)
    have inj: "lcd_new_id d ''lifecycle'' n = lcd_new_id d ''lifecycle'' m \<longleftrightarrow> n = m" for n m
      using r by (simp add: lc_rely_def inj_eq)
    have new: "dict_get (lc_jobs (lcw_repo w2)) (job_key j) = None"
    proof (rule ccontr)
      assume "\<not> ?thesis"
      then consider "dict_has (lc_jobs (lcw_repo w1)) (job_key j)"
        | n where "lcw_ids w1 \<le> n" "snd (job_key j) = lcd_new_id d ''lifecycle'' n"
        using lc_sysD(4) [OF w2(1)] by blast
      then show False
      proof cases
        case 1
        with lc_soundD(3) [OF w, of "job_key j"] jid inj show False by (auto simp: w1_def)
      qed (use jid inj in \<open>simp add: w1_def\<close>)
    qed
    let ?repo = "(lcw_repo w2)\<lparr>lc_jobs := dict_set (job_key j) j (lc_jobs (lcw_repo w2)),
      lc_idempotency := dict_set (job_idem_key j) (job_job_id j) (lc_idempotency (lcw_repo w2))\<rparr>"
    have "lc_sys d w (w2\<lparr>lcw_repo := ?repo\<rparr>)"
      if idem: "dict_get (lc_idempotency (lcw_repo w2)) (job_idem_key j) = None"
    proof -
      have j: "job_sound j" "backed cs j" for cs
        using J [of "lcd_new_id d ''lifecycle'' (lcw_ids w)"]
        by (auto simp: j_def backed_def list_all_iff)
      have ids: "lcw_ids w < lcw_ids w2" using lc_sysD(3) [OF w2(1)] by (simp add: w1_def)
      have inv: "lifecycle_repo_inv (lcw_calls w2) ?repo"
        by (rule lifecycle_repo_inv_add [OF lc_soundD(1) [OF w2(3)] j new idem])
      have born: "\<exists>n < lcw_ids w2. snd k = lcd_new_id d ''lifecycle'' n"
        if "dict_has (lc_jobs ?repo) k" for k
        using that lc_soundD(3) [OF w2(3), of k] ids jid by (cases "k = job_key j") auto
      have sound: "lc_sound d (w2\<lparr>lcw_repo := ?repo\<rparr>)"
        unfolding lc_sound_def using inv lc_soundD(2) [OF w2(3)] born
        by (intro conjI allI impI) simp_all
      obtain cs where cs: "lcw_calls w2 = lcw_calls w @ cs" using w2(2) unfolding lc_sys_def by blast
      show ?thesis
      proof (rule lc_sysI [where cs = cs])
        have "lifecycle_history (lcw_repo w2) ?repo"
          using new idem by (auto simp: lifecycle_history_def intro!: kept_set kept_refl
            job_later_refl hold_later_refl policy_later_refl)
        then show "lifecycle_history (lcw_repo w) (lcw_repo (w2\<lparr>lcw_repo := ?repo\<rparr>))"
          using lifecycle_history_trans [OF lc_sysD(1) [OF w2(2)]] by simp
        show "dict_has (lc_jobs (lcw_repo w)) k \<or> (\<exists>n. lcw_ids w \<le> n \<and> n < lcw_ids (w2\<lparr>lcw_repo := ?repo\<rparr>) \<and>
            snd k = lcd_new_id d ''lifecycle'' n)"
          if "dict_has (lc_jobs (lcw_repo (w2\<lparr>lcw_repo := ?repo\<rparr>))) k" for k
          using that lc_sysD(4) [OF w2(2), of k] ids jid by (cases "k = job_key j") auto
      qed (use cs ids sound in simp_all)
    qed
    with run w2(2) show ?thesis
      by (auto simp: jobs_add_def job_add_def split: option.splits)
  qed
qed

end
