(* ===== verification/Lifecycle_Execution.thy ===== *)
theory Lifecycle_Execution
  imports Lifecycle_Guarantees
begin

section \<open>Carrying out a job keeps the protocol\<close>

text \<open>
  The loop over the adapters of a job that deletes: what lies behind has succeeded, what lies ahead
  is pending, and the call in between is recorded before its success is.
\<close>

lemma tidy_done: "all_in AdapterSucceeded xs \<Longrightarrow> tidy (xs @ rs) \<longleftrightarrow> tidy rs"
  by (induction xs) auto

lemma put_result_split:
  assumes "distinct (map result_adapter (before @ r # after))" and "result_adapter x = result_adapter r"
  shows "put_result x (before @ r # after) = before @ x # after"
proof -
  have "put_result x rs = rs" if "result_adapter x \<notin> result_adapter ` set rs" for rs
    using that by (induction rs) (auto simp: put_result_def)
  with assms show ?thesis by (auto simp: put_result_def)
qed

lemma put_result_same_names: "map result_adapter (put_result x rs) = map result_adapter rs"
  by (simp add: put_result_def)

lemma all_pending_tidy: "all_in AdapterPending rs \<Longrightarrow> tidy rs"
  by (cases rs) auto

lemma brings_replace_adapter:
  assumes r: "lc_rely d" and j: "KnowsJob j \<in> K" "job_status j = JobRunning"
    and split: "destructive j \<Longrightarrow> job_adapters j = before @ item # after \<and>
      result_adapter x = result_adapter item \<and> result_status item \<noteq> AdapterSucceeded \<and>
      all_in AdapterSucceeded before \<and> all_in AdapterPending after \<and> result_status x \<noteq> AdapterSkipped"
    and call: "destructive j \<Longrightarrow> result_status x = AdapterSucceeded \<Longrightarrow>
      KnowsCall (DeleteCall j (result_adapter x) True) \<in> K"
  shows "lifecycle.brings d K (replace_adapter d j x) (\<lambda>j'. {KnowsJob j'})
    (\<lambda>j'. same_job j j' \<and> job_status j' = JobRunning \<and>
      (destructive j \<longrightarrow> job_adapters j' = before @ x # after))"
  unfolding replace_adapter_def Let_def
proof (rule brings_clock_bind)
  fix now
  let ?b = "j\<lparr>job_adapters := put_result x (job_adapters j), job_updated_at := now,
    job_fencing_token := job_fencing_token j + 1\<rparr>"
  have goal: "lifecycle.brings d K (bindP (lc_await d (jobs_cas JobRunning ?b)) (\<lambda>won.
      if won then ret ?b else raise (ConflictError ''data lifecycle job fencing conflict'')))
      (\<lambda>j'. {KnowsJob j'}) (\<lambda>j'. same_job j j' \<and> job_status j' = JobRunning \<and>
        (destructive j \<longrightarrow> job_adapters j' = before @ x # after))" if sound: "job_sound j"
  proof -
    have same: "same_job j ?b" by (rule same_jobI) simp_all
    have ads: "job_adapters ?b = before @ x # after" if "destructive j"
      using split [OF that] sound that put_result_split [of before item after x]
      by (simp add: job_sound_def)
    have sb: "job_sound ?b"
    proof -
      have "distinct (map result_adapter (job_adapters ?b)) \<and> tidy (job_adapters ?b)" if "destructive j"
      proof -
        have "distinct (map result_adapter (put_result x (job_adapters j)))"
          using sound that by (simp add: put_result_same_names job_sound_def)
        moreover have "tidy (before @ x # after)"
          using split [OF that] by (cases "result_status x") (auto simp: tidy_done list_all_iff intro: all_pending_tidy)
        ultimately show ?thesis using ads [OF that] by simp
      qed
      then show ?thesis using sound same_job_fields(3) [OF same] j(2) by (auto simp: job_sound_def)
    qed
    have later: "job_later j ?b"
    proof (rule job_laterI [OF same])
      fix y
      assume d: "destructive j" and y: "y \<in> set (job_adapters j)" "result_status y = AdapterSucceeded"
      have "y \<noteq> item" using split [OF d] y(2) by auto
      with y(1) split [OF d] have "y \<in> set before \<union> set after" by auto
      then show "y \<in> set (job_adapters ?b)" using ads [OF d] by auto
    qed (simp_all add: j(2))
    have cas: "lifecycle.brings d K (lc_await d (jobs_cas JobRunning ?b))
        (\<lambda>won. if won then {KnowsJob ?b} else {}) (\<lambda>_. True)"
    proof (rule brings_lc_await [OF r], rule brings_jobs_cas [OF j(1) later _ sb])
      fix cs
      assume cs: "backed cs j" and calls: "\<And>c. KnowsCall c \<in> K \<Longrightarrow> c \<in> set cs"
      show "backed cs ?b"
        unfolding backed_def
      proof (intro impI ballI)
        fix y
        assume "destructive ?b" and y: "y \<in> set (job_adapters ?b)" "result_status y = AdapterSucceeded"
        then have d: "destructive j" using same_job_fields(3) [OF same] by simp
        from y(1) ads [OF d] consider "y = x" | "y \<in> set before" | "y \<in> set after" by auto
        then show "\<exists>v. DeleteCall v (result_adapter y) True \<in> set cs \<and> job_later v ?b \<and>
            job_fencing_token v < job_fencing_token ?b"
        proof cases
          case 1
          with call [OF d] y(2) calls have "DeleteCall j (result_adapter y) True \<in> set cs" by simp
          then show ?thesis using later by (intro exI [of _ j]) simp
        next
          case 2
          with split [OF d] cs d y(2) obtain v where "DeleteCall v (result_adapter y) True \<in> set cs"
              "job_later v j" "job_fencing_token v < job_fencing_token j"
            unfolding backed_def by fastforce
          then show ?thesis using job_later_trans [OF _ later] by (intro exI [of _ v]) simp
        next
          case 3
          with split [OF d] y(2) show ?thesis by (auto simp: list_all_iff)
        qed
      qed
    qed simp
    show ?thesis
      by (rule lifecycle.brings_bind [OF cas])
         (use same ads j(2) in \<open>auto intro!: lifecycle.brings_ret lifecycle.brings_raise\<close>)
  qed
  show "lifecycle.brings d K (bindP (lc_await d (jobs_cas JobRunning ?b)) (\<lambda>won.
      if won then ret ?b else raise (ConflictError ''data lifecycle job fencing conflict'')))
      (\<lambda>j'. {KnowsJob j'}) (\<lambda>j'. same_job j j' \<and> job_status j' = JobRunning \<and>
        (destructive j \<longrightarrow> job_adapters j' = before @ x # after))"
  proof (rule lifecycle.brings_known [OF _ goal])
    fix w
    assume "\<And>f. f \<in> K \<Longrightarrow> lc_knows w f"
    from this [OF j(1)] show "job_sound j" by simp
  qed
qed

subsection \<open>Calling an adapter\<close>

definition at_adapter :: "lifecycle_job \<Rightarrow> adapter_result list \<Rightarrow> adapter_result \<Rightarrow> adapter_result list \<Rightarrow> bool" where
  "at_adapter j before r after \<longleftrightarrow> job_adapters j = before @ r # after \<and>
     all_in AdapterSucceeded before \<and> all_in AdapterPending after"

lemma brings_external_delete:
  assumes j: "KnowsJob j \<in> K" "job_status j = JobRunning" "destructive j"
    and at: "at_adapter j before r after" "result_status r = AdapterRunning"
      "result_adapter r = lcad_name a"
  shows "lifecycle.brings d K (external_delete a j)
    (\<lambda>_. {KnowsCall (DeleteCall j (lcad_name a) True)}) (\<lambda>_. True)"
proof (rule lifecycle.bringsI)
  fix w x t
  assume w: "lc_sound d w" and K: "\<And>f. f \<in> K \<Longrightarrow> lc_knows w f" and run: "external_delete a j w = (x, t)"
  obtain ok where t: "t = w\<lparr>lcw_calls := lcw_calls w @ [DeleteCall j (lcad_name a) ok]\<rparr>"
    using run by (auto simp: external_delete_def Let_def)
  from K [OF j(1)] obtain b where b: "backed (lcw_calls w) j"
      "dict_get (lc_jobs (lcw_repo w)) (job_key j) = Some b" "job_later j b" by auto
  have "call_ok (lcw_calls w) (DeleteCall j (lcad_name a) ok)"
    unfolding call_ok_def Let_def using j(2,3) b(1) at unfolding at_adapter_def by auto
  then have calls: "calls_ok (lcw_calls t)" using lc_soundD(2) [OF w] by (simp add: t calls_ok_snoc)
  note inv = lifecycle_repo_invD [OF lc_soundD(1) [OF w]]
  have "lifecycle_repo_inv (lcw_calls t) (lcw_repo w)"
  proof (rule lifecycle_repo_invI)
    show "job_key i = k \<and> job_sound i \<and> backed (lcw_calls t) i \<and>
        dict_get (lc_idempotency (lcw_repo w)) (job_idem_key i) = Some (job_job_id i)"
      if "dict_get (lc_jobs (lcw_repo w)) k = Some i" for k i
      using inv(3) [OF that] backed_mono [of "lcw_calls w" i "lcw_calls t"] by (auto simp: t)
    show "\<exists>i. dict_get (lc_jobs (lcw_repo w)) (job_key (called_job c)) = Some i \<and> job_later (called_job c) i"
      if "c \<in> set (lcw_calls t)" for c
      using that inv(7) b(2,3) by (auto simp: t)
  qed (use inv(1,2,4,5,6) in blast)+
  then have "lc_sound d t"
    unfolding lc_sound_def using calls lc_soundD(3) [OF w] by (intro conjI allI impI) (simp_all add: t)
  then show "lc_sys d w t"
    by (intro lc_sysI [where cs = "[DeleteCall j (lcad_name a) ok]"])
       (simp_all add: t lifecycle_history_refl)
next
  fix w x t
  assume "external_delete a j w = (Inr x, t)"
  then show "True \<and> (\<forall>f \<in> {KnowsCall (DeleteCall j (lcad_name a) True)}. lc_knows t f)"
    by (auto simp: external_delete_def Let_def)
qed

lemma brings_call_adapter:
  assumes r: "lc_rely d" and j: "KnowsJob j \<in> K" "job_status j = JobRunning"
    and at: "destructive j \<Longrightarrow> at_adapter j before r after \<and> result_status r = AdapterRunning \<and>
      result_adapter r = lcad_name a"
  shows "lifecycle.brings d K (call_adapter d a j fragments)
    (\<lambda>_. if destructive j then {KnowsCall (DeleteCall j (lcad_name a) True)} else {}) (\<lambda>_. True)"
proof (cases "destructive j")
  case True
  then have del: "lifecycle.brings d K (lc_await d (external_delete a j))
      (\<lambda>_. {KnowsCall (DeleteCall j (lcad_name a) True)}) (\<lambda>_. True)"
    using at j by (intro brings_lc_await [OF r] brings_external_delete) auto
  show ?thesis
    using True unfolding call_adapter_def destructive_def
    by (auto intro!: lifecycle.brings_bind [OF del] lifecycle.brings_ret)
next
  case False
  then have "lifecycle.keeps d K (call_adapter d a j fragments)"
    unfolding call_adapter_def destructive_def by (auto intro!: keeps_intros r)
  from lifecycle.keeps_brings [OF this] False show ?thesis by simp
qed

lemma adapter_table_name:
  assumes "dict_get (adapter_table d) name = Some a"
  shows "lcad_name a = name"
proof -
  have "lcad_name x = n"
    if "\<And>n x. dict_get t n = Some x \<Longrightarrow> lcad_name x = n"
      and "dict_get (foldl (\<lambda>t a. dict_set (lcad_name a) a t) t as) n = Some x" for t as n x
    using that
  proof (induction as arbitrary: t)
    case (Cons b as)
    show ?case
    proof (rule Cons.IH)
      show "dict_get (dict_set (lcad_name b) b t) m = Some y \<Longrightarrow> lcad_name y = m" for m y
        using Cons.prems(1) [of m y] by (cases "m = lcad_name b") simp_all
      show "dict_get (foldl (\<lambda>t a. dict_set (lcad_name a) a t) (dict_set (lcad_name b) b t) as) n = Some x"
        using Cons.prems(2) unfolding foldl_Cons .
    qed
  next
    case Nil
    from Nil.prems(1) [of n x] Nil.prems(2) show ?case unfolding foldl_Nil .
  qed
  from this [of "[]" "lcd_adapters d" name a] assms [unfolded adapter_table_def] show ?thesis
    unfolding map_of.simps by blast
qed

lemma brings_run_adapter:
  assumes r: "lc_rely d" and j: "KnowsJob j \<in> K" "job_status j = JobRunning"
    and at: "destructive j \<Longrightarrow> at_adapter j before item after \<and> result_status item = AdapterPending"
  shows "lifecycle.brings d K (run_adapter d item j fragments) (\<lambda>(go_on, j', fs). {KnowsJob j'})
    (\<lambda>(go_on, j', fs). same_job j j' \<and> job_status j' = JobRunning \<and>
      (destructive j \<longrightarrow> (\<exists>x. at_adapter j' before x after \<and>
        result_status x = (if go_on then AdapterSucceeded else AdapterFailed))))"
    (is "lifecycle.brings d K _ ?L ?P")
proof (cases "dict_get (adapter_table d) (result_adapter item)")
  case None
  then show ?thesis by (simp add: run_adapter_def lifecycle.brings_raise)
next
  case (Some a)
  have name: "lcad_name a = result_adapter item" using Some by (rule adapter_table_name)
  have body: "lifecycle.brings d K (bindP (replace_adapter d j (started_result item now)) (\<lambda>running.
      bindP (tryP (call_adapter d a running fragments)) (\<lambda>answer. case answer of
          Inl e \<Rightarrow> if e = NotReturned then raise e
            else bindP (lc_clock d) (\<lambda>t.
              bindP (replace_adapter d running (failed_result (started_result item now) e t)) (\<lambda>j'.
                ret (job_kind j' = JobExport, j', fragments)))
        | Inr (fragments', count) \<Rightarrow> bindP (lc_clock d) (\<lambda>t.
              bindP (replace_adapter d running (succeeded_result (started_result item now) count t)) (\<lambda>j'.
                ret (True, j', fragments')))))) ?L ?P" for now
  proof (rule lifecycle.brings_bind)
    show "lifecycle.brings d K (replace_adapter d j (started_result item now)) (\<lambda>j'. {KnowsJob j'})
        (\<lambda>j'. same_job j j' \<and> job_status j' = JobRunning \<and>
          (destructive j \<longrightarrow> job_adapters j' = before @ started_result item now # after))"
      by (rule brings_replace_adapter [OF r j, where item = item])
         (use at in \<open>auto simp: at_adapter_def started_result_def\<close>)
  next
    fix running
    assume running: "same_job j running \<and> job_status running = JobRunning \<and>
      (destructive j \<longrightarrow> job_adapters running = before @ started_result item now # after)"
    then have dj: "destructive running = destructive j" by (blast dest: same_job_fields(3))
    have atr: "at_adapter running before (started_result item now) after" if "destructive running"
      using that at running dj by (simp add: at_adapter_def)
    let ?K = "K \<union> {KnowsJob running}"
    let ?C = "if destructive running then {KnowsCall (DeleteCall running (lcad_name a) True)} else {}"
    have call: "lifecycle.brings d ?K (call_adapter d a running fragments) (\<lambda>_. ?C) (\<lambda>_. True)"
      by (rule brings_call_adapter [OF r, where r = "started_result item now"])
         (use running atr name in \<open>auto simp: started_result_def\<close>)
    have stored: "lifecycle.brings d L (bindP (replace_adapter d running x) (\<lambda>j'. ret (go j', j', fs))) ?L ?P"
      if L: "KnowsJob running \<in> L" and name': "result_adapter x = result_adapter item"
        and st: "result_status x = AdapterSucceeded \<and> ?C \<subseteq> L \<and> (\<forall>j'. go j') \<or>
          result_status x = AdapterFailed \<and> go = (\<lambda>j'. job_kind j' = JobExport)"
      for L x fs go
    proof (rule lifecycle.brings_bind)
      show "lifecycle.brings d L (replace_adapter d running x) (\<lambda>j'. {KnowsJob j'})
          (\<lambda>j'. same_job running j' \<and> job_status j' = JobRunning \<and>
            (destructive running \<longrightarrow> job_adapters j' = before @ x # after))"
        by (rule brings_replace_adapter [OF r L, where item = "started_result item now"])
           (use running atr name name' st in \<open>auto simp: at_adapter_def started_result_def\<close>)
    next
      fix j'
      assume j': "same_job running j' \<and> job_status j' = JobRunning \<and>
        (destructive running \<longrightarrow> job_adapters j' = before @ x # after)"
      then have "same_job j j'" using running same_job_trans by blast
      moreover have "job_kind j' = JobExport \<longleftrightarrow> \<not> destructive running"
        using j' same_job_fields(4) [of running j'] by (auto simp: destructive_def)
      ultimately show "lifecycle.brings d (L \<union> {KnowsJob j'}) (ret (go j', j', fs)) ?L ?P"
        using j' st atr dj by (intro lifecycle.brings_ret) (auto simp: at_adapter_def)
    qed
    show "lifecycle.brings d ?K (bindP (tryP (call_adapter d a running fragments)) (\<lambda>answer. case answer of
          Inl e \<Rightarrow> if e = NotReturned then raise e
            else bindP (lc_clock d) (\<lambda>t.
              bindP (replace_adapter d running (failed_result (started_result item now) e t)) (\<lambda>j'.
                ret (job_kind j' = JobExport, j', fragments)))
        | Inr (fragments', count) \<Rightarrow> bindP (lc_clock d) (\<lambda>t.
              bindP (replace_adapter d running (succeeded_result (started_result item now) count t)) (\<lambda>j'.
                ret (True, j', fragments'))))) ?L ?P"
    proof (rule lifecycle.brings_bind [OF lifecycle.brings_try [OF call]])
      fix answer
      show "lifecycle.brings d (?K \<union> (case answer of Inl e \<Rightarrow> {} | Inr x \<Rightarrow> ?C)) (case answer of
          Inl e \<Rightarrow> if e = NotReturned then raise e
            else bindP (lc_clock d) (\<lambda>t.
              bindP (replace_adapter d running (failed_result (started_result item now) e t)) (\<lambda>j'.
                ret (job_kind j' = JobExport, j', fragments)))
        | Inr (fragments', count) \<Rightarrow> bindP (lc_clock d) (\<lambda>t.
              bindP (replace_adapter d running (succeeded_result (started_result item now) count t)) (\<lambda>j'.
                ret (True, j', fragments')))) ?L ?P"
      proof (cases answer)
        case (Inl e)
        then show ?thesis
          by (auto intro!: lifecycle.brings_raise brings_clock_bind stored
            simp: failed_result_def started_result_def)
      next
        case (Inr x)
        then show ?thesis
          by (cases x) (auto intro!: brings_clock_bind stored
            simp: succeeded_result_def started_result_def)
      qed
    qed
  qed
  show ?thesis
    unfolding run_adapter_def Some Let_def using body by (auto intro: brings_clock_bind)
qed

subsection \<open>The loop and the outcome\<close>

definition finished :: "adapter_result list \<Rightarrow> bool" where
  "finished rs \<longleftrightarrow> all_in AdapterSucceeded rs \<or> list_ex (\<lambda>r. result_status r = AdapterFailed) rs"

lemma outcome_fits: "finished rs \<Longrightarrow> status_fits (outcome_status rs) rs"
  by (auto simp: finished_def outcome_status_def count_status_def filter_empty_conv list_all_iff
      list_ex_iff)

lemma outcome_terminal: "job_is_terminal (outcome_status rs)"
  by (simp add: outcome_status_def job_is_terminal_def)

lemma brings_run_adapters:
  assumes r: "lc_rely d" and j: "KnowsJob j \<in> K" "job_status j = JobRunning"
    and at: "destructive j \<Longrightarrow> job_adapters j = before @ items \<and> all_in AdapterSucceeded before \<and>
      tidy items \<and> status_fits JobQueued items"
  shows "lifecycle.brings d K (run_adapters d items j fragments) (\<lambda>(j', fs). {KnowsJob j'})
    (\<lambda>(j', fs). same_job j j' \<and> job_status j' = JobRunning \<and>
      (destructive j \<longrightarrow> finished (job_adapters j')))"
  using j at
proof (induction items arbitrary: j before K fragments)
  case Nil
  then show ?case
    unfolding run_adapters.simps
    by (intro lifecycle.brings_ret) (auto simp: same_job_refl finished_def)
next
  case (Cons item items)
  show ?case
  proof (cases "result_status item = AdapterSucceeded")
    case True
    have "lifecycle.brings d K (run_adapters d items j fragments) (\<lambda>(j', fs). {KnowsJob j'})
      (\<lambda>(j', fs). same_job j j' \<and> job_status j' = JobRunning \<and>
        (destructive j \<longrightarrow> finished (job_adapters j')))"
      by (rule Cons.IH [OF Cons.prems(1,2), where before = "before @ [item]"])
         (use Cons.prems(3) True in auto)
    with True show ?thesis by simp
  next
    case False
    have item: "at_adapter j before item items \<and> result_status item = AdapterPending" if "destructive j"
      using Cons.prems(3) [OF that] False by (auto simp: at_adapter_def split: lifecycle_adapter_status.splits)
    note run = brings_run_adapter [OF r Cons.prems(1,2) item, of fragments]
    have "lifecycle.brings d K (bindP (run_adapter d item j fragments) (\<lambda>(go_on, j', fs).
        if go_on then run_adapters d items j' fs else ret (j', fs))) (\<lambda>(j', fs). {KnowsJob j'})
      (\<lambda>(j', fs). same_job j j' \<and> job_status j' = JobRunning \<and>
        (destructive j \<longrightarrow> finished (job_adapters j')))"
    proof (rule lifecycle.brings_bind [OF run])
      fix res :: "bool \<times> lifecycle_job \<times> fragments"
      obtain go_on j' fs where res: "res = (go_on, j', fs)" by (cases res)
      assume "case res of (go_on, j', fs) \<Rightarrow> same_job j j' \<and> job_status j' = JobRunning \<and>
        (destructive j \<longrightarrow> (\<exists>x. at_adapter j' before x items \<and>
          result_status x = (if go_on then AdapterSucceeded else AdapterFailed)))"
      then have j': "same_job j j'" "job_status j' = JobRunning" and
        x: "destructive j \<Longrightarrow> \<exists>x. at_adapter j' before x items \<and>
          result_status x = (if go_on then AdapterSucceeded else AdapterFailed)"
        by (simp_all add: res)
      have dj: "destructive j' = destructive j" using j'(1) by (rule same_job_fields)
      have pending: "tidy items \<and> status_fits JobQueued items" if "all_in AdapterPending items"
        using that by (auto simp: all_pending_tidy list_all_iff)
      have K': "KnowsJob j' \<in> K \<union> {KnowsJob j'}" by simp
      show "lifecycle.brings d (K \<union> (case res of (go_on, j', fs) \<Rightarrow> {KnowsJob j'})) (case res of
          (go_on, j', fs) \<Rightarrow> if go_on then run_adapters d items j' fs else ret (j', fs))
        (\<lambda>(j', fs). {KnowsJob j'}) (\<lambda>(j', fs). same_job j j' \<and> job_status j' = JobRunning \<and>
          (destructive j \<longrightarrow> finished (job_adapters j')))"
      proof (cases go_on)
        case True
        obtain x where x: "destructive j \<Longrightarrow> at_adapter j' before x items \<and> result_status x = AdapterSucceeded"
          using x True by (metis (full_types))
        have "lifecycle.brings d (K \<union> {KnowsJob j'}) (run_adapters d items j' fs)
          (\<lambda>(j', fs). {KnowsJob j'}) (\<lambda>(j'', fs). same_job j' j'' \<and> job_status j'' = JobRunning \<and>
            (destructive j' \<longrightarrow> finished (job_adapters j'')))"
          by (rule Cons.IH [OF K' j'(2), where before = "before @ [x]"])
             (use x dj pending in \<open>auto simp: at_adapter_def\<close>)
        then have "lifecycle.brings d (K \<union> {KnowsJob j'}) (run_adapters d items j' fs)
          (\<lambda>(j', fs). {KnowsJob j'}) (\<lambda>(j'', fs). same_job j j'' \<and> job_status j'' = JobRunning \<and>
            (destructive j \<longrightarrow> finished (job_adapters j'')))"
          by (rule lifecycle.brings_weaken) (use j'(1) same_job_trans dj in \<open>auto split: prod.splits\<close>)
        with True show ?thesis by (simp add: res)
      next
        case False
        have "finished (job_adapters j')" if d: "destructive j"
          using x [OF d] False by (auto simp: finished_def at_adapter_def)
        with False j' show ?thesis
          by (simp only: res prod.case if_False, intro lifecycle.brings_ret) auto
      qed
    qed
    with False show ?thesis by simp
  qed
qed

lemma brings_finish_job:
  assumes r: "lc_rely d" and a: "KnowsJob a \<in> K" "job_status a = JobRunning"
    and j: "same_job a j" "job_fencing_token j = job_fencing_token a"
    and dj: "destructive a \<Longrightarrow> job_adapters j = job_adapters a \<and> finished (job_adapters a)"
  shows "lifecycle.brings d K (finish_job d j) (\<lambda>t. {KnowsJob t})
    (\<lambda>t. same_job a t \<and> job_is_terminal (job_status t))"
  unfolding finish_job_def Let_def
proof (intro brings_clock_bind)
  fix now completed
  let ?b = "j\<lparr>job_status := outcome_status (job_adapters j), job_updated_at := now,
    job_completed_at := Some completed, job_fencing_token := job_fencing_token j + 1\<rparr>"
  have same: "same_job a ?b" by (rule same_job_trans [OF j(1)]) (rule same_jobI, simp_all)
  have later: "job_later a ?b"
    by (rule job_laterI [OF same]) (use dj a(2) j(2) in auto)
  have goal: "lifecycle.brings d K (bindP (lc_await d (jobs_cas JobRunning ?b)) (\<lambda>won. if won then ret ?b
      else raise (ConflictError ''data lifecycle job changed before completion'')))
      (\<lambda>t. {KnowsJob t}) (\<lambda>t. same_job a t \<and> job_is_terminal (job_status t))" if sound: "job_sound a"
  proof -
    have sb: "job_sound ?b"
      using sound dj j(2) same_job_fields(3) [OF same] by (auto simp: job_sound_def outcome_fits)
    have cas: "lifecycle.brings d K (lc_await d (jobs_cas JobRunning ?b))
        (\<lambda>won. if won then {KnowsJob ?b} else {}) (\<lambda>_. True)"
    proof (rule brings_lc_await [OF r], rule brings_jobs_cas [OF a(1) later _ sb])
      show "backed cs ?b" if "backed cs a" for cs
        using that dj same_job_fields(3) [OF same] job_later_trans [OF _ later] j(2)
        unfolding backed_def by fastforce
    qed (simp add: j(2))
    show ?thesis
      by (rule lifecycle.brings_bind [OF cas])
         (use same in \<open>auto intro!: lifecycle.brings_ret lifecycle.brings_raise simp: outcome_terminal\<close>)
  qed
  show "lifecycle.brings d K (bindP (lc_await d (jobs_cas JobRunning ?b)) (\<lambda>won. if won then ret ?b
      else raise (ConflictError ''data lifecycle job changed before completion'')))
      (\<lambda>t. {KnowsJob t}) (\<lambda>t. same_job a t \<and> job_is_terminal (job_status t))"
  proof (rule lifecycle.brings_known [OF _ goal])
    fix w
    assume "\<And>f. f \<in> K \<Longrightarrow> lc_knows w f"
    from this [OF a(1)] show "job_sound a" by simp
  qed
qed

subsection \<open>Claiming a job and carrying it out\<close>

lemma find_split:
  assumes "List.find P xs = Some x"
  shows "\<exists>ys zs. xs = ys @ x # zs \<and> P x \<and> (\<forall>y \<in> set ys. \<not> P y)"
  using assms
proof (induction xs)
  case (Cons y ys)
  show ?case
  proof (cases "P y")
    case True
    with Cons.prems show ?thesis by (intro exI [of _ "[]"] exI [of _ ys]) auto
  next
    case False
    with Cons obtain us zs where "ys = us @ x # zs" "P x" "\<forall>u \<in> set us. \<not> P u" by auto
    with False show ?thesis by (intro exI [of _ "y # us"] exI [of _ zs]) auto
  qed
qed simp

lemma brings_mark_hold_failure:
  assumes r: "lc_rely d" and j: "KnowsJob j \<in> K" "job_status j = JobRunning" "destructive j"
    and at: "tidy (job_adapters j)" "status_fits JobQueued (job_adapters j)"
  shows "lifecycle.brings d K (mark_hold_failure d j hid) (\<lambda>j'. {KnowsJob j'})
    (\<lambda>j'. same_job j j' \<and> job_status j' = JobRunning \<and> finished (job_adapters j'))"
proof (cases "List.find (\<lambda>r. result_status r \<noteq> AdapterSucceeded) (job_adapters j)")
  case None
  then show ?thesis by (simp add: mark_hold_failure_def lifecycle.brings_raise)
next
  case (Some x)
  then obtain before after where split: "job_adapters j = before @ x # after"
      "result_status x \<noteq> AdapterSucceeded" "all_in AdapterSucceeded before"
    using find_split [OF Some] by (auto simp: list_all_iff)
  from at split have pending: "result_status x = AdapterPending" "all_in AdapterPending after"
    by (auto simp: tidy_done split: lifecycle_adapter_status.splits)
  have "lifecycle.brings d K (replace_adapter d j y) (\<lambda>j'. {KnowsJob j'})
      (\<lambda>j'. same_job j j' \<and> job_status j' = JobRunning \<and> finished (job_adapters j'))"
    if "result_status y = AdapterFailed" "result_adapter y = result_adapter x" for y
    by (rule lifecycle.brings_weaken [OF brings_replace_adapter [OF r j(1,2),
          where x = y and item = x and before = before and after = after]])
       (use split pending that j(3) in \<open>auto simp: finished_def\<close>)
  then show ?thesis
    unfolding mark_hold_failure_def Some by (auto intro!: brings_clock_bind)
qed

lemma keeps_related_scopes [keeps_intros]:
  assumes "lc_rely d"
  shows "lifecycle.keeps d K (related_scopes d tn s)"
  unfolding related_scopes_def session_scopes_def
  by (cases "lcd_resolver d") (auto intro!: keeps_intros assms)

lemma keeps_job_blocking_hold [keeps_intros]:
  assumes "lc_rely d"
  shows "lifecycle.keeps d K (job_blocking_hold d j)"
  unfolding job_blocking_hold_def by (intro keeps_intros assms)

lemma keeps_export_put [keeps_intros]: "lifecycle.keeps d K (export_put d' tn oid content)"
  by (rule lifecycle.keeps_same, rule lc_sys_same)
     (simp_all add: export_put_def split: option.splits)

lemma brings_store_export:
  assumes r: "lc_rely d"
  shows "lifecycle.brings d K (store_export d j fs) (\<lambda>_. {})
    (\<lambda>j'. same_job j j' \<and> job_fencing_token j' = job_fencing_token j)"
  unfolding store_export_def Let_def thenP_def
  by (rule brings_clock_bind, rule lifecycle.brings_keeps_bind [OF keeps_lc_await [OF r keeps_export_put]],
      rule brings_clock_bind, rule lifecycle.brings_ret) (auto intro: same_jobI)

lemma brings_try_export:
  assumes r: "lc_rely d"
  shows "lifecycle.brings d K (try_export d j fs) (\<lambda>_. {})
    (\<lambda>j'. same_job j j' \<and> job_fencing_token j' = job_fencing_token j)"
proof -
  have handler: "lifecycle.brings d K (if e = NotReturned then raise e
       else bindP (lc_clock d) (\<lambda>t. ret (j\<lparr>job_adapters := job_adapters j @ [export_result AdapterFailed 0
         (Some (error_class e)) (Some ''Export artifact could not be stored; retry is available.'') t]\<rparr>)))
      (\<lambda>_. {}) (\<lambda>j'. same_job j j' \<and> job_fencing_token j' = job_fencing_token j)" for e
    by (auto intro!: lifecycle.brings_raise brings_clock_bind lifecycle.brings_ret same_jobI)
  show ?thesis
    unfolding try_export_def by (rule lifecycle.brings_catch [OF brings_store_export [OF r] handler])
qed

lemma keeps_carry_out_job:
  assumes r: "lc_rely d" and j: "KnowsJob j \<in> K" "job_status j = JobRunning"
    and at: "destructive j \<Longrightarrow> status_fits JobQueued (job_adapters j)"
  shows "lifecycle.keeps d K (carry_out_job d j)"
proof (rule lifecycle.keeps_known)
  show "job_sound j" if "\<And>f. f \<in> K \<Longrightarrow> lc_knows w f" for w using that [OF j(1)] by simp
next
  assume sound: "job_sound j"
  let ?P = "\<lambda>(j', fs :: fragments). same_job j j' \<and> job_status j' = JobRunning \<and>
    (destructive j \<longrightarrow> finished (job_adapters j'))"
  have held: "lifecycle.brings d K (bindP (mark_hold_failure d j hid) (\<lambda>j'. ret (j', [])))
      (\<lambda>(j', fs). {KnowsJob j'}) ?P" if "destructive j" for hid
    by (rule lifecycle.brings_bind [OF brings_mark_hold_failure [OF r j that]])
       (use sound that at in \<open>auto intro!: lifecycle.brings_ret simp: job_sound_def\<close>)
  have free: "lifecycle.brings d K (run_adapters d (job_adapters j) j []) (\<lambda>(j', fs). {KnowsJob j'}) ?P"
    by (rule brings_run_adapters [OF r j, where before = "[]"])
       (use sound at in \<open>auto simp: job_sound_def\<close>)
  have steps: "lifecycle.brings d K (case held of
         Some hid \<Rightarrow> bindP (mark_hold_failure d j hid) (\<lambda>j'. ret (j', []))
       | None \<Rightarrow> run_adapters d (job_adapters j) j []) (\<lambda>(j', fs). {KnowsJob j'}) ?P"
    if "held \<noteq> None \<Longrightarrow> destructive j" for held
    using held free that by (cases held) auto
  have finish: "lifecycle.keeps d (K \<union> {KnowsJob j'})
      (bindP (if job_kind j' = JobExport then try_export d j' fs else ret j') (finish_job d))"
    if j': "same_job j j'" "job_status j' = JobRunning" "destructive j \<longrightarrow> finished (job_adapters j')" for j' fs
  proof -
    have dj: "destructive j' \<longleftrightarrow> job_kind j' \<noteq> JobExport" "destructive j' = destructive j"
      using same_job_fields(3) [OF j'(1)] by (simp_all add: destructive_def)
    have "lifecycle.brings d (K \<union> {KnowsJob j'}) (if job_kind j' = JobExport then try_export d j' fs else ret j')
        (\<lambda>_. {}) (\<lambda>j''. same_job j' j'' \<and> job_fencing_token j'' = job_fencing_token j' \<and>
          (destructive j' \<longrightarrow> j'' = j'))"
      using dj by (auto intro!: lifecycle.brings_ret same_job_refl
        lifecycle.brings_weaken [OF brings_try_export [OF r]])
    then show ?thesis
      by (rule lifecycle.keeps_brings_bind)
         (use j' dj in \<open>auto intro!: lifecycle.brings_keeps [OF brings_finish_job [OF r, where a = j']]\<close>)
  qed
  have rest: "lifecycle.keeps d (K \<union> (case x of (j', fs) \<Rightarrow> {KnowsJob j'}))
      (case x of (j', fs) \<Rightarrow>
        bindP (if job_kind j' = JobExport then try_export d j' fs else ret j') (finish_job d))"
    if x: "?P x" for x
  proof (cases x)
    case (Pair j' fs)
    show ?thesis
      using x unfolding Pair prod.case by (elim conjE) (rule finish)
  qed
  show "lifecycle.keeps d K (carry_out_job d j)"
  proof (cases "destructive j")
    case True
    then have kind: "job_kind j \<noteq> JobExport" by (simp add: destructive_def)
    show ?thesis
      unfolding carry_out_job_def if_P [OF kind]
      by (rule lifecycle.keeps_bind [OF keeps_job_blocking_hold [OF r]],
          rule lifecycle.keeps_brings_bind [OF steps rest]) (rule True)
  next
    case False
    then have kind: "\<not> job_kind j \<noteq> JobExport" by (simp add: destructive_def)
    show ?thesis
      unfolding carry_out_job_def if_not_P [OF kind] bindP_ret option.case
      by (rule lifecycle.keeps_brings_bind [OF free rest])
  qed
qed

lemma claim_later:
  assumes "job_status a = JobQueued" and "job_sound a"
  shows "job_later a (claim_job a now)" and "job_sound (claim_job a now)"
proof -
  have "same_job a (claim_job a now)" by (rule same_jobI) (simp_all add: claim_job_def)
  then show "job_later a (claim_job a now)"
    by (rule job_laterI) (use assms in \<open>auto simp: claim_job_def\<close>)
  show "job_sound (claim_job a now)"
    using assms by (auto simp: claim_job_def job_sound_def destructive_def)
qed

lemma keeps_process_job:
  assumes r: "lc_rely d"
  shows "lifecycle.keeps d K (process_job d)"
  unfolding process_job_def
proof (rule lifecycle.keeps_brings_bind [OF brings_lc_await [OF r brings_list_runnable]])
  fix js :: "lifecycle_job list"
  assume js: "\<forall>j \<in> set js. job_status j = JobQueued"
  have one: "lifecycle.keeps d (K \<union> KnowsJob ` set js)
      (bindP (lc_clock d) (\<lambda>now. bindP (lc_await d (jobs_cas JobQueued (claim_job a now))) (\<lambda>won.
         if \<not> won then ret None
         else bindP (carry_out_job d (claim_job a now)) (\<lambda>j. ret (Some j)))))"
    if a: "a \<in> set js" for a
  proof (rule lifecycle.keeps_known)
    show "job_sound a" if "\<And>f. f \<in> K \<union> KnowsJob ` set js \<Longrightarrow> lc_knows w f" for w
      using that [of "KnowsJob a"] a by simp
  next
    assume sound: "job_sound a"
    have q: "job_status a = JobQueued" using js a by blast
    note claim = claim_later [OF q sound]
    have cas: "lifecycle.brings d (K \<union> KnowsJob ` set js) (lc_await d (jobs_cas JobQueued (claim_job a now)))
        (\<lambda>won. if won then {KnowsJob (claim_job a now)} else {}) (\<lambda>_. True)" for now
    proof (rule brings_lc_await [OF r], rule brings_jobs_cas [OF _ claim(1) _ claim(2)])
      show "KnowsJob a \<in> K \<union> KnowsJob ` set js" using a by simp
      show "job_fencing_token (claim_job a now) = job_fencing_token a + 1" by (simp add: claim_job_def)
      show "backed cs (claim_job a now)" if "backed cs a" for cs
        using that job_later_trans [OF _ claim(1)] unfolding backed_def
        by (fastforce simp: claim_job_def destructive_def)
    qed
    have "lifecycle.keeps d ((K \<union> KnowsJob ` set js) \<union> {KnowsJob (claim_job a now)})
        (carry_out_job d (claim_job a now))" for now
      by (rule keeps_carry_out_job [OF r])
         (use sound q in \<open>auto simp: claim_job_def job_sound_def destructive_def\<close>)
    then show "lifecycle.keeps d (K \<union> KnowsJob ` set js)
      (bindP (lc_clock d) (\<lambda>now. bindP (lc_await d (jobs_cas JobQueued (claim_job a now))) (\<lambda>won.
         if \<not> won then ret None
         else bindP (carry_out_job d (claim_job a now)) (\<lambda>j. ret (Some j)))))"
      by (intro lifecycle.keeps_bind [OF keeps_lc_clock] lifecycle.keeps_brings_bind [OF cas])
         (auto intro!: keeps_intros)
  qed
  show "lifecycle.keeps d (K \<union> KnowsJob ` set js) (case js of [] \<Rightarrow> ret None | queued # _ \<Rightarrow>
      bindP (lc_clock d) (\<lambda>now. bindP (lc_await d (jobs_cas JobQueued (claim_job queued now))) (\<lambda>won.
        if \<not> won then ret None
        else bindP (carry_out_job d (claim_job queued now)) (\<lambda>j. ret (Some j)))))"
    using one by (cases js) (auto intro: lifecycle.keeps_ret)
qed

end
