(* ===== verification/Lifecycle_Platform.thy ===== *)
theory Lifecycle_Platform
  imports Lifecycle_Execution
begin

section \<open>All operations on user data together\<close>

text \<open>
  The operations of the service keep the protocol too. \<open>lifecycle_steps\<close> are the histories of calls
  to the service and of controllers, each interrupted at its awaits by others that keep the
  protocol.
\<close>

subsection \<open>Retrying\<close>

definition reset_like :: "lifecycle_job_kind \<Rightarrow> adapter_result \<Rightarrow> adapter_result \<Rightarrow> bool" where
  "reset_like kind r x \<longleftrightarrow> result_adapter x = result_adapter r \<and>
     (if kind = JobExport \<or> result_status r = AdapterFailed then result_status x = AdapterPending
      else x = r)"

lemma brings_reset_adapter:
  "lifecycle.brings d K (reset_adapter d' kind r) (\<lambda>_. {}) (reset_like kind r)"
  unfolding reset_adapter_def
  by (auto intro!: brings_clock_bind lifecycle.brings_ret simp: reset_like_def)

lemma brings_reset_adapters:
  "lifecycle.brings d K (reset_adapters d' kind rs) (\<lambda>_. {})
     (list_all2 (reset_like kind) (filter (\<lambda>r. result_adapter r \<noteq> ''export-artifact'') rs))"
proof -
  have "lifecycle.brings d K (foldP (\<lambda>acc r. bindP (reset_adapter d' kind r) (\<lambda>x. ret (acc @ [x]))) acc qs)
      (\<lambda>_. {}) (\<lambda>xs. \<exists>ys. xs = acc @ ys \<and> list_all2 (reset_like kind) qs ys)" for acc qs
  proof (induction qs arbitrary: acc K)
    case Nil
    then show ?case unfolding foldP.simps by (intro lifecycle.brings_ret) simp_all
  next
    case (Cons q qs)
    have one: "lifecycle.brings d K (bindP (reset_adapter d' kind q) (\<lambda>x. ret (acc @ [x])))
        (\<lambda>_. {}) (\<lambda>b. \<exists>x. b = acc @ [x] \<and> reset_like kind q x)"
      by (rule lifecycle.brings_bind [OF brings_reset_adapter]) (auto intro!: lifecycle.brings_ret)
    show ?case
      unfolding foldP.simps
    proof (rule lifecycle.brings_bind [OF one])
      fix b
      assume "\<exists>x. b = acc @ [x] \<and> reset_like kind q x"
      then obtain x where x: "b = acc @ [x]" "reset_like kind q x" by blast
      show "lifecycle.brings d (K \<union> {}) (foldP (\<lambda>acc r. bindP (reset_adapter d' kind r) (\<lambda>x. ret (acc @ [x]))) b qs)
          (\<lambda>_. {}) (\<lambda>xs. \<exists>ys. xs = acc @ ys \<and> list_all2 (reset_like kind) (q # qs) ys)"
        by (rule lifecycle.brings_weaken [OF Cons.IH]) (use x in auto)
    qed
  qed
  from this [of "[]"] show ?thesis
    unfolding reset_adapters_def by (rule lifecycle.brings_weaken) auto
qed

lemma reset_pending:
  assumes "kind \<noteq> JobExport" and "all_in AdapterPending rs"
    and "list_all2 (reset_like kind) (filter P rs) xs"
  shows "all_in AdapterPending xs"
  using assms(3,2)
proof (induction rs arbitrary: xs)
  case (Cons r rs)
  show ?case
  proof (cases "P r")
    case True
    with Cons.prems(1) obtain y ys where xs: "xs = y # ys" "reset_like kind r y"
        "list_all2 (reset_like kind) (filter P rs) ys"
      by (auto simp: list_all2_Cons1)
    with Cons.IH [OF xs(3)] Cons.prems(2) assms(1) show ?thesis by (simp add: reset_like_def)
  next
    case False
    with Cons show ?thesis by simp
  qed
qed simp

lemma reset_tidy:
  assumes "kind \<noteq> JobExport" and "tidy rs" and "list_ex (\<lambda>r. result_status r = AdapterFailed) rs"
    and "list_all2 (reset_like kind) (filter P rs) xs"
  shows "tidy xs \<and> status_fits JobQueued xs"
  using assms(2-4)
proof (induction rs arbitrary: xs)
  case (Cons r rs)
  show ?case
  proof (cases "result_status r = AdapterSucceeded")
    case True
    show ?thesis
    proof (cases "P r")
      case False
      with True Cons show ?thesis by simp
    next
      case keep: True
      with Cons.prems(3) obtain y ys where xs: "xs = y # ys" "reset_like kind r y"
          "list_all2 (reset_like kind) (filter P rs) ys"
        by (auto simp: list_all2_Cons1)
      with True assms(1) have "y = r" by (simp add: reset_like_def)
      moreover have "tidy ys \<and> status_fits JobQueued ys"
        using Cons.IH [OF _ _ xs(3)] Cons.prems(1,2) True by simp
      ultimately show ?thesis using True by (simp add: xs(1))
    qed
  next
    case False
    with Cons.prems(1) have pending: "all_in AdapterPending rs"
      by (simp split: lifecycle_adapter_status.splits)
    with Cons.prems(1,2) False have r: "result_status r = AdapterFailed"
      by (auto simp: list_all_iff list_ex_iff)
    have "all_in AdapterPending xs"
    proof (cases "P r")
      case True
      with Cons.prems(3) obtain y ys where xs: "xs = y # ys" "reset_like kind r y"
          "list_all2 (reset_like kind) (filter P rs) ys"
        by (auto simp: list_all2_Cons1)
      with r reset_pending [OF assms(1) pending xs(3)] show ?thesis by (simp add: reset_like_def)
    next
      case False
      with Cons.prems(3) reset_pending [OF assms(1) pending] show ?thesis by simp
    qed
    then show ?thesis by (auto simp: all_pending_tidy list_all_iff)
  qed
qed simp

lemma reset_names:
  "list_all2 (reset_like kind) qs xs \<Longrightarrow> map result_adapter xs = map result_adapter qs"
  by (induction rule: list_all2_induct) (simp_all add: reset_like_def)

lemma reset_succeeded:
  assumes "list_all2 (reset_like kind) qs xs" and "kind \<noteq> JobExport"
  shows "x \<in> set xs \<Longrightarrow> result_status x = AdapterSucceeded \<Longrightarrow> x \<in> set qs"
    and "x \<in> set qs \<Longrightarrow> result_status x = AdapterSucceeded \<Longrightarrow> x \<in> set xs"
  using assms(1) by (induction rule: list_all2_induct)
    (use assms(2) in \<open>auto simp: reset_like_def split: if_splits\<close>)

lemma distinct_names_filter:
  "distinct (map f rs) \<Longrightarrow> distinct (map f (filter P rs))"
  by (induction rs) auto

lemma reset_sound:
  assumes a: "job_sound a" "job_status a \<in> {JobPartialFailed, JobFailed}"
    and rs: "list_all2 (reset_like (job_kind a)) (filter (\<lambda>r. result_adapter r \<noteq> ''export-artifact'') (job_adapters a)) rs"
    and b: "b = a\<lparr>job_status := JobQueued, job_adapters := rs, job_updated_at := now,
      job_completed_at := None, job_fencing_token := job_fencing_token a + 1\<rparr>"
  shows "job_later a b" and "job_sound b" and "backed cs a \<Longrightarrow> backed cs b"
proof -
  have same: "same_job a b" by (rule same_jobI) (simp_all add: b)
  have db: "destructive b = destructive a" using same by (rule same_job_fields)
  show later: "job_later a b"
    by (rule job_laterI [OF same])
       (use a(2) reset_succeeded(2) [OF rs] in \<open>auto simp: b destructive_def\<close>)
  have "list_ex (\<lambda>r. result_status r = AdapterFailed) (job_adapters a)" "tidy (job_adapters a)"
      "distinct (map result_adapter (job_adapters a))" if "destructive a"
    using a that by (auto simp: job_sound_def)
  then have "tidy rs \<and> status_fits JobQueued rs" "distinct (map result_adapter rs)" if "destructive a"
    using reset_tidy [OF _ _ _ rs] reset_names [OF rs] distinct_names_filter that
    by (auto simp: destructive_def)
  with a(1) db show "job_sound b" by (auto simp: job_sound_def b)
  show "backed cs b" if cs: "backed cs a"
    unfolding backed_def
  proof (intro impI ballI)
    fix r
    assume "destructive b" and r: "r \<in> set (job_adapters b)" "result_status r = AdapterSucceeded"
    then have "r \<in> set (job_adapters a)" "destructive a"
      using reset_succeeded(1) [OF rs] db by (auto simp: b destructive_def)
    with cs r(2) obtain v where "DeleteCall v (result_adapter r) True \<in> set cs" "job_later v a"
        "job_fencing_token v < job_fencing_token a"
      unfolding backed_def by blast
    then show "\<exists>v. DeleteCall v (result_adapter r) True \<in> set cs \<and> job_later v b \<and>
        job_fencing_token v < job_fencing_token b"
      using job_later_trans [OF _ later] by (intro exI [of _ v]) (simp add: b)
  qed
qed

subsection \<open>The service\<close>

lemma keeps_retention_of [keeps_intros]: "lc_rely d \<Longrightarrow> lifecycle.keeps d K (retention_of d tn)"
  unfolding retention_of_def by (intro keeps_intros)

lemma keeps_replace_retention:
  assumes r: "lc_rely d"
  shows "lifecycle.keeps d K (replace_retention d tn user request)"
proof -
  have "lifecycle.keeps d K (bindP (construct retention_policy_valid p) (\<lambda>p.
      thenP (lc_await d (repo_write (policy_replace p (request_expected_revision request)))) (ret p)))"
    if "retention_revision p = request_expected_revision request + 1" for p
    unfolding construct_def using that
    by (auto intro!: keeps_intros r keeps_policy_replace)
  then show ?thesis unfolding replace_retention_def by (intro lifecycle.keeps_bind [OF keeps_lc_clock]) simp
qed

lemma keeps_lc_new_id [keeps_intros]: "lifecycle.keeps d K (lc_new_id d' prefix)"
  by (rule lifecycle.keeps_same, rule lc_sys_ids) (simp_all add: lc_new_id_def)

lemma keeps_validate_scope [keeps_intros]: "lifecycle.keeps d K (validate_scope tn s)"
  unfolding validate_scope_def by (intro keeps_intros)

lemma keeps_create_hold: "lc_rely d \<Longrightarrow> lifecycle.keeps d K (create_hold d tn user s reason)"
  unfolding create_hold_def by (intro keeps_intros keeps_hold_add)

lemma keeps_release_hold:
  assumes r: "lc_rely d"
  shows "lifecycle.keeps d K (release_hold d tn user hid)"
  unfolding release_hold_def Let_def
proof (rule lifecycle.keeps_brings_bind [OF brings_lc_await [OF r brings_hold_get]])
  fix h
  show "lifecycle.keeps d (K \<union> {KnowsHold h}) (if \<not> hold_active h then ret h
      else bindP (lc_clock d) (\<lambda>now. thenP (lc_await d (repo_write (hold_update
        (h\<lparr>hold_active := False, hold_released_by := Some user, hold_released_at := Some now\<rparr>))))
        (ret (h\<lparr>hold_active := False, hold_released_by := Some user, hold_released_at := Some now\<rparr>))))"
    by (intro keeps_intros r keeps_hold_update [where g = h]) simp_all
qed

lemma keeps_blocking_hold [keeps_intros]: "lc_rely d \<Longrightarrow> lifecycle.keeps d K (blocking_hold d tn s)"
  unfolding blocking_hold_def by (intro keeps_intros)

lemma keeps_refuse_held [keeps_intros]: "lc_rely d \<Longrightarrow> lifecycle.keeps d K (refuse_held d tn kind s)"
  unfolding refuse_held_def by (intro keeps_intros)

lemma keeps_cutoffs_of [keeps_intros]: "lc_rely d \<Longrightarrow> lifecycle.keeps d K (cutoffs_of d tn kind now)"
  unfolding cutoffs_of_def by (intro keeps_intros)

lemma pending_adapters_sound:
  assumes "lc_rely d"
  shows "all_in AdapterPending (pending_adapters d now)" and "tidy (pending_adapters d now)"
    and "distinct (map result_adapter (pending_adapters d now))"
proof -
  show p: "all_in AdapterPending (pending_adapters d now)"
    by (simp add: pending_adapters_def list_all_iff)
  then show "tidy (pending_adapters d now)" by (rule all_pending_tidy)
  have "map result_adapter (pending_adapters d now) = adapter_names d"
    by (simp add: pending_adapters_def adapter_names_def)
  then show "distinct (map result_adapter (pending_adapters d now))"
    using assms by (simp add: lc_rely_def service_distinct)
qed

lemma keeps_create_job [keeps_intros]:
  assumes r: "lc_rely d"
  shows "lifecycle.keeps d K (create_job d tn user request)"
proof -
  have "job_sound j"
    if "job_adapters j = pending_adapters d now" "job_status j = JobQueued" "job_fencing_token j = 0" for j now
    using pending_adapters_sound [OF r, of now] that by (auto simp: job_sound_def list_all_iff)
  then show ?thesis
    unfolding create_job_def
    by (intro lifecycle.keeps_then [OF keeps_validate_scope] lifecycle.keeps_option
        lifecycle.keeps_bind [OF keeps_lc_await [OF r keeps_repo_query]] lifecycle.keeps_if
        lifecycle.keeps_raise lifecycle.keeps_ret
        lifecycle.keeps_then [OF keeps_refuse_held [OF r]] lifecycle.keeps_bind [OF keeps_lc_clock]
        lifecycle.keeps_bind [OF keeps_cutoffs_of [OF r]] keeps_add_job [OF r])
       (simp_all add: pending_adapters_sound(1) [OF r])
qed

lemma keeps_enqueue_due:
  "lc_rely d \<Longrightarrow> lifecycle.keeps d K (enqueue_due_retention_jobs d)"
  unfolding enqueue_due_retention_jobs_def by (intro keeps_intros)

lemma keeps_retry_job:
  assumes r: "lc_rely d"
  shows "lifecycle.keeps d K (retry_job d tn jid)"
  unfolding retry_job_def Let_def
proof (rule lifecycle.keeps_brings_bind [OF brings_lc_await [OF r brings_jobs_get]])
  fix a
  let ?rest = "bindP (reset_adapters d (job_kind a) (job_adapters a)) (\<lambda>rs.
      bindP (lc_clock d) (\<lambda>now.
        bindP (lc_await d (jobs_cas (job_status a) (a\<lparr>job_status := JobQueued, job_adapters := rs,
            job_updated_at := now, job_completed_at := None,
            job_fencing_token := job_fencing_token a + 1\<rparr>))) (\<lambda>won.
          if won then ret (a\<lparr>job_status := JobQueued, job_adapters := rs, job_updated_at := now,
            job_completed_at := None, job_fencing_token := job_fencing_token a + 1\<rparr>)
          else raise (ConflictError ''data lifecycle job changed before retry''))))"
  have "lifecycle.keeps d (K \<union> {KnowsJob a}) ?rest" if st: "job_status a \<in> {JobPartialFailed, JobFailed}"
  proof (rule lifecycle.keeps_known)
    show "job_sound a" if "\<And>f. f \<in> K \<union> {KnowsJob a} \<Longrightarrow> lc_knows w f" for w
      using that [of "KnowsJob a"] by simp
  next
    assume sound: "job_sound a"
    show "lifecycle.keeps d (K \<union> {KnowsJob a}) ?rest"
    proof (rule lifecycle.keeps_brings_bind [OF brings_reset_adapters], rule lifecycle.keeps_bind [OF keeps_lc_clock])
      fix rs now
      assume rs: "list_all2 (reset_like (job_kind a))
        (filter (\<lambda>r. result_adapter r \<noteq> ''export-artifact'') (job_adapters a)) rs"
      note b = reset_sound [OF sound st rs refl, where now = now]
      show "lifecycle.keeps d ((K \<union> {KnowsJob a}) \<union> {})
          (bindP (lc_await d (jobs_cas (job_status a) (a\<lparr>job_status := JobQueued, job_adapters := rs,
            job_updated_at := now, job_completed_at := None,
            job_fencing_token := job_fencing_token a + 1\<rparr>))) (\<lambda>won.
          if won then ret (a\<lparr>job_status := JobQueued, job_adapters := rs, job_updated_at := now,
            job_completed_at := None, job_fencing_token := job_fencing_token a + 1\<rparr>)
          else raise (ConflictError ''data lifecycle job changed before retry'')))"
        by (intro lifecycle.keeps_bind keeps_lc_await r
            lifecycle.brings_keeps [OF brings_jobs_cas [where a = a]] b(1,2) keeps_intros) (simp_all add: b(3))
    qed
  qed
  then show "lifecycle.keeps d (K \<union> {KnowsJob a}) (if job_status a \<notin> {JobPartialFailed, JobFailed}
      then raise (ConflictError ''only failed data lifecycle jobs can be retried'')
      else thenP (refuse_held d tn (job_kind a) (job_scope a)) ?rest)"
    by (intro lifecycle.keeps_if lifecycle.keeps_raise lifecycle.keeps_then [OF keeps_refuse_held [OF r]]) blast
qed

subsection \<open>Histories\<close>

datatype lifecycle_call =
    CallReplaceRetention string string replace_retention_request
  | CallCreateHold string string lifecycle_scope string
  | CallReleaseHold string string string
  | CallCreateJob string string lifecycle_job_request
  | CallRetryJob string string
  | CallEnqueueDue
  | CallOverview string
  | CallGetJob string string
  | CallListJobs string int
  | CallDownload string string
  | CallProcessJob

definition forget_result :: "'a lc_handler \<Rightarrow> unit lc_handler" where
  "forget_result m = thenP m (ret ())"

fun lifecycle_perform :: "lifecycle_deps \<Rightarrow> lifecycle_call \<Rightarrow> unit lc_handler" where
  "lifecycle_perform d (CallReplaceRetention tn user q) = forget_result (replace_retention d tn user q)"
| "lifecycle_perform d (CallCreateHold tn user s reason) = forget_result (create_hold d tn user s reason)"
| "lifecycle_perform d (CallReleaseHold tn user hid) = forget_result (release_hold d tn user hid)"
| "lifecycle_perform d (CallCreateJob tn user q) = forget_result (create_job d tn user q)"
| "lifecycle_perform d (CallRetryJob tn jid) = forget_result (retry_job d tn jid)"
| "lifecycle_perform d CallEnqueueDue = forget_result (enqueue_due_retention_jobs d)"
| "lifecycle_perform d (CallOverview tn) = forget_result (overview d tn)"
| "lifecycle_perform d (CallGetJob tn jid) = forget_result (get_lifecycle_job d tn jid)"
| "lifecycle_perform d (CallListJobs tn limit) = forget_result (list_lifecycle_jobs d tn limit)"
| "lifecycle_perform d (CallDownload tn jid) = forget_result (download_export d tn jid)"
| "lifecycle_perform d CallProcessJob = forget_result (process_job d)"

inductive lifecycle_steps :: "lifecycle_deps \<Rightarrow> lifecycle_world \<Rightarrow> lifecycle_world \<Rightarrow> bool" for d where
  none: "lifecycle_steps d w w"
| call: "lifecycle_steps d w u \<Longrightarrow> lifecycle_perform d c u = (r, v) \<Longrightarrow> lifecycle_steps d w v"

lemma keeps_jobs_get [keeps_intros]: "lifecycle.keeps d K (jobs_get tn jid)"
  unfolding jobs_get_def by (rule keeps_lc_ask)

lemma keeps_lifecycle_perform:
  assumes r: "lc_rely d"
  shows "lifecycle.keeps d K (lifecycle_perform d c)"
  by (cases c)
     (auto simp: forget_result_def overview_def get_lifecycle_job_def list_lifecycle_jobs_def download_export_def
       intro!: keeps_intros r keeps_replace_retention keeps_create_hold keeps_release_hold keeps_retry_job
         keeps_enqueue_due keeps_process_job)

lemma lifecycle_steps_sys:
  assumes "lifecycle_steps d w t" and r: "lc_rely d" and "lc_sound d w"
  shows "lc_sys d w t \<and> lc_sound d t"
  using assms(1,3)
proof (induction rule: lifecycle_steps.induct)
  case (none w)
  then show ?case by (simp add: lc_sys_refl)
next
  case (call w u c x v)
  then have u: "lc_sys d w u" "lc_sound d u" by blast+
  have "lc_sys d u v"
    by (rule lifecycle.keepsD [OF keeps_lifecycle_perform [OF r, of "{}"] u(2) _ call.hyps(2)]) simp
  with u show ?case using lc_sys_trans lc_sysD(5) by blast
qed

lemma lc_sound_empty: "lc_sound d lifecycle_empty"
  by (simp add: lc_sound_def lifecycle_empty_def lifecycle_repo_empty_def lifecycle_repo_inv_def calls_ok_def)

end
