(* ===== verification/Lifecycle_Properties.thy ===== *)
theory Lifecycle_Properties
  imports Lifecycle_Platform
begin

section \<open>Properties of the jobs on user data\<close>

text \<open>
  First what holds in every history of services and controllers, then what a legal hold prevents.
\<close>

lemma reachable_sound:
  assumes "lc_rely d" and "lifecycle_steps d lifecycle_empty w"
  shows "lc_sound d w"
  using lifecycle_steps_sys [OF assms(2,1) lc_sound_empty] by blast

text \<open>
  C19. Data is deleted in the order of the adapters: in every state the services and controllers
  reach, under any interleaving, each call to the \<open>delete\<close> of an adapter was made for a job that
  deletes, while all adapters that come later in the job were pending, and after every adapter that
  comes earlier had been called for the same job, at an earlier version of it, and had returned.
  The job is still stored, as a later version of the one the adapter got.
\<close>

theorem deletions_in_order:
  assumes "lc_rely d" and "lifecycle_steps d lifecycle_empty w"
    and "n < length (lcw_calls w)" and "lcw_calls w ! n = DeleteCall j a ok"
  shows "job_kind j \<noteq> JobExport \<and>
    (\<exists>before r after. job_adapters j = before @ r # after \<and> result_adapter r = a \<and>
       (\<forall>x \<in> set after. result_status x = AdapterPending) \<and>
       (\<forall>x \<in> set before. \<exists>m < n. \<exists>v. lcw_calls w ! m = DeleteCall v (result_adapter x) True \<and>
          job_key v = job_key j \<and> job_fencing_token v < job_fencing_token j)) \<and>
    (\<exists>i. dict_get (lc_jobs (lcw_repo w)) (job_key j) = Some i \<and> job_later j i)"
proof -
  have w: "lc_sound d w" by (rule reachable_sound [OF assms(1,2)])
  have "call_ok (take n (lcw_calls w)) (DeleteCall j a ok)"
    using lc_soundD(2) [OF w] assms(3,4) unfolding calls_ok_def by (metis (no_types))
  then obtain before r after where j: "destructive j" "backed (take n (lcw_calls w)) j"
      "job_adapters j = before @ r # after" "result_adapter r = a"
      "all_in AdapterSucceeded before" "all_in AdapterPending after"
    unfolding call_ok_def Let_def by auto
  have earlier: "\<exists>m < n. \<exists>v. lcw_calls w ! m = DeleteCall v (result_adapter x) True \<and>
      job_key v = job_key j \<and> job_fencing_token v < job_fencing_token j" if "x \<in> set before" for x
  proof -
    have "x \<in> set (job_adapters j)" "result_status x = AdapterSucceeded"
      using that j(3,5) by (auto simp: list_all_iff)
    with j(1,2) obtain v where v: "DeleteCall v (result_adapter x) True \<in> set (take n (lcw_calls w))"
        "job_later v j" "job_fencing_token v < job_fencing_token j"
      unfolding backed_def by blast
    from v(1) obtain m where "m < n" "lcw_calls w ! m = DeleteCall v (result_adapter x) True"
      by (auto simp: in_set_conv_nth)
    with v(3) job_later_fields(1) [OF v(2)] show ?thesis by auto
  qed
  have "lcw_calls w ! n \<in> set (lcw_calls w)" using assms(3) by simp
  with lifecycle_repo_invD(7) [OF lc_soundD(1) [OF w]] assms(4)
  have "\<exists>i. dict_get (lc_jobs (lcw_repo w)) (job_key j) = Some i \<and> job_later j i" by force
  moreover have "\<forall>x \<in> set after. result_status x = AdapterPending" using j(6) by (simp add: list_all_iff)
  ultimately show ?thesis using j(1,3,4) earlier unfolding destructive_def by blast
qed


subsection \<open>Legal holds\<close>

text \<open>
  A second protocol: the others do not release the hold and make no calls, so that the calls added
  are those of the controller itself.
\<close>

definition hold_stands :: "legal_hold \<Rightarrow> lifecycle_world \<Rightarrow> bool" where
  "hold_stands h w \<longleftrightarrow> (\<exists>g. dict_get (lc_holds (lcw_repo w)) (hold_key h) = Some g \<and> hold_active g \<and>
     hold_scope g = hold_scope h)"

definition under_hold :: "legal_hold \<Rightarrow> lifecycle_job \<Rightarrow> bool" where
  "under_hold h j \<longleftrightarrow> job_tenant_id j = hold_tenant_id h \<and> scopes_overlap (hold_scope h) (job_scope j)"

definition hold_sys :: "legal_hold \<Rightarrow> lifecycle_world \<Rightarrow> lifecycle_world \<Rightarrow> bool" where
  "hold_sys h s t \<longleftrightarrow> (hold_stands h s \<longrightarrow> hold_stands h t) \<and>
     (\<exists>cs. lcw_calls t = lcw_calls s @ cs \<and> (\<forall>c \<in> set cs. \<not> under_hold h (called_job c)))"

interpretation hold: protocol "hold_stands h" "hold_sys h" "\<lambda>s (f :: unit). True" for h
proof unfold_locales
  show "hold_sys h s s" for s by (simp add: hold_sys_def)
  show "hold_sys h s u" if "hold_sys h s t" "hold_sys h t u" for s t u
    using that unfolding hold_sys_def by fastforce
  show "hold_stands h t" if "hold_sys h s t" "hold_stands h s" for s t
    using that by (simp add: hold_sys_def)
qed simp

lemma hold_sys_same:
  "lc_holds (lcw_repo t) = lc_holds (lcw_repo s) \<Longrightarrow> lcw_calls t = lcw_calls s \<Longrightarrow> hold_sys h s t"
  by (simp add: hold_sys_def hold_stands_def)

definition hold_rely :: "legal_hold \<Rightarrow> lifecycle_deps \<Rightarrow> bool" where
  "hold_rely h d \<longleftrightarrow> (\<forall>n w. hold_stands h w \<longrightarrow> hold_stands h (lcd_others d n w)) \<and>
     (\<forall>n w. lcw_calls (lcd_others d n w) = lcw_calls w)"

lemma hold_await:
  assumes "hold_rely h d"
  shows "hold.brings h K m L P \<Longrightarrow> hold.brings h K (lc_await d m) L P"
    and "hold.keeps h K m \<Longrightarrow> hold.keeps h K (lc_await d m)"
proof -
  have "hold_sys h w (lc_suspended d w)" if "hold_stands h w" for w
    using assms that by (simp add: hold_rely_def hold_sys_def lc_suspended_def hold_stands_def)
  note sus = this
  show "hold.brings h K m L P \<Longrightarrow> hold.brings h K (lc_await d m) L P"
    unfolding lc_await_def [abs_def] by (rule hold.brings_after [OF sus])
  show "hold.keeps h K m \<Longrightarrow> hold.keeps h K (lc_await d m)"
    unfolding lc_await_def [abs_def] by (rule hold.keeps_after [OF sus])
qed

lemma hold_keeps_plain:
  "hold.keeps h K (lc_clock d)" "hold.keeps h K (lc_ask f)" "hold.keeps h K (repo_query g)"
  "hold.keeps h K (jobs_cas e j)" "hold.keeps h K (export_put d tn oid content)"
  by (rule hold.keeps_same, rule hold_sys_same;
      simp add: lc_clock_def lc_ask_def repo_query_def jobs_cas_def job_cas_def export_put_def
        split: option.splits)+

lemma hold_keeps_related: "hold_rely h d \<Longrightarrow> hold.keeps h K (related_scopes d tn s)"
  unfolding related_scopes_def session_scopes_def
  by (cases "lcd_resolver d") (auto intro!: keeps_intros hold_await(2) hold_keeps_plain)

text \<open>The two checks for holds agree, and both find a hold that overlaps.\<close>

lemma hold_matches_iff: "hold_matches h ss \<longleftrightarrow> list_ex (scopes_overlap (hold_scope h)) ss"
  by (induction ss) (auto simp: scopes_overlap_def)

lemma first_blocking_find:
  "first_blocking ss hs =
     map_option hold_hold_id (List.find (\<lambda>h. hold_active h \<and> list_ex (scopes_overlap (hold_scope h)) ss) hs)"
  by (induction hs) (simp_all add: hold_matches_iff)

lemma held_listed:
  assumes "hold_stands h w"
  obtains g where "g \<in> set (hold_list (lcw_repo w) (hold_tenant_id h))" and "hold_active g"
    and "hold_scope g = hold_scope h"
proof -
  from assms obtain g where g: "dict_get (lc_holds (lcw_repo w)) (hold_key h) = Some g" "hold_active g"
      "hold_scope g = hold_scope h" unfolding hold_stands_def by blast
  then have "(hold_key h, g) \<in> set (lc_holds (lcw_repo w))" by (auto dest: map_of_SomeD)
  then have "g \<in> set (hold_list (lcw_repo w) (hold_tenant_id h))"
    by (force simp: hold_list_def hold_key_def)
  with g show thesis using that by blast
qed

lemma first_blocking_held:
  assumes "hold_stands h w" and "s \<in> set ss" and "scopes_overlap (hold_scope h) s"
  shows "first_blocking ss (hold_list (lcw_repo w) (hold_tenant_id h)) \<noteq> None"
proof -
  obtain g where "g \<in> set (hold_list (lcw_repo w) (hold_tenant_id h))" "hold_active g"
    "hold_scope g = hold_scope h" by (rule held_listed [OF assms(1)])
  with assms(2,3) have "\<exists>x \<in> set (hold_list (lcw_repo w) (hold_tenant_id h)).
      hold_active x \<and> list_ex (scopes_overlap (hold_scope x)) ss"
    by (metis list_ex_iff)
  then show ?thesis by (auto simp: first_blocking_find find_None_iff)
qed

definition default_scopes :: "lifecycle_deps \<Rightarrow> bool" where
  "default_scopes d \<longleftrightarrow> lcd_resolver d = SameScope \<or> lcd_resolver d = SessionScopes"

lemma hold_brings_related:
  assumes "hold_rely h d" and "default_scopes d"
  shows "hold.brings h K (related_scopes d tn s) (\<lambda>_. {}) (\<lambda>ss. s \<in> set ss)"
  using assms(2) unfolding related_scopes_def session_scopes_def default_scopes_def
  by (auto intro!: hold.brings_ret hold.brings_keeps_bind hold_await(2) [OF assms(1)] hold_keeps_plain)

lemma hold_brings_blocking:
  assumes "hold_rely h d" and "default_scopes d"
  shows "hold.brings h K (job_blocking_hold d j) (\<lambda>_. {}) (\<lambda>x. x = None \<longrightarrow> \<not> under_hold h j)"
  unfolding job_blocking_hold_def
proof (rule hold.brings_bind [OF hold_brings_related [OF assms]])
  fix ss
  assume ss: "job_scope j \<in> set ss"
  have q: "hold.brings h K (repo_query (\<lambda>r. hold_list r (job_tenant_id j))) (\<lambda>_. {})
      (\<lambda>hs. first_blocking ss hs = None \<longrightarrow> \<not> under_hold h j)" for K
  proof (rule hold.bringsI)
    fix w x t
    assume "hold_stands h w" and "repo_query (\<lambda>r. hold_list r (job_tenant_id j)) w = (Inr x, t)"
    then show "(first_blocking ss x = None \<longrightarrow> \<not> under_hold h j) \<and> (\<forall>f \<in> {}. True)"
      using first_blocking_held [OF _ ss, of h w] by (auto simp: repo_query_def lc_ask_def under_hold_def)
  qed (auto simp: repo_query_def lc_ask_def hold_sys_same)
  show "hold.brings h (K \<union> {}) (bindP (lc_await d (repo_query (\<lambda>r. hold_list r (job_tenant_id j))))
      (\<lambda>hs. ret (first_blocking ss hs))) (\<lambda>_. {}) (\<lambda>x. x = None \<longrightarrow> \<not> under_hold h j)"
    by (rule hold.brings_bind [OF hold_await(1) [OF assms(1) q]]) (auto intro!: hold.brings_ret)
qed

lemma hold_brings_replace:
  assumes "hold_rely h d"
  shows "hold.brings h K (replace_adapter d j x) (\<lambda>_. {}) (same_job j)"
  unfolding replace_adapter_def Let_def
  by (intro hold.brings_keeps_bind hold_keeps_plain hold_await(2) [OF assms])
     (auto intro!: hold.brings_ret hold.brings_raise same_jobI)

definition may_delete :: "legal_hold \<Rightarrow> lifecycle_job \<Rightarrow> bool" where
  "may_delete h j \<longleftrightarrow> job_kind j = JobExport \<or> \<not> under_hold h j"

lemma may_delete_same: "same_job j j' \<Longrightarrow> may_delete h j' = may_delete h j"
  using same_job_fields(4,5,6) [of j j'] by (simp add: may_delete_def under_hold_def)

lemma hold_keeps_call:
  assumes "hold_rely h d" and "may_delete h j"
  shows "hold.keeps h K (call_adapter d a j fs)"
proof -
  have "hold.keeps h K (external_delete a j)" if "job_kind j \<noteq> JobExport"
    by (rule hold.keeps_same)
       (use assms(2) that in \<open>simp add: may_delete_def external_delete_def Let_def hold_sys_def hold_stands_def\<close>)
  then show ?thesis
    unfolding call_adapter_def
    by (auto intro!: keeps_intros hold_await(2) [OF assms(1)] hold_keeps_plain)
qed

lemma hold_brings_run_adapter:
  assumes r: "hold_rely h d" and j: "may_delete h j"
  shows "hold.brings h K (run_adapter d item j fs) (\<lambda>_. {}) (\<lambda>(go_on, j', fs'). same_job j j')"
proof (cases "dict_get (adapter_table d) (result_adapter item)")
  case None
  then show ?thesis by (simp add: run_adapter_def hold.brings_raise)
next
  case (Some a)
  have last: "hold.brings h K (bindP (lc_clock d) (\<lambda>t. bindP (replace_adapter d running (x t)) (\<lambda>j'. ret (go j', j', fs'))))
      (\<lambda>_. {}) (\<lambda>(go_on, j', fs'). same_job j j')"
    if "same_job j running" for running x go fs' K
    by (rule hold.brings_keeps_bind [OF hold_keeps_plain(1)], rule hold.brings_bind [OF hold_brings_replace [OF r]])
       (use same_job_trans [OF that] in \<open>auto intro!: hold.brings_ret\<close>)
  show ?thesis
    unfolding run_adapter_def Some option.case Let_def
  proof (rule hold.brings_keeps_bind [OF hold_keeps_plain(1)], rule hold.brings_bind [OF hold_brings_replace [OF r]])
    fix now running
    assume running: "same_job j running"
    then have "may_delete h running" using j may_delete_same by blast
    note call = hold.keeps_try [OF hold_keeps_call [OF r this]]
    show "hold.brings h (K \<union> {}) (bindP (tryP (call_adapter d a running fs)) (\<lambda>answer. case answer of
          Inl e \<Rightarrow> if e = NotReturned then raise e
            else bindP (lc_clock d) (\<lambda>t.
              bindP (replace_adapter d running (failed_result (started_result item now) e t)) (\<lambda>j'.
                ret (job_kind j' = JobExport, j', fs)))
        | Inr (fragments', count) \<Rightarrow> bindP (lc_clock d) (\<lambda>t.
              bindP (replace_adapter d running (succeeded_result (started_result item now) count t)) (\<lambda>j'.
                ret (True, j', fragments'))))) (\<lambda>_. {}) (\<lambda>(go_on, j', fs'). same_job j j')"
      by (rule hold.brings_keeps_bind [OF call])
         (auto split: sum.split intro: last [OF running] hold.brings_raise)
  qed
qed

lemma hold_keeps_run_adapters:
  assumes r: "hold_rely h d"
  shows "may_delete h j \<Longrightarrow> hold.keeps h K (run_adapters d items j fs)"
proof (induction items arbitrary: j fs K)
  case (Cons item items)
  have "hold.keeps h K (bindP (run_adapter d item j fs) (\<lambda>(go_on, j', fs').
      if go_on then run_adapters d items j' fs' else ret (j', fs')))"
    by (rule hold.keeps_brings_bind [OF hold_brings_run_adapter [OF r Cons.prems]])
       (use Cons may_delete_same in \<open>auto intro!: hold.keeps_ret\<close>)
  with Cons show ?case by simp
qed (simp add: hold.keeps_ret)

lemma hold_keeps_carry_out:
  assumes r: "hold_rely h d" and ds: "default_scopes d"
  shows "hold.keeps h K (carry_out_job d j)"
proof -
  have mark: "hold.keeps h K (mark_hold_failure d j hid)" for hid K
    unfolding mark_hold_failure_def
    by (auto intro!: keeps_intros hold_keeps_plain hold.brings_keeps [OF hold_brings_replace [OF r]]
        split: option.split)
  have finish: "hold.keeps h K (finish_job d j')" for j' K
    unfolding finish_job_def Let_def by (intro keeps_intros hold_keeps_plain hold_await(2) [OF r])
  have export: "hold.keeps h K (try_export d j' fs)" for j' fs K
    unfolding try_export_def store_export_def Let_def
    by (intro keeps_intros hold_keeps_plain hold_await(2) [OF r])
  have rest: "hold.keeps h K (case x of (j', fs) \<Rightarrow>
      bindP (if job_kind j' = JobExport then try_export d j' fs else ret j') (finish_job d))" for x K
    by (cases x) (auto intro!: keeps_intros finish export)
  have check: "hold.brings h K (if job_kind j \<noteq> JobExport then job_blocking_hold d j else ret None)
      (\<lambda>_. {}) (\<lambda>x. x = None \<longrightarrow> may_delete h j)"
    by (auto intro!: hold.brings_ret hold.brings_weaken [OF hold_brings_blocking [OF r ds]]
        simp: may_delete_def)
  show ?thesis
    unfolding carry_out_job_def
  proof (rule hold.keeps_brings_bind [OF check])
    fix held' :: "string option"
    assume "held' = None \<longrightarrow> may_delete h j"
    then show "hold.keeps h (K \<union> {}) (bindP (case held' of
         Some hid \<Rightarrow> bindP (mark_hold_failure d j hid) (\<lambda>j'. ret (j', []))
       | None \<Rightarrow> run_adapters d (job_adapters j) j []) (\<lambda>(j', fragments).
       bindP (if job_kind j' = JobExport then try_export d j' fragments else ret j') (\<lambda>j''. finish_job d j'')))"
      by (intro hold.keeps_bind rest)
         (auto intro!: keeps_intros mark hold_keeps_run_adapters [OF r] split: option.split)
  qed
qed

lemma hold_keeps_process:
  assumes r: "hold_rely h d" and ds: "default_scopes d"
  shows "hold.keeps h K (process_job d)"
proof -
  have one: "hold.keeps h K (bindP (lc_clock d) (\<lambda>now.
      bindP (lc_await d (jobs_cas JobQueued (claim_job a now))) (\<lambda>won.
         if \<not> won then ret None
         else bindP (carry_out_job d (claim_job a now)) (\<lambda>j. ret (Some j)))))" for a K
    by (intro keeps_intros hold_keeps_plain hold_await(2) [OF r] hold_keeps_carry_out [OF r ds])
  then have "hold.keeps h K (case js of [] \<Rightarrow> ret None | queued # _ \<Rightarrow>
      bindP (lc_clock d) (\<lambda>now. bindP (lc_await d (jobs_cas JobQueued (claim_job queued now))) (\<lambda>won.
        if \<not> won then ret None
        else bindP (carry_out_job d (claim_job queued now)) (\<lambda>j. ret (Some j)))))" for js K
    by (cases js) (auto intro: hold.keeps_ret)
  then show ?thesis
    unfolding process_job_def by (intro hold.keeps_bind hold_await(2) [OF r] hold_keeps_plain(3))
qed

text \<open>
  C21. While a legal hold is active, the controller deletes nothing of its scope: if the hold is in
  the store and active when \<^verbatim>\<open>process_once\<close> starts, and the others release it at no await (they may do
  anything else to the jobs, policies, sessions and other holds), then no call to the \<open>delete\<close> of an
  adapter is made for a job of the tenant whose scope overlaps the hold's. The scopes of a job are
  resolved as the service does by default or as \<^verbatim>\<open>composition.py\<close> does.
\<close>

theorem hold_blocks_deletion:
  assumes "\<And>n w. hold_stands h w \<Longrightarrow> hold_stands h (lcd_others d n w)"
    and "\<And>n w. lcw_calls (lcd_others d n w) = lcw_calls w"
    and "lcd_resolver d = SameScope \<or> lcd_resolver d = SessionScopes"
    and "hold_stands h w" and "process_job d w = (r, t)"
  shows "\<exists>cs. lcw_calls t = lcw_calls w @ cs \<and>
    (\<forall>c \<in> set cs. \<not> (job_tenant_id (called_job c) = hold_tenant_id h \<and>
       scopes_overlap (hold_scope h) (job_scope (called_job c))))"
proof -
  have "hold.keeps h {} (process_job d)"
    by (rule hold_keeps_process) (use assms(1-3) in \<open>auto simp: hold_rely_def default_scopes_def\<close>)
  from hold.keepsD [OF this assms(4) _ assms(5)] show ?thesis
    by (simp add: hold_sys_def under_hold_def)
qed

end
