(* ===== verification/Lifecycle_Samples.thy ===== *)
theory Lifecycle_Samples
  imports Lifecycle_Properties
begin

section \<open>Jobs on user data: samples\<close>

text \<open>
  The theorems at a small platform with two external stores, and two behaviours of the code that
  are not what it means to do, evaluated by the kernel.
\<close>

definition sample_store :: "string \<Rightarrow> lifecycle_adapter" where
  "sample_store name = \<lparr>lcad_name = name, lcad_export = (\<lambda>n j. Inr (JObj [], 1)),
     lcad_delete = (\<lambda>n j. Inr 1)\<rparr>"

definition sample_lifecycle :: lifecycle_deps where
  "sample_lifecycle = \<lparr>lcd_clock = (\<lambda>n. 0),
     lcd_new_id = (\<lambda>prefix n. prefix @ replicate n (CHR ''i'')), lcd_others = (\<lambda>n w. w),
     lcd_adapters = [sample_store ''objects'', sample_store ''rows''], lcd_resolver = SessionScopes,
     lcd_put_error = (\<lambda>n. None), lcd_zip = (\<lambda>fs. []), lcd_sha = (\<lambda>s. s), lcd_ellip = CHR ''.''\<rparr>"

lemma sample_lifecycle_rely: "lc_rely sample_lifecycle"
proof -
  have "inj (lcd_new_id sample_lifecycle ''lifecycle'')"
    by (rule injI) (simp add: sample_lifecycle_def)
  moreover have "lifecycle_service sample_lifecycle = Inr ()"
    unfolding service_distinct by (simp add: sample_lifecycle_def adapter_names_def sample_store_def)
  ultimately show ?thesis by (simp add: lc_rely_def sample_lifecycle_def lc_sys_refl)
qed

definition delete_of :: "lifecycle_scope_kind \<Rightarrow> string \<Rightarrow> lifecycle_job_request" where
  "delete_of kind subject = \<lparr>request_kind = JobDelete,
     request_scope = \<lparr>lscope_kind = kind, lscope_subject_id = subject\<rparr>,
     request_idempotency_key = ''k''\<rparr>"

fun after_calls :: "lifecycle_call list \<Rightarrow> lifecycle_world \<Rightarrow> lifecycle_world" where
  "after_calls [] w = w"
| "after_calls (c # cs) w = after_calls cs (snd (lifecycle_perform sample_lifecycle c w))"

lemma after_calls_steps:
  "lifecycle_steps sample_lifecycle v w \<Longrightarrow> lifecycle_steps sample_lifecycle v (after_calls cs w)"
proof (induction cs arbitrary: w)
  case (Cons c cs)
  from Cons.prems have "lifecycle_steps sample_lifecycle v (snd (lifecycle_perform sample_lifecycle c w))"
    by (rule lifecycle_steps.call) (rule surjective_pairing)
  with Cons.IH show ?case by simp
qed simp

definition user_queued :: lifecycle_world where
  "user_queued = after_calls [CallCreateJob ''t'' ''admin'' (delete_of UserScope ''u'')] lifecycle_empty"

definition user_deleted :: lifecycle_world where
  "user_deleted = after_calls [CallProcessJob] user_queued"

lemma user_steps: "lifecycle_steps sample_lifecycle lifecycle_empty user_queued"
    "lifecycle_steps sample_lifecycle user_queued user_deleted"
  unfolding user_queued_def user_deleted_def by (intro after_calls_steps lifecycle_steps.none)+

lemma user_deleted_steps: "lifecycle_steps sample_lifecycle lifecycle_empty user_deleted"
  unfolding user_deleted_def by (intro after_calls_steps user_steps)

lemma user_deleted_calls:
  "map (\<lambda>c. (called_adapter c, called_ok c)) (lcw_calls user_deleted) = [(''objects'', True), (''rows'', True)]"
  by code_simp

lemma deletions_in_order_witness:
  "\<exists>i. dict_get (lc_jobs (lcw_repo user_deleted)) (job_key (called_job (lcw_calls user_deleted ! 1))) = Some i"
proof -
  have n: "1 < length (lcw_calls user_deleted)"
    using arg_cong [OF user_deleted_calls, of length] by simp
  have "lcw_calls user_deleted ! 1 = DeleteCall (called_job (lcw_calls user_deleted ! 1))
      (called_adapter (lcw_calls user_deleted ! 1)) (called_ok (lcw_calls user_deleted ! 1))"
    by simp
  from deletions_in_order [OF sample_lifecycle_rely user_deleted_steps n this] show ?thesis by blast
qed

definition queued_job :: lifecycle_job where
  "queued_job = the (dict_get (lc_jobs (lcw_repo user_queued)) (''t'', ''lifecycle''))"

lemma queued_job_stored:
  "dict_get (lc_jobs (lcw_repo user_queued)) (''t'', ''lifecycle'') = Some queued_job"
proof -
  have "dict_get (lc_jobs (lcw_repo user_queued)) (''t'', ''lifecycle'') \<noteq> None" by code_simp
  then show ?thesis unfolding queued_job_def by auto
qed


definition user_held :: lifecycle_world where
  "user_held = after_calls [CallCreateHold ''t'' ''admin''
     \<lparr>lscope_kind = UserScope, lscope_subject_id = ''u''\<rparr> ''litigation''] user_queued"

definition user_hold :: legal_hold where
  "user_hold = the (dict_get (lc_holds (lcw_repo user_held)) (''t'', ''holdi''))"

lemma user_hold_held: "hold_stands user_hold user_held"
proof -
  have get: "dict_get (lc_holds (lcw_repo user_held)) (''t'', ''holdi'') \<noteq> None" by code_simp
  have "hold_key user_hold = (''t'', ''holdi'') \<and> hold_active user_hold" by code_simp
  with get show ?thesis unfolding hold_stands_def user_hold_def by auto
qed

lemma hold_blocks_deletion_witness:
  "\<exists>cs. lcw_calls (snd (process_job sample_lifecycle user_held)) = lcw_calls user_held @ cs \<and>
     (\<forall>c \<in> set cs. \<not> (job_tenant_id (called_job c) = hold_tenant_id user_hold \<and>
        scopes_overlap (hold_scope user_hold) (job_scope (called_job c))))"
  by (rule hold_blocks_deletion [OF _ _ _ user_hold_held surjective_pairing])
     (simp_all add: sample_lifecycle_def)

subsection \<open>Gaps\<close>

text \<open>
  A hold on a session does not keep the data of its user: the resolver adds the user and the agent
  to a session, but not the sessions to a user. And a job whose session is gone fails outside every
  \<^verbatim>\<open>try\<close> after it was claimed: it stays in the status running, which neither the controller nor a
  retry takes up again.
\<close>

definition session_of_user :: session where
  "session_of_user = \<lparr>session_id = ''s'', session_tenant_id = ''t'', session_user_id = ''u'',
     session_agent_owner_user_id = None, session_agent_name = ''a'', session_agent_version = ''1'',
     session_created_at = 0, session_team_ids = [], session_api_key_id = None,
     session_claude_session_id = None, session_workspace_snapshot_id = None,
     session_environment = None, session_deployment_snapshot_id = None,
     session_environment_snapshot = None, session_knowledge_snapshot_bindings = []\<rparr>"

definition with_session :: lifecycle_world where
  "with_session = lifecycle_empty\<lparr>lcw_sessions := [((''t'', ''s''), session_of_user)]\<rparr>"

lemma lifecycle_gaps:
  "map called_adapter (lcw_calls (after_calls
     [CallCreateHold ''t'' ''admin'' \<lparr>lscope_kind = SessionScope, lscope_subject_id = ''s''\<rparr> ''litigation'',
      CallCreateJob ''t'' ''admin'' (delete_of UserScope ''u''), CallProcessJob] with_session)) =
     [''objects'', ''rows'']"
  "let queued = after_calls [CallCreateJob ''t'' ''admin'' (delete_of SessionScope ''s'')] with_session;
       stuck = after_calls [CallProcessJob] (queued\<lparr>lcw_sessions := []\<rparr>)
   in map job_status (dict_values (lc_jobs (lcw_repo stuck))) = [JobRunning] \<and>
      list_runnable (lcw_repo stuck) 1 = [] \<and>
      fst (retry_job sample_lifecycle ''t'' ''lifecycle'' stuck) =
        Inl (ConflictError ''only failed data lifecycle jobs can be retried'')"
  by code_simp+

end
