(* ===== verification/Gate_Guarantees.thy ===== *)
theory Gate_Guarantees
  imports Gate_Outcomes Quota_Atomic
begin

section \<open>What every hook of the gate keeps\<close>

text \<open>
  The trust of a run never rises again, what was seen of a file at first is never forgotten, and
  every file that counts as made by the run was absent when the run first named it, lies inside
  the workspace and is no input. Hooks that interleave keep this for each other, and the world
  moves along the protocol of the platform.
\<close>

definition inside_workspace :: "file_capabilities \<Rightarrow> pure_path \<Rightarrow> bool" where
  "inside_workspace fc p \<longleftrightarrow> path_relative_to p (fc_workspace fc) \<and> p \<noteq> fc_workspace fc"

definition run_made :: "gate_config \<Rightarrow> gate_state \<Rightarrow> pure_path \<Rightarrow> bool" where
  "run_made cfg g p \<longleftrightarrow> dict_get (gt_initial_exists g) p = Some False \<and>
     inside_workspace (gc_files cfg) p \<and> \<not> file_protected (gc_files cfg) p"

definition gate_ok :: "gate_config \<Rightarrow> gate_state \<Rightarrow> bool" where
  "gate_ok cfg g \<longleftrightarrow> (\<forall>p. p \<in> set (gt_generated g) \<longrightarrow> run_made cfg g p) \<and>
     (\<forall>i p. dict_get (gt_writes g) i = Some p \<longrightarrow> run_made cfg g p)"

definition gate_later :: "gate_config \<Rightarrow> gate_state \<Rightarrow> gate_state \<Rightarrow> bool" where
  "gate_later cfg g g' \<longleftrightarrow> trust_precedence (gt_trust g) \<le> trust_precedence (gt_trust g') \<and>
     (\<forall>p b. dict_get (gt_initial_exists g) p = Some b \<longrightarrow>
        dict_get (gt_initial_exists g') p = Some b) \<and>
     set (gt_generated g) \<subseteq> set (gt_generated g') \<and> (gate_ok cfg g \<longrightarrow> gate_ok cfg g')"

definition gate_sys ::
  "gate_deps \<Rightarrow> gate_config \<Rightarrow> gate_state \<times> world \<Rightarrow> gate_state \<times> world \<Rightarrow> bool" where
  "gate_sys d cfg s t \<longleftrightarrow> gate_later cfg (fst s) (fst t) \<and>
     (world_sound (gd_services d) (snd s) \<longrightarrow> sys (gd_services d) (snd s) (snd t))"

text \<open>What the gate expects: services that keep their protocol, other hooks that keep this one.\<close>

definition gate_rely :: "gate_deps \<Rightarrow> gate_config \<Rightarrow> bool" where
  "gate_rely d cfg \<longleftrightarrow> rely (gd_services d) \<and> (\<forall>n g. gate_later cfg g (gd_hooks d n g))"

lemma gate_later_refl: "gate_later cfg g g"
  by (simp add: gate_later_def)

lemma gate_later_trans: "gate_later cfg g h \<Longrightarrow> gate_later cfg h k \<Longrightarrow> gate_later cfg g k"
  unfolding gate_later_def by (meson order_trans subset_trans)

lemma gate_later_same:
  assumes "gt_trust h = gt_trust g" and "gt_initial_exists h = gt_initial_exists g"
    and "gt_generated h = gt_generated g" and "gt_writes h = gt_writes g"
  shows "gate_later cfg g h"
  using assms by (simp add: gate_later_def gate_ok_def run_made_def)

interpretation gate: evolution "gate_sys d cfg"
proof
  show "gate_sys d cfg s s" for s by (simp add: gate_sys_def gate_later_refl sys.R_refl)
  show "gate_sys d cfg s t \<Longrightarrow> gate_sys d cfg t u \<Longrightarrow> gate_sys d cfg s u" for s t u
    unfolding gate_sys_def by (blast intro: gate_later_trans sys.R_trans dest: sys_ownD(5))
qed

lemmas gate_intros = gate.evolves_ret gate.evolves_raise gate.evolves_readP gate.evolves_bindP
  gate.evolves_thenP gate.evolves_tryP gate.evolves_whenP gate.evolves_If gate.evolves_catchP
  gate.evolves_case_option

subsection \<open>The building blocks\<close>

lemma gate_shared:
  assumes "gate_rely d cfg" and "upholds (gd_services d) {} {} m"
  shows "evolves (gate_sys d cfg) (shared d m)"
proof (rule evolvesI)
  fix s r t
  assume run: "shared d m s = (r, t)"
  obtain g w where s: "s = (g, w)" by (cases s)
  obtain u where m: "m w = (r, u)" and t: "t = (gd_hooks d (w_awaits u) g, u)"
    using run by (cases "m w") (simp add: shared_def s)
  have "sys (gd_services d) w u" if "world_sound (gd_services d) w"
    by (rule upholdsD [OF assms(2) that _ _ m]) simp_all
  with assms(1) show "gate_sys d cfg s t" by (simp add: gate_sys_def gate_rely_def s t)
qed

lemma gate_evolves_read: "evolves (gate_sys d cfg) (gate_read f)"
  unfolding gate_read_def by (rule gate.evolves_readP)

lemma gate_evolves_files: "evolves (gate_sys d cfg) (files_now d)"
  unfolding files_now_def by (rule gate.evolves_readP)

lemma gate_evolves_update:
  "(\<And>g. gate_later cfg g (f g)) \<Longrightarrow> evolves (gate_sys d cfg) (gate_update f)"
  by (simp add: gate_update_def evolves_def gate_sys_def sys.R_refl split_beta)

lemma observe_later: "gate_later cfg g (gate_observe fv p g)"
  by (auto simp: gate_observe_def gate_later_def gate_ok_def run_made_def)

lemma note_write_later:
  assumes p: "inside_workspace (gc_files cfg) p"
    and run: "note_authorized_write (gc_files cfg) call p g = Inr h"
  shows "gate_later cfg g h"
  using assms by (auto simp: note_authorized_write_def gate_later_def gate_ok_def run_made_def
    split: option.splits if_splits)

lemma note_success_later: "gate_later cfg g (note_success call tool g)"
  by (auto simp: note_success_def gate_later_def gate_ok_def run_made_def Let_def
    split: option.splits if_splits)

lemma note_failure_later: "gate_later cfg g (note_failure call g)"
  by (auto simp: note_failure_def gate_later_def gate_ok_def run_made_def split: if_splits)

lemma expected_later: "gate_later cfg g (note_expected cfg hi g)" "gate_later cfg g (forget_expected hi g)"
  by (rule gate_later_same; simp add: note_expected_def forget_expected_def split: prod.split)+

lemma target_inside: "fc_target fv fc arguments = Some p \<Longrightarrow> inside_workspace fc p"
  by (auto simp: fc_target_def fc_normalize_def inside_workspace_def
    split: json.splits if_splits option.splits)

subsection \<open>The hooks\<close>

lemma gate_services: "gate_rely d cfg \<Longrightarrow> rely (gd_services d)"
  by (simp add: gate_rely_def)

lemma gate_evolves_event: "gate_rely d cfg \<Longrightarrow> evolves (gate_sys d cfg) (gate_event d cfg' type payload)"
  unfolding gate_event_def Let_def
  by (intro gate_intros gate_shared upholds_event_append gate_services)

lemma gate_evolves_deny: "gate_rely d cfg \<Longrightarrow> evolves (gate_sys d cfg) (deny_call d cfg' call reason)"
  unfolding deny_call_def append_denied_def by (intro gate_intros gate_evolves_event)

lemma gate_evolves_await_approval:
  "gate_rely d cfg \<Longrightarrow> evolves (gate_sys d cfg) (await_approval d cfg' hi arguments result)"
  unfolding await_approval_def Let_def
  by (intro gate_intros gate_shared upholds_approvals_request upholds_wait_for_decision
    upholds_cancel_pending gate_services)

lemma gate_evolves_charge: "gate_rely d cfg \<Longrightarrow> evolves (gate_sys d cfg) (charge_call d cfg' hi)"
  unfolding charge_call_def Let_def
  by (intro gate_intros gate_shared upholds_service_consume upholds_service_reserve gate_services)

lemma gate_evolves_allow:
  assumes r: "gate_rely d cfg"
  shows "evolves (gate_sys d cfg) (allow_call d cfg' hi reason updated)"
proof -
  have "evolves (gate_sys d cfg) (case outcome of
        Inl e \<Rightarrow> (case e of
            QuotaExceededError res _ _ _ \<Rightarrow>
              deny_call d cfg' (hi_tool_use_id hi) (''quota exceeded for '' @ res)
          | _ \<Rightarrow> raise e)
      | Inr _ \<Rightarrow> thenP (gate_event d cfg' ''tool.allowed'' [(''tool_call_id'', JStr (hi_tool_use_id hi))])
          (ret (hook_output_of ''allow'' reason updated)))" for outcome :: "herror + unit"
    using r by (auto intro!: gate_intros gate_evolves_event gate_evolves_deny
      split: sum.split herror.split)
  then show ?thesis
    unfolding allow_call_def using r by (intro gate_intros gate_evolves_charge)
qed

lemma gate_evolves_note_write:
  assumes "\<And>p. target = Some p \<Longrightarrow> inside_workspace (gc_files cfg) p"
  shows "evolves (gate_sys d cfg) (note_write cfg hi target)"
  using assms note_write_later
  by (auto simp: note_write_def evolves_def gate_sys_def gate_later_refl sys.R_refl
    split: option.split sum.split)

lemma gate_evolves_judge:
  assumes r: "gate_rely d cfg"
    and "\<And>p. target = Some p \<Longrightarrow> inside_workspace (gc_files cfg) p"
  shows "evolves (gate_sys d cfg) (judge d cfg rules hi arguments updated trust target)"
  unfolding judge_def carry_out_def Let_def using assms
  by (auto intro!: gate_intros gate_evolves_read gate_evolves_deny gate_evolves_await_approval
    gate_evolves_note_write gate_evolves_allow split: policy_decision.split)

lemma gate_evolves_decide:
  assumes r: "gate_rely d cfg"
  shows "evolves (gate_sys d cfg) (decide_call d cfg rules hi arguments updated trust)"
proof -
  have "evolves (gate_sys d cfg) (case fc_target fv (gc_files cfg) arguments of
        None \<Rightarrow> deny_call d cfg (hi_tool_use_id hi) ''write path must stay within the run workspace''
      | Some p \<Rightarrow> thenP (gate_update (gate_observe fv p))
          (judge d cfg rules hi arguments updated trust (Some p)))" for fv
    using r target_inside [of fv "gc_files cfg" arguments]
    by (auto intro!: gate_intros gate_evolves_deny gate_evolves_judge gate_evolves_update
      observe_later split: option.split)
  then show ?thesis
    unfolding decide_call_def Let_def using r
    by (intro gate.evolves_If gate.evolves_bindP gate_evolves_deny gate_evolves_judge
      gate_evolves_files) simp_all
qed

lemma gate_evolves_authorize:
  "gate_rely d cfg \<Longrightarrow> evolves (gate_sys d cfg) (authorize d cfg policy hi trust)"
  unfolding authorize_def Let_def
  by (intro gate_intros gate_evolves_files)
    (auto intro!: gate_intros gate_evolves_event gate_evolves_decide split: sum.split)

lemma gate_evolves_hook:
  assumes r: "gate_rely d cfg"
  shows "evolves (gate_sys d cfg) (perform_hook d cfg h)"
proof (cases h)
  case (PreToolUse hi)
  with r show ?thesis
    by (auto intro!: gate_intros gate_evolves_update expected_later gate_evolves_read
      gate_evolves_authorize simp: pre_tool_use_def)
next
  case (ToolSucceeded hi)
  have higher: "gate_later cfg g (g\<lparr>gt_trust := trust\<rparr>)"
    if "trust_precedence (gt_trust g) < trust_precedence trust" for g trust
    using that by (simp add: gate_later_def gate_ok_def run_made_def)
  show ?thesis
  proof (rule evolvesI)
    fix s o1 t
    assume run: "perform_hook d cfg h s = (o1, t)"
    obtain g w where s: "s = (g, w)" by (cases s)
    let ?g = "forget_expected hi g"
    have 1: "gate_sys d cfg s (?g, w)"
      by (simp add: s gate_sys_def expected_later sys.R_refl)
    show "gate_sys d cfg s t"
    proof (cases "dict_get (gt_pending g) (hi_tool_use_id hi)")
      case None
      with run ToolSucceeded 1 show ?thesis
        by (simp add: trace_tool_success_def prog_apply gate_read_def gate_update_def s)
    next
      case (Some x)
      obtain tool trust rule where x: "x = (tool, trust, rule)" by (cases x)
      show ?thesis
      proof (cases "trust_precedence (gt_trust g) < trust_precedence trust")
        case False
        with run ToolSucceeded 1 Some x show ?thesis
          by (simp add: trace_tool_success_def prog_apply gate_read_def gate_update_def s)
      next
        case True
        let ?h = "?g\<lparr>gt_trust := trust\<rparr>"
        have 2: "gate_sys d cfg (?g, w) (?h, w)"
          using True by (simp add: gate_sys_def higher forget_expected_def sys.R_refl)
        from True have "gate_event d cfg ''context.trust.changed''
            (trust_changed_payload (hi_tool_use_id hi) tool (gt_trust g) trust rule) (?h, w) = (o1, t)"
          using run ToolSucceeded Some x
          by (simp add: trace_tool_success_def prog_apply gate_read_def gate_update_def s)
        then have "gate_sys d cfg (?h, w) t" by (rule evolvesD [OF gate_evolves_event [OF r]])
        with 1 2 show ?thesis by (blast intro: gate.R_trans)
      qed
    qed
  qed
next
  case (DelegationEnded hi)
  with r show ?thesis
    by (auto intro!: gate_intros gate_shared upholds_release_idempotency gate_services
      simp: release_delegation_def)
qed (auto intro!: gate_evolves_update note_success_later note_failure_later expected_later
  simp: post_tool_use_def post_tool_use_failure_def trace_tool_failure_def)

lemma gate_steps_sys:
  assumes "gate_steps d cfg s t" and "gate_rely d cfg"
  shows "gate_sys d cfg s t"
  using assms
proof (induction rule: gate_steps.induct)
  case (none s)
  show ?case by (rule gate.R_refl)
next
  case (hook s t h r u)
  from hook.hyps(2) have "gate_sys d cfg t u"
    by (rule evolvesD [OF gate_evolves_hook [OF hook.prems]])
  with hook.IH [OF hook.prems] show ?case by (rule gate.R_trans)
qed

end
