(* ===== verification/Policy_Properties.thy ===== *)
theory Policy_Properties
  imports Policy_Rules "HOL-Library.Multiset"
begin

section \<open>Tool policies: what the engine decides\<close>

text \<open>
  The engine against its specification (the rule of the highest rank among those that match,
  deny without one), its independence of the order of the rules, and what the shipped profiles
  guarantee for every call.
\<close>

definition plain_char :: "char \<Rightarrow> bool" where
  "plain_char c \<longleftrightarrow> c \<noteq> CHR ''*'' \<and> c \<noteq> CHR ''?'' \<and> c \<noteq> CHR ''[''"

lemma glob_items_plain: "list_all plain_char pat \<Longrightarrow> glob_items pat = map GlobChar pat"
  by (induction pat) (auto simp: plain_char_def)

lemma glob_language_chars: "glob_language (map GlobChar s) = {s}"
  by (induction s) auto

lemma fnmatch_plain: "list_all plain_char pat \<Longrightarrow> fnmatch name pat \<longleftrightarrow> name = pat"
  by (simp add: fnmatch_def glob_matches_language glob_items_plain glob_language_chars)


subsection \<open>Selection\<close>

lemma policy_evaluate_cases:
  obtains (none) "\<And>r. r \<in> set rules \<Longrightarrow> \<not> rule_matches show r c"
      and "policy_evaluate show rules c = \<lparr>result_decision = PolicyDeny,
        result_rule_name = ''implicit-deny'', result_reason = ''no policy rule matched''\<rparr>"
  | (some) r where "r \<in> set rules" and "rule_matches show r c"
      and "policy_evaluate show rules c = \<lparr>result_decision = rule_decision r,
        result_rule_name = rule_name r, result_reason = ''matched policy rule '' @ rule_name r\<rparr>"
      and "\<And>r'. r' \<in> set rules \<Longrightarrow> rule_matches show r' c \<Longrightarrow> rule_rank r' \<le> rule_rank r"
proof (cases "py_max rule_rank (filter (\<lambda>r. rule_matches show r c) rules)")
  case None
  then have "filter (\<lambda>r. rule_matches show r c) rules = []" by simp
  then show thesis using None by (intro none) (auto simp: filter_empty_conv policy_evaluate_def)
next
  case (Some r)
  then show thesis
    using py_max_mem [OF Some] py_max_ge [OF Some]
    by (intro some [of r]) (auto simp: policy_evaluate_def)
qed

text \<open>
  The engine denies when no rule matches; otherwise it returns the decision and the name of
  a rule that matches and that no other matching rule outranks by priority, then specificity,
  then strictness, then name.
\<close>

theorem policy_evaluate_selects:
  "if list_ex (\<lambda>r. rule_matches show r c) rules
   then \<exists>r. r \<in> set rules \<and> rule_matches show r c \<and>
     policy_evaluate show rules c = \<lparr>result_decision = rule_decision r,
       result_rule_name = rule_name r, result_reason = ''matched policy rule '' @ rule_name r\<rparr> \<and>
     list_all (\<lambda>r'. rule_rank r' \<le> rule_rank r) (filter (\<lambda>r. rule_matches show r c) rules)
   else result_decision (policy_evaluate show rules c) = PolicyDeny"
proof (cases rule: policy_evaluate_cases [of rules "show" c])
  case none
  then show ?thesis by (simp add: list_ex_iff)
next
  case (some r)
  then show ?thesis by (auto simp: list_ex_iff list_all_iff)
qed

lemma decision_precedence_inj: "decision_precedence a = decision_precedence b \<longleftrightarrow> a = b"
  by (cases a; cases b) simp_all

text \<open>
  The decision does not depend on the order in which the rules are listed, nor on repeated
  rules.
\<close>

theorem policy_order_irrelevant:
  assumes "set rules = set rules'"
  shows "policy_evaluate show rules c = policy_evaluate show rules' c"
proof (cases rule: policy_evaluate_cases [of rules "show" c])
  case none
  with assms show ?thesis by (cases rule: policy_evaluate_cases [of rules' "show" c]) auto
next
  case (some r)
  show ?thesis
  proof (cases rule: policy_evaluate_cases [of rules' "show" c])
    case none
    with some assms show ?thesis by auto
  next
    case (some r')
    have "rule_rank r = rule_rank r'"
      using \<open>r \<in> set rules\<close> \<open>rule_matches show r c\<close> some assms
        \<open>\<And>x. x \<in> set rules \<Longrightarrow> rule_matches show x c \<Longrightarrow> rule_rank x \<le> rule_rank r\<close>
      by (intro order_antisym) auto
    then show ?thesis
      using some(3) \<open>policy_evaluate show rules c = _\<close>
      by (simp add: rule_rank_def decision_precedence_inj)
  qed
qed

text \<open>
  Deny wins a tie: if a rule that denies matches and no matching rule has a higher priority,
  or the same priority and is more specific, the call is denied.
\<close>

theorem policy_deny_wins:
  assumes "r \<in> set rules" and "rule_matches show r c" and "rule_decision r = PolicyDeny"
    and "\<And>r'. r' \<in> set rules \<Longrightarrow> rule_matches show r' c \<Longrightarrow>
      (rule_priority r', rule_specificity r') \<le> (rule_priority r, rule_specificity r)"
  shows "result_decision (policy_evaluate show rules c) = PolicyDeny"
proof (cases rule: policy_evaluate_cases [of rules "show" c])
  case (some r')
  have "rule_rank r \<le> rule_rank r'" using some assms by blast
  moreover have "(rule_priority r', rule_specificity r') \<le> (rule_priority r, rule_specificity r)"
    using some assms by blast
  ultimately have "decision_precedence (rule_decision r) \<le> decision_precedence (rule_decision r')"
    by (auto simp: rule_rank_def)
  then have "rule_decision r' = PolicyDeny" using assms(3) by (cases "rule_decision r'") auto
  with some show ?thesis by simp
qed simp

definition sample_context :: policy_context where
  "sample_context = \<lparr>context_tenant_id = ''t'', context_agent_name = ''a'', context_tool_name = ''Bash'',
     context_arguments = [(''command'', JStr ''rm -r x'')],
     context_sandbox_isolation = IsolationWorkspace, context_trust_level = TrustSafe\<rparr>"

lemma policy_order_irrelevant_witness:
  "policy_evaluate (\<lambda>_. []) (rev default_policy_rules) sample_context =
   policy_evaluate (\<lambda>_. []) default_policy_rules sample_context"
  by (rule policy_order_irrelevant) simp

lemma policy_deny_wins_witness:
  "result_decision (policy_evaluate (\<lambda>_. []) [plain_rule ''b'' ''B*'' PolicyDeny,
     plain_rule ''a'' ''Bash'' PolicyAllow] sample_context) = PolicyDeny"
proof (rule policy_deny_wins [of "plain_rule ''b'' ''B*'' PolicyDeny"])
  show "rule_matches (\<lambda>_. []) (plain_rule ''b'' ''B*'' PolicyDeny) sample_context" by code_simp
next
  fix r'
  assume "r' \<in> set [plain_rule ''b'' ''B*'' PolicyDeny, plain_rule ''a'' ''Bash'' PolicyAllow]"
  then consider "r' = plain_rule ''b'' ''B*'' PolicyDeny" | "r' = plain_rule ''a'' ''Bash'' PolicyAllow"
    by fastforce
  then show "(rule_priority r', rule_specificity r') \<le>
      (rule_priority (plain_rule ''b'' ''B*'' PolicyDeny),
       rule_specificity (plain_rule ''b'' ''B*'' PolicyDeny))"
    by cases (simp_all add: plain_rule_def rule_specificity_def)
qed (simp_all add: plain_rule_def)

subsection \<open>What the shipped profiles guarantee\<close>

definition plain_profile :: "policy_rule list \<Rightarrow> bool" where
  "plain_profile rules \<longleftrightarrow> list_all (\<lambda>r. case rule_tool r of None \<Rightarrow> False
     | Some p \<Rightarrow> list_all plain_char p) rules"

lemma plain_profile_tool:
  assumes "plain_profile rules" and "r \<in> set rules" and "rule_matches show r c"
  shows "rule_tool r = Some (context_tool_name c)"
  using assms
  by (auto simp: plain_profile_def list_all_iff rule_matches_def rule_field_def fnmatch_plain
      split: option.splits)

lemma plain_profiles:
  "plain_profile default_policy_rules" "plain_profile read_only_policy_rules"
  by code_simp+

lemma filter_eq_mem: "filter P xs = ys \<Longrightarrow> y \<in> set ys \<Longrightarrow> y \<in> set xs"
  by auto

lemma profile_candidates:
  assumes "plain_profile rules" and "r \<in> set rules" and "rule_matches show r c"
  shows "r \<in> set (filter (\<lambda>r. rule_tool r = Some (context_tool_name c)) rules)"
  using plain_profile_tool [OF assms] assms by simp

lemma plain_rule_matches:
  assumes "list_all plain_char tool"
  shows "rule_matches show (plain_rule name tool d) c \<longleftrightarrow> context_tool_name c = tool"
  using assms by (simp add: rule_matches_def rule_field_def plain_rule_def fnmatch_plain)

definition memory_rule_name :: "context_trust \<Rightarrow> string" where
  "memory_rule_name trust = (case trust of
     TrustSafe \<Rightarrow> ''harness-memory-update'' | TrustSensitive \<Rightarrow> ''sensitive-memory-review''
   | TrustUntrusted \<Rightarrow> ''untrusted-memory-deny'')"

lemma memory_proposal_rule:
  assumes "context_tool_name c = propose_memory"
  shows "result_decision (policy_evaluate show default_policy_rules c) =
      (case context_trust_level c of TrustSafe \<Rightarrow> PolicyAllow | TrustSensitive \<Rightarrow> PolicyAsk
        | TrustUntrusted \<Rightarrow> PolicyDeny) \<and>
    result_rule_name (policy_evaluate show default_policy_rules c) =
      memory_rule_name (context_trust_level c)"
proof -
  let ?deny = "(plain_rule ''untrusted-memory-deny'' propose_memory PolicyDeny)
    \<lparr>rule_context_trust := Some TrustUntrusted, rule_priority := 100\<rparr>"
  let ?ask = "(plain_rule ''sensitive-memory-review'' propose_memory PolicyAsk)
    \<lparr>rule_context_trust := Some TrustSensitive, rule_priority := 100\<rparr>"
  let ?allow = "plain_rule ''harness-memory-update'' propose_memory PolicyAllow"
  have cands: "filter (\<lambda>r. rule_tool r = Some propose_memory) default_policy_rules =
      [?deny, ?ask, ?allow]"
    by code_simp
  have fn: "fnmatch propose_memory propose_memory"
    by (simp add: fnmatch_plain propose_memory_def plain_char_def)
  have m: "rule_matches show ?deny c \<longleftrightarrow> context_trust_level c = TrustUntrusted"
    "rule_matches show ?ask c \<longleftrightarrow> context_trust_level c = TrustSensitive"
    "rule_matches show ?allow c"
    using assms fn by (auto simp: rule_matches_def rule_field_def plain_rule_def)
  have mem: "?deny \<in> set default_policy_rules" "?ask \<in> set default_policy_rules"
    "?allow \<in> set default_policy_rules"
    by (rule filter_eq_mem [OF cands], simp)+
  show ?thesis
  proof (cases rule: policy_evaluate_cases [of default_policy_rules "show" c])
    case none
    then show ?thesis using m(3) mem(3) by blast
  next
    case (some r)
    have "r \<in> set [?deny, ?ask, ?allow]"
      using profile_candidates [OF plain_profiles(1) some(1,2)] assms cands by simp
    moreover have "context_trust_level c \<noteq> TrustUntrusted" if "r = ?ask \<or> r = ?allow"
      using some(4) [OF mem(1)] m that by (auto simp: rule_rank_def rule_specificity_def plain_rule_def)
    moreover have "context_trust_level c \<noteq> TrustSensitive" if "r = ?allow"
      using some(4) [OF mem(2)] m that by (auto simp: rule_rank_def rule_specificity_def plain_rule_def)
    ultimately show ?thesis
      using some(2,3) m
      by (cases "context_trust_level c") (auto simp: plain_rule_def memory_rule_name_def)
  qed
qed

text \<open>
  Under the standard profile nothing that came from an untrusted source gets into the
  agent's memory by itself: a proposal is denied when the context is untrusted and reviewed when
  it is sensitive, for every tenant, agent, argument and sandbox.
\<close>

theorem untrusted_memory_guarded:
  assumes "context_tool_name c = propose_memory"
  shows "result_decision (policy_evaluate show default_policy_rules c) =
    (case context_trust_level c of TrustSafe \<Rightarrow> PolicyAllow | TrustSensitive \<Rightarrow> PolicyAsk
      | TrustUntrusted \<Rightarrow> PolicyDeny)"
  using memory_proposal_rule [OF assms] by simp

lemma untrusted_memory_guarded_witness:
  "result_decision (policy_evaluate (\<lambda>_. []) default_policy_rules
     (sample_context\<lparr>context_tool_name := propose_memory,
        context_trust_level := TrustUntrusted\<rparr>)) = PolicyDeny"
  by (subst untrusted_memory_guarded) simp_all

text \<open>
  The read-only profile allows exactly the tools it lists, by their exact names, whatever
  the arguments, the trust and the sandbox; every other call is denied and nothing is put up for
  approval.
\<close>

theorem read_only_profile_exact:
  "result_decision (policy_evaluate show read_only_policy_rules c) =
     (if context_tool_name c \<in> set (map (\<lambda>r. the (rule_tool r)) read_only_policy_rules)
      then PolicyAllow else PolicyDeny)"
proof -
  have plain: "list_all (\<lambda>r. r = plain_rule (rule_name r) (the (rule_tool r)) PolicyAllow)
      read_only_policy_rules"
    by code_simp
  have matches: "rule_matches show r c \<longleftrightarrow> context_tool_name c = the (rule_tool r)"
    if "r \<in> set read_only_policy_rules" for r
  proof -
    have "list_all plain_char (the (rule_tool r))"
      using plain_profiles(2) that by (auto simp: plain_profile_def list_all_iff split: option.splits)
    then show ?thesis
      using plain that plain_rule_matches [of "the (rule_tool r)" "show" "rule_name r" PolicyAllow c]
      by (simp add: list_all_iff)
  qed
  show ?thesis
  proof (cases rule: policy_evaluate_cases [of read_only_policy_rules "show" c])
    case none
    then show ?thesis using matches by auto
  next
    case (some r)
    have "r = plain_rule (rule_name r) (the (rule_tool r)) PolicyAllow"
      using plain some(1) by (simp add: list_all_iff)
    then have "rule_decision r =
        rule_decision (plain_rule (rule_name r) (the (rule_tool r)) PolicyAllow)"
      by (rule arg_cong)
    then have "rule_decision r = PolicyAllow" by (simp add: plain_rule_def)
    with some show ?thesis using matches [OF some(1)] by auto
  qed
qed

text \<open>
  C34. The standard profile never allows a shell command by itself: the engine denies it when it
  holds \<open>rm \<close> and the sandbox is a plain workspace, and asks in every other case.
\<close>

theorem bash_never_allowed:
  assumes "context_tool_name c = ''Bash''"
  shows "result_decision (policy_evaluate show default_policy_rules c) =
    (if is_substring ''rm '' (py_str show (dict_get_or (context_arguments c) ''command'' (JStr [])))
        \<and> context_sandbox_isolation c = IsolationWorkspace
     then PolicyDeny else PolicyAsk)"
proof -
  let ?rm = "(plain_rule ''destructive-rm'' ''Bash'' PolicyDeny)
    \<lparr>rule_command_contains := Some ''rm '', rule_sandbox_isolation := Some IsolationWorkspace\<rparr>"
  let ?ask = "plain_rule ''bash-review'' ''Bash'' PolicyAsk"
  have cands: "filter (\<lambda>r. rule_tool r = Some ''Bash'') default_policy_rules = [?rm, ?ask]"
    by code_simp
  have fn: "fnmatch ''Bash'' ''Bash''" by code_simp
  have m: "rule_matches show ?rm c \<longleftrightarrow>
      is_substring ''rm '' (py_str show (dict_get_or (context_arguments c) ''command'' (JStr [])))
        \<and> context_sandbox_isolation c = IsolationWorkspace"
    "rule_matches show ?ask c"
    using assms fn by (auto simp: rule_matches_def rule_field_def plain_rule_def)
  have mem: "?rm \<in> set default_policy_rules" "?ask \<in> set default_policy_rules"
    by (rule filter_eq_mem [OF cands], simp)+
  show ?thesis
  proof (cases rule: policy_evaluate_cases [of default_policy_rules "show" c])
    case none
    then show ?thesis using m(2) mem(2) by blast
  next
    case (some r)
    have "r \<in> set [?rm, ?ask]"
      using profile_candidates [OF plain_profiles(1) some(1,2)] assms cands by simp
    moreover have "\<not> rule_matches show ?rm c" if "r = ?ask"
      using some(4) [OF mem(1)] that
      by (auto simp: rule_rank_def rule_specificity_def plain_rule_def)
    ultimately show ?thesis
      using some(2,3) m by (auto simp: plain_rule_def)
  qed
qed

lemma bash_never_allowed_witness:
  "result_decision (policy_evaluate (\<lambda>_. []) default_policy_rules sample_context) = PolicyDeny"
proof (subst bash_never_allowed)
  show "context_tool_name sample_context = ''Bash''" by (simp add: sample_context_def)
qed code_simp

lemma stricter_trust_max:
  "trust_precedence (stricter_trust a b) = max (trust_precedence a) (trust_precedence b)"
  by (auto simp: stricter_trust_def)

lemma trust_precedence_inj: "trust_precedence a = trust_precedence b \<longleftrightarrow> a = b"
  by (cases a; cases b) simp_all

lemma stricter_trust_fold:
  "trust_precedence (foldl stricter_trust t ts) = Max (trust_precedence ` set (t # ts))"
proof (induction ts arbitrary: t)
  case (Cons u ts)
  have "trust_precedence (foldl stricter_trust t (u # ts)) =
      Max (insert (max (trust_precedence t) (trust_precedence u)) (trust_precedence ` set ts))"
    using Cons.IH [of "stricter_trust t u"] by (simp add: stricter_trust_max)
  also have "\<dots> = Max (trust_precedence ` set (t # u # ts))"
    by (cases "ts = []") (simp_all add: max.assoc)
  finally show ?case .
qed simp

text \<open>
  Trust is only ever lowered: the stricter of two levels is the one of the higher
  precedence, so folding the levels of any number of results into a conversation in any order
  ends at the strictest of them.
\<close>

theorem trust_never_rises:
  "trust_precedence (foldl stricter_trust t ts) = Max (trust_precedence ` set (t # ts)) \<and>
   (if set ts = set ts' then foldl stricter_trust t ts = foldl stricter_trust t ts' else True) \<and>
   trust_precedence t \<le> trust_precedence (foldl stricter_trust t ts)"
proof -
  have "foldl stricter_trust t ts = foldl stricter_trust t ts'" if "set ts = set ts'"
    using that stricter_trust_fold [of t ts] stricter_trust_fold [of t ts']
    by (simp flip: trust_precedence_inj)
  moreover have "trust_precedence t \<le> trust_precedence (foldl stricter_trust t ts)"
    unfolding stricter_trust_fold by (intro Max_ge) auto
  ultimately show ?thesis using stricter_trust_fold by simp
qed

end
