(* ===== verification/Gate_Properties.thy ===== *)
theory Gate_Properties
  imports Gate_Guarantees Policy_Properties
begin

section \<open>What the gate guarantees about tool calls\<close>

text \<open>
  A call runs only when a verdict or a stored approval lets it; what came from an untrusted
  source stays out of the memory of the agent; and the files a run may overwrite without asking
  are those it made itself. All of it holds whatever other hooks and processes do at the awaits.
\<close>

abbreviation gate_run_key :: "gate_config \<Rightarrow> string \<times> string" where
  "gate_run_key cfg \<equiv> (run_tenant_id (rc_run (gc_context cfg)), run_id (rc_run (gc_context cfg)))"

definition approved_call :: "gate_config \<Rightarrow> string \<Rightarrow> world \<Rightarrow> bool" where
  "approved_call cfg call t \<longleftrightarrow>
     (case dict_get (approvals_by_tool (w_approvals t))
         (fst (gate_run_key cfg), snd (gate_run_key cfg), call) of
        None \<Rightarrow> False
      | Some i \<Rightarrow>
          (case dict_get (approvals_items (w_approvals t)) (fst (gate_run_key cfg), i) of
             None \<Rightarrow> False | Some a \<Rightarrow> approval_status a = ApprovalApproved))"

lemma shared_run: "shared d m s = (r, t) \<Longrightarrow> m (snd s) = (r, snd t)"
  by (cases s) (auto simp: shared_def split: prod.splits)

lemma gate_event_logged:
  assumes r: "gate_rely d cfg" and w: "world_sound (gd_services d) (snd s)"
    and run: "gate_event d cfg type payload s = (Inr x, t)"
  shows "logged (snd s) (snd t) (gate_run_key cfg) type payload"
proof -
  from run obtain e where "shared d (event_service_append (gd_services d)
      (run_tenant_id (rc_run (gc_context cfg))) (run_id (rc_run (gc_context cfg)))
      (run_session_id (rc_run (gc_context cfg))) type payload) s = (Inr e, t)"
    by (auto simp: gate_event_def Let_def thenP_def elim!: bindP_InrE)
  from shared_run [OF this] show ?thesis
    by (rule event_service_append_logged [OF gate_services [OF r] w])
qed

lemma deny_call_denies: "deny_call d cfg call reason s = (Inr out, t) \<Longrightarrow> ho_decision out = ''deny''"
  by (auto simp: deny_call_def thenP_def hook_output_of_def elim!: bindP_InrE)

lemma gate_sound_later:
  "gate_sys d cfg s t \<Longrightarrow> world_sound (gd_services d) (snd s) \<Longrightarrow>
   sys (gd_services d) (snd s) (snd t) \<and> world_sound (gd_services d) (snd t)"
  unfolding gate_sys_def by (blast dest: sys_ownD(5))

text \<open>What an awaited approval has established.\<close>

lemma await_approval_outcome:
  assumes r: "gate_rely d cfg"
    and fair: "fair_waiters (fst (gate_run_key cfg)) (gd_services d)"
    and w: "world_sound (gd_services d) (snd s)" "honest (fst (gate_run_key cfg)) (snd s)"
    and run: "await_approval d cfg hi arguments result s = (Inr ApprovalApproved, t)"
  obtains a where "approval_tool_key a =
      (fst (gate_run_key cfg), snd (gate_run_key cfg), hi_tool_use_id hi)"
    and "approval_status a = ApprovalApproved" and "holds (snd t) (KnowsApproval a)"
proof -
  let ?d = "gd_services d" and ?tn = "fst (gate_run_key cfg)" and ?rid = "snd (gate_run_key cfg)"
  let ?c = "approval_call_of d cfg hi arguments result"
  note sv = gate_services [OF r]
  from run obtain b u where req: "shared d (approvals_request ?d ?tn ?rid ?c) s = (Inr b, u)"
    and wait: "shared d (wait_for_decision ?d (approval_id b)) u = (Inr ApprovalApproved, t)"
    by (auto simp: await_approval_def Let_def catchP_apply thenP_apply elim!: bindP_InrE
      split: prod.splits sum.splits if_splits)
  note req' = shared_run [OF req] and wait' = shared_run [OF wait]
  have b: "approval_tool_key b = (?tn, ?rid, hi_tool_use_id hi)" "holds (snd u) (KnowsApproval b)"
    using returnsD [OF returns_approvals_request [OF sv] w(1) _ req']
    by (auto simp: approval_call_of_def Let_def)
  have "gate_sys d cfg s u"
    by (rule evolvesD [OF gate_shared [OF r upholds_approvals_request [OF sv]] req])
  then have u: "world_sound ?d (snd u)" using w(1) by (blast dest: gate_sound_later)
  have "waiters_kept ?tn (snd s) (snd u)"
    by (rule evolvesD [OF waiters_approvals_request [OF fair] req'])
  then have hu: "honest ?tn (snd u)" using w(2) by (simp add: waiters_kept_def)
  obtain a where a: "approval_key a = (?tn, approval_id b)" "approval_status a = ApprovalApproved"
    "holds (snd t) (KnowsApproval a)"
    by (rule wait_for_decision_outcome [OF sv fair u hu wait'])
  have "sys ?d (snd u) (snd t)"
    using evolvesD [OF gate_shared [OF r upholds_wait_for_decision [OF sv]] wait] u
    by (blast dest: gate_sound_later)
  then have "holds (snd t) (KnowsApproval b)" using b(2) by (rule holds_stable)
  moreover have "approval_key b = (?tn, approval_id b)"
    using b(1) by (simp add: approval_tool_key_def approval_key_def)
  moreover have "dict_get (approvals_items (w_approvals (snd t))) (?tn, approval_id b) = Some a"
    using holds_decided [OF a(3)] a(1,2) by simp
  ultimately have "approval_later b a" by simp
  then have "approval_tool_key a = approval_tool_key b"
    unfolding approval_later_def approval_tool_key_def by (cases a, cases b) auto
  with a b(1) show thesis by (intro that) (simp_all del: holds.simps)
qed

lemma approved_callI:
  assumes "world_sound d t" and "holds t (KnowsApproval a)" and "approval_status a = ApprovalApproved"
    and "approval_tool_key a = (fst (gate_run_key cfg), snd (gate_run_key cfg), call)"
  shows "approved_call cfg call t"
proof -
  have stored: "dict_get (approvals_items (w_approvals t)) (approval_key a) = Some a"
    using assms(2,3) by (intro holds_decided) simp_all
  have "dict_get (approvals_by_tool (w_approvals t)) (approval_tool_key a) = Some (approval_id a)"
    using assms(1) stored by (intro approval_repo_inv_item(2)) (simp_all add: world_sound_def)
  with stored assms(3,4) show ?thesis
    by (auto simp: approved_call_def approval_key_def approval_tool_key_def)
qed

text \<open>The end of an authorization that allows: the call is logged as allowed.\<close>

lemma allow_call_outcome:
  assumes r: "gate_rely d cfg" and w: "world_sound (gd_services d) (snd s)"
    and run: "allow_call d cfg hi reason updated s = (Inr out, t)" "ho_decision out = ''allow''"
  obtains u where "sys (gd_services d) (snd s) u" and "world_sound (gd_services d) u"
    and "logged u (snd t) (gate_run_key cfg) ''tool.allowed''
      [(''tool_call_id'', JStr (hi_tool_use_id hi))]"
    and "out = hook_output_of ''allow'' reason updated"
proof -
  obtain o1 u where charge: "charge_call d cfg hi s = (o1, u)" by (cases "charge_call d cfg hi s")
  have su: "sys (gd_services d) (snd s) (snd u)" "world_sound (gd_services d) (snd u)"
    using evolvesD [OF gate_evolves_charge [OF r] charge] w by (blast dest: gate_sound_later)+
  show thesis
  proof (cases o1)
    case (Inl e)
    with run charge have False
      by (auto simp: allow_call_def prog_apply split: herror.splits dest!: deny_call_denies)
    then show thesis ..
  next
    case (Inr x)
    with run charge obtain y where y: "gate_event d cfg ''tool.allowed'' [(''tool_call_id'', JStr (hi_tool_use_id hi))] u = (Inr y, t)"
      "out = hook_output_of ''allow'' reason updated"
      by (auto simp: allow_call_def prog_apply split: sum.splits prod.splits)
    show thesis by (rule that [OF su gate_event_logged [OF r su(2) y(1)] y(2)])
  qed
qed

lemma carry_out_allows:
  assumes r: "gate_rely d cfg"
    and fair: "fair_waiters (fst (gate_run_key cfg)) (gd_services d)"
    and w: "world_sound (gd_services d) (snd s)" "honest (fst (gate_run_key cfg)) (snd s)"
    and run: "carry_out d cfg hi arguments updated target result s = (Inr out, t)"
      "ho_decision out = ''allow''"
  shows "(result_decision result = PolicyAllow \<or>
      result_decision result = PolicyAsk \<and> approved_call cfg (hi_tool_use_id hi) (snd t)) \<and>
    logged (snd s) (snd t) (gate_run_key cfg) ''tool.allowed''
      [(''tool_call_id'', JStr (hi_tool_use_id hi))] \<and>
    out = hook_output_of ''allow'' (result_reason result) updated"
proof -
  let ?d = "gd_services d"
  let ?go = "thenP (note_write cfg hi target) (allow_call d cfg hi (result_reason result) updated)"
  have finish: "logged (snd s) (snd t) (gate_run_key cfg) ''tool.allowed''
        [(''tool_call_id'', JStr (hi_tool_use_id hi))] \<and>
      out = hook_output_of ''allow'' (result_reason result) updated \<and> sys ?d (snd u) (snd t) \<and>
      world_sound ?d (snd t)"
    if go: "?go u = (Inr out, t)" and u: "world_sound ?d (snd u)" "sys ?d (snd s) (snd u)" for u
  proof -
    from go obtain v where v: "note_write cfg hi target u = (Inr (), v)"
      "allow_call d cfg hi (result_reason result) updated v = (Inr out, t)"
      by (auto simp: thenP_def elim!: bindP_InrE)
    then have vu: "snd v = snd u"
      by (auto simp: note_write_def split: option.splits if_splits prod.splits sum.splits)
    have "world_sound ?d (snd v)" using u(1) vu by simp
    from allow_call_outcome [OF r this v(2) run(2)] vu obtain x where
      x: "sys ?d (snd u) x" "logged x (snd t) (gate_run_key cfg) ''tool.allowed''
        [(''tool_call_id'', JStr (hi_tool_use_id hi))]"
        "out = hook_output_of ''allow'' (result_reason result) updated"
      by metis
    have "sys ?d (snd s) x" using u(2) x(1) by (rule sys.R_trans)
    from history_prefix [OF this w(1)] x(2) have "logged (snd s) (snd t) (gate_run_key cfg)
        ''tool.allowed'' [(''tool_call_id'', JStr (hi_tool_use_id hi))]"
      unfolding logged_def by (metis append.assoc)
    moreover have "sys ?d (snd u) (snd t) \<and> world_sound ?d (snd t)"
      using evolvesD [OF gate_evolves_allow [OF r] v(2)] u(1) vu by (metis gate_sound_later)
    ultimately show ?thesis using x(3) by blast
  qed
  show ?thesis
  proof (cases "result_decision result")
    case PolicyAllow
    with run(1) have "?go s = (Inr out, t)" by (simp add: carry_out_def)
    from finish [OF this w(1) sys.R_refl] PolicyAllow show ?thesis by blast
  next
    case PolicyDeny
    with run have False by (auto simp: carry_out_def dest!: deny_call_denies)
    then show ?thesis ..
  next
    case PolicyAsk
    from run PolicyAsk obtain u where
      u: "await_approval d cfg hi arguments result s = (Inr ApprovalApproved, u)"
      and go: "?go u = (Inr out, t)"
      by (auto simp: carry_out_def Let_def hook_output_of_def elim!: bindP_InrE split: if_splits)
    have su: "sys ?d (snd s) (snd u)" "world_sound ?d (snd u)"
      using evolvesD [OF gate_evolves_await_approval [OF r] u] w(1) by (blast dest: gate_sound_later)+
    from await_approval_outcome [OF r fair w u] obtain a where
      a: "approval_tool_key a = (fst (gate_run_key cfg), snd (gate_run_key cfg), hi_tool_use_id hi)"
        "approval_status a = ApprovalApproved" "holds (snd u) (KnowsApproval a)" .
    note f = finish [OF go su(2,1)]
    then have "holds (snd t) (KnowsApproval a)" using a(3) by (blast intro: holds_stable)
    from approved_callI [OF _ this a(2,1)] f PolicyAsk show ?thesis by blast
  qed
qed

lemma judge_allows:
  assumes r: "gate_rely d cfg"
    and fair: "fair_waiters (fst (gate_run_key cfg)) (gd_services d)"
    and w: "world_sound (gd_services d) (snd s)" "honest (fst (gate_run_key cfg)) (snd s)"
    and run: "judge d cfg rules hi arguments updated trust target s = (Inr out, t)"
      "ho_decision out = ''allow''"
  shows "(let result = tool_verdict d cfg rules hi arguments trust target (fst s) in
      (result_decision result = PolicyAllow \<or>
       result_decision result = PolicyAsk \<and> approved_call cfg (hi_tool_use_id hi) (snd t)) \<and>
      logged (snd s) (snd t) (gate_run_key cfg) ''tool.allowed''
        [(''tool_call_id'', JStr (hi_tool_use_id hi))] \<and>
      out = hook_output_of ''allow'' (result_reason result) updated)"
proof -
  from run(1) have "carry_out d cfg hi arguments updated target
      (tool_verdict d cfg rules hi arguments trust target (fst s)) s = (Inr out, t)"
    by (simp add: judge_def gate_read_def case_prod_unfold)
  from carry_out_allows [OF r fair w this run(2)] show ?thesis by (simp add: Let_def)
qed

subsection \<open>Complete mediation\<close>

definition call_arguments :: "hook_input \<Rightarrow> hook_output \<Rightarrow> json_obj" where
  "call_arguments hi out =
     (case ho_updated_input out of None \<Rightarrow> hi_tool_input hi | Some a \<Rightarrow> a)"

text \<open>What an allowed call rests on: \<open>h\<close> is the state of the gate when the verdict was formed.\<close>

definition call_justified ::
  "gate_deps \<Rightarrow> gate_config \<Rightarrow> policy_rule list \<Rightarrow> hook_input \<Rightarrow> json_obj \<Rightarrow> context_trust \<Rightarrow>
   pure_path option \<Rightarrow> gate_state \<Rightarrow> world \<Rightarrow> bool" where
  "call_justified d cfg rules hi arguments trust target h t \<longleftrightarrow>
     \<not> delegation_refused cfg (canonical_tool_name (hi_tool_name hi)) arguments \<and>
     (if canonical_tool_name (hi_tool_name hi) \<in> {''Write'', ''Edit''}
      then (case target of None \<Rightarrow> False | Some p \<Rightarrow> inside_workspace (gc_files cfg) p)
      else target = None) \<and>
     (case result_decision (tool_verdict d cfg rules hi arguments trust target h) of
        PolicyAllow \<Rightarrow> True
      | PolicyAsk \<Rightarrow> approved_call cfg (hi_tool_use_id hi) t
      | PolicyDeny \<Rightarrow> False)"

lemma decide_call_allows:
  assumes r: "gate_rely d cfg"
    and fair: "fair_waiters (fst (gate_run_key cfg)) (gd_services d)"
    and w: "world_sound (gd_services d) (snd s)" "honest (fst (gate_run_key cfg)) (snd s)"
    and run: "decide_call d cfg rules hi arguments updated trust s = (Inr out, t)"
      "ho_decision out = ''allow''"
  shows "\<exists>target h. gate_later cfg (fst s) h \<and>
      call_justified d cfg rules hi arguments trust target h (snd t) \<and>
      ho_updated_input out = updated \<and>
      logged (snd s) (snd t) (gate_run_key cfg) ''tool.allowed''
        [(''tool_call_id'', JStr (hi_tool_use_id hi))]"
proof -
  let ?tool = "canonical_tool_name (hi_tool_name hi)"
  have allowed: "\<not> delegation_refused cfg ?tool arguments"
    using run by (auto simp: decide_call_def dest!: deny_call_denies)
  have known: "\<exists>h. gate_later cfg (fst s) h \<and>
      call_justified d cfg rules hi arguments trust target h (snd t) \<and>
      ho_updated_input out = updated \<and>
      logged (snd s) (snd t) (gate_run_key cfg) ''tool.allowed''
        [(''tool_call_id'', JStr (hi_tool_use_id hi))]"
    if judged: "judge d cfg rules hi arguments updated trust target u = (Inr out, t)"
      and u: "snd u = snd s" "gate_later cfg (fst s) (fst u)"
      and place: "if ?tool \<in> {''Write'', ''Edit''}
        then (case target of None \<Rightarrow> False | Some p \<Rightarrow> inside_workspace (gc_files cfg) p)
        else target = None" for target u
  proof -
    have "world_sound (gd_services d) (snd u)" "honest (fst (gate_run_key cfg)) (snd u)"
      using w u(1) by simp_all
    note j = judge_allows [OF r fair this judged run(2)]
    from j have "case result_decision (tool_verdict d cfg rules hi arguments trust target (fst u)) of
        PolicyAllow \<Rightarrow> True
      | PolicyAsk \<Rightarrow> approved_call cfg (hi_tool_use_id hi) (snd t)
      | PolicyDeny \<Rightarrow> False"
      by (auto simp: Let_def)
    with allowed place have "call_justified d cfg rules hi arguments trust target (fst u) (snd t)"
      unfolding call_justified_def by (intro conjI)
    with j u show ?thesis by (intro exI [of _ "fst u"]) (simp add: Let_def hook_output_of_def)
  qed
  show ?thesis
  proof (cases "?tool \<in> {''Write'', ''Edit''}")
    case False
    with run allowed have "judge d cfg rules hi arguments updated trust None s = (Inr out, t)"
      by (auto simp: decide_call_def)
    from known [OF this refl gate_later_refl] False show ?thesis by auto
  next
    case True
    let ?fv = "gd_files d (w_awaits (snd s))"
    obtain p where p: "fc_target ?fv (gc_files cfg) arguments = Some p"
      and "thenP (gate_update (gate_observe ?fv p))
        (judge d cfg rules hi arguments updated trust (Some p)) s = (Inr out, t)"
      using run True allowed
      by (auto simp: decide_call_def files_now_def case_prod_unfold split: option.splits
        dest!: deny_call_denies)
    then have "judge d cfg rules hi arguments updated trust (Some p)
        (gate_observe ?fv p (fst s), snd s) = (Inr out, t)"
      by (simp add: thenP_apply gate_update_def case_prod_unfold)
    from known [OF this] True target_inside [OF p] show ?thesis by (auto simp: observe_later)
  qed
qed


subsection \<open>A sample gate\<close>

definition sample_session :: session where
  "sample_session = \<lparr>session_id = ''s'', session_tenant_id = ''t'', session_user_id = ''u'',
     session_agent_owner_user_id = None, session_agent_name = ''agent'',
     session_agent_version = ''1'', session_created_at = 0, session_team_ids = [],
     session_api_key_id = None, session_claude_session_id = None,
     session_workspace_snapshot_id = None, session_environment = None,
     session_deployment_snapshot_id = None, session_environment_snapshot = None,
     session_knowledge_snapshot_bindings = []\<rparr>"

definition sample_runtime :: runtime_context where
  "sample_runtime = \<lparr>rc_run = sample_run RunRunning 2, rc_session = sample_session,
     rc_workspace = ''/w'', rc_sandbox_provider = ''local'',
     rc_sandbox_isolation = IsolationWorkspace, rc_remote_workspace = None,
     rc_assistant_message_id = ''m'', rc_input_files = [], rc_processed_input_paths = [],
     rc_has_executor = False, rc_resolved_policy = None\<rparr>"

definition sample_gate :: "(string, string \<times> policy_rule list) dict \<Rightarrow> gate_config" where
  "sample_gate agents = \<lparr>gc_context = sample_runtime, gc_policy_id = ''local-standard'',
     gc_policy = default_policy_rules, gc_subagents = agents,
     gc_result_trust = [(''mcp__web__fetch'', TrustUntrusted)],
     gc_files = \<lparr>fc_workspace = pure_path_of ''/w'', fc_remote = None, fc_protected = []\<rparr>,
     gc_quotas = False\<rparr>"

definition plain_files :: file_view where
  "plain_files = \<lparr>fv_resolve = Some, fv_resolve_strict = (\<lambda>_. None), fv_exists = (\<lambda>_. False),
     fv_is_file = (\<lambda>_. False), fv_references = (\<lambda>_. [])\<rparr>"

definition quiet_gate_deps :: gate_deps where
  "quiet_gate_deps = \<lparr>gd_services = quiet_approval_deps, gd_hooks = (\<lambda>n g. g),
     gd_files = (\<lambda>n. plain_files), gd_show = (\<lambda>_. []), gd_parse = (\<lambda>_. None),
     gd_ellipsis = CHR ''~''\<rparr>"

definition sample_input :: "string \<Rightarrow> string option \<Rightarrow> hook_input" where
  "sample_input tool agent = \<lparr>hi_tool_name = tool, hi_tool_use_id = ''c'',
     hi_tool_input = [(''file_path'', JStr ''notes.txt'')], hi_agent_type = agent,
     hi_agent_id = None\<rparr>"

lemma quiet_gate_rely: "gate_rely quiet_gate_deps cfg"
  by (simp add: gate_rely_def quiet_gate_deps_def quiet_approval_rely gate_later_refl)

lemma quiet_gate_fair: "fair_waiters tn (gd_services quiet_gate_deps)"
  by (simp add: fair_waiters_def quiet_gate_deps_def waiters.R_refl)

lemma running_world_gate:
  "world_sound (gd_services quiet_gate_deps) running_world" "honest tn running_world"
  using sample_worlds_sound by (simp_all add: quiet_gate_deps_def honest_def waiting_def
    running_world_def world_empty_def)


end
