(* ===== verification/Gate_Trust.thy ===== *)
theory Gate_Trust
  imports Gate_Properties
begin

section \<open>Trust, files made by the run, and where the gate is open\<close>

text \<open>
  Properties of whole runs: sequences of hooks of one gate (\<open>gate_steps\<close>), each interrupted at
  every await by other hooks and processes.
\<close>

subsection \<open>Untrusted results stay out of the memory\<close>

lemma trust_precedence_untrusted:
  "trust_precedence TrustUntrusted \<le> trust_precedence x \<longleftrightarrow> x = TrustUntrusted"
  by (cases x) simp_all

lemma verdict_untrusted_memory:
  assumes "hi_tool_name hi = propose_memory"
  shows "result_decision (tool_verdict d cfg default_policy_rules hi arguments TrustUntrusted None g) =
    PolicyDeny"
proof -
  have tool: "canonical_tool_name propose_memory = propose_memory"
    "\<not> starts_with bundle_prefix propose_memory" "propose_memory \<noteq> ''Bash''"
    by code_simp+
  let ?c = "gate_policy_context cfg propose_memory arguments TrustUntrusted"
  have "context_tool_name ?c = propose_memory" "context_trust_level ?c = TrustUntrusted"
    by (simp_all add: gate_policy_context_def)
  from memory_proposal_rule [OF this(1), of "gd_show d"] this(2)
  have "result_decision (policy_evaluate (gd_show d) default_policy_rules ?c) = PolicyDeny"
    "result_rule_name (policy_evaluate (gd_show d) default_policy_rules ?c) \<noteq> ''implicit-deny''"
    by (simp_all add: memory_rule_name_def)
  with assms tool show ?thesis by (simp add: tool_verdict_def Let_def)
qed

lemma authorize_untrusted_memory:
  assumes "hi_tool_name hi = propose_memory"
    and run: "authorize d cfg (pid, default_policy_rules) hi TrustUntrusted s = (Inr out, t)"
  shows "ho_decision out = ''deny''"
proof -
  have tool: "canonical_tool_name propose_memory \<notin> {''Write'', ''Edit''}" by code_simp
  from run obtain arguments updated u where
    "decide_call d cfg default_policy_rules hi arguments updated TrustUntrusted u = (Inr out, t)"
    by (auto simp: authorize_def files_now_def Let_def thenP_def case_prod_unfold
      elim!: bindP_InrE split: sum.splits)
  then show ?thesis
    using tool assms(1) verdict_untrusted_memory [OF assms(1), of d cfg arguments]
    by (auto simp: decide_call_def Let_def judge_def carry_out_def gate_read_def case_prod_unfold
      dest!: deny_call_denies split: if_splits)
qed

text \<open>
  C11. What came from an untrusted source stays out of the agent's memory: once a tool whose result
  counts as untrusted has succeeded, every later proposal to remember something is denied under
  the standard profile, whatever hooks ran in between, in whatever order and however interleaved.
\<close>

theorem untrusted_stays_out:
  assumes rely: "gate_rely d cfg"
    and pending: "dict_get (gt_pending g) (hi_tool_use_id hi) = Some (tool, TrustUntrusted, rule)"
    and result: "trace_tool_success d cfg hi (g, w) = (r, s)"
    and later: "gate_steps d cfg s u"
    and call: "hi_tool_name hi' = propose_memory" "snd (select_policy cfg hi') = default_policy_rules"
    and run: "pre_tool_use d cfg hi' u = (Inr out, v)"
  shows "ho_decision out = ''deny''"
proof -
  let ?g = "forget_expected hi g"
  have "gt_trust (fst s) = TrustUntrusted"
  proof (cases "gt_trust g = TrustUntrusted")
    case True
    then show ?thesis using pending result
      by (simp add: trace_tool_success_def prog_apply gate_read_def gate_update_def forget_expected_def)
         auto
  next
    case False
    then have lower: "trust_precedence (gt_trust g) < trust_precedence TrustUntrusted"
      by (cases "gt_trust g") simp_all
    then have "gate_event d cfg ''context.trust.changed'' (trust_changed_payload (hi_tool_use_id hi)
        tool (gt_trust g) TrustUntrusted rule) (?g\<lparr>gt_trust := TrustUntrusted\<rparr>, w) = (r, s)"
      using pending result
      by (simp add: trace_tool_success_def prog_apply gate_read_def gate_update_def del: trust_precedence.simps)
    from evolvesD [OF gate_evolves_event [OF rely] this] show ?thesis
      by (simp add: gate_sys_def gate_later_def trust_precedence_untrusted del: trust_precedence.simps)
  qed
  moreover have "gate_later cfg (fst s) (fst u)"
    using gate_steps_sys [OF later rely] by (simp add: gate_sys_def)
  ultimately have u: "gt_trust (fst u) = TrustUntrusted"
    by (simp add: gate_later_def trust_precedence_untrusted del: trust_precedence.simps)
  obtain pid where policy: "select_policy cfg hi' = (pid, default_policy_rules)"
    using call(2) by (cases "select_policy cfg hi'") simp
  let ?v = "(note_expected cfg hi' (fst u), snd u)"
  have "gt_trust (note_expected cfg hi' (fst u)) = TrustUntrusted"
    using u by (simp add: note_expected_def split: prod.split)
  with run policy have "bindP (authorize d cfg (pid, default_policy_rules) hi' TrustUntrusted)
      (\<lambda>output. thenP (whenP (ho_decision output = ''deny'') (gate_update (forget_expected hi')))
        (ret output)) ?v = (Inr out, v)"
    by (simp add: pre_tool_use_def thenP_apply gate_update_def gate_read_def case_prod_unfold)
  then obtain x where
    "authorize d cfg (pid, default_policy_rules) hi' TrustUntrusted ?v = (Inr out, x)"
    by (auto simp: thenP_def elim!: bindP_InrE)
  from authorize_untrusted_memory [OF call(1) this] show ?thesis .
qed

definition fetch_input :: hook_input where
  "fetch_input = (sample_input ''mcp__web__fetch'' None)\<lparr>hi_tool_use_id := ''f''\<rparr>"

definition fetching_gate :: gate_state where
  "fetching_gate = gate_empty\<lparr>gt_pending :=
     [(''f'', (''mcp__web__fetch'', TrustUntrusted, ''tool-catalog''))]\<rparr>"

lemma untrusted_stays_out_witness:
  "\<exists>s out v. snd (trace_tool_success quiet_gate_deps (sample_gate []) fetch_input
      (fetching_gate, running_world)) = s \<and>
    pre_tool_use quiet_gate_deps (sample_gate []) (sample_input propose_memory None) s = (Inr out, v) \<and>
    ho_decision out = ''deny''"
proof -
  let ?d = quiet_gate_deps and ?c = "sample_gate []"
  let ?result = "trace_tool_success ?d ?c fetch_input (fetching_gate, running_world)"
  let ?run = "pre_tool_use ?d ?c (sample_input propose_memory None) (snd ?result)"
  have "\<not> is_error (fst ?run)" by code_simp
  then obtain out v where run: "?run = (Inr out, v)" by (cases ?run; cases "fst ?run") auto
  have pending: "dict_get (gt_pending fetching_gate) (hi_tool_use_id fetch_input) =
      Some (''mcp__web__fetch'', TrustUntrusted, ''tool-catalog'')"
    by (simp add: fetch_input_def fetching_gate_def)
  have "ho_decision out = ''deny''"
    by (rule untrusted_stays_out [OF quiet_gate_rely pending prod.collapse [symmetric]
        gate_steps.none _ _ run])
      (simp_all add: sample_input_def select_policy_def sample_gate_def)
  with run show ?thesis by blast
qed

subsection \<open>Files a run may overwrite without asking\<close>

text \<open>
  C12. The files a run may overwrite without asking are those it made: after any sequence of hooks,
  however interleaved, every file that counts as generated was absent when the run first named
  it, lies inside the workspace but is not the workspace itself, is none of the protected inputs
  and is not under the inputs directory; and it stays generated.
\<close>

theorem generated_files_are_own:
  assumes "gate_rely d cfg" and "gate_steps d cfg (gate_empty, w) s" and "gate_steps d cfg s t"
  shows "\<forall>p. if is_generated (fst s) p
    then dict_get (gt_initial_exists (fst s)) p = Some False \<and>
      path_relative_to p (fc_workspace (gc_files cfg)) \<and> p \<noteq> fc_workspace (gc_files cfg) \<and>
      p \<notin> set (fc_protected (gc_files cfg)) \<and>
      (case path_tail (path_below p (fc_workspace (gc_files cfg))) of
         [] \<Rightarrow> True | part # _ \<Rightarrow> part \<noteq> ''inputs'') \<and>
      is_generated (fst t) p
    else True"
proof -
  have "gate_ok cfg gate_empty" by (simp add: gate_ok_def gate_empty_def)
  then have "gate_ok cfg (fst s)"
    using gate_steps_sys [OF assms(2,1)] by (simp add: gate_sys_def gate_later_def)
  moreover have "set (gt_generated (fst s)) \<subseteq> set (gt_generated (fst t))"
    using gate_steps_sys [OF assms(3,1)] by (simp add: gate_sys_def gate_later_def)
  ultimately show ?thesis
    by (auto simp: gate_ok_def run_made_def inside_workspace_def file_protected_def
      is_generated_def split: list.splits)
qed

lemma generated_files_are_own_witness:
  "\<exists>s. gate_steps quiet_gate_deps (sample_gate []) (gate_empty, running_world) s \<and>
    is_generated (fst s) (pure_path_of ''/w/notes.txt'') \<and>
    dict_get (gt_initial_exists (fst s)) (pure_path_of ''/w/notes.txt'') = Some False"
proof -
  let ?d = quiet_gate_deps and ?c = "sample_gate []" and ?i = "sample_input ''Write'' None"
  let ?s1 = "snd (perform_hook ?d ?c (PreToolUse ?i) (gate_empty, running_world))"
  let ?s2 = "snd (perform_hook ?d ?c (PostToolUse ?i) ?s1)"
  have "gate_steps ?d ?c (gate_empty, running_world) ?s1"
    by (rule gate_steps.hook [OF gate_steps.none]) (rule prod.collapse [symmetric])
  then have steps: "gate_steps ?d ?c (gate_empty, running_world) ?s2"
    by (rule gate_steps.hook) (rule prod.collapse [symmetric])
  have made: "is_generated (fst ?s2) (pure_path_of ''/w/notes.txt'')" by code_simp
  with generated_files_are_own [OF quiet_gate_rely steps gate_steps.none] steps show ?thesis
    by meson
qed

subsection \<open>Where the gate is open\<close>

text \<open>
  A caller the gate does not know is meant to get nothing: it is given the empty policy. But
  the exception for declared remote tools asks only whether no rule matched, so an unknown
  sub-agent may call every tool the agent declares; and the exception for files of the run comes
  before the policy, so it may also overwrite those.
\<close>

theorem unknown_subagent_gets_through:
  assumes "gc_subagents cfg \<noteq> []" and "hi_agent_type hi = Some stranger" and "stranger \<noteq> []"
    and "\<not> dict_has (gc_subagents cfg) stranger" and "hi_agent_id hi = None"
    and "\<not> dict_has (gc_subagents cfg) []"
  shows "select_policy cfg hi = (''unknown-subagent'', []) \<and>
    result_decision (tool_verdict d cfg [] hi arguments trust target g) =
      (if (case target of None \<Rightarrow> False | Some p \<Rightarrow> is_generated g p) \<or>
          starts_with mcp_prefix (hi_tool_name hi) \<and> \<not> starts_with bundle_prefix (hi_tool_name hi) \<and>
            (dict_has (gc_result_trust cfg) (hi_tool_name hi) \<or>
             dict_has (gc_result_trust cfg) (canonical_tool_name (hi_tool_name hi))) \<or>
          starts_with bundle_prefix (hi_tool_name hi) \<and>
            dict_has (gc_result_trust cfg) (hi_tool_name hi) \<and> rc_has_executor (gc_context cfg)
       then PolicyAllow else PolicyDeny)"
proof -
  have deny: "policy_evaluate s [] c = \<lparr>result_decision = PolicyDeny,
      result_rule_name = ''implicit-deny'', result_reason = ''no policy rule matched''\<rparr>" for s c
    by (simp add: policy_evaluate_def)
  have "select_policy cfg hi = (''unknown-subagent'', [])"
    using assms by (simp add: select_policy_def Let_def str_or_def)
  then show ?thesis
    by (auto simp: tool_verdict_def Let_def deny allowed_by_def)
qed

lemma unknown_subagent_gets_through_witness:
  "result_decision (tool_verdict quiet_gate_deps (sample_gate [(''helper'', ''p'', [])]) []
      (sample_input ''mcp__web__fetch'' (Some ''stranger'')) [] TrustSafe None gate_empty) = PolicyAllow"
proof -
  have "starts_with mcp_prefix ''mcp__web__fetch''" "\<not> starts_with bundle_prefix ''mcp__web__fetch''"
    by code_simp+
  then show ?thesis
    using unknown_subagent_gets_through [of "sample_gate [(''helper'', ''p'', [])]"
      "sample_input ''mcp__web__fetch'' (Some ''stranger'')" "''stranger''" quiet_gate_deps "[]"
      TrustSafe None gate_empty]
    by (simp add: sample_gate_def sample_input_def)
qed

end
