(* ===== verification/Redaction_Properties.thy ===== *)
theory Redaction_Properties
  imports Redaction
begin

section \<open>What redaction removes, and what it leaves\<close>

subsection \<open>Arguments of tool calls\<close>

text \<open>
  \<open>secret_free v\<close>: at every depth the value of a sensitive key is the mark, and no text is longer
  than the limit.
\<close>

function (sequential) secret_free :: "json \<Rightarrow> bool" where
  "secret_free (JObj entries) =
     (\<forall>(k, v) \<in> set entries. if sensitive_key k then v = JStr redaction_mark else secret_free v)"
| "secret_free (JList vs) = (\<forall>v \<in> set vs. secret_free v)"
| "secret_free (JStr s) = (length s \<le> 2000)"
| "secret_free _ = True"
  by pat_completeness auto
termination
  by (relation "measure size") (auto intro: size_json_list_mem size_json_obj_mem)

lemma secret_free_mark: "secret_free (JStr redaction_mark)"
  by (simp add: redaction_mark_def)

lemma redact_text_length: "0 < limit \<Longrightarrow> length (redact_text ellip limit s) \<le> limit"
  by (simp add: redact_text_def Let_def)

lemma redact_value_sensitive: "sensitive_key key \<Longrightarrow> redact_value ellip key v = JStr redaction_mark"
  by (simp add: redact_value.simps)

lemma redact_value_secret_free: "secret_free (redact_value ellip key v)"
proof (induction ellip key v rule: redact_value.induct)
  case (1 ellip key v)
  show ?case
  proof (cases "sensitive_key key")
    case True
    then show ?thesis by (simp add: redact_value.simps redaction_mark_def)
  next
    case False
    show ?thesis
    proof (cases v)
      case (JObj entries)
      have "secret_free (redact_value ellip k x)" if "(k, x) \<in> set entries" for k x
        using 1(2) [OF False JObj that refl] .
      then show ?thesis
        using False JObj by (auto simp: redact_value.simps [of ellip key] redact_value_sensitive)
    next
      case (JList vs)
      then show ?thesis using False 1(1) [OF False JList]
        by (auto simp: redact_value.simps [of ellip key])
    next
      case (JStr s)
      then show ?thesis
        using False by (simp add: redact_value.simps redact_text_length)
    qed (use False in \<open>simp_all add: redact_value.simps\<close>)
  qed
qed

definition hide_fields :: "json_obj \<Rightarrow> string list \<Rightarrow> json_obj" where
  "hide_fields = foldl (\<lambda>redacted field.
     if dict_has redacted field then dict_set field (JStr redaction_mark) redacted else redacted)"

lemma update_keys: "dict_has d k \<Longrightarrow> map fst (dict_set k v d) = map fst d"
  by (induction d) auto

lemma update_entries: "x \<in> set (dict_set k v d) \<Longrightarrow> x = (k, v) \<or> x \<in> set d"
  by (induction d) (auto split: if_splits)

lemma hide_fields_props:
  assumes "secret_free (JObj r)"
  shows "secret_free (JObj (hide_fields r fs))"
    and "map fst (hide_fields r fs) = map fst r"
    and "dict_get r k = Some (JStr redaction_mark) \<Longrightarrow>
      dict_get (hide_fields r fs) k = Some (JStr redaction_mark)"
    and "f \<in> set fs \<Longrightarrow> dict_has r f \<Longrightarrow>
      dict_get (hide_fields r fs) f = Some (JStr redaction_mark)"
proof -
  have "secret_free (JObj (hide_fields r fs)) \<and> map fst (hide_fields r fs) = map fst r \<and>
      (\<forall>k. dict_get r k = Some (JStr redaction_mark) \<longrightarrow>
        dict_get (hide_fields r fs) k = Some (JStr redaction_mark)) \<and>
      (\<forall>f \<in> set fs. dict_has r f \<longrightarrow>
        dict_get (hide_fields r fs) f = Some (JStr redaction_mark))"
    using assms
  proof (induction fs arbitrary: r)
    case Nil
    then show ?case by (simp add: hide_fields_def)
  next
    case (Cons f fs)
    let ?r = "if dict_has r f then dict_set f (JStr redaction_mark) r else r"
    have sf: "secret_free (JObj ?r)"
      using Cons.prems secret_free_mark by (auto dest!: update_entries)
    have keys: "map fst ?r = map fst r" by (simp add: update_keys)
    have "dict_has ?r k = dict_has r k" for k by (simp split: if_splits)
    with Cons.IH [OF sf] keys show ?case
      by (auto simp: hide_fields_def split: if_splits)
  qed
  then show "secret_free (JObj (hide_fields r fs))"
    and "map fst (hide_fields r fs) = map fst r"
    and "dict_get r k = Some (JStr redaction_mark) \<Longrightarrow>
      dict_get (hide_fields r fs) k = Some (JStr redaction_mark)"
    and "f \<in> set fs \<Longrightarrow> dict_has r f \<Longrightarrow>
      dict_get (hide_fields r fs) f = Some (JStr redaction_mark)"
    by blast+
qed

text \<open>
  C13. What the event log keeps of the arguments of a tool call has no secret under a sensitive key
  at any depth and no text of more than 2000 characters; it has the keys of the arguments; and
  the fields with the content that a tool writes are blanked.
\<close>

theorem redacted_arguments_secret_free:
  "secret_free (JObj (redact_tool_arguments ellip tool arguments)) \<and>
   map fst (redact_tool_arguments ellip tool arguments) = map fst arguments \<and>
   list_all (\<lambda>field. case dict_get (redact_tool_arguments ellip tool arguments) field of
       None \<Rightarrow> True | Some v \<Rightarrow> v = JStr redaction_mark)
     (dict_get_or content_fields_by_tool tool [])"
proof -
  let ?fs = "dict_get_or content_fields_by_tool tool []"
  have "\<not> sensitive_key []" by code_simp
  then obtain r where r: "redact_value ellip [] (JObj arguments) = JObj r"
    and keys: "map fst r = map fst arguments"
    by (auto simp: redact_value.simps [of ellip "[]"] comp_def case_prod_unfold)
  have red: "redact_tool_arguments ellip tool arguments = hide_fields r ?fs"
    by (simp add: redact_tool_arguments_def hide_fields_def r)
  have sf: "secret_free (JObj r)" using redact_value_secret_free [of ellip "[]" "JObj arguments"] r by simp
  note h = hide_fields_props [OF sf, where fs = ?fs]
  have "case dict_get (hide_fields r ?fs) f of None \<Rightarrow> True | Some v \<Rightarrow> v = JStr redaction_mark"
    if "f \<in> set ?fs" for f
  proof (cases "dict_has r f")
    case True
    with h(4) [OF that] show ?thesis by simp
  next
    case False
    then have "f \<notin> set (map fst r)" by (auto simp: map_of_eq_None_iff)
    then have "dict_get (hide_fields r ?fs) f = None"
      by (simp add: map_of_eq_None_iff flip: h(2) set_map)
    then show ?thesis by simp
  qed
  with h(1,2) keys show ?thesis by (simp add: red list_all_iff)
qed

text \<open>
  Secrets in free text that the three patterns miss are stored as they are: an environment
  variable whose name ends in TOKEN, a quoted password, and a key in JSON text.
\<close>

theorem redaction_gaps:
  "redact_text ellip 2000 ''export GITHUB_TOKEN=ghp_x'' = ''export GITHUB_TOKEN=ghp_x'' \<and>
   redact_text ellip 2000 (''password='' @ [CHR 0x27] @ ''hunter2'' @ [CHR 0x27]) =
     ''password='' @ [CHR 0x27] @ ''hunter2'' @ [CHR 0x27] \<and>
   redact_text ellip 2000 ([CHR 0x22] @ ''api_key'' @ [CHR 0x22] @ '': 12'') =
     [CHR 0x22] @ ''api_key'' @ [CHR 0x22] @ '': 12''"
  by code_simp

subsection \<open>Internal instructions\<close>

text \<open>What one event adds to the protected calls, and what it is replaced with.\<close>

definition protects :: "(json \<Rightarrow> string) \<Rightarrow> run_event \<Rightarrow> string set" where
  "protects show e =
     (let call = payload_text show (event_payload e) ''tool_call_id'' in
      if event_type e = ''tool.request'' \<and> call \<noteq> [] \<and>
        internal_agent_asset_access show (event_payload e)
      then {call} else {})"

definition projected_event :: "(json \<Rightarrow> string) \<Rightarrow> string set \<Rightarrow> run_event \<Rightarrow> run_event" where
  "projected_event show calls e =
     (if event_type e = ''tool.result'' \<and>
         payload_text show (event_payload e) ''tool_call_id'' \<in> calls
      then e\<lparr>event_payload := hide_internal_content (event_payload e)\<rparr> else e)"

lemma redact_events_step:
  "redact_internal_agent_asset_events show (e # es) protected =
     (let protected' = (if protects show e = {} then protected
            else List.insert (payload_text show (event_payload e) ''tool_call_id'') protected)
      in case redact_internal_agent_asset_events show es protected' of
           (projected, final) \<Rightarrow> (projected_event show (set protected') e # projected, final))"
proof -
  let ?call = "payload_text show (event_payload e) ''tool_call_id''"
  let ?new = "event_type e = ''tool.request'' \<and> ?call \<noteq> [] \<and>
    internal_agent_asset_access show (event_payload e)"
  have "protects show e = (if ?new then {?call} else {})" by (simp only: protects_def Let_def)
  then show ?thesis
    by (cases ?new) (simp_all only: redact_internal_agent_asset_events.simps projected_event_def Let_def
      if_True if_False simp_thms insert_not_empty)
qed

declare redact_internal_agent_asset_events.simps(2) [simp del]

lemma protected_step:
  "set (if protects show e = {} then protected
      else List.insert (payload_text show (event_payload e) ''tool_call_id'') protected) =
    set protected \<union> protects show e"
proof -
  let ?call = "payload_text show (event_payload e) ''tool_call_id''"
  have "protects show e = {} \<or> protects show e = {?call}" by (simp only: protects_def Let_def) argo
  then show ?thesis
  proof
    assume "protects show e = {?call}"
    then show ?thesis by (simp only: insert_not_empty if_False List.set_insert Un_insert_right Un_empty_right)
  qed simp
qed

lemma redact_events_protected:
  "set (snd (redact_internal_agent_asset_events show es protected)) =
    set protected \<union> (\<Union>e \<in> set es. protects show e)"
proof (induction es arbitrary: protected)
  case (Cons e es)
  let ?call = "payload_text show (event_payload e) ''tool_call_id''"
  let ?p = "if protects show e = {} then protected else List.insert ?call protected"
  have p: "set ?p = set protected \<union> protects show e" by (rule protected_step)
  have "snd (redact_internal_agent_asset_events show (e # es) protected) =
      snd (redact_internal_agent_asset_events show es ?p)"
    by (simp only: redact_events_step Let_def case_prod_beta snd_conv)
  then show ?case by (simp only: Cons.IH p list.set UN_insert Un_assoc)
qed simp

lemma redact_events_nth:
  "i < length es \<Longrightarrow>
   fst (redact_internal_agent_asset_events show es protected) ! i =
     projected_event show (set protected \<union> (\<Union>e \<in> set (take (Suc i) es). protects show e)) (es ! i)"
proof (induction es arbitrary: i protected)
  case (Cons e es)
  let ?call = "payload_text show (event_payload e) ''tool_call_id''"
  let ?p = "if protects show e = {} then protected else List.insert ?call protected"
  have p: "set ?p = set protected \<union> protects show e"
    by (rule protected_step)
  have run: "fst (redact_internal_agent_asset_events show (e # es) protected) =
      projected_event show (set ?p) e # fst (redact_internal_agent_asset_events show es ?p)"
    by (simp only: redact_events_step Let_def case_prod_beta fst_conv)
  show ?case
  proof (cases i)
    case 0
    then show ?thesis by (simp add: run p)
  next
    case (Suc j)
    then show ?thesis using Cons.IH [of j ?p] Cons.prems by (simp only: run p) (simp add: Un_assoc)
  qed
qed simp

lemma redact_events_length:
  "length (fst (redact_internal_agent_asset_events show es protected)) = length es"
  by (induction es arbitrary: protected)
    (simp_all add: redact_events_step Let_def case_prod_unfold)

lemma redact_events_append:
  "redact_internal_agent_asset_events show (xs @ ys) protected =
     (case redact_internal_agent_asset_events show xs protected of
        (a, calls) \<Rightarrow> case redact_internal_agent_asset_events show ys calls of
          (b, final) \<Rightarrow> (a @ b, final))"
proof (induction xs arbitrary: protected)
  case (Cons e xs)
  show ?case
    by (simp only: append_Cons redact_events_step Let_def Cons.IH) (simp add: case_prod_unfold)
qed simp

text \<open>
  C14. The text of internal instructions never leaves the log: exactly the results of the calls
  that were protected before, or that an earlier event of the log shows to read an internal
  asset, are replaced by the notice; all other events stay as they are; and reading the log page
  by page, with the protected calls carried from page to page, gives what reading it at once
  does.
\<close>

theorem internal_results_hidden:
  "fst (redact_internal_agent_asset_events show es protected) =
     map (\<lambda>i. projected_event show
         (set protected \<union> (\<Union>e \<in> set (take (Suc i) es). protects show e)) (es ! i))
       [0..<length es] \<and>
   redact_internal_agent_asset_events show (es @ es2) protected =
     (case redact_internal_agent_asset_events show es protected of
        (page, calls) \<Rightarrow> case redact_internal_agent_asset_events show es2 calls of
          (next_page, final) \<Rightarrow> (page @ next_page, final))"
proof (rule conjI)
  show "fst (redact_internal_agent_asset_events show es protected) =
      map (\<lambda>i. projected_event show
          (set protected \<union> (\<Union>e \<in> set (take (Suc i) es). protects show e)) (es ! i))
        [0..<length es]"
    by (rule nth_equalityI) (simp_all only: redact_events_length redact_events_nth length_map
      length_upt diff_zero nth_map_upt add_0)
qed (rule redact_events_append)

end
