(* ===== verification/Team_Spaces.thy ===== *)
theory Team_Spaces
  imports Memory_Catalog Python_Text
begin

section \<open>Team spaces: models and the in-memory repository\<close>

text \<open>
  \<^verbatim>\<open>src/src/harness/sharing/models.py\<close> and \<^verbatim>\<open>sharing/repositories.py\<close>. The repository is four
  dictionaries: spaces, their members, the agent versions and the knowledge bases shared into
  them. Adding never overwrites; a membership is written and deleted without a check.
\<close>

datatype space_role = SpaceOwner | SpaceAdmin | SpaceContributor | SpaceViewer

fun space_role_value :: "space_role \<Rightarrow> string" where
  "space_role_value SpaceOwner = ''owner''"
| "space_role_value SpaceAdmin = ''admin''"
| "space_role_value SpaceContributor = ''contributor''"
| "space_role_value SpaceViewer = ''viewer''"

record team_space =
  space_tenant_id :: string
  space_space_id :: string
  space_name :: string
  space_description :: string
  space_created_by :: string
  space_created_at :: time

record team_member =
  member_tenant_id :: string
  member_space_id :: string
  member_user_id :: string
  member_role :: space_role
  member_created_at :: time

record shared_agent =
  shared_tenant_id :: string
  shared_space_id :: string
  shared_agent_owner :: string
  shared_agent_name :: string
  shared_agent_version :: string
  shared_by :: string
  shared_runnable_by_viewer :: bool
  shared_created_at :: time

record shared_knowledge =
  knowledge_tenant_id :: string
  knowledge_space_id :: string
  knowledge_reference :: string
  knowledge_shared_by :: string
  knowledge_created_at :: time

type_synonym member_id = "string \<times> string \<times> string"
type_synonym shared_id = "string \<times> string \<times> string \<times> string \<times> string"

record team_repo =
  team_spaces :: "(string \<times> string, team_space) dict"
  team_members :: "(member_id, team_member) dict"
  team_agents :: "(shared_id, shared_agent) dict"
  team_knowledge :: "(string \<times> string \<times> string, shared_knowledge) dict"

definition team_repo_empty :: team_repo where
  "team_repo_empty = \<lparr>team_spaces = [], team_members = [], team_agents = [], team_knowledge = []\<rparr>"

definition space_key :: "team_space \<Rightarrow> string \<times> string" where
  "space_key s = (space_tenant_id s, space_space_id s)"

definition member_key :: "team_member \<Rightarrow> member_id" where
  "member_key m = (member_tenant_id m, member_space_id m, member_user_id m)"

definition shared_key :: "shared_agent \<Rightarrow> shared_id" where
  "shared_key s = (shared_tenant_id s, shared_space_id s, shared_agent_owner s,
     shared_agent_name s, shared_agent_version s)"

definition knowledge_key :: "shared_knowledge \<Rightarrow> string \<times> string \<times> string" where
  "knowledge_key k = (knowledge_tenant_id k, knowledge_space_id k, knowledge_reference k)"

definition space_add :: "team_space \<Rightarrow> team_member \<Rightarrow> team_repo \<Rightarrow> herror + team_repo" where
  "space_add s owner repo =
     (if dict_has (team_spaces repo) (space_key s)
      then Inl (ConflictError (''team space already exists: '' @ space_space_id s))
      else Inr (repo\<lparr>team_spaces := dict_set (space_key s) s (team_spaces repo),
             team_members := dict_set (space_tenant_id s, space_space_id s, member_user_id owner)
               owner (team_members repo)\<rparr>))"

definition space_get :: "team_repo \<Rightarrow> string \<Rightarrow> string \<Rightarrow> herror + team_space" where
  "space_get repo tenant_id sid =
     (case dict_get (team_spaces repo) (tenant_id, sid) of
        None \<Rightarrow> Inl (NotFoundError (''team space not found: '' @ sid))
      | Some s \<Rightarrow> Inr s)"

definition space_list_for_user :: "team_repo \<Rightarrow> string \<Rightarrow> string \<Rightarrow> team_space list" where
  "space_list_for_user repo tenant_id user =
     (let space_ids = map (\<lambda>(stored_tenant, sid, stored_user). sid)
            (filter (\<lambda>(stored_tenant, sid, stored_user).
               stored_tenant = tenant_id \<and> stored_user = user) (map fst (team_members repo)))
      in py_sorted (\<lambda>s. (space_name s, space_space_id s))
           (map snd (filter (\<lambda>((stored_tenant, sid), s).
              stored_tenant = tenant_id \<and> sid \<in> set space_ids) (team_spaces repo))))"

definition member_get :: "team_repo \<Rightarrow> string \<Rightarrow> string \<Rightarrow> string \<Rightarrow> team_member option" where
  "member_get repo tenant_id sid user = dict_get (team_members repo) (tenant_id, sid, user)"

definition member_list :: "team_repo \<Rightarrow> string \<Rightarrow> string \<Rightarrow> team_member list" where
  "member_list repo tenant_id sid =
     py_sorted (\<lambda>m. (space_role_value (member_role m), member_user_id m))
       (map snd (filter (\<lambda>((stored_tenant, stored_space, _), m).
          stored_tenant = tenant_id \<and> stored_space = sid) (team_members repo)))"

definition member_put :: "team_member \<Rightarrow> team_repo \<Rightarrow> team_repo" where
  "member_put m repo = repo\<lparr>team_members := dict_set (member_key m) m (team_members repo)\<rparr>"

definition member_delete ::
  "string \<Rightarrow> string \<Rightarrow> string \<Rightarrow> team_repo \<Rightarrow> bool \<times> team_repo" where
  "member_delete tenant_id sid user repo =
     (dict_has (team_members repo) (tenant_id, sid, user),
      repo\<lparr>team_members := dict_pop (tenant_id, sid, user) (team_members repo)\<rparr>)"

definition shared_agent_add :: "shared_agent \<Rightarrow> team_repo \<Rightarrow> herror + team_repo" where
  "shared_agent_add s repo =
     (if dict_has (team_agents repo) (shared_key s)
      then Inl (ConflictError
        (''agent is already shared: '' @ shared_agent_name s @ ''@'' @ shared_agent_version s))
      else Inr (repo\<lparr>team_agents := dict_set (shared_key s) s (team_agents repo)\<rparr>))"

definition shared_agent_get :: "team_repo \<Rightarrow> shared_id \<Rightarrow> herror + shared_agent" where
  "shared_agent_get repo k =
     (case dict_get (team_agents repo) k of
        None \<Rightarrow> (case k of (_, _, _, name, ver) \<Rightarrow>
          Inl (NotFoundError (''shared agent not found: '' @ name @ ''@'' @ ver)))
      | Some s \<Rightarrow> Inr s)"

definition shared_agent_list :: "team_repo \<Rightarrow> string \<Rightarrow> string \<Rightarrow> shared_agent list" where
  "shared_agent_list repo tenant_id sid =
     py_sorted (\<lambda>s. (shared_agent_name s, shared_agent_version s, shared_agent_owner s))
       (map snd (filter (\<lambda>((stored_tenant, stored_space, _), s).
          stored_tenant = tenant_id \<and> stored_space = sid) (team_agents repo)))"

definition shared_agent_delete :: "shared_id \<Rightarrow> team_repo \<Rightarrow> bool \<times> team_repo" where
  "shared_agent_delete k repo =
     (dict_has (team_agents repo) k, repo\<lparr>team_agents := dict_pop k (team_agents repo)\<rparr>)"

definition shared_knowledge_add :: "shared_knowledge \<Rightarrow> team_repo \<Rightarrow> herror + team_repo" where
  "shared_knowledge_add k repo =
     (if dict_has (team_knowledge repo) (knowledge_key k)
      then Inl (ConflictError
        (''knowledge base is already shared: '' @ knowledge_reference k))
      else Inr (repo\<lparr>team_knowledge := dict_set (knowledge_key k) k (team_knowledge repo)\<rparr>))"

definition shared_knowledge_list ::
  "team_repo \<Rightarrow> string \<Rightarrow> string \<Rightarrow> shared_knowledge list" where
  "shared_knowledge_list repo tenant_id sid =
     py_sorted knowledge_reference
       (map snd (filter (\<lambda>((stored_tenant, stored_space, _), k).
          stored_tenant = tenant_id \<and> stored_space = sid) (team_knowledge repo)))"

definition shared_knowledge_delete ::
  "string \<Rightarrow> string \<Rightarrow> string \<Rightarrow> team_repo \<Rightarrow> bool \<times> team_repo" where
  "shared_knowledge_delete tenant_id sid reference repo =
     (dict_has (team_knowledge repo) (tenant_id, sid, reference),
      repo\<lparr>team_knowledge := dict_pop (tenant_id, sid, reference) (team_knowledge repo)\<rparr>)"

interpretation shared_agents: keyed_store shared_agent_add shared_agent_get shared_key
  by unfold_locales
     (auto simp: shared_agent_add_def shared_agent_get_def
       split: prod.splits if_splits option.splits)

end
