(* ===== verification/Sharing_Service.thy ===== *)
theory Sharing_Service
  imports Team_Spaces
begin

section \<open>The team space service\<close>

text \<open>
  \<^verbatim>\<open>src/src/harness/sharing/service.py\<close>. The state is the repository of team spaces, the
  agent registry and three counters: readings of the clock, generated ids and awaits.
  \<open>shd_others n\<close> is what everything else does to the state at the n-th await; for the
  in-memory repository it is the identity unless another handler runs there.
\<close>

record share_world =
  shw_teams :: team_repo
  shw_registry :: agent_registry
  shw_clock_reads :: nat
  shw_ids :: nat
  shw_awaits :: nat

record share_deps =
  shd_clock :: "nat \<Rightarrow> time"
  shd_new_id :: "string \<Rightarrow> nat \<Rightarrow> string"
  shd_others :: "nat \<Rightarrow> share_world \<Rightarrow> share_world"

type_synonym 'a shandler = "(share_world, herror, 'a) prog"

definition share_clock :: "share_deps \<Rightarrow> time shandler" where
  "share_clock d w =
     (Inr (shd_clock d (shw_clock_reads w)), w\<lparr>shw_clock_reads := Suc (shw_clock_reads w)\<rparr>)"

definition share_new_id :: "share_deps \<Rightarrow> string \<Rightarrow> string shandler" where
  "share_new_id d prefix w =
     (Inr (shd_new_id d prefix (shw_ids w)), w\<lparr>shw_ids := Suc (shw_ids w)\<rparr>)"

definition share_await :: "share_deps \<Rightarrow> 'a shandler \<Rightarrow> 'a shandler" where
  "share_await d m w = m ((shd_others d (shw_awaits w) w)\<lparr>shw_awaits := Suc (shw_awaits w)\<rparr>)"

text \<open>The three shapes of a call to the repository: a query, a checked write, a plain write.\<close>

definition team_query :: "(team_repo \<Rightarrow> herror + 'a) \<Rightarrow> 'a shandler" where
  "team_query f w = (f (shw_teams w), w)"

definition team_write :: "(team_repo \<Rightarrow> herror + team_repo) \<Rightarrow> unit shandler" where
  "team_write f w =
     (case f (shw_teams w) of Inl e \<Rightarrow> (Inl e, w) | Inr t \<Rightarrow> (Inr (), w\<lparr>shw_teams := t\<rparr>))"

definition team_update :: "(team_repo \<Rightarrow> 'a \<times> team_repo) \<Rightarrow> 'a shandler" where
  "team_update f w = (case f (shw_teams w) of (x, t) \<Rightarrow> (Inr x, w\<lparr>shw_teams := t\<rparr>))"

definition registry_lookup :: "string \<Rightarrow> string \<Rightarrow> string \<Rightarrow> string \<Rightarrow> agent_version shandler" where
  "registry_lookup tenant_id owner name ver w =
     (agent_get (shw_registry w) tenant_id owner name ver, w)"

definition registry_insert :: "agent_version \<Rightarrow> unit shandler" where
  "registry_insert v w =
     (case agent_add v (shw_registry w) of
        Inl e \<Rightarrow> (Inl e, w) | Inr r \<Rightarrow> (Inr (), w\<lparr>shw_registry := r\<rparr>))"

definition manage_roles :: "space_role list" where
  "manage_roles = [SpaceOwner, SpaceAdmin]"

definition publish_roles :: "space_role list" where
  "publish_roles = [SpaceOwner, SpaceAdmin, SpaceContributor]"

definition require_member :: "share_deps \<Rightarrow> string \<Rightarrow> string \<Rightarrow> string \<Rightarrow> team_member shandler" where
  "require_member d tenant_id sid user =
     bindP (share_await d (team_query (\<lambda>t. Inr (member_get t tenant_id sid user)))) (\<lambda>m.
       case m of
         None \<Rightarrow> raise (NotFoundError (''team space not found: '' @ sid))
       | Some x \<Rightarrow> ret x)"

definition require_role ::
  "share_deps \<Rightarrow> string \<Rightarrow> string \<Rightarrow> string \<Rightarrow> space_role list \<Rightarrow> team_member shandler" where
  "require_role d tenant_id sid user roles =
     bindP (require_member d tenant_id sid user) (\<lambda>m.
       if member_role m \<notin> set roles
       then raise (PermissionDeniedError ''team space role does not allow this action'')
       else ret m)"

subsection \<open>Spaces and members\<close>

definition create_space ::
  "share_deps \<Rightarrow> string \<Rightarrow> string \<Rightarrow> string \<Rightarrow> string \<Rightarrow> team_space shandler" where
  "create_space d tenant_id actor name description =
     bindP (share_clock d) (\<lambda>now.
     bindP (share_new_id d ''space'') (\<lambda>sid.
       let s = \<lparr>space_tenant_id = tenant_id, space_space_id = sid, space_name = py_strip name,
             space_description = py_strip description, space_created_by = actor,
             space_created_at = now\<rparr>;
           owner = \<lparr>member_tenant_id = tenant_id, member_space_id = sid, member_user_id = actor,
             member_role = SpaceOwner, member_created_at = now\<rparr>
       in if space_name s = [] then raise (ConflictError ''team space name must not be empty'')
          else thenP (share_await d (team_write (space_add s owner))) (ret s)))"

definition list_spaces :: "share_deps \<Rightarrow> string \<Rightarrow> string \<Rightarrow> team_space list shandler" where
  "list_spaces d tenant_id user =
     share_await d (team_query (\<lambda>t. Inr (space_list_for_user t tenant_id user)))"

definition get_space_for_user ::
  "share_deps \<Rightarrow> string \<Rightarrow> string \<Rightarrow> string \<Rightarrow> (team_space \<times> team_member) shandler" where
  "get_space_for_user d tenant_id user sid =
     bindP (require_member d tenant_id sid user) (\<lambda>m.
     bindP (share_await d (team_query (\<lambda>t. space_get t tenant_id sid))) (\<lambda>s. ret (s, m)))"

definition list_space_members ::
  "share_deps \<Rightarrow> string \<Rightarrow> string \<Rightarrow> string \<Rightarrow> team_member list shandler" where
  "list_space_members d tenant_id actor sid =
     thenP (require_member d tenant_id sid actor)
       (share_await d (team_query (\<lambda>t. Inr (member_list t tenant_id sid))))"

definition require_manage :: "share_deps \<Rightarrow> string \<Rightarrow> string \<Rightarrow> string \<Rightarrow> unit shandler" where
  "require_manage d tenant_id actor sid =
     thenP (require_role d tenant_id sid actor manage_roles) (ret ())"

text \<open>\<open>keep_owner\<close>: the last owner of a space is neither removed nor given another role.\<close>

definition owner_count :: "team_member list \<Rightarrow> nat" where
  "owner_count ms = length (filter (\<lambda>m. member_role m = SpaceOwner) ms)"

definition keep_owner :: "share_deps \<Rightarrow> string \<Rightarrow> string \<Rightarrow> unit shandler" where
  "keep_owner d tenant_id sid =
     bindP (share_await d (team_query (\<lambda>t. Inr (member_list t tenant_id sid)))) (\<lambda>members.
       if owner_count members = 1
       then raise (ConflictError ''team space must retain at least one owner'') else ret ())"

definition put_member ::
  "share_deps \<Rightarrow> string \<Rightarrow> string \<Rightarrow> string \<Rightarrow> string \<Rightarrow> space_role \<Rightarrow> team_member shandler" where
  "put_member d tenant_id actor_id sid user role =
     bindP (require_role d tenant_id sid actor_id manage_roles) (\<lambda>actor.
     bindP (share_await d (team_query (\<lambda>t. Inr (member_get t tenant_id sid user)))) (\<lambda>current.
       if member_role actor = SpaceAdmin \<and>
          (role \<in> set manage_roles \<or>
           (case current of None \<Rightarrow> False | Some m \<Rightarrow> member_role m \<in> set manage_roles))
       then raise (PermissionDeniedError ''space admins cannot manage owners or other admins'')
       else
         thenP (whenP ((case current of None \<Rightarrow> False | Some m \<Rightarrow> member_role m = SpaceOwner) \<and>
                       role \<noteq> SpaceOwner) (keep_owner d tenant_id sid))
         (bindP (case current of None \<Rightarrow> share_clock d | Some m \<Rightarrow> ret (member_created_at m))
            (\<lambda>created.
          let m = \<lparr>member_tenant_id = tenant_id, member_space_id = sid, member_user_id = user,
                member_role = role, member_created_at = created\<rparr>
          in thenP (share_await d (team_update (\<lambda>t. ((), member_put m t)))) (ret m)))))"

definition remove_member ::
  "share_deps \<Rightarrow> string \<Rightarrow> string \<Rightarrow> string \<Rightarrow> string \<Rightarrow> unit shandler" where
  "remove_member d tenant_id actor_id sid user =
     bindP (require_member d tenant_id sid actor_id) (\<lambda>actor.
     bindP (require_member d tenant_id sid user) (\<lambda>target.
       if actor_id \<noteq> user \<and> member_role actor \<notin> set manage_roles
       then raise (PermissionDeniedError ''only space managers can remove another member'')
       else if member_role actor = SpaceAdmin \<and> member_role target \<in> set manage_roles
       then raise (PermissionDeniedError ''space admins cannot remove owners or other admins'')
       else
         thenP (whenP (member_role target = SpaceOwner) (keep_owner d tenant_id sid))
           (thenP (share_await d (team_update (member_delete tenant_id sid user))) (ret ()))))"

subsection \<open>Shared agents\<close>

definition share_agent ::
  "share_deps \<Rightarrow> string \<Rightarrow> string \<Rightarrow> string \<Rightarrow> string \<Rightarrow> string \<Rightarrow> string \<Rightarrow> bool \<Rightarrow>
   shared_agent shandler" where
  "share_agent d tenant_id actor sid owner name ver runnable_by_viewer =
     thenP (require_role d tenant_id sid actor publish_roles)
       (if owner \<noteq> actor then raise (PermissionDeniedError ''users can only share their own Agents'')
        else bindP (share_await d (registry_lookup tenant_id owner name ver)) (\<lambda>agent.
          if version_status agent \<noteq> VersionPublished
          then raise (ConflictError ''only published Agent versions can be shared'')
          else bindP (share_clock d) (\<lambda>now.
            let s = \<lparr>shared_tenant_id = tenant_id, shared_space_id = sid,
                  shared_agent_owner = owner, shared_agent_name = name,
                  shared_agent_version = ver, shared_by = actor,
                  shared_runnable_by_viewer = runnable_by_viewer, shared_created_at = now\<rparr>
            in thenP (share_await d (team_write (shared_agent_add s))) (ret s))))"

definition unshare_agent ::
  "share_deps \<Rightarrow> string \<Rightarrow> string \<Rightarrow> string \<Rightarrow> string \<Rightarrow> string \<Rightarrow> string \<Rightarrow> unit shandler" where
  "unshare_agent d tenant_id actor sid owner name ver =
     bindP (require_role d tenant_id sid actor publish_roles) (\<lambda>m.
       if member_role m = SpaceContributor \<and> owner \<noteq> actor
       then raise (PermissionDeniedError ''contributors can only unshare their own Agents'')
       else bindP (share_await d (team_update
                     (shared_agent_delete (tenant_id, sid, owner, name, ver)))) (\<lambda>deleted.
         if \<not> deleted then raise (NotFoundError (''shared agent not found: '' @ name @ ''@'' @ ver))
         else ret ()))"

text \<open>A shared version that is missing or no longer published is skipped.\<close>

definition list_shared_agents ::
  "share_deps \<Rightarrow> string \<Rightarrow> string \<Rightarrow> string \<Rightarrow> (shared_agent \<times> agent_version) list shandler" where
  "list_shared_agents d tenant_id user sid =
     thenP (require_member d tenant_id sid user)
     (bindP (share_await d (team_query (\<lambda>t. Inr (shared_agent_list t tenant_id sid)))) (\<lambda>listed.
        foldP (\<lambda>result s.
          bindP (tryP (share_await d (registry_lookup tenant_id (shared_agent_owner s)
                   (shared_agent_name s) (shared_agent_version s)))) (\<lambda>outcome.
            case outcome of
              Inl e \<Rightarrow> if is_not_found e then ret result else raise e
            | Inr v \<Rightarrow> ret (if version_status v = VersionPublished
                then result @ [(s, v)] else result))) [] listed))"

definition list_accessible_agents ::
  "share_deps \<Rightarrow> string \<Rightarrow> string \<Rightarrow>
   (team_space \<times> team_member \<times> shared_agent \<times> agent_version) list shandler" where
  "list_accessible_agents d tenant_id user =
     bindP (share_await d (team_query (\<lambda>t. Inr (space_list_for_user t tenant_id user)))) (\<lambda>spaces.
       foldP (\<lambda>result s.
         bindP (require_member d tenant_id (space_space_id s) user) (\<lambda>m.
         bindP (list_shared_agents d tenant_id user (space_space_id s)) (\<lambda>agents.
           ret (result @ map (\<lambda>(shared, v). (s, m, shared, v)) agents)))) [] spaces)"

definition require_agent_access ::
  "share_deps \<Rightarrow> string \<Rightarrow> string \<Rightarrow> string \<Rightarrow> string \<Rightarrow> string \<Rightarrow> string \<Rightarrow> shared_agent shandler"
where
  "require_agent_access d tenant_id user sid owner name ver =
     bindP (require_member d tenant_id sid user) (\<lambda>m.
     bindP (share_await d (team_query
              (\<lambda>t. shared_agent_get t (tenant_id, sid, owner, name, ver)))) (\<lambda>s.
       if member_role m = SpaceViewer \<and> \<not> shared_runnable_by_viewer s
       then raise (PermissionDeniedError ''viewers cannot run this shared Agent'') else ret s))"

definition fork_agent ::
  "share_deps \<Rightarrow> string \<Rightarrow> string \<Rightarrow> string \<Rightarrow> string \<Rightarrow> string \<Rightarrow> string \<Rightarrow> agent_version shandler"
where
  "fork_agent d tenant_id user sid owner name ver =
     thenP (require_agent_access d tenant_id user sid owner name ver)
     (bindP (share_await d (registry_lookup tenant_id owner name ver)) (\<lambda>source.
      bindP (share_clock d) (\<lambda>now.
        let fork = source\<lparr>version_owner_user_id := user, version_created_at := now\<rparr>
        in bindP (tryP (share_await d (registry_insert fork))) (\<lambda>outcome.
             case outcome of
               Inr _ \<Rightarrow> ret fork
             | Inl e \<Rightarrow>
                 if \<not> is_conflict_error e then raise e
                 else bindP (share_await d (registry_lookup tenant_id user name ver)) (\<lambda>existing.
                   if version_manifest_hash existing \<noteq> version_manifest_hash source
                   then raise (ConflictError
                     (''personal Agent already exists with different content: '' @
                      name @ ''@'' @ ver))
                   else ret existing)))))"

subsection \<open>Shared knowledge bases\<close>

definition share_knowledge ::
  "share_deps \<Rightarrow> string \<Rightarrow> string \<Rightarrow> string \<Rightarrow> string \<Rightarrow> shared_knowledge shandler" where
  "share_knowledge d tenant_id actor sid reference =
     thenP (require_role d tenant_id sid actor manage_roles)
     (bindP (share_clock d) (\<lambda>now.
        let k = \<lparr>knowledge_tenant_id = tenant_id, knowledge_space_id = sid,
              knowledge_reference = reference, knowledge_shared_by = actor,
              knowledge_created_at = now\<rparr>
        in thenP (share_await d (team_write (shared_knowledge_add k))) (ret k)))"

definition list_knowledge ::
  "share_deps \<Rightarrow> string \<Rightarrow> string \<Rightarrow> string \<Rightarrow> shared_knowledge list shandler" where
  "list_knowledge d tenant_id user sid =
     thenP (require_member d tenant_id sid user)
       (share_await d (team_query (\<lambda>t. Inr (shared_knowledge_list t tenant_id sid))))"

definition unshare_knowledge ::
  "share_deps \<Rightarrow> string \<Rightarrow> string \<Rightarrow> string \<Rightarrow> string \<Rightarrow> unit shandler" where
  "unshare_knowledge d tenant_id actor sid reference =
     thenP (require_role d tenant_id sid actor manage_roles)
     (bindP (share_await d (team_update (shared_knowledge_delete tenant_id sid reference)))
        (\<lambda>deleted.
          if \<not> deleted
          then raise (NotFoundError (''shared knowledge base not found: '' @ reference))
          else ret ()))"

fun has_knowledge_access ::
  "share_deps \<Rightarrow> string \<Rightarrow> string \<Rightarrow> string list \<Rightarrow> string \<Rightarrow> bool shandler" where
  "has_knowledge_access d tenant_id user [] reference = ret False"
| "has_knowledge_access d tenant_id user (sid # sids) reference =
     bindP (share_await d (team_query (\<lambda>t. Inr (member_get t tenant_id sid user)))) (\<lambda>m.
       if m = None then has_knowledge_access d tenant_id user sids reference
       else bindP (share_await d (team_query (\<lambda>t. Inr (shared_knowledge_list t tenant_id sid))))
         (\<lambda>items.
           if list_ex (\<lambda>k. knowledge_reference k = reference) items then ret True
           else has_knowledge_access d tenant_id user sids reference))"

subsection \<open>Calls\<close>

datatype share_call =
    CreateSpace string string string string
  | PutMember string string string string space_role
  | RemoveMember string string string string
  | ShareAgent string string string string string string bool
  | UnshareAgent string string string string string string
  | ForkAgent string string string string string string
  | ShareKnowledge string string string string
  | UnshareKnowledge string string string string

definition ignore_result :: "('s, 'e, 'a) prog \<Rightarrow> ('s, 'e, unit) prog" where
  "ignore_result m = thenP m (ret ())"

fun share_perform :: "share_deps \<Rightarrow> share_call \<Rightarrow> unit shandler" where
  "share_perform d (CreateSpace t a n x) = ignore_result (create_space d t a n x)"
| "share_perform d (PutMember t a s u r) = ignore_result (put_member d t a s u r)"
| "share_perform d (RemoveMember t a s u) = remove_member d t a s u"
| "share_perform d (ShareAgent t a s ow n v b) = ignore_result (share_agent d t a s ow n v b)"
| "share_perform d (UnshareAgent t a s ow n v) = unshare_agent d t a s ow n v"
| "share_perform d (ForkAgent t u s ow n v) = ignore_result (fork_agent d t u s ow n v)"
| "share_perform d (ShareKnowledge t a s k) = ignore_result (share_knowledge d t a s k)"
| "share_perform d (UnshareKnowledge t a s k) = unshare_knowledge d t a s k"

text \<open>The state after a sequence of calls, each run to its end; a call that raises stops nothing.\<close>

definition share_run :: "share_deps \<Rightarrow> share_call list \<Rightarrow> share_world \<Rightarrow> share_world" where
  "share_run d calls w = foldl (\<lambda>w c. snd (share_perform d c w)) w calls"

end
