(* ===== verification/Sharing_Properties.thy ===== *)
theory Sharing_Properties
  imports Sharing_Service
begin

section \<open>What holds of team spaces\<close>

text \<open>
  The specification of the memberships is an access matrix: the role of every user in every
  space, and two predicates that say who may change it. Calls that run to their end implement it
  (\<open>membership_refines_matrix\<close>) and so no space loses its last owner
  (\<open>spaces_keep_an_owner\<close>); calls that interleave do not (\<open>owners_leave_together\<close>).
\<close>

type_synonym role_matrix = "member_id \<Rightarrow> space_role option"

definition matrix :: "share_world \<Rightarrow> role_matrix" where
  "matrix w k = map_option member_role (dict_get (team_members (shw_teams w)) k)"

definition manages :: "space_role option \<Rightarrow> bool" where
  "manages r \<longleftrightarrow> r = Some SpaceOwner \<or> r = Some SpaceAdmin"

definition other_owner :: "role_matrix \<Rightarrow> string \<Rightarrow> string \<Rightarrow> string \<Rightarrow> bool" where
  "other_owner R t s u \<longleftrightarrow> (\<exists>v. v \<noteq> u \<and> R (t, s, v) = Some SpaceOwner)"

text \<open>Who may give a user a role, and who may remove a user.\<close>

definition may_put :: "role_matrix \<Rightarrow> string \<Rightarrow> string \<Rightarrow> string \<Rightarrow> string \<Rightarrow> space_role \<Rightarrow> bool" where
  "may_put R t s a u r \<longleftrightarrow>
     (R (t, s, a) = Some SpaceOwner \<or>
      R (t, s, a) = Some SpaceAdmin \<and> \<not> manages (Some r) \<and> \<not> manages (R (t, s, u))) \<and>
     (R (t, s, u) = Some SpaceOwner \<and> r \<noteq> SpaceOwner \<longrightarrow> other_owner R t s u)"

definition may_remove :: "role_matrix \<Rightarrow> string \<Rightarrow> string \<Rightarrow> string \<Rightarrow> string \<Rightarrow> bool" where
  "may_remove R t s a u \<longleftrightarrow>
     R (t, s, u) \<noteq> None \<and>
     (R (t, s, a) = Some SpaceOwner \<or>
      R (t, s, a) = Some SpaceAdmin \<and> \<not> manages (R (t, s, u)) \<or>
      R (t, s, a) \<noteq> None \<and> a = u \<and> R (t, s, a) \<noteq> Some SpaceAdmin) \<and>
     (R (t, s, u) = Some SpaceOwner \<longrightarrow> other_owner R t s u)"

definition quiet_share :: "share_deps \<Rightarrow> bool" where
  "quiet_share d \<longleftrightarrow> (\<forall>n w. shd_others d n w = w)"

definition team_inv :: "team_repo \<Rightarrow> bool" where
  "team_inv t \<longleftrightarrow> dict_wf (team_members t) \<and>
     (\<forall>k m. dict_get (team_members t) k = Some m \<longrightarrow>
        member_key m = k \<and> dict_has (team_spaces t) (fst k, fst (snd k))) \<and>
     (\<forall>k. dict_has (team_spaces t) k \<longrightarrow>
        (\<exists>u m. dict_get (team_members t) (fst k, snd k, u) = Some m \<and> member_role m = SpaceOwner))"

subsection \<open>Running alone\<close>

lemma share_await_quiet:
  "quiet_share d \<Longrightarrow> share_await d m w = m (w\<lparr>shw_awaits := Suc (shw_awaits w)\<rparr>)"
  by (simp add: share_await_def quiet_share_def)

lemmas share_apply = share_await_quiet team_query_def team_write_def team_update_def
  share_clock_def share_new_id_def prog_apply

lemma require_member_alone:
  "quiet_share d \<Longrightarrow> require_member d t s u w =
     (case dict_get (team_members (shw_teams w)) (t, s, u) of
        None \<Rightarrow> Inl (NotFoundError (''team space not found: '' @ s)) | Some m \<Rightarrow> Inr m,
      w\<lparr>shw_awaits := Suc (shw_awaits w)\<rparr>)"
  by (simp add: require_member_def share_apply member_get_def split: option.split)

lemma require_role_alone:
  "quiet_share d \<Longrightarrow> require_role d t s u roles w =
     (case dict_get (team_members (shw_teams w)) (t, s, u) of
        None \<Rightarrow> Inl (NotFoundError (''team space not found: '' @ s))
      | Some m \<Rightarrow> if member_role m \<in> set roles then Inr m
          else Inl (PermissionDeniedError ''team space role does not allow this action''),
      w\<lparr>shw_awaits := Suc (shw_awaits w)\<rparr>)"
  by (simp add: require_role_def require_member_alone prog_apply split: option.split)

lemma card_one_member: "x \<in> A \<Longrightarrow> card A = 1 \<longleftrightarrow> (\<forall>y \<in> A. y = x)"
  by (auto simp: card_1_singleton_iff)

lemma only_one_iff:
  assumes "g u = Some m"
  shows "(\<forall>v m'. g v = Some m' \<and> P m' \<longrightarrow> v = u \<and> m' = m) \<longleftrightarrow>
    \<not> (\<exists>v m'. v \<noteq> u \<and> g v = Some m' \<and> P m')"
  using assms by (metis option.inject)

text \<open>Counting the owners of a space tells whether there is another one.\<close>

lemma owner_count_single:
  assumes inv: "team_inv (shw_teams w)" and u: "matrix w (t, s, u) = Some SpaceOwner"
  shows "owner_count (member_list (shw_teams w) t s) = 1 \<longleftrightarrow> \<not> other_owner (matrix w) t s u"
proof -
  let ?ms = "team_members (shw_teams w)"
  let ?P = "\<lambda>(k :: member_id, m). fst k = t \<and> fst (snd k) = s \<and> member_role m = SpaceOwner"
  have wf: "dict_wf ?ms" using inv by (simp add: team_inv_def)
  have "owner_count (member_list (shw_teams w) t s) = length (filter ?P ?ms)"
    by (auto simp: owner_count_def member_list_def py_sorted_def filter_sort filter_map comp_def
      intro!: arg_cong [where f = length] filter_cong)
  also have "\<dots> = card (Collect ?P \<inter> set ?ms)"
    by (rule distinct_length_filter) (use wf in \<open>simp add: distinct_map\<close>)
  finally have count: "owner_count (member_list (shw_teams w) t s) = card (Collect ?P \<inter> set ?ms)" .
  have mem: "(k, m) \<in> set ?ms \<longleftrightarrow> dict_get ?ms k = Some m" for k m
    using wf by (rule dict_mem_iff)
  obtain m where m: "dict_get ?ms (t, s, u) = Some m" "member_role m = SpaceOwner"
    using u by (auto simp: matrix_def)
  have other: "other_owner (matrix w) t s u \<longleftrightarrow>
      (\<exists>v m'. v \<noteq> u \<and> dict_get ?ms (t, s, v) = Some m' \<and> member_role m' = SpaceOwner)"
    by (auto simp: other_owner_def matrix_def)
  have inside: "((t, s, u), m) \<in> Collect ?P \<inter> set ?ms" using m mem by simp
  then have "card (Collect ?P \<inter> set ?ms) = 1 \<longleftrightarrow>
      (\<forall>p \<in> Collect ?P \<inter> set ?ms. p = ((t, s, u), m))"
    by (rule card_one_member)
  also have "\<dots> \<longleftrightarrow> (\<forall>v m'. dict_get ?ms (t, s, v) = Some m' \<and> member_role m' = SpaceOwner \<longrightarrow>
      v = u \<and> m' = m)"
    unfolding Ball_def Int_iff mem_Collect_eq split_paired_All prod.case mem fst_conv snd_conv
      prod.inject by blast
  also have "\<dots> \<longleftrightarrow> \<not> other_owner (matrix w) t s u"
    unfolding other by (rule only_one_iff [where g = "\<lambda>v. dict_get ?ms (t, s, v)"]) (rule m(1))
  finally show ?thesis unfolding count .
qed

lemma keep_owner_alone:
  assumes "quiet_share d" and "team_inv (shw_teams w)" and "matrix w (t, s, u) = Some SpaceOwner"
  shows "keep_owner d t s w =
    (if other_owner (matrix w) t s u then Inr ()
     else Inl (ConflictError ''team space must retain at least one owner''),
     w\<lparr>shw_awaits := Suc (shw_awaits w)\<rparr>)"
  using owner_count_single [OF assms(2,3)] assms(1) by (simp add: keep_owner_def share_apply)

subsection \<open>Calls implement the access matrix\<close>

fun matrix_step ::
  "share_call \<Rightarrow> herror + unit \<Rightarrow> role_matrix \<Rightarrow> role_matrix \<Rightarrow> bool" where
  "matrix_step (PutMember t a s u role) r R R' =
     (if may_put R t s a u role then r = Inr () \<and> R' = R((t, s, u) := Some role)
      else (\<exists>e. r = Inl e) \<and> R' = R)"
| "matrix_step (RemoveMember t a s u) r R R' =
     (if may_remove R t s a u then r = Inr () \<and> R' = R((t, s, u) := None)
      else (\<exists>e. r = Inl e) \<and> R' = R)"
| "matrix_step (CreateSpace t a name descr) r R R' =
     (case r of
        Inl e \<Rightarrow> R' = R
      | Inr _ \<Rightarrow> \<exists>s. (\<forall>u. R (t, s, u) = None) \<and> R' = R((t, s, a) := Some SpaceOwner))"
| "matrix_step _ r R R' = (R' = R)"

lemma matrix_awaits [simp]: "matrix (w\<lparr>shw_awaits := k\<rparr>) = matrix w"
  by (simp add: matrix_def fun_eq_iff)

lemma put_member_step:
  assumes q: "quiet_share d" and inv: "team_inv (shw_teams w)"
  shows "case put_member d t a s u role w of (r, w') \<Rightarrow>
    if may_put (matrix w) t s a u role
    then \<exists>m. r = Inr m \<and> member_key m = (t, s, u) \<and> member_role m = role \<and>
      shw_teams w' = member_put m (shw_teams w)
    else (\<exists>e. r = Inl e) \<and> shw_teams w' = shw_teams w"
proof -
  let ?get = "dict_get (team_members (shw_teams w))"
  let ?w = "w\<lparr>shw_awaits := Suc (Suc (shw_awaits w))\<rparr>"
  have keep: "keep_owner d t s ?w =
      (if other_owner (matrix w) t s u then Inr ()
       else Inl (ConflictError ''team space must retain at least one owner''),
       ?w\<lparr>shw_awaits := Suc (shw_awaits ?w)\<rparr>)" if "matrix w (t, s, u) = Some SpaceOwner"
    using keep_owner_alone [OF q, of ?w t s u] inv that by simp
  have m: "matrix w (t, s, v) = map_option member_role (?get (t, s, v))" for v
    by (simp add: matrix_def)
  show ?thesis
  proof (cases "?get (t, s, a)")
    case None
    then show ?thesis
      by (simp add: put_member_def bindP_apply require_role_alone [OF q] may_put_def m)
  next
    case (Some x)
    then show ?thesis
      using keep
      by (cases "?get (t, s, u)"; cases "member_role x"; cases role)
         (auto simp: put_member_def require_role_alone [OF q] may_put_def m share_apply q
           manage_roles_def manages_def member_get_def member_key_def Let_def)
  qed
qed

lemma remove_member_step:
  assumes q: "quiet_share d" and inv: "team_inv (shw_teams w)"
  shows "case remove_member d t a s u w of (r, w') \<Rightarrow>
    if may_remove (matrix w) t s a u
    then r = Inr () \<and> shw_teams w' = snd (member_delete t s u (shw_teams w))
    else (\<exists>e. r = Inl e) \<and> shw_teams w' = shw_teams w"
proof -
  let ?get = "dict_get (team_members (shw_teams w))"
  let ?w = "w\<lparr>shw_awaits := Suc (Suc (shw_awaits w))\<rparr>"
  have keep: "keep_owner d t s ?w =
      (if other_owner (matrix w) t s u then Inr ()
       else Inl (ConflictError ''team space must retain at least one owner''),
       ?w\<lparr>shw_awaits := Suc (shw_awaits ?w)\<rparr>)" if "matrix w (t, s, u) = Some SpaceOwner"
    using keep_owner_alone [OF q, of ?w t s u] inv that by simp
  have m: "matrix w (t, s, v) = map_option member_role (?get (t, s, v))" for v
    by (simp add: matrix_def)
  show ?thesis
  proof (cases "?get (t, s, a)")
    case None
    then show ?thesis
      by (auto simp: remove_member_def bindP_apply require_member_alone [OF q] may_remove_def m)
  next
    case (Some x)
    then show ?thesis
      using keep
      by (cases "?get (t, s, u)"; cases "member_role x")
         (auto simp: remove_member_def require_member_alone [OF q] may_remove_def m share_apply q
           manage_roles_def manages_def member_delete_def)
  qed
qed

lemma create_space_step:
  assumes "quiet_share d"
  shows "case create_space d t a name descr w of (r, w') \<Rightarrow>
    (case r of
       Inl e \<Rightarrow> shw_teams w' = shw_teams w
     | Inr s \<Rightarrow> \<exists>m. space_add s m (shw_teams w) = Inr (shw_teams w') \<and>
         member_key m = (t, space_space_id s, a) \<and> member_role m = SpaceOwner \<and>
         space_tenant_id s = t)"
  using assms by (auto simp: create_space_def share_apply Let_def member_key_def split: sum.split)

subsection \<open>The other calls leave the memberships alone\<close>

definition same_members :: "share_world \<Rightarrow> share_world \<Rightarrow> bool" where
  "same_members v w \<longleftrightarrow> team_members (shw_teams w) = team_members (shw_teams v) \<and>
     team_spaces (shw_teams w) = team_spaces (shw_teams v)"

interpretation same_members: evolution same_members
  by unfold_locales (auto simp: same_members_def)

lemmas same_members_intros = same_members.evolves_bindP same_members.evolves_thenP
  same_members.evolves_tryP same_members.evolves_ret same_members.evolves_raise
  same_members.evolves_If same_members.evolves_Let

lemma same_members_await:
  "quiet_share d \<Longrightarrow> evolves same_members m \<Longrightarrow> evolves same_members (share_await d m)"
  by (simp add: evolves_def share_await_quiet same_members_def)

lemma same_members_ports:
  "evolves same_members (team_query f)" "evolves same_members (share_clock d)"
  "evolves same_members (registry_lookup t ow n v)" "evolves same_members (registry_insert x)"
  "evolves same_members (team_write (shared_agent_add y))"
  "evolves same_members (team_write (shared_knowledge_add z))"
  "evolves same_members (team_update (shared_agent_delete k))"
  "evolves same_members (team_update (shared_knowledge_delete t s ref))"
  by (auto simp: evolves_def same_members_def team_query_def share_clock_def registry_lookup_def
    registry_insert_def team_write_def team_update_def shared_agent_add_def shared_agent_delete_def
    shared_knowledge_add_def shared_knowledge_delete_def split: sum.splits if_splits)

lemma same_members_require:
  "quiet_share d \<Longrightarrow> evolves same_members (require_member d t s u)"
  "quiet_share d \<Longrightarrow> evolves same_members (require_role d t s u roles)"
  by (simp_all add: evolves_def require_member_alone require_role_alone same_members_def)

fun changes_members :: "share_call \<Rightarrow> bool" where
  "changes_members (CreateSpace _ _ _ _) = True"
| "changes_members (PutMember _ _ _ _ _) = True"
| "changes_members (RemoveMember _ _ _ _) = True"
| "changes_members _ = False"

lemma same_members_case_sum:
  "(\<And>e. evolves same_members (f e)) \<Longrightarrow> (\<And>x. evolves same_members (g x)) \<Longrightarrow>
   evolves same_members (case v of Inl e \<Rightarrow> f e | Inr x \<Rightarrow> g x)"
  by (cases v) simp_all

lemma other_calls_same_members:
  assumes "quiet_share d" and "\<not> changes_members c"
  shows "evolves same_members (share_perform d c)"
  using assms
  by (cases c)
     (auto simp: ignore_result_def share_agent_def unshare_agent_def fork_agent_def
       require_agent_access_def share_knowledge_def unshare_knowledge_def
       intro!: same_members_intros same_members_await same_members_ports same_members_require
         same_members_case_sum)

subsection \<open>The access matrix of the calls\<close>

lemma matrix_put:
  "shw_teams w' = member_put m (shw_teams w) \<Longrightarrow>
   matrix w' = (matrix w)(member_key m := Some (member_role m))"
  by (simp add: matrix_def member_put_def fun_eq_iff)

lemma matrix_delete:
  "shw_teams w' = snd (member_delete t s u (shw_teams w)) \<Longrightarrow>
   matrix w' = (matrix w)((t, s, u) := None)"
  by (simp add: matrix_def member_delete_def fun_eq_iff)

lemma matrix_same: "team_members (shw_teams w') = team_members (shw_teams w) \<Longrightarrow> matrix w' = matrix w"
  by (simp add: matrix_def fun_eq_iff)

lemma team_invI:
  assumes "dict_wf (team_members t)"
    and "\<And>k m. dict_get (team_members t) k = Some m \<Longrightarrow>
      member_key m = k \<and> dict_has (team_spaces t) (fst k, fst (snd k))"
    and "\<And>a b. dict_has (team_spaces t) (a, b) \<Longrightarrow>
      \<exists>u m. dict_get (team_members t) (a, b, u) = Some m \<and> member_role m = SpaceOwner"
  shows "team_inv t"
  using assms unfolding team_inv_def by fastforce

lemma team_invD:
  assumes "team_inv t"
  shows "dict_wf (team_members t)"
    and "dict_get (team_members t) k = Some m \<Longrightarrow>
      member_key m = k \<and> dict_has (team_spaces t) (fst k, fst (snd k))"
    and "dict_has (team_spaces t) (a, b) \<Longrightarrow>
      \<exists>u m. dict_get (team_members t) (a, b, u) = Some m \<and> member_role m = SpaceOwner"
  using assms unfolding team_inv_def by fastforce+

lemma team_inv_same:
  "team_inv t \<Longrightarrow> team_members t' = team_members t \<Longrightarrow> team_spaces t' = team_spaces t \<Longrightarrow> team_inv t'"
  by (simp add: team_inv_def)

lemma team_inv_put:
  assumes t: "team_inv t" and k: "member_key m = (a, b, u)"
    and actor: "dict_get (team_members t) (a, b, v) = Some x"
    and owner: "\<And>y. dict_get (team_members t) (a, b, u) = Some y \<Longrightarrow> member_role y = SpaceOwner \<Longrightarrow>
      member_role m = SpaceOwner \<or> (\<exists>z y. z \<noteq> u \<and> dict_get (team_members t) (a, b, z) = Some y \<and> member_role y = SpaceOwner)"
  shows "team_inv (member_put m t)"
proof (rule team_invI)
  show "dict_wf (team_members (member_put m t))"
    using team_invD(1) [OF t] by (simp add: member_put_def)
next
  fix k' m'
  assume "dict_get (team_members (member_put m t)) k' = Some m'"
  then show "member_key m' = k' \<and> dict_has (team_spaces (member_put m t)) (fst k', fst (snd k'))"
    using team_invD(2) [OF t] team_invD(2) [OF t actor] k
    by (auto simp: member_put_def split: if_splits)
next
  fix a' b'
  assume "dict_has (team_spaces (member_put m t)) (a', b')"
  then obtain z y where "dict_get (team_members t) (a', b', z) = Some y" "member_role y = SpaceOwner"
    using team_invD(3) [OF t, of a' b'] by (auto simp: member_put_def)
  show "\<exists>u m'. dict_get (team_members (member_put m t)) (a', b', u) = Some m' \<and>
      member_role m' = SpaceOwner"
  proof (cases "(a', b', z) = (a, b, u) \<and> member_role m \<noteq> SpaceOwner")
    case True
    with owner [of y] \<open>dict_get (team_members t) (a', b', z) = Some y\<close> \<open>member_role y = SpaceOwner\<close>
    obtain z' y' where "z' \<noteq> u" "dict_get (team_members t) (a, b, z') = Some y'"
        "member_role y' = SpaceOwner"
      by auto
    with True k show ?thesis by (auto simp: member_put_def)
  next
    case False
    with k \<open>dict_get (team_members t) (a', b', z) = Some y\<close> \<open>member_role y = SpaceOwner\<close>
    show ?thesis by (cases "(a', b', z) = (a, b, u)") (auto simp: member_put_def)
  qed
qed

lemma team_inv_delete:
  assumes t: "team_inv t"
    and owner: "\<And>y. dict_get (team_members t) (a, b, u) = Some y \<Longrightarrow> member_role y = SpaceOwner \<Longrightarrow>
      (\<exists>z y. z \<noteq> u \<and> dict_get (team_members t) (a, b, z) = Some y \<and> member_role y = SpaceOwner)"
  shows "team_inv (snd (member_delete a b u t))"
proof (rule team_invI)
  show "dict_wf (team_members (snd (member_delete a b u t)))"
    using team_invD(1) [OF t] by (simp add: member_delete_def)
next
  fix k' m'
  assume "dict_get (team_members (snd (member_delete a b u t))) k' = Some m'"
  then show "member_key m' = k' \<and>
      dict_has (team_spaces (snd (member_delete a b u t))) (fst k', fst (snd k'))"
    using team_invD(2) [OF t] by (auto simp: member_delete_def split: if_splits)
next
  fix a' b'
  assume "dict_has (team_spaces (snd (member_delete a b u t))) (a', b')"
  then obtain z y where z: "dict_get (team_members t) (a', b', z) = Some y" "member_role y = SpaceOwner"
    using team_invD(3) [OF t, of a' b'] by (auto simp: member_delete_def)
  show "\<exists>u' m'. dict_get (team_members (snd (member_delete a b u t))) (a', b', u') = Some m' \<and>
      member_role m' = SpaceOwner"
  proof (cases "(a', b', z) = (a, b, u)")
    case True
    with z owner obtain z' y' where "z' \<noteq> u" "dict_get (team_members t) (a, b, z') = Some y'"
        "member_role y' = SpaceOwner"
      by auto
    with True show ?thesis by (auto simp: member_delete_def)
  next
    case False
    with z show ?thesis by (auto simp: member_delete_def)
  qed
qed

lemma team_inv_add:
  assumes t: "team_inv t" and add: "space_add s m t = Inr t'"
    and k: "member_key m = (space_tenant_id s, space_space_id s, a)" "member_role m = SpaceOwner"
  shows "team_inv t'"
    and "dict_get (team_members t) (space_tenant_id s, space_space_id s, u) = None"
    and "team_members t' = dict_set (member_key m) m (team_members t)"
proof -
  have new: "dict_get (team_spaces t) (space_key s) = None"
    and t': "t' = t\<lparr>team_spaces := dict_set (space_key s) s (team_spaces t),
      team_members := dict_set (member_key m) m (team_members t)\<rparr>"
    using add k(1) by (auto simp: space_add_def member_key_def split: if_splits)
  show "dict_get (team_members t) (space_tenant_id s, space_space_id s, u) = None" for u
    using team_invD(2) [OF t, of "(space_tenant_id s, space_space_id s, u)"] new
    by (cases "dict_get (team_members t) (space_tenant_id s, space_space_id s, u)")
       (auto simp: space_key_def)
  show "team_members t' = dict_set (member_key m) m (team_members t)" by (simp add: t')
  show "team_inv t'"
  proof (rule team_invI)
    show "dict_wf (team_members t')" using team_invD(1) [OF t] by (simp add: t')
  next
    fix k' m'
    assume "dict_get (team_members t') k' = Some m'"
    then show "member_key m' = k' \<and> dict_has (team_spaces t') (fst k', fst (snd k'))"
      using team_invD(2) [OF t] k by (auto simp: t' space_key_def split: if_splits)
  next
    fix a' b'
    assume "dict_has (team_spaces t') (a', b')"
    then show "\<exists>u m'. dict_get (team_members t') (a', b', u) = Some m' \<and> member_role m' = SpaceOwner"
      using team_invD(3) [OF t, of a' b'] k
      by (cases "(a', b') = space_key s") (auto simp: t' space_key_def split: if_splits)
  qed
qed

lemma share_perform_step:
  assumes q: "quiet_share d" and inv: "team_inv (shw_teams w)" and run: "share_perform d c w = (r, w')"
  shows "matrix_step c r (matrix w) (matrix w') \<and> team_inv (shw_teams w')"
proof (cases "changes_members c")
  case False
  have "same_members w w'" using evolvesD [OF other_calls_same_members [OF q False] run] .
  then have "matrix w' = matrix w" "team_inv (shw_teams w')"
    using team_inv_same [OF inv] by (auto simp: same_members_def intro: matrix_same)
  then show ?thesis using False by (cases c) auto
next
  case True
  then show ?thesis
  proof (cases c)
    case (CreateSpace t a name descr)
    show ?thesis
    proof (cases "create_space d t a name descr w")
      case (Pair r' v)
      with run CreateSpace have r: "r = (case r' of Inl e \<Rightarrow> Inl e | Inr _ \<Rightarrow> Inr ())" "w' = v"
        by (auto simp: ignore_result_def thenP_apply split: sum.splits)
      show ?thesis
      proof (cases r')
        case (Inl e)
        then have "shw_teams w' = shw_teams w"
          using create_space_step [OF q, where t = t and a = a and name = name and descr = descr and w = w] Pair r by simp
        then show ?thesis using CreateSpace r Inl inv by (auto intro: matrix_same)
      next
        case (Inr s)
        then obtain m where m: "space_add s m (shw_teams w) = Inr (shw_teams w')"
            "member_key m = (space_tenant_id s, space_space_id s, a)" "member_role m = SpaceOwner"
            "space_tenant_id s = t"
          using create_space_step [OF q, where t = t and a = a and name = name and descr = descr and w = w] Pair r by auto
        note add = team_inv_add [OF inv m(1,2,3)]
        have "matrix w' = (matrix w)((t, space_space_id s, a) := Some SpaceOwner)"
          using add(3) m by (simp add: matrix_def fun_eq_iff)
        moreover have "\<forall>u. matrix w (t, space_space_id s, u) = None"
          using add(2) m(4) by (simp add: matrix_def)
        ultimately show ?thesis using CreateSpace r Inr add(1) by auto
      qed
    qed
  next
    case (PutMember t a s u role)
    obtain r' where put: "put_member d t a s u role w = (r', w')"
      and r: "r = (case r' of Inl e \<Rightarrow> Inl e | Inr _ \<Rightarrow> Inr ())"
      using run PutMember
      by (cases "put_member d t a s u role w") (auto simp: ignore_result_def thenP_apply split: sum.splits)
    note step = put_member_step [OF q inv, where t = t and a = a and s = s and u = u and role = role, unfolded put, simplified]
    show ?thesis
    proof (cases "may_put (matrix w) t s a u role")
      case False
      with step r PutMember inv show ?thesis by (auto intro: matrix_same)
    next
      case True
      with step obtain m where m: "r' = Inr m" "member_key m = (t, s, u)" "member_role m = role"
          "shw_teams w' = member_put m (shw_teams w)"
        by auto
      obtain x where x: "dict_get (team_members (shw_teams w)) (t, s, a) = Some x"
        using True by (auto simp: may_put_def matrix_def)
      have "team_inv (member_put m (shw_teams w))"
        by (rule team_inv_put [OF inv m(2) x])
           (use True m(3) in \<open>auto simp: may_put_def other_owner_def matrix_def\<close>)
      with m r PutMember True show ?thesis by (simp add: matrix_put [OF m(4)])
    qed
  next
    case (RemoveMember t a s u)
    then have rem: "remove_member d t a s u w = (r, w')" using run by simp
    note step = remove_member_step [OF q inv, where t = t and a = a and s = s and u = u, unfolded rem, simplified]
    show ?thesis
    proof (cases "may_remove (matrix w) t s a u")
      case False
      with step RemoveMember inv show ?thesis by (auto intro: matrix_same)
    next
      case True
      with step have w': "r = Inr ()" "shw_teams w' = snd (member_delete t s u (shw_teams w))" by auto
      have "team_inv (snd (member_delete t s u (shw_teams w)))"
        by (rule team_inv_delete [OF inv])
           (use True in \<open>auto simp: may_remove_def other_owner_def matrix_def\<close>)
      with w' RemoveMember True show ?thesis by (simp add: matrix_delete [OF w'(2)])
    qed
  qed simp_all
qed

lemma share_run_inv:
  assumes "quiet_share d" and "team_inv (shw_teams w)"
  shows "team_inv (shw_teams (share_run d calls w))"
  using assms(2)
proof (induction calls arbitrary: w)
  case (Cons c calls)
  have "team_inv (shw_teams (snd (share_perform d c w)))"
    using share_perform_step [OF assms(1) Cons.prems, of c] by (cases "share_perform d c w") auto
  with Cons.IH show ?case by (simp add: share_run_def)
qed (simp add: share_run_def)

lemma team_inv_empty: "team_inv team_repo_empty"
  by (simp add: team_inv_def team_repo_empty_def)

definition sample_share_deps :: share_deps where
  "sample_share_deps = \<lparr>shd_clock = (\<lambda>n. int n), shd_new_id = (\<lambda>p n. p @ str_of_int (int n)),
     shd_others = (\<lambda>n w. w)\<rparr>"

definition sample_share_world :: share_world where
  "sample_share_world = \<lparr>shw_teams = team_repo_empty, shw_registry = [], shw_clock_reads = 0,
     shw_ids = 0, shw_awaits = 0\<rparr>"

definition sample_share_calls :: "share_call list" where
  "sample_share_calls = [CreateSpace ''t'' ''ann'' '' team '' [],
     PutMember ''t'' ''ann'' ''space0'' ''bob'' SpaceOwner,
     PutMember ''t'' ''ann'' ''space0'' ''cy'' SpaceAdmin]"

text \<open>
  C15. The calls that change memberships implement the access matrix: in every state that any calls
  lead to, a call succeeds exactly when the matrix allows it, changes exactly the entry it names,
  and changes nothing when it fails; the other calls leave the matrix alone; and every space has
  an owner. Each call runs to its end before the next one starts.
\<close>

theorem membership_refines_matrix:
  assumes "quiet_share d" and "shw_teams v = team_repo_empty" and "w = share_run d calls v"
    and "share_perform d c w = (r, w')"
  shows "matrix_step c r (matrix w) (matrix w') \<and>
    (\<forall>t s. if dict_has (team_spaces (shw_teams w')) (t, s)
       then \<exists>u. matrix w' (t, s, u) = Some SpaceOwner else True)"
proof -
  have "team_inv (shw_teams w)"
    using share_run_inv [OF assms(1), of v calls] assms(2,3) team_inv_empty by simp
  from share_perform_step [OF assms(1) this assms(4)]
  have step: "matrix_step c r (matrix w) (matrix w')" and inv: "team_inv (shw_teams w')" by simp_all
  have "\<exists>u. matrix w' (t, s, u) = Some SpaceOwner"
    if "dict_has (team_spaces (shw_teams w')) (t, s)" for t s
    using team_invD(3) [OF inv that] by (auto simp: matrix_def)
  with step show ?thesis by simp
qed

lemma membership_refines_matrix_witness:
  "\<exists>r w'. share_perform sample_share_deps (RemoveMember ''t'' ''bob'' ''space0'' ''ann'')
      (share_run sample_share_deps sample_share_calls sample_share_world) = (r, w') \<and> r = Inr () \<and>
    matrix_step (RemoveMember ''t'' ''bob'' ''space0'' ''ann'') r
      (matrix (share_run sample_share_deps sample_share_calls sample_share_world)) (matrix w')"
proof -
  let ?c = "RemoveMember ''t'' ''bob'' ''space0'' ''ann''"
  let ?w = "share_run sample_share_deps sample_share_calls sample_share_world"
  obtain r w' where run: "share_perform sample_share_deps ?c ?w = (r, w')" by (metis surj_pair)
  have "fst (share_perform sample_share_deps ?c ?w) = Inr ()" by code_simp
  then have "r = Inr ()" by (simp add: run del: share_perform.simps)
  moreover have "quiet_share sample_share_deps"
    by (simp add: quiet_share_def sample_share_deps_def)
  then have "matrix_step ?c r (matrix ?w) (matrix w')"
    using membership_refines_matrix [OF _ _ refl run] by (simp add: sample_share_world_def)
  ultimately show ?thesis using run by blast
qed

subsection \<open>Forking a shared agent\<close>

definition registry_ok :: "agent_registry \<Rightarrow> bool" where
  "registry_ok reg \<longleftrightarrow> (\<forall>k v. dict_get reg k = Some v \<longrightarrow> agent_key v = k)"

definition granted :: "share_world \<Rightarrow> string \<Rightarrow> string \<Rightarrow> string \<Rightarrow> string \<Rightarrow> string \<Rightarrow> string \<Rightarrow> bool" where
  "granted w t u s ow n v \<longleftrightarrow>
     (case (matrix w (t, s, u), dict_get (team_agents (shw_teams w)) (t, s, ow, n, v)) of
        (Some role, Some shared) \<Rightarrow> role \<noteq> SpaceViewer \<or> shared_runnable_by_viewer shared
      | _ \<Rightarrow> False)"

lemma require_agent_access_alone:
  assumes "quiet_share d"
  shows "case require_agent_access d t u s ow n v w of (r, w') \<Rightarrow>
    (if granted w t u s ow n v then \<exists>x. r = Inr x else \<exists>e. r = Inl e) \<and>
    w' = w\<lparr>shw_awaits := shw_awaits w'\<rparr>"
  using assms
  by (auto simp: require_agent_access_def require_member_alone share_apply granted_def matrix_def
    shared_agent_get_def split: option.split)

text \<open>
  C18. A fork that returns gives the user a version of the same name, version and content as the
  shared one, stored under the user's own name; the user is a member of the space and the version
  is shared there (and open to viewers when the user is one). Nobody else's version changes.
\<close>

theorem fork_needs_grant:
  assumes q: "quiet_share d" and reg: "registry_ok (shw_registry w)"
    and run: "fork_agent d t u s ow n v w = (Inr x, w')"
  shows "granted w t u s ow n v \<and>
    (\<exists>source. dict_get (shw_registry w) (t, ow, n, v) = Some source \<and>
       version_manifest_hash x = version_manifest_hash source) \<and>
    agent_key x = (t, u, n, v) \<and> dict_get (shw_registry w') (t, u, n, v) = Some x \<and>
    (\<forall>k. k = (t, u, n, v) \<or> dict_get (shw_registry w') k = dict_get (shw_registry w) k) \<and>
    registry_ok (shw_registry w') \<and> shw_teams w' = shw_teams w"
proof -
  obtain r w1 where acc: "require_agent_access d t u s ow n v w = (r, w1)" by (metis surj_pair)
  then have r: "if granted w t u s ow n v then \<exists>x. r = Inr x else \<exists>e. r = Inl e"
    and w1: "w1 = w\<lparr>shw_awaits := shw_awaits w1\<rparr>"
    using require_agent_access_alone [OF q, where t = t and u = u and s = s and ow = ow and n = n
      and v = v and w = w] by simp_all
  obtain y where y: "r = Inr y"
    using run acc by (cases r) (auto simp: fork_agent_def thenP_apply)
  then have g: "granted w t u s ow n v" using r by (auto split: if_splits)
  obtain k where w1': "w1 = w\<lparr>shw_awaits := k\<rparr>" using w1 by blast
  obtain source where source: "dict_get (shw_registry w) (t, ow, n, v) = Some source"
    using run acc y q w1'
    by (auto simp: fork_agent_def share_apply registry_lookup_def agent_get_def
        split: option.splits)
  have key: "agent_key source = (t, ow, n, v)" using reg source by (auto simp: registry_ok_def)
  show ?thesis
  proof (cases "dict_get (shw_registry w) (t, u, n, v)")
    case None
    with run acc y q w1' source key reg g show ?thesis
      by (auto simp: fork_agent_def share_apply registry_lookup_def registry_insert_def agent_get_def
          agent_add_def agent_key_def Let_def registry_ok_def split: if_splits)
  next
    case (Some z)
    then have "agent_key z = (t, u, n, v)" using reg by (auto simp: registry_ok_def)
    with Some run acc y q w1' source key reg g show ?thesis
      by (auto simp: fork_agent_def share_apply registry_lookup_def registry_insert_def agent_get_def
          agent_add_def agent_key_def Let_def registry_ok_def split: if_splits)
  qed
qed

definition published_agent :: agent_version where
  "published_agent = \<lparr>version_tenant_id = ''t'', version_owner_user_id = ''ann'',
     version_name = ''helper'', version_version = ''1.0.0'', version_status = VersionPublished,
     version_manifest_hash = ''h'', version_package_hash = None, version_snapshot = [],
     version_created_at = 0\<rparr>"

definition sharing_world :: share_world where
  "sharing_world = share_run sample_share_deps
     (sample_share_calls @ [ShareAgent ''t'' ''ann'' ''space0'' ''ann'' ''helper'' ''1.0.0'' False])
     (sample_share_world\<lparr>shw_registry := [((''t'', ''ann'', ''helper'', ''1.0.0''), published_agent)]\<rparr>)"

lemma fork_needs_grant_witness:
  "\<exists>x w'. fork_agent sample_share_deps ''t'' ''cy'' ''space0'' ''ann'' ''helper'' ''1.0.0''
      sharing_world = (Inr x, w') \<and> granted sharing_world ''t'' ''cy'' ''space0'' ''ann'' ''helper'' ''1.0.0'' \<and>
    agent_key x = (''t'', ''cy'', ''helper'', ''1.0.0'')"
proof -
  let ?m = "fork_agent sample_share_deps ''t'' ''cy'' ''space0'' ''ann'' ''helper'' ''1.0.0''"
  have "(case fst (?m sharing_world) of Inr _ \<Rightarrow> True | Inl _ \<Rightarrow> False)" by code_simp
  then obtain x w' where run: "?m sharing_world = (Inr x, w')"
    by (cases "?m sharing_world") (auto split: sum.splits)
  have "shw_registry sharing_world = [((''t'', ''ann'', ''helper'', ''1.0.0''), published_agent)]"
    by code_simp
  then have "registry_ok (shw_registry sharing_world)"
    by (auto simp: registry_ok_def agent_key_def published_agent_def)
  moreover have "quiet_share sample_share_deps"
    by (simp add: quiet_share_def sample_share_deps_def)
  ultimately show ?thesis using fork_needs_grant [OF _ _ run] run by blast
qed

subsection \<open>Where the service and its intention part\<close>

text \<open>\<open>leaving\<close> runs another member's call to its end at one of the awaits of a handler.\<close>

definition leaving :: "nat \<Rightarrow> share_call \<Rightarrow> share_deps" where
  "leaving k c = sample_share_deps\<lparr>shd_others :=
     \<lambda>n w. if n = k then snd (share_perform sample_share_deps c w) else w\<rparr>"

definition two_owners :: share_world where
  "two_owners = (share_run sample_share_deps sample_share_calls sample_share_world)\<lparr>shw_awaits := 0\<rparr>"

text \<open>
  The check for the last owner and the write after it are separate awaits: when two owners leave
  at the same time both calls succeed and the space is left without an owner. And an admin can
  never leave a space: the guard that protects the other admins also refuses the admin himself.
\<close>

theorem team_space_gaps:
  "(let (r, w) = share_perform (leaving 3 (RemoveMember ''t'' ''bob'' ''space0'' ''bob''))
         (RemoveMember ''t'' ''ann'' ''space0'' ''ann'') two_owners
    in r = Inr () \<and> dict_has (team_spaces (shw_teams w)) (''t'', ''space0'') \<and>
       map member_role (member_list (shw_teams w) ''t'' ''space0'') = [SpaceAdmin]) \<and>
   fst (share_perform sample_share_deps (RemoveMember ''t'' ''cy'' ''space0'' ''cy'') two_owners) =
     Inl (PermissionDeniedError ''space admins cannot remove owners or other admins'')"
  by code_simp

end
