(* ===== verification/Governor_Properties.thy ===== *)
theory Governor_Properties
  imports Subagent_Governor
begin

section \<open>What holds of the governor of subagents\<close>

text \<open>
  \<open>governor_ok\<close> is the invariant of a governor: the numbers of running and of started tasks stay
  within the limits of the manifest and every running task has a declared role. Every lifecycle
  event that leaves the governor names such a role and is within its limits.
\<close>

datatype governor_call = Process rat runtime_event | FailUnfinished rat string

fun governor_perform :: "(json \<Rightarrow> string) \<Rightarrow> governor_call \<Rightarrow> runtime_event list governed" where
  "governor_perform show (Process now e) = governor_process show now e"
| "governor_perform show (FailUnfinished now reason) = fail_unfinished now reason"

definition governor_after :: "(json \<Rightarrow> string) \<Rightarrow> governor_call list \<Rightarrow> governor \<Rightarrow> governor" where
  "governor_after show calls g = foldl (\<lambda>g c. snd (governor_perform show c g)) g calls"

definition bound_in :: "(string, subagent_binding) dict \<Rightarrow> subagent_binding \<Rightarrow> bool" where
  "bound_in bindings b \<longleftrightarrow> dict_get bindings (binding_alias b) = Some b"

definition bindings_ok :: "(string, subagent_binding) dict \<Rightarrow> bool" where
  "bindings_ok bindings \<longleftrightarrow> (\<forall>k b. dict_get bindings k = Some b \<longrightarrow> binding_alias b = k)"

definition governor_ok :: "governor \<Rightarrow> bool" where
  "governor_ok g \<longleftrightarrow>
     int (length (gov_tasks g)) \<le> limit_max_concurrent_subagents (gov_limits g) \<and>
     int (length (gov_started g)) \<le> limit_max_subagent_tasks (gov_limits g) \<and>
     dict_wf (gov_tasks g) \<and>
     set (map fst (gov_tasks g)) \<subseteq> set (gov_started g) \<and>
     bindings_ok (gov_bindings g) \<and>
     (\<forall>k s. dict_get (gov_tasks g) k = Some s \<longrightarrow> bound_in (gov_bindings g) (task_state_binding s))"

definition same_rules :: "governor \<Rightarrow> governor \<Rightarrow> bool" where
  "same_rules g h \<longleftrightarrow> gov_limits h = gov_limits g \<and> gov_bindings h = gov_bindings g"

lemma same_rules_simps [simp]:
  "same_rules g g" "same_rules g (h\<lparr>gov_tasks := x\<rparr>) = same_rules g h"
  "same_rules g (h\<lparr>gov_started := y\<rparr>) = same_rules g h"
  "same_rules g (h\<lparr>gov_tool_aliases := z\<rparr>) = same_rules g h"
  by (simp_all add: same_rules_def)

lemma governor_ok_aliases [simp]: "governor_ok (g\<lparr>gov_tool_aliases := z\<rparr>) = governor_ok g"
  by (simp add: governor_ok_def)

lemma length_dict_set:
  "length (dict_set k v d) = (if dict_has d k then length d else Suc (length d))"
  by (induction d) auto

lemma length_dict_pop: "length (dict_pop k d) \<le> length d"
  by (simp add: AList.delete_eq)

lemma dict_pop_set: "dict_get d k = None \<Longrightarrow> dict_pop k (dict_set k v d) = d"
  by (induction d) (auto simp: AList.delete_eq filter_id_conv split: if_splits intro: map_of_eq_None_iff)

lemma governor_ok_pop: "governor_ok g \<Longrightarrow> governor_ok (g\<lparr>gov_tasks := dict_pop k (gov_tasks g)\<rparr>)"
  using length_dict_pop [of k "gov_tasks g"]
  by (auto simp: governor_ok_def delete_keys distinct_removeAll split: if_splits)

subsection \<open>Starting and finding a task\<close>

definition with_task :: "string \<Rightarrow> task_state \<Rightarrow> governor \<Rightarrow> governor" where
  "with_task task s g = g\<lparr>gov_tasks := dict_set task s (gov_tasks g),
     gov_started := List.insert task (gov_started g)\<rparr>"

lemma begin_task_outcome:
  assumes "bindings_ok (gov_bindings g)" and "begin_task show now e task parent g = (r, h)"
  shows "(\<exists>x. r = Inl x \<and> h = g) \<or>
    (\<exists>s. r = Inr s \<and> h = with_task task s g \<and> bound_in (gov_bindings g) (task_state_binding s))"
  using assms
  by (auto simp: begin_task_def prog_apply with_task_def bound_in_def bindings_ok_def Let_def
    split: sum.splits option.splits)

lemma governor_ok_with_task:
  assumes "governor_ok g" and "bound_in (gov_bindings g) (task_state_binding s)"
    and "int (length (gov_started g)) < limit_max_subagent_tasks (gov_limits g)"
    and "int (length (gov_tasks (with_task task s g))) \<le> limit_max_concurrent_subagents (gov_limits g)"
  shows "governor_ok (with_task task s g)"
  using assms by (auto simp: governor_ok_def with_task_def dom_update List.insert_def)

lemma start_task_outcome:
  assumes g: "governor_ok g" and run: "start_task show now e task g = (r, h)"
  shows "governor_ok h \<and> same_rules g h \<and>
    (\<forall>s. r = Inr s \<longrightarrow> bound_in (gov_bindings g) (task_state_binding s))"
proof -
  define parent where "parent = (let x = dict_get_or (re_payload e) ''parent_tool_use_id'' JNull
    in if json_truthy x then Some (py_str show x) else None)"
  consider (err) x where "r = Inl x" "h = g"
    | (new) r1 g1 where "begin_task show now e task parent g = (r1, g1)"
        "task \<notin> set (gov_started g)"
        "int (length (gov_started g)) < limit_max_subagent_tasks (gov_limits g)"
        "bindP (\<lambda>s. (r1, s)) (\<lambda>s. bindP (readP (\<lambda>g. int (length (gov_tasks g)))) (\<lambda>active.
           if limit_max_concurrent_subagents (gov_limits g) < active
           then thenP (modifyP (\<lambda>g. g\<lparr>gov_tasks := dict_pop task (gov_tasks g)\<rparr>))
                  (raise (concurrency_exceeded (gov_limits g)))
           else ret s)) g1 = (r, h)"
    using run by (auto simp: start_task_def prog_apply parent_def Let_def split: prod.splits if_splits)
  then show ?thesis
  proof cases
    case err
    with g show ?thesis by simp
  next
    case new
    have fresh: "dict_get (gov_tasks g) task = None"
      using g new(2) by (auto simp: governor_ok_def map_of_eq_None_iff)
    have "bindings_ok (gov_bindings g)" using g by (simp add: governor_ok_def)
    from begin_task_outcome [OF this new(1)] show ?thesis
    proof (elim disjE exE conjE, goal_cases)
      case 1
      then show ?case using new(4) g by (auto simp: prog_apply)
    next
      case (2 s)
      show ?case
      proof (cases "limit_max_concurrent_subagents (gov_limits g) < int (length (gov_tasks g1))")
        case True
        have "h = g\<lparr>gov_started := List.insert task (gov_started g)\<rparr>"
          using new(4) 2 True fresh by (auto simp: prog_apply with_task_def dict_pop_set)
        then have "governor_ok h"
          using g new(3) by (simp add: governor_ok_def List.insert_def subset_insertI2)
        then show ?thesis using new(4) 2 True by (auto simp: prog_apply with_task_def)
      next
        case False
        then have "h = with_task task s g" "r = Inr s" using new(4) 2 by (auto simp: prog_apply)
        moreover have "governor_ok (with_task task s g)"
          by (rule governor_ok_with_task [OF g 2(3) new(3)]) (use False 2 in simp)
        ultimately show ?thesis using 2 by (simp add: with_task_def)
      qed
    qed
  qed
qed

lemma find_task_outcome:
  assumes g: "governor_ok g" and run: "find_task show now e task g = (r, h)"
  shows "governor_ok h \<and> same_rules g h \<and>
    (\<forall>s. r = Inr s \<longrightarrow> bound_in (gov_bindings g) (task_state_binding s))"
proof (cases "dict_get (gov_tasks g) task")
  case (Some s)
  then have "bound_in (gov_bindings g) (task_state_binding s)"
    using g unfolding governor_ok_def by blast
  then show ?thesis using run g Some by (auto simp: find_task_def prog_apply)
next
  case None
  consider (err) x where "r = Inl x" "h = g"
    | (new) "begin_task show now e task None g = (r, h)"
        "int (length (gov_started g)) < limit_max_subagent_tasks (gov_limits g)"
        "int (length (gov_tasks g)) < limit_max_concurrent_subagents (gov_limits g)"
    using run None by (auto simp: find_task_def prog_apply split: if_splits)
  then show ?thesis
  proof cases
    case err
    with g show ?thesis by simp
  next
    case new
    have "bindings_ok (gov_bindings g)" using g by (simp add: governor_ok_def)
    from begin_task_outcome [OF this new(1)] show ?thesis
    proof (elim disjE exE conjE, goal_cases)
      case (2 s)
      have "governor_ok (with_task task s g)"
        by (rule governor_ok_with_task [OF g 2(3) new(2)])
           (use new(3) None in \<open>simp add: with_task_def length_dict_set\<close>)
      with 2 show ?case by (simp add: with_task_def)
    qed (use g in simp)
  qed
qed

subsection \<open>Lifecycle events carry a declared role\<close>

text \<open>What a lifecycle event says of itself when it leaves the governor.\<close>

definition names_role :: "limit_spec \<Rightarrow> subagent_binding \<Rightarrow> json_obj \<Rightarrow> bool" where
  "names_role limits b p \<longleftrightarrow>
     dict_get p ''alias'' = Some (JStr (binding_alias b)) \<and>
     dict_get p ''agent_name'' = Some (JStr (binding_agent_name b)) \<and>
     dict_get p ''agent_version'' = Some (JStr (binding_agent_version b)) \<and>
     dict_get p ''policy_profile'' = Some (JStr (binding_policy b)) \<and>
     dict_get p ''depth'' = Some (JInt 1) \<and>
     (case (dict_get p ''duration_ms'', binding_timeout_seconds b) of
        (Some (JInt n), Some m) \<Rightarrow> 0 \<le> n \<and> n \<le> m * 1000
      | (Some (JInt n), None) \<Rightarrow> 0 \<le> n
      | _ \<Rightarrow> False) \<and>
     (case (dict_get p ''usage'', limit_max_subagent_usage_units limits) of
        (Some (JObj usage), Some m) \<Rightarrow>
          (case dict_get usage ''total_tokens'' of None \<Rightarrow> True | Some (JInt n) \<Rightarrow> n \<le> m | _ \<Rightarrow> False)
      | (Some (JObj usage), None) \<Rightarrow> True
      | _ \<Rightarrow> False)"

definition role_event :: "governor \<Rightarrow> runtime_event \<Rightarrow> bool" where
  "role_event g x \<longleftrightarrow>
     (\<exists>b. bound_in (gov_bindings g) b \<and> names_role (gov_limits g) b (re_payload x))"

lemma map_filter_Some: "x \<in> set (List.map_filter f xs) \<longleftrightarrow> (\<exists>y \<in> set xs. f y = Some x)"
  by (induction xs) (auto simp: List.map_filter_simps split: option.split)

definition usage_entry :: "json_obj \<Rightarrow> string \<Rightarrow> (string \<times> int) option" where
  "usage_entry usage key = (case dict_get usage key of
     Some (JInt v) \<Rightarrow> if 0 \<le> v then Some (key, v) else None | _ \<Rightarrow> None)"

lemma usage_entry_nonneg: "usage_entry usage key = Some (k, n) \<Longrightarrow> 0 \<le> n"
  by (auto simp: usage_entry_def split: option.splits json.splits if_splits)

lemma safe_usage_eq: "safe_usage p = (case dict_get p ''usage'' of
    Some (JObj usage) \<Rightarrow>
      List.map_filter (usage_entry usage) [''total_tokens'', ''tool_uses'', ''duration_ms'']
  | _ \<Rightarrow> [])"
  unfolding safe_usage_def usage_entry_def ..

lemma safe_usage_nonneg: "dict_get (safe_usage p) k = Some n \<Longrightarrow> 0 \<le> n"
proof (drule map_of_SomeD)
  assume n: "(k, n) \<in> set (safe_usage p)"
  then obtain usage where "dict_get p ''usage'' = Some (JObj usage)"
    by (cases "dict_get p ''usage''"; cases "the (dict_get p ''usage'')") (auto simp: safe_usage_eq)
  with n have "(k, n) \<in> set (List.map_filter (usage_entry usage)
      [''total_tokens'', ''tool_uses'', ''duration_ms''])"
    by (simp add: safe_usage_eq)
  then show "0 \<le> n" unfolding map_filter_Some using usage_entry_nonneg by blast
qed

lemma event_duration_nonneg: "0 \<le> event_duration s now p"
  by (simp add: event_duration_def dict_get_or_def safe_usage_nonneg split: option.split)

lemma map_of_JInt: "dict_get (map (\<lambda>(k, v). (k, JInt v)) d) k = map_option JInt (dict_get d k)"
  by (induction d) auto

lemma enriched_payload_get:
  "dict_get (enriched_payload s now p) ''alias'' = Some (JStr (binding_alias (task_state_binding s)))"
  "dict_get (enriched_payload s now p) ''agent_name'' =
     Some (JStr (binding_agent_name (task_state_binding s)))"
  "dict_get (enriched_payload s now p) ''agent_version'' =
     Some (JStr (binding_agent_version (task_state_binding s)))"
  "dict_get (enriched_payload s now p) ''policy_profile'' =
     Some (JStr (binding_policy (task_state_binding s)))"
  "dict_get (enriched_payload s now p) ''depth'' = Some (JInt 1)"
  "dict_get (enriched_payload s now p) ''duration_ms'' = Some (JInt (event_duration s now p))"
  "dict_get (enriched_payload s now p) ''usage'' =
     Some (JObj (map (\<lambda>(k, v). (k, JInt v)) (safe_usage p)))"
  by (simp_all add: enriched_payload_def)

lemma enrich_Inr:
  assumes "enrich limits e s now = Inr x"
  shows "x = e\<lparr>re_payload := enriched_payload s now (re_payload e)\<rparr>"
    and "limit_max_subagent_usage_units limits = Some n \<Longrightarrow>
      dict_get_or (safe_usage (re_payload e)) ''total_tokens'' 0 \<le> n"
    and "binding_timeout_seconds (task_state_binding s) = Some m \<Longrightarrow>
      event_duration s now (re_payload e) \<le> m * 1000"
  using assms by (auto simp: enrich_def Let_def split: if_splits)

lemma enrich_names_role:
  assumes "enrich limits e s now = Inr x"
  shows "names_role limits (task_state_binding s) (re_payload x) \<and> re_type x = re_type e"
proof -
  note x = enrich_Inr [OF assms]
  show ?thesis
    using x(2,3) unfolding x(1) names_role_def
    by (auto simp: enriched_payload_get map_of_JInt event_duration_nonneg dict_get_or_def
        split: option.splits)
qed

lemma lift_result_apply [simp]: "lift_result r s = (r, s)"
  by (simp add: lift_result_def)

lemma process_lifecycle_outcome:
  assumes g: "governor_ok g" and run: "process_lifecycle show now e g = (r, h)"
  shows "governor_ok h \<and> same_rules g h \<and>
    (\<forall>es. r = Inr es \<longrightarrow> (\<exists>x. es = [x] \<and> re_type x = re_type e \<and> role_event g x))"
proof -
  let ?task = "payload_text show (re_payload e) ''task_id''"
  let ?m = "if re_type e = ''subagent.started'' then start_task show now e ?task
    else find_task show now e ?task"
  obtain r1 g1 where m: "?m g = (r1, g1)" by (metis surj_pair)
  have one: "governor_ok g1 \<and> same_rules g g1 \<and>
      (\<forall>s. r1 = Inr s \<longrightarrow> bound_in (gov_bindings g) (task_state_binding s))"
    using m start_task_outcome [OF g] find_task_outcome [OF g] by (auto split: if_splits)
  show ?thesis
  proof (cases "?task = []")
    case True
    with run g show ?thesis by (auto simp: process_lifecycle_def)
  next
    case False
    note run' = run [unfolded process_lifecycle_def Let_def if_not_P [OF False]]
    show ?thesis
    proof (cases r1)
      case (Inl x)
      then have "r = Inl x" "h = g1" using run' m by simp_all
      with one show ?thesis by simp
    next
      case (Inr s)
      show ?thesis
      proof (cases "enrich (gov_limits g1) e s now")
        case (Inl x)
        then have "r = Inl x" "h = g1" using run' m Inr by (simp_all add: prog_apply)
        with one show ?thesis by simp
      next
        case (Inr x)
        then have "r = Inr [x]" "h = g1 \<or> h = g1\<lparr>gov_tasks := dict_pop ?task (gov_tasks g1)\<rparr>"
          using run' m \<open>r1 = Inr s\<close> by (auto simp: prog_apply split: if_splits)
        moreover have "role_event g x \<and> re_type x = re_type e"
          using enrich_names_role [OF Inr] one \<open>r1 = Inr s\<close>
          by (auto simp: role_event_def same_rules_def)
        ultimately show ?thesis using one by (auto simp: governor_ok_pop)
      qed
    qed
  qed
qed

lemma promoted_is_lifecycle:
  "promote_runtime_task show g e = Some x \<Longrightarrow> is_lifecycle x \<and> re_payload x = re_payload e"
  by (auto simp: promote_runtime_task_def runtime_task_types_def is_lifecycle_def starts_with_def Let_def
    split: if_splits option.splits)

lemma runtime_task_not_lifecycle: "dict_has runtime_task_types (re_type e) \<Longrightarrow> \<not> is_lifecycle e"
  by (auto simp: runtime_task_types_def is_lifecycle_def starts_with_def split: if_splits)

lemma governor_process_outcome:
  assumes g: "governor_ok g" and run: "governor_process show now e g = (r, h)"
  shows "governor_ok h \<and> same_rules g h \<and>
    (\<forall>es. r = Inr es \<longrightarrow> (\<exists>x. es = [x] \<and> (if is_lifecycle x then role_event g x else x = e)))"
proof -
  define g1 where "g1 = alias_from_tool_request e g"
  have g1: "governor_ok g1 \<and> same_rules g g1"
    using g by (auto simp: g1_def alias_from_tool_request_def split: option.split json.split)
  have step: "governor_ok h \<and> same_rules g h \<and>
      (\<forall>es. r = Inr es \<longrightarrow> (\<exists>x. es = [x] \<and> (if is_lifecycle x then role_event g x else x = e)))"
    if "process_lifecycle show now x g1 = (r, h)" and "is_lifecycle x" for x
  proof -
    note p = process_lifecycle_outcome [OF conjunct1 [OF g1] that(1)]
    have "role_event g1 = role_event g" using g1 by (simp add: role_event_def same_rules_def fun_eq_iff)
    moreover have "is_lifecycle y" if "re_type y = re_type x" for y
      using that \<open>is_lifecycle x\<close> by (simp add: is_lifecycle_def)
    moreover have "same_rules g h" using g1 p by (simp add: same_rules_def)
    ultimately show ?thesis using p by metis
  qed
  have plain: ?thesis if "r = Inr [e]" and "h = g1" and "\<not> is_lifecycle e"
    using that g1 by simp
  have run': "(if dict_has runtime_task_types (re_type e)
      then (case promote_runtime_task show g1 e of
              None \<Rightarrow> ret [e] | Some e' \<Rightarrow> process_lifecycle show now e')
      else if \<not> is_lifecycle e then ret [e] else process_lifecycle show now e) g1 = (r, h)"
    using run by (auto simp: governor_process_def thenP_apply g1_def split: if_splits)
  show ?thesis
  proof (cases "dict_has runtime_task_types (re_type e)")
    case True
    show ?thesis
    proof (cases "promote_runtime_task show g1 e")
      case None
      with run' True have "r = Inr [e]" "h = g1" by simp_all
      then show ?thesis using plain runtime_task_not_lifecycle [OF True] by blast
    next
      case (Some x)
      with run' True have "process_lifecycle show now x g1 = (r, h)" by simp
      then show ?thesis using step promoted_is_lifecycle [OF Some] by blast
    qed
  next
    case False
    show ?thesis
    proof (cases "is_lifecycle e")
      case True
      with run' False have "process_lifecycle show now e g1 = (r, h)" by simp
      then show ?thesis using step True by blast
    next
      case no: False
      with run' False have "r = Inr [e]" "h = g1" by simp_all
      then show ?thesis using plain no by blast
    qed
  qed
qed

subsection \<open>Every governor keeps its limits\<close>

lemma bindings_ok_set: "bindings_ok d \<Longrightarrow> binding_alias b = k \<Longrightarrow> bindings_ok (dict_set k b d)"
  by (simp add: bindings_ok_def)

lemma bind_versions_props:
  assumes "bind_versions validate versions bs = Inr bs'" and "bindings_ok bs"
  shows "bindings_ok bs' \<and> fst ` set bs' = fst ` set bs \<union> fst ` set versions"
  using assms
proof (induction versions arbitrary: bs)
  case (Cons p versions)
  obtain al v where p: "p = (al, v)" by (cases p)
  obtain b where b: "bind_versions validate versions (dict_set al b bs) = Inr bs'" "binding_alias b = al"
    using Cons.prems(1) by (auto simp: p split: sum.splits if_splits)
  from Cons.IH [OF b(1) bindings_ok_set [OF Cons.prems(2) b(2)]] show ?case
    by (auto simp: p dom_update)
qed simp

lemma bind_declared_props:
  assumes "bind_declared lead declared bs = Inr bs'" and "bindings_ok bs"
  shows "bindings_ok bs' \<and> fst ` set bs' = fst ` set bs \<union> fst ` set declared"
  using assms
proof (induction declared arbitrary: bs)
  case (Cons p declared)
  obtain al s where p: "p = (al, s)" by (cases p)
  obtain b where b: "bind_declared lead declared (dict_set al b bs) = Inr bs'" "binding_alias b = al"
    using Cons.prems(1) by (auto simp: p split: option.splits)
  from Cons.IH [OF b(1) bindings_ok_set [OF Cons.prems(2) b(2)]] show ?case
    by (auto simp: p dom_update)
qed simp

lemma declared_keys: "fst ` set (declared_subagents lead) = subagent_runtime_name ` set (gm_subagents lead)"
proof -
  have "fst ` set (foldl (\<lambda>d s. dict_set (subagent_runtime_name s) s d) d ss) =
      fst ` set d \<union> subagent_runtime_name ` set ss" for d ss
    by (induction ss arbitrary: d) (auto simp: dom_update)
  then show ?thesis by (simp add: declared_subagents_def)
qed

lemma governor_new_props:
  assumes new: "governor_new show validate lead versions = Inr g"
    and limits: "0 \<le> limit_max_concurrent_subagents (gm_limits lead)"
      "0 \<le> limit_max_subagent_tasks (gm_limits lead)"
  shows "governor_ok g \<and> gov_limits g = gm_limits lead \<and>
    fst ` set (gov_bindings g) = subagent_runtime_name ` set (gm_subagents lead)"
proof -
  obtain bs where g: "g = \<lparr>gov_limits = gm_limits lead, gov_bindings = bs, gov_tool_aliases = [],
      gov_tasks = [], gov_started = []\<rparr>"
    and bs: "if versions \<noteq> [] then bind_versions validate versions [] = Inr bs
      else bind_declared lead (declared_subagents lead) [] = Inr bs"
    and same: "versions \<noteq> [] \<longrightarrow> fst ` set (declared_subagents lead) = fst ` set versions"
    using new by (auto simp: governor_new_def Let_def map_sum_def split: if_splits sum.splits)
  have "bindings_ok bs \<and> fst ` set bs = fst ` set (declared_subagents lead)"
  proof (cases "versions = []")
    case True
    then show ?thesis using bs bind_declared_props [of lead _ "[]" bs] by (simp add: bindings_ok_def)
  next
    case False
    then show ?thesis using bs same bind_versions_props [of validate versions "[]" bs]
      by (simp add: bindings_ok_def)
  qed
  with limits declared_keys [of lead] show ?thesis by (simp add: g governor_ok_def)
qed

lemma fail_unfinished_outcome:
  assumes g: "governor_ok g" and run: "fail_unfinished now reason g = (r, h)"
  shows "governor_ok h \<and> same_rules g h"
proof -
  have "h = g \<or> h = g\<lparr>gov_tasks := []\<rparr>"
    using run by (auto simp: fail_unfinished_def prog_apply split: sum.splits)
  moreover have "governor_ok (g\<lparr>gov_tasks := []\<rparr>)"
    using g by (simp add: governor_ok_def)
  ultimately show ?thesis using g by auto
qed

lemma governor_after_ok:
  assumes "governor_ok g"
  shows "governor_ok (governor_after show calls g) \<and> same_rules g (governor_after show calls g)"
  using assms
proof (induction calls arbitrary: g)
  case (Cons c calls)
  have "governor_ok (snd (governor_perform show c g)) \<and> same_rules g (snd (governor_perform show c g))"
    using Cons.prems
    by (cases c)
       (auto dest: governor_process_outcome fail_unfinished_outcome simp: prod_eq_iff
         intro: surjective_pairing)
  with Cons.IH [of "snd (governor_perform show c g)"] show ?case
    by (simp add: governor_after_def same_rules_def)
qed (simp add: governor_after_def)

subsection \<open>Properties of a run\<close>

definition sample_limits :: limit_spec where
  "sample_limits = \<lparr>limit_timeout_seconds = Some 1, limit_max_subagents = 8,
     limit_max_subagent_tasks = 16, limit_max_concurrent_subagents = 4,
     limit_max_subagent_usage_units = None\<rparr>"

definition sample_lead :: governed_manifest where
  "sample_lead = \<lparr>gm_subagents = [\<lparr>subagent_ref = ''checker@1.0.0'', subagent_alias = None\<rparr>],
     gm_policy = ''default'', gm_limits = sample_limits\<rparr>"

definition sample_governor :: governor where
  "sample_governor = \<lparr>gov_limits = sample_limits, gov_bindings = [(''checker'',
       \<lparr>binding_alias = ''checker'', binding_agent_name = ''checker'', binding_agent_version = ''1.0.0'',
        binding_policy = ''default'', binding_timeout_seconds = Some 1\<rparr>)],
     gov_tool_aliases = [], gov_tasks = [], gov_started = []\<rparr>"

definition task_event :: "string \<Rightarrow> runtime_event" where
  "task_event type = \<lparr>re_type = type, re_payload = [(''task_id'', JStr ''one'')]\<rparr>"

lemma sample_governor_new:
  "governor_new (\<lambda>_. []) (\<lambda>_. Inl KeyError) sample_lead [] = Inr sample_governor"
  by code_simp

text \<open>
  C17. Whatever events a governor sees, in whatever order and at whatever times, and whether it accepts
  or refuses them: the tasks that run are at most the concurrency limit, the tasks that ever
  started at most the task limit, every running task was started and has a role the manifest
  declares, and the roles and limits never change. The limits are at least 1 in any manifest.
\<close>

theorem governor_within_limits:
  assumes new: "governor_new show validate lead versions = Inr g0"
    and "1 \<le> limit_max_concurrent_subagents (gm_limits lead)"
    and "1 \<le> limit_max_subagent_tasks (gm_limits lead)"
    and g: "g = governor_after show calls g0"
  shows "int (length (active_tasks g)) \<le> limit_max_concurrent_subagents (gm_limits lead) \<and>
    int (length (gov_started g)) \<le> limit_max_subagent_tasks (gm_limits lead) \<and>
    list_all (\<lambda>task. task \<in> set (gov_started g)) (map fst (gov_tasks g)) \<and>
    list_all (\<lambda>s. binding_alias (task_state_binding s) \<in>
      set (map subagent_runtime_name (gm_subagents lead))) (active_tasks g) \<and>
    gov_limits g = gm_limits lead \<and> gov_bindings g = gov_bindings g0"
proof -
  have g0: "governor_ok g0" "gov_limits g0 = gm_limits lead"
    "fst ` set (gov_bindings g0) = subagent_runtime_name ` set (gm_subagents lead)"
    using governor_new_props [OF new] assms(2,3) by auto
  have ok: "governor_ok g" and same: "same_rules g0 g"
    using governor_after_ok [OF g0(1)] by (simp_all add: g)
  have "binding_alias (task_state_binding s) \<in> subagent_runtime_name ` set (gm_subagents lead)"
    if "s \<in> set (active_tasks g)" for s
  proof -
    have "dict_wf (gov_tasks g)" using ok by (simp add: governor_ok_def)
    then obtain k where "dict_get (gov_tasks g) k = Some s"
      using \<open>s \<in> set (active_tasks g)\<close> unfolding active_tasks_def by (rule dict_value_cases)
    then have "dict_get (gov_bindings g) (binding_alias (task_state_binding s)) =
        Some (task_state_binding s)"
      using ok unfolding governor_ok_def bound_in_def by blast
    from map_of_SomeD [OF this] g0(3) same show ?thesis by (force simp: same_rules_def)
  qed
  with ok same g0(2) show ?thesis
    by (auto simp: governor_ok_def same_rules_def active_tasks_def list_all_iff)
qed

lemma governor_within_limits_witness:
  "length (active_tasks (governor_after (\<lambda>_. []) [Process 0 (task_event ''subagent.started'')]
     sample_governor)) = 1 \<and>
   int (length (active_tasks (governor_after (\<lambda>_. []) [Process 0 (task_event ''subagent.started'')]
     sample_governor))) \<le> 4"
proof -
  have "length (active_tasks (governor_after (\<lambda>_. []) [Process 0 (task_event ''subagent.started'')]
      sample_governor)) = 1"
    by code_simp
  moreover note governor_within_limits [OF sample_governor_new _ _ refl, where calls =
      "[Process 0 (task_event ''subagent.started'')]"]
  ultimately show ?thesis by (simp add: sample_lead_def sample_limits_def)
qed

text \<open>
  C16. An event that the governor lets through is either passed on unchanged, or it is the lifecycle
  event of a subagent: then it names a role the manifest declares, with the agent version and
  policy of that role, its duration is within the role's timeout and the tokens it reports are
  within the limit.
\<close>

theorem lifecycle_events_governed:
  assumes new: "governor_new show validate lead versions = Inr g0"
    and "1 \<le> limit_max_concurrent_subagents (gm_limits lead)"
    and "1 \<le> limit_max_subagent_tasks (gm_limits lead)"
    and g: "g = governor_after show calls g0"
    and run: "governor_process show now e g = (Inr es, h)"
  shows "\<exists>x. es = [x] \<and>
    (if is_lifecycle x
     then \<exists>b. names_role (gm_limits lead) b (re_payload x) \<and>
       dict_get (gov_bindings g0) (binding_alias b) = Some b \<and>
       binding_alias b \<in> set (map subagent_runtime_name (gm_subagents lead))
     else x = e)"
proof -
  have g0: "governor_ok g0" "gov_limits g0 = gm_limits lead"
    "fst ` set (gov_bindings g0) = subagent_runtime_name ` set (gm_subagents lead)"
    using governor_new_props [OF new] assms(2,3) by auto
  have ok: "governor_ok g" and same: "same_rules g0 g"
    using governor_after_ok [OF g0(1)] by (simp_all add: g)
  obtain x where x: "es = [x]" "if is_lifecycle x then role_event g x else x = e"
    using governor_process_outcome [OF ok run] by blast
  have "\<exists>b. names_role (gm_limits lead) b (re_payload x) \<and>
      dict_get (gov_bindings g0) (binding_alias b) = Some b \<and>
      binding_alias b \<in> subagent_runtime_name ` set (gm_subagents lead)" if role: "role_event g x"
  proof -
    obtain b where b: "dict_get (gov_bindings g0) (binding_alias b) = Some b"
        "names_role (gm_limits lead) b (re_payload x)"
      using role same g0(2) by (auto simp: role_event_def bound_in_def same_rules_def)
    from map_of_SomeD [OF b(1)] g0(3) b show ?thesis by force
  qed
  with x show ?thesis by auto
qed

lemma lifecycle_events_governed_witness:
  "\<exists>x h. governor_process (\<lambda>_. []) 0 (task_event ''subagent.started'') sample_governor = (Inr [x], h) \<and>
    is_lifecycle x \<and> (\<exists>b. names_role sample_limits b (re_payload x) \<and> binding_alias b = ''checker'')"
proof -
  let ?m = "governor_process (\<lambda>_. []) 0 (task_event ''subagent.started'')"
  have out: "(case fst (?m sample_governor) of Inr [x] \<Rightarrow> re_type x = ''subagent.started'' | _ \<Rightarrow> False)"
    by code_simp
  obtain r h where m: "?m sample_governor = (r, h)" by (metis surj_pair)
  with out obtain x where x: "r = Inr [x]" "re_type x = ''subagent.started''"
    by (auto split: sum.splits list.splits)
  then have "is_lifecycle x" by (simp add: is_lifecycle_def starts_with_def)
  moreover have "?m (governor_after (\<lambda>_. []) [] sample_governor) = (Inr [x], h)"
    using m x by (simp add: governor_after_def)
  note lifecycle_events_governed [OF sample_governor_new _ _ refl this]
  ultimately show ?thesis
    using m x by (force simp: sample_lead_def sample_limits_def subagent_runtime_name_def
      split_reference_def)
qed

text \<open>
  Two gaps. A task that has completed becomes active again with its next event, and is then
  reported as failed although it completed. And a task that is past its timeout cannot be closed:
  \<open>fail_unfinished\<close> raises instead of reporting it as failed and leaves it, and every task with
  it, active.
\<close>

theorem governor_gaps:
  "(let g = governor_after (\<lambda>_. []) [Process 0 (task_event ''subagent.started''),
        Process 0 (task_event ''subagent.completed''), Process 0 (task_event ''subagent.updated'')]
        sample_governor
    in map task_state_id (active_tasks g) = [''one''] \<and>
       (case fst (fail_unfinished 0 ''stream_closed'' g) of
          Inr [x] \<Rightarrow> re_type x = ''subagent.failed'' | _ \<Rightarrow> False)) \<and>
   (let g = governor_after (\<lambda>_. []) [Process 0 (task_event ''subagent.started'')] sample_governor;
        (r, h) = fail_unfinished 2 ''stream_closed'' g
    in r = Inl (RuntimeError ''subagent duration exceeded for alias checker'') \<and>
       map task_state_id (active_tasks h) = [''one''])"
  by code_simp

end
