(* ===== verification/Service_Races.thy ===== *)
theory Service_Races
  imports Platform
begin

section \<open>Two interleavings the services do not handle\<close>

text \<open>
  Concrete runs of the model, evaluated by the kernel: a cancellation that overtakes the worker
  that executes the run, and an admission that is taken for granted after it has expired.
\<close>

definition queued_only :: world where
  "queued_only = world_empty\<lparr>
     w_runs := \<lparr>runs_items = [((''t'', ''r''), sample_run RunQueued 0)],
                runs_idempotency = [((''t'', ''s'', ''k''), ''r'')]\<rparr>\<rparr>"

definition worker_takes :: "unit handler" where
  "worker_takes = bindP (await quiet_run_deps (runs_get ''t'' ''r'')) (\<lambda>r.
     bindP (move_run quiet_run_deps r RunProvisioning) (\<lambda>r.
     thenP (move_run quiet_run_deps r RunRunning)
       (discard (run_cancel quiet_run_deps ''t'' ''r''))))"

definition raced_deps :: run_deps where
  "raced_deps = quiet_run_deps\<lparr>d_others := (\<lambda>n w. if n = 1 then snd (worker_takes w) else w)\<rparr>"

text \<open>
  A cancellation decides who finishes it from the status it read first. Here the run is queued
  then; before its compare-and-set a worker takes the run and starts it, and another client
  cancels it. The late cancellation finds the run cancelling and, because it remembers queued,
  publishes the terminal status itself although a worker executes the run.
\<close>

theorem cancel_races_worker:
  "case run_cancel raced_deps ''t'' ''r'' queued_only of
      (Inl e, u) \<Rightarrow> False
    | (Inr x, u) \<Rightarrow> run_status x = RunCancelled \<and>
        map event_type (event_stream (w_events u) (''t'', ''r'')) =
          [''run.provisioning'', ''run.running'', ''run.cancelling'', ''run.cancelled'']"
  by code_simp

definition admit_reap_ensure :: "resource_reservation list handler" where
  "admit_reap_ensure =
     thenP (admit_run quiet_deps ''t'' ''r'' plain_caller None None 1)
     (thenP (clock quiet_deps)
     (thenP (reap_expired_all quiet_deps 5)
       (ensure_run_admitted quiet_deps ''t'' ''r'' plain_caller None None 60)))"

text \<open>
  A run is admitted when it is created. While it waits in the queue its reservations expire, and
  the reaper releases them. The worker that starts it asks \<^verbatim>\<open>ensure_run_admitted\<close>, which looks
  for a reservation under the run's key in any state and is content with the expired one: the
  run executes although no slot is reserved for it.
\<close>

theorem ensure_accepts_expired:
  "case admit_reap_ensure world_empty of
      (Inl e, u) \<Rightarrow> False
    | (Inr rs, u) \<Rightarrow> map resv_state rs = [ReservationExpired] \<and>
        quota_list_active (w_quota u) ''t'' = []"
  by code_simp

end
