(* ===== verification/Memory_Files.thy ===== *)
theory Memory_Files
  imports Memory_Catalog
begin

section \<open>In-memory repositories: user memory, thread files, workspace snapshots\<close>

text \<open>
  Three more adapters of \<^verbatim>\<open>src/src/harness/adapters/memory.py\<close>. User memories are versioned
  (compare-and-set on \<^verbatim>\<open>version\<close>); a thread file may name a parent, which the adapter requires
  to be stored already and to share tenant, user and session; the latest workspace snapshot of
  a session is the first one of maximal creation time.
\<close>

subsection \<open>User memories\<close>

type_synonym user_memory_repo = "(string \<times> string \<times> string, user_memory) dict"

definition user_memory_key :: "user_memory \<Rightarrow> string \<times> string \<times> string" where
  "user_memory_key m = (memory_tenant_id m, memory_user_id m, memory_agent_name m)"

definition user_memory_add :: "user_memory \<Rightarrow> user_memory_repo \<Rightarrow> herror + user_memory_repo" where
  "user_memory_add m items =
     (if dict_has items (user_memory_key m)
      then Inl (ConflictError ''user memory already exists'')
      else Inr (dict_set (user_memory_key m) m items))"

definition user_memory_get ::
  "user_memory_repo \<Rightarrow> string \<Rightarrow> string \<Rightarrow> string \<Rightarrow> user_memory option" where
  "user_memory_get items tenant_id user_id agent_name =
     dict_get items (tenant_id, user_id, agent_name)"

definition user_memory_cas ::
  "int \<Rightarrow> user_memory \<Rightarrow> user_memory_repo \<Rightarrow> herror + (bool \<times> user_memory_repo)" where
  "user_memory_cas expected_version updated items =
     (case dict_get items (user_memory_key updated) of
        None \<Rightarrow> Inl (NotFoundError ''user memory not found'')
      | Some current \<Rightarrow>
          if memory_version current \<noteq> expected_version then Inr (False, items)
          else if memory_version updated \<noteq> expected_version + 1
          then Inl (ConflictError ''user memory version must increment by one'')
          else Inr (True, dict_set (user_memory_key updated) updated items))"

definition user_memory_delete ::
  "string \<Rightarrow> string \<Rightarrow> string \<Rightarrow> user_memory_repo \<Rightarrow> user_memory_repo" where
  "user_memory_delete tenant_id user_id agent_name items =
     dict_pop (tenant_id, user_id, agent_name) items"

definition user_memory_lookup :: "user_memory_repo \<Rightarrow> string \<times> string \<times> string \<Rightarrow> herror + user_memory"
where
  "user_memory_lookup items k =
     (case k of (t, u, a) \<Rightarrow>
       (case user_memory_get items t u a of
          None \<Rightarrow> Inl (NotFoundError ''user memory not found'')
        | Some m \<Rightarrow> Inr m))"

interpretation user_memories: keyed_store user_memory_add user_memory_lookup user_memory_key
  by unfold_locales
     (auto simp: user_memory_add_def user_memory_lookup_def user_memory_get_def
       user_memory_key_def split: prod.splits if_splits option.splits)

interpretation user_memories: versioned_store
  user_memory_lookup user_memory_cas user_memory_key memory_version
  by unfold_locales
     (auto simp: user_memory_cas_def user_memory_lookup_def user_memory_get_def
       user_memory_key_def split: prod.splits if_splits option.splits)

subsection \<open>Thread files\<close>

type_synonym thread_file_repo = "(string \<times> string, thread_file) dict"

definition file_key :: "thread_file \<Rightarrow> string \<times> string" where
  "file_key f = (file_tenant_id f, file_id f)"

definition thread_file_add :: "thread_file \<Rightarrow> thread_file_repo \<Rightarrow> herror + thread_file_repo" where
  "thread_file_add f items =
     (if dict_has items (file_key f)
      then Inl (ConflictError (''thread file already exists: '' @ file_id f))
      else case file_parent_file_id f of
        None \<Rightarrow> Inr (dict_set (file_key f) f items)
      | Some parent_id \<Rightarrow>
          (case dict_get items (file_tenant_id f, parent_id) of
             None \<Rightarrow> Inl (NotFoundError (''parent thread file not found: '' @ parent_id))
           | Some parent \<Rightarrow>
               if (file_user_id parent, file_session_id parent) \<noteq> (file_user_id f, file_session_id f)
               then Inl (ConflictError ''derived file must share its parent's thread scope'')
               else Inr (dict_set (file_key f) f items)))"

definition thread_file_get :: "thread_file_repo \<Rightarrow> string \<Rightarrow> string \<Rightarrow> herror + thread_file" where
  "thread_file_get items tenant_id fid =
     (case dict_get items (tenant_id, fid) of
        None \<Rightarrow> Inl (NotFoundError (''thread file not found: '' @ fid))
      | Some f \<Rightarrow> Inr f)"

definition thread_file_list_for_session ::
  "thread_file_repo \<Rightarrow> string \<Rightarrow> string \<Rightarrow> string \<Rightarrow> thread_file list" where
  "thread_file_list_for_session items tenant_id user_id sid =
     map snd (filter (\<lambda>((item_tenant, _), f).
       item_tenant = tenant_id \<and> file_user_id f = user_id \<and> file_session_id f = sid) items)"

definition thread_file_list_children ::
  "thread_file_repo \<Rightarrow> string \<Rightarrow> string \<Rightarrow> thread_file list" where
  "thread_file_list_children items tenant_id parent_id =
     map snd (filter (\<lambda>((item_tenant, _), f).
       item_tenant = tenant_id \<and> file_parent_file_id f = Some parent_id) items)"

lemma thread_file_add_Inr:
  assumes "thread_file_add f items = Inr t"
  shows "t = items @ [(file_key f, f)]" and "dict_get items (file_key f) = None"
    and "\<And>p. file_parent_file_id f = Some p \<Longrightarrow>
      \<exists>g. dict_get items (file_tenant_id f, p) = Some g \<and>
        file_user_id g = file_user_id f \<and> file_session_id g = file_session_id f"
  using assms
  by (auto simp: thread_file_add_def dict_set_fresh split: if_splits option.splits)

interpretation thread_files: keyed_store thread_file_add
  "\<lambda>items (t, i). thread_file_get items t i" file_key
  by unfold_locales
     (auto simp: thread_file_add_def thread_file_get_def file_key_def
       split: prod.splits if_splits option.splits)

text \<open>
  \<open>derived_from items f g\<close>: following parent links from \<open>f\<close> inside the store reaches \<open>g\<close>.
  \<open>file_store_ok\<close>: the parent of every entry is an earlier entry with the same thread scope.
\<close>

inductive derived_from :: "thread_file_repo \<Rightarrow> thread_file \<Rightarrow> thread_file \<Rightarrow> bool"
  for items where
  parent: "file_parent_file_id f = Some p \<Longrightarrow> dict_get items (file_tenant_id f, p) = Some g \<Longrightarrow>
     derived_from items f g"
| ancestor: "derived_from items f g \<Longrightarrow> derived_from items g h \<Longrightarrow> derived_from items f h"

definition same_thread :: "thread_file \<Rightarrow> thread_file \<Rightarrow> bool" where
  "same_thread f g \<longleftrightarrow> file_tenant_id f = file_tenant_id g \<and> file_user_id f = file_user_id g \<and>
     file_session_id f = file_session_id g"

inductive file_store_ok :: "thread_file_repo \<Rightarrow> bool" where
  empty: "file_store_ok []"
| added: "file_store_ok items \<Longrightarrow> thread_file_add f items = Inr t \<Longrightarrow> file_store_ok t"

lemma file_store_ok_keys:
  "file_store_ok items \<Longrightarrow> dict_wf items \<and> (\<forall>(k, f) \<in> set items. k = file_key f)"
proof (induction rule: file_store_ok.induct)
  case (added items f t)
  then have "t = dict_set (file_key f) f items"
    by (simp add: thread_file_add_Inr dict_set_fresh)
  with added show ?case by (auto simp: dict_set_mem)
qed simp

lemma file_store_ok_get:
  "file_store_ok items \<Longrightarrow> dict_get items (t, i) = Some f \<Longrightarrow> file_tenant_id f = t \<and> file_id f = i"
  using file_store_ok_keys by (fastforce dest!: map_of_SomeD simp: file_key_def)

text \<open>The age of a stored file: how many entries precede it.\<close>

definition file_age :: "thread_file_repo \<Rightarrow> thread_file \<Rightarrow> nat" where
  "file_age items f = length (takeWhile (\<lambda>(k, _). k \<noteq> file_key f) items)"

lemma file_age_append_old:
  "dict_get items (file_key g) \<noteq> None \<Longrightarrow> file_age (items @ xs) g = file_age items g"
  unfolding file_age_def
  by (induction items) (auto split: if_splits)

lemma file_age_bound:
  "dict_get items (file_key g) \<noteq> None \<Longrightarrow> file_age items g < length items"
  unfolding file_age_def by (induction items) (auto split: if_splits)

lemma file_age_new:
  "dict_get items (file_key f) = None \<Longrightarrow> file_age (items @ [(file_key f, f)]) f = length items"
  unfolding file_age_def by (induction items) (auto split: if_splits)

lemma file_store_ok_parent:
  "file_store_ok items \<Longrightarrow> (k, f) \<in> set items \<Longrightarrow> file_parent_file_id f = Some p \<Longrightarrow>
   \<exists>g. dict_get items (file_tenant_id f, p) = Some g \<and> same_thread f g \<and>
     file_age items g < file_age items f"
proof (induction arbitrary: k f p rule: file_store_ok.induct)
  case (added items n t)
  note t = thread_file_add_Inr(1) [OF added.hyps(2)]
  have fresh: "dict_get items (file_key n) = None"
    by (rule thread_file_add_Inr(2) [OF added.hyps(2)])
  have stored: "dict_get items (file_key g) = Some g" if "dict_get items (u, q) = Some g" for u q g
    using file_store_ok_get [OF added.hyps(1) that] that by (simp add: file_key_def)
  show ?case
  proof (cases "(k, f) \<in> set items")
    case True
    then obtain g where g: "dict_get items (file_tenant_id f, p) = Some g"
      and sc: "same_thread f g" and age: "file_age items g < file_age items f"
      using added.IH added.prems by blast
    have "dict_get items (file_key f) \<noteq> None"
      using True file_store_ok_keys [OF added.hyps(1)] by (force simp: map_of_eq_None_iff)
    with g sc age stored [OF g] show ?thesis
      by (simp add: t file_age_append_old map_add_Some_iff)
  next
    case False
    with added.prems t have f: "f = n" by auto
    from thread_file_add_Inr(3) [OF added.hyps(2)] added.prems(2) f
    obtain g where g: "dict_get items (file_tenant_id f, p) = Some g"
      and sc: "file_user_id g = file_user_id f" "file_session_id g = file_session_id f" by auto
    with file_store_ok_get [OF added.hyps(1) g] have "same_thread f g"
      by (simp add: same_thread_def)
    with g f fresh stored [OF g] show ?thesis
      by (auto simp: t file_age_append_old file_age_new file_age_bound map_add_Some_iff)
  qed
qed simp

lemma derived_from_ok:
  "derived_from items f g \<Longrightarrow> file_store_ok items \<Longrightarrow> dict_get items (file_key f) = Some f \<Longrightarrow>
   dict_get items (file_key g) = Some g \<and> same_thread f g \<and> file_age items g < file_age items f"
proof (induction rule: derived_from.induct)
  case (parent f p g)
  from parent.prems have "(file_key f, f) \<in> set items" by (simp add: map_of_SomeD)
  from file_store_ok_parent [OF parent.prems(1) this parent.hyps(1)] parent.hyps(2)
    file_store_ok_get [OF parent.prems(1) parent.hyps(2)]
  show ?case by (auto simp: file_key_def)
next
  case (ancestor f g h)
  then show ?case by (auto simp: same_thread_def)
qed

text \<open>
  In every store the adapter can reach by additions, everything a file is derived from,
  through any number of parent links, is stored, belongs to the same tenant, user and session,
  and is never the file itself: derivation has no cycles and cannot cross a thread.
\<close>

theorem derived_files_stay_in_thread:
  assumes "file_store_ok items" and "dict_get items (file_key f) = Some f"
    and "derived_from items f g"
  shows "dict_get items (file_key g) = Some g \<and> same_thread f g \<and> g \<noteq> f"
  using derived_from_ok [OF assms(3,1,2)] by auto

definition sample_file :: "string \<Rightarrow> string option \<Rightarrow> thread_file" where
  "sample_file i p = \<lparr>file_id = i, file_tenant_id = ''t'', file_user_id = ''u'',
     file_session_id = ''s'', file_run_id = ''r'', file_kind = FileOriginal, file_name = i,
     file_media_type = ''text/plain'', file_path = i, file_created_at = 0,
     file_input_artifact_id = None, file_artifact_id = None, file_parent_file_id = p,
     file_metadata = []\<rparr>"

theorem derived_files_stay_in_thread_witness:
  "let items = [(file_key (sample_file ''a'' None), sample_file ''a'' None),
                (file_key (sample_file ''b'' (Some ''a'')), sample_file ''b'' (Some ''a''))] in
   dict_get items (file_key (sample_file ''a'' None)) = Some (sample_file ''a'' None) \<and>
   same_thread (sample_file ''b'' (Some ''a'')) (sample_file ''a'' None) \<and>
   sample_file ''a'' None \<noteq> sample_file ''b'' (Some ''a'')"
proof -
  let ?a = "sample_file ''a'' None" and ?b = "sample_file ''b'' (Some ''a'')"
  let ?items = "[(file_key ?a, ?a), (file_key ?b, ?b)]"
  have one: "file_store_ok [(file_key ?a, ?a)]"
    by (rule file_store_ok.added [OF file_store_ok.empty, of ?a])
       (simp add: thread_file_add_def sample_file_def)
  have ok: "file_store_ok ?items"
    by (rule file_store_ok.added [OF one, of ?b])
       (simp add: thread_file_add_def sample_file_def file_key_def)
  have "derived_from ?items ?b ?a"
    by (rule derived_from.parent [of _ "''a''"]) (simp_all add: sample_file_def file_key_def)
  from derived_files_stay_in_thread [OF ok _ this] show ?thesis
    by (simp add: Let_def file_key_def sample_file_def)
qed

subsection \<open>Workspace snapshots\<close>

type_synonym workspace_snapshot_repo = "(string \<times> string, workspace_snapshot) dict"

definition snapshot_key :: "workspace_snapshot \<Rightarrow> string \<times> string" where
  "snapshot_key s = (snapshot_tenant_id s, snapshot_id s)"

definition snapshot_add ::
  "workspace_snapshot \<Rightarrow> workspace_snapshot_repo \<Rightarrow> herror + workspace_snapshot_repo" where
  "snapshot_add s items =
     (if dict_has items (snapshot_key s)
      then Inl (ConflictError (''workspace snapshot already exists: '' @ snapshot_id s))
      else Inr (dict_set (snapshot_key s) s items))"

definition snapshot_get ::
  "workspace_snapshot_repo \<Rightarrow> string \<Rightarrow> string \<Rightarrow> herror + workspace_snapshot" where
  "snapshot_get items tenant_id sid =
     (case dict_get items (tenant_id, sid) of
        None \<Rightarrow> Inl (NotFoundError (''workspace snapshot not found: '' @ sid))
      | Some s \<Rightarrow> Inr s)"

definition snapshot_latest ::
  "workspace_snapshot_repo \<Rightarrow> string \<Rightarrow> string \<Rightarrow> workspace_snapshot option" where
  "snapshot_latest items tenant_id sid =
     py_max snapshot_created_at
       (map snd (filter (\<lambda>((item_tenant, _), s).
          item_tenant = tenant_id \<and> snapshot_session_id s = sid) items))"

interpretation workspace_snapshots: keyed_store snapshot_add
  "\<lambda>items (t, i). snapshot_get items t i" snapshot_key
  by unfold_locales
     (auto simp: snapshot_add_def snapshot_get_def snapshot_key_def
       split: prod.splits if_splits option.splits)

lemma snapshot_latest_newest:
  assumes "snapshot_latest items t sid = Some s"
  shows "\<exists>i. ((t, i), s) \<in> set items" and "snapshot_session_id s = sid"
    and "\<And>i u. ((t, i), u) \<in> set items \<Longrightarrow> snapshot_session_id u = sid \<Longrightarrow>
      snapshot_created_at u \<le> snapshot_created_at s"
  using py_max_mem [OF assms [unfolded snapshot_latest_def]]
    py_max_ge [OF assms [unfolded snapshot_latest_def]]
  by force+

end
