(* ===== verification/Memory_Bindings.thy ===== *)
theory Memory_Bindings
  imports Store_Contracts
begin

section \<open>In-memory thread bindings\<close>

text \<open>
  \<^verbatim>\<open>InMemoryAguiThreadBindingRepository\<close> of \<^verbatim>\<open>src/src/harness/adapters/memory.py\<close>: which chat
  session serves a thread of the AG-UI front end. A binding is stored under its thread and, as
  an alias, under its current and all its previous sessions. \<open>binding_inv\<close> says that the two
  dictionaries agree; every operation keeps it, which makes a session resolve to the current
  binding of its one thread for ever.
\<close>

record binding_repo =
  bindings_by_thread :: "(string \<times> string \<times> string, agui_thread_binding) dict"
  bindings_by_session :: "(string \<times> string \<times> string, agui_thread_binding) dict"

definition binding_repo_empty :: binding_repo where
  "binding_repo_empty = \<lparr>bindings_by_thread = [], bindings_by_session = []\<rparr>"

definition binding_thread_key :: "agui_thread_binding \<Rightarrow> string \<times> string \<times> string" where
  "binding_thread_key b = (binding_tenant_id b, binding_user_id b, binding_thread_id b)"

definition binding_alias_key :: "agui_thread_binding \<Rightarrow> string \<Rightarrow> string \<times> string \<times> string" where
  "binding_alias_key b sid = (binding_tenant_id b, binding_user_id b, sid)"

definition binding_add :: "agui_thread_binding \<Rightarrow> binding_repo \<Rightarrow> herror + binding_repo" where
  "binding_add b repo =
     (let thread_key = binding_thread_key b;
          session_key = binding_alias_key b (binding_session_id b)
      in if dict_has (bindings_by_thread repo) thread_key \<or>
            dict_has (bindings_by_session repo) session_key
         then Inl (ConflictError ''AG-UI thread binding already exists'')
         else Inr \<lparr>bindings_by_thread = dict_set thread_key b (bindings_by_thread repo),
                   bindings_by_session = dict_set session_key b (bindings_by_session repo)\<rparr>)"

definition binding_get_by_thread ::
  "binding_repo \<Rightarrow> string \<Rightarrow> string \<Rightarrow> string \<Rightarrow> herror + agui_thread_binding" where
  "binding_get_by_thread repo tenant_id user_id thread_id =
     (case dict_get (bindings_by_thread repo) (tenant_id, user_id, thread_id) of
        None \<Rightarrow> Inl (NotFoundError (''AG-UI thread binding not found: '' @ thread_id))
      | Some b \<Rightarrow> Inr b)"

definition binding_get_by_session ::
  "binding_repo \<Rightarrow> string \<Rightarrow> string \<Rightarrow> string \<Rightarrow> herror + agui_thread_binding" where
  "binding_get_by_session repo tenant_id user_id sid =
     (case dict_get (bindings_by_session repo) (tenant_id, user_id, sid) of
        None \<Rightarrow> Inl (NotFoundError (''AG-UI session binding not found: '' @ sid))
      | Some b \<Rightarrow> Inr b)"

fun store_aliases ::
  "agui_thread_binding \<Rightarrow> string list \<Rightarrow>
   (string \<times> string \<times> string, agui_thread_binding) dict \<Rightarrow>
   (string \<times> string \<times> string, agui_thread_binding) dict" where
  "store_aliases b [] d = d"
| "store_aliases b (sid # sids) d = store_aliases b sids (dict_set (binding_alias_key b sid) b d)"

definition store_session_aliases :: "agui_thread_binding \<Rightarrow> binding_repo \<Rightarrow> binding_repo" where
  "store_session_aliases b repo =
     repo\<lparr>bindings_by_session := store_aliases b (binding_session_ids b) (bindings_by_session repo)\<rparr>"

definition binding_list_for_user ::
  "binding_repo \<Rightarrow> string \<Rightarrow> string \<Rightarrow> int \<Rightarrow> bool \<Rightarrow> agui_thread_binding list" where
  "binding_list_for_user repo tenant_id user_id max_items archived =
     py_prefix max_items (py_sorted_desc (\<lambda>b. (binding_updated_at b, binding_thread_id b))
       (map snd (filter (\<lambda>((item_tenant, item_user, _), b).
          item_tenant = tenant_id \<and> item_user = user_id \<and>
          (binding_archived_at b \<noteq> None) = archived) (bindings_by_thread repo))))"

text \<open>The three updates end in the same way: store under the thread, refresh the aliases.\<close>

definition binding_store ::
  "string \<times> string \<times> string \<Rightarrow> agui_thread_binding \<Rightarrow> binding_repo \<Rightarrow> binding_repo" where
  "binding_store thread_key updated repo =
     store_session_aliases updated
       (repo\<lparr>bindings_by_thread := dict_set thread_key updated (bindings_by_thread repo)\<rparr>)"

definition binding_update_title ::
  "string \<Rightarrow> string \<Rightarrow> string \<Rightarrow> string \<Rightarrow> title_source \<Rightarrow> time \<Rightarrow> binding_repo \<Rightarrow>
   herror + (agui_thread_binding \<times> binding_repo)" where
  "binding_update_title tenant_id user_id thread_id title src generated_at repo =
     (case dict_get (bindings_by_thread repo) (tenant_id, user_id, thread_id) of
        None \<Rightarrow> Inl (NotFoundError (''AG-UI thread binding not found: '' @ thread_id))
      | Some b \<Rightarrow>
          if (case binding_title_updated_at b of None \<Rightarrow> False | Some t \<Rightarrow> generated_at < t)
          then Inr (b, repo)
          else
            let updated = b\<lparr>binding_title := Some title, binding_title_source := Some src,
                  binding_title_updated_at := Some generated_at,
                  binding_updated_at := max (binding_updated_at b) generated_at\<rparr>
            in Inr (updated, binding_store (tenant_id, user_id, thread_id) updated repo))"

definition binding_set_archived ::
  "string \<Rightarrow> string \<Rightarrow> string \<Rightarrow> time option \<Rightarrow> binding_repo \<Rightarrow>
   herror + (agui_thread_binding \<times> binding_repo)" where
  "binding_set_archived tenant_id user_id thread_id archived_at repo =
     (case dict_get (bindings_by_thread repo) (tenant_id, user_id, thread_id) of
        None \<Rightarrow> Inl (NotFoundError (''AG-UI thread binding not found: '' @ thread_id))
      | Some b \<Rightarrow>
          let updated = b\<lparr>binding_archived_at := archived_at,
                binding_updated_at :=
                  (case archived_at of
                     Some t \<Rightarrow> max (binding_updated_at b) t
                   | None \<Rightarrow> binding_updated_at b)\<rparr>
          in Inr (updated, binding_store (tenant_id, user_id, thread_id) updated repo))"

definition binding_rebind_session ::
  "string \<Rightarrow> string \<Rightarrow> string \<Rightarrow> string \<Rightarrow> time \<Rightarrow> binding_repo \<Rightarrow>
   herror + (agui_thread_binding \<times> binding_repo)" where
  "binding_rebind_session tenant_id user_id thread_id sid updated_at repo =
     (case dict_get (bindings_by_thread repo) (tenant_id, user_id, thread_id) of
        None \<Rightarrow> Inl (NotFoundError (''AG-UI thread binding not found: '' @ thread_id))
      | Some b \<Rightarrow>
          if (case dict_get (bindings_by_session repo) (tenant_id, user_id, sid) of
                None \<Rightarrow> False
              | Some existing \<Rightarrow> binding_thread_id existing \<noteq> thread_id)
          then Inl (ConflictError ''AG-UI session binding already exists'')
          else
            let previous =
                  dedup_keep_first (binding_previous_session_ids b @ [binding_session_id b]);
                updated = b\<lparr>binding_session_id := sid, binding_previous_session_ids := previous,
                  binding_updated_at := max (binding_updated_at b) updated_at\<rparr>
            in Inr (updated, binding_store (tenant_id, user_id, thread_id) updated repo))"

subsection \<open>The two indexes agree\<close>

definition binding_inv :: "binding_repo \<Rightarrow> bool" where
  "binding_inv repo \<longleftrightarrow>
     (\<forall>k b. dict_get (bindings_by_thread repo) k = Some b \<longrightarrow> binding_thread_key b = k \<and>
        (\<forall>sid \<in> set (binding_session_ids b).
           dict_get (bindings_by_session repo) (binding_alias_key b sid) = Some b)) \<and>
     (\<forall>k b. dict_get (bindings_by_session repo) k = Some b \<longrightarrow>
        (\<exists>sid \<in> set (binding_session_ids b). k = binding_alias_key b sid) \<and>
        dict_get (bindings_by_thread repo) (binding_thread_key b) = Some b)"

lemma binding_inv_thread:
  "binding_inv repo \<Longrightarrow> dict_get (bindings_by_thread repo) k = Some b \<Longrightarrow> binding_thread_key b = k"
  unfolding binding_inv_def by blast

lemma binding_inv_alias:
  "binding_inv repo \<Longrightarrow> dict_get (bindings_by_thread repo) k = Some b \<Longrightarrow>
   sid \<in> set (binding_session_ids b) \<Longrightarrow>
   dict_get (bindings_by_session repo) (binding_alias_key b sid) = Some b"
  unfolding binding_inv_def by blast

lemma binding_inv_session:
  assumes "binding_inv repo" and "dict_get (bindings_by_session repo) k = Some b"
  obtains sid where "sid \<in> set (binding_session_ids b)" and "k = binding_alias_key b sid"
    and "dict_get (bindings_by_thread repo) (binding_thread_key b) = Some b"
  using assms unfolding binding_inv_def by blast

lemma dict_get_store_aliases:
  "dict_get (store_aliases b sids d) k =
     (if \<exists>sid \<in> set sids. k = binding_alias_key b sid then Some b else dict_get d k)"
  by (induction sids arbitrary: d) auto

lemma binding_inv_empty: "binding_inv binding_repo_empty"
  by (simp add: binding_inv_def binding_repo_empty_def)

text \<open>
  Storing a binding for its thread keeps the agreement when it keeps every session of the
  thread's former binding and takes no session of another thread.
\<close>

lemma binding_inv_store:
  assumes inv: "binding_inv repo"
    and key: "binding_thread_key u = k"
    and old: "\<And>b sid. dict_get (bindings_by_thread repo) k = Some b \<Longrightarrow>
      sid \<in> set (binding_session_ids b) \<Longrightarrow> sid \<in> set (binding_session_ids u)"
    and free: "\<And>b sid. sid \<in> set (binding_session_ids u) \<Longrightarrow>
      dict_get (bindings_by_session repo) (binding_alias_key u sid) = Some b \<Longrightarrow>
      binding_thread_id b = binding_thread_id u"
  shows "binding_inv (binding_store k u repo)"
proof -
  let ?t = "binding_store k u repo"
  have thread: "dict_get (bindings_by_thread ?t) k' =
      (if k' = k then Some u else dict_get (bindings_by_thread repo) k')" for k'
    by (simp add: binding_store_def store_session_aliases_def)
  have sess: "dict_get (bindings_by_session ?t) k' =
      (if \<exists>sid \<in> set (binding_session_ids u). k' = binding_alias_key u sid then Some u
       else dict_get (bindings_by_session repo) k')" for k'
    by (simp add: binding_store_def store_session_aliases_def dict_get_store_aliases)
  have other: "dict_get (bindings_by_session ?t) k' = Some b \<Longrightarrow> b \<noteq> u \<Longrightarrow>
      binding_thread_key b \<noteq> k" for k' b
  proof
    assume b: "dict_get (bindings_by_session ?t) k' = Some b" "b \<noteq> u" and tk: "binding_thread_key b = k"
    from b have here: "dict_get (bindings_by_session repo) k' = Some b"
      and none: "\<forall>sid \<in> set (binding_session_ids u). k' \<noteq> binding_alias_key u sid"
      by (auto simp: sess split: if_splits)
    from binding_inv_session [OF inv here] obtain sid where
      "sid \<in> set (binding_session_ids b)" "k' = binding_alias_key b sid"
      "dict_get (bindings_by_thread repo) k = Some b" using tk by metis
    with old none key tk show False by (auto simp: binding_alias_key_def binding_thread_key_def)
  qed
  show ?thesis unfolding binding_inv_def
  proof (intro conjI allI impI ballI)
    fix k' b
    assume b: "dict_get (bindings_by_thread ?t) k' = Some b"
    then show "binding_thread_key b = k'"
      using key binding_inv_thread [OF inv] by (auto simp: thread split: if_splits)
    fix sid
    assume sid: "sid \<in> set (binding_session_ids b)"
    show "dict_get (bindings_by_session ?t) (binding_alias_key b sid) = Some b"
    proof (cases "k' = k")
      case True
      with b have "b = u" by (simp add: thread)
      with sid show ?thesis using sess [of "binding_alias_key u sid"] by auto
    next
      case False
      with b have b': "dict_get (bindings_by_thread repo) k' = Some b" by (simp add: thread)
      with False have "binding_thread_key b \<noteq> binding_thread_key u"
        using binding_inv_thread [OF inv b'] key by simp
      moreover have here: "dict_get (bindings_by_session repo) (binding_alias_key b sid) = Some b"
        using inv b' sid by (rule binding_inv_alias)
      moreover have "binding_alias_key b sid = binding_alias_key u x \<longleftrightarrow>
          binding_tenant_id b = binding_tenant_id u \<and> binding_user_id b = binding_user_id u \<and>
          sid = x" for x by (simp add: binding_alias_key_def)
      ultimately have "\<not> (\<exists>x \<in> set (binding_session_ids u).
          binding_alias_key b sid = binding_alias_key u x)"
        using free [of sid b] by (fastforce simp: binding_thread_key_def binding_alias_key_def)
      with here show ?thesis by (simp add: sess)
    qed
  next
    fix k' b
    assume b: "dict_get (bindings_by_session ?t) k' = Some b"
    show "\<exists>sid \<in> set (binding_session_ids b). k' = binding_alias_key b sid"
    proof (cases "\<exists>sid \<in> set (binding_session_ids u). k' = binding_alias_key u sid")
      case True
      with b show ?thesis by (simp add: sess)
    next
      case False
      with b have "dict_get (bindings_by_session repo) k' = Some b" by (simp add: sess)
      with inv show ?thesis by (rule binding_inv_session) blast
    qed
    show "dict_get (bindings_by_thread ?t) (binding_thread_key b) = Some b"
    proof (cases "b = u")
      case True
      with key show ?thesis by (simp add: thread)
    next
      case False
      from b False have "dict_get (bindings_by_session repo) k' = Some b"
        by (simp add: sess split: if_split_asm)
      with inv have "dict_get (bindings_by_thread repo) (binding_thread_key b) = Some b"
        by (rule binding_inv_session)
      with other [OF b False] show ?thesis by (simp add: thread)
    qed
  qed
qed

lemma binding_inv_add:
  assumes inv: "binding_inv repo" and add: "binding_add b repo = Inr t"
    and first: "binding_previous_session_ids b = []"
  shows "binding_inv t"
proof -
  have "t = binding_store (binding_thread_key b) b repo"
    using add first by (auto simp: binding_add_def binding_store_def store_session_aliases_def
      binding_session_ids_def Let_def split: if_splits)
  moreover have "binding_inv (binding_store (binding_thread_key b) b repo)"
    using inv refl
  proof (rule binding_inv_store)
  qed (use add first in \<open>auto simp: binding_add_def Let_def binding_session_ids_def split: if_splits\<close>)
  ultimately show ?thesis by simp
qed

lemma binding_inv_refresh:
  assumes inv: "binding_inv repo"
    and b: "dict_get (bindings_by_thread repo) k = Some b"
    and key: "binding_thread_key u = k" and ids: "binding_session_ids u = binding_session_ids b"
  shows "binding_inv (binding_store k u repo)"
  using inv key
proof (rule binding_inv_store)
  show "sid \<in> set (binding_session_ids c) \<Longrightarrow> sid \<in> set (binding_session_ids u)"
    if "dict_get (bindings_by_thread repo) k = Some c" for c sid using that b ids by simp
next
  fix c sid
  assume "sid \<in> set (binding_session_ids u)"
    and c: "dict_get (bindings_by_session repo) (binding_alias_key u sid) = Some c"
  with ids have "dict_get (bindings_by_session repo) (binding_alias_key b sid) = Some b"
    using binding_inv_alias [OF inv b] by simp
  moreover have "binding_thread_key b = k" using inv b by (rule binding_inv_thread)
  ultimately show "binding_thread_id c = binding_thread_id u"
    using c key by (auto simp: binding_alias_key_def binding_thread_key_def)
qed

lemma binding_inv_update_title:
  assumes inv: "binding_inv repo"
    and upd: "binding_update_title t u th title src ts repo = Inr (b, repo')"
  shows "binding_inv repo'"
proof -
  from upd obtain c where c: "dict_get (bindings_by_thread repo) (t, u, th) = Some c"
    by (auto simp: binding_update_title_def split: option.splits)
  have "binding_thread_key c = (t, u, th)" using inv c by (rule binding_inv_thread)
  then have "binding_inv (binding_store (t, u, th) (c\<lparr>binding_title := Some title,
      binding_title_source := Some src, binding_title_updated_at := Some ts,
      binding_updated_at := max (binding_updated_at c) ts\<rparr>) repo)"
    by (intro binding_inv_refresh [OF inv c])
       (simp_all add: binding_thread_key_def binding_session_ids_def)
  with upd c inv show ?thesis
    by (auto simp: binding_update_title_def Let_def split: option.splits if_splits)
qed

lemma binding_inv_set_archived:
  assumes inv: "binding_inv repo"
    and upd: "binding_set_archived t u th ts repo = Inr (b, repo')"
  shows "binding_inv repo'"
proof -
  from upd obtain c where c: "dict_get (bindings_by_thread repo) (t, u, th) = Some c"
    by (auto simp: binding_set_archived_def split: option.splits)
  have "binding_thread_key c = (t, u, th)" using inv c by (rule binding_inv_thread)
  then have "binding_inv (binding_store (t, u, th) (c\<lparr>binding_archived_at := ts,
      binding_updated_at := (case ts of Some x \<Rightarrow> max (binding_updated_at c) x
        | None \<Rightarrow> binding_updated_at c)\<rparr>) repo)"
    by (intro binding_inv_refresh [OF inv c])
       (simp_all add: binding_thread_key_def binding_session_ids_def)
  with upd c show ?thesis by (auto simp: binding_set_archived_def Let_def)
qed

lemma binding_rebind_Inr:
  assumes "binding_rebind_session t u th sid ts repo = Inr (b, repo')"
  shows "\<exists>c. dict_get (bindings_by_thread repo) (t, u, th) = Some c \<and>
    repo' = binding_store (t, u, th) b repo \<and>
    b = c\<lparr>binding_session_id := sid, binding_previous_session_ids :=
      dedup_keep_first (binding_previous_session_ids c @ [binding_session_id c]),
      binding_updated_at := max (binding_updated_at c) ts\<rparr> \<and>
    (\<forall>e. dict_get (bindings_by_session repo) (t, u, sid) = Some e \<longrightarrow> binding_thread_id e = th)"
proof (cases "dict_get (bindings_by_thread repo) (t, u, th)")
  case (Some c)
  with assms show ?thesis
    by (auto simp: binding_rebind_session_def Let_def split: option.split_asm if_split_asm)
qed (use assms in \<open>simp add: binding_rebind_session_def\<close>)

lemma binding_inv_rebind:
  assumes inv: "binding_inv repo"
    and upd: "binding_rebind_session t u th sid ts repo = Inr (b, repo')"
  shows "binding_inv repo'"
proof -
  obtain c where c: "dict_get (bindings_by_thread repo) (t, u, th) = Some c"
    and repo': "repo' = binding_store (t, u, th) b repo"
    and b: "b = c\<lparr>binding_session_id := sid, binding_previous_session_ids :=
        dedup_keep_first (binding_previous_session_ids c @ [binding_session_id c]),
        binding_updated_at := max (binding_updated_at c) ts\<rparr>"
    and free: "\<And>e. dict_get (bindings_by_session repo) (t, u, sid) = Some e \<Longrightarrow>
        binding_thread_id e = th"
    using binding_rebind_Inr [OF upd] by blast
  have key: "binding_thread_key c = (t, u, th)" using inv c by (rule binding_inv_thread)
  show ?thesis unfolding repo' using inv
  proof (rule binding_inv_store)
    show "binding_thread_key b = (t, u, th)" using key by (simp add: b binding_thread_key_def)
    show "x \<in> set (binding_session_ids b)"
      if "dict_get (bindings_by_thread repo) (t, u, th) = Some d" "x \<in> set (binding_session_ids d)"
      for d x using that c by (auto simp: b binding_session_ids_def)
  next
    fix d x
    assume x: "x \<in> set (binding_session_ids b)"
      and d: "dict_get (bindings_by_session repo) (binding_alias_key b x) = Some d"
    show "binding_thread_id d = binding_thread_id b"
    proof (cases "x \<in> set (binding_session_ids c)")
      case True
      with binding_inv_alias [OF inv c True] d show ?thesis by (simp add: b binding_alias_key_def)
    next
      case False
      with x have "x = sid" by (auto simp: b binding_session_ids_def)
      with d free [of d] key show ?thesis
        by (simp add: b binding_alias_key_def binding_thread_key_def)
    qed
  qed
qed

subsection \<open>Histories of the repository\<close>

text \<open>
  Any sequence of calls, those that raise included (they change nothing). A new thread is bound
  without previous sessions, as \<^verbatim>\<open>AguiThreadBinding\<close> is built by the AG-UI service.
\<close>

datatype binding_op =
    BindAdd agui_thread_binding
  | BindTitle string string string string title_source time
  | BindArchive string string string "time option"
  | BindRebind string string string string time

definition new_binding :: "agui_thread_binding \<Rightarrow> agui_thread_binding" where
  "new_binding b = b\<lparr>binding_previous_session_ids := []\<rparr>"

fun binding_apply :: "binding_op \<Rightarrow> binding_repo \<Rightarrow> binding_repo" where
  "binding_apply (BindAdd b) repo =
     (case binding_add (new_binding b) repo of Inl _ \<Rightarrow> repo | Inr t \<Rightarrow> t)"
| "binding_apply (BindTitle t u th title src ts) repo =
     (case binding_update_title t u th title src ts repo of Inl _ \<Rightarrow> repo | Inr (_, t) \<Rightarrow> t)"
| "binding_apply (BindArchive t u th ts) repo =
     (case binding_set_archived t u th ts repo of Inl _ \<Rightarrow> repo | Inr (_, t) \<Rightarrow> t)"
| "binding_apply (BindRebind t u th sid ts) repo =
     (case binding_rebind_session t u th sid ts repo of Inl _ \<Rightarrow> repo | Inr (_, t) \<Rightarrow> t)"

lemma binding_inv_apply: "binding_inv repo \<Longrightarrow> binding_inv (binding_apply op repo)"
proof (cases op)
  case (BindAdd b)
  then show "binding_inv repo \<Longrightarrow> ?thesis"
    using binding_inv_add [of repo "new_binding b"] by (simp add: new_binding_def split: sum.split)
next
  case (BindTitle t u th title src ts)
  then show "binding_inv repo \<Longrightarrow> ?thesis"
    using binding_inv_update_title [of repo t u th title src ts] by (simp split: sum.split prod.split)
next
  case (BindArchive t u th ts)
  then show "binding_inv repo \<Longrightarrow> ?thesis"
    using binding_inv_set_archived [of repo t u th ts] by (simp split: sum.split prod.split)
next
  case (BindRebind t u th sid ts)
  then show "binding_inv repo \<Longrightarrow> ?thesis"
    using binding_inv_rebind [of repo t u th sid ts] by (simp split: sum.split prod.split)
qed

lemma binding_inv_fold: "binding_inv repo \<Longrightarrow> binding_inv (fold binding_apply ops repo)"
  by (induction ops arbitrary: repo) (auto intro: binding_inv_apply)

text \<open>
  After any sequence of calls of the repository, every session a thread's binding lists,
  current or previous, resolves to that binding itself; so a session belongs to one thread, and
  its alias shows the thread's latest title, archive mark and session.
\<close>

theorem binding_sessions_resolve:
  assumes "binding_get_by_thread (fold binding_apply ops binding_repo_empty) t u th = Inr b"
    and "sid \<in> set (binding_session_ids b)"
  shows "binding_get_by_session (fold binding_apply ops binding_repo_empty) t u sid = Inr b"
proof -
  have inv: "binding_inv (fold binding_apply ops binding_repo_empty)"
    by (rule binding_inv_fold) (rule binding_inv_empty)
  from assms(1) have b: "dict_get (bindings_by_thread (fold binding_apply ops binding_repo_empty))
      (t, u, th) = Some b"
    by (auto simp: binding_get_by_thread_def split: option.splits)
  from binding_inv_alias [OF inv b assms(2)] binding_inv_thread [OF inv b] show ?thesis
    by (simp add: binding_get_by_session_def binding_alias_key_def binding_thread_key_def)
qed

definition sample_binding :: agui_thread_binding where
  "sample_binding = \<lparr>binding_tenant_id = ''t'', binding_user_id = ''u'', binding_thread_id = ''th'',
     binding_session_id = ''s1'', binding_previous_session_ids = [], binding_title = None,
     binding_title_source = None, binding_title_updated_at = None, binding_archived_at = None,
     binding_created_at = 1, binding_updated_at = 1\<rparr>"

definition sample_binding_ops :: "binding_op list" where
  "sample_binding_ops = [BindAdd sample_binding, BindRebind ''t'' ''u'' ''th'' ''s2'' 5,
     BindTitle ''t'' ''u'' ''th'' ''Plan'' TitleModel 7]"

definition sample_rebound :: agui_thread_binding where
  "sample_rebound = sample_binding\<lparr>binding_session_id := ''s2'',
     binding_previous_session_ids := [''s1''], binding_title := Some ''Plan'',
     binding_title_source := Some TitleModel, binding_title_updated_at := Some 7,
     binding_updated_at := 7\<rparr>"

lemma binding_sessions_resolve_witness:
  "binding_get_by_session (fold binding_apply sample_binding_ops binding_repo_empty)
     ''t'' ''u'' ''s1'' = Inr sample_rebound"
  by (rule binding_sessions_resolve [where th = "''th''"])
     (simp_all add: sample_binding_ops_def sample_binding_def sample_rebound_def new_binding_def
       binding_repo_empty_def binding_add_def binding_rebind_session_def binding_update_title_def
       binding_get_by_thread_def binding_store_def store_session_aliases_def
       binding_session_ids_def binding_thread_key_def binding_alias_key_def Let_def)

text \<open>Rebinding to a former session lists it twice: once as previous, once as current.\<close>

lemma rebind_back_repeats_session:
  "binding_get_by_thread (fold binding_apply
     [BindAdd sample_binding, BindRebind ''t'' ''u'' ''th'' ''s2'' 5,
      BindRebind ''t'' ''u'' ''th'' ''s1'' 6] binding_repo_empty) ''t'' ''u'' ''th'' =
   Inr (sample_binding\<lparr>binding_previous_session_ids := [''s1'', ''s2''], binding_updated_at := 6\<rparr>)"
  by (simp add: sample_binding_def new_binding_def binding_repo_empty_def binding_add_def
    binding_rebind_session_def binding_get_by_thread_def binding_store_def
    store_session_aliases_def binding_session_ids_def binding_thread_key_def
    binding_alias_key_def Let_def)

end
