(* ===== verification/Bash_Properties.thy ===== *)
theory Bash_Properties
  imports Bash_Safety
begin

section \<open>Low-risk shell commands: what is accepted\<close>

text \<open>
  The token loop against a description of a list of simple commands, what the path check keeps
  inside the workspace, the words the tokenizer returns for quoted arguments, and inputs the
  classifier accepts although they leave what it means to allow.
\<close>

subsection \<open>The loop over the tokens\<close>

text \<open>
  The description: the tokens are cut at the separators; every piece is a low-risk program
  followed by arguments that the program may have.
\<close>

fun simple_commands :: "string list \<Rightarrow> string list list" where
  "simple_commands [] = [[]]"
| "simple_commands (t # ts) =
     (if t \<in> set command_separators then [] # simple_commands ts
      else case simple_commands ts of [] \<Rightarrow> [[t]] | c # cs \<Rightarrow> (t # c) # cs)"

fun arguments_ok :: "bash_env \<Rightarrow> string \<Rightarrow> nat \<Rightarrow> string list \<Rightarrow> bool" where
  "arguments_ok b name i [] = True"
| "arguments_ok b name i (a # as) =
     (case argument_step b name i a of None \<Rightarrow> False | Some j \<Rightarrow> arguments_ok b name j as)"

definition command_ok :: "bash_env \<Rightarrow> string list \<Rightarrow> bool" where
  "command_ok b command =
     (case command of
        [] \<Rightarrow> False
      | c # args \<Rightarrow>
          (case bash_command_name c of
             None \<Rightarrow> False
           | Some name \<Rightarrow> name \<in> set low_risk_commands \<and> arguments_ok b name 0 args))"

lemma simple_commands_Cons: "\<exists>c cs. simple_commands ts = c # cs"
  by (induction ts) (auto split: list.splits)

lemma tokens_low_risk_split:
  assumes "simple_commands tokens = c # cs"
  shows "tokens_low_risk b expecting active i tokens \<longleftrightarrow>
    set tokens \<inter> set rejected_shell_tokens = {} \<and>
    (if expecting then command_ok b c else arguments_ok b active i c) \<and> list_all (command_ok b) cs"
  using assms
proof (induction tokens arbitrary: expecting active i c cs)
  case (Cons t ts)
  obtain d ds where ds: "simple_commands ts = d # ds" using simple_commands_Cons by blast
  show ?case
  proof (cases "t \<in> set command_separators")
    case True
    with Cons.prems ds have "c = []" "cs = d # ds" by auto
    moreover have "t \<notin> set rejected_shell_tokens"
      using True by (auto simp: command_separators_def rejected_shell_tokens_def)
    ultimately show ?thesis
      using True Cons.IH [OF ds, of True "[]" 0] by (auto simp: command_ok_def)
  next
    case False
    with Cons.prems ds have "c = t # d" "cs = ds" by auto
    then show ?thesis
      using False Cons.IH [OF ds] by (auto simp: command_ok_def split: option.splits)
  qed
qed (auto simp: command_ok_def)

text \<open>
  The loop over the tokens accepts exactly the lists of low-risk commands: no token is one
  of the rejected operators, and every piece between two separators is nonempty, starts with a
  low-risk program (bare or below \<^verbatim>\<open>/bin\<close> or \<^verbatim>\<open>/usr/bin\<close>) and has only arguments that the rules
  of this program let pass.
\<close>

theorem tokens_low_risk_commands:
  "tokens_low_risk b True [] 0 tokens \<longleftrightarrow>
   set tokens \<inter> set rejected_shell_tokens = {} \<and> list_all (command_ok b) (simple_commands tokens)"
proof -
  obtain c cs where "simple_commands tokens = c # cs" using simple_commands_Cons by blast
  with tokens_low_risk_split [OF this, of b True "[]" 0] show ?thesis by simp
qed

subsection \<open>Paths\<close>

text \<open>Where a path leads from a working directory when \<^verbatim>\<open>..\<close> goes to the parent.\<close>

fun step_into :: "string list \<Rightarrow> string \<Rightarrow> string list" where
  "step_into ds p = (if p = ''..'' then butlast ds else ds @ [p])"

definition lexical_target :: "pure_path \<Rightarrow> pure_path \<Rightarrow> pure_path" where
  "lexical_target cwd p =
     (if path_is_absolute p then p\<lparr>path_tail := foldl step_into [] (path_tail p)\<rparr>
      else cwd\<lparr>path_tail := foldl step_into (path_tail cwd) (path_tail p)\<rparr>)"

lemma step_into_plain: "''..'' \<notin> set ps \<Longrightarrow> foldl step_into ds ps = ds @ ps"
  by (induction ps arbitrary: ds) auto

lemma after_char_None: "after_char d s = None \<longleftrightarrow> d \<notin> set s"
  by (induction s) auto

lemma path_stays_plain:
  assumes "path_stays_in_workspace b v" and "CHR ''='' \<notin> set v" and "\<not> starts_with ''-'' v"
  shows "''..'' \<notin> set (path_tail (pure_path_of v))"
    and "path_is_absolute (pure_path_of v) \<Longrightarrow>
      list_ex (\<lambda>base. path_relative_to (pure_path_of v) base) (bash_roots b)"
proof -
  have "(case after_char (CHR ''='') v of None \<Rightarrow> v | Some w \<Rightarrow> w) = v"
    using assms(2) after_char_None [of "CHR ''=''" v] by simp
  then have *: "''..'' \<notin> set (path_parts (pure_path_of v))"
      "\<not> path_is_absolute (pure_path_of v) \<or>
        list_ex (\<lambda>base. path_relative_to (pure_path_of v) base) (bash_roots b)"
    using assms(1,3) by (auto simp: path_stays_in_workspace_def Let_def split: if_splits)
  from *(1) show "''..'' \<notin> set (path_tail (pure_path_of v))"
    by (auto simp: path_parts_def split: if_splits)
  show "list_ex (\<lambda>base. path_relative_to (pure_path_of v) base) (bash_roots b)"
    if "path_is_absolute (pure_path_of v)"
    using *(2) that by simp
qed

text \<open>
  An argument that passes the path check, holds no equals sign and is no option names a
  place inside the working directory, the workspace or the remote workspace, wherever its
  \<^verbatim>\<open>..\<close> parts lead.
\<close>

theorem path_check_contains:
  assumes "path_stays_in_workspace b v" and "CHR ''='' \<notin> set v" and "\<not> starts_with ''-'' v"
  shows "list_ex (\<lambda>base. path_relative_to (lexical_target cwd (pure_path_of v)) base)
    (cwd # bash_roots b)"
proof (cases "path_is_absolute (pure_path_of v)")
  case True
  then have "lexical_target cwd (pure_path_of v) = pure_path_of v"
    using step_into_plain [OF path_stays_plain(1) [OF assms], of "[]"]
    by (simp add: lexical_target_def)
  with path_stays_plain(2) [OF assms True] show ?thesis by simp
next
  case False
  then have "path_relative_to (lexical_target cwd (pure_path_of v)) cwd"
    using step_into_plain [OF path_stays_plain(1) [OF assms], of "path_tail cwd"]
    by (simp add: lexical_target_def path_relative_to_def)
  then show ?thesis by simp
qed

definition sample_bash :: bash_env where
  "sample_bash = \<lparr>bash_workspace = ''/w'', bash_remote = None, bash_generated = [],
     bash_parse = (\<lambda>_. None)\<rparr>"

lemma path_check_contains_witness:
  "list_ex (\<lambda>base. path_relative_to (lexical_target (pure_path_of ''/w/sub'') (pure_path_of ''/w/a''))
     base) (pure_path_of ''/w/sub'' # bash_roots sample_bash)"
proof (rule path_check_contains)
  show "path_stays_in_workspace sample_bash ''/w/a''" by code_simp
qed (simp_all add: starts_with_def)

lemma arguments_okD:
  assumes "arguments_ok b name i as" and "a \<in> set as"
  shows "\<exists>j. argument_step b name j a \<noteq> None"
  using assms by (induction as arbitrary: i) (auto split: option.splits)

lemma argument_stepD:
  assumes "argument_step b name j a \<noteq> None"
  shows "name \<notin> {''echo'', ''cp''} \<Longrightarrow> name \<notin> set sandbox_wide_metadata_commands \<Longrightarrow>
      path_stays_in_workspace b a"
    and "name = ''find'' \<Longrightarrow> py_lower a \<notin> set unsafe_find_actions"
  using assms by (auto simp: argument_step_def Let_def split: if_splits)



subsection \<open>Quoted words\<close>

definition shell_quote :: "string \<Rightarrow> string" where
  "shell_quote w =
     CHR 0x27 # concat (map (\<lambda>c. if c = CHR 0x27 then [CHR 0x27, CHR 0x22, CHR 0x27, CHR 0x22, CHR 0x27]
       else [c]) w) @ [CHR 0x27]"

definition shell_join :: "string list \<Rightarrow> string" where
  "shell_join ws = join_with '' '' (map shell_quote ws)"

lemma shlex_inside_quote:
  "shlex_run (LexQuote (CHR 0x27)) quoted tok
     (concat (map (\<lambda>c. if c = CHR 0x27 then [CHR 0x27, CHR 0x22, CHR 0x27, CHR 0x22, CHR 0x27]
        else [c]) w) @ CHR 0x27 # rest) =
   shlex_run LexWord True (tok @ w) rest"
proof (induction w arbitrary: quoted tok)
  case (Cons c w)
  have "\<not> lex_space (CHR 0x22)" "\<not> lex_space (CHR 0x27)" "lex_quote (CHR 0x22)" "lex_quote (CHR 0x27)"
    "CHR 0x27 \<noteq> lex_backslash"
    by (simp_all add: lex_space_def lex_quote_def lex_backslash_def)
  then show ?case using Cons.IH by simp
qed simp

lemma shlex_quoted_word:
  "shlex_run LexBlank False [] (shell_quote w @ rest) = shlex_run LexWord True w rest"
  using shlex_inside_quote [of False "[]" w rest]
  by (simp add: shell_quote_def lex_start_def lex_space_def lex_punct_def lex_quote_def
      lex_backslash_def)

lemma shlex_join: "shlex_tokens (shell_join ws) = Some ws"
proof (cases ws)
  case (Cons w ws')
  have "shlex_run LexBlank False [] (shell_join (w # us)) = Some (w # us)" for w us
  proof (induction us arbitrary: w)
    case Nil
    then show ?case using shlex_quoted_word [of w "[]"] by (simp add: shell_join_def)
  next
    case (Cons u us)
    then show ?case
      using shlex_quoted_word [of w "CHR '' '' # shell_join (u # us)"]
      by (simp add: shell_join_def lex_space_def)
  qed
  with Cons show ?thesis by (simp add: shlex_tokens_def)
qed (simp add: shlex_tokens_def shell_join_def)

lemma drop_null_redirections_none:
  "CHR ''>'' \<notin> set s \<Longrightarrow> drop_null_redirections here s = s"
proof (induction s arbitrary: here)
  case (Cons c cs)
  have "null_redirection (c # cs) = None"
    using Cons.prems by (auto simp: null_redirection_def Let_def split: list.splits if_splits)
  with Cons show ?case by (subst drop_null_redirections.simps) simp
qed (subst drop_null_redirections.simps, simp add: null_redirection_def)

lemma strip_chars_Nil: "strip_chars p s = [] \<longleftrightarrow> list_all p s"
proof -
  have "(\<forall>x \<in> set (dropWhile p s). p x) \<longleftrightarrow> (\<forall>x \<in> set s. p x)" by (induction s) auto
  then show ?thesis by (simp add: strip_chars_def list_all_iff)
qed

definition unsafe_char :: "char \<Rightarrow> bool" where
  "unsafe_char c \<longleftrightarrow> c \<in> {CHR 0x00, CHR 0x0A, CHR 0x0D, CHR 0x60, CHR 0x24, CHR ''>''}"

lemma set_join_with: "set (join_with d ws) \<subseteq> set d \<union> (\<Union> (set (map set ws)))"
  by (induction d ws rule: join_with.induct) auto

lemma set_shell_quote: "c \<in> set (shell_quote w) \<Longrightarrow> c \<in> {CHR 0x27, CHR 0x22} \<or> c \<in> set w"
  by (auto simp: shell_quote_def split: if_splits)

lemma shell_join_safe:
  assumes "list_all (list_all (\<lambda>c. \<not> unsafe_char c)) ws"
  shows "list_all (\<lambda>c. \<not> unsafe_char c) (shell_join ws)"
  unfolding list_all_iff
proof
  fix c
  assume "c \<in> set (shell_join ws)"
  then consider "c = CHR '' ''" | w where "w \<in> set ws" "c \<in> set (shell_quote w)"
    using set_join_with [of "'' ''" "map shell_quote ws"] unfolding shell_join_def by auto
  then show "\<not> unsafe_char c"
  proof cases
    case (2 w)
    then consider "c \<in> {CHR 0x27, CHR 0x22}" | "c \<in> set w" using set_shell_quote by blast
    then show ?thesis
    proof cases
      case 2
      with assms \<open>w \<in> set ws\<close> show ?thesis by (simp add: list_all_iff)
    qed (auto simp: unsafe_char_def)
  qed (simp add: unsafe_char_def)
qed

text \<open>
  C36. Arguments survive quoting: words quoted as \<^verbatim>\<open>shlex.quote\<close> does it, quotes, operators,
  backslashes and white space inside them included, and joined with blanks are returned word for
  word, except when one of them holds a character the tokenizer refuses or the redirection sign
  it may remove.
\<close>

theorem bash_tokenize_quoted:
  assumes "ws \<noteq> []" and "list_all (list_all (\<lambda>c. \<not> unsafe_char c)) ws"
  shows "bash_tokenize (shell_join ws) = Some ws"
proof -
  have safe: "list_all (\<lambda>c. \<not> unsafe_char c) (shell_join ws)"
    using assms(2) by (rule shell_join_safe)
  then have drop: "drop_null_redirections True (shell_join ws) = shell_join ws"
    by (intro drop_null_redirections_none) (auto simp: list_all_iff unsafe_char_def)
  obtain w us where "ws = w # us" using assms(1) by (cases ws) auto
  then have "CHR 0x27 \<in> set (shell_join ws)"
    by (cases us) (simp_all add: shell_join_def shell_quote_def)
  moreover have quote: "\<not> py_space (CHR 0x27)" by code_simp
  ultimately have "py_strip (shell_join ws) \<noteq> []"
    unfolding strip_chars_Nil list_all_iff using quote by blast
  with safe show ?thesis
    by (auto simp: bash_tokenize_def Let_def drop shlex_join list_ex_iff list_all_iff unsafe_char_def)
qed

lemma bash_tokenize_quoted_witness:
  "bash_tokenize (shell_join [''rg'', ''a;b'', ''|'']) = Some [''rg'', ''a;b'', ''|'']"
  by (rule bash_tokenize_quoted) (simp_all add: unsafe_char_def)

subsection \<open>Here-documents\<close>

lemma drop_no_parent: "''..'' \<notin> set ps \<Longrightarrow> ''..'' \<notin> set (drop n ps)"
  using set_drop_subset by fastforce

text \<open>
  A file that an accepted here-document writes has a place in the workspace: a relative
  path with at least one part whose first part is none of the protected directories, and which
  does not climb out when the path as written holds no equals sign and is no option.
\<close>

theorem heredoc_target_safe:
  assumes "literal_workspace_heredoc b command = Some t"
  shows "\<exists>m target. rx_fullmatch literal_file_heredoc command = Some m \<and>
    heredoc_target b (strip_chars lex_quote (group_text m ''path'')) = Some target \<and>
    path_root target = [] \<and>
    (case path_tail target of [] \<Rightarrow> False | p # _ \<Rightarrow> p \<notin> set protected_workspace_roots) \<and>
    (let raw = strip_chars lex_quote (group_text m ''path'')
     in if CHR ''='' \<in> set raw \<or> starts_with ''-'' raw then True
        else ''..'' \<notin> set (path_tail target))"
proof -
  obtain m target where m: "rx_fullmatch literal_file_heredoc command = Some m"
    and stays: "path_stays_in_workspace b (strip_chars lex_quote (group_text m ''path''))"
    and target: "heredoc_target b (strip_chars lex_quote (group_text m ''path'')) = Some target"
    and first: "path_parts target \<noteq> []" "hd (path_parts target) \<notin> set protected_workspace_roots"
    using assms
    by (auto simp: literal_workspace_heredoc_def Let_def split: option.splits if_splits)
  let ?raw = "strip_chars lex_quote (group_text m ''path'')"
  have "path_root target = []"
    using target by (auto simp: heredoc_target_def Let_def path_below_def path_is_absolute_def
        split: option.splits if_splits)
  moreover from this first have
    "case path_tail target of [] \<Rightarrow> False | p # _ \<Rightarrow> p \<notin> set protected_workspace_roots"
    by (cases "path_tail target") (auto simp: path_parts_def)
  moreover have "''..'' \<notin> set (path_tail target)"
    if "CHR ''='' \<notin> set ?raw" "\<not> starts_with ''-'' ?raw"
    using target path_stays_plain(1) [OF stays that] drop_no_parent
    by (auto simp: heredoc_target_def Let_def path_below_def split: option.splits if_splits)
  ultimately show ?thesis using m target by (auto simp: Let_def)
qed

definition sample_heredoc :: string where
  "sample_heredoc = ''cat>x<<'' @ [CHR 0x27] @ ''E'' @ [CHR 0x27] @ newline @ ''r'' @ newline @ ''E''"

lemma heredoc_target_safe_witness:
  "\<exists>m target. rx_fullmatch literal_file_heredoc sample_heredoc = Some m \<and>
    heredoc_target sample_bash (strip_chars lex_quote (group_text m ''path'')) = Some target"
proof -
  have "literal_workspace_heredoc sample_bash sample_heredoc = Some []" by code_simp
  from heredoc_target_safe [OF this] show ?thesis by blast
qed

subsection \<open>Accepted although they leave the sandboxed workspace\<close>

text \<open>
  The path of a here-document may be any text without blanks, so the shell runs what follows an
  operator in it, and a path whose equals sign comes late is checked behind the sign only.
  A run of punctuation that is neither a separator nor rejected as a whole counts as an argument.
  A name imported under another name is not checked as \<^verbatim>\<open>Path\<close>.
\<close>

definition heredoc_runs_shell :: string where
  "heredoc_runs_shell =
     ''cat>x;sh<<'' @ [CHR 0x27] @ ''E'' @ [CHR 0x27] @ newline @ ''r'' @ newline @ ''E''"

definition heredoc_climbs_out :: string where
  "heredoc_climbs_out =
     ''cat>../x=b<<'' @ [CHR 0x27] @ ''E'' @ [CHR 0x27] @ newline @ ''r'' @ newline @ ''E''"

definition aliased_path :: py_node where
  "aliased_path =
     PyNode ''Module''
       [PyImportFrom 0 (Some ''pathlib'') [(''Path'', Some ''str'')],
        PyNode ''Expr''
          [PyCall (PyName ''print'')
             [PyCall (PyAttribute (PyCall (PyName ''str'') [PyConstStr ''/etc/passwd''] [])
                ''read_text'') [] []] []]]"

text \<open>
  The classifier accepts as low risk: a here-document whose path hands its body to a shell;
  one that writes above the workspace; a pipe into a shell with \<^verbatim>\<open>|&\<close>; a write to any file with
  \<^verbatim>\<open>>|\<close>; the contents of any file whose name holds an equals sign; and a program that reads any
  file through \<^verbatim>\<open>Path\<close> imported as \<^verbatim>\<open>str\<close>. The plain forms of these it refuses.
\<close>

theorem bash_gaps:
  "sandboxed_bash_is_low_risk sample_bash heredoc_runs_shell \<and>
   sandboxed_bash_is_low_risk sample_bash heredoc_climbs_out \<and>
   sandboxed_bash_is_low_risk sample_bash ''echo x |& sh'' \<and>
   sandboxed_bash_is_low_risk sample_bash ''echo x >| /etc/f'' \<and>
   sandboxed_bash_is_low_risk sample_bash ''cat /etc/a=b'' \<and>
   py_tree_ok sample_bash aliased_path \<and>
   \<not> sandboxed_bash_is_low_risk sample_bash ''echo x | sh'' \<and>
   \<not> sandboxed_bash_is_low_risk sample_bash ''echo x > /etc/f'' \<and>
   \<not> sandboxed_bash_is_low_risk sample_bash ''cat /etc/a''"
  by (intro conjI; code_simp)

end
