(* ===== verification/Deployment_Store.thy ===== *)
theory Deployment_Store
  imports Store_Contracts Deployment_Models
begin

section \<open>In-memory repositories of environments and deployments\<close>

text \<open>
  \<^verbatim>\<open>InMemoryEnvironmentRepository\<close> and \<^verbatim>\<open>InMemoryDeploymentRepository\<close> of
  \<^verbatim>\<open>src/src/harness/deployments/repositories.py\<close>; their locks make each call atomic. An
  environment is versioned by its revision, a deployment by its fencing token. The relations
  \<open>environment_history\<close> and \<open>deployment_history\<close> say what every sequence of calls of the
  program respects.
\<close>

subsection \<open>Environments\<close>

type_synonym environment_ref = "string \<times> string \<times> string \<times> environment_name"
type_synonym environment_repo = "(environment_ref, environment) dict"

definition environment_key :: "environment \<Rightarrow> environment_ref" where
  "environment_key e = (env_tenant_id e, env_owner_user_id e, env_agent_name e, env_name e)"

definition environment_add :: "environment \<Rightarrow> environment_repo \<Rightarrow> herror + environment_repo" where
  "environment_add e items =
     (if dict_has items (environment_key e)
      then Inl (ConflictError ''Environment already exists'')
      else Inr (dict_set (environment_key e) e items))"

definition environment_get :: "environment_repo \<Rightarrow> environment_ref \<Rightarrow> herror + environment" where
  "environment_get items k =
     (case dict_get items k of
        None \<Rightarrow> Inl (NotFoundError (''Environment not found: '' @ fst (snd (snd k)) @ ''/'' @
          environment_name_value (snd (snd (snd k)))))
      | Some e \<Rightarrow> Inr e)"

definition environment_list_for_agent ::
  "environment_repo \<Rightarrow> string \<Rightarrow> string \<Rightarrow> string \<Rightarrow> environment list" where
  "environment_list_for_agent items tenant_id owner_user_id agent_name =
     py_sorted (\<lambda>e. environment_name_value (env_name e))
       (map snd (filter (\<lambda>((t, owner, agent, _), _).
          t = tenant_id \<and> owner = owner_user_id \<and> agent = agent_name) items))"

definition environment_cas ::
  "int \<Rightarrow> environment \<Rightarrow> environment_repo \<Rightarrow> herror + (bool \<times> environment_repo)" where
  "environment_cas expected_revision updated items =
     (case dict_get items (environment_key updated) of
        None \<Rightarrow> Inr (False, items)
      | Some current \<Rightarrow>
          if env_revision current \<noteq> expected_revision then Inr (False, items)
          else if env_revision updated \<noteq> expected_revision + 1
          then Inl (ConflictError ''Environment revision must increment once'')
          else Inr (True, dict_set (environment_key updated) updated items))"

interpretation environments: keyed_store environment_add environment_get environment_key
  by unfold_locales
     (auto simp: environment_add_def environment_get_def split: if_splits option.splits)

interpretation environments: versioned_store environment_get environment_cas environment_key env_revision
  by unfold_locales
     (auto simp: environment_cas_def environment_get_def split: if_splits option.splits)

subsection \<open>Deployments and their snapshots\<close>

record deployment_repo =
  deps_snapshots :: "(string \<times> string, deployment_snapshot) dict"
  deps_items :: "(string \<times> string, deployment) dict"
  deps_idempotency :: "(string \<times> string \<times> string, string) dict"

definition deployment_repo_empty :: deployment_repo where
  "deployment_repo_empty = \<lparr>deps_snapshots = [], deps_items = [], deps_idempotency = []\<rparr>"

definition depl_snapshot_key :: "deployment_snapshot \<Rightarrow> string \<times> string" where
  "depl_snapshot_key s = (depsnap_tenant_id s, depsnap_snapshot_id s)"

definition deployment_key :: "deployment \<Rightarrow> string \<times> string" where
  "deployment_key d = (deploy_tenant_id d, deploy_deployment_id d)"

definition deployment_idem_key :: "deployment \<Rightarrow> string \<times> string \<times> string" where
  "deployment_idem_key d =
     (deploy_tenant_id d, deploy_requested_by d, deploy_idempotency_key d)"

text \<open>Pydantic's \<open>==\<close>: field by field, the configuration as a dictionary.\<close>

definition depl_snapshot_eq :: "deployment_snapshot \<Rightarrow> deployment_snapshot \<Rightarrow> bool" where
  "depl_snapshot_eq a b \<longleftrightarrow> a\<lparr>depsnap_config := []\<rparr> = b\<lparr>depsnap_config := []\<rparr> \<and>
     json_obj_eq (depsnap_config a) (depsnap_config b)"

definition depl_snapshot_add ::
  "deployment_snapshot \<Rightarrow> deployment_repo \<Rightarrow> herror + deployment_repo" where
  "depl_snapshot_add s repo =
     (case dict_get (deps_snapshots repo) (depl_snapshot_key s) of
        None \<Rightarrow> Inr (repo\<lparr>deps_snapshots := dict_set (depl_snapshot_key s) s (deps_snapshots repo)\<rparr>)
      | Some existing \<Rightarrow>
          if \<not> depl_snapshot_eq existing s then Inl (ConflictError ''Deployment Snapshot already exists'')
          else Inr (repo\<lparr>deps_snapshots := dict_set (depl_snapshot_key s) s (deps_snapshots repo)\<rparr>))"

definition depl_snapshot_get ::
  "deployment_repo \<Rightarrow> string \<Rightarrow> string \<Rightarrow> herror + deployment_snapshot" where
  "depl_snapshot_get repo tenant_id sid =
     (case dict_get (deps_snapshots repo) (tenant_id, sid) of
        None \<Rightarrow> Inl (NotFoundError (''Deployment Snapshot not found: '' @ sid))
      | Some s \<Rightarrow> Inr s)"

definition depl_snapshot_get_for_user ::
  "deployment_repo \<Rightarrow> string \<Rightarrow> string \<Rightarrow> string \<Rightarrow> herror + deployment_snapshot" where
  "depl_snapshot_get_for_user repo tenant_id owner_user_id sid =
     (case depl_snapshot_get repo tenant_id sid of
        Inl e \<Rightarrow> Inl e
      | Inr s \<Rightarrow>
          if depsnap_created_by s \<noteq> owner_user_id
          then Inl (NotFoundError (''Deployment Snapshot not found: '' @ sid))
          else Inr s)"

definition depl_snapshot_list ::
  "deployment_repo \<Rightarrow> string \<Rightarrow> string \<Rightarrow> string \<Rightarrow> deployment_snapshot list" where
  "depl_snapshot_list repo tenant_id owner_user_id agent_name =
     py_sorted_desc (\<lambda>s. (depsnap_created_at s, depsnap_snapshot_id s))
       (map snd (filter (\<lambda>((t, _), s). t = tenant_id \<and> depsnap_created_by s = owner_user_id \<and>
          depsnap_agent_name s = agent_name) (deps_snapshots repo)))"

definition deployment_add :: "deployment \<Rightarrow> deployment_repo \<Rightarrow> herror + deployment_repo" where
  "deployment_add d repo =
     (if dict_has (deps_items repo) (deployment_key d) \<or>
         dict_has (deps_idempotency repo) (deployment_idem_key d)
      then Inl (ConflictError ''Deployment already exists'')
      else Inr (repo\<lparr>deps_items := dict_set (deployment_key d) d (deps_items repo),
                     deps_idempotency := dict_set (deployment_idem_key d)
                       (deploy_deployment_id d) (deps_idempotency repo)\<rparr>))"

definition deployment_get ::
  "deployment_repo \<Rightarrow> string \<Rightarrow> string \<Rightarrow> herror + deployment" where
  "deployment_get repo tenant_id did =
     (case dict_get (deps_items repo) (tenant_id, did) of
        None \<Rightarrow> Inl (NotFoundError (''Deployment not found: '' @ did))
      | Some d \<Rightarrow> Inr d)"

definition deployment_get_for_user ::
  "deployment_repo \<Rightarrow> string \<Rightarrow> string \<Rightarrow> string \<Rightarrow> herror + deployment" where
  "deployment_get_for_user repo tenant_id owner_user_id did =
     (case deployment_get repo tenant_id did of
        Inl e \<Rightarrow> Inl e
      | Inr d \<Rightarrow>
          if deploy_requested_by d \<noteq> owner_user_id
          then Inl (NotFoundError (''Deployment not found: '' @ did))
          else Inr d)"

definition deployment_find_by_idempotency ::
  "deployment_repo \<Rightarrow> string \<Rightarrow> string \<Rightarrow> string \<Rightarrow> herror + deployment option" where
  "deployment_find_by_idempotency repo tenant_id owner_user_id key =
     (case dict_get (deps_idempotency repo) (tenant_id, owner_user_id, key) of
        None \<Rightarrow> Inr None
      | Some did \<Rightarrow>
          (case dict_get (deps_items repo) (tenant_id, did) of
             None \<Rightarrow> Inl KeyError
           | Some d \<Rightarrow> Inr (Some d)))"

definition deployment_list_for_agent ::
  "deployment_repo \<Rightarrow> string \<Rightarrow> string \<Rightarrow> string \<Rightarrow> deployment list" where
  "deployment_list_for_agent repo tenant_id owner_user_id agent_name =
     py_sorted_desc (\<lambda>d. (deploy_created_at d, deploy_deployment_id d))
       (map snd (filter (\<lambda>((t, _), d). t = tenant_id \<and> deploy_requested_by d = owner_user_id \<and>
          deploy_agent_name d = agent_name) (deps_items repo)))"

definition deployment_cas ::
  "deployment_status \<Rightarrow> deployment \<Rightarrow> deployment_repo \<Rightarrow> herror + (bool \<times> deployment_repo)" where
  "deployment_cas expected updated repo =
     (case dict_get (deps_items repo) (deployment_key updated) of
        None \<Rightarrow> Inr (False, repo)
      | Some current \<Rightarrow>
          if deploy_status current \<noteq> expected then Inr (False, repo)
          else if deploy_fencing_token updated \<noteq> deploy_fencing_token current + 1
          then Inl (ConflictError ''Deployment fencing token must increment once'')
          else Inr (True, repo\<lparr>deps_items := dict_set (deployment_key updated) updated (deps_items repo)\<rparr>))"

definition deployment_lookup :: "deployment_repo \<Rightarrow> string \<times> string \<Rightarrow> herror + deployment" where
  "deployment_lookup repo k = deployment_get repo (fst k) (snd k)"

interpretation deployments: keyed_store deployment_add deployment_lookup deployment_key
  by unfold_locales
     (auto simp: deployment_add_def deployment_lookup_def deployment_get_def deployment_key_def
       split: if_splits option.splits)

interpretation deployments: versioned_store deployment_lookup deployment_cas deployment_key
    deploy_fencing_token
  by unfold_locales
     (auto simp: deployment_cas_def deployment_lookup_def deployment_get_def deployment_key_def
       split: if_splits option.splits)

subsection \<open>What is well formed\<close>

text \<open>
  An environment serves nothing, or routes whose weights are positive, total 100 and name
  different snapshots.
\<close>

definition environment_ok :: "environment \<Rightarrow> bool" where
  "environment_ok e \<longleftrightarrow> valid_routes (env_routes e) = Inr () \<and>
     list_all (\<lambda>r. 1 \<le> route_weight r) (env_routes e)"

definition environment_repo_inv :: "environment_repo \<Rightarrow> bool" where
  "environment_repo_inv items \<longleftrightarrow>
     (\<forall>k e. dict_get items k = Some e \<longrightarrow> environment_key e = k \<and> environment_ok e)"

definition deploy_edge :: "(deployment_status \<times> deployment_status) set" where
  "deploy_edge = {(DeployQueued, DeployReconciling), (DeployReconciling, DeploySucceeded),
     (DeployReconciling, DeployFailed)}"

definition deployment_born :: "deployment \<Rightarrow> bool" where
  "deployment_born d \<longleftrightarrow> 1 \<le> deploy_canary_percent d \<and> deploy_canary_percent d \<le> 100 \<and>
     (\<exists>n. (DeployQueued, deploy_status d) \<in> deploy_edge ^^ n \<and> deploy_fencing_token d = int n)"

definition deployment_repo_inv :: "deployment_repo \<Rightarrow> bool" where
  "deployment_repo_inv repo \<longleftrightarrow>
     (\<forall>k d. dict_get (deps_items repo) k = Some d \<longrightarrow> deployment_key d = k \<and> deployment_born d \<and>
        dict_get (deps_idempotency repo) (deployment_idem_key d) = Some (deploy_deployment_id d)) \<and>
     (\<forall>ik did. dict_get (deps_idempotency repo) ik = Some did \<longrightarrow>
        (\<exists>d. dict_get (deps_items repo) (fst ik, did) = Some d \<and> deployment_idem_key d = ik)) \<and>
     (\<forall>k s. dict_get (deps_snapshots repo) k = Some s \<longrightarrow> depl_snapshot_key s = k)"

subsection \<open>What never changes\<close>

definition environment_later :: "environment \<Rightarrow> environment \<Rightarrow> bool" where
  "environment_later a b \<longleftrightarrow> environment_key b = environment_key a \<and>
     env_revision a \<le> env_revision b \<and> (env_revision a = env_revision b \<longrightarrow> b = a)"

definition environment_history :: "environment_repo \<Rightarrow> environment_repo \<Rightarrow> bool" where
  "environment_history s t \<longleftrightarrow>
     (\<forall>k a. dict_get s k = Some a \<longrightarrow> (\<exists>b. dict_get t k = Some b \<and> environment_later a b))"

text \<open>
  A deployment keeps everything but its status, token, times and error, and moves along the
  edges, counted by the token.
\<close>

definition deployment_later :: "deployment \<Rightarrow> deployment \<Rightarrow> bool" where
  "deployment_later a b \<longleftrightarrow>
     b = a\<lparr>deploy_status := deploy_status b, deploy_fencing_token := deploy_fencing_token b,
           deploy_updated_at := deploy_updated_at b, deploy_completed_at := deploy_completed_at b,
           deploy_error_code := deploy_error_code b\<rparr> \<and>
     (\<exists>n. (deploy_status a, deploy_status b) \<in> deploy_edge ^^ n \<and>
        deploy_fencing_token b = deploy_fencing_token a + int n \<and> (n = 0 \<longrightarrow> b = a))"

definition deployment_history :: "deployment_repo \<Rightarrow> deployment_repo \<Rightarrow> bool" where
  "deployment_history s t \<longleftrightarrow>
     (\<forall>k a. dict_get (deps_items s) k = Some a \<longrightarrow>
        (\<exists>b. dict_get (deps_items t) k = Some b \<and> deployment_later a b)) \<and>
     (\<forall>k a. dict_get (deps_snapshots s) k = Some a \<longrightarrow>
        (\<exists>b. dict_get (deps_snapshots t) k = Some b \<and> depl_snapshot_key b = depl_snapshot_key a))"

lemma environment_later_refl: "environment_later a a"
  by (simp add: environment_later_def)

lemma environment_later_trans:
  "environment_later a b \<Longrightarrow> environment_later b c \<Longrightarrow> environment_later a c"
  unfolding environment_later_def by (metis order_antisym order_trans)

lemma environment_history_refl: "environment_history s s"
  by (simp add: environment_history_def environment_later_refl)

lemma environment_history_trans:
  "environment_history s t \<Longrightarrow> environment_history t u \<Longrightarrow> environment_history s u"
  unfolding environment_history_def by (meson environment_later_trans)

lemma deployment_later_refl: "deployment_later a a"
  by (auto simp: deployment_later_def intro: exI [of _ 0])

lemma deployment_later_trans:
  assumes "deployment_later a b" and "deployment_later b c"
  shows "deployment_later a c"
proof -
  obtain m where m: "(deploy_status a, deploy_status b) \<in> deploy_edge ^^ m"
      "deploy_fencing_token b = deploy_fencing_token a + int m" "m = 0 \<longrightarrow> b = a"
    using assms(1) unfolding deployment_later_def by blast
  obtain n where n: "(deploy_status b, deploy_status c) \<in> deploy_edge ^^ n"
      "deploy_fencing_token c = deploy_fencing_token b + int n" "n = 0 \<longrightarrow> c = b"
    using assms(2) unfolding deployment_later_def by blast
  have "(deploy_status a, deploy_status c) \<in> deploy_edge ^^ (m + n)"
    using m(1) n(1) by (auto simp: relpow_add)
  moreover have "c = a\<lparr>deploy_status := deploy_status c, deploy_fencing_token := deploy_fencing_token c,
      deploy_updated_at := deploy_updated_at c, deploy_completed_at := deploy_completed_at c,
      deploy_error_code := deploy_error_code c\<rparr>"
    using assms unfolding deployment_later_def by (cases a; cases b; cases c) simp
  ultimately show ?thesis
    using m(2,3) n(2,3) unfolding deployment_later_def by (auto intro!: exI [of _ "m + n"])
qed

lemma deployment_history_refl: "deployment_history s s"
  by (simp add: deployment_history_def deployment_later_refl)

lemma deployment_history_trans:
  assumes "deployment_history s t" and "deployment_history t u"
  shows "deployment_history s u"
  unfolding deployment_history_def
proof (intro conjI allI impI)
  fix k a
  assume "dict_get (deps_items s) k = Some a"
  with assms obtain b c where "dict_get (deps_items u) k = Some c"
      "deployment_later a b" "deployment_later b c"
    unfolding deployment_history_def by blast
  then show "\<exists>c. dict_get (deps_items u) k = Some c \<and> deployment_later a c"
    using deployment_later_trans by blast
next
  fix k a
  assume "dict_get (deps_snapshots s) k = Some a"
  with assms(1) obtain b where b: "dict_get (deps_snapshots t) k = Some b"
      "depl_snapshot_key b = depl_snapshot_key a"
    unfolding deployment_history_def by blast
  from assms(2) b(1) obtain c where "dict_get (deps_snapshots u) k = Some c"
      "depl_snapshot_key c = depl_snapshot_key b"
    unfolding deployment_history_def by blast
  with b(2) show "\<exists>c. dict_get (deps_snapshots u) k = Some c \<and> depl_snapshot_key c = depl_snapshot_key a"
    by auto
qed

lemma deployment_later_step:
  assumes "(deploy_status a, s) \<in> deploy_edge"
  shows "deployment_later a (a\<lparr>deploy_status := s, deploy_fencing_token := deploy_fencing_token a + 1,
    deploy_updated_at := u, deploy_completed_at := c, deploy_error_code := e\<rparr>)"
  unfolding deployment_later_def by (intro conjI exI [of _ 1]) (simp_all add: assms)

lemma deploy_edge_source: "(s, t) \<in> deploy_edge \<Longrightarrow> \<not> deployment_is_terminal s"
  by (auto simp: deployment_is_terminal_def deploy_edge_def)

lemma deploy_edge_terminal:
  assumes "deployment_is_terminal s" and "(s, t) \<in> deploy_edge ^^ n"
  shows "n = 0 \<and> t = s"
proof (cases n)
  case (Suc m)
  with assms(2) obtain u where "(s, u) \<in> deploy_edge" by (blast dest: relpow_Suc_D2)
  with assms(1) show ?thesis by (auto dest: deploy_edge_source)
qed (use assms(2) in simp)

lemma deployment_later_terminal:
  "deployment_later a b \<Longrightarrow> deployment_is_terminal (deploy_status a) \<Longrightarrow> b = a"
  unfolding deployment_later_def by (metis deploy_edge_terminal)

lemma deployment_born_later: "deployment_born a \<Longrightarrow> deployment_later a b \<Longrightarrow> deployment_born b"
proof -
  assume born: "deployment_born a" and later: "deployment_later a b"
  obtain m where m: "(DeployQueued, deploy_status a) \<in> deploy_edge ^^ m"
      "deploy_fencing_token a = int m"
    using born unfolding deployment_born_def by blast
  obtain n where n: "(deploy_status a, deploy_status b) \<in> deploy_edge ^^ n"
      "deploy_fencing_token b = deploy_fencing_token a + int n"
    using later unfolding deployment_later_def by blast
  have "(DeployQueued, deploy_status b) \<in> deploy_edge ^^ (m + n)"
    using m(1) n(1) by (auto simp: relpow_add)
  moreover have "deploy_canary_percent b = deploy_canary_percent a"
    using later unfolding deployment_later_def by (cases a; cases b) simp
  ultimately show "deployment_born b"
    using born m(2) n(2) unfolding deployment_born_def by (auto intro!: exI [of _ "m + n"])
qed

lemma deployment_later_key:
  "deployment_later a b \<Longrightarrow> deployment_key b = deployment_key a \<and>
   deployment_idem_key b = deployment_idem_key a \<and> deploy_deployment_id b = deploy_deployment_id a"
  unfolding deployment_later_def deployment_key_def deployment_idem_key_def
  by (cases a; cases b) simp

end
