(* ===== verification/Deployment_Controller.thy ===== *)
theory Deployment_Controller
  imports Deployment_Store Guarantee Quota_Admission
begin

section \<open>The deployment controller\<close>

text \<open>
  \<^verbatim>\<open>src/src/harness/deployments/controller.py\<close> and \<^verbatim>\<open>queue.py\<close>. The state is the record
  \<open>deploy_world\<close>: the two repositories, the queue of deployment tasks, the agent registry and,
  in \<open>dw_base\<close>, the state the other services share (clock, ids and quota books are used here).
  \<open>dd_others n\<close> is what everything else does at the n-th await of a handler. What is not part of
  the program is a parameter: \<open>dd_deploy\<close> is the hook that rolls a snapshot out, and the
  reviewed catalog, the gates and the hashes that the service asks for.
\<close>

record execution_profile =
  profile_id :: string
  profile_sandbox_provider :: string
  profile_network_access :: "network_access list"
  profile_network_policy_id :: string
  profile_allowed_mcp_references :: "string list"
  profile_production_allowed :: bool
  profile_version :: int
  profile_enabled :: bool

record capability_catalog_record =
  catalog_revision :: int
  catalog_execution_profiles :: "execution_profile list"
  catalog_model_routes :: "(string \<times> bool) list"
  catalog_mcp_servers :: "(string \<times> bool) list"

record promotion_gate =
  gate_passed :: bool
  gate_required_datasets :: int

record preview_state =
  preview_stale :: bool
  preview_status :: string
  preview_package_hash :: string

record deploy_world =
  dw_environments :: environment_repo
  dw_deployments :: deployment_repo
  dw_queue :: task_queue
  dw_registry :: agent_registry
  dw_base :: world
  dw_awaits :: nat

text \<open>
  The ports to the outside answer at an await; the serial number of the await is their first
  argument, so their answers may change over time. An optional port that is not configured is
  \<open>None\<close>. \<open>dd_quotas\<close> says whether a quota service is configured.
\<close>

record deploy_deps =
  dd_base :: deps
  dd_others :: "nat \<Rightarrow> deploy_world \<Rightarrow> deploy_world"
  dd_deploy :: "nat \<Rightarrow> deployment_snapshot \<Rightarrow> herror + unit"
  dd_catalog :: "nat \<Rightarrow> string \<Rightarrow> herror + capability_catalog_record"
  dd_execution_profile :: "(nat \<Rightarrow> string \<Rightarrow> string \<Rightarrow> herror + execution_profile) option"
  dd_validate_knowledge :: "(nat \<Rightarrow> string \<Rightarrow> string list \<Rightarrow> herror + unit) option"
  dd_eval_gate :: "nat \<Rightarrow> string \<Rightarrow> string \<Rightarrow> string \<Rightarrow> string \<Rightarrow> herror + promotion_gate"
  dd_quality_gate :: "(nat \<Rightarrow> string \<Rightarrow> string \<Rightarrow> string \<Rightarrow> string \<Rightarrow> herror + unit) option"
  dd_previews :: "(nat \<Rightarrow> string \<Rightarrow> string \<Rightarrow> string \<Rightarrow> herror + preview_state) option"
  dd_quotas :: bool
  dd_requirements :: "json_obj \<Rightarrow> agent_requirements option"
  dd_policy_hash :: "environment_resource_policy \<Rightarrow> string"
  dd_profile_hash :: "execution_profile \<Rightarrow> string"
  dd_routing_number :: "string \<Rightarrow> nat"

type_synonym 'a dhandler = "(deploy_world, herror, 'a) prog"

definition in_base :: "'a handler \<Rightarrow> 'a dhandler" where
  "in_base m w = (case m (dw_base w) of (r, b) \<Rightarrow> (r, w\<lparr>dw_base := b\<rparr>))"

definition dclock :: "deploy_deps \<Rightarrow> time dhandler" where
  "dclock d = in_base (clock (dd_base d))"

definition dsuspended :: "deploy_deps \<Rightarrow> deploy_world \<Rightarrow> deploy_world" where
  "dsuspended d w = (dd_others d (dw_awaits w) w)\<lparr>dw_awaits := Suc (dw_awaits w)\<rparr>"

definition dawait :: "deploy_deps \<Rightarrow> 'a dhandler \<Rightarrow> 'a dhandler" where
  "dawait d m w = m (dsuspended d w)"

definition dask :: "(deploy_world \<Rightarrow> herror + 'a) \<Rightarrow> 'a dhandler" where
  "dask f w = (f w, w)"

definition external :: "(nat \<Rightarrow> herror + 'a) \<Rightarrow> 'a dhandler" where
  "external f = dask (\<lambda>w. f (dw_awaits w))"

definition environments_add :: "environment \<Rightarrow> unit dhandler" where
  "environments_add e w = (case environment_add e (dw_environments w) of
     Inl x \<Rightarrow> (Inl x, w) | Inr t \<Rightarrow> (Inr (), w\<lparr>dw_environments := t\<rparr>))"

definition environments_get :: "environment_ref \<Rightarrow> environment dhandler" where
  "environments_get k = dask (\<lambda>w. environment_get (dw_environments w) k)"

definition environments_cas :: "int \<Rightarrow> environment \<Rightarrow> bool dhandler" where
  "environments_cas expected updated w =
     (case environment_cas expected updated (dw_environments w) of
        Inl x \<Rightarrow> (Inl x, w) | Inr (b, t) \<Rightarrow> (Inr b, w\<lparr>dw_environments := t\<rparr>))"

definition snapshots_add :: "deployment_snapshot \<Rightarrow> unit dhandler" where
  "snapshots_add s w = (case depl_snapshot_add s (dw_deployments w) of
     Inl x \<Rightarrow> (Inl x, w) | Inr t \<Rightarrow> (Inr (), w\<lparr>dw_deployments := t\<rparr>))"

definition snapshots_get :: "string \<Rightarrow> string \<Rightarrow> deployment_snapshot dhandler" where
  "snapshots_get tenant_id sid = dask (\<lambda>w. depl_snapshot_get (dw_deployments w) tenant_id sid)"

definition snapshots_get_for_user ::
  "string \<Rightarrow> string \<Rightarrow> string \<Rightarrow> deployment_snapshot dhandler" where
  "snapshots_get_for_user tenant_id user sid =
     dask (\<lambda>w. depl_snapshot_get_for_user (dw_deployments w) tenant_id user sid)"

definition deployments_add :: "deployment \<Rightarrow> unit dhandler" where
  "deployments_add x w = (case deployment_add x (dw_deployments w) of
     Inl e \<Rightarrow> (Inl e, w) | Inr t \<Rightarrow> (Inr (), w\<lparr>dw_deployments := t\<rparr>))"

definition deployments_get :: "string \<Rightarrow> string \<Rightarrow> deployment dhandler" where
  "deployments_get tenant_id did = dask (\<lambda>w. deployment_get (dw_deployments w) tenant_id did)"

definition deployments_cas :: "deployment_status \<Rightarrow> deployment \<Rightarrow> bool dhandler" where
  "deployments_cas expected updated w =
     (case deployment_cas expected updated (dw_deployments w) of
        Inl x \<Rightarrow> (Inl x, w) | Inr (b, t) \<Rightarrow> (Inr b, w\<lparr>dw_deployments := t\<rparr>))"

subsection \<open>The queue of deployment tasks\<close>

record deployment_task =
  deptask_tenant_id :: string
  deptask_deployment_id :: string

definition raw_task :: "deployment_task \<Rightarrow> run_task" where
  "raw_task t = \<lparr>task_tenant_id = deptask_tenant_id t, task_run_id = deptask_deployment_id t,
     task_session_id = None\<rparr>"

definition deployment_enqueue :: "deployment_task \<Rightarrow> unit dhandler" where
  "deployment_enqueue t = modifyP (\<lambda>w. w\<lparr>dw_queue := queue_enqueue (raw_task t) (dw_queue w)\<rparr>)"

definition deployment_dequeue :: "deployment_task option dhandler" where
  "deployment_dequeue w =
     (case queue_dequeue (dw_queue w) of
        (task, q) \<Rightarrow>
          (Inr (map_option (\<lambda>t. \<lparr>deptask_tenant_id = task_tenant_id t,
             deptask_deployment_id = task_run_id t\<rparr>) task), w\<lparr>dw_queue := q\<rparr>))"

definition deployment_acknowledge :: "deployment_task \<Rightarrow> unit dhandler" where
  "deployment_acknowledge t =
     modifyP (\<lambda>w. w\<lparr>dw_queue := queue_acknowledge (raw_task t) (dw_queue w)\<rparr>)"

definition deployment_retry :: "deployment_task \<Rightarrow> unit dhandler" where
  "deployment_retry t = modifyP (\<lambda>w. w\<lparr>dw_queue := queue_retry (raw_task t) (dw_queue w)\<rparr>)"

subsection \<open>Reconciling one deployment\<close>

definition completed_time :: "deploy_deps \<Rightarrow> deployment_status \<Rightarrow> time option dhandler" where
  "completed_time d status =
     (if deployment_is_terminal status then bindP (dclock d) (\<lambda>t. ret (Some t)) else ret None)"

definition move_deployment ::
  "deploy_deps \<Rightarrow> deployment \<Rightarrow> deployment_status \<Rightarrow> string option \<Rightarrow> deployment dhandler" where
  "move_deployment d current status error_code =
     bindP (dclock d) (\<lambda>now.
     bindP (completed_time d status) (\<lambda>completed.
       let updated = current\<lparr>deploy_status := status,
             deploy_fencing_token := deploy_fencing_token current + 1,
             deploy_updated_at := now, deploy_completed_at := completed,
             deploy_error_code := error_code\<rparr>
       in bindP (dawait d (deployments_cas (deploy_status current) updated)) (\<lambda>won.
            if \<not> won
            then dawait d (deployments_get (deploy_tenant_id current) (deploy_deployment_id current))
            else ret updated)))"

text \<open>The routes and the healthy version of an environment after a deployment.\<close>

definition full_route :: "deployment_snapshot \<Rightarrow> deployment_route list" where
  "full_route s = [\<lparr>route_snapshot_id = depsnap_snapshot_id s, route_weight = 100\<rparr>]"

definition canary_routes :: "string \<Rightarrow> deployment_snapshot \<Rightarrow> int \<Rightarrow> deployment_route list" where
  "canary_routes healthy s percent =
     (if healthy = depsnap_snapshot_id s then full_route s
      else [\<lparr>route_snapshot_id = healthy, route_weight = 100 - percent\<rparr>,
            \<lparr>route_snapshot_id = depsnap_snapshot_id s, route_weight = percent\<rparr>])"

definition switch_environment ::
  "deploy_deps \<Rightarrow> deployment \<Rightarrow> environment \<Rightarrow> deployment_route list \<Rightarrow> string \<Rightarrow>
   deployment dhandler" where
  "switch_environment d current e routes healthy =
     bindP (dclock d) (\<lambda>now.
       let updated = e\<lparr>env_revision := env_revision e + 1, env_routes := routes,
             env_healthy_snapshot_id := Some healthy, env_updated_at := now\<rparr>
       in bindP (dawait d (environments_cas (env_revision e) updated)) (\<lambda>won.
            if \<not> won
            then move_deployment d current DeployFailed (Some ''environment_revision_conflict'')
            else move_deployment d current DeploySucceeded None))"

definition reconcile_environment ::
  "deploy_deps \<Rightarrow> deployment \<Rightarrow> deployment_snapshot \<Rightarrow> deployment dhandler" where
  "reconcile_environment d current snapshot =
     bindP (dawait d (environments_get (deploy_tenant_id current, deploy_requested_by current,
       deploy_agent_name current, deploy_environment current))) (\<lambda>e.
       if env_revision e \<noteq> deploy_expected_environment_revision current
       then move_deployment d current DeployFailed (Some ''environment_revision_conflict'')
       else
         thenP (dawait d (external (\<lambda>n. dd_deploy d n snapshot)))
           (if deploy_canary_percent current < 100 then
              (case env_healthy_snapshot_id e of
                 None \<Rightarrow> move_deployment d current DeployFailed
                   (Some ''canary_requires_healthy_version'')
               | Some healthy \<Rightarrow>
                   switch_environment d current e
                     (canary_routes healthy snapshot (deploy_canary_percent current)) healthy)
            else
              switch_environment d current e (full_route snapshot)
                (depsnap_snapshot_id snapshot)))"

definition reconcile :: "deploy_deps \<Rightarrow> string \<Rightarrow> string \<Rightarrow> deployment dhandler" where
  "reconcile d tenant_id did =
     bindP (dawait d (deployments_get tenant_id did)) (\<lambda>current.
       if deployment_is_terminal (deploy_status current) then ret current
       else if deploy_status current = DeployQueued
       then move_deployment d current DeployReconciling None
       else
         bindP (dawait d (snapshots_get tenant_id (deploy_target_snapshot_id current))) (\<lambda>snapshot.
           catchP (reconcile_environment d current snapshot)
             (\<lambda>_. move_deployment d current DeployFailed (Some ''deployment_reconcile_failed''))))"

definition process_once :: "deploy_deps \<Rightarrow> deployment option dhandler" where
  "process_once d =
     bindP (dawait d deployment_dequeue) (\<lambda>task.
       case task of
         None \<Rightarrow> ret None
       | Some t \<Rightarrow>
           bindP (catchP (reconcile d (deptask_tenant_id t) (deptask_deployment_id t))
             (\<lambda>e. thenP (dawait d (deployment_retry t)) (raise e))) (\<lambda>result.
             thenP (if deployment_is_terminal (deploy_status result)
                then dawait d (deployment_acknowledge t) else dawait d (deployment_retry t))
               (ret (Some result))))"

fun drain_locally :: "deploy_deps \<Rightarrow> string \<Rightarrow> string \<Rightarrow> nat \<Rightarrow> deployment dhandler" where
  "drain_locally d tenant_id did 0 =
     raise (TimeoutError ''local Deployment auto-execution did not converge'')"
| "drain_locally d tenant_id did (Suc max_steps) =
     bindP (process_once d) (\<lambda>_.
     bindP (dawait d (deployments_get tenant_id did)) (\<lambda>current.
       if deployment_is_terminal (deploy_status current) then ret current
       else drain_locally d tenant_id did max_steps))"

subsection \<open>The protocol\<close>

text \<open>
  Facts: versions of deployments and environments that were read, and what the base knows. The
  protocol extends the one of the shared services.
\<close>

datatype deploy_fact = KnowsDeployment deployment | KnowsEnvironment environment | KnowsBase fact

fun deploy_knows :: "deploy_world \<Rightarrow> deploy_fact \<Rightarrow> bool" where
  "deploy_knows w (KnowsDeployment a) =
     (deployment_born a \<and>
      (case dict_get (deps_items (dw_deployments w)) (deployment_key a) of
         None \<Rightarrow> False | Some b \<Rightarrow> deployment_later a b))"
| "deploy_knows w (KnowsEnvironment a) =
     (environment_ok a \<and>
      (case dict_get (dw_environments w) (environment_key a) of
         None \<Rightarrow> False | Some b \<Rightarrow> environment_later a b))"
| "deploy_knows w (KnowsBase f) = holds (dw_base w) f"

definition deploy_sound :: "deps \<Rightarrow> deploy_world \<Rightarrow> bool" where
  "deploy_sound b w \<longleftrightarrow> environment_repo_inv (dw_environments w) \<and>
     deployment_repo_inv (dw_deployments w) \<and> world_sound b (dw_base w)"

definition deploy_sys :: "deps \<Rightarrow> deploy_world \<Rightarrow> deploy_world \<Rightarrow> bool" where
  "deploy_sys b s t \<longleftrightarrow> environment_history (dw_environments s) (dw_environments t) \<and>
     deployment_history (dw_deployments s) (dw_deployments t) \<and> sys b (dw_base s) (dw_base t) \<and>
     (deploy_sound b s \<longrightarrow> deploy_sound b t)"

lemma deploy_sysI:
  assumes "environment_history (dw_environments s) (dw_environments t)"
    and "deployment_history (dw_deployments s) (dw_deployments t)"
    and "sys b (dw_base s) (dw_base t)" and "deploy_sound b s \<Longrightarrow> deploy_sound b t"
  shows "deploy_sys b s t"
  using assms unfolding deploy_sys_def by blast

lemma deploy_sysD:
  assumes "deploy_sys b s t"
  shows "environment_history (dw_environments s) (dw_environments t)"
    and "deployment_history (dw_deployments s) (dw_deployments t)"
    and "sys b (dw_base s) (dw_base t)" and "deploy_sound b s \<Longrightarrow> deploy_sound b t"
  using assms unfolding deploy_sys_def by blast+

lemma deployment_historyD:
  "deployment_history s t \<Longrightarrow> dict_get (deps_items s) k = Some a \<Longrightarrow>
   \<exists>b. dict_get (deps_items t) k = Some b \<and> deployment_later a b"
  unfolding deployment_history_def by blast

lemma environment_historyD:
  "environment_history s t \<Longrightarrow> dict_get s k = Some a \<Longrightarrow>
   \<exists>b. dict_get t k = Some b \<and> environment_later a b"
  unfolding environment_history_def by blast

interpretation deploy: protocol "deploy_sound b" "deploy_sys b" deploy_knows for b :: deps
proof unfold_locales
  show "deploy_sys b s s" for s
    by (rule deploy_sysI)
       (simp_all add: environment_history_refl deployment_history_refl sys.R_refl)
  show "deploy_sys b s u" if "deploy_sys b s t" "deploy_sys b t u" for s t u
    by (rule deploy_sysI)
       (use deploy_sysD [OF that(1)] deploy_sysD [OF that(2)] in
         \<open>blast intro: environment_history_trans deployment_history_trans sys.R_trans\<close>)+
  show "deploy_sound b t" if "deploy_sys b s t" "deploy_sound b s" for s t
    using that by (rule deploy_sysD)
  show "deploy_knows t f" if st: "deploy_sys b s t" and s: "deploy_knows s f" for s t f
  proof (cases f)
    case (KnowsDeployment a)
    with s deployment_historyD [OF deploy_sysD(2) [OF st]] show ?thesis
      by (fastforce split: option.splits intro: deployment_later_trans)
  next
    case (KnowsEnvironment a)
    with s environment_historyD [OF deploy_sysD(1) [OF st]] show ?thesis
      by (fastforce split: option.splits intro: environment_later_trans)
  next
    case (KnowsBase g)
    with s holds_stable [OF deploy_sysD(3) [OF st]] show ?thesis by simp
  qed
qed

end
