(* ===== verification/Deployment_Guarantees.thy ===== *)
theory Deployment_Guarantees
  imports Deployment_Controller
begin

section \<open>The deployment controller keeps the protocol\<close>

text \<open>
  Each call to a port respects \<open>deploy_sys\<close>, so do the operations of the controller, however
  other controllers and services interfere at every await. \<open>deploy_rely\<close> is what they expect
  of the others.
\<close>

definition deploy_rely :: "deploy_deps \<Rightarrow> bool" where
  "deploy_rely d \<longleftrightarrow> rely (dd_base d) \<and>
     (\<forall>n w. deploy_sound (dd_base d) w \<longrightarrow> deploy_sys (dd_base d) w (dd_others d n w))"

lemma deploy_relyD: "deploy_rely d \<Longrightarrow> rely (dd_base d)"
  by (simp add: deploy_rely_def)

lemma deploy_sys_rest:
  assumes "dw_environments t = dw_environments s" and "dw_deployments t = dw_deployments s"
    and "sys b (dw_base s) (dw_base t)"
  shows "deploy_sys b s t"
  by (rule deploy_sysI)
     (use assms sys_ownD(5) [OF assms(3)] in
       \<open>auto simp: environment_history_refl deployment_history_refl deploy_sound_def\<close>)

lemma deploy_sys_same:
  "dw_environments t = dw_environments s \<Longrightarrow> dw_deployments t = dw_deployments s \<Longrightarrow>
   dw_base t = dw_base s \<Longrightarrow> deploy_sys b s t"
  by (rule deploy_sys_rest) (simp_all add: sys.R_refl)

lemma keeps_dask [keeps_intros]: "deploy.keeps b K (dask f)"
  by (rule deploy.keeps_same) (simp add: dask_def deploy.sys_refl)

lemma keeps_external [keeps_intros]: "deploy.keeps b K (external f)"
  unfolding external_def by (rule keeps_dask)

lemma keeps_in_base:
  assumes "upholds b F {} m" and "KnowsBase ` F \<subseteq> K"
  shows "deploy.keeps b K (in_base m)"
proof (rule deploy.keepsI)
  fix w r t
  assume w: "deploy_sound b w" and K: "\<And>f. f \<in> K \<Longrightarrow> deploy_knows w f" and run: "in_base m w = (r, t)"
  obtain c where c: "m (dw_base w) = (r, c)" "t = w\<lparr>dw_base := c\<rparr>"
    using run by (auto simp: in_base_def split: prod.splits)
  have "holds (dw_base w) f" if "f \<in> F" for f
    using K [of "KnowsBase f"] assms(2) that by auto
  then have "sys b (dw_base w) c"
    using upholdsD [OF assms(1) _ _ _ c(1)] w by (simp add: deploy_sound_def)
  then show "deploy_sys b w t" by (intro deploy_sys_rest) (simp_all add: c(2))
qed

lemma keeps_dclock [keeps_intros]: "deploy.keeps b K (dclock d)"
  unfolding dclock_def by (rule keeps_in_base [where F = "{}"]) (simp_all add: upholds_clock)

lemma keeps_dawait [keeps_intros]:
  assumes r: "deploy_rely d" and m: "deploy.keeps (dd_base d) K m"
  shows "deploy.keeps (dd_base d) K (dawait d m)"
proof -
  have "deploy_sys (dd_base d) w (dsuspended d w)" if "deploy_sound (dd_base d) w" for w
  proof -
    have "deploy_sys (dd_base d) w (dd_others d (dw_awaits w) w)"
      using r that by (simp add: deploy_rely_def)
    moreover have "deploy_sys (dd_base d) (dd_others d (dw_awaits w) w) (dsuspended d w)"
      by (rule deploy_sys_same) (simp_all add: dsuspended_def)
    ultimately show ?thesis by (rule deploy.sys_trans)
  qed
  from deploy.keeps_after [OF this m] show ?thesis by (simp add: dawait_def [abs_def])
qed

lemma dsuspended_sound:
  assumes "deploy_rely d" and "deploy_sound (dd_base d) w"
  shows "deploy_sound (dd_base d) (dsuspended d w)"
proof -
  have "deploy_sound (dd_base d) (dd_others d (dw_awaits w) w)"
    using assms unfolding deploy_rely_def by (blast dest: deploy_sysD(4))
  then show ?thesis by (simp add: deploy_sound_def dsuspended_def)
qed

lemma keeps_queue [keeps_intros]:
  "deploy.keeps b K (deployment_enqueue t)" "deploy.keeps b K deployment_dequeue"
  "deploy.keeps b K (deployment_acknowledge t)" "deploy.keeps b K (deployment_retry t)"
  by (rule deploy.keeps_same, rule deploy_sys_same;
      simp add: deployment_enqueue_def deployment_dequeue_def deployment_acknowledge_def
        deployment_retry_def split: prod.split)+

subsection \<open>Reading\<close>

lemma keeps_bind_deployments_get [keeps_intros]:
  assumes r: "deploy_rely d" and f: "\<And>x. deploy.keeps (dd_base d) (insert (KnowsDeployment x) K) (f x)"
  shows "deploy.keeps (dd_base d) K (bindP (dawait d (deployments_get tn did)) f)"
proof (rule deploy.keeps_bind_learn [where L = "\<lambda>x. {KnowsDeployment x}"])
  fix w x t g
  assume w: "deploy_sound (dd_base d) w" and run: "dawait d (deployments_get tn did) w = (Inr x, t)"
    and g: "g \<in> {KnowsDeployment x}"
  have t: "t = dsuspended d w" and x: "dict_get (deps_items (dw_deployments t)) (tn, did) = Some x"
    using run by (auto simp: dawait_def deployments_get_def dask_def deployment_get_def
        split: option.splits)
  have "deployment_repo_inv (dw_deployments t)"
    using dsuspended_sound [OF r w] t by (simp add: deploy_sound_def)
  with x have "deployment_key x = (tn, did)" "deployment_born x"
    unfolding deployment_repo_inv_def by blast+
  with x g show "deploy_knows t g" by (simp add: deployment_later_refl)
qed (use f keeps_dawait [OF r keeps_dask] in \<open>simp_all add: deployments_get_def\<close>)

lemma keeps_bind_environments_get [keeps_intros]:
  assumes r: "deploy_rely d" and f: "\<And>x. deploy.keeps (dd_base d) (insert (KnowsEnvironment x) K) (f x)"
  shows "deploy.keeps (dd_base d) K (bindP (dawait d (environments_get k)) f)"
proof (rule deploy.keeps_bind_learn [where L = "\<lambda>x. {KnowsEnvironment x}"])
  fix w x t g
  assume w: "deploy_sound (dd_base d) w" and run: "dawait d (environments_get k) w = (Inr x, t)"
    and g: "g \<in> {KnowsEnvironment x}"
  have t: "t = dsuspended d w" and x: "dict_get (dw_environments t) k = Some x"
    using run by (auto simp: dawait_def environments_get_def dask_def environment_get_def
        split: option.splits)
  have "environment_repo_inv (dw_environments t)"
    using dsuspended_sound [OF r w] t by (simp add: deploy_sound_def)
  with x have "environment_key x = k" "environment_ok x"
    unfolding environment_repo_inv_def by blast+
  with x g show "deploy_knows t g" by (simp add: environment_later_refl)
qed (use f keeps_dawait [OF r keeps_dask] in \<open>simp_all add: environments_get_def\<close>)

subsection \<open>Writing\<close>

lemma deployment_repo_inv_set:
  assumes inv: "deployment_repo_inv repo" and old: "dict_get (deps_items repo) k = Some c"
    and new: "deployment_later c u"
  shows "deployment_repo_inv (repo\<lparr>deps_items := dict_set k u (deps_items repo)\<rparr>)"
    and "deployment_history repo (repo\<lparr>deps_items := dict_set k u (deps_items repo)\<rparr>)"
proof -
  have c: "deployment_key c = k" "deployment_born c"
      "dict_get (deps_idempotency repo) (deployment_idem_key c) = Some (deploy_deployment_id c)"
    using inv old unfolding deployment_repo_inv_def by blast+
  have u: "deployment_key u = k" "deployment_born u" "deployment_idem_key u = deployment_idem_key c"
      "deploy_deployment_id u = deploy_deployment_id c"
    using c deployment_later_key [OF new] deployment_born_later [OF c(2) new] by simp_all
  have sel: "deps_items (repo\<lparr>deps_items := dict_set k u (deps_items repo)\<rparr>) = dict_set k u (deps_items repo)"
    "deps_idempotency (repo\<lparr>deps_items := dict_set k u (deps_items repo)\<rparr>) = deps_idempotency repo"
    "deps_snapshots (repo\<lparr>deps_items := dict_set k u (deps_items repo)\<rparr>) = deps_snapshots repo"
    by simp_all
  have idem: "\<exists>d. dict_get (dict_set k u (deps_items repo)) (fst ik, did) = Some d \<and>
      deployment_idem_key d = ik" if ik: "dict_get (deps_idempotency repo) ik = Some did" for ik did
  proof -
    obtain d where d: "dict_get (deps_items repo) (fst ik, did) = Some d" "deployment_idem_key d = ik"
      using inv ik unfolding deployment_repo_inv_def by blast
    then show ?thesis using old u(3) by (cases "(fst ik, did) = k") auto
  qed
  have stored: "deployment_key x = j \<and> deployment_born x \<and>
      dict_get (deps_idempotency repo) (deployment_idem_key x) = Some (deploy_deployment_id x)"
    if "dict_get (dict_set k u (deps_items repo)) j = Some x" for j x
  proof (cases "j = k")
    case True
    with that u c(3) show ?thesis by simp
  next
    case False
    with that have "dict_get (deps_items repo) j = Some x" by simp
    with inv show ?thesis unfolding deployment_repo_inv_def by blast
  qed
  have "depl_snapshot_key s = j" if "dict_get (deps_snapshots repo) j = Some s" for j s
    using inv that unfolding deployment_repo_inv_def by blast
  then show "deployment_repo_inv (repo\<lparr>deps_items := dict_set k u (deps_items repo)\<rparr>)"
    unfolding deployment_repo_inv_def sel using stored idem by blast
  show "deployment_history repo (repo\<lparr>deps_items := dict_set k u (deps_items repo)\<rparr>)"
    unfolding deployment_history_def using old new by (auto simp: deployment_later_refl)
qed

lemma deploy_sys_deployments:
  assumes "deployment_repo_inv (dw_deployments w) \<Longrightarrow>
    deployment_repo_inv t \<and> deployment_history (dw_deployments w) t" and "deploy_sound b w"
  shows "deploy_sys b w (w\<lparr>dw_deployments := t\<rparr>)"
  by (rule deploy_sysI)
     (use assms in \<open>auto simp: deploy_sound_def environment_history_refl sys.R_refl\<close>)

lemma deploy_sys_environments:
  assumes "environment_repo_inv (dw_environments w) \<Longrightarrow>
    environment_repo_inv t \<and> environment_history (dw_environments w) t" and "deploy_sound b w"
  shows "deploy_sys b w (w\<lparr>dw_environments := t\<rparr>)"
  by (rule deploy_sysI)
     (use assms in \<open>auto simp: deploy_sound_def deployment_history_refl sys.R_refl\<close>)

lemma keeps_deployments_cas:
  assumes known: "KnowsDeployment a \<in> K" and later: "deployment_later a u"
    and token: "deploy_fencing_token u = deploy_fencing_token a + 1"
  shows "deploy.keeps b K (deployments_cas (deploy_status a) u)"
proof (rule deploy.keepsI)
  fix w r t
  assume w: "deploy_sound b w" and K: "\<And>f. f \<in> K \<Longrightarrow> deploy_knows w f"
    and run: "deployments_cas (deploy_status a) u w = (r, t)"
  have key: "deployment_key u = deployment_key a" using deployment_later_key [OF later] by simp
  obtain c where c: "dict_get (deps_items (dw_deployments w)) (deployment_key a) = Some c"
      "deployment_later a c"
    using K [OF known] by (auto split: option.splits)
  consider "t = w"
    | "deploy_fencing_token c = deploy_fencing_token a"
      "t = w\<lparr>dw_deployments := (dw_deployments w)\<lparr>deps_items :=
         dict_set (deployment_key a) u (deps_items (dw_deployments w))\<rparr>\<rparr>"
    using run c(1) token by (auto simp: deployments_cas_def deployment_cas_def key split: if_splits)
  then show "deploy_sys b w t"
  proof cases
    case 2
    obtain n where "deploy_fencing_token c = deploy_fencing_token a + int n" "n = 0 \<longrightarrow> c = a"
      using c(2) unfolding deployment_later_def by blast
    with 2(1) have "c = a" by simp
    then show ?thesis
      unfolding 2(2) using deployment_repo_inv_set [OF _ c(1)] later w
      by (intro deploy_sys_deployments) auto
  qed (simp add: deploy.sys_refl)
qed

lemma keeps_environments_cas:
  assumes "environment_ok u" and "env_revision u = n + 1"
  shows "deploy.keeps b K (environments_cas n u)"
proof (rule deploy.keepsI)
  fix w r t
  assume w: "deploy_sound b w" and run: "environments_cas n u w = (r, t)"
  consider "t = w"
    | c where "dict_get (dw_environments w) (environment_key u) = Some c" "env_revision c = n"
      "t = w\<lparr>dw_environments := dict_set (environment_key u) u (dw_environments w)\<rparr>"
    using run by (auto simp: environments_cas_def environment_cas_def split: option.splits if_splits)
  then show "deploy_sys b w t"
  proof cases
    case (2 c)
    have inv: "environment_repo_inv (dw_environments w)" using w by (simp add: deploy_sound_def)
    then have "environment_key c = environment_key u"
      using 2(1) unfolding environment_repo_inv_def by blast
    then have "environment_later c u" using 2(2) assms(2) by (simp add: environment_later_def)
    then have "environment_history (dw_environments w)
        (dict_set (environment_key u) u (dw_environments w))"
      using 2(1) by (auto simp: environment_history_def environment_later_refl)
    moreover have "environment_repo_inv (dict_set (environment_key u) u (dw_environments w))"
      using inv assms(1) by (auto simp: environment_repo_inv_def split: if_splits)
    ultimately show ?thesis
      unfolding 2(3) using w by (intro deploy_sys_environments) auto
  qed (simp add: deploy.sys_refl)
qed

lemma keeps_environments_add:
  assumes "environment_ok e"
  shows "deploy.keeps b K (environments_add e)"
proof (rule deploy.keepsI)
  fix w r t
  assume w: "deploy_sound b w" and run: "environments_add e w = (r, t)"
  consider "t = w"
    | "dict_get (dw_environments w) (environment_key e) = None"
      "t = w\<lparr>dw_environments := dict_set (environment_key e) e (dw_environments w)\<rparr>"
    using run by (auto simp: environments_add_def environment_add_def split: if_splits)
  then show "deploy_sys b w t"
  proof cases
    case 2
    have inv: "environment_repo_inv (dw_environments w)" using w by (simp add: deploy_sound_def)
    have "environment_history (dw_environments w)
        (dict_set (environment_key e) e (dw_environments w))"
      using 2(1) by (auto simp: environment_history_def environment_later_refl)
    moreover have "environment_repo_inv (dict_set (environment_key e) e (dw_environments w))"
      using inv assms(1) by (auto simp: environment_repo_inv_def split: if_splits)
    ultimately show ?thesis
      unfolding 2(2) using w by (intro deploy_sys_environments) auto
  qed (simp add: deploy.sys_refl)
qed

subsection \<open>The operations of the controller\<close>

lemma keeps_completed_time [keeps_intros]: "deploy.keeps b K (completed_time d s)"
  unfolding completed_time_def by (intro keeps_intros)

lemma keeps_move_deployment:
  assumes "deploy_rely d" and "KnowsDeployment a \<in> K" and "(deploy_status a, s) \<in> deploy_edge"
  shows "deploy.keeps (dd_base d) K (move_deployment d a s err)"
  unfolding move_deployment_def deployments_get_def
  by (intro keeps_intros keeps_deployments_cas deployment_later_step assms) simp_all

lemma full_route_ok: "valid_routes (full_route s) = Inr () \<and> list_all (\<lambda>r. 1 \<le> route_weight r) (full_route s)"
  by (simp add: full_route_def valid_routes_def)

lemma canary_routes_ok:
  "1 \<le> c \<Longrightarrow> c < 100 \<Longrightarrow>
   valid_routes (canary_routes h s c) = Inr () \<and> list_all (\<lambda>r. 1 \<le> route_weight r) (canary_routes h s c)"
  by (simp add: canary_routes_def full_route_ok) (simp add: valid_routes_def)

lemma keeps_switch_environment:
  assumes "deploy_rely d" and "KnowsDeployment a \<in> K" and "deploy_status a = DeployReconciling"
    and "valid_routes routes = Inr () \<and> list_all (\<lambda>r. 1 \<le> route_weight r) routes"
  shows "deploy.keeps (dd_base d) K (switch_environment d a e routes healthy)"
  unfolding switch_environment_def
  by (intro keeps_intros keeps_environments_cas keeps_move_deployment assms(1,2))
     (simp_all add: assms(3,4) environment_ok_def deploy_edge_def)

lemma keeps_reconcile_environment:
  assumes r: "deploy_rely d" and a: "KnowsDeployment a \<in> K" "deploy_status a = DeployReconciling"
  shows "deploy.keeps (dd_base d) K (reconcile_environment d a s)"
proof (rule deploy.keeps_known)
  show "1 \<le> deploy_canary_percent a" if "\<And>f. f \<in> K \<Longrightarrow> deploy_knows w f" for w
    using that [OF a(1)] by (simp add: deployment_born_def)
  show "deploy.keeps (dd_base d) K (reconcile_environment d a s)" if "1 \<le> deploy_canary_percent a"
    unfolding reconcile_environment_def
    by (intro keeps_intros r keeps_switch_environment keeps_move_deployment)
       (use a that in \<open>auto simp: deploy_edge_def full_route_ok canary_routes_ok\<close>)
qed

lemma keeps_reconcile:
  assumes r: "deploy_rely d"
  shows "deploy.keeps (dd_base d) K (reconcile d tn did)"
proof -
  have "deploy_status x = DeployReconciling"
    if "\<not> deployment_is_terminal (deploy_status x)" "deploy_status x \<noteq> DeployQueued" for x
    using that by (cases "deploy_status x") (simp_all add: deployment_is_terminal_def)
  then show ?thesis
    unfolding reconcile_def snapshots_get_def
    by (intro keeps_intros r keeps_move_deployment keeps_reconcile_environment)
       (simp_all add: deploy_edge_def)
qed

lemma keeps_process_once:
  assumes r: "deploy_rely d"
  shows "deploy.keeps (dd_base d) K (process_once d)"
  unfolding process_once_def by (intro keeps_intros r keeps_reconcile)

lemma keeps_drain_locally:
  assumes r: "deploy_rely d"
  shows "deploy.keeps (dd_base d) K (drain_locally d tn did n)"
proof (induction n arbitrary: K)
  case (Suc n)
  show ?case
    unfolding drain_locally.simps by (intro keeps_intros r keeps_process_once Suc.IH)
qed (simp add: deploy.keeps_raise)

end
