(* ===== verification/Deployment_Service.thy ===== *)
theory Deployment_Service
  imports Deployment_Guarantees
begin

section \<open>The deployment service\<close>

text \<open>
  \<^verbatim>\<open>src/src/harness/deployments/service.py\<close>: environments and their reviewed policies, promotion,
  rollback, views, and the resolution of a routing key to a version. The optional audit record
  is output only and left out. The catalog port answers for the configured resolver or for the
  built-in catalog.
\<close>

subsection \<open>Catalog and policies\<close>

definition catalog_of :: "deploy_deps \<Rightarrow> string \<Rightarrow> capability_catalog_record dhandler" where
  "catalog_of d tenant_id = dawait d (external (\<lambda>n. dd_catalog d n tenant_id))"

definition find_profile :: "string \<Rightarrow> execution_profile list \<Rightarrow> execution_profile option" where
  "find_profile pid profiles = find (\<lambda>p. profile_id p = pid) profiles"

definition execution_profile_of ::
  "deploy_deps \<Rightarrow> string \<Rightarrow> string \<Rightarrow> capability_catalog_record \<Rightarrow> execution_profile dhandler" where
  "execution_profile_of d tenant_id pid catalog =
     (case dd_execution_profile d of
        Some resolve \<Rightarrow> dawait d (external (\<lambda>n. resolve n tenant_id pid))
      | None \<Rightarrow>
          (case find_profile pid (catalog_execution_profiles catalog) of
             None \<Rightarrow> raise (ConflictError (''Execution Profile is unavailable: '' @ pid))
           | Some p \<Rightarrow>
               if \<not> profile_enabled p
               then raise (ConflictError (''Execution Profile is unavailable: '' @ pid))
               else ret p))"

definition validate_knowledge_references ::
  "deploy_deps \<Rightarrow> string \<Rightarrow> string list \<Rightarrow> unit dhandler" where
  "validate_knowledge_references d tenant_id references =
     (case dd_validate_knowledge d of
        None \<Rightarrow> ret ()
      | Some validate \<Rightarrow>
          if references = [] then ret ()
          else dawait d (external (\<lambda>n. validate n tenant_id references)))"

definition policy_snapshot :: "deploy_deps \<Rightarrow> environment \<Rightarrow> time \<Rightarrow> environment_policy_snapshot" where
  "policy_snapshot d e captured_at =
     \<lparr>polsnap_environment = env_name e, polsnap_environment_revision = env_revision e,
      polsnap_policy_revision = env_policy_revision e,
      polsnap_policy_hash = dd_policy_hash d (env_resource_policy e),
      polsnap_resource_policy = env_resource_policy e, polsnap_captured_at = captured_at\<rparr>"

definition enabled_names :: "(string \<times> bool) list \<Rightarrow> string list" where
  "enabled_names items = map fst (filter snd items)"

fun default_quota :: "environment_name \<Rightarrow> environment_quota_boundary" where
  "default_quota EnvTest = \<lparr>boundary_max_run_budget_usd = Some 5,
     boundary_max_model_tokens = Some 500000, boundary_max_artifact_bytes = Some (100 * 1024 * 1024)\<rparr>"
| "default_quota EnvCanary = \<lparr>boundary_max_run_budget_usd = Some 2,
     boundary_max_model_tokens = Some 300000, boundary_max_artifact_bytes = Some (50 * 1024 * 1024)\<rparr>"
| "default_quota EnvProduction = \<lparr>boundary_max_run_budget_usd = Some 1,
     boundary_max_model_tokens = Some 200000, boundary_max_artifact_bytes = Some (25 * 1024 * 1024)\<rparr>"

definition eligible_profiles ::
  "environment_name \<Rightarrow> capability_catalog_record \<Rightarrow> execution_profile list" where
  "eligible_profiles name catalog =
     filter (\<lambda>p. profile_enabled p \<and>
         (name \<noteq> EnvProduction \<or> profile_production_allowed p \<and> profile_sandbox_provider p \<noteq> ''local''))
       (catalog_execution_profiles catalog)"

definition preferred_profile ::
  "environment_name \<Rightarrow> capability_catalog_record \<Rightarrow> execution_profile option" where
  "preferred_profile name catalog =
     (case find_profile ''isolated-default'' (eligible_profiles name catalog) of
        Some p \<Rightarrow> Some p
      | None \<Rightarrow> (case eligible_profiles name catalog of [] \<Rightarrow> None | p # _ \<Rightarrow> Some p))"

definition default_policy ::
  "environment_name \<Rightarrow> capability_catalog_record \<Rightarrow> herror + environment_resource_policy" where
  "default_policy name catalog =
     (case preferred_profile name catalog of
        None \<Rightarrow> Inl (ConflictError (''No Execution Profile is available for '' @
          environment_name_value name))
      | Some p \<Rightarrow>
          let policy =
            \<lparr>respol_execution_profile_id = profile_id p,
             respol_execution_profile_version = profile_version p,
             respol_network_profile_id = profile_network_policy_id p,
             respol_network_profile_version = profile_version p,
             respol_network_access = profile_network_access p,
             respol_allowed_model_routes = enabled_names (catalog_model_routes catalog),
             respol_capability_catalog_revision = catalog_revision catalog,
             respol_allowed_mcp_references = filter
               (\<lambda>r. r \<in> set (enabled_names (catalog_mcp_servers catalog)))
               (profile_allowed_mcp_references p),
             respol_allowed_knowledge_references = [],
             respol_credential_scopes = [ScopeUser, ScopeTeam, ScopeWorkload],
             respol_quota = default_quota name\<rparr>
          in case unique_resource_ids policy of Inl e \<Rightarrow> Inl e | Inr _ \<Rightarrow> Inr policy)"

definition validate_policy_catalog ::
  "environment_resource_policy \<Rightarrow> capability_catalog_record \<Rightarrow> herror + execution_profile" where
  "validate_policy_catalog policy catalog =
     (if respol_capability_catalog_revision policy \<noteq> catalog_revision catalog
      then Inl (ConflictError (''Environment policy capability catalog revision is stale: expected='' @
        str_of_int (catalog_revision catalog) @ '' actual='' @
        str_of_int (respol_capability_catalog_revision policy)))
      else
        case find_profile (respol_execution_profile_id policy) (catalog_execution_profiles catalog) of
          None \<Rightarrow> Inl (ConflictError
            ''Environment policy references an unavailable Execution Profile'')
        | Some p \<Rightarrow>
            let missing_routes = denied (respol_allowed_model_routes policy)
                  (enabled_names (catalog_model_routes catalog));
                missing_mcp = denied (respol_allowed_mcp_references policy)
                  (enabled_names (catalog_mcp_servers catalog));
                profile_denied = denied (respol_allowed_mcp_references policy)
                  (profile_allowed_mcp_references p)
            in if \<not> profile_enabled p \<or> profile_version p \<noteq> respol_execution_profile_version policy
               then Inl (ConflictError
                 ''Environment policy references an unavailable Execution Profile'')
               else if respol_network_profile_id policy \<noteq> profile_network_policy_id p \<or>
                 respol_network_profile_version policy \<noteq> profile_version p \<or>
                 \<not> set (respol_network_access policy) \<subseteq> set (profile_network_access p)
               then Inl (ConflictError
                 ''Environment network profile does not match the reviewed Execution Profile'')
               else if missing_routes \<noteq> []
               then Inl (ConflictError (''Environment policy references unavailable model routes: '' @
                 join_with '', '' missing_routes))
               else if missing_mcp \<noteq> []
               then Inl (ConflictError (''Environment policy references unavailable MCP resources: '' @
                 join_with '', '' missing_mcp))
               else if profile_denied \<noteq> []
               then Inl (ConflictError (''Environment MCP resources exceed the Execution Profile: '' @
                 join_with '', '' profile_denied))
               else Inr p)"

definition agent_routes :: "agent_requirements \<Rightarrow> string list" where
  "agent_routes a = requires_route a #
     (case requires_fallback_route a of None \<Rightarrow> [] | Some f \<Rightarrow> if f = [] then [] else [f])"

definition validate_agent_policy ::
  "deploy_deps \<Rightarrow> agent_version \<Rightarrow> environment_resource_policy \<Rightarrow> string \<Rightarrow> int \<Rightarrow> herror + unit" where
  "validate_agent_policy d version policy pid pversion =
     (if pid \<noteq> respol_execution_profile_id policy \<or> pversion \<noteq> respol_execution_profile_version policy
      then Inl (ConflictError ''Deployment Execution Profile is outside the Environment policy'')
      else
        case dd_requirements d (version_snapshot version) of
          None \<Rightarrow> Inl (ValueError ''invalid AgentManifestSnapshot'')
        | Some a \<Rightarrow>
            let denied_routes = denied (agent_routes a) (respol_allowed_model_routes policy);
                denied_mcp = denied (List.map_filter id (requires_tool_mcps a))
                  (respol_allowed_mcp_references policy);
                denied_knowledge = denied (requires_knowledge a)
                  (respol_allowed_knowledge_references policy)
            in if (case requires_catalog_revision a of
                     None \<Rightarrow> False | Some r \<Rightarrow> r \<noteq> respol_capability_catalog_revision policy)
               then Inl (ConflictError
                 ''Agent tool directory catalog revision is outside the Environment policy'')
               else if denied_routes \<noteq> []
               then Inl (ConflictError (''Agent model routes are outside the Environment policy: '' @
                 join_with '', '' denied_routes))
               else if denied_mcp \<noteq> []
               then Inl (ConflictError (''Agent MCP resources are outside the Environment policy: '' @
                 join_with '', '' denied_mcp))
               else if denied_knowledge \<noteq> []
               then Inl (ConflictError (''Agent Knowledge Bases are outside the Environment policy: '' @
                 join_with '', '' denied_knowledge))
               else Inr ())"

definition check :: "herror + 'a \<Rightarrow> 'a dhandler" where
  "check v = (case v of Inl e \<Rightarrow> raise e | Inr x \<Rightarrow> ret x)"

definition registry_get :: "string \<Rightarrow> string \<Rightarrow> string \<Rightarrow> string \<Rightarrow> agent_version dhandler" where
  "registry_get tenant_id owner agent version =
     dask (\<lambda>w. agent_get (dw_registry w) tenant_id owner agent version)"

subsection \<open>Environments\<close>

definition new_environment ::
  "environment_ref \<Rightarrow> environment_resource_policy \<Rightarrow> time \<Rightarrow> environment" where
  "new_environment k policy now =
     \<lparr>env_tenant_id = fst k, env_owner_user_id = fst (snd k), env_agent_name = fst (snd (snd k)),
      env_name = snd (snd (snd k)), env_revision = 0, env_policy_revision = 1,
      env_resource_policy = policy, env_routes = [], env_healthy_snapshot_id = None,
      env_updated_at = now\<rparr>"

definition create_environment :: "deploy_deps \<Rightarrow> environment_ref \<Rightarrow> environment dhandler" where
  "create_environment d k =
     bindP (catalog_of d (fst k)) (\<lambda>catalog.
     bindP (check (default_policy (snd (snd (snd k))) catalog)) (\<lambda>policy.
     bindP (dclock d) (\<lambda>now.
       let value = new_environment k policy now
       in catchP (thenP (dawait d (environments_add value)) (ret value))
            (\<lambda>e. if is_conflict_error e then dawait d (environments_get k) else raise e))))"

definition environment_of :: "deploy_deps \<Rightarrow> environment_ref \<Rightarrow> environment dhandler" where
  "environment_of d k =
     catchP (dawait d (environments_get k))
       (\<lambda>e. if is_not_found e then create_environment d k else raise e)"

definition list_environments ::
  "deploy_deps \<Rightarrow> string \<Rightarrow> string \<Rightarrow> string \<Rightarrow> environment list dhandler" where
  "list_environments d tenant_id owner agent =
     bindP (dawait d (dask (\<lambda>w. Inr (environment_list_for_agent (dw_environments w) tenant_id owner agent))))
     (\<lambda>items. foldP (\<lambda>done name.
        case find (\<lambda>e. env_name e = name) (rev items) of
          Some e \<Rightarrow> ret (done @ [e])
        | None \<Rightarrow> bindP (environment_of d (tenant_id, owner, agent, name)) (\<lambda>e. ret (done @ [e])))
        [] [EnvTest, EnvCanary, EnvProduction])"

record replace_environment_policy_request =
  repol_expected_environment_revision :: int
  repol_policy :: environment_resource_policy

definition check_route_versions ::
  "deploy_deps \<Rightarrow> string \<Rightarrow> string \<Rightarrow> environment_resource_policy \<Rightarrow> deployment_route list \<Rightarrow>
   unit dhandler" where
  "check_route_versions d tenant_id user policy routes =
     foldP (\<lambda>_ route.
       bindP (dawait d (snapshots_get_for_user tenant_id user (route_snapshot_id route))) (\<lambda>s.
       bindP (dawait d (registry_get tenant_id (depsnap_created_by s) (depsnap_agent_name s)
         (depsnap_agent_version s))) (\<lambda>version.
         check (validate_agent_policy d version policy (depsnap_execution_profile s)
           (depsnap_execution_profile_version s)))))
     () routes"

definition replace_environment_policy ::
  "deploy_deps \<Rightarrow> string \<Rightarrow> string \<Rightarrow> string \<Rightarrow> environment_name \<Rightarrow>
   replace_environment_policy_request \<Rightarrow> environment dhandler" where
  "replace_environment_policy d tenant_id user agent name request =
     bindP (environment_of d (tenant_id, user, agent, name)) (\<lambda>current.
       if env_revision current \<noteq> repol_expected_environment_revision request
       then raise (ConflictError ''Environment revision changed before policy update'')
       else
         bindP (catalog_of d tenant_id) (\<lambda>catalog.
         bindP (check (validate_policy_catalog (repol_policy request) catalog)) (\<lambda>profile.
         thenP (validate_knowledge_references d tenant_id
             (respol_allowed_knowledge_references (repol_policy request)))
         (if name = EnvProduction \<and>
             (profile_sandbox_provider profile = ''local'' \<or> \<not> profile_production_allowed profile)
          then raise (ConflictError
            ''Production Environment requires an isolated production Profile'')
          else
            thenP (check_route_versions d tenant_id user (repol_policy request) (env_routes current))
            (bindP (dclock d) (\<lambda>now.
               let updated = current\<lparr>env_revision := env_revision current + 1,
                     env_policy_revision := env_policy_revision current + 1,
                     env_resource_policy := repol_policy request, env_updated_at := now\<rparr>
               in bindP (dawait d (environments_cas (env_revision current) updated)) (\<lambda>won.
                    if \<not> won
                    then raise (ConflictError ''Environment revision changed before policy update'')
                    else ret updated)))))))"

subsection \<open>Views\<close>

definition deployments_get_for_user :: "string \<Rightarrow> string \<Rightarrow> string \<Rightarrow> deployment dhandler" where
  "deployments_get_for_user tenant_id user did =
     dask (\<lambda>w. deployment_get_for_user (dw_deployments w) tenant_id user did)"

definition view_of :: "deploy_deps \<Rightarrow> string \<Rightarrow> string \<Rightarrow> string \<Rightarrow> deployment_view dhandler" where
  "view_of d tenant_id owner did =
     bindP (dawait d (deployments_get_for_user tenant_id owner did)) (\<lambda>x.
     bindP (dawait d (snapshots_get_for_user tenant_id owner (deploy_target_snapshot_id x))) (\<lambda>s.
     bindP (environment_of d (tenant_id, deploy_requested_by x, deploy_agent_name x,
         deploy_environment x)) (\<lambda>e.
       ret \<lparr>view_deployment = x, view_target = s, view_environment = e\<rparr>)))"

definition list_deployments ::
  "deploy_deps \<Rightarrow> string \<Rightarrow> string \<Rightarrow> string \<Rightarrow> deployment_view list dhandler" where
  "list_deployments d tenant_id owner agent =
     bindP (dawait d (dask (\<lambda>w. Inr (deployment_list_for_agent (dw_deployments w) tenant_id owner agent))))
     (\<lambda>items. foldP (\<lambda>done x.
        bindP (view_of d tenant_id owner (deploy_deployment_id x)) (\<lambda>v. ret (done @ [v]))) [] items)"

definition list_snapshots ::
  "deploy_deps \<Rightarrow> string \<Rightarrow> string \<Rightarrow> string \<Rightarrow> deployment_snapshot list dhandler" where
  "list_snapshots d tenant_id owner agent =
     dawait d (dask (\<lambda>w. Inr (depl_snapshot_list (dw_deployments w) tenant_id owner agent)))"

definition find_by_idempotency ::
  "deploy_deps \<Rightarrow> string \<Rightarrow> string \<Rightarrow> string \<Rightarrow> deployment option dhandler" where
  "find_by_idempotency d tenant_id user key =
     dawait d (dask (\<lambda>w. deployment_find_by_idempotency (dw_deployments w) tenant_id user key))"

subsection \<open>Promotion\<close>

definition same_promote ::
  "deploy_deps \<Rightarrow> deployment \<Rightarrow> promote_request \<Rightarrow> deployment_view dhandler" where
  "same_promote d existing request =
     bindP (dawait d (snapshots_get_for_user (deploy_tenant_id existing) (deploy_requested_by existing)
       (deploy_target_snapshot_id existing))) (\<lambda>target.
       if deploy_action existing \<noteq> Promote \<or>
          depsnap_agent_version target \<noteq> promote_agent_version request \<or>
          deploy_environment existing \<noteq> promote_environment request \<or>
          deploy_canary_percent existing \<noteq> promote_canary_percent request
       then raise (ConflictError ''Deployment idempotency key was reused for another promotion'')
       else view_of d (deploy_tenant_id existing) (deploy_requested_by existing)
         (deploy_deployment_id existing))"

definition check_preview ::
  "deploy_deps \<Rightarrow> string \<Rightarrow> string \<Rightarrow> string option \<Rightarrow> string \<Rightarrow> unit dhandler" where
  "check_preview d tenant_id user preview_id package_hash =
     (case preview_id of
        None \<Rightarrow> ret ()
      | Some pid \<Rightarrow>
          if pid = [] then ret ()
          else
            (case dd_previews d of
               None \<Rightarrow> raise (ConflictError ''Preview verification is unavailable'')
             | Some previews \<Rightarrow>
                 bindP (dawait d (external (\<lambda>n. previews n tenant_id user pid))) (\<lambda>p.
                   if preview_stale p \<or> preview_status p \<noteq> ''ready'' \<or>
                      preview_package_hash p \<noteq> package_hash
                   then raise (ConflictError ''Promotion Preview does not prove this Agent package'')
                   else ret ())))"

text \<open>The execution profile of the request, checked against the environment and its policy.\<close>

definition promotion_profile ::
  "deploy_deps \<Rightarrow> string \<Rightarrow> promote_request \<Rightarrow> environment \<Rightarrow> agent_version \<Rightarrow>
   execution_profile dhandler" where
  "promotion_profile d tenant_id request e version =
     bindP (catalog_of d tenant_id) (\<lambda>catalog.
     bindP (check (validate_policy_catalog (env_resource_policy e) catalog)) (\<lambda>policy_profile.
     thenP (validate_knowledge_references d tenant_id
         (respol_allowed_knowledge_references (env_resource_policy e)))
     (bindP (execution_profile_of d tenant_id (promote_execution_profile request) catalog) (\<lambda>p.
       if \<not> profile_enabled p then raise (ConflictError ''Execution Profile is disabled'')
       else if promote_environment request = EnvProduction \<and>
         (profile_sandbox_provider p = ''local'' \<or> \<not> profile_production_allowed p)
       then raise (ConflictError ''Local or unsafe Execution Profile cannot target production'')
       else if profile_id p \<noteq> profile_id policy_profile \<or>
         profile_version p \<noteq> profile_version policy_profile \<or>
         profile_network_policy_id p \<noteq> profile_network_policy_id policy_profile \<or>
         \<not> set (respol_network_access (env_resource_policy e)) \<subseteq> set (profile_network_access p)
       then raise (ConflictError ''Deployment Execution Profile is outside the Environment policy'')
       else thenP (check (validate_agent_policy d version (env_resource_policy e) (profile_id p)
           (profile_version p))) (ret p)))))"

definition dnew_id :: "deploy_deps \<Rightarrow> string \<Rightarrow> string dhandler" where
  "dnew_id d prefix = in_base (id_generator (dd_base d) prefix)"

definition new_snapshot ::
  "deploy_deps \<Rightarrow> string \<Rightarrow> string \<Rightarrow> promote_request \<Rightarrow> environment \<Rightarrow> agent_version \<Rightarrow> string \<Rightarrow>
   promotion_gate \<Rightarrow> execution_profile \<Rightarrow> deployment_snapshot dhandler" where
  "new_snapshot d tenant_id user request e version package_hash gate p =
     bindP (dnew_id d ''deployment_snapshot'') (\<lambda>sid.
     bindP (dclock d) (\<lambda>captured.
     bindP (dclock d) (\<lambda>now.
       ret \<lparr>depsnap_tenant_id = tenant_id, depsnap_snapshot_id = sid,
         depsnap_agent_name = promote_agent_name request,
         depsnap_agent_version = promote_agent_version request,
         depsnap_environment = promote_environment request,
         depsnap_manifest_hash = version_manifest_hash version,
         depsnap_package_hash = package_hash, depsnap_image_digest = promote_image_digest request,
         depsnap_execution_profile = promote_execution_profile request,
         depsnap_execution_profile_version = profile_version p,
         depsnap_execution_profile_hash = dd_profile_hash d p,
         depsnap_environment_policy_snapshot = Some (policy_snapshot d e captured),
         depsnap_config = promote_config request, depsnap_eval_gate_passed = gate_passed gate,
         depsnap_eval_required_datasets = gate_required_datasets gate,
         depsnap_preview_id = promote_preview_id request, depsnap_created_by = user,
         depsnap_created_at = now\<rparr>)))"

definition new_deployment ::
  "deploy_deps \<Rightarrow> string \<Rightarrow> string \<Rightarrow> string \<Rightarrow> environment_name \<Rightarrow> deployment_action \<Rightarrow>
   deployment_snapshot \<Rightarrow> environment \<Rightarrow> int \<Rightarrow> string \<Rightarrow> deployment dhandler" where
  "new_deployment d tenant_id user agent name action target e percent key =
     bindP (dnew_id d ''deployment'') (\<lambda>did.
     bindP (dclock d) (\<lambda>created.
     bindP (dclock d) (\<lambda>updated.
       ret \<lparr>deploy_tenant_id = tenant_id, deploy_deployment_id = did, deploy_agent_name = agent,
         deploy_environment = name, deploy_action = action,
         deploy_target_snapshot_id = depsnap_snapshot_id target,
         deploy_previous_snapshot_id = env_healthy_snapshot_id e, deploy_canary_percent = percent,
         deploy_expected_environment_revision = env_revision e, deploy_idempotency_key = key,
         deploy_requested_by = user, deploy_status = DeployQueued, deploy_fencing_token = 0,
         deploy_created_at = created, deploy_updated_at = updated, deploy_completed_at = None,
         deploy_error_code = None\<rparr>)))"

definition promotion_caller :: "promote_request \<Rightarrow> quota_caller" where
  "promotion_caller request =
     \<lparr>caller_organization_id = None, caller_team_ids = [], caller_user_id = None,
      caller_agent_name = Some (promote_agent_name request),
      caller_environment = Some (environment_name_value (promote_environment request)),
      caller_api_key_id = None\<rparr>"

definition reserve_promotion ::
  "deploy_deps \<Rightarrow> string \<Rightarrow> string \<Rightarrow> promote_request \<Rightarrow> resource_reservation option dhandler" where
  "reserve_promotion d tenant_id user request =
     (if dd_quotas d
      then bindP (in_base (quota_service_reserve (dd_base d) tenant_id DeploymentPromotions 1
          (''deployment:'' @ user @ '':'' @ promote_idempotency_key request)
          (''deployment:'' @ user @ '':'' @ promote_idempotency_key request @ '':promotion'')
          (promotion_caller request) 3600)) (\<lambda>r. ret (Some r))
      else ret None)"

definition release_promotion :: "deploy_deps \<Rightarrow> resource_reservation option \<Rightarrow> unit dhandler" where
  "release_promotion d reservation =
     (case reservation of
        None \<Rightarrow> ret ()
      | Some r \<Rightarrow> thenP (in_base (quota_service_release (dd_base d) r False)) (ret ()))"

definition commit_promotion :: "deploy_deps \<Rightarrow> resource_reservation option \<Rightarrow> unit dhandler" where
  "commit_promotion d reservation =
     (case reservation of
        None \<Rightarrow> ret ()
      | Some r \<Rightarrow> thenP (in_base (quota_service_commit (dd_base d) r None)) (ret ()))"

definition task_of :: "deployment \<Rightarrow> deployment_task" where
  "task_of x = \<lparr>deptask_tenant_id = deploy_tenant_id x, deptask_deployment_id = deploy_deployment_id x\<rparr>"

text \<open>The second half of a promotion: the new deployment is stored, queued and paid for.\<close>

definition store_promotion ::
  "deploy_deps \<Rightarrow> promote_request \<Rightarrow> resource_reservation option \<Rightarrow> deployment \<Rightarrow>
   deployment_snapshot \<Rightarrow> environment \<Rightarrow> deployment_view dhandler" where
  "store_promotion d request reservation x snapshot e =
     bindP (tryP (dawait d (deployments_add x))) (\<lambda>added.
       case added of
         Inl err \<Rightarrow>
           if is_conflict_error err then
             bindP (find_by_idempotency d (deploy_tenant_id x) (deploy_requested_by x)
               (promote_idempotency_key request)) (\<lambda>concurrent.
               case concurrent of
                 None \<Rightarrow> thenP (release_promotion d reservation) (raise err)
               | Some y \<Rightarrow> thenP (commit_promotion d reservation) (same_promote d y request))
           else thenP (release_promotion d reservation) (raise err)
       | Inr _ \<Rightarrow>
           thenP (dawait d (deployment_enqueue (task_of x)))
           (thenP (commit_promotion d reservation)
             (ret \<lparr>view_deployment = x, view_target = snapshot, view_environment = e\<rparr>)))"

definition promote_checked ::
  "deploy_deps \<Rightarrow> string \<Rightarrow> string \<Rightarrow> promote_request \<Rightarrow> environment \<Rightarrow> agent_version \<Rightarrow> string \<Rightarrow>
   deployment_view dhandler" where
  "promote_checked d tenant_id user request e version package_hash =
     bindP (dawait d (external (\<lambda>n. dd_eval_gate d n tenant_id user (promote_agent_name request)
       (promote_agent_version request)))) (\<lambda>gate.
     thenP (case dd_quality_gate d of
         None \<Rightarrow> ret ()
       | Some quality \<Rightarrow> dawait d (external (\<lambda>n. quality n tenant_id user
           (promote_agent_name request) (promote_agent_version request))))
     (thenP (check_preview d tenant_id user (promote_preview_id request) package_hash)
     (bindP (promotion_profile d tenant_id request e version) (\<lambda>p.
      bindP (new_snapshot d tenant_id user request e version package_hash gate p) (\<lambda>snapshot.
      bindP (reserve_promotion d tenant_id user request) (\<lambda>reservation.
      thenP (catchP (dawait d (snapshots_add snapshot))
          (\<lambda>err. thenP (release_promotion d reservation) (raise err)))
      (bindP (new_deployment d tenant_id user (promote_agent_name request)
          (promote_environment request) Promote snapshot e (promote_canary_percent request)
          (promote_idempotency_key request)) (\<lambda>x.
       store_promotion d request reservation x snapshot e))))))))"

definition promote :: "deploy_deps \<Rightarrow> string \<Rightarrow> string \<Rightarrow> promote_request \<Rightarrow> deployment_view dhandler" where
  "promote d tenant_id user request =
     bindP (find_by_idempotency d tenant_id user (promote_idempotency_key request)) (\<lambda>existing.
       case existing of
         Some x \<Rightarrow> same_promote d x request
       | None \<Rightarrow>
           bindP (environment_of d (tenant_id, user, promote_agent_name request,
             promote_environment request)) (\<lambda>e.
           if env_revision e \<noteq> promote_expected_environment_revision request
           then raise (ConflictError ''Environment revision changed before promotion'')
           else
             bindP (dawait d (registry_get tenant_id user (promote_agent_name request)
               (promote_agent_version request))) (\<lambda>version.
             case version_package_hash version of
               None \<Rightarrow> raise (ConflictError ''Promotion requires an immutable published Agent package'')
             | Some package_hash \<Rightarrow>
                 if version_status version \<noteq> VersionPublished \<or> package_hash = []
                 then raise (ConflictError
                   ''Promotion requires an immutable published Agent package'')
                 else promote_checked d tenant_id user request e version package_hash)))"

subsection \<open>Rollback\<close>

definition same_rollback ::
  "deploy_deps \<Rightarrow> string \<Rightarrow> string \<Rightarrow> string \<Rightarrow> environment_name \<Rightarrow> rollback_request \<Rightarrow> deployment \<Rightarrow>
   deployment_view dhandler" where
  "same_rollback d tenant_id user agent name request existing =
     bindP (dawait d (snapshots_get_for_user tenant_id user (deploy_target_snapshot_id existing)))
     (\<lambda>target.
       if deploy_action existing \<noteq> Rollback \<or> deploy_agent_name existing \<noteq> agent \<or>
          deploy_environment existing \<noteq> name \<or>
          depsnap_snapshot_id target \<noteq> rollback_snapshot_id request
       then raise (ConflictError ''Deployment idempotency key was reused for another rollback'')
       else view_of d tenant_id user (deploy_deployment_id existing))"

definition roll_back ::
  "deploy_deps \<Rightarrow> string \<Rightarrow> string \<Rightarrow> string \<Rightarrow> environment_name \<Rightarrow> rollback_request \<Rightarrow>
   deployment_view dhandler" where
  "roll_back d tenant_id user agent name request =
     bindP (find_by_idempotency d tenant_id user (rollback_idempotency_key request)) (\<lambda>existing.
       case existing of
         Some x \<Rightarrow> same_rollback d tenant_id user agent name request x
       | None \<Rightarrow>
           bindP (environment_of d (tenant_id, user, agent, name)) (\<lambda>e.
           if env_revision e \<noteq> rollback_expected_environment_revision request
           then raise (ConflictError ''Environment revision changed before rollback'')
           else
             bindP (dawait d (snapshots_get_for_user tenant_id user (rollback_snapshot_id request)))
             (\<lambda>s.
               if depsnap_agent_name s \<noteq> agent \<or> depsnap_environment s \<noteq> name \<or>
                  \<not> depsnap_eval_gate_passed s
               then raise (ConflictError
                 ''Rollback requires a historical verified Snapshot from this environment'')
               else
                 bindP (new_deployment d tenant_id user agent name Rollback s e 100
                   (rollback_idempotency_key request)) (\<lambda>x.
                 thenP (dawait d (deployments_add x))
                 (thenP (dawait d (deployment_enqueue (task_of x)))
                   (ret \<lparr>view_deployment = x, view_target = s, view_environment = e\<rparr>))))))"

subsection \<open>Resolution\<close>

text \<open>The first route whose cumulative weight exceeds the bucket, otherwise the last route.\<close>

fun select_route :: "deployment_route list \<Rightarrow> int \<Rightarrow> int \<Rightarrow> deployment_route option" where
  "select_route [] cumulative bucket = None"
| "select_route (r # rs) cumulative bucket =
     (if bucket < cumulative + route_weight r then Some r
      else select_route rs (cumulative + route_weight r) bucket)"

definition routed :: "deployment_route list \<Rightarrow> int \<Rightarrow> deployment_route" where
  "routed routes bucket =
     (case select_route routes 0 bucket of None \<Rightarrow> last routes | Some r \<Rightarrow> r)"

definition resolve_deployment ::
  "deploy_deps \<Rightarrow> environment_ref \<Rightarrow> string \<Rightarrow> deployment_resolution dhandler" where
  "resolve_deployment d k routing_key =
     bindP (dawait d (environments_get k)) (\<lambda>e.
       if env_routes e = []
       then raise (ConflictError (''Environment has no active deployment: '' @ fst (snd (snd k)) @
         ''/'' @ environment_name_value (snd (snd (snd k)))))
       else
         let selected = routed (env_routes e) (int (dd_routing_number d routing_key mod 100))
         in bindP (dawait d (snapshots_get_for_user (fst k) (fst (snd k)) (route_snapshot_id selected)))
            (\<lambda>s.
            bindP (catalog_of d (fst k)) (\<lambda>catalog.
            thenP (check (validate_policy_catalog (env_resource_policy e) catalog))
            (thenP (validate_knowledge_references d (fst k)
                (respol_allowed_knowledge_references (env_resource_policy e)))
            (bindP (dawait d (registry_get (fst k) (depsnap_created_by s) (depsnap_agent_name s)
               (depsnap_agent_version s))) (\<lambda>version.
             thenP (check (validate_agent_policy d version (env_resource_policy e)
               (depsnap_execution_profile s) (depsnap_execution_profile_version s)))
             (bindP (dclock d) (\<lambda>captured.
               ret \<lparr>resolution_agent_name = fst (snd (snd k)),
                    resolution_agent_version = depsnap_agent_version s,
                    resolution_environment = snd (snd (snd k)),
                    resolution_snapshot_id = depsnap_snapshot_id s,
                    resolution_environment_policy_snapshot = policy_snapshot d e captured\<rparr>))))))))"

end
