(* ===== verification/Deployment_Platform.thy ===== *)
theory Deployment_Platform
  imports Deployment_Service
begin

section \<open>Promotion, rollback and reconciliation in any order\<close>

text \<open>
  The operations of the deployment service keep the protocol, so any calls of the service and
  of any number of controllers may interrupt each other at every await. \<open>deploy_steps\<close> are
  sequences of calls.
\<close>

subsection \<open>The operations of the service\<close>

lemma keeps_catalog_of [keeps_intros]: "deploy_rely d \<Longrightarrow> deploy.keeps (dd_base d) K (catalog_of d tn)"
  unfolding catalog_of_def by (intro keeps_intros)

lemma keeps_check [keeps_intros]: "deploy.keeps b K (check v)"
  unfolding check_def by (intro keeps_intros)

lemma keeps_validate_knowledge [keeps_intros]:
  "deploy_rely d \<Longrightarrow> deploy.keeps (dd_base d) K (validate_knowledge_references d tn refs)"
  unfolding validate_knowledge_references_def by (intro keeps_intros)

lemma keeps_execution_profile_of [keeps_intros]:
  "deploy_rely d \<Longrightarrow> deploy.keeps (dd_base d) K (execution_profile_of d tn pid c)"
  unfolding execution_profile_of_def by (intro keeps_intros)

lemma keeps_environments_get [keeps_intros]: "deploy.keeps b K (environments_get k)"
  unfolding environments_get_def by (rule keeps_dask)

lemma keeps_snapshots_get [keeps_intros]:
  "deploy.keeps b K (snapshots_get_for_user tn user sid)" "deploy.keeps b K (snapshots_get tn sid)"
  unfolding snapshots_get_for_user_def snapshots_get_def by (rule keeps_dask)+

lemma keeps_registry_get [keeps_intros]: "deploy.keeps b K (registry_get tn owner agent v)"
  unfolding registry_get_def by (rule keeps_dask)

lemma keeps_deployments_get_for_user [keeps_intros]:
  "deploy.keeps b K (deployments_get_for_user tn user did)"
  unfolding deployments_get_for_user_def by (rule keeps_dask)

lemma keeps_find_by_idempotency [keeps_intros]:
  "deploy_rely d \<Longrightarrow> deploy.keeps (dd_base d) K (find_by_idempotency d tn user key)"
  unfolding find_by_idempotency_def by (intro keeps_intros)

lemma new_environment_ok: "environment_ok (new_environment k policy now)"
  by (simp add: environment_ok_def new_environment_def valid_routes_def)

lemma yields_environments_get:
  assumes "deploy_rely d"
  shows "deploy.yields (dd_base d) K (dawait d (environments_get k)) environment_ok"
proof (rule deploy.yieldsI)
  fix w x t
  assume w: "deploy_sound (dd_base d) w" and run: "dawait d (environments_get k) w = (Inr x, t)"
  have "dict_get (dw_environments (dsuspended d w)) k = Some x"
    using run by (auto simp: dawait_def environments_get_def dask_def environment_get_def
        split: option.splits)
  with dsuspended_sound [OF assms w] show "environment_ok x"
    unfolding deploy_sound_def environment_repo_inv_def by blast
qed

lemma keeps_create_environment [keeps_intros]:
  assumes r: "deploy_rely d"
  shows "deploy.keeps (dd_base d) K (create_environment d k)"
  unfolding create_environment_def
  by (intro keeps_intros keeps_environments_add r) (rule new_environment_ok)

lemma yields_create_environment:
  assumes r: "deploy_rely d"
  shows "deploy.yields (dd_base d) K (create_environment d k) environment_ok"
  unfolding create_environment_def Let_def
  by (intro deploy.yields_bind deploy.yields_catch keeps_intros keeps_environments_add
      new_environment_ok r)
     (auto simp: thenP_def intro!: deploy.yields_bind deploy.yields_ret keeps_intros
       keeps_environments_add new_environment_ok deploy.yields_raise yields_environments_get r)

lemma keeps_environment_of [keeps_intros]:
  "deploy_rely d \<Longrightarrow> deploy.keeps (dd_base d) K (environment_of d k)"
  unfolding environment_of_def by (intro keeps_intros)

lemma yields_environment_of:
  assumes r: "deploy_rely d"
  shows "deploy.yields (dd_base d) K (environment_of d k) environment_ok"
  unfolding environment_of_def
  by (rule deploy.yields_catch)
     (auto intro!: keeps_intros deploy.yields_raise yields_environments_get yields_create_environment r)

lemma keeps_list_environments [keeps_intros]:
  "deploy_rely d \<Longrightarrow> deploy.keeps (dd_base d) K (list_environments d tn owner agent)"
  unfolding list_environments_def by (intro keeps_intros)

lemma keeps_check_route_versions [keeps_intros]:
  "deploy_rely d \<Longrightarrow> deploy.keeps (dd_base d) K (check_route_versions d tn user policy routes)"
  unfolding check_route_versions_def by (intro keeps_intros)

lemma keeps_replace_environment_policy [keeps_intros]:
  assumes r: "deploy_rely d"
  shows "deploy.keeps (dd_base d) K (replace_environment_policy d tn user agent name request)"
  unfolding replace_environment_policy_def
proof (rule deploy.keeps_bind_yields [OF keeps_environment_of [OF r] yields_environment_of [OF r]])
  fix x
  assume "environment_ok x"
  then show "deploy.keeps (dd_base d) K (if env_revision x \<noteq> repol_expected_environment_revision request
      then raise (ConflictError ''Environment revision changed before policy update'')
      else
        bindP (catalog_of d tn) (\<lambda>catalog.
        bindP (check (validate_policy_catalog (repol_policy request) catalog)) (\<lambda>profile.
        thenP (validate_knowledge_references d tn
            (respol_allowed_knowledge_references (repol_policy request)))
        (if name = EnvProduction \<and>
            (profile_sandbox_provider profile = ''local'' \<or> \<not> profile_production_allowed profile)
         then raise (ConflictError
           ''Production Environment requires an isolated production Profile'')
         else
           thenP (check_route_versions d tn user (repol_policy request) (env_routes x))
           (bindP (dclock d) (\<lambda>now.
              let updated = x\<lparr>env_revision := env_revision x + 1,
                    env_policy_revision := env_policy_revision x + 1,
                    env_resource_policy := repol_policy request, env_updated_at := now\<rparr>
              in bindP (dawait d (environments_cas (env_revision x) updated)) (\<lambda>won.
                   if \<not> won
                   then raise (ConflictError ''Environment revision changed before policy update'')
                   else ret updated)))))))"
    by (intro keeps_intros keeps_environments_cas r) (simp_all add: environment_ok_def)
qed

lemma keeps_view_of [keeps_intros]:
  "deploy_rely d \<Longrightarrow> deploy.keeps (dd_base d) K (view_of d tn owner did)"
  unfolding view_of_def by (intro keeps_intros)

lemma keeps_list_deployments [keeps_intros]:
  "deploy_rely d \<Longrightarrow> deploy.keeps (dd_base d) K (list_deployments d tn owner agent)"
  unfolding list_deployments_def by (intro keeps_intros)

lemma keeps_list_snapshots [keeps_intros]:
  "deploy_rely d \<Longrightarrow> deploy.keeps (dd_base d) K (list_snapshots d tn owner agent)"
  unfolding list_snapshots_def by (intro keeps_intros)

lemma keeps_same_promote [keeps_intros]:
  "deploy_rely d \<Longrightarrow> deploy.keeps (dd_base d) K (same_promote d x request)"
  unfolding same_promote_def by (intro keeps_intros)

lemma keeps_same_rollback [keeps_intros]:
  "deploy_rely d \<Longrightarrow> deploy.keeps (dd_base d) K (same_rollback d tn user agent name request x)"
  unfolding same_rollback_def by (intro keeps_intros)

lemma keeps_check_preview [keeps_intros]:
  "deploy_rely d \<Longrightarrow> deploy.keeps (dd_base d) K (check_preview d tn user pid h)"
  unfolding check_preview_def by (intro keeps_intros)

lemma keeps_promotion_profile [keeps_intros]:
  "deploy_rely d \<Longrightarrow> deploy.keeps (dd_base d) K (promotion_profile d tn request e v)"
  unfolding promotion_profile_def by (intro keeps_intros)

lemma keeps_dnew_id [keeps_intros]: "deploy.keeps b K (dnew_id d prefix)"
  unfolding dnew_id_def
  by (rule keeps_in_base [where F = "{}"])
     (auto intro!: upholds_quiet sys_same simp: id_generator_def)

lemma keeps_new_snapshot [keeps_intros]:
  "deploy.keeps b K (new_snapshot d tn user request e v h gate p)"
  unfolding new_snapshot_def by (intro keeps_intros)

lemma keeps_snapshots_add [keeps_intros]: "deploy.keeps b K (snapshots_add s)"
proof (rule deploy.keepsI)
  fix w r t
  assume w: "deploy_sound b w" and run: "snapshots_add s w = (r, t)"
  let ?repo = "dw_deployments w"
  let ?new = "?repo\<lparr>deps_snapshots := dict_set (depl_snapshot_key s) s (deps_snapshots ?repo)\<rparr>"
  consider "t = w" | "t = w\<lparr>dw_deployments := ?new\<rparr>"
    using run by (auto simp: snapshots_add_def depl_snapshot_add_def split: option.splits if_splits)
  then show "deploy_sys b w t"
  proof cases
    case 2
    have "deployment_repo_inv ?new" if "deployment_repo_inv ?repo"
      using that unfolding deployment_repo_inv_def by (auto split: if_splits)
    moreover have "deployment_history ?repo ?new" if "deployment_repo_inv ?repo"
      using that unfolding deployment_history_def deployment_repo_inv_def
      by (auto simp: deployment_later_refl)
    ultimately show ?thesis unfolding 2 using w by (intro deploy_sys_deployments) auto
  qed (simp add: deploy.sys_refl)
qed

lemma deployment_repo_inv_add:
  assumes inv: "deployment_repo_inv repo" and add: "deployment_add x repo = Inr t"
    and x: "deployment_born x"
  shows "deployment_repo_inv t \<and> deployment_history repo t"
proof -
  have fresh: "dict_get (deps_items repo) (deployment_key x) = None"
      "dict_get (deps_idempotency repo) (deployment_idem_key x) = None"
    and items: "deps_items t = dict_set (deployment_key x) x (deps_items repo)"
    and idem: "deps_idempotency t =
      dict_set (deployment_idem_key x) (deploy_deployment_id x) (deps_idempotency repo)"
    and snaps: "deps_snapshots t = deps_snapshots repo"
    using add by (auto simp: deployment_add_def split: if_splits)
  have key: "(fst (deployment_idem_key x), deploy_deployment_id x) = deployment_key x"
    by (simp add: deployment_idem_key_def deployment_key_def)
  have stored: "deployment_key a = j \<and> deployment_born a \<and>
      dict_get (deps_idempotency repo) (deployment_idem_key a) = Some (deploy_deployment_id a)"
    if "dict_get (deps_items repo) j = Some a" for j a
    using inv that unfolding deployment_repo_inv_def by blast
  have "deployment_key a = j \<and> deployment_born a \<and>
      dict_get (deps_idempotency t) (deployment_idem_key a) = Some (deploy_deployment_id a)"
    if "dict_get (deps_items t) j = Some a" for j a
  proof (cases "j = deployment_key x")
    case True
    with that items x idem show ?thesis by simp
  next
    case False
    with that items have "dict_get (deps_items repo) j = Some a" by simp
    with stored [OF this] fresh(2) idem show ?thesis by auto
  qed
  moreover have "\<exists>a. dict_get (deps_items t) (fst ik, did) = Some a \<and> deployment_idem_key a = ik"
    if ik: "dict_get (deps_idempotency t) ik = Some did" for ik did
  proof (cases "ik = deployment_idem_key x")
    case True
    with ik idem items key show ?thesis by simp
  next
    case False
    with ik idem have "dict_get (deps_idempotency repo) ik = Some did" by simp
    then obtain a where a: "dict_get (deps_items repo) (fst ik, did) = Some a" "deployment_idem_key a = ik"
      using inv unfolding deployment_repo_inv_def by blast
    with fresh(1) items show ?thesis by (cases "(fst ik, did) = deployment_key x") auto
  qed
  moreover have "depl_snapshot_key s = j" if "dict_get (deps_snapshots t) j = Some s" for j s
    using inv that unfolding deployment_repo_inv_def snaps by blast
  ultimately have "deployment_repo_inv t"
    unfolding deployment_repo_inv_def by blast
  moreover have "deployment_history repo t"
    unfolding deployment_history_def items snaps using fresh(1) by (auto simp: deployment_later_refl)
  ultimately show ?thesis ..
qed

lemma keeps_deployments_add:
  assumes "deployment_born x"
  shows "deploy.keeps b K (deployments_add x)"
proof (rule deploy.keepsI)
  fix w r t
  assume w: "deploy_sound b w" and run: "deployments_add x w = (r, t)"
  consider "t = w" | u where "deployment_add x (dw_deployments w) = Inr u"
      "t = w\<lparr>dw_deployments := u\<rparr>"
    using run by (auto simp: deployments_add_def split: sum.splits)
  then show "deploy_sys b w t"
  proof cases
    case (2 u)
    show ?thesis
      unfolding 2(2) using deployment_repo_inv_add [OF _ 2(1) assms] w
      by (intro deploy_sys_deployments) auto
  qed (simp add: deploy.sys_refl)
qed

lemma keeps_new_deployment [keeps_intros]:
  "deploy.keeps b K (new_deployment d tn user agent name action target e percent key)"
  unfolding new_deployment_def by (intro keeps_intros)

lemma yields_new_deployment:
  assumes "1 \<le> percent" and "percent \<le> 100"
  shows "deploy.yields b K (new_deployment d tn user agent name action target e percent key)
    deployment_born"
  unfolding new_deployment_def
  by (intro deploy.yields_bind deploy.yields_ret keeps_intros)
     (auto simp: deployment_born_def assms intro!: exI [of _ 0])

lemma keeps_commit_known:
  assumes r: "deploy_rely d"
    and known: "\<And>x. v = Some x \<Longrightarrow> KnowsBase (KnowsReservation x) \<in> K"
  shows "deploy.keeps (dd_base d) K (commit_promotion d v)"
    and "deploy.keeps (dd_base d) K (release_promotion d v)"
proof -
  have "deploy.keeps (dd_base d) K (in_base (quota_service_commit (dd_base d) x None)) \<and>
      deploy.keeps (dd_base d) K (in_base (quota_service_release (dd_base d) x False))"
    if "v = Some x" for x
    using known [OF that]
      upholds_service_commit [OF deploy_relyD [OF r], of x "{KnowsReservation x}" None]
      upholds_service_release [OF deploy_relyD [OF r], of x "{KnowsReservation x}" "{}" False]
    by (auto intro!: keeps_in_base [where F = "{KnowsReservation x}"])
  then show "deploy.keeps (dd_base d) K (commit_promotion d v)"
    "deploy.keeps (dd_base d) K (release_promotion d v)"
    unfolding commit_promotion_def release_promotion_def
    by (cases v; auto intro!: keeps_intros)+
qed

definition reservation_facts :: "resource_reservation option \<Rightarrow> deploy_fact set" where
  "reservation_facts v = (case v of None \<Rightarrow> {} | Some x \<Rightarrow> {KnowsBase (KnowsReservation x)})"

lemma keeps_bind_reserve_promotion:
  assumes r: "deploy_rely d"
    and f: "\<And>v. deploy.keeps (dd_base d) (K \<union> reservation_facts v) (f v)"
  shows "deploy.keeps (dd_base d) K (bindP (reserve_promotion d tn user request) f)"
proof (rule deploy.keeps_bind_learn [where L = reservation_facts])
  have base: "rely (dd_base d)" using r by (rule deploy_relyD)
  show "deploy.keeps (dd_base d) K (reserve_promotion d tn user request)"
    unfolding reserve_promotion_def
    by (intro keeps_intros keeps_in_base [where F = "{}"] upholds_service_reserve [OF base]) simp
  fix w v t g
  assume w: "deploy_sound (dd_base d) w" and run: "reserve_promotion d tn user request w = (Inr v, t)"
    and g: "g \<in> reservation_facts v"
  then obtain x where x: "v = Some x" "g = KnowsBase (KnowsReservation x)"
    by (auto simp: reservation_facts_def split: option.splits)
  with run obtain u where "quota_service_reserve (dd_base d) tn DeploymentPromotions 1
      (''deployment:'' @ user @ '':'' @ promote_idempotency_key request)
      (''deployment:'' @ user @ '':'' @ promote_idempotency_key request @ '':promotion'')
      (promotion_caller request) 3600 (dw_base w) = (Inr x, u)" "dw_base t = u"
    by (auto simp: reserve_promotion_def in_base_def split: if_splits prod.splits elim!: bindP_InrE)
  with service_reserve_known [OF base _ this(1)] w x
  show "deploy_knows t g" by (simp add: deploy_sound_def resv_later_def)
qed (rule f)

lemma keeps_store_promotion:
  assumes r: "deploy_rely d" and "deployment_born x"
  shows "deploy.keeps (dd_base d) (K \<union> reservation_facts v) (store_promotion d request v x s e)"
  unfolding store_promotion_def
  by (intro keeps_intros keeps_deployments_add keeps_commit_known r assms)
     (simp_all add: reservation_facts_def)

lemma keeps_promote_checked [keeps_intros]:
  assumes r: "deploy_rely d"
    and "1 \<le> promote_canary_percent request" "promote_canary_percent request \<le> 100"
  shows "deploy.keeps (dd_base d) K (promote_checked d tn user request e version h)"
  unfolding promote_checked_def
  by (intro keeps_intros r keeps_bind_reserve_promotion keeps_commit_known
      deploy.keeps_bind_yields [OF keeps_new_deployment yields_new_deployment]
      keeps_store_promotion assms)
     (simp_all add: reservation_facts_def)

lemma keeps_promote [keeps_intros]:
  assumes r: "deploy_rely d"
    and "1 \<le> promote_canary_percent request" "promote_canary_percent request \<le> 100"
  shows "deploy.keeps (dd_base d) K (promote d tn user request)"
  unfolding promote_def by (intro keeps_intros assms)

lemma keeps_roll_back [keeps_intros]:
  assumes r: "deploy_rely d"
  shows "deploy.keeps (dd_base d) K (roll_back d tn user agent name request)"
  unfolding roll_back_def
  by (intro keeps_intros r keeps_deployments_add
      deploy.keeps_bind_yields [OF keeps_new_deployment yields_new_deployment]) simp_all

lemma keeps_resolve_deployment [keeps_intros]:
  "deploy_rely d \<Longrightarrow> deploy.keeps (dd_base d) K (resolve_deployment d k key)"
  unfolding resolve_deployment_def by (intro keeps_intros)

subsection \<open>Sequences of calls\<close>

datatype deploy_call =
    CallEnvironment environment_ref
  | CallListEnvironments string string string
  | CallReplacePolicy string string string environment_name replace_environment_policy_request
  | CallPromote string string promote_request
  | CallRollback string string string environment_name rollback_request
  | CallView string string string
  | CallResolve environment_ref string
  | CallProcess
  | CallDrain string string nat

definition forget :: "'a dhandler \<Rightarrow> unit dhandler" where
  "forget m = thenP m (ret ())"

fun deploy_perform :: "deploy_deps \<Rightarrow> deploy_call \<Rightarrow> unit dhandler" where
  "deploy_perform d (CallEnvironment k) = forget (environment_of d k)"
| "deploy_perform d (CallListEnvironments tn owner agent) = forget (list_environments d tn owner agent)"
| "deploy_perform d (CallReplacePolicy tn user agent name request) =
     forget (replace_environment_policy d tn user agent name request)"
| "deploy_perform d (CallPromote tn user request) = forget (promote d tn user request)"
| "deploy_perform d (CallRollback tn user agent name request) =
     forget (roll_back d tn user agent name request)"
| "deploy_perform d (CallView tn owner did) = forget (view_of d tn owner did)"
| "deploy_perform d (CallResolve k key) = forget (resolve_deployment d k key)"
| "deploy_perform d CallProcess = forget (process_once d)"
| "deploy_perform d (CallDrain tn did n) = forget (drain_locally d tn did n)"

text \<open>A request that pydantic accepts has a canary share between 1 and 100.\<close>

fun call_valid :: "deploy_call \<Rightarrow> bool" where
  "call_valid (CallPromote tn user request) \<longleftrightarrow>
     1 \<le> promote_canary_percent request \<and> promote_canary_percent request \<le> 100"
| "call_valid _ \<longleftrightarrow> True"

inductive deploy_steps :: "deploy_deps \<Rightarrow> deploy_world \<Rightarrow> deploy_world \<Rightarrow> bool" for d where
  none: "deploy_steps d w w"
| call: "deploy_steps d w u \<Longrightarrow> call_valid c \<Longrightarrow> deploy_perform d c u = (r, v) \<Longrightarrow>
    deploy_steps d w v"

lemma keeps_deploy_perform:
  assumes "deploy_rely d" and "call_valid c"
  shows "deploy.keeps (dd_base d) {} (deploy_perform d c)"
  using assms(2)
  by (cases c)
     (auto simp: forget_def intro!: keeps_intros keeps_process_once keeps_drain_locally assms(1))

lemma deploy_steps_sys:
  assumes "deploy_steps d w t" and "deploy_rely d" and "deploy_sound (dd_base d) w"
  shows "deploy_sys (dd_base d) w t \<and> deploy_sound (dd_base d) t"
  using assms
proof (induction rule: deploy_steps.induct)
  case (none w)
  then show ?case by (simp add: deploy.sys_refl)
next
  case (call w u c r v)
  then have wu: "deploy_sys (dd_base d) w u" "deploy_sound (dd_base d) u" by simp_all
  have uv: "deploy_sys (dd_base d) u v"
    by (rule deploy.keepsD [OF keeps_deploy_perform [OF call.prems(1) call.hyps(2)] wu(2) _
          call.hyps(3)]) simp
  then show ?case using wu deploy.sys_trans deploy.sys_sound by blast
qed

definition deploy_world_empty :: deploy_world where
  "deploy_world_empty = \<lparr>dw_environments = [], dw_deployments = deployment_repo_empty,
     dw_queue = queue_empty, dw_registry = [], dw_base = world_empty, dw_awaits = 0\<rparr>"

lemma deploy_sound_empty: "deploy_sound b deploy_world_empty"
  by (simp add: deploy_sound_def deploy_world_empty_def environment_repo_inv_def
      deployment_repo_inv_def deployment_repo_empty_def world_sound_empty)

lemma deploy_sound_registry [simp]: "deploy_sound b (w\<lparr>dw_registry := rs\<rparr>) = deploy_sound b w"
  by (simp add: deploy_sound_def)

end
