(* ===== verification/Deployment_Properties.thy ===== *)
theory Deployment_Properties
  imports Deployment_Platform
begin

section \<open>Deployments: what holds\<close>

subsection \<open>Under any interleaving\<close>

text \<open>
  C37. Whatever promotions, rollbacks, policy changes and reconciliations happen, interrupted at
  every await by others that keep the protocol: an environment serves nothing or routes with
  positive weights that total 100 and name different snapshots; the fencing token of a deployment
  is the number of steps from queued to its status, and it is indexed by its idempotency key.
\<close>

theorem deployments_invariants:
  assumes "deploy_rely d" and "deploy_steps d deploy_world_empty w"
  shows "(\<forall>k. case dict_get (dw_environments w) k of
      None \<Rightarrow> True
    | Some e \<Rightarrow> environment_key e = k \<and>
        (env_routes e = [] \<or> sum_list (map route_weight (env_routes e)) = 100) \<and>
        distinct (map route_snapshot_id (env_routes e)) \<and>
        list_all (\<lambda>r. 1 \<le> route_weight r) (env_routes e)) \<and>
    (\<forall>k. case dict_get (deps_items (dw_deployments w)) k of
      None \<Rightarrow> True
    | Some x \<Rightarrow> deployment_key x = k \<and>
        (\<exists>n. (DeployQueued, deploy_status x) \<in> deploy_edge ^^ n \<and> deploy_fencing_token x = int n) \<and>
        deployment_find_by_idempotency (dw_deployments w) (deploy_tenant_id x)
          (deploy_requested_by x) (deploy_idempotency_key x) = Inr (Some x))"
proof -
  have w: "deploy_sound (dd_base d) w"
    using deploy_steps_sys [OF assms(2,1) deploy_sound_empty] by blast
  have "environment_key e = k \<and> environment_ok e" if "dict_get (dw_environments w) k = Some e" for k e
    using w that unfolding deploy_sound_def environment_repo_inv_def by blast
  moreover have "deployment_key x = k \<and> deployment_born x \<and>
      dict_get (deps_idempotency (dw_deployments w)) (deployment_idem_key x) = Some (deploy_deployment_id x)"
    if "dict_get (deps_items (dw_deployments w)) k = Some x" for k x
    using w that unfolding deploy_sound_def deployment_repo_inv_def by blast
  ultimately show ?thesis
    by (fastforce simp: environment_ok_def valid_routes_def deployment_born_def
        deployment_find_by_idempotency_def deployment_idem_key_def deployment_key_def
        split: option.split if_splits)
qed

text \<open>
  Between two states: a finished deployment never changes again, and an unfinished one keeps
  everything but status, token, times and error and only moves along the edges; an environment
  keeps its place, its revision never falls, and it changes only with its revision.
\<close>

theorem deployments_history:
  assumes "deploy_rely d" and "deploy_steps d deploy_world_empty w" and "deploy_steps d w u"
  shows "(\<forall>k. case dict_get (deps_items (dw_deployments w)) k of
      None \<Rightarrow> True
    | Some x \<Rightarrow> (\<exists>y. dict_get (deps_items (dw_deployments u)) k = Some y \<and> deployment_later x y \<and>
        (y = x \<or> \<not> deployment_is_terminal (deploy_status x)))) \<and>
    (\<forall>k. case dict_get (dw_environments w) k of
      None \<Rightarrow> True
    | Some e \<Rightarrow> (\<exists>f. dict_get (dw_environments u) k = Some f \<and>
        env_revision e \<le> env_revision f \<and> (f = e \<or> env_revision e < env_revision f)))"
proof -
  have w: "deploy_sound (dd_base d) w"
    using deploy_steps_sys [OF assms(2,1) deploy_sound_empty] by blast
  note wu = deploy_sysD [OF conjunct1 [OF deploy_steps_sys [OF assms(3,1) w]]]
  have "\<exists>y. dict_get (deps_items (dw_deployments u)) k = Some y \<and> deployment_later x y \<and>
      (y = x \<or> \<not> deployment_is_terminal (deploy_status x))"
    if "dict_get (deps_items (dw_deployments w)) k = Some x" for k x
    using deployment_historyD [OF wu(2) that] deployment_later_terminal by blast
  moreover have "\<exists>f. dict_get (dw_environments u) k = Some f \<and> env_revision e \<le> env_revision f \<and>
      (f = e \<or> env_revision e < env_revision f)"
    if "dict_get (dw_environments w) k = Some e" for k e
    using environment_historyD [OF wu(1) that] by (auto simp: environment_later_def)
  ultimately show ?thesis by (simp split: option.split)
qed

subsection \<open>One deployment, undisturbed\<close>

definition deploy_alone :: "deploy_deps \<Rightarrow> bool" where
  "deploy_alone d \<longleftrightarrow> (\<forall>n w. dd_others d n w = w)"

lemma dawait_alone: "deploy_alone d \<Longrightarrow> dawait d m w = m (w\<lparr>dw_awaits := Suc (dw_awaits w)\<rparr>)"
  by (simp add: dawait_def dsuspended_def deploy_alone_def)

lemma dclock_apply:
  "dclock d w = (Inr (d_clock (dd_base d) (w_clock_reads (dw_base w))),
     w\<lparr>dw_base := (dw_base w)\<lparr>w_clock_reads := Suc (w_clock_reads (dw_base w))\<rparr>\<rparr>)"
  by (simp add: dclock_def in_base_def clock_def)

text \<open>Only the clock and the count of awaits differ.\<close>

definition same_stores :: "deploy_world \<Rightarrow> deploy_world \<Rightarrow> bool" where
  "same_stores s t \<longleftrightarrow> dw_environments t = dw_environments s \<and> dw_deployments t = dw_deployments s \<and>
     dw_queue t = dw_queue s"

lemma completed_time_alone:
  obtains c b where "completed_time d s w = (Inr c, w\<lparr>dw_base := b\<rparr>)"
proof (cases "deployment_is_terminal s")
  case True
  then show thesis using that by (simp add: completed_time_def bindP_apply dclock_apply)
next
  case False
  then show thesis using that [of None "dw_base w"] by (simp add: completed_time_def)
qed

lemma move_alone:
  assumes a: "deploy_alone d"
    and x: "dict_get (deps_items (dw_deployments w)) (deployment_key x) = Some x"
  obtains y t where "move_deployment d x s err w = (Inr y, t)"
    and "deploy_status y = s" and "deploy_error_code y = err"
    and "deploy_fencing_token y = deploy_fencing_token x + 1" and "deployment_key y = deployment_key x"
    and "dw_deployments t = (dw_deployments w)\<lparr>deps_items :=
      dict_set (deployment_key x) y (deps_items (dw_deployments w))\<rparr>"
    and "dw_environments t = dw_environments w" and "dw_queue t = dw_queue w"
    and "deploy_target_snapshot_id y = deploy_target_snapshot_id x"
proof -
  let ?v = "w\<lparr>dw_base := (dw_base w)\<lparr>w_clock_reads := Suc (w_clock_reads (dw_base w))\<rparr>\<rparr>"
  obtain c b where c: "completed_time d s ?v = (Inr c, ?v\<lparr>dw_base := b\<rparr>)"
    using completed_time_alone by blast
  define y where "y = x\<lparr>deploy_status := s, deploy_fencing_token := deploy_fencing_token x + 1,
    deploy_updated_at := d_clock (dd_base d) (w_clock_reads (dw_base w)), deploy_completed_at := c,
    deploy_error_code := err\<rparr>"
  have key: "deployment_key y = deployment_key x" by (simp add: y_def deployment_key_def)
  have token: "deploy_fencing_token y = deploy_fencing_token x + 1" by (simp add: y_def)
  let ?t = "w\<lparr>dw_base := b, dw_awaits := Suc (dw_awaits w), dw_deployments := (dw_deployments w)\<lparr>deps_items :=
      dict_set (deployment_key x) y (deps_items (dw_deployments w))\<rparr>\<rparr>"
  have "move_deployment d x s err w = (Inr y, ?t)"
    unfolding move_deployment_def
    by (simp add: bindP_apply dclock_apply c Let_def dawait_alone [OF a])
       (simp add: deployments_cas_def deployment_cas_def deployment_key_def
         x [unfolded deployment_key_def] y_def)
  then show thesis
    by (rule that) (simp_all add: key token, simp_all add: y_def)
qed

text \<open>Whether a deployment may go ahead, and what the environment becomes.\<close>

definition goes_ahead :: "deployment \<Rightarrow> environment \<Rightarrow> bool" where
  "goes_ahead x e \<longleftrightarrow> env_revision e = deploy_expected_environment_revision x \<and>
     (deploy_canary_percent x < 100 \<longrightarrow> env_healthy_snapshot_id e \<noteq> None)"

definition serves :: "deployment \<Rightarrow> deployment_snapshot \<Rightarrow> environment \<Rightarrow> deployment_route list" where
  "serves x s e =
     (if deploy_canary_percent x < 100
      then canary_routes (the (env_healthy_snapshot_id e)) s (deploy_canary_percent x)
      else full_route s)"

lemma move_stores:
  assumes "deploy_alone d" and "dict_get (deps_items (dw_deployments w)) (deployment_key x) = Some x"
  shows "\<exists>y t. move_deployment d x s err w = (Inr y, t) \<and>
    dict_get (deps_items (dw_deployments t)) (deployment_key x) = Some y \<and>
    deployment_key y = deployment_key x \<and> deploy_status y = s \<and> deploy_error_code y = err \<and>
    deploy_target_snapshot_id y = deploy_target_snapshot_id x \<and>
    deps_snapshots (dw_deployments t) = deps_snapshots (dw_deployments w) \<and>
    dw_environments t = dw_environments w \<and> dw_queue t = dw_queue w"
proof -
  obtain y t where "move_deployment d x s err w = (Inr y, t)" "deploy_status y = s"
      "deploy_error_code y = err" "deployment_key y = deployment_key x"
      "dw_deployments t = (dw_deployments w)\<lparr>deps_items :=
        dict_set (deployment_key x) y (deps_items (dw_deployments w))\<rparr>"
      "dw_environments t = dw_environments w" "dw_queue t = dw_queue w"
      "deploy_target_snapshot_id y = deploy_target_snapshot_id x"
    using move_alone [OF assms] .
  then show ?thesis by auto
qed

lemma switch_alone:
  assumes a: "deploy_alone d"
    and x: "dict_get (deps_items (dw_deployments w)) (deployment_key x) = Some x"
    and e: "dict_get (dw_environments w) (environment_key e) = Some e"
  obtains y t f where "switch_environment d x e routes healthy w = (Inr y, t)"
    and "deploy_status y = DeploySucceeded" and "deploy_error_code y = None"
    and "deployment_key y = deployment_key x"
    and "dw_deployments t = (dw_deployments w)\<lparr>deps_items :=
      dict_set (deployment_key x) y (deps_items (dw_deployments w))\<rparr>"
    and "dw_environments t = dict_set (environment_key e) f (dw_environments w)"
    and "f = e\<lparr>env_revision := env_revision e + 1, env_routes := routes,
      env_healthy_snapshot_id := Some healthy, env_updated_at := env_updated_at f\<rparr>"
    and "dw_queue t = dw_queue w"
proof -
  define f where "f = e\<lparr>env_revision := env_revision e + 1, env_routes := routes,
    env_healthy_snapshot_id := Some healthy,
    env_updated_at := d_clock (dd_base d) (w_clock_reads (dw_base w))\<rparr>"
  have f: "environment_key f = environment_key e" "env_revision f = env_revision e + 1"
    by (simp_all add: f_def environment_key_def)
  define v where "v = w\<lparr>dw_base := (dw_base w)\<lparr>w_clock_reads := Suc (w_clock_reads (dw_base w))\<rparr>,
    dw_awaits := Suc (dw_awaits w), dw_environments := dict_set (environment_key e) f (dw_environments w)\<rparr>"
  have "switch_environment d x e routes healthy w = move_deployment d x DeploySucceeded None v"
    unfolding switch_environment_def
    by (simp add: bindP_apply dclock_apply Let_def dawait_alone [OF a])
       (simp add: environments_cas_def environment_cas_def environment_key_def
         e [unfolded environment_key_def] v_def f_def)
  moreover have "dict_get (deps_items (dw_deployments v)) (deployment_key x) = Some x"
    by (simp add: v_def x)
  ultimately obtain y t where "switch_environment d x e routes healthy w = (Inr y, t)"
      "deploy_status y = DeploySucceeded" "deploy_error_code y = None"
      "deployment_key y = deployment_key x"
      "dw_deployments t = (dw_deployments v)\<lparr>deps_items :=
        dict_set (deployment_key x) y (deps_items (dw_deployments v))\<rparr>"
      "dw_environments t = dw_environments v" "dw_queue t = dw_queue v"
    using move_alone [OF a, of v x DeploySucceeded None] by metis
  then show thesis
    by (intro that [of y t f]) (simp_all add: v_def, simp_all add: f_def)
qed

lemma reconcile_starts:
  assumes a: "deploy_alone d" and x: "dict_get (deps_items (dw_deployments w)) (tn, did) = Some x"
    and status: "deploy_status x = DeployReconciling"
    and s: "depl_snapshot_get (dw_deployments w) tn (deploy_target_snapshot_id x) = Inr s"
  shows "reconcile d tn did w =
    catchP (reconcile_environment d x s)
      (\<lambda>_. move_deployment d x DeployFailed (Some ''deployment_reconcile_failed''))
      (w\<lparr>dw_awaits := Suc (Suc (dw_awaits w))\<rparr>)"
  using x status s
  by (simp add: reconcile_def bindP_apply dawait_alone [OF a] deployments_get_def snapshots_get_def
      dask_def deployment_get_def deployment_is_terminal_def)

text \<open>
  What \<open>reconcile_environment\<close> does: it stops with an error before it has written anything, or it
  fails the deployment, or it switches the environment.
\<close>

lemma reconcile_environment_alone:
  assumes a: "deploy_alone d"
    and e: "dict_get (dw_environments w) (deploy_tenant_id x, deploy_requested_by x, deploy_agent_name x,
      deploy_environment x) = Some e"
    and hook: "dd_deploy d (Suc (Suc (dw_awaits w))) s = h"
  shows "reconcile_environment d x s w =
    (if env_revision e \<noteq> deploy_expected_environment_revision x
     then move_deployment d x DeployFailed (Some ''environment_revision_conflict'')
       (w\<lparr>dw_awaits := Suc (dw_awaits w)\<rparr>)
     else case h of
       Inl err \<Rightarrow> (Inl err, w\<lparr>dw_awaits := Suc (Suc (dw_awaits w))\<rparr>)
     | Inr _ \<Rightarrow>
         (if \<not> goes_ahead x e
          then move_deployment d x DeployFailed (Some ''canary_requires_healthy_version'')
          else switch_environment d x e (serves x s e)
            (if deploy_canary_percent x < 100 then the (env_healthy_snapshot_id e)
             else depsnap_snapshot_id s)) (w\<lparr>dw_awaits := Suc (Suc (dw_awaits w))\<rparr>))"
  using e hook
  by (auto simp: reconcile_environment_def bindP_apply thenP_apply dawait_alone [OF a] environments_get_def
      environment_get_def external_def dask_def goes_ahead_def serves_def split: option.split sum.split)

text \<open>
  C38. Undisturbed, a deployment that is being reconciled finishes. If the environment still has
  the revision the deployment was made for, a canary has a healthy version to share with, and the
  rollout hook succeeds, it succeeds and the environment, one revision later, serves the target
  in full, or shares with the healthy version in the requested proportion and keeps that as
  healthy; otherwise it fails with a reason and the environments are as before.
\<close>

theorem reconcile_outcome:
  assumes a: "deploy_alone d" and key: "deployment_key x = (tn, did)"
    and x: "dict_get (deps_items (dw_deployments w)) (tn, did) = Some x"
    and status: "deploy_status x = DeployReconciling"
    and s: "depl_snapshot_get (dw_deployments w) tn (deploy_target_snapshot_id x) = Inr s"
    and e: "dict_get (dw_environments w) (environment_key e) = Some e"
    and place: "environment_key e = (tn, deploy_requested_by x, deploy_agent_name x, deploy_environment x)"
  shows "case reconcile d tn did w of
      (Inl err, t) \<Rightarrow> False
    | (Inr y, t) \<Rightarrow> deployment_get (dw_deployments t) tn did = Inr y \<and>
        (if goes_ahead x e \<and> dd_deploy d (dw_awaits w + 4) s = Inr ()
         then deploy_status y = DeploySucceeded \<and> deploy_error_code y = None \<and>
           (\<exists>f. environment_get (dw_environments t) (environment_key e) = Inr f \<and>
             f = e\<lparr>env_revision := env_revision e + 1, env_routes := serves x s e,
               env_healthy_snapshot_id := Some (if deploy_canary_percent x < 100
                 then the (env_healthy_snapshot_id e) else depsnap_snapshot_id s),
               env_updated_at := env_updated_at f\<rparr>)
         else deploy_status y = DeployFailed \<and> deploy_error_code y \<noteq> None \<and>
           dw_environments t = dw_environments w)"
proof -
  have tn: "deploy_tenant_id x = tn" using key by (simp add: deployment_key_def)
  let ?w = "\<lambda>n. w\<lparr>dw_awaits := n\<rparr>"
  have stored: "dict_get (deps_items (dw_deployments (?w n))) (deployment_key x) = Some x" for n
    using x key by simp
  have found: "dict_get (dw_environments (?w n)) (environment_key e) = Some e" for n using e by simp
  have go: "reconcile d tn did w = catchP (reconcile_environment d x s)
      (\<lambda>_. move_deployment d x DeployFailed (Some ''deployment_reconcile_failed'')) (?w (Suc (Suc (dw_awaits w))))"
    using a x status s by (rule reconcile_starts)
  define h where "h = dd_deploy d (dw_awaits w + 4) s"
  have hook: "dd_deploy d (Suc (Suc (dw_awaits (?w (Suc (Suc (dw_awaits w))))))) s = h"
    by (simp add: h_def numeral_eq_Suc)
  note env = reconcile_environment_alone [OF a, of "?w (Suc (Suc (dw_awaits w)))" x e s h]
  have e': "dict_get (dw_environments (?w (Suc (Suc (dw_awaits w))))) (deploy_tenant_id x,
      deploy_requested_by x, deploy_agent_name x, deploy_environment x) = Some e"
    using e place tn by simp
  have failed: "case move_deployment d x DeployFailed (Some code) (?w n) of
      (Inl err, t) \<Rightarrow> False
    | (Inr y, t) \<Rightarrow> deployment_get (dw_deployments t) tn did = Inr y \<and> deploy_status y = DeployFailed \<and>
        deploy_error_code y \<noteq> None \<and> dw_environments t = dw_environments w" for code n
    using move_stores [OF a stored [of n], of DeployFailed "Some code"] key
    by (auto simp: deployment_get_def)
  let ?v = "?w (Suc (Suc (Suc (Suc (dw_awaits w)))))"
  let ?healthy = "if deploy_canary_percent x < 100 then the (env_healthy_snapshot_id e)
    else depsnap_snapshot_id s"
  consider (stale) "env_revision e \<noteq> deploy_expected_environment_revision x"
    | (refused) err where "env_revision e = deploy_expected_environment_revision x" "h = Inl err"
    | (canary) "env_revision e = deploy_expected_environment_revision x" "h = Inr ()" "\<not> goes_ahead x e"
    | (switch) "goes_ahead x e" "h = Inr ()"
    by (cases h; cases "goes_ahead x e";
        cases "env_revision e = deploy_expected_environment_revision x") simp_all
  then show ?thesis
  proof cases
    case stale
    then have "reconcile d tn did w = move_deployment d x DeployFailed
        (Some ''environment_revision_conflict'') (?w (Suc (Suc (Suc (dw_awaits w)))))"
      using failed [of "''environment_revision_conflict''" "Suc (Suc (Suc (dw_awaits w)))"]
      by (simp add: go catchP_apply env [OF e' hook] split: prod.splits sum.splits)
    with failed [of "''environment_revision_conflict''" "Suc (Suc (Suc (dw_awaits w)))"] stale
    show ?thesis by (simp add: goes_ahead_def split: prod.splits sum.splits flip: h_def)
  next
    case (refused err)
    then have "reconcile d tn did w =
        move_deployment d x DeployFailed (Some ''deployment_reconcile_failed'') ?v"
      by (simp add: go catchP_apply env [OF e' hook])
    with failed [of "''deployment_reconcile_failed''" "Suc (Suc (Suc (Suc (dw_awaits w))))"] refused
    show ?thesis by (simp split: prod.splits sum.splits flip: h_def)
  next
    case canary
    then have "reconcile d tn did w =
        move_deployment d x DeployFailed (Some ''canary_requires_healthy_version'') ?v"
      using failed [of "''canary_requires_healthy_version''" "Suc (Suc (Suc (Suc (dw_awaits w))))"]
      by (simp add: go catchP_apply env [OF e' hook] split: prod.splits sum.splits)
    with failed [of "''canary_requires_healthy_version''" "Suc (Suc (Suc (Suc (dw_awaits w))))"] canary
    show ?thesis by (simp split: prod.splits sum.splits flip: h_def)
  next
    case switch
    obtain y t f where sw: "switch_environment d x e (serves x s e) ?healthy ?v = (Inr y, t)"
        "deploy_status y = DeploySucceeded" "deploy_error_code y = None"
        "deployment_key y = deployment_key x"
        "dw_deployments t = (dw_deployments ?v)\<lparr>deps_items :=
          dict_set (deployment_key x) y (deps_items (dw_deployments ?v))\<rparr>"
        "dw_environments t = dict_set (environment_key e) f (dw_environments ?v)"
        "f = e\<lparr>env_revision := env_revision e + 1, env_routes := serves x s e,
          env_healthy_snapshot_id := Some ?healthy, env_updated_at := env_updated_at f\<rparr>"
        "dw_queue t = dw_queue ?v"
      using switch_alone [OF a stored found] .
    have "reconcile d tn did w = (Inr y, t)"
      using switch sw(1) by (simp add: go catchP_apply env [OF e' hook] goes_ahead_def)
    moreover have "deployment_get (dw_deployments t) tn did = Inr y"
      using sw(5) key by (simp add: deployment_get_def)
    moreover have "environment_get (dw_environments t) (environment_key e) = Inr f"
      using sw(6) by (simp add: environment_get_def)
    ultimately show ?thesis using switch sw(2,3,7) by (simp flip: h_def)
  qed
qed

subsection \<open>Converging\<close>

text \<open>Reconciling leaves the queue alone.\<close>

definition same_queue :: "deploy_world \<Rightarrow> deploy_world \<Rightarrow> bool" where
  "same_queue s t \<longleftrightarrow> dw_queue t = dw_queue s"

interpretation same_queue: evolution same_queue
  by unfold_locales (simp_all add: same_queue_def)

lemma same_queue_ports [evolves_intros]:
  "evolves same_queue (dask f)" "evolves same_queue (in_base m)"
  "evolves same_queue (deployments_cas s u)" "evolves same_queue (environments_cas n f')"
  by (auto simp: evolves_def same_queue_def dask_def in_base_def deployments_cas_def
      environments_cas_def split: prod.split sum.split)

lemma same_queue_dawait [evolves_intros]:
  "deploy_alone d \<Longrightarrow> evolves same_queue m \<Longrightarrow> evolves same_queue (dawait d m)"
  by (simp add: evolves_def same_queue_def dawait_alone)

lemma reconcile_queue:
  assumes "deploy_alone d"
  shows "evolves same_queue (reconcile d tn did)"
  unfolding reconcile_def reconcile_environment_def switch_environment_def move_deployment_def
    completed_time_def dclock_def deployments_get_def snapshots_get_def environments_get_def external_def
  by (intro evolves_intros assms)

lemma reconcile_finishes:
  assumes a: "deploy_alone d" and w: "environment_repo_inv (dw_environments w)"
    and key: "deployment_key x = (tn, did)"
    and x: "dict_get (deps_items (dw_deployments w)) (tn, did) = Some x"
    and status: "deploy_status x = DeployReconciling"
    and s: "depl_snapshot_get (dw_deployments w) tn (deploy_target_snapshot_id x) = Inr s"
  shows "\<exists>y t. reconcile d tn did w = (Inr y, t) \<and> deployment_is_terminal (deploy_status y) \<and>
    dict_get (deps_items (dw_deployments t)) (tn, did) = Some y \<and> dw_queue t = dw_queue w"
proof -
  have tn: "deploy_tenant_id x = tn" using key by (simp add: deployment_key_def)
  let ?w = "\<lambda>n. w\<lparr>dw_awaits := n\<rparr>"
  have stored: "dict_get (deps_items (dw_deployments (?w n))) (deployment_key x) = Some x" for n
    using x key by simp
  have failed: "\<exists>y t. move_deployment d x DeployFailed code (?w n) = (Inr y, t) \<and>
      deployment_is_terminal (deploy_status y) \<and>
      dict_get (deps_items (dw_deployments t)) (tn, did) = Some y \<and> dw_queue t = dw_queue w" for code n
    using move_stores [OF a stored [of n], of DeployFailed code] key
    by (auto simp: deployment_is_terminal_def)
  have go: "reconcile d tn did w = catchP (reconcile_environment d x s)
      (\<lambda>_. move_deployment d x DeployFailed (Some ''deployment_reconcile_failed'')) (?w (Suc (Suc (dw_awaits w))))"
    using a x status s by (rule reconcile_starts)
  let ?k = "(deploy_tenant_id x, deploy_requested_by x, deploy_agent_name x, deploy_environment x)"
  show ?thesis
  proof (cases "dict_get (dw_environments w) ?k")
    case None
    then have "fst (reconcile_environment d x s (?w (Suc (Suc (dw_awaits w))))) = Inl (NotFoundError
        (''Environment not found: '' @ deploy_agent_name x @ ''/'' @
          environment_name_value (deploy_environment x)))"
      "snd (reconcile_environment d x s (?w (Suc (Suc (dw_awaits w))))) = ?w (Suc (Suc (Suc (dw_awaits w))))"
      by (simp_all add: reconcile_environment_def bindP_apply dawait_alone [OF a] environments_get_def
          environment_get_def dask_def)
    with failed show ?thesis by (simp add: go catchP_apply case_prod_beta)
  next
    case (Some e)
    then have place: "environment_key e = ?k"
      using w unfolding environment_repo_inv_def by blast
    with Some have e: "dict_get (dw_environments w) (environment_key e) = Some e" by simp
    have out: "case reconcile d tn did w of (Inl err, t) \<Rightarrow> False
      | (Inr y, t) \<Rightarrow> deployment_get (dw_deployments t) tn did = Inr y \<and>
          deployment_is_terminal (deploy_status y)"
      using reconcile_outcome [OF a key x status s e] place tn
      by (auto simp: deployment_is_terminal_def split: prod.splits sum.splits if_splits)
    have "dw_queue (snd (reconcile d tn did w)) = dw_queue w"
      using reconcile_queue [OF a] by (simp add: evolves_def same_queue_def)
    with out show ?thesis
      by (cases "reconcile d tn did w")
         (auto simp: deployment_get_def split: sum.splits option.splits)
  qed
qed

lemma process_once_task:
  assumes a: "deploy_alone d" and q: "dw_queue w = queue_enqueue (raw_task task) queue_empty"
    and run: "reconcile d (deptask_tenant_id task) (deptask_deployment_id task)
      (w\<lparr>dw_awaits := Suc (dw_awaits w), dw_queue := snd (queue_dequeue (dw_queue w))\<rparr>) = (Inr y, t)"
    and same: "dw_queue t = snd (queue_dequeue (dw_queue w))"
  shows "process_once d w = (Inr (Some y), t\<lparr>dw_awaits := Suc (dw_awaits t),
    dw_queue := (if deployment_is_terminal (deploy_status y) then queue_empty else dw_queue w)\<rparr>)"
proof -
  have "queue_acknowledge (raw_task task) (dw_queue t) = queue_empty"
      "queue_retry (raw_task task) (dw_queue t) = dw_queue w"
    unfolding same q
    by (simp_all add: queue_enqueue_def queue_empty_def queue_dequeue_def queue_acknowledge_def
        queue_retry_def set_add_def)
  moreover obtain q1 where "queue_dequeue (dw_queue w) = (Some (raw_task task), q1)"
    unfolding q by (simp add: queue_enqueue_def queue_empty_def queue_dequeue_def)
  then have "dawait d deployment_dequeue w = (Inr (Some task),
      w\<lparr>dw_awaits := Suc (dw_awaits w), dw_queue := snd (queue_dequeue (dw_queue w))\<rparr>)"
    by (simp add: dawait_alone [OF a] deployment_dequeue_def raw_task_def)
  ultimately show ?thesis
    using run
    by (simp add: process_once_def bindP_apply thenP_apply catchP_apply dawait_alone [OF a]
        deployment_acknowledge_def deployment_retry_def)
qed

lemma drain_round:
  assumes a: "deploy_alone d" and "process_once d w = (Inr v, t)"
    and "dict_get (deps_items (dw_deployments t)) (tn, did) = Some y"
  shows "drain_locally d tn did (Suc n) w =
    (if deployment_is_terminal (deploy_status y) then (Inr y, t\<lparr>dw_awaits := Suc (dw_awaits t)\<rparr>)
     else drain_locally d tn did n (t\<lparr>dw_awaits := Suc (dw_awaits t)\<rparr>))"
  using assms(2,3)
  by (simp add: bindP_apply dawait_alone [OF a] deployments_get_def dask_def deployment_get_def)

text \<open>
  C39. In local execution a queued deployment that is alone in the queue converges: two rounds
  bring it to a finished status, which is what \<^verbatim>\<open>drain_locally\<close> returns and what is stored, and
  the queue is empty again.
\<close>

theorem drain_converges:
  assumes a: "deploy_alone d" and w: "environment_repo_inv (dw_environments w)"
    and key: "deployment_key x = (tn, did)"
    and x: "dict_get (deps_items (dw_deployments w)) (tn, did) = Some x"
    and status: "deploy_status x = DeployQueued"
    and s: "depl_snapshot_get (dw_deployments w) tn (deploy_target_snapshot_id x) = Inr s"
    and q: "dw_queue w = queue_enqueue (raw_task \<lparr>deptask_tenant_id = tn, deptask_deployment_id = did\<rparr>) queue_empty"
  shows "case drain_locally d tn did (Suc (Suc n)) w of
      (Inl err, t) \<Rightarrow> False
    | (Inr y, t) \<Rightarrow> deployment_is_terminal (deploy_status y) \<and>
        deployment_get (dw_deployments t) tn did = Inr y \<and> dw_queue t = queue_empty"
proof -
  let ?task = "\<lparr>deptask_tenant_id = tn, deptask_deployment_id = did\<rparr>"
  let ?w1 = "w\<lparr>dw_awaits := Suc (dw_awaits w), dw_queue := snd (queue_dequeue (dw_queue w))\<rparr>"
  let ?w2 = "?w1\<lparr>dw_awaits := Suc (dw_awaits ?w1)\<rparr>"
  have stored: "dict_get (deps_items (dw_deployments ?w2)) (deployment_key x) = Some x"
    using x key by simp
  obtain y t where y: "move_deployment d x DeployReconciling None ?w2 = (Inr y, t)"
      "dict_get (deps_items (dw_deployments t)) (deployment_key x) = Some y"
      "deployment_key y = deployment_key x" "deploy_status y = DeployReconciling"
      "deploy_target_snapshot_id y = deploy_target_snapshot_id x"
      "deps_snapshots (dw_deployments t) = deps_snapshots (dw_deployments ?w2)"
      "dw_environments t = dw_environments ?w2" "dw_queue t = dw_queue ?w2"
    using move_stores [OF a stored, of DeployReconciling None] by blast
  have rec1: "reconcile d tn did ?w1 = (Inr y, t)"
    using x status y(1)
    by (simp add: reconcile_def bindP_apply dawait_alone [OF a] deployments_get_def dask_def
        deployment_get_def deployment_is_terminal_def)
  define u where "u = t\<lparr>dw_awaits := Suc (dw_awaits t), dw_queue := dw_queue w\<rparr>"
  have once1: "process_once d w = (Inr (Some y), u)"
    using process_once_task [OF a q, of y t] rec1 y(4,8)
    by (simp add: u_def deployment_is_terminal_def)
  define v where "v = u\<lparr>dw_awaits := Suc (dw_awaits u)\<rparr>"
  have yu: "dict_get (deps_items (dw_deployments u)) (tn, did) = Some y"
    using y(2) key by (simp add: u_def)
  have round1: "drain_locally d tn did (Suc (Suc n)) w = drain_locally d tn did (Suc n) v"
    using drain_round [OF a once1 yu] y(4) by (simp add: v_def deployment_is_terminal_def)
  have qv: "dw_queue v = queue_enqueue (raw_task ?task) queue_empty" by (simp add: v_def u_def q)
  let ?v1 = "v\<lparr>dw_awaits := Suc (dw_awaits v), dw_queue := snd (queue_dequeue (dw_queue v))\<rparr>"
  have v1: "environment_repo_inv (dw_environments ?v1)" "deployment_key y = (tn, did)"
      "dict_get (deps_items (dw_deployments ?v1)) (tn, did) = Some y"
      "depl_snapshot_get (dw_deployments ?v1) tn (deploy_target_snapshot_id y) = Inr s"
    using w y(2,3,5,6,7) key s by (simp_all add: v_def u_def depl_snapshot_get_def)
  obtain z t' where z: "reconcile d tn did ?v1 = (Inr z, t')" "deployment_is_terminal (deploy_status z)"
      "dict_get (deps_items (dw_deployments t')) (tn, did) = Some z" "dw_queue t' = dw_queue ?v1"
    using reconcile_finishes [OF a v1(1,2,3) y(4) v1(4)] by blast
  define u' where "u' = t'\<lparr>dw_awaits := Suc (dw_awaits t'), dw_queue := queue_empty\<rparr>"
  have once2: "process_once d v = (Inr (Some z), u')"
    using process_once_task [OF a qv, of z t'] z by (simp add: u'_def)
  have zu: "dict_get (deps_items (dw_deployments u')) (tn, did) = Some z"
    using z(3) by (simp add: u'_def)
  show ?thesis
    unfolding round1 drain_round [OF a once2 zu] using z(2) zu
    by (simp add: deployment_get_def u'_def)
qed

subsection \<open>Routing\<close>

lemma select_route_shares:
  assumes "list_all (\<lambda>r. 0 \<le> route_weight r) rs" and "distinct rs" and "r \<in> set rs"
  shows "card {b. c \<le> b \<and> b < c + sum_list (map route_weight rs) \<and> select_route rs c b = Some r} =
    nat (route_weight r)"
  using assms
proof (induction rs arbitrary: c)
  case (Cons q rs)
  let ?total = "sum_list (map route_weight rs)"
  have total: "0 \<le> ?total" using Cons.prems(1) by (auto simp: list_all_iff intro!: sum_list_nonneg)
  have q: "0 \<le> route_weight q" using Cons.prems(1) by simp
  have ge: "select_route rs c' b = Some q' \<Longrightarrow> q' \<in> set rs" for c' b q'
    by (induction rs arbitrary: c') (auto split: if_splits)
  show ?case
  proof (cases "r = q")
    case True
    with Cons.prems(2) have "r \<notin> set rs" by simp
    then have "{b. c \<le> b \<and> b < c + sum_list (map route_weight (q # rs)) \<and>
        select_route (q # rs) c b = Some r} = {c..<c + route_weight q}"
      using True ge total by auto
    then show ?thesis using True by simp
  next
    case False
    with Cons.prems have r: "r \<in> set rs" by simp
    have "{b. c \<le> b \<and> b < c + sum_list (map route_weight (q # rs)) \<and>
        select_route (q # rs) c b = Some r} =
      {b. c + route_weight q \<le> b \<and> b < (c + route_weight q) + ?total \<and>
        select_route rs (c + route_weight q) b = Some r}"
      using False q by auto
    then show ?thesis using Cons.IH [of "c + route_weight q"] Cons.prems r by simp
  qed
qed simp

lemma select_route_total:
  "select_route rs c b = None \<Longrightarrow> c \<le> b \<Longrightarrow> c + sum_list (map route_weight rs) \<le> b"
proof (induction rs arbitrary: c)
  case (Cons r rs)
  then have "c + route_weight r \<le> b" "select_route rs (c + route_weight r) b = None"
    by (auto split: if_splits)
  with Cons.IH [of "c + route_weight r"] show ?case by simp
qed simp

text \<open>
  C40. Traffic is shared as configured: of the hundred buckets of a routing key exactly as many
  lead to a route as its weight says.
\<close>

theorem routes_share_traffic:
  assumes "environment_ok e" and "r \<in> set (env_routes e)"
  shows "card {b. 0 \<le> b \<and> b < 100 \<and> routed (env_routes e) b = r} = nat (route_weight r)"
proof -
  have ok: "list_all (\<lambda>r. 0 \<le> route_weight r) (env_routes e)" "distinct (env_routes e)"
      "sum_list (map route_weight (env_routes e)) = 100"
    using assms by (auto simp: environment_ok_def valid_routes_def list_all_iff distinct_map
        split: if_splits)
  have "routed (env_routes e) b = r \<longleftrightarrow> select_route (env_routes e) 0 b = Some r" if "0 \<le> b" "b < 100" for b
    using select_route_total [of "env_routes e" 0 b] that ok(3) assms(2)
    by (auto simp: routed_def split: option.split)
  then have "{b. 0 \<le> b \<and> b < 100 \<and> routed (env_routes e) b = r} =
      {b. 0 \<le> b \<and> b < 0 + sum_list (map route_weight (env_routes e)) \<and>
        select_route (env_routes e) 0 b = Some r}"
    using ok(3) by auto
  then show ?thesis using select_route_shares [OF ok(1,2) assms(2), of 0] by simp
qed

end
