(* ===== verification/Deployment_Samples.thy ===== *)
theory Deployment_Samples
  imports Deployment_Properties
begin

section \<open>Deployments: concrete runs\<close>

text \<open>
  The theorems at concrete inputs, and two behaviours of the code that are not what it means to
  do, evaluated by the kernel.
\<close>

definition sample_catalog :: capability_catalog_record where
  "sample_catalog = \<lparr>catalog_revision = 1, catalog_execution_profiles =
     [\<lparr>profile_id = ''isolated-default'', profile_sandbox_provider = ''daytona'',
       profile_network_access = [NetNone], profile_network_policy_id = ''n'',
       profile_allowed_mcp_references = [], profile_production_allowed = True,
       profile_version = 1, profile_enabled = True\<rparr>],
     catalog_model_routes = [(''m'', True)], catalog_mcp_servers = []\<rparr>"

definition quiet_deploy :: deploy_deps where
  "quiet_deploy = \<lparr>dd_base = quiet_deps, dd_others = (\<lambda>_ w. w), dd_deploy = (\<lambda>_ _. Inr ()),
     dd_catalog = (\<lambda>_ _. Inr sample_catalog), dd_execution_profile = None,
     dd_validate_knowledge = None,
     dd_eval_gate = (\<lambda>_ _ _ _ _. Inr \<lparr>gate_passed = True, gate_required_datasets = 0\<rparr>),
     dd_quality_gate = None, dd_previews = None, dd_quotas = False,
     dd_requirements = (\<lambda>_. Some \<lparr>requires_catalog_revision = None, requires_route = ''m'',
       requires_fallback_route = None, requires_tool_mcps = [], requires_knowledge = []\<rparr>),
     dd_policy_hash = (\<lambda>_. []), dd_profile_hash = (\<lambda>_. []), dd_routing_number = length\<rparr>"

definition sample_environment :: environment where
  "sample_environment = new_environment (''t'', ''u'', ''a'', EnvTest) default_resource_policy 0"

definition sample_target :: deployment_snapshot where
  "sample_target = \<lparr>depsnap_tenant_id = ''t'', depsnap_snapshot_id = ''s'', depsnap_agent_name = ''a'',
     depsnap_agent_version = ''1'', depsnap_environment = EnvTest, depsnap_manifest_hash = [],
     depsnap_package_hash = ''p'', depsnap_image_digest = [],
     depsnap_execution_profile = ''isolated-default'', depsnap_execution_profile_version = 1,
     depsnap_execution_profile_hash = [], depsnap_environment_policy_snapshot = None,
     depsnap_config = [], depsnap_eval_gate_passed = True, depsnap_eval_required_datasets = 0,
     depsnap_preview_id = None, depsnap_created_by = ''u'', depsnap_created_at = 0\<rparr>"

definition sample_deployment :: "deployment_status \<Rightarrow> int \<Rightarrow> deployment" where
  "sample_deployment status token = \<lparr>deploy_tenant_id = ''t'', deploy_deployment_id = ''d'',
     deploy_agent_name = ''a'', deploy_environment = EnvTest, deploy_action = Promote,
     deploy_target_snapshot_id = ''s'', deploy_previous_snapshot_id = None,
     deploy_canary_percent = 100, deploy_expected_environment_revision = 0,
     deploy_idempotency_key = ''k'', deploy_requested_by = ''u'', deploy_status = status,
     deploy_fencing_token = token, deploy_created_at = 0, deploy_updated_at = 0,
     deploy_completed_at = None, deploy_error_code = None\<rparr>"

definition sample_task :: deployment_task where
  "sample_task = \<lparr>deptask_tenant_id = ''t'', deptask_deployment_id = ''d''\<rparr>"

definition deploying_world :: "deployment_status \<Rightarrow> int \<Rightarrow> deploy_world" where
  "deploying_world status token = deploy_world_empty\<lparr>
     dw_environments := [((''t'', ''u'', ''a'', EnvTest), sample_environment)],
     dw_deployments := \<lparr>deps_snapshots = [((''t'', ''s''), sample_target)],
       deps_items = [((''t'', ''d''), sample_deployment status token)],
       deps_idempotency = [((''t'', ''u'', ''k''), ''d'')]\<rparr>,
     dw_queue := queue_enqueue (raw_task sample_task) queue_empty\<rparr>"

lemma quiet_deploy_simps [simp]:
  "dd_base quiet_deploy = quiet_deps" "dd_others quiet_deploy = (\<lambda>_ w. w)"
  "dd_deploy quiet_deploy = (\<lambda>_ _. Inr ())"
  by (simp_all add: quiet_deploy_def)

lemma quiet_deploy_alone: "deploy_alone quiet_deploy"
  by (simp add: deploy_alone_def)

lemma quiet_deploy_rely: "deploy_rely quiet_deploy"
  by (simp add: deploy_rely_def quiet_rely deploy.sys_refl)

text \<open>Another process that reconciles the same deployment at every await keeps the protocol.\<close>

definition busy_deploy :: deploy_deps where
  "busy_deploy = quiet_deploy\<lparr>dd_others := (\<lambda>n w. snd (reconcile quiet_deploy ''t'' ''d'' w))\<rparr>"

lemma busy_deploy_rely: "deploy_rely busy_deploy"
proof -
  have "deploy_sys quiet_deps w (snd (reconcile quiet_deploy ''t'' ''d'' w))"
    if "deploy_sound quiet_deps w" for w
    using keeps_reconcile [OF quiet_deploy_rely, of "{}" "''t''" "''d''"] that
    unfolding deploy.keeps_def by simp
  then show ?thesis
    by (simp add: deploy_rely_def busy_deploy_def quiet_rely)
qed

lemma deployments_invariants_witness:
  "\<exists>w. deploy_steps busy_deploy deploy_world_empty w \<and>
    (\<forall>k. case dict_get (dw_environments w) k of None \<Rightarrow> True | Some e \<Rightarrow> environment_key e = k)"
proof -
  let ?c = "CallEnvironment (''t'', ''u'', ''a'', EnvTest)"
  have "deploy_steps busy_deploy deploy_world_empty
      (snd (deploy_perform busy_deploy ?c deploy_world_empty))"
    by (rule deploy_steps.call [OF deploy_steps.none, of ?c]) (simp, rule prod.collapse [symmetric])
  with deployments_invariants [OF busy_deploy_rely this] show ?thesis
    by (fastforce split: option.splits)
qed

lemma deployments_history_witness:
  "\<exists>w u. deploy_steps busy_deploy w u \<and>
    (\<forall>k. case dict_get (dw_environments w) k of None \<Rightarrow> True
      | Some e \<Rightarrow> (\<exists>f. dict_get (dw_environments u) k = Some f \<and>
          env_revision e \<le> env_revision f \<and> (f = e \<or> env_revision e < env_revision f)))"
proof -
  let ?c = "CallEnvironment (''t'', ''u'', ''a'', EnvTest)"
  have "deploy_steps busy_deploy deploy_world_empty
      (snd (deploy_perform busy_deploy ?c deploy_world_empty))"
    by (rule deploy_steps.call [OF deploy_steps.none, of ?c]) (simp, rule prod.collapse [symmetric])
  with deployments_history [OF busy_deploy_rely deploy_steps.none this] show ?thesis by blast
qed

lemma reconcile_outcome_witness:
  "case reconcile quiet_deploy ''t'' ''d'' (deploying_world DeployReconciling 1) of
      (Inl err, t) \<Rightarrow> False
    | (Inr y, t) \<Rightarrow> deploy_status y = DeploySucceeded"
proof -
  let ?w = "deploying_world DeployReconciling 1" and ?x = "sample_deployment DeployReconciling 1"
  have "goes_ahead ?x sample_environment" by code_simp
  moreover have "deployment_key ?x = (''t'', ''d'')" "deploy_status ?x = DeployReconciling"
      "dict_get (deps_items (dw_deployments ?w)) (''t'', ''d'') = Some ?x"
      "depl_snapshot_get (dw_deployments ?w) ''t'' (deploy_target_snapshot_id ?x) = Inr sample_target"
      "dict_get (dw_environments ?w) (environment_key sample_environment) = Some sample_environment"
      "environment_key sample_environment = (''t'', deploy_requested_by ?x, deploy_agent_name ?x,
        deploy_environment ?x)"
    by (simp_all add: deploying_world_def sample_deployment_def deployment_key_def depl_snapshot_get_def
        sample_environment_def new_environment_def environment_key_def)
  ultimately show ?thesis
    using reconcile_outcome [OF quiet_deploy_alone, of ?x "''t''" "''d''" ?w sample_target
        sample_environment]
    by (simp split: prod.splits sum.splits)
qed

lemma drain_converges_witness:
  "case drain_locally quiet_deploy ''t'' ''d'' 8 (deploying_world DeployQueued 0) of
      (Inl err, t) \<Rightarrow> False
    | (Inr y, t) \<Rightarrow> deployment_is_terminal (deploy_status y) \<and> dw_queue t = queue_empty"
proof -
  let ?w = "deploying_world DeployQueued 0" and ?x = "sample_deployment DeployQueued 0"
  have "environment_repo_inv (dw_environments ?w)"
    by (auto simp: deploying_world_def environment_repo_inv_def sample_environment_def
        environment_key_def new_environment_def environment_ok_def valid_routes_def split: if_splits)
  moreover have "deployment_key ?x = (''t'', ''d'')" "deploy_status ?x = DeployQueued"
      "dict_get (deps_items (dw_deployments ?w)) (''t'', ''d'') = Some ?x"
      "depl_snapshot_get (dw_deployments ?w) ''t'' (deploy_target_snapshot_id ?x) = Inr sample_target"
      "dw_queue ?w = queue_enqueue (raw_task \<lparr>deptask_tenant_id = ''t'', deptask_deployment_id = ''d''\<rparr>)
        queue_empty"
    by (simp_all add: deploying_world_def sample_deployment_def deployment_key_def depl_snapshot_get_def
        sample_task_def)
  ultimately show ?thesis
    using drain_converges [OF quiet_deploy_alone, of ?w ?x "''t''" "''d''" sample_target 6]
    by (simp add: numeral_eq_Suc del: drain_locally.simps split: prod.splits sum.splits)
qed

lemma routes_share_traffic_witness:
  "card {b. 0 \<le> b \<and> b < 100 \<and> routed (canary_routes ''h'' sample_target 30) b =
     \<lparr>route_snapshot_id = ''s'', route_weight = 30\<rparr>} = 30"
proof -
  let ?e = "sample_environment\<lparr>env_routes := canary_routes ''h'' sample_target 30\<rparr>"
  have "environment_ok ?e"
    by (simp add: environment_ok_def valid_routes_def canary_routes_def sample_target_def)
  moreover have "\<lparr>route_snapshot_id = ''s'', route_weight = 30\<rparr> \<in> set (env_routes ?e)"
    by (simp add: canary_routes_def sample_target_def)
  ultimately show ?thesis using routes_share_traffic [of ?e] by simp
qed

subsection \<open>Not what the code means to do\<close>

definition redelivered :: deploy_deps where
  "redelivered = quiet_deploy\<lparr>dd_others := (\<lambda>n w.
     if n = 5 then snd (reconcile quiet_deploy ''t'' ''d'' w) else w)\<rparr>"

text \<open>
  The environment and the deployment are written one after the other. A task that is
  delivered again between the two writes, because its lease ran out or its worker died, finds
  the revision moved by the deployment itself and marks the deployment failed with a revision
  conflict, although the environment serves its target.
\<close>

theorem redelivery_fails_served_deployment:
  "case reconcile redelivered ''t'' ''d'' (deploying_world DeployReconciling 1) of
      (Inl err, u) \<Rightarrow> False
    | (Inr y, u) \<Rightarrow> deploy_status y = DeployFailed \<and>
        deploy_error_code y = Some ''environment_revision_conflict'' \<and>
        map env_routes (dict_values (dw_environments u)) = [full_route sample_target]"
  by code_simp

definition other_agent_request :: promote_request where
  "other_agent_request = \<lparr>promote_agent_name = ''b'', promote_agent_version = ''1'',
     promote_environment = EnvTest, promote_expected_environment_revision = 0,
     promote_canary_percent = 100, promote_image_digest = [], promote_execution_profile = [],
     promote_config = [], promote_preview_id = None, promote_idempotency_key = ''k''\<rparr>"

text \<open>
  A promotion whose idempotency key was used before is compared with the earlier one in
  action, version, environment and canary share only: with the key of a promotion of agent
  \<^verbatim>\<open>a\<close>, a promotion of agent \<^verbatim>\<open>b\<close> in the same version is answered with the deployment of
  \<^verbatim>\<open>a\<close> instead of the conflict.
\<close>

theorem promote_confuses_agents:
  "case promote quiet_deploy ''t'' ''u'' other_agent_request (deploying_world DeployQueued 0) of
      (Inl err, u) \<Rightarrow> False
    | (Inr v, u) \<Rightarrow> promote_agent_name other_agent_request = ''b'' \<and>
        deploy_agent_name (view_deployment v) = ''a''"
  by code_simp

end
