(* ===== verification/Spec2Isabelle.thy ===== *)
theory Spec2Isabelle
  imports Worker_Samples Worker_Loop Lifecycle_Samples Gate_Trust Redaction_Properties Sharing_Properties Governor_Properties Service_Races Memory_Files Memory_Queue Memory_Bindings Policy_Properties Bash_Properties Deployment_Samples
begin

text \<open>
  This library models the core of an agent platform (\<^verbatim>\<open>src/src/harness\<close>): the services that
  create, cancel and approve the runs of agents, the worker that executes them, the gate every tool
  call of an agent passes, the quotas that admit runs, and the deployments that say which version
  of an agent a session gets. The definitions are translated from the Python source, statement
  by statement, and can be evaluated; the theorems say what makes the parts correct.

  \<^bold>\<open>How the parts work together.\<close>
  A client calls \<^verbatim>\<open>RunService.create\<close>, which admits the run at the \<^verbatim>\<open>QuotaService\<close>, stores
  it, appends \<open>run.queued\<close> to its event log and puts a task on the queue. The loop of a worker
  process takes the task and calls \<^verbatim>\<open>RunOrchestrator.execute\<close>, which claims the run by a
  compare-and-set of its status and fencing token, follows the events of the runtime, and asks the
  tool gate and the \<^verbatim>\<open>ApprovalService\<close> before a tool runs. A client may cancel the run or decide an
  approval at any time, several workers may hold the same run, and none of them takes a lock: all
  that keeps them from disturbing each other is the versions of the stored objects.

  \<^bold>\<open>How coroutines are modelled.\<close>
  Theory \<open>Programs\<close>: a coroutine is a function from the state to an outcome, either an error
  (\<open>Inl\<close>) or a value (\<open>Inr\<close>), and a new state; \<open>bindP\<close>, \<open>catchP\<close> and \<open>tryP\<close> are sequencing,
  \<^verbatim>\<open>except\<close> and \<^verbatim>\<open>try\<close>. Exceptions are the constructors of \<open>herror\<close> (\<open>Core_Models\<close>), one
  per class the code raises. Every \<^verbatim>\<open>await\<close> is the handler \<open>await d h\<close> (theory \<open>World\<close>): before \<open>h\<close>
  runs, the parameter \<open>others\<close> of \<open>d\<close>, a function of the number of the await, changes the
  world in any way; what the theorems demand of it is a protocol (below), which says what others may
  do, never when. Code between two awaits is atomic, as on an event loop. The clock, generated
  identifiers, hashes, and all code that is not in the repository (sandbox, model runtime, signers,
  catalogs reached through a port) are parameters of the definitions as well; the answers of a
  port are functions of the number of the await, so that a port may answer each time differently or
  raise. Statements quantify over all these parameters.

  \<^bold>\<open>The protocol.\<close>
  \<open>sys\<close> (in \<open>World\<close>) relates two states of the platform if runs and approvals moved only along their
  state machines with a token raised by one per move, logs only grew, the books of the quotas stay
  balanced and settled reservations stay settled. \<open>Rely\<close> and \<open>Outcomes\<close> hold the rules for single
  awaits and for what a handler has established when it returns. \<open>Guarantee\<close> states the contract of
  a component with those it shares state with as the locale \<open>protocol\<close>; it is interpreted for the
  platform, for deployments, for the tool gate, for executions and, twice,
  for the jobs on user data.
  Every service is proved to keep the protocol (so that it may in turn be one of the others), and
  \<open>Platform\<close> and \<open>Worker_System\<close> put calls and executions together to the histories
  \<open>system_steps\<close> over which the properties of the whole platform are stated.

  \<^bold>\<open>The theories.\<close>
  \<^item> \<open>Prelude\<close>, \<open>Python_Values\<close>, \<open>Python_Text\<close>, \<open>Programs\<close>: insertion-ordered dictionaries, the values
    of \<^verbatim>\<open>dict[str, Any]\<close>, the parts of \<^verbatim>\<open>str\<close>, \<^verbatim>\<open>re\<close>, \<^verbatim>\<open>fnmatch\<close> and \<^verbatim>\<open>pathlib\<close> the code uses,
    coroutines.
  \<^item> \<open>Core_Models\<close>, \<open>Run_State_Machine\<close>: \<^verbatim>\<open>core/models.py\<close>, \<^verbatim>\<open>core/errors.py\<close>,
    \<^verbatim>\<open>core/state_machine.py\<close>. A transition succeeds exactly along the table, and no way leads out of
    a terminal status.
  \<^item> \<open>Store_Contracts\<close> (locales \<open>keyed_store\<close> and \<open>versioned_store\<close>), \<open>Memory_Catalog\<close>, \<open>Memory_Files\<close>,
    \<open>Memory_Runs\<close>, \<open>Memory_Approvals\<close>, \<open>Memory_Queue\<close>, \<open>Memory_Events\<close>, \<open>Memory_Bindings\<close>:
    \<^verbatim>\<open>adapters/memory.py\<close> and the ports of \<^verbatim>\<open>core/ports.py\<close>. Each adapter is one state record and one
    function per method; its invariant and the laws of the contract it fulfils are proved there.
  \<^item> \<open>Quota_Models\<close>, \<open>Quota_Repository\<close>, \<open>Quota_Balance\<close>, \<open>Quota_Service\<close>, \<open>Quota_Admission\<close>,
    \<open>Quota_Atomic\<close>: \<^verbatim>\<open>quota/\<close>. Reservations balance with counters, limits hold, an admission takes
    everything or nothing.
  \<^item> \<open>World\<close>, \<open>Rely\<close>, \<open>Guarantee\<close>, \<open>Event_Service\<close>, \<open>Run_Service\<close>, \<open>Run_Properties\<close>,
    \<open>Approval_Service\<close>, \<open>Outcomes\<close>, \<open>Approval_Properties\<close>, \<open>Approval_Effects\<close>, \<open>Platform\<close>,
    \<open>Service_Races\<close>: \<^verbatim>\<open>application/events.py\<close>, \<^verbatim>\<open>runs.py\<close>, \<^verbatim>\<open>approvals.py\<close>. Safety under any
    interference; the exact effect of each operation when nothing interferes (\<open>alone\<close>); races the code
    does not exclude, as evaluated runs.
  \<^item> \<open>Orchestrator\<close>, \<open>Worker\<close>, \<open>Worker_Guarantees\<close>, \<open>Worker_System\<close>, \<open>Worker_Outcomes\<close>,
    \<open>Worker_Properties\<close>, \<open>Worker_Children\<close>, \<open>Worker_Samples\<close>: \<^verbatim>\<open>worker/orchestrator.py\<close>, one
    execution from the claim to the cleanup with every way it can fail. \<open>Worker_Loop\<close>: the loop of
    \<^verbatim>\<open>worker/main.py\<close> as a step relation over the queue and the children of the process.
  \<^item> \<open>Policy_Rules\<close>, \<open>Policy_Properties\<close>, \<open>Bash_Safety\<close>, \<open>Bash_Properties\<close>: \<^verbatim>\<open>policy/\<close>. The
    engine against the specification by ranks; the classifier of shell commands against a description
    of the commands it means to accept, and commands that get through although it does not.
  \<^item> \<open>Tool_Gate\<close>, \<open>Gate_Outcomes\<close>, \<open>Gate_Guarantees\<close>, \<open>Gate_Properties\<close>, \<open>Gate_Trust\<close>:
    \<^verbatim>\<open>runtime/sdk_tool_gate.py\<close>, each hook and sequences of hooks.
  \<^item> \<open>Redaction\<close>, \<open>Redaction_Properties\<close>: \<^verbatim>\<open>runtime/audit_redaction.py\<close>, \<^verbatim>\<open>input_redaction.py\<close>.
  \<^item> \<open>Subagent_Governor\<close>, \<open>Governor_Properties\<close>: \<^verbatim>\<open>runtime/subagent_governance.py\<close>.
  \<^item> \<open>Deployment_Models\<close>, \<open>Deployment_Store\<close>, \<open>Deployment_Controller\<close>, \<open>Deployment_Guarantees\<close>,
    \<open>Deployment_Service\<close>, \<open>Deployment_Platform\<close>, \<open>Deployment_Properties\<close>, \<open>Deployment_Samples\<close>:
    \<^verbatim>\<open>deployments/\<close>, with a protocol of its own.
  \<^item> \<open>Lifecycle_Models\<close>, \<open>Lifecycle_Service\<close>, \<open>Lifecycle_Controller\<close>, \<open>Lifecycle_Protocol\<close>,
    \<open>Lifecycle_Guarantees\<close>, \<open>Lifecycle_Execution\<close>, \<open>Lifecycle_Platform\<close>, \<open>Lifecycle_Properties\<close>,
    \<open>Lifecycle_Samples\<close>: \<^verbatim>\<open>lifecycle/\<close>, the export and deletion of user data by one adapter per
    external store. The calls to the stores are part of the state, so that their order is a property
    of it.
  \<^item> \<open>Team_Spaces\<close>, \<open>Sharing_Service\<close>, \<open>Sharing_Properties\<close>: \<^verbatim>\<open>sharing/\<close>; the calls refine an access
    matrix.

  \<^bold>\<open>Bounds, fuel and approximations.\<close>
  Python integers are \<open>int\<close>; no machine integers occur. A loop over a list is a recursion over it.
  The loops that retry are bounded in the code (appending an event, the compare-and-set of a
  cancellation) or end only with luck (publishing a sequence number while others append); the latter
  take the fuel \<open>d_rounds\<close>, and \<open>event_append_placed\<close> says how much is enough for a given number of
  rivals. An execution waits for its runtime at most \<open>wk_polls\<close> times and the runtime has at most
  \<open>wk_backlog\<close> events in its queue at its end; when the fuel is spent the outcome is the error
  \<open>NotReturned\<close>, which the theorems treat like a task that the event loop cancels: nothing is
  claimed of the value, and the protocol is kept all the same. Clock readings that are
  only handed to metrics are left out. Times are integers; the clock of the governor is rational.
  A string is a list of bytes, the character for an ellipsis is a parameter. What is proved of
  calls that wait for a decision assumes that the waiters of a process belong to one tenant, since
  the code keys their table by the identifier of the approval alone.

  \<^bold>\<open>Not modelled.\<close>
  Adapters to remote systems (sandboxes, the SDK runtime, databases, object stores, Redis): each is
  reached through a port whose in-memory implementation is modelled or whose answers are
  parameters. HTTP routes, the AG-UI presentation, the studio, command line and composition:
  translation of requests and wiring. Parsing of YAML and pydantic validation beyond the field
  constraints of the modelled classes. Authentication and workload credentials rest on cryptographic
  libraries. Spans, metrics and log records are output only. Within modelled files: optional
  audit records of services, the traced variant of \<^verbatim>\<open>execute\<close>, the reading of a workspace, the Redis
  constructors of queues, and of \<^verbatim>\<open>worker/main.py\<close> the metrics server, the maintenance loops and the
  handling of signals. Triggers, evaluations, the knowledge base, the memory bank, governance,
  quality and reliability are parts of their own that only call the modelled services.
\<close>

section \<open>What holds of the platform as a whole\<close>

text \<open>
  C1. Whatever calls the services receive and whatever runs the workers execute, in any order and
  interrupted at every await by anything that keeps the protocol (other calls and other workers
  included): every stored run is stored under its own key and its fencing token is the number of
  accepted transitions and takeovers that lead from queued to its status; the log of every run is
  numbered 1, 2, 3 without a gap; and every quota counter's reserved amount is the sum of the
  active reservations that hold it.
\<close>

theorem platform_invariants:
  assumes "services rd (wk_services wd)" and "system_steps rd wd world_empty w"
  shows "(\<forall>k. case dict_get (runs_items (w_runs w)) k of
      None \<Rightarrow> True
    | Some r \<Rightarrow> run_key r = k \<and>
        (\<exists>n. (RunQueued, run_status r) \<in> run_move ^^ n \<and> run_fencing_token r = int n)) \<and>
    (\<forall>k. map event_sequence (event_stream (w_events w) k) =
      map int [1..<Suc (length (event_stream (w_events w) k))]) \<and>
    (\<forall>k. reserved_of (quota_counters (w_quota w)) k = held window_key (w_quota w) k)"
proof -
  have w: "world_sound rd w"
    using system_steps_sys [OF assms(2,1) world_sound_empty] by blast
  have "run_key r = k \<and> run_born r" if "dict_get (runs_items (w_runs w)) k = Some r" for k r
    using w that run_repo_inv_key [of "w_runs w" k r] unfolding world_sound_def by blast
  moreover have "numbered (event_stream (w_events w) k)" for k
    using w unfolding world_sound_def event_repo_inv_def by blast
  moreover have "reserved_of (quota_counters (w_quota w)) k = held window_key (w_quota w) k" for k
    using w unfolding world_sound_def quota_inv_def by blast
  ultimately show ?thesis
    unfolding numbered_def run_born_def by (simp split: option.split)
qed

text \<open>A call and an execution, each interrupted at every await by the reaper of approvals.\<close>

abbreviation busy_worker :: worker_deps where
  "busy_worker \<equiv> plain_worker (busy_approval_deps (ReapApprovals 5)) answering"

lemma busy_steps:
  "\<exists>w. system_steps (busy_run_deps (ReapApprovals 5)) busy_worker world_empty w"
proof -
  let ?rd = "busy_run_deps (ReapApprovals 5)"
  let ?c = "AdmitRun ''t'' ''r'' plain_caller None (Some 5) 60"
  let ?u = "snd (perform ?rd (wk_services busy_worker) ?c world_empty)"
  have "system_steps ?rd busy_worker world_empty ?u"
    by (rule system_steps.call [OF system_steps.none]) (rule prod.collapse [symmetric])
  then have "system_steps ?rd busy_worker world_empty (snd (execute busy_worker ''t'' ''r'' ?u))"
    by (rule system_steps.run) (rule prod.collapse [symmetric])
  then show ?thesis by blast
qed

lemma busy_system: "services (busy_run_deps (ReapApprovals 5)) (wk_services busy_worker)"
  by (simp add: busy_services)

lemma platform_invariants_witness:
  "\<exists>w. system_steps (busy_run_deps (ReapApprovals 5)) busy_worker world_empty w \<and>
    (\<forall>k. reserved_of (quota_counters (w_quota w)) k = held window_key (w_quota w) k)"
proof -
  obtain w where "system_steps (busy_run_deps (ReapApprovals 5)) busy_worker world_empty w"
    using busy_steps by blast
  with platform_invariants [OF busy_system this] show ?thesis by blast
qed

text \<open>
  C2. What is recorded stays recorded, whatever the services and the workers do meanwhile: between
  two states of the platform a run keeps its identity and moves along accepted transitions and
  takeovers only, counted by its token, so that a terminal run never changes again; an approval that is no longer pending
  never changes again; the log of a run is only extended; and a reservation that is no longer
  active never changes again.
\<close>

theorem platform_history:
  assumes "services rd (wk_services wd)" and "system_steps rd wd world_empty w"
    and "system_steps rd wd w u"
  shows "(\<forall>k. case dict_get (runs_items (w_runs w)) k of
      None \<Rightarrow> True
    | Some r \<Rightarrow> (\<exists>r'. dict_get (runs_items (w_runs u)) k = Some r' \<and> run_later r r' \<and>
        (r' = r \<or> \<not> is_terminal (run_status r)))) \<and>
    (\<forall>k. case dict_get (approvals_items (w_approvals w)) k of
      None \<Rightarrow> True
    | Some a \<Rightarrow> (\<exists>a'. dict_get (approvals_items (w_approvals u)) k = Some a' \<and>
        (a' = a \<or> approval_status a = ApprovalPending))) \<and>
    (\<forall>k. \<exists>es. event_stream (w_events u) k = event_stream (w_events w) k @ es) \<and>
    (\<forall>k. case dict_get (quota_reservations (w_quota w)) k of
      None \<Rightarrow> True
    | Some q \<Rightarrow> (\<exists>q'. dict_get (quota_reservations (w_quota u)) k = Some q' \<and>
        (q' = q \<or> resv_state q = ReservationActive)))"
proof -
  have w: "world_sound rd w"
    using system_steps_sys [OF assms(2,1) world_sound_empty] by blast
  then have wu: "sys rd w u" using system_steps_sys [OF assms(3,1)] by blast
  have "\<exists>r'. dict_get (runs_items (w_runs u)) k = Some r' \<and> run_later r r' \<and>
      (r' = r \<or> \<not> is_terminal (run_status r))"
    if "dict_get (runs_items (w_runs w)) k = Some r" for k r
    using run_history_old [OF sys_ownD(1) [OF wu] that] run_later_terminal by blast
  moreover have "\<exists>a'. dict_get (approvals_items (w_approvals u)) k = Some a' \<and>
      (a' = a \<or> approval_status a = ApprovalPending)"
    if "dict_get (approvals_items (w_approvals w)) k = Some a" for k a
    using approval_historyD [OF sys_ownD(2) [OF wu] that] by (auto simp: approval_later_def)
  moreover have "\<exists>es. event_stream (w_events u) k = event_stream (w_events w) k @ es" for k
    using stores_growD(1) [OF sys_ownD(6) [OF wu w]] unfolding event_history_def by blast
  moreover have "\<exists>q'. dict_get (quota_reservations (w_quota u)) k = Some q' \<and>
      (q' = q \<or> resv_state q = ReservationActive)"
    if "dict_get (quota_reservations (w_quota w)) k = Some q" for k q
    using quota_historyD [OF sys_ownD(3) [OF wu] that] by (auto simp: resv_later_def)
  ultimately show ?thesis by (simp split: option.split)
qed

lemma platform_history_witness:
  "\<exists>w u. system_steps (busy_run_deps (ReapApprovals 5)) busy_worker w u \<and>
    (\<forall>k. \<exists>es. event_stream (w_events u) k = event_stream (w_events w) k @ es)"
proof -
  obtain u where "system_steps (busy_run_deps (ReapApprovals 5)) busy_worker world_empty u"
    using busy_steps by blast
  with platform_history [OF busy_system system_steps.none this] show ?thesis by blast
qed

end
